(* ===== verification/Prelude.thy ===== *)
theory Prelude
  imports Complex_Main
begin

text \<open>
  Shared vocabulary of the development.

  \<^item> Names for the kinds of values the backend stores: identifiers (\<open>uuid\<close>),
    points in time (\<open>datetime\<close>, microseconds since the epoch, the resolution of
    Python's \<open>datetime\<close>) and \<open>decimal\<close>, Python's \<open>Decimal\<close> as an exact rational.
  \<^item> The result monad: a service method either raises (\<open>Inl\<close> the exception) or
    returns (\<open>Inr\<close>). A request that raises never reaches \<open>session.commit()\<close>,
    so its state changes are dropped with the session: the \<open>Inl\<close> branch carries no
    state.
  \<^item> Database tables as lists of rows in insertion order, with the two statements the
    repositories are built from: look a row up by a key, and update the rows with a
    key.
\<close>

type_synonym uuid = nat
type_synonym datetime = int
type_synonym decimal = rat

text \<open>Notes stored with a status change or a wallet transaction: the fixed Persian texts of the
  program, or a text a user sent.\<close>

datatype note_text =
    DepositNote        \<comment> \<open>\<open>WalletService.deposit\<close>\<close>
  | RefundNote         \<comment> \<open>\<open>WalletService.refund_order\<close>\<close>
  | PaidNote           \<comment> \<open>\<open>OrderService.mark_paid\<close>\<close>
  | PaymentFailedNote  \<comment> \<open>\<open>OrderService.mark_payment_failed\<close>\<close>
  | CancelledNote      \<comment> \<open>\<open>OrderService.cancel\<close>\<close>
  | UserNote string

definition seconds :: "int \<Rightarrow> int" where
  "seconds n = n * 1000000"

definition hours :: "int \<Rightarrow> int" where
  "hours n = seconds (n * 3600)"

definition days :: "int \<Rightarrow> int" where
  "days n = hours (n * 24)"

named_theorems tables \<open>lookups and updates of table rows\<close>
named_theorems services \<open>definitions of service methods, unfolded together\<close>

section \<open>The result monad\<close>

definition bindE :: "'e + 'a \<Rightarrow> ('a \<Rightarrow> 'e + 'b) \<Rightarrow> 'e + 'b" where
  "bindE m f = (case m of Inl e \<Rightarrow> Inl e | Inr x \<Rightarrow> f x)"

lemma bindE_simps [simp]:
  "bindE (Inl e) f = Inl e"
  "bindE (Inr x) f = f x"
  by (simp_all add: bindE_def)

lemma bindE_eq_Inr: "bindE m f = Inr y \<longleftrightarrow> (\<exists>x. m = Inr x \<and> f x = Inr y)"
  by (cases m) simp_all

lemma bindE_eq_Inl: "bindE m f = Inl e \<longleftrightarrow> m = Inl e \<or> (\<exists>x. m = Inr x \<and> f x = Inl e)"
  by (cases m) simp_all

lemma bindE_assoc: "bindE (bindE m f) g = bindE m (\<lambda>x. bindE (f x) g)"
  by (cases m) simp_all

lemma bindE_cong [fundef_cong]:
  "m = m' \<Longrightarrow> (\<And>x. m' = Inr x \<Longrightarrow> f x = f' x) \<Longrightarrow> bindE m f = bindE m' f'"
  by (cases m') simp_all

text \<open>\<open>is not None\<close> with an exception for the other case.\<close>

definition the_or :: "'e \<Rightarrow> 'a option \<Rightarrow> 'e + 'a" where
  "the_or e x = (case x of None \<Rightarrow> Inl e | Some v \<Rightarrow> Inr v)"

lemma the_or_simps [simp]:
  "the_or e None = Inl e"
  "the_or e (Some v) = Inr v"
  by (simp_all add: the_or_def)

lemma the_or_eq_Inr [simp]: "the_or e x = Inr v \<longleftrightarrow> x = Some v"
  by (cases x) simp_all

lemma the_or_eq_Inl [simp]: "the_or e x = Inl e' \<longleftrightarrow> x = None \<and> e' = e"
  by (cases x) auto

text \<open>A loop whose body may raise: the first exception ends it.\<close>

fun foldE :: "('x \<Rightarrow> 's \<Rightarrow> 'e + 's) \<Rightarrow> 'x list \<Rightarrow> 's \<Rightarrow> 'e + 's" where
  "foldE f [] s = Inr s"
| "foldE f (x # xs) s = bindE (f x s) (foldE f xs)"

lemma foldE_append: "foldE f (xs @ ys) s = bindE (foldE f xs s) (foldE f ys)"
proof (induction xs arbitrary: s)
  case (Cons x xs)
  then have "foldE f (xs @ ys) = (\<lambda>s. bindE (foldE f xs s) (foldE f ys))"
    by (rule ext)
  then show ?case by (simp add: bindE_assoc)
qed simp

lemma foldE_invariant:
  assumes "foldE f xs s = Inr s'" and "I s"
    and "\<And>x s s'. x \<in> set xs \<Longrightarrow> I s \<Longrightarrow> f x s = Inr s' \<Longrightarrow> I s'"
  shows "I s'"
  using assms
proof (induction xs arbitrary: s)
  case Nil
  then show ?case by simp
next
  case (Cons x xs)
  from Cons.prems(1) obtain t where t: "f x s = Inr t" "foldE f xs t = Inr s'"
    by (auto simp: bindE_eq_Inr)
  from Cons.prems(3) [of x s t] Cons.prems(2) t(1) have "I t" by simp
  from t(2) this Cons.prems(3) show ?case by (rule Cons.IH) simp_all
qed

text \<open>A comprehension whose element expression may raise.\<close>

fun mapE :: "('x \<Rightarrow> 'e + 'y) \<Rightarrow> 'x list \<Rightarrow> 'e + 'y list" where
  "mapE f [] = Inr []"
| "mapE f (x # xs) = bindE (f x) (\<lambda>y. bindE (mapE f xs) (\<lambda>ys. Inr (y # ys)))"

lemma mapE_eq_Inr: "mapE f xs = Inr ys \<longleftrightarrow> map f xs = map Inr ys"
  by (induction xs arbitrary: ys) (auto simp: bindE_eq_Inr Cons_eq_map_conv)

lemma mapE_cong [fundef_cong]:
  "xs = ys \<Longrightarrow> (\<And>x. x \<in> set ys \<Longrightarrow> f x = g x) \<Longrightarrow> mapE f xs = mapE g ys"
  by (induction ys arbitrary: xs) auto

text \<open>One request: if the handler raises, the session is closed without a commit and the stored
  state is what it was; otherwise the committed state stays.\<close>

definition request :: "'s \<Rightarrow> 'e + ('r \<times> 's) \<Rightarrow> ('e + 'r) \<times> 's" where
  "request s m = (case m of Inl e \<Rightarrow> (Inl e, s) | Inr (r, s') \<Rightarrow> (Inr r, s'))"

lemma request_simps [simp]:
  "request s (Inl e) = (Inl e, s)"
  "request s (Inr (r, s')) = (Inr r, s')"
  by (simp_all add: request_def)

lemma request_invariant:
  assumes "I s" "\<And>r s'. m = Inr (r, s') \<Longrightarrow> I s'"
  shows "I (snd (request s m))"
  using assms by (cases m) auto

text \<open>Two loops in lockstep.\<close>

lemma foldE_lockstep:
  assumes "\<And>x s t. R s = R' t \<Longrightarrow> map_sum id R (f x s) = map_sum id R' (g x t)" and "R s = R' t"
  shows "map_sum id R (foldE f xs s) = map_sum id R' (foldE g xs t)"
  using assms(2)
proof (induction xs arbitrary: s t)
  case (Cons x xs)
  note step = assms(1) [OF Cons.prems, of x]
  show ?case
  proof (cases "f x s")
    case (Inl e)
    with step obtain e' where "g x t = Inl e'" "e' = e" by (cases "g x t") auto
    with Inl show ?thesis by simp
  next
    case (Inr u)
    with step obtain v where v: "g x t = Inr v" "R u = R' v" by (cases "g x t") auto
    with Inr Cons.IH [OF v(2)] show ?thesis by simp
  qed
qed simp

section \<open>Tables\<close>

definition find_by :: "('r \<Rightarrow> 'k) \<Rightarrow> 'k \<Rightarrow> 'r list \<Rightarrow> 'r option" where
  "find_by key k t = find (\<lambda>r. key r = k) t"

definition update_by :: "('r \<Rightarrow> 'k) \<Rightarrow> 'k \<Rightarrow> ('r \<Rightarrow> 'r) \<Rightarrow> 'r list \<Rightarrow> 'r list" where
  "update_by key k f t = map (\<lambda>r. if key r = k then f r else r) t"

definition unique_by :: "('r \<Rightarrow> 'k) \<Rightarrow> 'r list \<Rightarrow> bool" where
  "unique_by key t \<longleftrightarrow> distinct (map key t)"

lemma find_by_Nil [simp]: "find_by key k [] = None"
  by (simp add: find_by_def)

lemma find_by_Cons [simp]:
  "find_by key k (r # t) = (if key r = k then Some r else find_by key k t)"
  by (simp add: find_by_def)

lemma find_by_append [tables]:
  "find_by key k (t @ u) = (case find_by key k t of None \<Rightarrow> find_by key k u | Some r \<Rightarrow> Some r)"
  by (induction t) simp_all

lemma find_by_SomeD: "find_by key k t = Some r \<Longrightarrow> r \<in> set t \<and> key r = k"
  by (induction t) (auto split: if_splits)

lemma find_by_key: "find_by key k t = Some r \<Longrightarrow> key r = k"
  by (blast dest: find_by_SomeD)

lemma find_by_mem: "find_by key k t = Some r \<Longrightarrow> r \<in> set t"
  by (blast dest: find_by_SomeD)

lemma find_by_None: "find_by key k t = None \<longleftrightarrow> k \<notin> key ` set t"
  by (induction t) auto

lemma find_by_unique: "unique_by key t \<Longrightarrow> r \<in> set t \<Longrightarrow> find_by key (key r) t = Some r"
proof (induction t)
  case (Cons a t)
  then show ?case by (cases "r = a") (force simp: unique_by_def)+
qed simp

lemma update_by_Nil [simp]: "update_by key k f [] = []"
  by (simp add: update_by_def)

lemma update_by_Cons [simp]:
  "update_by key k f (r # t) = (if key r = k then f r else r) # update_by key k f t"
  by (simp add: update_by_def)

lemma update_by_append [tables]:
  "update_by key k f (t @ u) = update_by key k f t @ update_by key k f u"
  by (simp add: update_by_def)

lemma update_by_absent: "find_by key k t = None \<Longrightarrow> update_by key k f t = t"
  by (induction t) (auto split: if_splits)

lemma length_update_by [simp]: "length (update_by key k f t) = length t"
  by (simp add: update_by_def)

lemma find_by_update_by [tables]:
  assumes "\<And>r. key r = k' \<Longrightarrow> key (f r) = k'"
  shows "find_by key k (update_by key k' f t) =
           (if k = k' then map_option f (find_by key k t) else find_by key k t)"
  using assms
proof (induction t)
  case (Cons a t)
  then show ?case by (cases "k = k'"; cases "key a = k'") simp_all
qed simp

lemma map_update_by_same [tables]:
  assumes "\<And>r. key r = k \<Longrightarrow> g (f r) = g r"
  shows "map g (update_by key k f t) = map g t"
  using assms by (induction t) simp_all

lemma keys_update_by [tables]:
  assumes "\<And>r. key r = k \<Longrightarrow> key (f r) = k"
  shows "map key (update_by key k f t) = map key t"
  by (rule map_update_by_same) (simp add: assms)

lemma unique_update_by [tables]:
  assumes "\<And>r. key r = k \<Longrightarrow> key (f r) = k"
  shows "unique_by key (update_by key k f t) = unique_by key t"
proof -
  have "map key (update_by key k f t) = map key t"
    by (rule keys_update_by) (rule assms)
  then show ?thesis by (simp add: unique_by_def)
qed

lemma set_update_by:
  "set (update_by key k f t) = {r \<in> set t. key r \<noteq> k} \<union> f ` {r \<in> set t. key r = k}"
  by (auto simp: update_by_def)

lemma unique_by_append_one [tables]:
  "unique_by key (t @ [r]) \<longleftrightarrow> unique_by key t \<and> find_by key (key r) t = None"
  by (auto simp: unique_by_def find_by_None)

lemma unique_by_Nil [simp]: "unique_by key []"
  by (simp add: unique_by_def)

lemma unique_by_filter: "unique_by key t \<Longrightarrow> unique_by key (filter P t)"
  by (simp add: unique_by_def distinct_map_filter)

end
