(* ===== verification/Errors.thy ===== *)
theory Errors
  imports Prelude
begin

text \<open>
  The exceptions a request can end with (\<open>app/common/errors.py\<close> and the error
  classes declared beside their users) and the exception handlers that turn them into
  HTTP responses. The Persian display messages are not modelled: an exception is its
  class, and the class carries the machine-readable code and the status.
\<close>

datatype exn =
    AppError
  | NotFoundError
  | PermissionDeniedError
  | ConflictError
  | UnauthorizedError
  | IdempotencyKeyRequiredError
  | IdempotencyKeyReusedError
  | UnsupportedFileError
  | FileTooLargeError
  | RequestValidationError
  | HTTPException nat
  | DBAPIError            \<comment> \<open>a constraint or a column range refused by the database\<close>
  | MultipleResultsFound  \<comment> \<open>\<open>scalar_one_or_none()\<close> over more than one row\<close>
  | ValidationError       \<comment> \<open>a response that does not fit its Pydantic model\<close>
  | AssertionError
  | TypeError
  | RecursionError
  | KeyError
  | ZarinPalNotConfigured
  | ZarinPalError

text \<open>Class attributes \<open>code\<close> and \<open>status_code\<close>; only \<open>AppError\<close> and its subclasses have
  a code of their own.\<close>

fun is_app_error :: "exn \<Rightarrow> bool" where
  "is_app_error AppError = True"
| "is_app_error NotFoundError = True"
| "is_app_error PermissionDeniedError = True"
| "is_app_error ConflictError = True"
| "is_app_error UnauthorizedError = True"
| "is_app_error IdempotencyKeyRequiredError = True"
| "is_app_error IdempotencyKeyReusedError = True"
| "is_app_error UnsupportedFileError = True"
| "is_app_error FileTooLargeError = True"
| "is_app_error _ = False"

fun error_code :: "exn \<Rightarrow> string" where
  "error_code AppError = ''APP_ERROR''"
| "error_code NotFoundError = ''NOT_FOUND''"
| "error_code PermissionDeniedError = ''PERMISSION_DENIED''"
| "error_code ConflictError = ''CONFLICT''"
| "error_code UnauthorizedError = ''UNAUTHORIZED''"
| "error_code IdempotencyKeyRequiredError = ''IDEMPOTENCY_KEY_REQUIRED''"
| "error_code IdempotencyKeyReusedError = ''IDEMPOTENCY_KEY_REUSED''"
| "error_code UnsupportedFileError = ''UNSUPPORTED_FILE_TYPE''"
| "error_code FileTooLargeError = ''FILE_TOO_LARGE''"
| "error_code RequestValidationError = ''VALIDATION_ERROR''"
| "error_code (HTTPException n) = ''HTTP_ERROR''"
| "error_code _ = ''INTERNAL_ERROR''"

fun status_code :: "exn \<Rightarrow> nat" where
  "status_code AppError = 400"
| "status_code NotFoundError = 404"
| "status_code PermissionDeniedError = 403"
| "status_code ConflictError = 409"
| "status_code UnauthorizedError = 401"
| "status_code IdempotencyKeyRequiredError = 400"
| "status_code IdempotencyKeyReusedError = 422"
| "status_code UnsupportedFileError = 400"
| "status_code FileTooLargeError = 400"
| "status_code RequestValidationError = 422"
| "status_code (HTTPException n) = n"
| "status_code _ = 500"

text \<open>\<open>_envelope\<close>: the request id is the header's if the request has a non-empty one, else the
  one the context middleware stored.\<close>

record envelope =
  env_code :: string
  env_request_id :: "string option"

definition envelope_of :: "string \<Rightarrow> string option \<Rightarrow> string option \<Rightarrow> envelope" where
  "envelope_of code header state_id =
     \<lparr> env_code = code,
       env_request_id = (case header of Some (c # cs) \<Rightarrow> Some (c # cs) | _ \<Rightarrow> state_id) \<rparr>"

text \<open>The exception handlers: every exception becomes a status and an envelope.\<close>

definition handle_exception :: "exn \<Rightarrow> string option \<Rightarrow> string option \<Rightarrow> nat \<times> envelope" where
  "handle_exception e header state_id = (status_code e, envelope_of (error_code e) header state_id)"

lemma app_error_not_internal: "is_app_error e \<Longrightarrow> status_code e < 500"
  by (cases e) simp_all

lemma app_error_code: "is_app_error e \<Longrightarrow> error_code e \<noteq> ''INTERNAL_ERROR''"
  by (cases e) simp_all

end
