(* ===== verification/Stock_Interface.thy ===== *)
theory Stock_Interface
  imports Errors
begin

text \<open>
  The contract between the order service and the stock keeper: what
  \<open>OrderService\<close> relies on when its loops call \<open>reserve\<close>, \<open>release\<close> and
  \<open>commit_purchase\<close> once per order line. The observation \<open>stock s p\<close> is the pair
  (total, reserved) of a product, \<open>None\<close> without an inventory row. The lemmas say what a
  whole loop does to every product in terms of the demand of the lines; they are proved
  once here, and \<open>Inventory\<close> interprets the locale on the service's definitions.
\<close>

type_synonym order_line = "uuid \<times> int"

text \<open>How much of a product the lines ask for.\<close>

definition demand :: "uuid \<Rightarrow> order_line list \<Rightarrow> int" where
  "demand p ls = sum_list (map snd (filter (\<lambda>l. fst l = p) ls))"

lemma demand_Nil [simp]: "demand p [] = 0"
  by (simp add: demand_def)

lemma demand_Cons [simp]: "demand p ((p', q) # ls) = (if p' = p then q else 0) + demand p ls"
  by (simp add: demand_def)

lemma demand_append: "demand p (ls @ ms) = demand p ls + demand p ms"
  by (simp add: demand_def)

lemma demand_nonneg: "\<forall>l \<in> set ls. 0 \<le> snd l \<Longrightarrow> 0 \<le> demand p ls"
  by (auto simp: demand_def intro!: sum_list_nonneg)

lemma demand_other: "p \<notin> fst ` set ls \<Longrightarrow> demand p ls = 0"
  by (induction ls) auto

lemma clamp_clamp: "0 \<le> (b::int) \<Longrightarrow> max 0 (max 0 (r - a) - b) = max 0 (r - (a + b))"
  by (simp add: max_def)

locale stock_service =
  fixes stock :: "'s \<Rightarrow> uuid \<Rightarrow> (int \<times> int) option"
    and invar :: "'s \<Rightarrow> bool"
    and reserve1 release1 purchase1 :: "uuid \<Rightarrow> int \<Rightarrow> 's \<Rightarrow> exn + 's"
  assumes stock_bounds: "invar s \<Longrightarrow> stock s p = Some (t, r) \<Longrightarrow> 0 \<le> r \<and> r \<le> t"
    and reserve_missing: "stock s p = None \<Longrightarrow> reserve1 p q s = Inl NotFoundError"
    and reserve_refused: "stock s p = Some (t, r) \<Longrightarrow> t - r < q \<Longrightarrow> reserve1 p q s = Inl ConflictError"
    and reserve_granted: "stock s p = Some (t, r) \<Longrightarrow> q \<le> t - r \<Longrightarrow>
          \<exists>s'. reserve1 p q s = Inr s' \<and> stock s' = (stock s)(p \<mapsto> (t, r + q))"
    and release_missing: "stock s p = None \<Longrightarrow> release1 p q s = Inl NotFoundError"
    and release_done: "stock s p = Some (t, r) \<Longrightarrow>
          \<exists>s'. release1 p q s = Inr s' \<and> stock s' = (stock s)(p \<mapsto> (t, max 0 (r - q)))"
    and purchase_missing: "stock s p = None \<Longrightarrow> purchase1 p q s = Inl NotFoundError"
    and purchase_done: "stock s p = Some (t, r) \<Longrightarrow>
          \<exists>s'. purchase1 p q s = Inr s' \<and> stock s' = (stock s)(p \<mapsto> (max 0 (t - q), max 0 (r - q)))"
    and reserve_invar: "invar s \<Longrightarrow> 0 \<le> q \<Longrightarrow> reserve1 p q s = Inr s' \<Longrightarrow> invar s'"
    and release_invar: "invar s \<Longrightarrow> 0 \<le> q \<Longrightarrow> release1 p q s = Inr s' \<Longrightarrow> invar s'"
    and purchase_invar: "invar s \<Longrightarrow> purchase1 p q s = Inr s' \<Longrightarrow> invar s'"
begin

definition reserve_all :: "order_line list \<Rightarrow> 's \<Rightarrow> exn + 's" where
  "reserve_all ls = foldE (\<lambda>l. reserve1 (fst l) (snd l)) ls"

definition release_all :: "order_line list \<Rightarrow> 's \<Rightarrow> exn + 's" where
  "release_all ls = foldE (\<lambda>l. release1 (fst l) (snd l)) ls"

definition purchase_all :: "order_line list \<Rightarrow> 's \<Rightarrow> exn + 's" where
  "purchase_all ls = foldE (\<lambda>l. purchase1 (fst l) (snd l)) ls"

lemma reserve_one:
  assumes "reserve1 p q s = Inr s'"
  obtains t r where "stock s p = Some (t, r)" "q \<le> t - r" "stock s' = (stock s)(p \<mapsto> (t, r + q))"
proof (cases "stock s p")
  case None
  with assms show thesis by (simp add: reserve_missing)
next
  case (Some tr)
  then obtain t r where tr: "stock s p = Some (t, r)" by (cases tr) simp
  show thesis
  proof (cases "t - r < q")
    case True
    with assms reserve_refused [OF tr] show thesis by simp
  next
    case False
    then have "q \<le> t - r" by simp
    with reserve_granted [OF tr this] assms tr that show thesis by auto
  qed
qed

lemma release_one:
  assumes "release1 p q s = Inr s'"
  obtains t r where "stock s p = Some (t, r)" "stock s' = (stock s)(p \<mapsto> (t, max 0 (r - q)))"
proof (cases "stock s p")
  case None
  with assms show thesis by (simp add: release_missing)
next
  case (Some tr)
  then obtain t r where tr: "stock s p = Some (t, r)" by (cases tr) simp
  with release_done [OF tr, of q] assms that show thesis by auto
qed

lemma purchase_one:
  assumes "purchase1 p q s = Inr s'"
  obtains t r where "stock s p = Some (t, r)"
    "stock s' = (stock s)(p \<mapsto> (max 0 (t - q), max 0 (r - q)))"
proof (cases "stock s p")
  case None
  with assms show thesis by (simp add: purchase_missing)
next
  case (Some tr)
  then obtain t r where tr: "stock s p = Some (t, r)" by (cases tr) simp
  with purchase_done [OF tr, of q] assms that show thesis by auto
qed

text \<open>A successful reservation loop adds the demand to what is reserved, and only then.\<close>

lemma reserve_all_stock:
  assumes "reserve_all ls s = Inr s'" "stock s p = Some (t, r)"
  shows "stock s' p = Some (t, r + demand p ls)"
  using assms
proof (induction ls arbitrary: s r)
  case Nil
  then show ?case by (simp add: reserve_all_def)
next
  case (Cons l ls)
  obtain p' q where l: "l = (p', q)" by (cases l)
  with Cons.prems(1) obtain u where u: "reserve1 p' q s = Inr u" "reserve_all ls u = Inr s'"
    by (auto simp: reserve_all_def bindE_eq_Inr)
  from u(1) have "stock u p = Some (t, r + (if p' = p then q else 0))"
    using Cons.prems(2) by (elim reserve_one) (auto split: if_splits)
  from Cons.IH [OF u(2) this] show ?case by (simp add: l algebra_simps)
qed

lemma reserve_all_missing:
  assumes "reserve_all ls s = Inr s'" "stock s p = None"
  shows "stock s' p = None \<and> p \<notin> fst ` set ls"
  using assms
proof (induction ls arbitrary: s)
  case Nil
  then show ?case by (simp add: reserve_all_def)
next
  case (Cons l ls)
  obtain p' q where l: "l = (p', q)" by (cases l)
  with Cons.prems(1) obtain u where u: "reserve1 p' q s = Inr u" "reserve_all ls u = Inr s'"
    by (auto simp: reserve_all_def bindE_eq_Inr)
  from u(1) Cons.prems(2) have "stock u p = None \<and> p \<noteq> p'"
    by (metis reserve_one fun_upd_apply option.discI)
  with Cons.IH [OF u(2)] show ?case by (simp add: l)
qed

lemma reserve_all_invar:
  "invar s \<Longrightarrow> \<forall>l \<in> set ls. 0 \<le> snd l \<Longrightarrow> reserve_all ls s = Inr s' \<Longrightarrow> invar s'"
  unfolding reserve_all_def
  by (erule foldE_invariant) (auto intro: reserve_invar)

text \<open>Every granted line was covered by what was available.\<close>

lemma reserve_all_covered:
  assumes "reserve_all ls s = Inr s'" "stock s p = Some (t, r)" "r \<le> t"
  shows "r + demand p ls \<le> t"
  using assms
proof (induction ls arbitrary: s r)
  case Nil
  then show ?case by simp
next
  case (Cons l ls)
  obtain p' q where l: "l = (p', q)" by (cases l)
  with Cons.prems(1) obtain u where u: "reserve1 p' q s = Inr u" "reserve_all ls u = Inr s'"
    by (auto simp: reserve_all_def bindE_eq_Inr)
  from u(1) have "stock u p = Some (t, r + (if p' = p then q else 0)) \<and> r + (if p' = p then q else 0) \<le> t"
    using Cons.prems(2,3) by (elim reserve_one) (auto split: if_splits)
  from Cons.IH [OF u(2) this [THEN conjunct1] this [THEN conjunct2]] show ?case by (simp add: l algebra_simps)
qed

text \<open>The loop succeeds when every product can cover its whole demand.\<close>

lemma reserve_all_succeeds:
  assumes "\<forall>p \<in> fst ` set ls. \<exists>t r. stock s p = Some (t, r) \<and> r + demand p ls \<le> t"
    and "\<forall>l \<in> set ls. 0 \<le> snd l"
  shows "\<exists>s'. reserve_all ls s = Inr s'"
  using assms
proof (induction ls arbitrary: s)
  case Nil
  then show ?case by (simp add: reserve_all_def)
next
  case (Cons l ls)
  obtain p q where l: "l = (p, q)" by (cases l)
  from Cons.prems(1) l obtain t r where tr: "stock s p = Some (t, r)" "r + q + demand p ls \<le> t"
    by (auto simp: add.assoc)
  have nn: "\<forall>l \<in> set ls. 0 \<le> snd l" using Cons.prems(2) by simp
  with tr(2) have "q \<le> t - r" using demand_nonneg [of ls p] by simp
  with tr(1) obtain u where u: "reserve1 p q s = Inr u" "stock u = (stock s)(p \<mapsto> (t, r + q))"
    using reserve_granted by blast
  have "\<forall>p' \<in> fst ` set ls. \<exists>t r. stock u p' = Some (t, r) \<and> r + demand p' ls \<le> t"
  proof
    fix p' assume p': "p' \<in> fst ` set ls"
    show "\<exists>t r. stock u p' = Some (t, r) \<and> r + demand p' ls \<le> t"
    proof (cases "p' = p")
      case True
      with u(2) tr(2) show ?thesis by auto
    next
      case False
      from p' have "p' \<in> fst ` set (l # ls)" by simp
      with Cons.prems(1) have "\<exists>t r. stock s p' = Some (t, r) \<and> r + demand p' (l # ls) \<le> t" by blast
      with False u(2) show ?thesis by (simp add: l)
    qed
  qed
  from Cons.IH [OF this nn] u(1) show ?case by (simp add: reserve_all_def l)
qed

end

context stock_service begin

lemma release_all_stock:
  assumes "release_all ls s = Inr s'" "stock s p = Some (t, r)" "0 \<le> r" "\<forall>l \<in> set ls. 0 \<le> snd l"
  shows "stock s' p = Some (t, max 0 (r - demand p ls))"
  using assms
proof (induction ls arbitrary: s r)
  case Nil
  then show ?case by (simp add: release_all_def)
next
  case (Cons l ls)
  obtain p' q where l: "l = (p', q)" by (cases l)
  with Cons.prems(1) obtain u where u: "release1 p' q s = Inr u" "release_all ls u = Inr s'"
    by (auto simp: release_all_def bindE_eq_Inr)
  from u(1) Cons.prems(2) have s: "stock u p = Some (t, if p' = p then max 0 (r - q) else r)"
    by (elim release_one) (auto split: if_splits)
  have nn: "\<forall>l \<in> set ls. 0 \<le> snd l" using Cons.prems(4) by simp
  from Cons.IH [OF u(2) s _ nn] Cons.prems(3) clamp_clamp [OF demand_nonneg [OF nn]]
  show ?case by (auto simp: l)
qed

lemma purchase_all_stock:
  assumes "purchase_all ls s = Inr s'" "stock s p = Some (t, r)" "0 \<le> r" "0 \<le> t" "\<forall>l \<in> set ls. 0 \<le> snd l"
  shows "stock s' p = Some (max 0 (t - demand p ls), max 0 (r - demand p ls))"
  using assms
proof (induction ls arbitrary: s r t)
  case Nil
  then show ?case by (simp add: purchase_all_def)
next
  case (Cons l ls)
  obtain p' q where l: "l = (p', q)" by (cases l)
  with Cons.prems(1) obtain u where u: "purchase1 p' q s = Inr u" "purchase_all ls u = Inr s'"
    by (auto simp: purchase_all_def bindE_eq_Inr)
  from u(1) Cons.prems(2)
  have s: "stock u p = Some (if p' = p then max 0 (t - q) else t, if p' = p then max 0 (r - q) else r)"
    by (elim purchase_one) (auto split: if_splits)
  have nn: "\<forall>l \<in> set ls. 0 \<le> snd l" using Cons.prems(5) by simp
  from Cons.IH [OF u(2) s _ _ nn] Cons.prems(3,4) clamp_clamp [OF demand_nonneg [OF nn]]
  show ?case by (auto simp: l)
qed

lemma release_all_missing:
  "release_all ls s = Inr s' \<Longrightarrow> stock s p = None \<Longrightarrow> stock s' p = None"
  unfolding release_all_def
  by (erule foldE_invariant) (auto elim!: release_one)

lemma purchase_all_missing:
  "purchase_all ls s = Inr s' \<Longrightarrow> stock s p = None \<Longrightarrow> stock s' p = None"
  unfolding purchase_all_def
  by (erule foldE_invariant) (auto elim!: purchase_one)

text \<open>Releasing or buying never fails on products that have an inventory row.\<close>

lemma release_all_succeeds:
  "\<forall>p \<in> fst ` set ls. stock s p \<noteq> None \<Longrightarrow> \<exists>s'. release_all ls s = Inr s'"
proof (induction ls arbitrary: s)
  case (Cons l ls)
  then obtain t r where "stock s (fst l) = Some (t, r)" by auto
  then obtain u where u: "release1 (fst l) (snd l) s = Inr u"
      "stock u = (stock s)(fst l \<mapsto> (t, max 0 (r - snd l)))"
    using release_done by blast
  with Cons.prems have "\<forall>p \<in> fst ` set ls. stock u p \<noteq> None" by simp
  from Cons.IH [OF this] u(1) show ?case by (simp add: release_all_def)
qed (simp add: release_all_def)

lemma purchase_all_succeeds:
  "\<forall>p \<in> fst ` set ls. stock s p \<noteq> None \<Longrightarrow> \<exists>s'. purchase_all ls s = Inr s'"
proof (induction ls arbitrary: s)
  case (Cons l ls)
  then obtain t r where "stock s (fst l) = Some (t, r)" by auto
  then obtain u where u: "purchase1 (fst l) (snd l) s = Inr u"
      "stock u = (stock s)(fst l \<mapsto> (max 0 (t - snd l), max 0 (r - snd l)))"
    using purchase_done by blast
  with Cons.prems have "\<forall>p \<in> fst ` set ls. stock u p \<noteq> None" by simp
  from Cons.IH [OF this] u(1) show ?case by (simp add: purchase_all_def)
qed (simp add: purchase_all_def)

lemma release_all_invar:
  "invar s \<Longrightarrow> \<forall>l \<in> set ls. 0 \<le> snd l \<Longrightarrow> release_all ls s = Inr s' \<Longrightarrow> invar s'"
  unfolding release_all_def
  by (erule foldE_invariant) (auto intro: release_invar)

lemma purchase_all_invar: "invar s \<Longrightarrow> purchase_all ls s = Inr s' \<Longrightarrow> invar s'"
  unfolding purchase_all_def
  by (erule foldE_invariant) (auto intro: purchase_invar)

text \<open>Reserving lines and releasing the same lines gives every product its stock back.\<close>

lemma reserve_release_roundtrip:
  assumes "reserve_all ls s = Inr s'" "release_all ls s' = Inr s''" "invar s" "\<forall>l \<in> set ls. 0 \<le> snd l"
  shows "stock s'' = stock s"
proof
  fix p
  show "stock s'' p = stock s p"
  proof (cases "stock s p")
    case None
    with assms reserve_all_missing release_all_missing show ?thesis by metis
  next
    case (Some tr)
    obtain t r where tr: "stock s p = Some (t, r)" using Some by (cases tr) simp
    have b: "0 \<le> r" using stock_bounds [OF assms(3) tr] by simp
    have s': "stock s' p = Some (t, r + demand p ls)" by (rule reserve_all_stock [OF assms(1) tr])
    have "0 \<le> r + demand p ls" using b demand_nonneg [OF assms(4)] by simp
    from release_all_stock [OF assms(2) s' this assms(4)] b tr show ?thesis by simp
  qed
qed

text \<open>Reserving lines and buying them takes the demand out of the total and leaves the
  reservations of everybody else as they were.\<close>

lemma reserve_purchase_effect:
  assumes "reserve_all ls s = Inr s'" "purchase_all ls s' = Inr s''" "invar s" "\<forall>l \<in> set ls. 0 \<le> snd l"
    and tr: "stock s p = Some (t, r)"
  shows "stock s'' p = Some (t - demand p ls, r)"
proof -
  have b: "0 \<le> r" "r \<le> t" using stock_bounds [OF assms(3) tr] by simp_all
  have s': "stock s' p = Some (t, r + demand p ls)" by (rule reserve_all_stock [OF assms(1) tr])
  have c: "r + demand p ls \<le> t" by (rule reserve_all_covered [OF assms(1) tr b(2)])
  have d: "0 \<le> r + demand p ls" using b demand_nonneg [OF assms(4), of p] by simp
  from purchase_all_stock [OF assms(2) s' d _ assms(4)] b c show ?thesis by simp
qed

end

end
