(* ===== verification/Users.thy ===== *)
theory Users
  imports Errors
begin

text \<open>
  The account rows of \<open>app/modules/users/models.py\<close>: roles, users, linked OAuth
  accounts, refresh tokens and the two kinds of single-use tokens. The MFA columns are
  written and read by no code and left out. A token row has the key the database gives
  it, since \<open>replaced_by_id\<close> refers to it.
\<close>

datatype user_role = Customer | Support | Admin | SuperAdmin

datatype oauth_provider = Google

record user =
  u_id :: uuid
  u_email :: string
  u_username :: string
  u_hashed_password :: "string option"
  u_first_name :: string
  u_last_name :: string
  u_avatar :: "string option"
  u_role :: user_role
  u_is_active :: bool
  u_is_verified :: bool
  u_last_login :: "datetime option"
  u_created_at :: datetime

record oauth_account =
  oa_user_id :: uuid
  oa_provider :: oauth_provider
  oa_provider_user_id :: string
  oa_email :: string

record refresh_token =
  rt_id :: uuid
  rt_user_id :: uuid
  rt_token_hash :: string
  rt_family_id :: uuid
  rt_replaced_by_id :: "uuid option"
  rt_revoked_at :: "datetime option"
  rt_expires_at :: datetime
  rt_created_at :: datetime
  rt_user_agent :: "string option"
  rt_ip_address :: "string option"

text \<open>\<open>PasswordResetToken\<close> and \<open>EmailVerificationToken\<close> have the same columns.\<close>

record single_use_token =
  su_user_id :: uuid
  su_token_hash :: string
  su_expires_at :: datetime
  su_used_at :: "datetime option"
  su_created_at :: datetime

end
