(* ===== verification/Permissions.thy ===== *)
theory Permissions
  imports Users
begin

text \<open>
  Role-based access control: the permission catalogue of
  \<open>app/security/permissions.py\<close> and the \<open>require_permission\<close> dependency of
  \<open>app/modules/auth/dependencies.py\<close> that every protected route declares.
\<close>

type_synonym permission = string

definition CUSTOMER_PERMISSIONS :: "permission list" where
  "CUSTOMER_PERMISSIONS =
     [''product.read'', ''category.read'', ''order.read.own'', ''order.create.own'',
      ''wallet.read.own'', ''ticket.read.own'', ''ticket.create.own'']"

definition SUPPORT_PERMISSIONS :: "permission list" where
  "SUPPORT_PERMISSIONS = CUSTOMER_PERMISSIONS @
     [''ticket.read'', ''ticket.respond'', ''ticket.manage'', ''order.read'', ''user.read'']"

definition ADMIN_PERMISSIONS :: "permission list" where
  "ADMIN_PERMISSIONS = SUPPORT_PERMISSIONS @
     [''product.create'', ''product.update'', ''product.delete'', ''category.manage'',
      ''order.manage'', ''user.manage'', ''wallet.manage'', ''payment.read'',
      ''payment.manage'', ''report.read'', ''audit.read'']"

definition SUPER_ADMIN_PERMISSIONS :: "permission list" where
  "SUPER_ADMIN_PERMISSIONS = ADMIN_PERMISSIONS @ [''user.role.manage'']"

fun ROLE_PERMISSIONS :: "user_role \<Rightarrow> permission set" where
  "ROLE_PERMISSIONS Customer = set CUSTOMER_PERMISSIONS"
| "ROLE_PERMISSIONS Support = set SUPPORT_PERMISSIONS"
| "ROLE_PERMISSIONS Admin = set ADMIN_PERMISSIONS"
| "ROLE_PERMISSIONS SuperAdmin = set SUPER_ADMIN_PERMISSIONS"

definition role_has_permission :: "user_role \<Rightarrow> permission \<Rightarrow> bool" where
  "role_has_permission role p \<longleftrightarrow> p \<in> ROLE_PERMISSIONS role"

definition require_permission :: "permission \<Rightarrow> user \<Rightarrow> exn + user" where
  "require_permission p u =
     (if \<not> role_has_permission (u_role u) p then Inl PermissionDeniedError else Inr u)"

text \<open>The roles are ranked as the catalogue nests them.\<close>

instantiation user_role :: linorder
begin

fun rank :: "user_role \<Rightarrow> nat" where
  "rank Customer = 0" | "rank Support = 1" | "rank Admin = 2" | "rank SuperAdmin = 3"

definition less_eq_user_role :: "user_role \<Rightarrow> user_role \<Rightarrow> bool" where
  "less_eq_user_role a b \<longleftrightarrow> rank a \<le> rank b"

definition less_user_role :: "user_role \<Rightarrow> user_role \<Rightarrow> bool" where
  "less_user_role a b \<longleftrightarrow> rank a < rank b"

instance
proof
  fix a b :: user_role
  show "a \<le> b \<Longrightarrow> b \<le> a \<Longrightarrow> a = b"
    by (cases a; cases b) (simp_all add: less_eq_user_role_def)
qed (auto simp: less_eq_user_role_def less_user_role_def)

end

lemmas permission_lists =
  CUSTOMER_PERMISSIONS_def SUPPORT_PERMISSIONS_def ADMIN_PERMISSIONS_def SUPER_ADMIN_PERMISSIONS_def

lemma role_permissions_mono: "a \<le> b \<Longrightarrow> ROLE_PERMISSIONS a \<subseteq> ROLE_PERMISSIONS b"
  by (cases a; cases b)
     (auto simp: less_eq_user_role_def SUPPORT_PERMISSIONS_def ADMIN_PERMISSIONS_def
        SUPER_ADMIN_PERMISSIONS_def)

lemma require_permission_Inr:
  "require_permission p u = Inr v \<longleftrightarrow> v = u \<and> role_has_permission (u_role u) p"
  by (auto simp: require_permission_def)

text \<open>The routes under \<open>/admin\<close> and the permission each declares.\<close>

definition ADMIN_ROUTES :: "(string \<times> permission) list" where
  "ADMIN_ROUTES =
     [(''POST /admin/categories'', ''category.manage''),
      (''PATCH /admin/categories/{id}'', ''category.manage''),
      (''POST /admin/categories/{id}/move'', ''category.manage''),
      (''DELETE /admin/categories/{id}'', ''category.manage''),
      (''POST /admin/products'', ''product.create''),
      (''PATCH /admin/products/{id}'', ''product.update''),
      (''DELETE /admin/products/{id}'', ''product.delete''),
      (''POST /admin/products/{id}/inventory/restock'', ''product.update''),
      (''POST /admin/products/{id}/inventory/adjust'', ''product.update''),
      (''POST /admin/uploads/product-image'', ''product.update''),
      (''GET /admin/orders'', ''order.read''),
      (''PATCH /admin/orders/{id}/status'', ''order.manage''),
      (''GET /admin/wallets/{id}'', ''wallet.manage''),
      (''POST /admin/wallets/{id}/credit'', ''wallet.manage''),
      (''POST /admin/wallets/{id}/debit'', ''wallet.manage''),
      (''GET /admin/tickets'', ''ticket.read''),
      (''GET /admin/tickets/{id}'', ''ticket.read''),
      (''POST /admin/tickets/{id}/messages'', ''ticket.respond''),
      (''PATCH /admin/tickets/{id}/status'', ''ticket.manage''),
      (''GET /admin/users'', ''user.read''),
      (''GET /admin/users/{id}'', ''user.read''),
      (''PATCH /admin/users/{id}'', ''user.manage''),
      (''GET /admin/audit-logs'', ''audit.read''),
      (''GET /admin/dashboard/stats'', ''report.read''),
      (''GET /admin/dashboard/charts'', ''report.read''),
      (''GET /admin/reports'', ''report.read'')]"

text \<open>
  What the catalogue grants on those routes: a customer is refused by all of them, an
  administrator by none, and the support role reaches exactly the ticket routes and the
  reading of orders and users.
\<close>

lemma admin_routes_customer:
  "(r, p) \<in> set ADMIN_ROUTES \<Longrightarrow> \<not> role_has_permission Customer p"
  by (auto simp: ADMIN_ROUTES_def role_has_permission_def permission_lists)

lemma admin_routes_admin:
  "(r, p) \<in> set ADMIN_ROUTES \<Longrightarrow> role_has_permission Admin p \<and> role_has_permission SuperAdmin p"
  by (auto simp: ADMIN_ROUTES_def role_has_permission_def permission_lists)

lemma admin_routes_support:
  "(r, p) \<in> set ADMIN_ROUTES \<Longrightarrow>
     role_has_permission Support p \<longleftrightarrow>
       p \<in> {''ticket.read'', ''ticket.respond'', ''ticket.manage'', ''order.read'', ''user.read''}"
  by (auto simp: ADMIN_ROUTES_def role_has_permission_def permission_lists)

end
