(* ===== verification/Inventory.thy ===== *)
theory Inventory
  imports Stock_Interface Permissions
begin

text \<open>
  Stock keeping: \<open>ProductInventory\<close>, \<open>InventoryHistory\<close>
  (\<open>app/modules/catalog/models.py\<close>), \<open>InventoryRepository\<close> and
  \<open>InventoryService\<close> (\<open>inventory_service.py\<close>). Every method locks the row of
  the product, so one call is one atomic step of the model. \<open>InventoryHistory\<close>'s
  surrogate key and timestamp are read by no code and left out.
\<close>

section \<open>Data\<close>

datatype change_type = CtRestock | CtReserve | CtRelease | CtPurchase | CtAdjust

record inventory_row =
  inv_product_id :: uuid
  stock_total :: int
  stock_reserved :: int

record inventory_history =
  ih_product_id :: uuid
  ih_change_type :: change_type
  ih_quantity :: int
  ih_reference_type :: "string option"
  ih_reference_id :: "uuid option"
  ih_actor_id :: "uuid option"

record inventory_db =
  inventories :: "inventory_row list"
  inventory_log :: "inventory_history list"

text \<open>The check constraints of the table and the range of PostgreSQL's 4-byte
  \<open>Integer\<close>, applied when rows are flushed.\<close>

definition int4 :: "int \<Rightarrow> bool" where
  "int4 n \<longleftrightarrow> - 2147483648 \<le> n \<and> n \<le> 2147483647"

definition inventory_row_ok :: "inventory_row \<Rightarrow> bool" where
  "inventory_row_ok r \<longleftrightarrow>
     0 \<le> stock_total r \<and> 0 \<le> stock_reserved r \<and> stock_reserved r \<le> stock_total r"

section \<open>Repository\<close>

definition lock_for_update :: "uuid \<Rightarrow> 'a inventory_db_scheme \<Rightarrow> inventory_row option" where
  "lock_for_update pid db = find_by inv_product_id pid (inventories db)"

definition add_inventory_history ::
    "inventory_history \<Rightarrow> 'a inventory_db_scheme \<Rightarrow> 'a inventory_db_scheme" where
  "add_inventory_history h db = db\<lparr>inventory_log := inventory_log db @ [h]\<rparr>"

text \<open>An assignment to an attribute of the row object, written back by the flush.\<close>

definition put_inventory ::
    "uuid \<Rightarrow> (inventory_row \<Rightarrow> inventory_row) \<Rightarrow> 'a inventory_db_scheme \<Rightarrow> 'a inventory_db_scheme" where
  "put_inventory pid f db = db\<lparr>inventories := update_by inv_product_id pid f (inventories db)\<rparr>"

section \<open>Service\<close>

definition locked_inventory :: "uuid \<Rightarrow> 'a inventory_db_scheme \<Rightarrow> exn + inventory_row" where
  "locked_inventory pid db = the_or NotFoundError (lock_for_update pid db)"

definition reserve ::
    "uuid \<Rightarrow> int \<Rightarrow> string \<Rightarrow> uuid \<Rightarrow> uuid option \<Rightarrow> 'a inventory_db_scheme \<Rightarrow> exn + 'a inventory_db_scheme" where
  "reserve pid quantity ref_type ref_id actor db =
     bindE (locked_inventory pid db) (\<lambda>inventory.
       let available = stock_total inventory - stock_reserved inventory in
       if available < quantity then Inl ConflictError
       else Inr (add_inventory_history
              \<lparr> ih_product_id = pid, ih_change_type = CtReserve, ih_quantity = quantity,
                ih_reference_type = Some ref_type, ih_reference_id = Some ref_id, ih_actor_id = actor \<rparr>
              (put_inventory pid (\<lambda>r. r\<lparr>stock_reserved := stock_reserved r + quantity\<rparr>) db)))"

definition release ::
    "uuid \<Rightarrow> int \<Rightarrow> string \<Rightarrow> uuid \<Rightarrow> uuid option \<Rightarrow> 'a inventory_db_scheme \<Rightarrow> exn + 'a inventory_db_scheme" where
  "release pid quantity ref_type ref_id actor db =
     bindE (locked_inventory pid db) (\<lambda>inventory.
       Inr (add_inventory_history
              \<lparr> ih_product_id = pid, ih_change_type = CtRelease, ih_quantity = quantity,
                ih_reference_type = Some ref_type, ih_reference_id = Some ref_id, ih_actor_id = actor \<rparr>
              (put_inventory pid (\<lambda>r. r\<lparr>stock_reserved := max 0 (stock_reserved r - quantity)\<rparr>) db)))"

definition commit_purchase ::
    "uuid \<Rightarrow> int \<Rightarrow> string \<Rightarrow> uuid \<Rightarrow> uuid option \<Rightarrow> 'a inventory_db_scheme \<Rightarrow> exn + 'a inventory_db_scheme" where
  "commit_purchase pid quantity ref_type ref_id actor db =
     bindE (locked_inventory pid db) (\<lambda>inventory.
       Inr (add_inventory_history
              \<lparr> ih_product_id = pid, ih_change_type = CtPurchase, ih_quantity = quantity,
                ih_reference_type = Some ref_type, ih_reference_id = Some ref_id, ih_actor_id = actor \<rparr>
              (put_inventory pid
                 (\<lambda>r. r\<lparr>stock_total := max 0 (stock_total r - quantity),
                        stock_reserved := max 0 (stock_reserved r - quantity)\<rparr>) db)))"

definition restock ::
    "uuid \<Rightarrow> int \<Rightarrow> uuid option \<Rightarrow> 'a inventory_db_scheme \<Rightarrow> exn + 'a inventory_db_scheme" where
  "restock pid quantity actor db =
     bindE (locked_inventory pid db) (\<lambda>inventory.
       Inr (add_inventory_history
              \<lparr> ih_product_id = pid, ih_change_type = CtRestock, ih_quantity = quantity,
                ih_reference_type = Some ''admin_restock'', ih_reference_id = None, ih_actor_id = actor \<rparr>
              (put_inventory pid (\<lambda>r. r\<lparr>stock_total := stock_total r + quantity\<rparr>) db)))"

definition adjust ::
    "uuid \<Rightarrow> int \<Rightarrow> uuid option \<Rightarrow> 'a inventory_db_scheme \<Rightarrow> exn + 'a inventory_db_scheme" where
  "adjust pid delta actor db =
     bindE (locked_inventory pid db) (\<lambda>inventory.
       let new_total = stock_total inventory + delta in
       if new_total < stock_reserved inventory then Inl ConflictError
       else Inr (add_inventory_history
              \<lparr> ih_product_id = pid, ih_change_type = CtAdjust, ih_quantity = delta,
                ih_reference_type = Some ''admin_adjust'', ih_reference_id = None, ih_actor_id = actor \<rparr>
              (put_inventory pid (\<lambda>r. r\<lparr>stock_total := new_total\<rparr>) db)))"


lemmas [services] =
  locked_inventory_def lock_for_update_def reserve_def release_def commit_purchase_def
  restock_def adjust_def add_inventory_history_def put_inventory_def

section \<open>Observations\<close>

text \<open>The pair (total, reserved) of a product: the abstract stock map.\<close>

definition stock_of :: "'a inventory_db_scheme \<Rightarrow> uuid \<Rightarrow> (int \<times> int) option" where
  "stock_of db pid = map_option (\<lambda>r. (stock_total r, stock_reserved r))
                       (find_by inv_product_id pid (inventories db))"

definition inventory_ok :: "'a inventory_db_scheme \<Rightarrow> bool" where
  "inventory_ok db \<longleftrightarrow>
     unique_by inv_product_id (inventories db) \<and> (\<forall>r \<in> set (inventories db). inventory_row_ok r)"

lemma stock_of_None: "stock_of db pid = None \<longleftrightarrow> lock_for_update pid db = None"
  by (simp add: stock_of_def lock_for_update_def)

lemma stock_of_SomeE:
  assumes "stock_of db pid = Some (t, r)"
  obtains i where "lock_for_update pid db = Some i" "stock_total i = t" "stock_reserved i = r"
  using assms by (auto simp: stock_of_def lock_for_update_def)

lemma stock_of_put [simp]:
  "stock_of (add_inventory_history h (put_inventory pid (\<lambda>r. r\<lparr>stock_reserved := f r\<rparr>) db)) =
     (stock_of db)(pid := map_option (\<lambda>r. (stock_total r, f r)) (lock_for_update pid db))"
  "stock_of (add_inventory_history h (put_inventory pid (\<lambda>r. r\<lparr>stock_total := g r\<rparr>) db)) =
     (stock_of db)(pid := map_option (\<lambda>r. (g r, stock_reserved r)) (lock_for_update pid db))"
  "stock_of (add_inventory_history h
      (put_inventory pid (\<lambda>r. r\<lparr>stock_total := g r, stock_reserved := f r\<rparr>) db)) =
     (stock_of db)(pid := map_option (\<lambda>r. (g r, f r)) (lock_for_update pid db))"
  by (auto simp: fun_eq_iff stock_of_def lock_for_update_def add_inventory_history_def
      put_inventory_def find_by_update_by option.map_comp comp_def)

lemma inventory_ok_put:
  assumes "inventory_ok db"
    and "\<And>r. inv_product_id (f r) = inv_product_id r"
    and "\<And>r. lock_for_update pid db = Some r \<Longrightarrow> inventory_row_ok r \<Longrightarrow> inventory_row_ok (f r)"
  shows "inventory_ok (add_inventory_history h (put_inventory pid f db))"
proof -
  have "inventory_row_ok (f r)" if "r \<in> set (inventories db)" "inv_product_id r = pid" for r
    using assms(1,3) that find_by_unique [of inv_product_id "inventories db" r]
    by (auto simp: inventory_ok_def lock_for_update_def)
  with assms(1,2) show ?thesis
    by (auto simp: inventory_ok_def add_inventory_history_def put_inventory_def
        set_update_by unique_update_by)
qed

lemma inventory_ok_stock:
  "inventory_ok db \<Longrightarrow> stock_of db pid = Some (t, r) \<Longrightarrow> 0 \<le> r \<and> r \<le> t"
  by (auto simp: inventory_ok_def inventory_row_ok_def stock_of_def dest: find_by_mem)

section \<open>The abstract stock map and its refinement\<close>

definition abs_reserve :: "uuid \<Rightarrow> int \<Rightarrow> (uuid \<Rightarrow> (int \<times> int) option) \<Rightarrow> exn + (uuid \<Rightarrow> (int \<times> int) option)" where
  "abs_reserve p q m = bindE (the_or NotFoundError (m p)) (\<lambda>(t, r).
     if t - r < q then Inl ConflictError else Inr (m(p \<mapsto> (t, r + q))))"

definition abs_release :: "uuid \<Rightarrow> int \<Rightarrow> (uuid \<Rightarrow> (int \<times> int) option) \<Rightarrow> exn + (uuid \<Rightarrow> (int \<times> int) option)" where
  "abs_release p q m = bindE (the_or NotFoundError (m p)) (\<lambda>(t, r). Inr (m(p \<mapsto> (t, max 0 (r - q)))))"

definition abs_purchase :: "uuid \<Rightarrow> int \<Rightarrow> (uuid \<Rightarrow> (int \<times> int) option) \<Rightarrow> exn + (uuid \<Rightarrow> (int \<times> int) option)" where
  "abs_purchase p q m = bindE (the_or NotFoundError (m p))
     (\<lambda>(t, r). Inr (m(p \<mapsto> (max 0 (t - q), max 0 (r - q)))))"

definition abs_restock :: "uuid \<Rightarrow> int \<Rightarrow> (uuid \<Rightarrow> (int \<times> int) option) \<Rightarrow> exn + (uuid \<Rightarrow> (int \<times> int) option)" where
  "abs_restock p q m = bindE (the_or NotFoundError (m p)) (\<lambda>(t, r). Inr (m(p \<mapsto> (t + q, r))))"

definition abs_adjust :: "uuid \<Rightarrow> int \<Rightarrow> (uuid \<Rightarrow> (int \<times> int) option) \<Rightarrow> exn + (uuid \<Rightarrow> (int \<times> int) option)" where
  "abs_adjust p d m = bindE (the_or NotFoundError (m p))
     (\<lambda>(t, r). if t + d < r then Inl ConflictError else Inr (m(p \<mapsto> (t + d, r))))"

lemmas abs_stock_defs =
  abs_reserve_def abs_release_def abs_purchase_def abs_restock_def abs_adjust_def

lemma refine_at:
  assumes "lock_for_update p db = None \<Longrightarrow> P" "\<And>i. lock_for_update p db = Some i \<Longrightarrow> P"
  shows P
  using assms by (cases "lock_for_update p db") auto

lemma stock_of_lock: "stock_of db p = map_option (\<lambda>r. (stock_total r, stock_reserved r)) (lock_for_update p db)"
  by (simp add: stock_of_def lock_for_update_def)

lemma inventory_refines:
  "map_sum id stock_of (reserve p q rt rid a db) = abs_reserve p q (stock_of db)"
  "map_sum id stock_of (release p q rt rid a db) = abs_release p q (stock_of db)"
  "map_sum id stock_of (commit_purchase p q rt rid a db) = abs_purchase p q (stock_of db)"
  "map_sum id stock_of (restock p q a db) = abs_restock p q (stock_of db)"
  "map_sum id stock_of (adjust p q a db) = abs_adjust p q (stock_of db)"
  by (rule refine_at [of p db];
      simp add: abs_stock_defs stock_of_lock [of db p] locked_inventory_def Let_def
        reserve_def release_def commit_purchase_def restock_def adjust_def)+

section \<open>The contract towards the order service\<close>

lemma reserve_keeps_ok:
  "inventory_ok db \<Longrightarrow> 0 \<le> q \<Longrightarrow> reserve p q rt rid a db = Inr db' \<Longrightarrow> inventory_ok db'"
  by (auto simp: reserve_def locked_inventory_def Let_def bindE_eq_Inr inventory_row_ok_def
      intro!: inventory_ok_put split: if_splits)

lemma release_keeps_ok:
  "inventory_ok db \<Longrightarrow> 0 \<le> q \<Longrightarrow> release p q rt rid a db = Inr db' \<Longrightarrow> inventory_ok db'"
  by (auto simp: release_def locked_inventory_def bindE_eq_Inr inventory_row_ok_def
      intro!: inventory_ok_put)

lemma commit_purchase_keeps_ok:
  "inventory_ok db \<Longrightarrow> commit_purchase p q rt rid a db = Inr db' \<Longrightarrow> inventory_ok db'"
  by (auto simp: commit_purchase_def locked_inventory_def bindE_eq_Inr inventory_row_ok_def
      intro!: inventory_ok_put)

lemma adjust_keeps_ok:
  "inventory_ok db \<Longrightarrow> adjust p d a db = Inr db' \<Longrightarrow> inventory_ok db'"
  by (auto simp: adjust_def locked_inventory_def Let_def bindE_eq_Inr inventory_row_ok_def
      intro!: inventory_ok_put split: if_splits)

lemma restock_keeps_ok:
  "inventory_ok db \<Longrightarrow> 0 \<le> q \<Longrightarrow> restock p q a db = Inr db' \<Longrightarrow> inventory_ok db'"
  by (auto simp: restock_def locked_inventory_def bindE_eq_Inr inventory_row_ok_def
      intro!: inventory_ok_put)

interpretation stk: stock_service stock_of inventory_ok
  "\<lambda>p q. reserve p q rt rid a" "\<lambda>p q. release p q rt rid a" "\<lambda>p q. commit_purchase p q rt rid a"
  for rt rid a
proof
  fix s :: "'b inventory_db_scheme" and p t r q
  show "\<exists>s'. reserve p q rt rid a s = Inr s' \<and> stock_of s' = (stock_of s)(p \<mapsto> (t, r + q))"
    if "stock_of s p = Some (t, r)" "q \<le> t - r"
    using that by (auto elim!: stock_of_SomeE simp: reserve_def locked_inventory_def Let_def)
  show "\<exists>s'. release p q rt rid a s = Inr s' \<and> stock_of s' = (stock_of s)(p \<mapsto> (t, max 0 (r - q)))"
    if "stock_of s p = Some (t, r)"
    using that by (auto elim!: stock_of_SomeE simp: release_def locked_inventory_def)
  show "\<exists>s'. commit_purchase p q rt rid a s = Inr s' \<and>
          stock_of s' = (stock_of s)(p \<mapsto> (max 0 (t - q), max 0 (r - q)))"
    if "stock_of s p = Some (t, r)"
    using that by (auto elim!: stock_of_SomeE simp: commit_purchase_def locked_inventory_def)
  show "reserve p q rt rid a s = Inl ConflictError" if "stock_of s p = Some (t, r)" "t - r < q"
    using that by (auto elim!: stock_of_SomeE simp: reserve_def locked_inventory_def Let_def)
qed (auto simp: reserve_def release_def commit_purchase_def locked_inventory_def stock_of_None
      inventory_ok_stock intro: reserve_keeps_ok release_keeps_ok commit_purchase_keeps_ok)

section \<open>The history log\<close>

text \<open>What one history row says happened to (total, reserved).\<close>

fun apply_change :: "change_type \<Rightarrow> int \<Rightarrow> int \<times> int \<Rightarrow> int \<times> int" where
  "apply_change CtRestock q (t, r) = (t + q, r)"
| "apply_change CtReserve q (t, r) = (t, r + q)"
| "apply_change CtRelease q (t, r) = (t, max 0 (r - q))"
| "apply_change CtPurchase q (t, r) = (max 0 (t - q), max 0 (r - q))"
| "apply_change CtAdjust q (t, r) = (t + q, r)"

definition replay :: "uuid \<Rightarrow> inventory_history list \<Rightarrow> int \<times> int \<Rightarrow> int \<times> int" where
  "replay p rows tr = fold (\<lambda>h. if ih_product_id h = p then apply_change (ih_change_type h) (ih_quantity h) else id) rows tr"

lemma replay_Nil [simp]: "replay p [] tr = tr"
  by (simp add: replay_def)

lemma replay_append: "replay p (l @ m) tr = replay p m (replay p l tr)"
  by (simp add: replay_def)

text \<open>One transition of the stock keeper: a service call that returns, with the quantity
  the callers pass (\<open>ge=1\<close> in the cart schemas), and for a restock, whose amount the API
  does not bound, with the check constraints satisfied at the commit.\<close>

inductive inventory_step :: "'a inventory_db_scheme \<Rightarrow> 'a inventory_db_scheme \<Rightarrow> bool" where
  step_reserve: "0 \<le> q \<Longrightarrow> reserve p q rt rid a s = Inr s' \<Longrightarrow> inventory_step s s'"
| step_release: "0 \<le> q \<Longrightarrow> release p q rt rid a s = Inr s' \<Longrightarrow> inventory_step s s'"
| step_purchase: "0 \<le> q \<Longrightarrow> commit_purchase p q rt rid a s = Inr s' \<Longrightarrow> inventory_step s s'"
| step_restock: "restock p q a s = Inr s' \<Longrightarrow> \<forall>r \<in> set (inventories s'). inventory_row_ok r \<Longrightarrow>
     inventory_step s s'"
| step_adjust: "adjust p d a s = Inr s' \<Longrightarrow> inventory_step s s'"

lemma restock_unique:
  "restock p q a s = Inr s' \<Longrightarrow> unique_by inv_product_id (inventories s) \<Longrightarrow>
     unique_by inv_product_id (inventories s')"
  by (auto simp: restock_def locked_inventory_def bindE_eq_Inr add_inventory_history_def
      put_inventory_def unique_update_by)

lemma inventory_step_ok: "inventory_step s s' \<Longrightarrow> inventory_ok s \<Longrightarrow> inventory_ok s'"
proof (induction rule: inventory_step.induct)
  case (step_restock p q a s s')
  then show ?case using restock_unique [of p q a s s'] by (simp add: inventory_ok_def)
qed (auto intro: reserve_keeps_ok release_keeps_ok commit_purchase_keeps_ok adjust_keeps_ok)

lemma inventory_steps_ok: "inventory_step\<^sup>*\<^sup>* s s' \<Longrightarrow> inventory_ok s \<Longrightarrow> inventory_ok s'"
  by (induction rule: rtranclp_induct) (auto intro: inventory_step_ok)

text \<open>Each call appends exactly one row, which tells what it did.\<close>

lemma inventory_step_log:
  "inventory_step s s' \<Longrightarrow>
     \<exists>h. inventory_log s' = inventory_log s @ [h] \<and>
         (\<forall>p. stock_of s' p = map_option (replay p [h]) (stock_of s p))"
proof (induction rule: inventory_step.induct)
  case (step_reserve q p rt rid a s s')
  then show ?case
    by (auto simp: reserve_def locked_inventory_def Let_def bindE_eq_Inr stock_of_lock [of s p]
        replay_def split: if_splits) (auto simp: add_inventory_history_def put_inventory_def option.map_id)
next
  case (step_release q p rt rid a s s')
  then show ?case
    by (auto simp: release_def locked_inventory_def bindE_eq_Inr stock_of_lock [of s p] replay_def)
       (auto simp: add_inventory_history_def put_inventory_def option.map_id)
next
  case (step_purchase q p rt rid a s s')
  then show ?case
    by (auto simp: commit_purchase_def locked_inventory_def bindE_eq_Inr stock_of_lock [of s p] replay_def)
       (auto simp: add_inventory_history_def put_inventory_def option.map_id)
next
  case (step_restock p q a s s')
  then show ?case
    by (auto simp: restock_def locked_inventory_def bindE_eq_Inr stock_of_lock [of s p] replay_def)
       (auto simp: add_inventory_history_def put_inventory_def option.map_id)
next
  case (step_adjust p d a s s')
  then show ?case
    by (auto simp: adjust_def locked_inventory_def Let_def bindE_eq_Inr stock_of_lock [of s p]
        replay_def split: if_splits) (auto simp: add_inventory_history_def put_inventory_def option.map_id)
qed

lemma inventory_steps_replay:
  "inventory_step\<^sup>*\<^sup>* s s' \<Longrightarrow>
     \<exists>new. inventory_log s' = inventory_log s @ new \<and>
           (\<forall>p. stock_of s' p = map_option (replay p new) (stock_of s p))"
proof (induction rule: rtranclp_induct)
  case base
  show ?case by (rule exI [of _ "[]"]) (simp add: option.map_ident)
next
  case (step t u)
  then obtain new where new: "inventory_log t = inventory_log s @ new"
      "\<forall>p. stock_of t p = map_option (replay p new) (stock_of s p)" by blast
  from inventory_step_log [OF step.hyps(2)] obtain h where
      h: "inventory_log u = inventory_log t @ [h]"
         "\<forall>p. stock_of u p = map_option (replay p [h]) (stock_of t p)" by blast
  have "stock_of u p = map_option (replay p (new @ [h])) (stock_of s p)" for p
    using new(2) h(2) by (cases "stock_of s p") (simp_all add: replay_append)
  with new(1) h(1) show ?case by auto
qed

end
