(* ===== verification/Catalog_Models.thy ===== *)
theory Catalog_Models
  imports Inventory
begin

text \<open>
  The catalogue rows of \<open>app/modules/catalog/models.py\<close>, the public views of them
  (\<open>schemas.py\<close>), the Redis cache (\<open>app/common/cache.py\<close>) with the keys the
  services delete, and the catalogue's part of the database, which extends the stock
  keeper's. Prices are stored in \<open>NUMERIC(12, 0)\<close> columns, so a stored price is a whole
  number of toman. The two JSONB columns can hold JSON \<open>null\<close>, which is what assigning
  Python's \<open>None\<close> to them stores: \<open>None\<close> here.
\<close>

record category =
  cat_id :: uuid
  cat_parent_id :: "uuid option"
  cat_name :: string
  cat_slug :: string
  cat_is_active :: bool
  cat_sort_order :: int

record product =
  p_id :: uuid
  p_sku :: string
  p_name :: string
  p_slug :: string
  p_short_description :: string
  p_description :: string
  p_price :: int
  p_discount_price :: "int option"
  p_brand :: string
  p_category_id :: uuid
  p_images :: "string list option"
  p_specifications :: "(string \<times> string) list option"
  p_is_active :: bool
  p_is_featured :: bool
  p_is_popular :: bool
  p_created_at :: datetime
  p_updated_at :: datetime

text \<open>\<open>CategoryPublic\<close>: a category with its children attached.\<close>

datatype category_node = CategoryNode category "category_node list"

record product_public =
  pp_id :: uuid
  pp_sku :: string
  pp_name :: string
  pp_slug :: string
  pp_short_description :: string
  pp_description :: string
  pp_price :: decimal
  pp_discount_price :: "decimal option"
  pp_brand :: string
  pp_category_id :: uuid
  pp_images :: "string list"
  pp_specifications :: "(string \<times> string) list"
  pp_is_active :: bool
  pp_is_featured :: bool
  pp_is_popular :: bool
  pp_available_stock :: int

section \<open>The cache\<close>

datatype cached =
    CachedTree "category_node list"
  | CachedProducts "product_public list"
  | CachedProduct product_public

type_synonym cache = "string \<Rightarrow> cached option"

definition cache_get_json :: "string \<Rightarrow> cache \<Rightarrow> cached option" where
  "cache_get_json key c = c key"

definition cache_set_json :: "string \<Rightarrow> cached \<Rightarrow> cache \<Rightarrow> cache" where
  "cache_set_json key v c = c(key \<mapsto> v)"

definition cache_delete :: "string list \<Rightarrow> cache \<Rightarrow> cache" where
  "cache_delete keys c = (if keys = [] then c else (\<lambda>k. if k \<in> set keys then None else c k))"

definition CATEGORY_TREE_CACHE_KEY :: string where
  "CATEGORY_TREE_CACHE_KEY = ''categories:tree:v1''"

definition FEATURED_PRODUCTS_CACHE_KEY :: string where
  "FEATURED_PRODUCTS_CACHE_KEY = ''products:featured:v1''"

definition POPULAR_PRODUCTS_CACHE_KEY :: string where
  "POPULAR_PRODUCTS_CACHE_KEY = ''products:popular:v1''"

definition HOME_CACHE_KEY :: string where
  "HOME_CACHE_KEY = ''home:v1''"

definition product_cache_key :: "string \<Rightarrow> string" where
  "product_cache_key slug = ''product:'' @ slug @ '':v1''"

lemma cache_get_delete [simp]:
  "cache_get_json k (cache_delete ks c) = (if k \<in> set ks then None else cache_get_json k c)"
  by (simp add: cache_get_json_def cache_delete_def)

lemma cache_get_set [simp]:
  "cache_get_json k (cache_set_json k' v c) = (if k = k' then Some v else cache_get_json k c)"
  by (simp add: cache_get_json_def cache_set_json_def)

lemma product_cache_key_inj [simp]: "product_cache_key a = product_cache_key b \<longleftrightarrow> a = b"
  by (simp add: product_cache_key_def)

section \<open>The catalogue's state\<close>

record catalog_db = inventory_db +
  categories :: "category list"
  products :: "product list"
  redis :: cache

text \<open>\<open>ProductRepository.get_by_id\<close>; the inventory it loads with the product is the row the
  stock keeper holds under the same id.\<close>

definition get_product_by_id :: "uuid \<Rightarrow> 'a catalog_db_scheme \<Rightarrow> product option" where
  "get_product_by_id pid db = find_by p_id pid (products db)"

definition effective_unit_price :: "product \<Rightarrow> int" where
  "effective_unit_price p = (case p_discount_price p of Some d \<Rightarrow> d | None \<Rightarrow> p_price p)"

definition available_stock :: "product \<Rightarrow> 'a catalog_db_scheme \<Rightarrow> int" where
  "available_stock p db =
     (case lock_for_update (p_id p) db of
        None \<Rightarrow> 0
      | Some inventory \<Rightarrow> max 0 (stock_total inventory - stock_reserved inventory))"

lemma available_stock_of:
  "available_stock p db = (case stock_of db (p_id p) of None \<Rightarrow> 0 | Some (t, r) \<Rightarrow> max 0 (t - r))"
  by (simp add: available_stock_def stock_of_lock split: option.splits)

text \<open>Stock keeping leaves the rest of the database alone.\<close>

lemma inventory_frame [simp]:
  "categories (add_inventory_history h (put_inventory p f db)) = categories db"
  "products (add_inventory_history h (put_inventory p f db)) = products db"
  "redis (add_inventory_history h (put_inventory p f db)) = redis db"
  by (simp_all add: add_inventory_history_def put_inventory_def)

end
