(* ===== verification/Categories.thy ===== *)
theory Categories
  imports Catalog_Models
begin

text \<open>
  The category tree: \<open>CategoryRepository\<close> and \<open>CategoryService\<close>
  (\<open>app/modules/catalog/repository.py\<close>, \<open>service.py\<close>). The order of names is the
  database's collation, which is not part of the program: it is the parameter
  \<open>coll\<close>, the rank the collation gives a name.
\<close>

section \<open>Repository\<close>

definition get_category_by_id :: "uuid \<Rightarrow> 'a catalog_db_scheme \<Rightarrow> category option" where
  "get_category_by_id cid db = find_by cat_id cid (categories db)"

definition get_category_by_slug :: "string \<Rightarrow> 'a catalog_db_scheme \<Rightarrow> category option" where
  "get_category_by_slug slug db = find_by cat_slug slug (categories db)"

text \<open>\<open>ORDER BY sort_order, name\<close>\<close>

definition list_all_categories :: "(string \<Rightarrow> nat) \<Rightarrow> 'a catalog_db_scheme \<Rightarrow> category list" where
  "list_all_categories coll db = sort_key cat_sort_order (sort_key (\<lambda>c. coll (cat_name c)) (categories db))"

definition children_of :: "uuid \<Rightarrow> category list \<Rightarrow> category list" where
  "children_of cid cats = filter (\<lambda>c. cat_parent_id c = Some cid) cats"

text \<open>The walk over the subtree. The frontier is a stack: its head is what \<open>pop()\<close> takes.\<close>

fun visit_children :: "category list \<Rightarrow> uuid list \<Rightarrow> uuid list \<Rightarrow> uuid list \<times> uuid list" where
  "visit_children [] frontier descendants = (frontier, descendants)"
| "visit_children (child # cs) frontier descendants =
     (if cat_id child \<notin> set descendants
      then visit_children cs (cat_id child # frontier) (cat_id child # descendants)
      else visit_children cs frontier descendants)"

lemma visit_children_props:
  assumes "visit_children cs fr ds = (fr', ds')"
  shows "set ds' = set ds \<union> cat_id ` set cs"
    and "set fr' = set fr \<union> (set ds' - set ds)"
    and "ds' = ds \<Longrightarrow> fr' = fr"
    and "length ds \<le> length ds'"
    and "ds' \<noteq> ds \<Longrightarrow> set ds \<subset> set ds'"
  using assms
proof (induction cs arbitrary: fr ds)
  case (Cons c cs)
  { case 1 from 1 Cons.IH(1) show ?case by (auto split: if_splits)
  next case 2 from 2 Cons.IH(1,2) show ?case by (fastforce split: if_splits)
  next case 3 from 3 Cons.IH(3,4) show ?case by (fastforce split: if_splits)
  next case 4 from 4 Cons.IH(4) show ?case by (fastforce split: if_splits)
  next case 5 from 5 Cons.IH(1,5) show ?case by (fastforce split: if_splits) }
qed simp_all

lemma visit_children_decreases:
  assumes v: "visit_children (children_of current cats) fr ds = (fr', ds')"
  shows "((cats, fr', ds'), (cats, current # fr, ds)) \<in>
      measures [\<lambda>(cats, fr, ds). card (cat_id ` set cats - set ds), \<lambda>(cats, fr, ds). length fr]"
proof (cases "ds' = ds")
  case True
  with visit_children_props(3) [OF v] show ?thesis by simp
next
  case False
  have "set ds' - set ds \<subseteq> cat_id ` set cats"
    using visit_children_props(1) [OF v] by (auto simp: children_of_def)
  with visit_children_props(5) [OF v False]
  have "cat_id ` set cats - set ds' \<subset> cat_id ` set cats - set ds" by blast
  then have "card (cat_id ` set cats - set ds') < card (cat_id ` set cats - set ds)"
    by (intro psubset_card_mono) simp_all
  then show ?thesis by simp
qed

function walk_subtree :: "category list \<Rightarrow> uuid list \<Rightarrow> uuid list \<Rightarrow> uuid list" where
  "walk_subtree cats [] descendants = descendants"
| "walk_subtree cats (current # frontier) descendants =
     (let (frontier', descendants') = visit_children (children_of current cats) frontier descendants
      in walk_subtree cats frontier' descendants')"
  by pat_completeness auto
termination
  by (relation "measures [\<lambda>(cats, fr, ds). card (cat_id ` set cats - set ds), \<lambda>(cats, fr, ds). length fr]")
     (simp_all only: wf_measures, metis visit_children_decreases)

definition get_descendant_ids :: "(string \<Rightarrow> nat) \<Rightarrow> uuid \<Rightarrow> 'a catalog_db_scheme \<Rightarrow> uuid list" where
  "get_descendant_ids coll cid db = walk_subtree (list_all_categories coll db) [cid] []"

definition has_products :: "uuid \<Rightarrow> 'a catalog_db_scheme \<Rightarrow> bool" where
  "has_products cid db \<longleftrightarrow> 0 < length (filter (\<lambda>p. p_category_id p = cid) (products db))"

definition has_children :: "uuid \<Rightarrow> 'a catalog_db_scheme \<Rightarrow> bool" where
  "has_children cid db \<longleftrightarrow> 0 < length (filter (\<lambda>c. cat_parent_id c = Some cid) (categories db))"

section \<open>Service\<close>

record category_create_request =
  cc_name :: string
  cc_slug :: string
  cc_parent_id :: "uuid option"
  cc_sort_order :: int

record category_update_request =
  cu_name :: "string option"
  cu_is_active :: "bool option"
  cu_sort_order :: "int option"

definition invalidate_tree_cache :: "'a catalog_db_scheme \<Rightarrow> 'a catalog_db_scheme" where
  "invalidate_tree_cache db = db\<lparr>redis := cache_delete [CATEGORY_TREE_CACHE_KEY, HOME_CACHE_KEY] (redis db)\<rparr>"

definition category_create ::
    "uuid \<Rightarrow> category_create_request \<Rightarrow> 'a catalog_db_scheme \<Rightarrow> exn + (category \<times> 'a catalog_db_scheme)" where
  "category_create new_id data db =
     (if get_category_by_slug (cc_slug data) db \<noteq> None then Inl ConflictError
      else if (case cc_parent_id data of None \<Rightarrow> False | Some pid \<Rightarrow> get_category_by_id pid db = None)
      then Inl NotFoundError
      else let category = \<lparr> cat_id = new_id, cat_parent_id = cc_parent_id data, cat_name = cc_name data,
                            cat_slug = cc_slug data, cat_is_active = True,
                            cat_sort_order = cc_sort_order data \<rparr>
           in Inr (category, invalidate_tree_cache (db\<lparr>categories := categories db @ [category]\<rparr>)))"

definition apply_category_update :: "category_update_request \<Rightarrow> category \<Rightarrow> category" where
  "apply_category_update data c =
     c\<lparr> cat_name := (case cu_name data of None \<Rightarrow> cat_name c | Some v \<Rightarrow> v),
        cat_is_active := (case cu_is_active data of None \<Rightarrow> cat_is_active c | Some v \<Rightarrow> v),
        cat_sort_order := (case cu_sort_order data of None \<Rightarrow> cat_sort_order c | Some v \<Rightarrow> v) \<rparr>"

definition category_update ::
    "uuid \<Rightarrow> category_update_request \<Rightarrow> 'a catalog_db_scheme \<Rightarrow> exn + (category \<times> 'a catalog_db_scheme)" where
  "category_update cid data db =
     bindE (the_or NotFoundError (get_category_by_id cid db)) (\<lambda>category.
       Inr (apply_category_update data category,
            invalidate_tree_cache
              (db\<lparr>categories := update_by cat_id cid (apply_category_update data) (categories db)\<rparr>)))"

text \<open>The checks of \<open>move\<close> when the new parent is not \<open>None\<close>.\<close>

definition check_new_parent ::
    "(string \<Rightarrow> nat) \<Rightarrow> uuid \<Rightarrow> uuid option \<Rightarrow> 'a catalog_db_scheme \<Rightarrow> exn + unit" where
  "check_new_parent coll cid new_parent db =
     (case new_parent of
        None \<Rightarrow> Inr ()
      | Some np \<Rightarrow>
          if np = cid then Inl ConflictError
          else if get_category_by_id np db = None then Inl NotFoundError
          else if np \<in> set (get_descendant_ids coll cid db) then Inl ConflictError
          else Inr ())"

definition category_move ::
    "(string \<Rightarrow> nat) \<Rightarrow> uuid \<Rightarrow> uuid option \<Rightarrow> 'a catalog_db_scheme \<Rightarrow> exn + (category \<times> 'a catalog_db_scheme)" where
  "category_move coll cid new_parent db =
     bindE (the_or NotFoundError (get_category_by_id cid db)) (\<lambda>category.
     bindE (check_new_parent coll cid new_parent db) (\<lambda>_.
       Inr (category\<lparr>cat_parent_id := new_parent\<rparr>,
            invalidate_tree_cache
              (db\<lparr>categories := update_by cat_id cid (\<lambda>c. c\<lparr>cat_parent_id := new_parent\<rparr>) (categories db)\<rparr>))))"

definition category_delete :: "uuid \<Rightarrow> 'a catalog_db_scheme \<Rightarrow> exn + 'a catalog_db_scheme" where
  "category_delete cid db =
     bindE (the_or NotFoundError (get_category_by_id cid db)) (\<lambda>category.
       if has_children cid db then Inl ConflictError
       else if has_products cid db then Inl ConflictError
       else Inr (invalidate_tree_cache
              (db\<lparr>categories := filter (\<lambda>c. cat_id c \<noteq> cid) (categories db)\<rparr>)))"

text \<open>\<open>attach\<close> recurses to the depth of the tree; the fuel bounds that depth, and running out of
  it stands for a recursion that does not end.\<close>

fun attach :: "nat \<Rightarrow> category list \<Rightarrow> category \<Rightarrow> category_node option" where
  "attach 0 cats node = None"
| "attach (Suc n) cats node =
     map_option (CategoryNode node)
       (those (map (attach n cats) (children_of (cat_id node) cats)))"

definition get_tree :: "(string \<Rightarrow> nat) \<Rightarrow> 'a catalog_db_scheme \<Rightarrow> category_node list option" where
  "get_tree coll db =
     (let all_categories = list_all_categories coll db;
          roots = filter (\<lambda>c. cat_parent_id c = None) all_categories
      in those (map (attach (Suc (length all_categories)) all_categories) roots))"

end
