(* ===== verification/Money.thy ===== *)
theory Money
  imports Prelude
begin

text \<open>
  Money columns. The API accepts any positive \<open>Decimal\<close>, while every money column is a
  \<open>NUMERIC(p, 0)\<close>: the database turns what is written into a whole number of at most
  \<open>p\<close> digits. That conversion is PostgreSQL's, so it is a parameter \<open>num\<close> of the
  operations that write request amounts; the locale states what the documentation promises
  of it, and the interpretation instantiates it with the documented rounding, to the
  nearest whole number with ties away from zero.
\<close>

definition numeric_fits :: "nat \<Rightarrow> int \<Rightarrow> bool" where
  "numeric_fits p z \<longleftrightarrow> \<bar>z\<bar> < 10 ^ p"

locale numeric_column =
  fixes num :: "decimal \<Rightarrow> int"
  assumes num_whole: "num (of_int z) = z"
    and num_mono: "x \<le> y \<Longrightarrow> num x \<le> num y"
begin

lemma num_zero: "num 0 = 0"
  using num_whole [of 0] by simp

lemma num_nonneg: "0 \<le> x \<Longrightarrow> 0 \<le> num x"
  using num_mono [of 0 x] num_zero by simp

lemma num_whole_less: "x \<in> \<int> \<Longrightarrow> y \<in> \<int> \<Longrightarrow> x < y \<Longrightarrow> num x < num y"
  by (auto elim!: Ints_cases simp: num_whole)

lemma num_Ints: "x \<in> \<int> \<Longrightarrow> of_int (num x) = x"
  by (auto elim!: Ints_cases simp: num_whole)

end

definition round_half_away :: "decimal \<Rightarrow> int" where
  "round_half_away x = (if 0 \<le> x then \<lfloor>x + 1 / 2\<rfloor> else - \<lfloor>1 / 2 - x\<rfloor>)"

lemma round_half_away_whole: "round_half_away (of_int z) = z"
proof -
  have "\<lfloor>rat_of_int z + 1 / 2\<rfloor> = z" by (simp add: floor_eq_iff)
  moreover have "\<lfloor>1 / 2 - rat_of_int z\<rfloor> = - z" by (simp add: floor_eq_iff)
  ultimately show ?thesis by (simp add: round_half_away_def)
qed

lemma round_half_away_mono: "x \<le> y \<Longrightarrow> round_half_away x \<le> round_half_away y"
proof -
  assume le: "x \<le> y"
  consider "0 \<le> x" | "x < 0" "0 \<le> y" | "y < 0" by linarith
  then show ?thesis
  proof cases
    case 1
    with le show ?thesis by (simp add: round_half_away_def floor_mono)
  next
    case 2
    then have a: "0 \<le> \<lfloor>1 / 2 - x\<rfloor>" and b: "0 \<le> \<lfloor>y + 1 / 2\<rfloor>" by simp_all
    have "round_half_away x = - \<lfloor>1 / 2 - x\<rfloor>" "round_half_away y = \<lfloor>y + 1 / 2\<rfloor>"
      unfolding round_half_away_def using 2 by (simp_all only: if_True if_False not_le [symmetric])
    with a b show ?thesis by linarith
  next
    case 3
    with le show ?thesis by (simp add: round_half_away_def floor_mono)
  qed
qed

interpretation pg: numeric_column round_half_away
  by unfold_locales (simp_all add: round_half_away_whole round_half_away_mono)

end
