(* ===== verification/Pagination.thy ===== *)
theory Pagination
  imports Errors
begin

text \<open>
  \<open>app/common/pagination.py\<close>: the page parameters every list endpoint takes, and the
  page built from the rows the query returned and the total it counted.
\<close>

definition MAX_PAGE_SIZE :: int where "MAX_PAGE_SIZE = 100"
definition DEFAULT_PAGE_SIZE :: int where "DEFAULT_PAGE_SIZE = 20"

record page_params =
  pg_page :: int
  pg_page_size :: int

text \<open>The field bounds; a request outside them is refused before the handler runs.\<close>

definition page_params_valid :: "page_params \<Rightarrow> bool" where
  "page_params_valid ps \<longleftrightarrow> 1 \<le> pg_page ps \<and> 1 \<le> pg_page_size ps \<and> pg_page_size ps \<le> MAX_PAGE_SIZE"

definition page_offset :: "page_params \<Rightarrow> int" where
  "page_offset ps = (pg_page ps - 1) * pg_page_size ps"

record 't page =
  page_items :: "'t list"
  page_page :: int
  page_page_size :: int
  page_total :: int
  page_total_pages :: int

definition page_create :: "'t list \<Rightarrow> int \<Rightarrow> page_params \<Rightarrow> 't page" where
  "page_create items total_count ps =
     \<lparr> page_items = items, page_page = pg_page ps, page_page_size = pg_page_size ps,
       page_total = total_count,
       page_total_pages = (if total_count \<noteq> 0 then (total_count + pg_page_size ps - 1) div pg_page_size ps else 0) \<rparr>"

text \<open>\<open>OFFSET ... LIMIT ...\<close> on the ordered result, and the total of the same query.\<close>

definition offset_limit :: "int \<Rightarrow> int \<Rightarrow> 't list \<Rightarrow> 't list" where
  "offset_limit off n xs = take (nat n) (drop (nat off) xs)"

definition list_page :: "page_params \<Rightarrow> 't list \<Rightarrow> 't page" where
  "list_page ps xs =
     page_create (offset_limit (page_offset ps) (pg_page_size ps) xs) (int (length xs)) ps"

text \<open>The pages of a result, in order.\<close>

definition nth_page :: "int \<Rightarrow> 't list \<Rightarrow> nat \<Rightarrow> 't list" where
  "nth_page sz xs i = page_items (list_page \<lparr>pg_page = int i + 1, pg_page_size = sz\<rparr> xs)"

lemma nth_page_eq: "0 < sz \<Longrightarrow> nth_page sz xs i = take (nat sz) (drop (i * nat sz) xs)"
  by (simp add: nth_page_def list_page_def page_create_def offset_limit_def page_offset_def nat_mult_distrib)

lemma concat_chunks:
  "concat (map (\<lambda>i. take k (drop (i * k) xs)) [0..<n]) = take (n * k) xs"
proof (induction n)
  case (Suc n)
  have "take (Suc n * k) xs = take (n * k) xs @ take k (drop (n * k) xs)"
    by (metis add.commute mult_Suc take_add)
  with Suc show ?case by simp
qed simp

lemma total_pages_ceiling:
  assumes "0 < sz"
  shows "int (length xs) \<le> page_total_pages (list_page \<lparr>pg_page = p, pg_page_size = sz\<rparr> xs) * sz"
    and "page_total_pages (list_page \<lparr>pg_page = p, pg_page_size = sz\<rparr> xs) * sz < int (length xs) + sz"
proof -
  let ?n = "int (length xs)"
  have m: "(?n + sz - 1) div sz * sz = ?n + sz - 1 - (?n + sz - 1) mod sz"
    by (simp add: minus_mod_eq_div_mult)
  have "0 \<le> (?n + sz - 1) mod sz" "(?n + sz - 1) mod sz < sz" using assms by simp_all
  with m assms show "?n \<le> page_total_pages (list_page \<lparr>pg_page = p, pg_page_size = sz\<rparr> xs) * sz"
    and "page_total_pages (list_page \<lparr>pg_page = p, pg_page_size = sz\<rparr> xs) * sz < ?n + sz"
    by (auto simp: list_page_def page_create_def)
qed

lemma pages_partition:
  assumes "1 \<le> sz"
  shows "concat (map (nth_page sz xs)
           [0..<nat (page_total_pages (list_page \<lparr>pg_page = p, pg_page_size = sz\<rparr> xs))]) = xs"
proof -
  let ?t = "page_total_pages (list_page \<lparr>pg_page = p, pg_page_size = sz\<rparr> xs)"
  have "int (length xs) \<le> ?t * sz" using total_pages_ceiling(1) [of sz xs p] assms by simp
  then have "nat (int (length xs)) \<le> nat (?t * sz)" by (rule nat_mono)
  then have "length xs \<le> nat ?t * nat sz"
    using assms by (simp add: mult.commute [of ?t] nat_mult_distrib) (simp add: mult.commute)
  moreover have "map (nth_page sz xs) [0..<nat ?t] = map (\<lambda>i. take (nat sz) (drop (i * nat sz) xs)) [0..<nat ?t]"
    using assms by (simp add: nth_page_eq)
  ultimately show ?thesis by (simp only: concat_chunks) simp
qed

end
