(* ===== verification/Unicode.thy ===== *)
theory Unicode
  imports Prelude
begin

text \<open>
  Text. A \<open>str\<close> of the program is a sequence of code points; the model keeps it as the bytes of its
  UTF-8 encoding, which are the characters of HOL. Here are the encoding, what \<open>len\<close>, \<open>strip\<close> and
  a slice \<open>[:n]\<close> are on the encoded text, and the letters that the catalogue's search identifies
  (\<open>_normalize_persian\<close> in \<open>app/modules/catalog/repository.py\<close>).
\<close>

section \<open>UTF-8\<close>

definition utf8 :: "nat \<Rightarrow> string" where
  "utf8 n =
     (if n < 0x80 then [char_of n]
      else if n < 0x800 then [char_of (0xC0 + n div 64), char_of (0x80 + n mod 64)]
      else if n < 0x10000 then
        [char_of (0xE0 + n div 4096), char_of (0x80 + n div 64 mod 64), char_of (0x80 + n mod 64)]
      else [char_of (0xF0 + n div 262144 mod 8), char_of (0x80 + n div 4096 mod 64),
            char_of (0x80 + n div 64 mod 64), char_of (0x80 + n mod 64)])"

definition utf8_encode :: "nat list \<Rightarrow> string" where
  "utf8_encode cs = concat (map utf8 cs)"

fun utf8_decode :: "string \<Rightarrow> nat list" where
  "utf8_decode [] = []"
| "utf8_decode (a # s) =
     (let n = of_char a in
      if n < 0xC0 then n # utf8_decode s
      else if n < 0xE0 then
        (case s of b # s' \<Rightarrow> ((n - 0xC0) * 64 + (of_char b - 0x80)) # utf8_decode s' | _ \<Rightarrow> [n])
      else if n < 0xF0 then
        (case s of b # c # s' \<Rightarrow> ((n - 0xE0) * 4096 + (of_char b - 0x80) * 64 + (of_char c - 0x80)) # utf8_decode s'
         | _ \<Rightarrow> [n])
      else
        (case s of b # c # d # s' \<Rightarrow>
           ((n - 0xF0) * 262144 + (of_char b - 0x80) * 4096 + (of_char c - 0x80) * 64 + (of_char d - 0x80)) # utf8_decode s'
         | _ \<Rightarrow> [n]))"

lemma utf8_encode_simps [simp]:
  "utf8_encode [] = []" "utf8_encode (c # cs) = utf8 c @ utf8_encode cs"
  "utf8_encode (cs @ ds) = utf8_encode cs @ utf8_encode ds"
  by (simp_all add: utf8_encode_def)

lemma of_char_of_small: "n < 256 \<Longrightarrow> of_char (char_of n :: char) = (n :: nat)"
  by (simp only: of_char_of mod_less)

lemma utf8_decode_utf8: "n < 0x110000 \<Longrightarrow> utf8_decode (utf8 n @ s) = n # utf8_decode s"
proof -
  assume n: "n < 0x110000"
  have base: "n div 64 * 64 + n mod 64 = n" "n div 4096 * 4096 + n div 64 mod 64 * 64 = n div 64 * 64"
    "n div 262144 * 262144 + n div 4096 mod 64 * 4096 = n div 4096 * 4096"
    using div_mult_mod_eq [of n 64] div_mult_mod_eq [of "n div 64" 64] div_mult_mod_eq [of "n div 4096" 64]
    by (simp_all flip: div_mult2_eq)
  consider "n < 0x80" | "0x80 \<le> n" "n < 0x800" | "0x800 \<le> n" "n < 0x10000" | "0x10000 \<le> n" by linarith
  then show ?thesis
  proof cases
    case 1
    then show ?thesis by (simp add: utf8_def of_char_of_small)
  next
    case 2
    then have "n div 64 < 32" by (simp add: less_mult_imp_div_less)
    with 2 base(1) show ?thesis by (simp add: utf8_def of_char_of_small)
  next
    case 3
    then have "n div 4096 < 16" by (simp add: less_mult_imp_div_less)
    with 3 base(1,2) show ?thesis by (simp add: utf8_def of_char_of_small)
  next
    case 4
    have "n div 262144 < 8" using n by (simp add: less_mult_imp_div_less)
    then have "n div 262144 mod 8 = n div 262144" by simp
    moreover have "(128 + m mod 64) mod 256 = 128 + m mod 64" for m :: nat
      by (rule mod_less) (use mod_less_divisor [of 64 m] in linarith)
    ultimately show ?thesis using 4 base \<open>n div 262144 < 8\<close>
      by (simp add: utf8_def of_char_of del: mod_less_divisor)
  qed
qed

text \<open>Decoding gives back the code points.\<close>

lemma utf8_round_trip: "\<forall>c \<in> set cs. c < 0x110000 \<Longrightarrow> utf8_decode (utf8_encode cs) = cs"
  by (induction cs) (simp_all add: utf8_decode_utf8 del: utf8_decode.simps(2))

lemma utf8_encode_inj:
  "utf8_encode cs = utf8_encode ds \<Longrightarrow> \<forall>c \<in> set cs. c < 0x110000 \<Longrightarrow> \<forall>c \<in> set ds. c < 0x110000 \<Longrightarrow> cs = ds"
  using utf8_round_trip by metis

section \<open>Length and slices\<close>

text \<open>\<open>len\<close>, and the length a column \<open>VARCHAR(n)\<close> counts: the bytes that do not continue a character.\<close>

definition continuation :: "char \<Rightarrow> bool" where
  "continuation c \<longleftrightarrow> 128 \<le> (of_char c :: nat) \<and> (of_char c :: nat) < 192"

lemma of_char_bits:
  "(of_char (Char b0 b1 b2 b3 b4 b5 b6 b7) :: nat) =
     of_bool b0 + 2 * of_bool b1 + 4 * of_bool b2 + 8 * of_bool b3 + 16 * of_bool b4 + 32 * of_bool b5
       + 64 * of_bool b6 + 128 * of_bool b7"
  by (simp add: of_char_Char)

lemma continuation_Char [simp]: "continuation (Char b0 b1 b2 b3 b4 b5 b6 b7) \<longleftrightarrow> b7 \<and> \<not> b6"
proof -
  have "(of_bool b0 :: nat) \<le> 1" "(of_bool b1 :: nat) \<le> 1" "(of_bool b2 :: nat) \<le> 1" "(of_bool b3 :: nat) \<le> 1"
    "(of_bool b4 :: nat) \<le> 1" "(of_bool b5 :: nat) \<le> 1" by simp_all
  then show ?thesis unfolding continuation_def of_char_bits by (cases b6; cases b7; simp)
qed

definition text_length :: "string \<Rightarrow> nat" where
  "text_length s = length (filter (\<lambda>c. \<not> continuation c) s)"

lemma text_length_simps [simp]:
  "text_length [] = 0" "text_length (c # s) = (if continuation c then 0 else 1) + text_length s"
  "text_length (s @ t) = text_length s + text_length t"
  by (simp_all add: text_length_def)

lemma text_length_le: "text_length s \<le> length s"
  by (simp add: text_length_def)

lemma text_length_utf8 [simp]: "text_length (utf8 n) = 1"
proof -
  have "n div 262144 mod 8 < 8" "n div 4096 mod 64 < 64" "n div 64 mod 64 < 64" "n mod 64 < 64" by simp_all
  moreover have "n < 0x800 \<Longrightarrow> n div 64 < 32" "n < 0x10000 \<Longrightarrow> n div 4096 < 16"
    by (simp_all add: less_mult_imp_div_less)
  ultimately show ?thesis by (simp add: utf8_def continuation_def of_char_of_small)
qed

lemma text_length_encode [simp]: "text_length (utf8_encode cs) = length cs"
  by (induction cs) simp_all

definition text_take :: "nat \<Rightarrow> string \<Rightarrow> string" where
  "text_take n s = utf8_encode (take n (utf8_decode s))"

lemma text_length_take: "text_length (text_take n s) \<le> n"
  by (simp add: text_take_def)

text \<open>On ASCII the encoding is the identity.\<close>

definition ascii :: "string \<Rightarrow> bool" where
  "ascii s \<longleftrightarrow> (\<forall>c \<in> set s. \<not> digit7 c)"

lemma of_char_ascii: "\<not> digit7 c \<Longrightarrow> (of_char c :: nat) < 128"
  by (cases c) (auto simp: of_char_bits of_bool_def)

lemma decode_ascii: "ascii s \<Longrightarrow> utf8_decode s = map of_char s"
  by (induction s) (use of_char_ascii in \<open>fastforce simp: ascii_def\<close>)+

lemma encode_ascii: "ascii s \<Longrightarrow> utf8_encode (map of_char s) = s"
  by (induction s) (simp_all add: ascii_def utf8_def of_char_ascii)

lemma text_take_ascii: "ascii s \<Longrightarrow> text_take n s = take n s"
  using encode_ascii [of "take n s"]
  by (auto simp: text_take_def decode_ascii take_map ascii_def dest: in_set_takeD)

lemma text_take_encode: "\<forall>c \<in> set cs. c < 0x110000 \<Longrightarrow> text_take n (utf8_encode cs) = utf8_encode (take n cs)"
  by (simp add: text_take_def utf8_round_trip)

section \<open>\<open>str.strip\<close>\<close>

definition is_space :: "nat \<Rightarrow> bool" where
  "is_space n \<longleftrightarrow> 9 \<le> n \<and> n \<le> 13 \<or> 28 \<le> n \<and> n \<le> 32
     \<or> n \<in> {0x85, 0xA0, 0x1680, 0x2028, 0x2029, 0x202F, 0x205F, 0x3000} \<or> 0x2000 \<le> n \<and> n \<le> 0x200A"

definition strip :: "string \<Rightarrow> string" where
  "strip s = utf8_encode (rev (dropWhile is_space (rev (dropWhile is_space (utf8_decode s)))))"

lemma strip_Nil [simp]: "strip [] = []"
  by (simp add: strip_def)

section \<open>Letters with two forms\<close>

text \<open>\<open>translate(expr, from, to)\<close> on the Arabic forms of yeh and kaf.\<close>

definition persian_letter :: "nat \<Rightarrow> nat" where
  "persian_letter c = (if c = 0x64A then 0x6CC else if c = 0x643 then 0x6A9 else c)"

definition normalize_persian :: "string \<Rightarrow> string" where
  "normalize_persian s = utf8_encode (map persian_letter (utf8_decode s))"

lemma persian_letter_twice [simp]: "persian_letter (persian_letter c) = persian_letter c"
  by (simp add: persian_letter_def)

lemma persian_letter_range: "c < 0x110000 \<Longrightarrow> persian_letter c < 0x110000"
  by (simp add: persian_letter_def)

text \<open>Normalizing again changes nothing, and two texts that differ only in the form of these letters
  have the same normal form.\<close>

lemma normalize_persian_encode:
  "\<forall>c \<in> set cs. c < 0x110000 \<Longrightarrow> normalize_persian (utf8_encode cs) = utf8_encode (map persian_letter cs)"
  by (simp add: normalize_persian_def utf8_round_trip)

lemma normalize_persian_idem:
  "\<forall>c \<in> set cs. c < 0x110000 \<Longrightarrow>
     normalize_persian (normalize_persian (utf8_encode cs)) = normalize_persian (utf8_encode cs)"
  by (simp add: normalize_persian_encode persian_letter_range comp_def)

lemma normalize_persian_eq:
  assumes "\<forall>c \<in> set cs. c < 0x110000" "\<forall>c \<in> set ds. c < 0x110000"
  shows "normalize_persian (utf8_encode cs) = normalize_persian (utf8_encode ds) \<longleftrightarrow>
    map persian_letter cs = map persian_letter ds"
  using utf8_encode_inj [of "map persian_letter cs" "map persian_letter ds"] assms
  by (auto simp: normalize_persian_encode persian_letter_range)

end
