(* ===== verification/Products.thy ===== *)
theory Products
  imports Categories Money Pagination Unicode
begin

text \<open>
  Products: the request schemas (\<open>app/modules/catalog/schemas.py\<close>),
  \<open>ProductRepository\<close> (\<open>repository.py\<close>) and \<open>ProductService\<close> (\<open>service.py\<close>).
  Outside the program, and parameters here: \<open>num\<close>, the conversion of a written price to
  \<open>NUMERIC(12, 0)\<close>; \<open>coll\<close>, the collation; \<open>ilike\<close>, SQL's \<open>ILIKE\<close>.
\<close>

section \<open>Schemas\<close>

definition slug_char :: "char \<Rightarrow> bool" where
  "slug_char c \<longleftrightarrow> (97 \<le> (of_char c :: nat) \<and> (of_char c :: nat) \<le> 122)
                  \<or> (48 \<le> (of_char c :: nat) \<and> (of_char c :: nat) \<le> 57)"

text \<open>The automaton of \<open>^[a-z0-9]+(?:-[a-z0-9]+)*$\<close>: at the start of a group, or inside one.\<close>

fun slug_group :: "bool \<Rightarrow> string \<Rightarrow> bool" where
  "slug_group inside [] = inside"
| "slug_group inside (c # cs) =
     (if slug_char c then slug_group True cs
      else if inside \<and> c = CHR ''-'' then slug_group False cs
      else False)"

definition slug_matches :: "string \<Rightarrow> bool" where
  "slug_matches s = slug_group False s"

definition length_between :: "nat \<Rightarrow> nat \<Rightarrow> string \<Rightarrow> bool" where
  "length_between lo hi s \<longleftrightarrow> lo \<le> text_length s \<and> text_length s \<le> hi"

definition category_create_valid :: "category_create_request \<Rightarrow> bool" where
  "category_create_valid data \<longleftrightarrow>
     length_between 1 150 (cc_name data) \<and> length_between 1 170 (cc_slug data)
     \<and> slug_matches (cc_slug data)"

definition category_update_valid :: "category_update_request \<Rightarrow> bool" where
  "category_update_valid data \<longleftrightarrow>
     (case cu_name data of None \<Rightarrow> True | Some name \<Rightarrow> length_between 1 150 name)"

record product_create_request =
  pc_sku :: string
  pc_name :: string
  pc_slug :: string
  pc_short_description :: string
  pc_description :: string
  pc_price :: decimal
  pc_discount_price :: "decimal option"
  pc_brand :: string
  pc_category_id :: uuid
  pc_images :: "string list"
  pc_specifications :: "(string \<times> string) list"
  pc_is_active :: bool
  pc_is_featured :: bool
  pc_is_popular :: bool
  pc_initial_stock :: int

definition discount_below_price :: "product_create_request \<Rightarrow> bool" where
  "discount_below_price data \<longleftrightarrow>
     \<not> (case pc_discount_price data of None \<Rightarrow> False | Some d \<Rightarrow> pc_price data \<le> d)"

definition product_create_valid :: "product_create_request \<Rightarrow> bool" where
  "product_create_valid data \<longleftrightarrow>
     length_between 1 64 (pc_sku data) \<and> length_between 1 255 (pc_name data)
     \<and> length_between 1 280 (pc_slug data) \<and> slug_matches (pc_slug data)
     \<and> length_between 0 500 (pc_short_description data)
     \<and> 0 < pc_price data
     \<and> (case pc_discount_price data of None \<Rightarrow> True | Some d \<Rightarrow> 0 \<le> d)
     \<and> length_between 0 100 (pc_brand data)
     \<and> 0 \<le> pc_initial_stock data
     \<and> discount_below_price data"

text \<open>A PATCH body: \<open>None\<close> is a field that is not set (\<open>exclude_unset\<close>), \<open>Some None\<close> one that
  is sent as \<open>null\<close>, \<open>Some (Some v)\<close> one that is sent with a value.\<close>

record product_update_request =
  pu_name :: "string option option"
  pu_short_description :: "string option option"
  pu_description :: "string option option"
  pu_price :: "decimal option option"
  pu_discount_price :: "decimal option option"
  pu_brand :: "string option option"
  pu_category_id :: "uuid option option"
  pu_images :: "string list option option"
  pu_specifications :: "(string \<times> string) list option option"
  pu_is_active :: "bool option option"
  pu_is_featured :: "bool option option"
  pu_is_popular :: "bool option option"

definition sent_and :: "('a \<Rightarrow> bool) \<Rightarrow> 'a option option \<Rightarrow> bool" where
  "sent_and P field = (case field of Some (Some v) \<Rightarrow> P v | _ \<Rightarrow> True)"

definition product_update_valid :: "product_update_request \<Rightarrow> bool" where
  "product_update_valid data \<longleftrightarrow>
     sent_and (length_between 1 255) (pu_name data)
     \<and> sent_and (length_between 0 500) (pu_short_description data)
     \<and> sent_and (\<lambda>v. 0 < v) (pu_price data)
     \<and> sent_and (\<lambda>v. 0 \<le> v) (pu_discount_price data)
     \<and> sent_and (length_between 0 100) (pu_brand data)"

record inventory_adjust_request =
  ia_delta :: int
  ia_reason :: string

definition inventory_adjust_valid :: "inventory_adjust_request \<Rightarrow> bool" where
  "inventory_adjust_valid data \<longleftrightarrow> length_between 1 255 (ia_reason data)"

section \<open>Repository\<close>

definition get_product_by_slug :: "string \<Rightarrow> 'a catalog_db_scheme \<Rightarrow> product option" where
  "get_product_by_slug slug db = find_by p_slug slug (products db)"

text \<open>\<open>scalar_one_or_none()\<close>: no row, the row, or an exception when there are several.\<close>

fun scalar_one_or_none :: "'r list \<Rightarrow> exn + 'r option" where
  "scalar_one_or_none [] = Inr None"
| "scalar_one_or_none [r] = Inr (Some r)"
| "scalar_one_or_none (r # r' # rs) = Inl MultipleResultsFound"

definition get_by_slug_or_sku :: "string \<Rightarrow> string \<Rightarrow> 'a catalog_db_scheme \<Rightarrow> exn + product option" where
  "get_by_slug_or_sku slug sku db =
     scalar_one_or_none (filter (\<lambda>p. p_slug p = slug \<or> p_sku p = sku) (products db))"

record product_query =
  q_category_id :: "uuid option"
  q_brand :: "string option"
  q_min_price :: "decimal option"
  q_max_price :: "decimal option"
  q_in_stock_only :: bool
  q_search :: "string option"
  q_is_featured :: "bool option"
  q_is_active :: "bool option"

definition truthy :: "string option \<Rightarrow> string option" where
  "truthy s = (case s of Some [] \<Rightarrow> None | _ \<Rightarrow> s)"

definition matches_query ::
    "(string \<Rightarrow> string \<Rightarrow> bool) \<Rightarrow> product_query \<Rightarrow> 'a catalog_db_scheme \<Rightarrow> product \<Rightarrow> bool" where
  "matches_query ilike q db p \<longleftrightarrow>
     (case q_category_id q of None \<Rightarrow> True | Some c \<Rightarrow> p_category_id p = c)
     \<and> (case truthy (q_brand q) of None \<Rightarrow> True | Some b \<Rightarrow> p_brand p = b)
     \<and> (case q_min_price q of None \<Rightarrow> True | Some m \<Rightarrow> m \<le> of_int (p_price p))
     \<and> (case q_max_price q of None \<Rightarrow> True | Some m \<Rightarrow> of_int (p_price p) \<le> m)
     \<and> (case q_is_featured q of None \<Rightarrow> True | Some f \<Rightarrow> p_is_featured p = f)
     \<and> (case q_is_active q of None \<Rightarrow> True | Some f \<Rightarrow> p_is_active p = f)
     \<and> (q_in_stock_only q \<longrightarrow>
          (case lock_for_update (p_id p) db of
             None \<Rightarrow> False | Some i \<Rightarrow> 0 < stock_total i - stock_reserved i))
     \<and> (case truthy (q_search q) of
          None \<Rightarrow> True
        | Some s \<Rightarrow> let term = ''%'' @ strip s @ ''%'' in
            ilike (normalize_persian (p_name p)) (normalize_persian term)
            \<or> ilike (normalize_persian (p_description p)) (normalize_persian term)
            \<or> ilike (p_sku p) term \<or> ilike (p_brand p) term)"

datatype sort_column = CreatedAt | Price | Name

fun sort_rank :: "(string \<Rightarrow> nat) \<Rightarrow> sort_column \<Rightarrow> product \<Rightarrow> int" where
  "sort_rank coll CreatedAt p = p_created_at p"
| "sort_rank coll Price p = p_price p"
| "sort_rank coll Name p = int (coll (p_name p))"

text \<open>\<open>ORDER BY\<close> leaves rows with equal keys in an order the database chooses; the model keeps
  them in insertion order.\<close>

definition search_rows ::
    "(string \<Rightarrow> nat) \<Rightarrow> (string \<Rightarrow> string \<Rightarrow> bool) \<Rightarrow> product_query
     \<Rightarrow> sort_column \<Rightarrow> bool \<Rightarrow> 'a catalog_db_scheme \<Rightarrow> product list" where
  "search_rows coll ilike q sort_by sort_desc db =
     sort_key (\<lambda>p. if sort_desc then - sort_rank coll sort_by p else sort_rank coll sort_by p)
       (filter (matches_query ilike q db) (products db))"

definition search ::
    "(string \<Rightarrow> nat) \<Rightarrow> (string \<Rightarrow> string \<Rightarrow> bool) \<Rightarrow> product_query
     \<Rightarrow> sort_column \<Rightarrow> bool \<Rightarrow> int \<Rightarrow> int \<Rightarrow> 'a catalog_db_scheme \<Rightarrow> product list \<times> int" where
  "search coll ilike q sort_by sort_desc off n db =
     (let rows = search_rows coll ilike q sort_by sort_desc db
      in (offset_limit off n rows, int (length rows)))"

definition list_flagged :: "bool \<Rightarrow> bool \<Rightarrow> nat \<Rightarrow> 'a catalog_db_scheme \<Rightarrow> product list" where
  "list_flagged featured popular n db =
     take n (sort_key (\<lambda>p. - p_updated_at p)
       (filter (\<lambda>p. p_is_active p \<and> (featured \<longrightarrow> p_is_featured p) \<and> (popular \<longrightarrow> p_is_popular p))
          (products db)))"

section \<open>Service\<close>

definition invalidate_product_cache :: "string \<Rightarrow> 'a catalog_db_scheme \<Rightarrow> 'a catalog_db_scheme" where
  "invalidate_product_cache slug db =
     db\<lparr>redis := cache_delete [product_cache_key slug, FEATURED_PRODUCTS_CACHE_KEY,
                                POPULAR_PRODUCTS_CACHE_KEY, HOME_CACHE_KEY] (redis db)\<rparr>"

text \<open>The two flushes of \<open>create\<close>: the product row and its inventory row reach the database.\<close>

definition product_row_fits :: "product \<Rightarrow> bool" where
  "product_row_fits p \<longleftrightarrow>
     numeric_fits 12 (p_price p) \<and>
     (case p_discount_price p of None \<Rightarrow> True | Some d \<Rightarrow> numeric_fits 12 d)"

definition new_product :: "(decimal \<Rightarrow> int) \<Rightarrow> uuid \<Rightarrow> datetime \<Rightarrow> product_create_request \<Rightarrow> product" where
  "new_product num new_id now data =
     \<lparr> p_id = new_id, p_sku = pc_sku data, p_name = pc_name data, p_slug = pc_slug data,
       p_short_description = pc_short_description data, p_description = pc_description data,
       p_price = num (pc_price data), p_discount_price = map_option num (pc_discount_price data),
       p_brand = pc_brand data, p_category_id = pc_category_id data,
       p_images = Some (pc_images data), p_specifications = Some (pc_specifications data),
       p_is_active = pc_is_active data, p_is_featured = pc_is_featured data,
       p_is_popular = pc_is_popular data, p_created_at = now, p_updated_at = now \<rparr>"

definition product_create ::
    "(decimal \<Rightarrow> int) \<Rightarrow> uuid \<Rightarrow> datetime \<Rightarrow> product_create_request \<Rightarrow> 'a catalog_db_scheme
     \<Rightarrow> exn + (product \<times> 'a catalog_db_scheme)" where
  "product_create num new_id now data db =
     bindE (get_by_slug_or_sku (pc_slug data) (pc_sku data) db) (\<lambda>existing.
       if existing \<noteq> None then Inl ConflictError
       else if get_category_by_id (pc_category_id data) db = None then Inl NotFoundError
       else
         let product = new_product num new_id now data in
         if \<not> product_row_fits product then Inl DBAPIError
         else
           let inventory = \<lparr> inv_product_id = new_id, stock_total = pc_initial_stock data,
                             stock_reserved = 0 \<rparr> in
           if \<not> (inventory_row_ok inventory \<and> int4 (stock_total inventory)) then Inl DBAPIError
           else Inr (product, invalidate_product_cache (p_slug product)
                  (db\<lparr>products := products db @ [product],
                      inventories := inventories db @ [inventory]\<rparr>)))"

text \<open>\<open>setattr\<close> of the sent fields on the row; a \<open>null\<close> only changes the columns that can hold it
  (\<open>null_violation\<close> refuses the others at the flush).\<close>

definition set_field :: "'a option option \<Rightarrow> 'a \<Rightarrow> 'a" where
  "set_field field old = (case field of Some (Some v) \<Rightarrow> v | _ \<Rightarrow> old)"

definition set_nullable :: "'a option option \<Rightarrow> 'a option \<Rightarrow> 'a option" where
  "set_nullable field old = (case field of None \<Rightarrow> old | Some v \<Rightarrow> v)"

definition null_violation :: "product_update_request \<Rightarrow> bool" where
  "null_violation data \<longleftrightarrow>
     pu_name data = Some None \<or> pu_short_description data = Some None
     \<or> pu_description data = Some None \<or> pu_price data = Some None \<or> pu_brand data = Some None
     \<or> pu_category_id data = Some None \<or> pu_is_active data = Some None
     \<or> pu_is_featured data = Some None \<or> pu_is_popular data = Some None"

definition apply_product_update :: "(decimal \<Rightarrow> int) \<Rightarrow> product_update_request \<Rightarrow> product \<Rightarrow> product" where
  "apply_product_update num data p =
     p\<lparr> p_name := set_field (pu_name data) (p_name p),
        p_short_description := set_field (pu_short_description data) (p_short_description p),
        p_description := set_field (pu_description data) (p_description p),
        p_price := (case pu_price data of Some (Some v) \<Rightarrow> num v | _ \<Rightarrow> p_price p),
        p_discount_price :=
          (case pu_discount_price data of None \<Rightarrow> p_discount_price p | Some d \<Rightarrow> map_option num d),
        p_brand := set_field (pu_brand data) (p_brand p),
        p_category_id := set_field (pu_category_id data) (p_category_id p),
        p_images := set_nullable (pu_images data) (p_images p),
        p_specifications := set_nullable (pu_specifications data) (p_specifications p),
        p_is_active := set_field (pu_is_active data) (p_is_active p),
        p_is_featured := set_field (pu_is_featured data) (p_is_featured p),
        p_is_popular := set_field (pu_is_popular data) (p_is_popular p) \<rparr>"

text \<open>\<open>onupdate=func.now()\<close> applies when the flush emits an \<open>UPDATE\<close>, that is when some sent
  value differs from the one loaded.\<close>

definition touches :: "product_update_request \<Rightarrow> product \<Rightarrow> bool" where
  "touches data p \<longleftrightarrow>
     apply_product_update (\<lambda>_. 0) (data\<lparr>pu_price := None, pu_discount_price := None\<rparr>) p \<noteq> p
     \<or> \<not> sent_and (\<lambda>v. v = of_int (p_price p)) (pu_price data)
     \<or> (case pu_discount_price data of None \<Rightarrow> False | Some d \<Rightarrow> d \<noteq> map_option of_int (p_discount_price p))"

definition check_new_category :: "uuid option option \<Rightarrow> 'a catalog_db_scheme \<Rightarrow> exn + unit" where
  "check_new_category field db =
     (case field of
        Some (Some c) \<Rightarrow> if get_category_by_id c db = None then Inl NotFoundError else Inr ()
      | _ \<Rightarrow> Inr ())"

text \<open>\<open>new_discount is not None and new_discount >= new_price\<close>; comparing with a \<open>null\<close> price is a
  \<open>TypeError\<close>.\<close>

definition check_new_price :: "product_update_request \<Rightarrow> product \<Rightarrow> exn + unit" where
  "check_new_price data p =
     (let new_price = (case pu_price data of None \<Rightarrow> Some (of_int (p_price p)) | Some v \<Rightarrow> v);
          new_discount = (case pu_discount_price data of
                            None \<Rightarrow> map_option of_int (p_discount_price p) | Some v \<Rightarrow> v)
      in case new_discount of
           None \<Rightarrow> Inr ()
         | Some d \<Rightarrow> (case new_price of
               None \<Rightarrow> Inl TypeError
             | Some pr \<Rightarrow> if pr \<le> d then Inl ConflictError else Inr ()))"

text \<open>\<open>update\<close> with the flush of the handler's commit.\<close>

definition product_update ::
    "(decimal \<Rightarrow> int) \<Rightarrow> datetime \<Rightarrow> uuid \<Rightarrow> product_update_request \<Rightarrow> 'a catalog_db_scheme
     \<Rightarrow> exn + (product \<times> 'a catalog_db_scheme)" where
  "product_update num now pid data db =
     bindE (the_or NotFoundError (get_product_by_id pid db)) (\<lambda>product.
     bindE (check_new_category (pu_category_id data) db) (\<lambda>_.
     bindE (check_new_price data product) (\<lambda>_.
       let product' = (apply_product_update num data product)
             \<lparr>p_updated_at := (if touches data product then now else p_updated_at product)\<rparr>
       in if null_violation data \<or> \<not> product_row_fits product' then Inl DBAPIError
          else Inr (product', invalidate_product_cache (p_slug product)
                 (db\<lparr>products := update_by p_id pid (\<lambda>_. product') (products db)\<rparr>)))))"

definition archive :: "datetime \<Rightarrow> uuid \<Rightarrow> 'a catalog_db_scheme \<Rightarrow> exn + 'a catalog_db_scheme" where
  "archive now pid db =
     bindE (the_or NotFoundError (get_product_by_id pid db)) (\<lambda>product.
       Inr (invalidate_product_cache (p_slug product)
              (db\<lparr>products := update_by p_id pid
                    (\<lambda>p. p\<lparr>p_is_active := False,
                           p_updated_at := (if p_is_active product then now else p_updated_at p)\<rparr>)
                    (products db)\<rparr>)))"

end
