(* ===== verification/Category_Tree.thy ===== *)
theory Category_Tree
  imports Categories "HOL-Library.Multiset"
begin

text \<open>
  The shape of the category hierarchy: \<open>get_descendant_ids\<close> computes the subtree,
  \<open>move\<close> and the other operations keep the hierarchy a forest, and \<open>get_tree\<close> lists
  every category exactly once.
\<close>

section \<open>The parent relation\<close>

definition child_rel :: "category list \<Rightarrow> (uuid \<times> uuid) set" where
  "child_rel cats = {(p, cat_id c) | p c. c \<in> set cats \<and> cat_parent_id c = Some p}"

definition forest :: "category list \<Rightarrow> bool" where
  "forest cats \<longleftrightarrow> unique_by cat_id cats
     \<and> (\<forall>c \<in> set cats. \<forall>p. cat_parent_id c = Some p \<longrightarrow> p \<in> cat_id ` set cats)
     \<and> acyclic (child_rel cats)"

abbreviation forest_ok :: "'a catalog_db_scheme \<Rightarrow> bool" where
  "forest_ok db \<equiv> forest (categories db)"

lemma child_rel_set: "set a = set b \<Longrightarrow> child_rel a = child_rel b"
  by (simp add: child_rel_def)

lemma set_list_all [simp]: "set (list_all_categories coll db) = set (categories db)"
  by (simp add: list_all_categories_def)

lemma mset_list_all: "mset (list_all_categories coll db) = mset (categories db)"
  by (simp add: list_all_categories_def)

lemma children_rel: "cat_id ` set (children_of x cats) = child_rel cats `` {x}"
  by (auto simp: children_of_def child_rel_def)

lemma child_rel_finite: "finite (child_rel cats)"
proof (rule finite_subset)
  show "child_rel cats \<subseteq> (\<lambda>c. (the (cat_parent_id c), cat_id c)) ` set cats"
    by (force simp: child_rel_def)
qed simp

lemma child_rel_range: "Range (child_rel cats) \<subseteq> cat_id ` set cats"
  by (auto simp: child_rel_def)

lemma forest_alt:
  "forest cats \<longleftrightarrow> unique_by cat_id cats \<and> Domain (child_rel cats) \<subseteq> cat_id ` set cats
     \<and> acyclic (child_rel cats)"
  by (fastforce simp: forest_def child_rel_def)

section \<open>The walk computes the subtree\<close>

lemma walk_subtree_sound:
  "set (walk_subtree cats fr ds) \<subseteq> set ds \<union> (child_rel cats)\<^sup>+ `` set fr"
proof (induction cats fr ds rule: walk_subtree.induct)
  case (2 cats x fr ds)
  obtain fr' ds' where v: "visit_children (children_of x cats) fr ds = (fr', ds')" by fastforce
  from visit_children_props(1,2) [OF v] children_rel [of x cats]
  have s: "set ds' = set ds \<union> child_rel cats `` {x}" "set fr' \<subseteq> set fr \<union> child_rel cats `` {x}"
    by auto
  have "set (walk_subtree cats fr' ds') \<subseteq> set ds' \<union> (child_rel cats)\<^sup>+ `` set fr'"
    using "2.IH" v by simp
  also have "\<dots> \<subseteq> set ds \<union> (child_rel cats)\<^sup>+ `` set (x # fr)"
  proof -
    have "(child_rel cats)\<^sup>+ `` set fr' \<subseteq> (child_rel cats)\<^sup>+ `` set (x # fr)"
    proof
      fix z assume "z \<in> (child_rel cats)\<^sup>+ `` set fr'"
      then obtain y where y: "y \<in> set fr'" "(y, z) \<in> (child_rel cats)\<^sup>+" by auto
      from y(1) s(2) have "y \<in> set fr \<or> (x, y) \<in> child_rel cats" by auto
      with y(2) show "z \<in> (child_rel cats)\<^sup>+ `` set (x # fr)" by (auto intro: trancl_into_trancl2)
    qed
    with s(1) show ?thesis by auto
  qed
  finally show ?case by (simp add: v)
qed simp

lemma walk_subtree_closed:
  "child_rel cats `` (insert c (set ds) - set fr) \<subseteq> set ds \<Longrightarrow>
     set ds \<subseteq> set (walk_subtree cats fr ds) \<and>
     child_rel cats `` insert c (set (walk_subtree cats fr ds)) \<subseteq> set (walk_subtree cats fr ds)"
proof (induction cats fr ds rule: walk_subtree.induct)
  case (1 cats ds)
  then show ?case by auto
next
  case (2 cats x fr ds)
  obtain fr' ds' where v: "visit_children (children_of x cats) fr ds = (fr', ds')" by fastforce
  from visit_children_props(1,2) [OF v] children_rel [of x cats]
  have s: "set ds' = set ds \<union> child_rel cats `` {x}" "set fr' = set fr \<union> (set ds' - set ds)"
    by auto
  have "child_rel cats `` (insert c (set ds') - set fr') \<subseteq> set ds'"
  proof
    fix z assume "z \<in> child_rel cats `` (insert c (set ds') - set fr')"
    then obtain y where y: "(y, z) \<in> child_rel cats" "y \<in> insert c (set ds')" "y \<notin> set fr'" by auto
    show "z \<in> set ds'"
    proof (cases "y = x")
      case True
      with y(1) s(1) show ?thesis by auto
    next
      case False
      with y s(2) have "y \<in> insert c (set ds) - set (x # fr)" by auto
      with y(1) "2.prems" have "z \<in> set ds" by blast
      with s(1) show ?thesis by simp
    qed
  qed
  with "2.IH" v have "set ds' \<subseteq> set (walk_subtree cats fr' ds') \<and>
      child_rel cats `` insert c (set (walk_subtree cats fr' ds')) \<subseteq> set (walk_subtree cats fr' ds')"
    by simp
  with s(1) v show ?case by auto
qed

lemma get_descendants:
  "set (get_descendant_ids coll cid db) = {d. (cid, d) \<in> (child_rel (categories db))\<^sup>+}"
proof -
  let ?cats = "list_all_categories coll db"
  let ?D = "set (walk_subtree ?cats [cid] [])"
  have rel: "child_rel ?cats = child_rel (categories db)" by (rule child_rel_set) simp
  have "?D \<subseteq> (child_rel ?cats)\<^sup>+ `` {cid}" using walk_subtree_sound [of ?cats "[cid]" "[]"] by simp
  moreover have "child_rel ?cats `` insert cid ?D \<subseteq> ?D"
    using walk_subtree_closed [of ?cats cid "[]" "[cid]"] by simp
  then have "d \<in> ?D" if "(cid, d) \<in> (child_rel ?cats)\<^sup>+" for d
    using that by (induct rule: trancl_induct [OF that]) blast+
  ultimately show ?thesis unfolding get_descendant_ids_def rel by blast
qed

section \<open>Every operation keeps the forest\<close>

lemma invalidate_tree_categories [simp]:
  "categories (invalidate_tree_cache db) = categories db"
  "products (invalidate_tree_cache db) = products db"
  by (simp_all add: invalidate_tree_cache_def)

lemma forest_create:
  assumes "forest_ok db" "category_create nid data db = Inr (c, db')" "get_category_by_id nid db = None"
  shows "forest_ok db'"
proof -
  let ?cats = "categories db"
  from assms(2) have c: "categories db' = ?cats @ [c]" "cat_id c = nid" "cat_parent_id c = cc_parent_id data"
      and p: "\<forall>p. cc_parent_id data = Some p \<longrightarrow> p \<in> cat_id ` set ?cats"
    by (auto simp: category_create_def Let_def get_category_by_id_def find_by_None
        split: if_splits option.splits)
  have nid: "nid \<notin> cat_id ` set ?cats" using assms(3) by (simp add: get_category_by_id_def find_by_None)
  have ac: "acyclic (child_rel ?cats)" using assms(1) by (simp add: forest_def)
  have "acyclic (child_rel (?cats @ [c]))"
  proof (cases "cc_parent_id data")
    case None
    then have "child_rel (?cats @ [c]) = child_rel ?cats" using c by (auto simp: child_rel_def)
    with ac show ?thesis by simp
  next
    case (Some q)
    have r: "child_rel (?cats @ [c]) = insert (q, nid) (child_rel ?cats)"
      using c Some by (auto simp: child_rel_def)
    have "(nid, q) \<notin> (child_rel ?cats)\<^sup>*"
    proof
      assume "(nid, q) \<in> (child_rel ?cats)\<^sup>*"
      then show False
      proof (cases rule: converse_rtranclE)
        case base
        with p Some nid show False by simp
      next
        case (step y)
        then have "(nid, y) \<in> child_rel ?cats" by simp
        with assms(1) nid show False by (auto simp: forest_def child_rel_def)
      qed
    qed
    with ac r show ?thesis by (simp add: acyclic_insert)
  qed
  moreover have "find_by cat_id nid ?cats = None" using assms(3) by (simp add: get_category_by_id_def)
  ultimately show ?thesis using assms(1) c p by (auto simp: forest_def unique_by_append_one)
qed

lemma forest_update:
  assumes "forest_ok db" "category_update cid data db = Inr (c, db')"
  shows "forest_ok db'"
proof -
  let ?cats = "categories db"
  from assms(2) have e: "categories db' = update_by cat_id cid (apply_category_update data) ?cats"
    by (auto simp: category_update_def bindE_eq_Inr)
  have k: "cat_id (apply_category_update data r) = cat_id r"
      "cat_parent_id (apply_category_update data r) = cat_parent_id r" for r
    by (simp_all add: apply_category_update_def)
  have "map (\<lambda>c. (cat_id c, cat_parent_id c)) (categories db') = map (\<lambda>c. (cat_id c, cat_parent_id c)) ?cats"
    unfolding e by (rule map_update_by_same) (simp add: k)
  then have m: "(\<lambda>c. (cat_id c, cat_parent_id c)) ` set (categories db') = (\<lambda>c. (cat_id c, cat_parent_id c)) ` set ?cats"
    by (metis set_map)
  have rel: "child_rel cs = {(p, i). (i, Some p) \<in> (\<lambda>c. (cat_id c, cat_parent_id c)) ` set cs}" for cs
    by (force simp: child_rel_def image_iff)
  have "unique_by cat_id (categories db')" using assms(1) by (simp add: e unique_update_by k forest_def)
  moreover have "child_rel (categories db') = child_rel ?cats" by (simp add: rel m)
  moreover have "cat_id ` set (categories db') = cat_id ` set ?cats"
    unfolding e by (metis k(1) keys_update_by set_map)
  ultimately show ?thesis using assms(1) by (simp add: forest_alt)
qed

text \<open>What \<open>move\<close> does to the parent relation.\<close>

lemma child_rel_move:
  "child_rel (update_by cat_id cid (\<lambda>c. c\<lparr>cat_parent_id := np\<rparr>) cats) \<subseteq>
     {(p, x) \<in> child_rel cats. x \<noteq> cid} \<union> {(p, cid) | p. np = Some p}"
  by (auto simp: child_rel_def set_update_by)

lemma forest_move:
  assumes "forest_ok db" "category_move coll cid np db = Inr (c, db')"
  shows "forest_ok db'"
proof -
  let ?cats = "categories db" and ?R = "child_rel (categories db)"
  let ?S = "{(p, x) \<in> ?R. x \<noteq> cid}"
  from assms(2) have e: "categories db' = update_by cat_id cid (\<lambda>c. c\<lparr>cat_parent_id := np\<rparr>) ?cats"
      and ck: "check_new_parent coll cid np db = Inr ()"
    by (auto simp: category_move_def bindE_eq_Inr)
  have acR: "acyclic ?R" using assms(1) by (simp add: forest_def)
  have sub: "?S \<subseteq> ?R" by auto
  have ac: "acyclic (child_rel (categories db'))"
  proof (cases np)
    case None
    with child_rel_move [of cid np ?cats] e have "child_rel (categories db') \<subseteq> ?S" by auto
    with sub have "child_rel (categories db') \<subseteq> ?R" by (rule order_trans [rotated])
    with acR show ?thesis by (rule acyclic_subset)
  next
    case (Some p)
    from ck Some have "p \<noteq> cid" "(cid, p) \<notin> ?R\<^sup>+"
      by (auto simp: check_new_parent_def get_descendants split: if_splits)
    then have "(cid, p) \<notin> ?R\<^sup>*" by (simp add: rtrancl_eq_or_trancl)
    with rtrancl_mono [OF sub] have "(cid, p) \<notin> ?S\<^sup>*" by blast
    then have "acyclic (insert (p, cid) ?S)"
      using acyclic_subset [OF acR sub] by (simp add: acyclic_insert)
    moreover have "child_rel (categories db') \<subseteq> insert (p, cid) ?S"
      using child_rel_move [of cid np ?cats] e Some by auto
    ultimately show ?thesis by (rule acyclic_subset)
  qed
  have ids: "cat_id ` set (categories db') = cat_id ` set ?cats"
    unfolding e by (metis (no_types, lifting) category.select_convs(1) category.surjective category.update_convs(2) keys_update_by set_map)
  have par: "np = Some p \<Longrightarrow> p \<in> cat_id ` set ?cats" for p
    using ck by (auto simp: check_new_parent_def get_category_by_id_def find_by_None split: if_splits)
  have "unique_by cat_id (categories db')" using assms(1) by (simp add: e unique_update_by forest_def)
  moreover have "\<forall>c \<in> set (categories db'). \<forall>p. cat_parent_id c = Some p \<longrightarrow> p \<in> cat_id ` set (categories db')"
    unfolding ids using par assms(1) by (auto simp: e set_update_by forest_def)
  ultimately show ?thesis using ac by (simp add: forest_def)
qed

lemma forest_delete:
  assumes "forest_ok db" "category_delete cid db = Inr db'"
  shows "forest_ok db'"
proof -
  from assms(2) have e: "categories db' = filter (\<lambda>c. cat_id c \<noteq> cid) (categories db)"
      and nc: "\<forall>c \<in> set (categories db). cat_parent_id c \<noteq> Some cid"
    by (auto simp: category_delete_def has_children_def bindE_eq_Inr filter_empty_conv split: if_splits)
  have "child_rel (categories db') \<subseteq> child_rel (categories db)" by (auto simp: e child_rel_def)
  with assms(1) have "acyclic (child_rel (categories db'))" by (auto simp: forest_def intro: acyclic_subset)
  moreover have "p \<in> cat_id ` set (categories db')" if "c \<in> set (categories db')" "cat_parent_id c = Some p" for c p
  proof -
    from that e have "c \<in> set (categories db)" by simp
    with assms(1) that(2) have "p \<in> cat_id ` set (categories db)" by (auto simp: forest_def)
    moreover have "p \<noteq> cid" using \<open>c \<in> set (categories db)\<close> that(2) nc by auto
    ultimately show ?thesis by (auto simp: e)
  qed
  ultimately show ?thesis using assms(1) by (auto simp: forest_def e unique_by_filter)
qed


section \<open>\<open>get_tree\<close> lists every category once\<close>

fun flatten :: "category_node \<Rightarrow> category list" where
  "flatten (CategoryNode c ts) = c # concat (map flatten ts)"

lemma those_eq_Some: "those xs = Some ys \<longleftrightarrow> xs = map Some ys"
  by (induction xs arbitrary: ys) (auto split: option.splits simp: Cons_eq_map_conv)

lemma those_None: "those xs = None \<longleftrightarrow> None \<in> set xs"
  by (induction xs) (auto split: option.splits)

text \<open>The fuel only has to exceed the number of descendants.\<close>

lemma attach_enough_fuel:
  assumes "acyclic (child_rel cats)" "card ((child_rel cats)\<^sup>+ `` {cat_id node}) < n"
  shows "\<exists>t. attach n cats node = Some t"
  using assms(2)
proof (induction n arbitrary: node)
  case (Suc n)
  let ?R = "child_rel cats"
  have fin: "finite (?R\<^sup>+ `` {x})" for x
    using child_rel_finite [of cats] by (simp add: finite_Image finite_trancl)
  have "attach n cats child \<noteq> None" if "child \<in> set (children_of (cat_id node) cats)" for child
  proof -
    from that have r: "(cat_id node, cat_id child) \<in> ?R" by (auto simp: children_of_def child_rel_def)
    have "?R\<^sup>+ `` {cat_id child} \<subset> ?R\<^sup>+ `` {cat_id node}"
    proof
      show "?R\<^sup>+ `` {cat_id child} \<subseteq> ?R\<^sup>+ `` {cat_id node}" using r by (auto intro: trancl_into_trancl2)
      show "?R\<^sup>+ `` {cat_id child} \<noteq> ?R\<^sup>+ `` {cat_id node}" using r assms(1) by (auto simp: acyclic_def)
    qed
    then have "card (?R\<^sup>+ `` {cat_id child}) < card (?R\<^sup>+ `` {cat_id node})"
      by (intro psubset_card_mono fin)
    with Suc.prems Suc.IH [of child] show ?thesis by auto
  qed
  then have "None \<notin> attach n cats ` set (children_of (cat_id node) cats)" by (metis imageE)
  then have "those (map (attach n cats) (children_of (cat_id node) cats)) \<noteq> None"
    by (simp add: those_None)
  then show ?case by auto
qed simp

lemma attach_set:
  assumes "unique_by cat_id cats" "attach n cats node = Some t" "node \<in> set cats"
  shows "set (flatten t) = {c \<in> set cats. (cat_id node, cat_id c) \<in> (child_rel cats)\<^sup>*}"
  using assms(2,3)
proof (induction n arbitrary: node t)
  case (Suc n)
  let ?R = "child_rel cats"
  from Suc.prems(1) obtain ts where ts: "map (attach n cats) (children_of (cat_id node) cats) = map Some ts"
      "t = CategoryNode node ts"
    by (auto simp: those_eq_Some)
  have "set (flatten t) = insert node (\<Union>u \<in> set ts. set (flatten u))" by (simp add: ts(2))
  also have "(\<Union>u \<in> set ts. set (flatten u)) = (\<Union>u \<in> Some ` set ts. set (flatten (the u)))" by simp
  also have "Some ` set ts = attach n cats ` set (children_of (cat_id node) cats)"
    by (metis list.set_map ts(1))
  also have "(\<Union>u \<in> attach n cats ` set (children_of (cat_id node) cats). set (flatten (the u))) =
      (\<Union>child \<in> set (children_of (cat_id node) cats). {c \<in> set cats. (cat_id child, cat_id c) \<in> ?R\<^sup>*})"
  proof -
    have "set (flatten (the (attach n cats child))) = {c \<in> set cats. (cat_id child, cat_id c) \<in> ?R\<^sup>*}"
      if "child \<in> set (children_of (cat_id node) cats)" for child
    proof -
      from that ts(1) obtain u where "attach n cats child = Some u"
        by (metis (no_types, lifting) imageE image_eqI list.set_map)
      with Suc.IH that show ?thesis by (auto simp: children_of_def)
    qed
    then show ?thesis by simp
  qed
  also have "\<dots> = {c \<in> set cats. \<exists>y. (cat_id node, y) \<in> ?R \<and> (y, cat_id c) \<in> ?R\<^sup>*}"
    by (auto simp: children_of_def child_rel_def)
  also have "insert node \<dots> = {c \<in> set cats. (cat_id node, cat_id c) \<in> ?R\<^sup>*}"
  proof -
    have "(cat_id node, cat_id c) \<in> ?R\<^sup>* \<longleftrightarrow>
        c = node \<or> (\<exists>y. (cat_id node, y) \<in> ?R \<and> (y, cat_id c) \<in> ?R\<^sup>*)" if "c \<in> set cats" for c
    proof -
      have "cat_id c = cat_id node \<longleftrightarrow> c = node"
        using that Suc.prems(2) assms(1) find_by_unique [of cat_id cats] by (metis option.inject)
      then show ?thesis by (metis converse_rtranclE converse_rtrancl_into_rtrancl rtrancl.rtrancl_refl)
    qed
    with Suc.prems(2) show ?thesis by auto
  qed
  finally show ?case .
qed simp

text \<open>A category has one parent, so the ancestors of a category are comparable.\<close>

lemma child_rel_parent_unique:
  "unique_by cat_id cats \<Longrightarrow> (a, x) \<in> child_rel cats \<Longrightarrow> (b, x) \<in> child_rel cats \<Longrightarrow> a = b"
  by (clarsimp simp: child_rel_def) (metis find_by_unique option.inject)

lemma ancestors_comparable:
  assumes "unique_by cat_id cats" "(a, z) \<in> (child_rel cats)\<^sup>*" "(b, z) \<in> (child_rel cats)\<^sup>*"
  shows "(a, b) \<in> (child_rel cats)\<^sup>* \<or> (b, a) \<in> (child_rel cats)\<^sup>*"
  using assms(2,3)
proof (induction rule: rtrancl_induct)
  case base
  then show ?case by simp
next
  case (step y z)
  from step.prems show ?case
  proof (cases rule: rtranclE)
    case base
    with step.hyps show ?thesis by auto
  next
    case (step w)
    with child_rel_parent_unique [OF assms(1)] \<open>(y, z) \<in> child_rel cats\<close> have "w = y" by blast
    with step(1) \<open>(b, y) \<in> (child_rel cats)\<^sup>* \<Longrightarrow> _\<close> show ?thesis by simp
  qed
qed

lemma siblings_disjoint:
  assumes "unique_by cat_id cats" "acyclic (child_rel cats)"
    and "(x, a) \<in> child_rel cats" "(x, b) \<in> child_rel cats" "a \<noteq> b"
    and "(a, z) \<in> (child_rel cats)\<^sup>*" "(b, z) \<in> (child_rel cats)\<^sup>*"
  shows False
proof -
  have False if "(a, b) \<in> (child_rel cats)\<^sup>*" "(x, a) \<in> child_rel cats" "(x, b) \<in> child_rel cats" "a \<noteq> b" for a b
    using that(1)
  proof (cases rule: rtranclE)
    case base
    with that(4) show False by simp
  next
    case (step w)
    with child_rel_parent_unique [OF assms(1)] that(3) have "w = x" by blast
    with step(1) that(2) have "(x, x) \<in> (child_rel cats)\<^sup>+" by (meson rtrancl_into_trancl2)
    with assms(2) show False by (simp add: acyclic_def)
  qed
  from this [of a b] this [of b a] ancestors_comparable [OF assms(1,6,7)] assms(3-5) show False by auto
qed

lemma distinct_concat_map:
  assumes "distinct cs" "\<And>c. c \<in> set cs \<Longrightarrow> distinct (f c)"
    and "\<And>a b. a \<in> set cs \<Longrightarrow> b \<in> set cs \<Longrightarrow> a \<noteq> b \<Longrightarrow> set (f a) \<inter> set (f b) = {}"
  shows "distinct (concat (map f cs))"
  using assms by (induction cs) (simp_all, blast)

lemma map_some_the: "map f xs = map Some ys \<Longrightarrow> ys = map (the \<circ> f) xs"
proof (induction xs arbitrary: ys)
  case (Cons x xs)
  then obtain y zs where "ys = y # zs" by (cases ys) auto
  with Cons show ?case by simp
qed simp

lemma attach_distinct:
  assumes "unique_by cat_id cats" "acyclic (child_rel cats)" "attach n cats node = Some t" "node \<in> set cats"
  shows "distinct (flatten t)"
  using assms(3,4)
proof (induction n arbitrary: node t)
  case (Suc n)
  let ?cs = "children_of (cat_id node) cats"
  from Suc.prems(1) obtain ts where ts: "map (attach n cats) ?cs = map Some ts" "t = CategoryNode node ts"
    by (auto simp: those_eq_Some)
  have tm: "ts = map (the \<circ> attach n cats) ?cs" by (rule map_some_the [OF ts(1)])
  have at: "attach n cats c = Some (the (attach n cats c))" if "c \<in> set ?cs" for c
    using that ts(1) by (metis (no_types, lifting) imageE image_eqI list.set_map option.sel)
  have mem: "c \<in> set cats" "(cat_id node, cat_id c) \<in> child_rel cats" if "c \<in> set ?cs" for c
    using that by (auto simp: children_of_def child_rel_def)
  have st: "set (flatten (the (attach n cats c))) = {d \<in> set cats. (cat_id c, cat_id d) \<in> (child_rel cats)\<^sup>*}"
    if "c \<in> set ?cs" for c
    by (rule attach_set [OF assms(1) at mem(1)]) (rule that)+
  have "distinct ?cs" using assms(1) by (simp add: children_of_def unique_by_def distinct_map)
  moreover have "set (flatten (the (attach n cats a))) \<inter> set (flatten (the (attach n cats b))) = {}"
    if "a \<in> set ?cs" "b \<in> set ?cs" "a \<noteq> b" for a b
  proof -
    have "cat_id a \<noteq> cat_id b" using that mem(1) find_by_unique [OF assms(1)] by (metis option.inject)
    with siblings_disjoint [OF assms(1,2) mem(2) [OF that(1)] mem(2) [OF that(2)]] st that
    show ?thesis by auto
  qed
  ultimately have "distinct (concat (map (\<lambda>c. flatten (the (attach n cats c))) ?cs))"
    using Suc.IH [OF at mem(1)] by (intro distinct_concat_map) auto
  moreover have "node \<notin> set (concat (map flatten ts))"
  proof
    assume "node \<in> set (concat (map flatten ts))"
    then obtain c where "c \<in> set ?cs" "(cat_id c, cat_id node) \<in> (child_rel cats)\<^sup>*"
      using st by (auto simp: tm)
    with mem(2) have "(cat_id node, cat_id node) \<in> (child_rel cats)\<^sup>+" by (meson rtrancl_into_trancl2)
    with assms(2) show False by (simp add: acyclic_def)
  qed
  ultimately show ?case by (simp add: ts(2)) (simp add: tm comp_def)
qed simp

lemma has_root:
  assumes "forest cats" "c \<in> set cats"
  shows "\<exists>r \<in> set cats. cat_parent_id r = None \<and> (cat_id r, cat_id c) \<in> (child_rel cats)\<^sup>*"
proof -
  have "wf (child_rel cats)"
    using assms(1) by (intro finite_acyclic_wf child_rel_finite) (simp add: forest_def)
  then show ?thesis using assms(2)
  proof (induction "cat_id c" arbitrary: c rule: wf_induct_rule)
    case less
    show ?case
    proof (cases "cat_parent_id c")
      case None
      with less.prems show ?thesis by auto
    next
      case (Some p)
      with assms(1) less.prems obtain q where q: "q \<in> set cats" "cat_id q = p" by (force simp: forest_def)
      have r: "(cat_id q, cat_id c) \<in> child_rel cats" using Some q less.prems by (auto simp: child_rel_def)
      from less.hyps [OF r q(1)] r show ?thesis by (meson rtrancl.rtrancl_into_rtrancl)
    qed
  qed
qed

lemma forest_tree:
  assumes f: "forest cats"
  defines "roots \<equiv> filter (\<lambda>c. cat_parent_id c = None) cats"
  shows "\<exists>ts. those (map (attach (Suc (length cats)) cats) roots) = Some ts
           \<and> mset (concat (map flatten ts)) = mset cats"
proof -
  define build where "build = attach (Suc (length cats)) cats"
  have u: "unique_by cat_id cats" and a: "acyclic (child_rel cats)" using f by (simp_all add: forest_def)
  have ex: "\<exists>t. build c = Some t" for c
    unfolding build_def
  proof (rule attach_enough_fuel [OF a])
    have "(child_rel cats)\<^sup>+ `` {cat_id c} \<subseteq> cat_id ` set cats"
      using child_rel_range [of cats] trancl_range [of "child_rel cats"] by blast
    then have "card ((child_rel cats)\<^sup>+ `` {cat_id c}) \<le> card (cat_id ` set cats)"
      by (intro card_mono) simp_all
    also have "\<dots> \<le> length cats" by (metis card_length length_map list.set_map)
    finally show "card ((child_rel cats)\<^sup>+ `` {cat_id c}) < Suc (length cats)" by simp
  qed
  have at: "build c = Some (the (build c))" for c
    using ex [of c] by auto
  let ?ts = "map (\<lambda>c. the (build c)) roots"
  have th: "those (map build roots) = Some ?ts" 
    using at by (auto simp: those_eq_Some)
  have rm: "c \<in> set cats" if "c \<in> set roots" for c using that by (simp add: roots_def)
  have st: "set (flatten (the (build c))) = {d \<in> set cats. (cat_id c, cat_id d) \<in> (child_rel cats)\<^sup>*}"
    if "c \<in> set roots" for c by (rule attach_set [OF u at [of c, unfolded build_def] rm [OF that], folded build_def])
  have "set (concat (map flatten ?ts)) = set cats"
    using has_root [OF f] by (auto simp: st roots_def)
  moreover have "distinct (concat (map (\<lambda>c. flatten (the (build c))) roots))"
  proof (rule distinct_concat_map)
    show "distinct roots" using u by (simp add: roots_def unique_by_def distinct_map)
    show "distinct (flatten (the (build c)))" if "c \<in> set roots" for c
      by (rule attach_distinct [OF u a at [of c, unfolded build_def] rm [OF that], folded build_def])
    show "set (flatten (the (build r))) \<inter> set (flatten (the (build q))) = {}"
      if "r \<in> set roots" "q \<in> set roots" "r \<noteq> q" for r q
    proof -
      have ne: "cat_id r \<noteq> cat_id q" using that rm find_by_unique [OF u] by (metis option.inject)
      have noup: "(y, cat_id x) \<notin> child_rel cats" if "x \<in> set roots" for x y
        using that find_by_unique [OF u] by (auto simp: child_rel_def roots_def) (metis option.distinct(1) option.inject)
      have "(cat_id r, cat_id q) \<notin> (child_rel cats)\<^sup>*" "(cat_id q, cat_id r) \<notin> (child_rel cats)\<^sup>*"
        using ne noup that by (metis rtranclE)+
      with ancestors_comparable [OF u] st that show ?thesis by auto
    qed
  qed
  ultimately have "mset (concat (map flatten ?ts)) = mset cats"
    using u by (intro set_eq_iff_mset_eq_distinct [THEN iffD1])
      (simp_all add: comp_def unique_by_def distinct_map)
  with th show ?thesis unfolding build_def by blast
qed

lemma get_tree_lists_all:
  assumes "forest_ok db"
  shows "\<exists>ts. get_tree coll db = Some ts \<and> mset (concat (map flatten ts)) = mset (categories db)"
proof -
  let ?cats = "list_all_categories coll db"
  have "mset (map cat_id ?cats) = mset (map cat_id (categories db))" by (simp add: mset_list_all)
  then have "unique_by cat_id ?cats"
    using assms mset_eq_imp_distinct_iff by (auto simp: forest_def unique_by_def simp del: mset_map)
  moreover have "child_rel ?cats = child_rel (categories db)" by (rule child_rel_set) simp
  ultimately have "forest ?cats" using assms by (simp add: forest_def)
  from forest_tree [OF this] show ?thesis by (simp add: get_tree_def Let_def mset_list_all)
qed

end
