(* ===== verification/Catalog_Routes.thy ===== *)
theory Catalog_Routes
  imports Products Category_Tree
begin

text \<open>
  The catalogue's routes (\<open>app/modules/catalog/router.py\<close>): each handler with its declared
  permission, the validation of its body, the service call and the commit, and the read
  handlers with the cache in front of them. A handler takes the current user and the
  state and gives the response, or the exception, and the state that is stored
  afterwards. The image upload is in \<open>Storage\<close>.
\<close>

section \<open>Commit\<close>

text \<open>The column ranges and check constraints that the flush of a commit applies (the price
  columns are checked by the service's own flushes).\<close>

definition catalog_constraints :: "'a catalog_db_scheme \<Rightarrow> bool" where
  "catalog_constraints db \<longleftrightarrow>
     (\<forall>c \<in> set (categories db). int4 (cat_sort_order c))
     \<and> (\<forall>i \<in> set (inventories db). inventory_row_ok i \<and> int4 (stock_total i) \<and> int4 (stock_reserved i))
     \<and> (\<forall>h \<in> set (inventory_log db). int4 (ih_quantity h))"

definition commit_catalog :: "'r \<Rightarrow> 'a catalog_db_scheme \<Rightarrow> exn + ('r \<times> 'a catalog_db_scheme)" where
  "commit_catalog r db = (if catalog_constraints db then Inr (r, db) else Inl DBAPIError)"

definition validated :: "bool \<Rightarrow> exn + unit" where
  "validated ok = (if ok then Inr () else Inl RequestValidationError)"

section \<open>Views\<close>

definition serialize_product :: "product \<Rightarrow> 'a catalog_db_scheme \<Rightarrow> exn + product_public" where
  "serialize_product p db =
     bindE (the_or ValidationError (p_images p)) (\<lambda>images.
     bindE (the_or ValidationError (p_specifications p)) (\<lambda>specifications.
       Inr \<lparr> pp_id = p_id p, pp_sku = p_sku p, pp_name = p_name p, pp_slug = p_slug p,
             pp_short_description = p_short_description p, pp_description = p_description p,
             pp_price = of_int (p_price p), pp_discount_price = map_option of_int (p_discount_price p),
             pp_brand = p_brand p, pp_category_id = p_category_id p,
             pp_images = images, pp_specifications = specifications,
             pp_is_active = p_is_active p, pp_is_featured = p_is_featured p,
             pp_is_popular = p_is_popular p, pp_available_stock = available_stock p db \<rparr>))"

section \<open>Category routes\<close>

definition get_category_tree ::
    "(string \<Rightarrow> nat) \<Rightarrow> 'a catalog_db_scheme \<Rightarrow> (exn + category_node list) \<times> 'a catalog_db_scheme" where
  "get_category_tree coll db =
     (case cache_get_json CATEGORY_TREE_CACHE_KEY (redis db) of
        Some (CachedTree t) \<Rightarrow> (Inr t, db)
      | Some _ \<Rightarrow> (Inl ValidationError, db)
      | None \<Rightarrow> request db (bindE (the_or RecursionError (get_tree coll db)) (\<lambda>t.
            Inr (t, db\<lparr>redis := cache_set_json CATEGORY_TREE_CACHE_KEY (CachedTree t) (redis db)\<rparr>))))"

definition create_category ::
    "user \<Rightarrow> uuid \<Rightarrow> category_create_request \<Rightarrow> 'a catalog_db_scheme \<Rightarrow> (exn + category_node) \<times> 'a catalog_db_scheme" where
  "create_category u new_id data db = request db (
     bindE (require_permission ''category.manage'' u) (\<lambda>_.
     bindE (validated (category_create_valid data)) (\<lambda>_.
     bindE (category_create new_id data db) (\<lambda>(category, db').
       commit_catalog (CategoryNode category []) db'))))"

definition update_category ::
    "user \<Rightarrow> uuid \<Rightarrow> category_update_request \<Rightarrow> 'a catalog_db_scheme \<Rightarrow> (exn + category_node) \<times> 'a catalog_db_scheme" where
  "update_category u cid data db = request db (
     bindE (require_permission ''category.manage'' u) (\<lambda>_.
     bindE (validated (category_update_valid data)) (\<lambda>_.
     bindE (category_update cid data db) (\<lambda>(category, db').
       commit_catalog (CategoryNode category []) db'))))"

definition move_category ::
    "(string \<Rightarrow> nat) \<Rightarrow> user \<Rightarrow> uuid \<Rightarrow> uuid option \<Rightarrow> 'a catalog_db_scheme
     \<Rightarrow> (exn + category_node) \<times> 'a catalog_db_scheme" where
  "move_category coll u cid new_parent db = request db (
     bindE (require_permission ''category.manage'' u) (\<lambda>_.
     bindE (category_move coll cid new_parent db) (\<lambda>(category, db').
       commit_catalog (CategoryNode category []) db')))"

definition delete_category ::
    "user \<Rightarrow> uuid \<Rightarrow> 'a catalog_db_scheme \<Rightarrow> (exn + unit) \<times> 'a catalog_db_scheme" where
  "delete_category u cid db = request db (
     bindE (require_permission ''category.manage'' u) (\<lambda>_.
     bindE (category_delete cid db) (commit_catalog ())))"

section \<open>Product routes\<close>

definition list_products ::
    "(string \<Rightarrow> nat) \<Rightarrow> (string \<Rightarrow> string \<Rightarrow> bool) \<Rightarrow> page_params \<Rightarrow> product_query
     \<Rightarrow> sort_column \<Rightarrow> bool \<Rightarrow> 'a catalog_db_scheme \<Rightarrow> exn + product_public page" where
  "list_products coll ilike ps q sort_by sort_desc db =
     bindE (validated (page_params_valid ps)) (\<lambda>_.
       let (items, n) = search coll ilike (q\<lparr>q_is_featured := None, q_is_active := Some True\<rparr>)
                          sort_by sort_desc (page_offset ps) (pg_page_size ps) db
       in bindE (mapE (\<lambda>p. serialize_product p db) items) (\<lambda>views. Inr (page_create views n ps)))"

definition cached_list ::
    "string \<Rightarrow> ('a catalog_db_scheme \<Rightarrow> product list) \<Rightarrow> 'a catalog_db_scheme
     \<Rightarrow> (exn + product_public list) \<times> 'a catalog_db_scheme" where
  "cached_list key query db =
     (case cache_get_json key (redis db) of
        Some (CachedProducts vs) \<Rightarrow> (Inr vs, db)
      | Some _ \<Rightarrow> (Inl ValidationError, db)
      | None \<Rightarrow> request db (bindE (mapE (\<lambda>p. serialize_product p db) (query db)) (\<lambda>vs.
            Inr (vs, db\<lparr>redis := cache_set_json key (CachedProducts vs) (redis db)\<rparr>))))"

definition featured_products :: "'a catalog_db_scheme \<Rightarrow> (exn + product_public list) \<times> 'a catalog_db_scheme" where
  "featured_products = cached_list FEATURED_PRODUCTS_CACHE_KEY (list_flagged True False 8)"

definition popular_products :: "'a catalog_db_scheme \<Rightarrow> (exn + product_public list) \<times> 'a catalog_db_scheme" where
  "popular_products = cached_list POPULAR_PRODUCTS_CACHE_KEY (list_flagged False True 8)"

definition get_product :: "string \<Rightarrow> 'a catalog_db_scheme \<Rightarrow> (exn + product_public) \<times> 'a catalog_db_scheme" where
  "get_product slug db =
     (case cache_get_json (product_cache_key slug) (redis db) of
        Some (CachedProduct v) \<Rightarrow> (Inr v, db)
      | Some _ \<Rightarrow> (Inl ValidationError, db)
      | None \<Rightarrow> request db (
          bindE (the_or NotFoundError (get_product_by_slug slug db)) (\<lambda>p.
          bindE (serialize_product p db) (\<lambda>v.
            Inr (v, db\<lparr>redis := cache_set_json (product_cache_key slug) (CachedProduct v) (redis db)\<rparr>)))))"

text \<open>The response of a write serializes the object in the session, whose price attributes hold
  the values of the request and not the rounded columns.\<close>

definition create_product ::
    "(decimal \<Rightarrow> int) \<Rightarrow> user \<Rightarrow> uuid \<Rightarrow> datetime \<Rightarrow> product_create_request \<Rightarrow> 'a catalog_db_scheme
     \<Rightarrow> (exn + product_public) \<times> 'a catalog_db_scheme" where
  "create_product num u new_id now data db = request db (
     bindE (require_permission ''product.create'' u) (\<lambda>_.
     bindE (validated (product_create_valid data)) (\<lambda>_.
     bindE (product_create num new_id now data db) (\<lambda>(p, db').
     bindE (serialize_product p db') (\<lambda>v.
       commit_catalog (v\<lparr>pp_price := pc_price data, pp_discount_price := pc_discount_price data\<rparr>) db')))))"

text \<open>Here the response is built after the commit, so a product whose JSONB columns hold \<open>null\<close>
  is stored although the request ends with an exception.\<close>

definition update_product ::
    "(decimal \<Rightarrow> int) \<Rightarrow> user \<Rightarrow> datetime \<Rightarrow> uuid \<Rightarrow> product_update_request \<Rightarrow> 'a catalog_db_scheme
     \<Rightarrow> (exn + product_public) \<times> 'a catalog_db_scheme" where
  "update_product num u now pid data db =
     (case bindE (require_permission ''product.update'' u) (\<lambda>_.
           bindE (validated (product_update_valid data)) (\<lambda>_.
           bindE (product_update num now pid data db) (\<lambda>(p, db'). commit_catalog p db'))) of
        Inl e \<Rightarrow> (Inl e, db)
      | Inr (p, db') \<Rightarrow>
          (bindE (serialize_product p db') (\<lambda>v.
             Inr (v\<lparr> pp_price := (case pu_price data of Some (Some x) \<Rightarrow> x | _ \<Rightarrow> pp_price v),
                     pp_discount_price := (case pu_discount_price data of Some d \<Rightarrow> d | None \<Rightarrow> pp_discount_price v) \<rparr>)),
           db'))"

definition archive_product ::
    "user \<Rightarrow> datetime \<Rightarrow> uuid \<Rightarrow> 'a catalog_db_scheme \<Rightarrow> (exn + unit) \<times> 'a catalog_db_scheme" where
  "archive_product u now pid db = request db (
     bindE (require_permission ''product.delete'' u) (\<lambda>_.
     bindE (archive now pid db) (commit_catalog ())))"

definition restock_product ::
    "user \<Rightarrow> uuid \<Rightarrow> inventory_adjust_request \<Rightarrow> 'a catalog_db_scheme \<Rightarrow> (exn + unit) \<times> 'a catalog_db_scheme" where
  "restock_product u pid data db = request db (
     bindE (require_permission ''product.update'' u) (\<lambda>_.
     bindE (validated (inventory_adjust_valid data)) (\<lambda>_.
     bindE (restock pid (ia_delta data) (Some (u_id u)) db) (commit_catalog ()))))"

definition adjust_product_inventory ::
    "user \<Rightarrow> uuid \<Rightarrow> inventory_adjust_request \<Rightarrow> 'a catalog_db_scheme \<Rightarrow> (exn + unit) \<times> 'a catalog_db_scheme" where
  "adjust_product_inventory u pid data db = request db (
     bindE (require_permission ''product.update'' u) (\<lambda>_.
     bindE (validated (inventory_adjust_valid data)) (\<lambda>_.
     bindE (adjust pid (ia_delta data) (Some (u_id u)) db) (commit_catalog ()))))"

end
