(* ===== verification/Catalog_Invariants.thy ===== *)
theory Catalog_Invariants
  imports Catalog_Routes
begin

text \<open>
  What the catalogue keeps true through every write: identifiers, slugs and SKUs are
  unique, every product has a category and a stock row, discounts do not exceed prices,
  the categories form a forest; and the cache is coherent, so that an answer read from
  it is the answer the database would give, except for the stock figure.
\<close>

section \<open>Well-formedness\<close>

definition price_ok :: "product \<Rightarrow> bool" where
  "price_ok p \<longleftrightarrow> 0 \<le> p_price p \<and>
     (case p_discount_price p of None \<Rightarrow> True | Some d \<Rightarrow> 0 \<le> d \<and> d \<le> p_price p)"

definition products_ok :: "'a catalog_db_scheme \<Rightarrow> bool" where
  "products_ok db \<longleftrightarrow>
     unique_by p_id (products db) \<and> unique_by p_slug (products db) \<and> unique_by p_sku (products db)
     \<and> map inv_product_id (inventories db) = map p_id (products db)
     \<and> (\<forall>p \<in> set (products db). p_category_id p \<in> cat_id ` set (categories db))
     \<and> (\<forall>p \<in> set (products db). price_ok p)"

definition catalog_ok :: "'a catalog_db_scheme \<Rightarrow> bool" where
  "catalog_ok db \<longleftrightarrow> inventory_ok db \<and> forest_ok db \<and> products_ok db
     \<and> unique_by cat_slug (categories db)"

lemma invalidate_product_frame [simp]:
  "categories (invalidate_product_cache s db) = categories db"
  "products (invalidate_product_cache s db) = products db"
  "inventories (invalidate_product_cache s db) = inventories db"
  "inventories (invalidate_tree_cache db) = inventories db"
  "inventory_ok (invalidate_product_cache s db) = inventory_ok db"
  "inventory_ok (invalidate_tree_cache db) = inventory_ok db"
  by (simp_all add: invalidate_product_cache_def invalidate_tree_cache_def inventory_ok_def)

lemma inventory_ok_cong: "inventories db' = inventories db \<Longrightarrow> inventory_ok db' = inventory_ok db"
  by (simp add: inventory_ok_def)

lemma catalog_ok_cong:
  assumes "categories db' = categories db" "products db' = products db" "inventories db' = inventories db"
  shows "catalog_ok db' = catalog_ok db"
  using assms by (simp add: catalog_ok_def products_ok_def inventory_ok_def)

lemma catalog_ok_cache [simp]:
  "catalog_ok (db\<lparr>redis := c\<rparr>) = catalog_ok db"
  "catalog_ok (invalidate_product_cache s db) = catalog_ok db"
  "catalog_ok (invalidate_tree_cache db) = catalog_ok db"
  by (rule catalog_ok_cong; simp)+

subsection \<open>Stock writes\<close>

text \<open>A stock write changes stock rows and the log, nothing else, and keeps the row ids.\<close>

definition stock_write :: "'a catalog_db_scheme \<Rightarrow> 'a catalog_db_scheme \<Rightarrow> bool" where
  "stock_write db db' \<longleftrightarrow>
     categories db' = categories db \<and> products db' = products db \<and> redis db' = redis db
     \<and> map inv_product_id (inventories db') = map inv_product_id (inventories db)"

lemma stock_write_put:
  assumes "\<And>r. inv_product_id (f r) = inv_product_id r"
  shows "stock_write db (add_inventory_history h (put_inventory p f db))"
  by (simp add: stock_write_def)
     (simp add: add_inventory_history_def put_inventory_def keys_update_by assms)

lemma stock_write_ops:
  "reserve p q rt rid a db = Inr db' \<Longrightarrow> stock_write db db'"
  "release p q rt rid a db = Inr db' \<Longrightarrow> stock_write db db'"
  "commit_purchase p q rt rid a db = Inr db' \<Longrightarrow> stock_write db db'"
  "restock p q a db = Inr db' \<Longrightarrow> stock_write db db'"
  "adjust p q a db = Inr db' \<Longrightarrow> stock_write db db'"
  by (auto simp: reserve_def release_def commit_purchase_def restock_def adjust_def bindE_eq_Inr
      Let_def intro!: stock_write_put split: if_splits)

lemma stock_write_refl [simp]: "stock_write db db"
  by (simp add: stock_write_def)

lemma stock_write_trans: "stock_write a b \<Longrightarrow> stock_write b c \<Longrightarrow> stock_write a c"
  by (simp add: stock_write_def)

lemma catalog_ok_stock_write:
  "stock_write db db' \<Longrightarrow> inventory_ok db' \<Longrightarrow> catalog_ok db \<Longrightarrow> catalog_ok db'"
  by (simp add: stock_write_def catalog_ok_def products_ok_def)

subsection \<open>Category writes\<close>

lemma category_create_frame:
  assumes "category_create nid data db = Inr (c, db')"
  shows "products db' = products db" "inventories db' = inventories db"
    "categories db' = categories db @ [c]" "cat_slug c = cc_slug data"
    "get_category_by_slug (cc_slug data) db = None"
    "redis db' = cache_delete [CATEGORY_TREE_CACHE_KEY, HOME_CACHE_KEY] (redis db)"
  using assms
  by (auto simp: category_create_def Let_def invalidate_tree_cache_def split: if_splits)

lemma category_update_frame:
  assumes "category_update cid data db = Inr (c, db')"
  shows "products db' = products db" "inventories db' = inventories db"
    "categories db' = update_by cat_id cid (apply_category_update data) (categories db)"
    "redis db' = cache_delete [CATEGORY_TREE_CACHE_KEY, HOME_CACHE_KEY] (redis db)"
  using assms by (auto simp: category_update_def bindE_eq_Inr invalidate_tree_cache_def)

lemma category_move_frame:
  assumes "category_move coll cid np db = Inr (c, db')"
  shows "products db' = products db" "inventories db' = inventories db"
    "categories db' = update_by cat_id cid (\<lambda>c. c\<lparr>cat_parent_id := np\<rparr>) (categories db)"
    "redis db' = cache_delete [CATEGORY_TREE_CACHE_KEY, HOME_CACHE_KEY] (redis db)"
  using assms by (auto simp: category_move_def bindE_eq_Inr invalidate_tree_cache_def)

lemma category_delete_frame:
  assumes "category_delete cid db = Inr db'"
  shows "products db' = products db" "inventories db' = inventories db"
    "categories db' = filter (\<lambda>c. cat_id c \<noteq> cid) (categories db)"
    "redis db' = cache_delete [CATEGORY_TREE_CACHE_KEY, HOME_CACHE_KEY] (redis db)"
    "\<forall>p \<in> set (products db). p_category_id p \<noteq> cid"
  using assms
  by (auto simp: category_delete_def bindE_eq_Inr invalidate_tree_cache_def has_products_def
      filter_empty_conv split: if_splits)

lemma cat_ids_update_by:
  assumes "\<And>c. cat_id (f c) = cat_id c" "\<And>c. cat_slug (f c) = cat_slug c"
  shows "cat_id ` set (update_by cat_id cid f cs) = cat_id ` set cs"
    and "unique_by cat_slug (update_by cat_id cid f cs) = unique_by cat_slug cs"
proof -
  show "cat_id ` set (update_by cat_id cid f cs) = cat_id ` set cs"
    using keys_update_by [of cat_id cid f cs] assms(1) by (metis set_map)
  show "unique_by cat_slug (update_by cat_id cid f cs) = unique_by cat_slug cs"
    using map_update_by_same [of cat_id cid cat_slug f cs] assms(2) by (simp add: unique_by_def)
qed

lemma catalog_ok_category_create:
  assumes "catalog_ok db" "category_create nid data db = Inr (c, db')" "get_category_by_id nid db = None"
  shows "catalog_ok db'"
  using assms(1) forest_create [OF _ assms(2,3)] category_create_frame [OF assms(2)]
  by (auto simp: catalog_ok_def products_ok_def inventory_ok_def unique_by_append_one
      get_category_by_slug_def)

lemma catalog_ok_category_update:
  assumes "catalog_ok db" "category_update cid data db = Inr (c, db')"
  shows "catalog_ok db'"
  using assms(1) forest_update [OF _ assms(2)] category_update_frame [OF assms(2)]
  by (simp add: catalog_ok_def products_ok_def inventory_ok_def cat_ids_update_by apply_category_update_def)

lemma catalog_ok_category_move:
  assumes "catalog_ok db" "category_move coll cid np db = Inr (c, db')"
  shows "catalog_ok db'"
  using assms(1) forest_move [OF _ assms(2)] category_move_frame [OF assms(2)]
  by (simp add: catalog_ok_def products_ok_def inventory_ok_def cat_ids_update_by)

lemma catalog_ok_category_delete:
  assumes "catalog_ok db" "category_delete cid db = Inr db'"
  shows "catalog_ok db'"
proof -
  note fr = category_delete_frame [OF assms(2)]
  have "p_category_id p \<in> cat_id ` set (categories db')" if "p \<in> set (products db)" for p
    using that assms(1) fr(3,5) by (fastforce simp: catalog_ok_def products_ok_def)
  with assms(1) forest_delete [OF _ assms(2)] fr(1-3) show ?thesis
    by (simp add: catalog_ok_def products_ok_def inventory_ok_def unique_by_filter)
qed

subsection \<open>Product writes\<close>

lemma scalar_one_or_none_None: "scalar_one_or_none rs = Inr None \<longleftrightarrow> rs = []"
  by (cases rs rule: scalar_one_or_none.cases) simp_all

lemma new_product_sel [simp]:
  "p_id (new_product num nid now data) = nid"
  "p_sku (new_product num nid now data) = pc_sku data"
  "p_slug (new_product num nid now data) = pc_slug data"
  "p_price (new_product num nid now data) = num (pc_price data)"
  "p_discount_price (new_product num nid now data) = map_option num (pc_discount_price data)"
  "p_category_id (new_product num nid now data) = pc_category_id data"
  by (simp_all add: new_product_def)

lemma product_create_frame:
  assumes "product_create num nid now data db = Inr (p, db')"
  shows "p = new_product num nid now data"
    "products db' = products db @ [p]" "categories db' = categories db"
    "inventories db' = inventories db @
       [\<lparr>inv_product_id = nid, stock_total = pc_initial_stock data, stock_reserved = 0\<rparr>]"
    "0 \<le> pc_initial_stock data"
    "\<forall>r \<in> set (products db). p_slug r \<noteq> p_slug p \<and> p_sku r \<noteq> p_sku p"
    "p_category_id p \<in> cat_id ` set (categories db)"
    "redis db' = cache_delete [product_cache_key (p_slug p), FEATURED_PRODUCTS_CACHE_KEY,
                               POPULAR_PRODUCTS_CACHE_KEY, HOME_CACHE_KEY] (redis db)"
proof -
  let ?p = "new_product num nid now data"
  let ?i = "\<lparr>inv_product_id = nid, stock_total = pc_initial_stock data, stock_reserved = 0\<rparr>"
  let ?db = "invalidate_product_cache (p_slug ?p)
               (db\<lparr>products := products db @ [?p], inventories := inventories db @ [?i]\<rparr>)"
  from assms have q: "get_by_slug_or_sku (pc_slug data) (pc_sku data) db = Inr None"
      and c: "get_category_by_id (pc_category_id data) db \<noteq> None"
      and i: "inventory_row_ok ?i" and e: "p = ?p \<and> db' = ?db"
    by (simp_all only: product_create_def Let_def bindE_eq_Inr)
       (simp_all split: if_splits)
  from e show "p = ?p" by (rule conjunct1)
  from e show "products db' = products db @ [p]" "categories db' = categories db"
      "inventories db' = inventories db @ [?i]" by simp_all
  from e show "redis db' = cache_delete [product_cache_key (p_slug p), FEATURED_PRODUCTS_CACHE_KEY,
      POPULAR_PRODUCTS_CACHE_KEY, HOME_CACHE_KEY] (redis db)" by (simp add: invalidate_product_cache_def)
  from i show "0 \<le> pc_initial_stock data" by (simp add: inventory_row_ok_def)
  from q e show "\<forall>r \<in> set (products db). p_slug r \<noteq> p_slug p \<and> p_sku r \<noteq> p_sku p"
    by (simp add: get_by_slug_or_sku_def scalar_one_or_none_None filter_empty_conv)
  from c e show "p_category_id p \<in> cat_id ` set (categories db)"
    by (simp add: get_category_by_id_def find_by_None)
qed

lemma product_update_frame:
  assumes "product_update num now pid data db = Inr (p', db')"
  obtains p where "get_product_by_id pid db = Some p" "check_new_price data p = Inr ()"
    "check_new_category (pu_category_id data) db = Inr ()"
    "p' = (apply_product_update num data p)\<lparr>p_updated_at := (if touches data p then now else p_updated_at p)\<rparr>"
    "\<not> null_violation data"
    "products db' = update_by p_id pid (\<lambda>_. p') (products db)"
    "categories db' = categories db" "inventories db' = inventories db"
    "redis db' = cache_delete [product_cache_key (p_slug p), FEATURED_PRODUCTS_CACHE_KEY,
                               POPULAR_PRODUCTS_CACHE_KEY, HOME_CACHE_KEY] (redis db)"
proof -
  from assms obtain p where p: "get_product_by_id pid db = Some p" "check_new_category (pu_category_id data) db = Inr ()"
      "check_new_price data p = Inr ()"
    and r: "(let product' = (apply_product_update num data p)
             \<lparr>p_updated_at := (if touches data p then now else p_updated_at p)\<rparr>
       in if null_violation data \<or> \<not> product_row_fits product' then Inl DBAPIError
          else Inr (product', invalidate_product_cache (p_slug p)
                 (db\<lparr>products := update_by p_id pid (\<lambda>_. product') (products db)\<rparr>))) = Inr (p', db')"
    unfolding product_update_def bindE_eq_Inr the_or_eq_Inr
    by (elim exE conjE) (rule that, assumption, simp, simp, assumption)
  let ?p = "(apply_product_update num data p)
             \<lparr>p_updated_at := (if touches data p then now else p_updated_at p)\<rparr>"
  have n: "\<not> null_violation data"
    using r unfolding Let_def by (cases "null_violation data") (simp_all only: simp_thms if_True Inl_Inr_False)
  have "(?p, invalidate_product_cache (p_slug p)
           (db\<lparr>products := update_by p_id pid (\<lambda>_. ?p) (products db)\<rparr>)) = (p', db')"
    using r n unfolding Let_def
    by (cases "product_row_fits ?p") (simp_all only: simp_thms if_True if_False Inl_Inr_False Inr_inject)
  note pr = this [unfolded prod.inject]
  note e1 = pr [THEN conjunct1]
  note e2 = pr [THEN conjunct2, unfolded e1, symmetric]
  show thesis
    by (rule that [OF p(1,3,2) e1 [symmetric] n])
       (simp_all only: e2 invalidate_product_frame, simp_all add: invalidate_product_cache_def)
qed

lemma archive_frame:
  assumes "archive now pid db = Inr db'"
  obtains p f where "get_product_by_id pid db = Some p"
    "f = (\<lambda>q. q\<lparr>p_is_active := False, p_updated_at := (if p_is_active p then now else p_updated_at q)\<rparr>)"
    "products db' = update_by p_id pid f (products db)"
    "categories db' = categories db" "inventories db' = inventories db"
    "redis db' = cache_delete [product_cache_key (p_slug p), FEATURED_PRODUCTS_CACHE_KEY,
                               POPULAR_PRODUCTS_CACHE_KEY, HOME_CACHE_KEY] (redis db)"
  using assms by (auto simp: archive_def bindE_eq_Inr invalidate_product_cache_def)

lemma apply_product_update_keys [simp]:
  "p_id (apply_product_update num data p) = p_id p"
  "p_sku (apply_product_update num data p) = p_sku p"
  "p_slug (apply_product_update num data p) = p_slug p"
  by (simp_all add: apply_product_update_def)

text \<open>Rewriting one row with a row of the same keys.\<close>

lemma update_row_eq:
  assumes u: "unique_by p_id (products db)" and p: "get_product_by_id pid db = Some p"
  shows "update_by p_id pid f (products db) = map (\<lambda>r. if r = p then f p else r) (products db)"
proof -
  have k: "p_id p = pid" "find_by p_id pid (products db) = Some p"
    using p find_by_key unfolding get_product_by_id_def by metis+
  have one: "r = p" if "r \<in> set (products db)" "p_id r = pid" for r
    using find_by_unique [OF u that(1)] that(2) k(2) by (metis option.inject)
  show ?thesis
    unfolding update_by_def by (rule map_cong [OF refl]) (metis one k(1))
qed

lemma products_ok_rewrite:
  assumes ok: "products_ok db" and p: "get_product_by_id pid db = Some p"
    and db': "products db' = update_by p_id pid f (products db)"
      "categories db' = categories db" "inventories db' = inventories db"
    and f: "p_id (f p) = p_id p" "p_slug (f p) = p_slug p" "p_sku (f p) = p_sku p"
      "p_category_id (f p) \<in> cat_id ` set (categories db)" "price_ok (f p)"
  shows "products_ok db'"
proof -
  have u: "unique_by p_id (products db)" using ok by (simp add: products_ok_def)
  note eq = update_row_eq [OF u p, of f]
  have same: "map g (products db') = map g (products db)" if "g (f p) = g p" for g :: "product \<Rightarrow> 'k"
  proof -
    have "g (if r = p then f p else r) = g r" for r using that by simp
    then show ?thesis unfolding db'(1) eq map_map comp_def by (rule map_cong [OF refl])
  qed
  have mem: "r \<in> set (products db) \<or> r = f p" if "r \<in> set (products db')" for r
    using that by (auto simp: db' eq)
  have "\<forall>q \<in> set (products db'). p_category_id q \<in> cat_id ` set (categories db')"
      "\<forall>q \<in> set (products db'). price_ok q"
    using ok mem f(4,5) unfolding products_ok_def db'(2) by blast+
  with ok same [of p_id, OF f(1)] same [of p_slug, OF f(2)] same [of p_sku, OF f(3)] show ?thesis
    unfolding products_ok_def unique_by_def db'(3) by metis
qed

lemma price_ok_create:
  assumes "numeric_column num" "product_create_valid data"
  shows "price_ok (new_product num nid now data)"
  using assms numeric_column.num_mono [OF assms(1)] numeric_column.num_nonneg [OF assms(1)]
  by (auto simp: price_ok_def product_create_valid_def discount_below_price_def split: option.splits)

lemma price_ok_update:
  assumes num: "numeric_column num" and v: "product_update_valid data"
    and c: "check_new_price data p = Inr ()" and ok: "price_ok p"
  shows "price_ok (apply_product_update num data p)"
proof -
  note [simp] = numeric_column.num_whole [OF num]
  define pr where "pr = (case pu_price data of Some (Some x) \<Rightarrow> x | _ \<Rightarrow> of_int (p_price p))"
  define ds where "ds = (case pu_discount_price data of
                           None \<Rightarrow> map_option of_int (p_discount_price p) | Some d \<Rightarrow> d)"
  have pr: "p_price (apply_product_update num data p) = num pr" "0 \<le> pr"
    using v ok by (auto simp: apply_product_update_def pr_def product_update_valid_def sent_and_def
        price_ok_def split: option.splits)
  have ds: "p_discount_price (apply_product_update num data p) = map_option num ds"
    by (auto simp: apply_product_update_def ds_def option.map_comp comp_def option.map_ident
        split: option.splits)
  have dd: "0 \<le> d \<and> d \<le> pr" if "ds = Some d" for d
    using that v c ok
    by (auto simp: ds_def pr_def check_new_price_def Let_def product_update_valid_def sent_and_def
        price_ok_def split: option.splits if_splits)
  show ?thesis
    using numeric_column.num_nonneg [OF num pr(2)] numeric_column.num_mono [OF num]
      numeric_column.num_nonneg [OF num] dd
    by (auto simp: price_ok_def pr ds split: option.splits)
qed

lemma catalog_ok_product_create:
  assumes "numeric_column num" "product_create_valid data" "catalog_ok db"
    and "product_create num nid now data db = Inr (p, db')" "get_product_by_id nid db = None"
  shows "catalog_ok db'"
proof -
  note fr = product_create_frame [OF assms(4)]
  have nid: "nid \<notin> p_id ` set (products db)" using assms(5) by (simp add: get_product_by_id_def find_by_None)
  have id: "p_id p = nid" by (simp add: fr(1))
  have keys: "map inv_product_id (inventories db) = map p_id (products db)"
    using assms(3) by (simp add: catalog_ok_def products_ok_def)
  then have "nid \<notin> inv_product_id ` set (inventories db)" using nid by (metis set_map)
  then have "inventory_ok db'"
    using assms(3) fr(4,5)
    by (auto simp: catalog_ok_def inventory_ok_def unique_by_append_one find_by_None inventory_row_ok_def)
  moreover have "products_ok db'"
    using assms(3) fr(2,3,4,6,7) id nid price_ok_create [OF assms(1,2)]
    by (auto simp: catalog_ok_def products_ok_def unique_by_append_one find_by_None fr(1) keys image_iff)
  ultimately show ?thesis using assms(3) fr(3) by (simp add: catalog_ok_def)
qed

lemma catalog_ok_rewrite:
  assumes "catalog_ok db" "get_product_by_id pid db = Some p"
    "products db' = update_by p_id pid f (products db)"
    "categories db' = categories db" "inventories db' = inventories db"
    "p_id (f p) = p_id p" "p_slug (f p) = p_slug p" "p_sku (f p) = p_sku p"
    "p_category_id (f p) \<in> cat_id ` set (categories db)" "price_ok (f p)"
  shows "catalog_ok db'"
  using assms(1,4) products_ok_rewrite [OF _ assms(2-10)] inventory_ok_cong [OF assms(5)]
  by (simp add: catalog_ok_def)

lemma get_product_in: "get_product_by_id pid db = Some p \<Longrightarrow> p \<in> set (products db)"
  by (simp add: get_product_by_id_def find_by_mem)

lemma catalog_ok_product_update:
  assumes "numeric_column num" "product_update_valid data" "catalog_ok db"
    and "product_update num now pid data db = Inr (p', db')"
  shows "catalog_ok db'"
proof -
  from assms(4) obtain p where p: "get_product_by_id pid db = Some p" "check_new_price data p = Inr ()"
      "check_new_category (pu_category_id data) db = Inr ()"
      "p' = (apply_product_update num data p)\<lparr>p_updated_at := (if touches data p then now else p_updated_at p)\<rparr>"
      "products db' = update_by p_id pid (\<lambda>_. p') (products db)"
      "categories db' = categories db" "inventories db' = inventories db"
    by (rule product_update_frame)
  have pm: "price_ok p" "p_category_id p \<in> cat_id ` set (categories db)"
    using get_product_in [OF p(1)] assms(3) by (auto simp: catalog_ok_def products_ok_def)
  have "p_category_id p' \<in> cat_id ` set (categories db)"
    using p(3) pm(2) unfolding p(4)
    by (auto simp: apply_product_update_def set_field_def check_new_category_def get_category_by_id_def
        find_by_None split: option.splits if_splits)
  moreover have "price_ok p'"
    using price_ok_update [OF assms(1,2) p(2) pm(1)] unfolding p(4) by (simp add: price_ok_def split: option.splits)
  ultimately show ?thesis
    by (intro catalog_ok_rewrite [OF assms(3) p(1,5,6,7)]) (simp_all add: p(4))
qed

lemma catalog_ok_archive:
  assumes "catalog_ok db" "archive now pid db = Inr db'"
  shows "catalog_ok db'"
proof -
  from assms(2) obtain p f where p: "get_product_by_id pid db = Some p"
      "f = (\<lambda>q. q\<lparr>p_is_active := False, p_updated_at := (if p_is_active p then now else p_updated_at q)\<rparr>)"
      "products db' = update_by p_id pid f (products db)"
      "categories db' = categories db" "inventories db' = inventories db"
    by (rule archive_frame)
  have "price_ok p" "p_category_id p \<in> cat_id ` set (categories db)"
    using get_product_in [OF p(1)] assms(1) by (auto simp: catalog_ok_def products_ok_def)
  then show ?thesis
    by (intro catalog_ok_rewrite [OF assms(1) p(1,3,4,5)]) (simp_all add: p(2) price_ok_def split: option.splits)
qed

section \<open>Cache coherence\<close>

text \<open>What a view shows apart from the stock, which changes without touching the cache.\<close>

definition hide_stock :: "product_public \<Rightarrow> product_public" where
  "hide_stock v = v\<lparr>pp_available_stock := 0\<rparr>"

definition product_view :: "product \<Rightarrow> exn + product_public" where
  "product_view p = map_sum id hide_stock (serialize_product p
     \<lparr>inventories = [], inventory_log = [], categories = [], products = [], redis = Map.empty\<rparr>)"

lemma view_of_serialize: "map_sum id hide_stock (serialize_product p db) = product_view p"
  by (cases "p_images p"; cases "p_specifications p")
     (simp_all add: product_view_def serialize_product_def hide_stock_def)

lemma serialize_view: "serialize_product p db = Inr v \<Longrightarrow> product_view p = Inr (hide_stock v)"
  using view_of_serialize [of p db] by simp

definition cache_coherent :: "(string \<Rightarrow> nat) \<Rightarrow> 'a catalog_db_scheme \<Rightarrow> bool" where
  "cache_coherent coll db \<longleftrightarrow>
     (\<forall>slug c. redis db (product_cache_key slug) = Some c \<longrightarrow>
        (\<exists>v p. c = CachedProduct v \<and> get_product_by_slug slug db = Some p
               \<and> product_view p = Inr (hide_stock v)))
     \<and> (\<forall>c. redis db FEATURED_PRODUCTS_CACHE_KEY = Some c \<longrightarrow>
        (\<exists>vs. c = CachedProducts vs \<and>
               map product_view (list_flagged True False 8 db) = map (Inr \<circ> hide_stock) vs))
     \<and> (\<forall>c. redis db POPULAR_PRODUCTS_CACHE_KEY = Some c \<longrightarrow>
        (\<exists>vs. c = CachedProducts vs \<and>
               map product_view (list_flagged False True 8 db) = map (Inr \<circ> hide_stock) vs))
     \<and> (\<forall>c. redis db CATEGORY_TREE_CACHE_KEY = Some c \<longrightarrow>
        (\<exists>t. c = CachedTree t \<and> get_tree coll db = Some t))"

lemma cache_keys_distinct [simp]:
  "product_cache_key s \<noteq> FEATURED_PRODUCTS_CACHE_KEY" "FEATURED_PRODUCTS_CACHE_KEY \<noteq> product_cache_key s"
  "product_cache_key s \<noteq> POPULAR_PRODUCTS_CACHE_KEY" "POPULAR_PRODUCTS_CACHE_KEY \<noteq> product_cache_key s"
  "product_cache_key s \<noteq> CATEGORY_TREE_CACHE_KEY" "CATEGORY_TREE_CACHE_KEY \<noteq> product_cache_key s"
  "product_cache_key s \<noteq> HOME_CACHE_KEY"
  "FEATURED_PRODUCTS_CACHE_KEY \<noteq> POPULAR_PRODUCTS_CACHE_KEY"
  "FEATURED_PRODUCTS_CACHE_KEY \<noteq> CATEGORY_TREE_CACHE_KEY"
  "POPULAR_PRODUCTS_CACHE_KEY \<noteq> CATEGORY_TREE_CACHE_KEY"
  "POPULAR_PRODUCTS_CACHE_KEY \<noteq> FEATURED_PRODUCTS_CACHE_KEY"
  "CATEGORY_TREE_CACHE_KEY \<noteq> FEATURED_PRODUCTS_CACHE_KEY"
  "CATEGORY_TREE_CACHE_KEY \<noteq> POPULAR_PRODUCTS_CACHE_KEY"
  by (simp_all add: product_cache_key_def FEATURED_PRODUCTS_CACHE_KEY_def POPULAR_PRODUCTS_CACHE_KEY_def
      CATEGORY_TREE_CACHE_KEY_def HOME_CACHE_KEY_def)

text \<open>The answers depend on the tables alone.\<close>

lemma reads_cong:
  "products db' = products db \<Longrightarrow> get_product_by_slug slug db' = get_product_by_slug slug db"
  "products db' = products db \<Longrightarrow> list_flagged f g n db' = list_flagged f g n db"
  "categories db' = categories db \<Longrightarrow> get_tree coll db' = get_tree coll db"
  by (simp_all add: get_product_by_slug_def list_flagged_def get_tree_def list_all_categories_def)

text \<open>Keys may go at any time: their time to live runs out, or a write deletes them. A write that
  changes a table must delete the keys computed from it.\<close>

lemma coherent_categories_write:
  assumes "cache_coherent coll db" "products db' = products db" "redis db' \<subseteq>\<^sub>m redis db"
    and "redis db' CATEGORY_TREE_CACHE_KEY \<noteq> None \<Longrightarrow> categories db' = categories db"
  shows "cache_coherent coll db'"
proof -
  have k: "redis db k = Some c" if "redis db' k = Some c" for k c
    using assms(3) that by (auto simp: map_le_def dom_def)
  show ?thesis
    using assms(1,4) reads_cong(3) [of db' db coll]
    unfolding cache_coherent_def reads_cong(1,2) [OF assms(2)] by (auto dest!: k)
qed

lemma coherent_products_write:
  assumes "cache_coherent coll db" "categories db' = categories db" "redis db' \<subseteq>\<^sub>m redis db"
    and "redis db' FEATURED_PRODUCTS_CACHE_KEY = None" "redis db' POPULAR_PRODUCTS_CACHE_KEY = None"
    and "\<And>slug. redis db' (product_cache_key slug) \<noteq> None \<Longrightarrow>
           get_product_by_slug slug db' = get_product_by_slug slug db"
  shows "cache_coherent coll db'"
proof -
  have k: "redis db k = Some c" if "redis db' k = Some c" for k c
    using assms(3) that by (auto simp: map_le_def dom_def)
  show ?thesis
    using assms(1,4,5,6) unfolding cache_coherent_def reads_cong(3) [OF assms(2)]
    by (auto dest!: k)
qed

lemma cache_delete_le: "cache_delete ks c \<subseteq>\<^sub>m c"
  by (auto simp: cache_delete_def map_le_def)

lemma cache_delete_at: "cache_delete ks c k = (if k \<in> set ks then None else c k)"
  by (simp add: cache_delete_def)

lemma coherent_stock_write:
  "stock_write db db' \<Longrightarrow> cache_coherent coll db \<Longrightarrow> cache_coherent coll db'"
  by (rule coherent_categories_write) (simp_all add: stock_write_def)

lemma coherent_expire:
  "c \<subseteq>\<^sub>m redis db \<Longrightarrow> cache_coherent coll db \<Longrightarrow> cache_coherent coll (db\<lparr>redis := c\<rparr>)"
  by (rule coherent_categories_write) simp_all

lemma slug_of_rewrite:
  "p_slug p \<noteq> s \<Longrightarrow> p_slug q \<noteq> s \<Longrightarrow>
     find_by p_slug s (map (\<lambda>r. if r = p then q else r) t) = find_by p_slug s t"
  by (induction t) simp_all

lemma coherent_product_rewrite:
  assumes "cache_coherent coll db" "unique_by p_id (products db)" "get_product_by_id pid db = Some p"
    and "products db' = update_by p_id pid f (products db)" "categories db' = categories db"
    and "redis db' = cache_delete [product_cache_key (p_slug p), FEATURED_PRODUCTS_CACHE_KEY,
                                   POPULAR_PRODUCTS_CACHE_KEY, HOME_CACHE_KEY] (redis db)"
    and "p_slug (f p) = p_slug p"
  shows "cache_coherent coll db'"
proof (rule coherent_products_write [OF assms(1,5)])
  show "get_product_by_slug slug db' = get_product_by_slug slug db"
    if "redis db' (product_cache_key slug) \<noteq> None" for slug
  proof -
    from that have "p_slug p \<noteq> slug" by (auto simp: assms(6) cache_delete_at)
    then show ?thesis
      unfolding get_product_by_slug_def assms(4) update_row_eq [OF assms(2,3)]
      by (simp add: slug_of_rewrite assms(7))
  qed
qed (simp_all add: assms(6) cache_delete_le cache_delete_at)

lemma coherent_product_create:
  assumes "cache_coherent coll db" "product_create num nid now data db = Inr (p, db')"
  shows "cache_coherent coll db'"
proof -
  note fr = product_create_frame [OF assms(2)]
  show ?thesis
  proof (rule coherent_products_write [OF assms(1) fr(3)])
    show "get_product_by_slug slug db' = get_product_by_slug slug db"
      if "redis db' (product_cache_key slug) \<noteq> None" for slug
      using that by (auto simp: fr(2,8) cache_delete_at get_product_by_slug_def find_by_append split: option.split)
  qed (simp_all add: fr(8) cache_delete_le cache_delete_at)
qed

lemma coherent_product_update:
  assumes "cache_coherent coll db" "catalog_ok db" "product_update num now pid data db = Inr (p', db')"
  shows "cache_coherent coll db'"
proof -
  from assms(3) obtain p where p: "get_product_by_id pid db = Some p"
      "p' = (apply_product_update num data p)\<lparr>p_updated_at := (if touches data p then now else p_updated_at p)\<rparr>"
      "products db' = update_by p_id pid (\<lambda>_. p') (products db)" "categories db' = categories db"
      "redis db' = cache_delete [product_cache_key (p_slug p), FEATURED_PRODUCTS_CACHE_KEY,
                                 POPULAR_PRODUCTS_CACHE_KEY, HOME_CACHE_KEY] (redis db)"
    by (rule product_update_frame)
  show ?thesis
    by (rule coherent_product_rewrite [OF assms(1) _ p(1,3,4,5)])
       (use assms(2) in \<open>simp_all add: catalog_ok_def products_ok_def p(2)\<close>)
qed

lemma coherent_archive:
  assumes "cache_coherent coll db" "catalog_ok db" "archive now pid db = Inr db'"
  shows "cache_coherent coll db'"
proof -
  from assms(3) obtain p f where p: "get_product_by_id pid db = Some p"
      "f = (\<lambda>q. q\<lparr>p_is_active := False, p_updated_at := (if p_is_active p then now else p_updated_at q)\<rparr>)"
      "products db' = update_by p_id pid f (products db)" "categories db' = categories db"
      "redis db' = cache_delete [product_cache_key (p_slug p), FEATURED_PRODUCTS_CACHE_KEY,
                                 POPULAR_PRODUCTS_CACHE_KEY, HOME_CACHE_KEY] (redis db)"
    by (rule archive_frame)
  show ?thesis
    by (rule coherent_product_rewrite [OF assms(1) _ p(1,3,4,5)])
       (use assms(2) in \<open>simp_all add: catalog_ok_def products_ok_def p(2)\<close>)
qed

lemma coherent_category_write:
  assumes "cache_coherent coll db" "products db' = products db"
    and "redis db' = cache_delete [CATEGORY_TREE_CACHE_KEY, HOME_CACHE_KEY] (redis db)"
  shows "cache_coherent coll db'"
  by (rule coherent_categories_write [OF assms(1,2)])
     (simp_all add: assms(3) cache_delete_le cache_delete_at)

text \<open>The reads fill the cache.\<close>

lemma coherent_get_product:
  assumes "cache_coherent coll db" shows "cache_coherent coll (snd (get_product slug db))"
proof (cases "cache_get_json (product_cache_key slug) (redis db)")
  case None
  show ?thesis
  proof (cases "bindE (the_or NotFoundError (get_product_by_slug slug db)) (\<lambda>p. serialize_product p db)")
    case (Inl e)
    then show ?thesis using None assms
      by (auto simp: get_product_def bindE_eq_Inl simp flip: not_None_eq)
  next
    case (Inr v)
    then obtain p where p: "get_product_by_slug slug db = Some p" "serialize_product p db = Inr v"
      by (auto simp: bindE_eq_Inr)
    have "cache_coherent coll (db\<lparr>redis := cache_set_json (product_cache_key slug) (CachedProduct v) (redis db)\<rparr>)"
      using assms p(1) serialize_view [OF p(2)]
      by (simp add: cache_coherent_def cache_set_json_def reads_cong [of "db\<lparr>redis := _\<rparr>" db])
    with None p show ?thesis by (simp add: get_product_def)
  qed
next
  case (Some c)
  with assms show ?thesis by (cases c) (simp_all add: get_product_def)
qed

lemma coherent_cached_list:
  assumes c: "cache_coherent coll db"
    and k: "k = FEATURED_PRODUCTS_CACHE_KEY \<and> q = list_flagged True False 8
          \<or> k = POPULAR_PRODUCTS_CACHE_KEY \<and> q = list_flagged False True 8"
  shows "cache_coherent coll (snd (cached_list k q db))"
proof (cases "cache_get_json k (redis db)")
  case None
  show ?thesis
  proof (cases "mapE (\<lambda>p. serialize_product p db) (q db)")
    case (Inl e)
    with None c show ?thesis by (simp add: cached_list_def)
  next
    case (Inr vs)
    then have "map (\<lambda>p. serialize_product p db) (q db) = map Inr vs" by (simp add: mapE_eq_Inr)
    then have "map (map_sum id hide_stock) (map (\<lambda>p. serialize_product p db) (q db)) =
        map (map_sum id hide_stock) (map Inr vs)" by simp
    then have vs: "map product_view (q db) = map (Inr \<circ> hide_stock) vs"
      by (simp add: comp_def view_of_serialize)
    have "cache_coherent coll (db\<lparr>redis := cache_set_json k (CachedProducts vs) (redis db)\<rparr>)"
      using c k vs
      by (auto simp: cache_coherent_def cache_set_json_def reads_cong [of "db\<lparr>redis := _\<rparr>" db])
    with None Inr show ?thesis by (simp add: cached_list_def)
  qed
next
  case (Some x)
  with c show ?thesis by (cases x) (simp_all add: cached_list_def)
qed

lemma coherent_get_category_tree:
  assumes "cache_coherent coll db" shows "cache_coherent coll (snd (get_category_tree coll db))"
proof (cases "cache_get_json CATEGORY_TREE_CACHE_KEY (redis db)")
  case None
  show ?thesis
  proof (cases "get_tree coll db")
    case None
    with \<open>cache_get_json _ _ = None\<close> assms show ?thesis by (simp add: get_category_tree_def)
  next
    case (Some t)
    have "cache_coherent coll (db\<lparr>redis := cache_set_json CATEGORY_TREE_CACHE_KEY (CachedTree t) (redis db)\<rparr>)"
      using assms Some
      by (simp add: cache_coherent_def cache_set_json_def reads_cong [of "db\<lparr>redis := _\<rparr>" db])
    with Some None show ?thesis by (simp add: get_category_tree_def)
  qed
next
  case (Some c)
  with assms show ?thesis by (cases c) (simp_all add: get_category_tree_def)
qed

section \<open>The catalogue as a state machine\<close>

text \<open>One step: a handler on any input, a stock movement of the order service, or keys of the
  cache running out. A new row's identifier is a fresh UUID.\<close>

inductive catalog_step ::
    "(string \<Rightarrow> nat) \<Rightarrow> (decimal \<Rightarrow> int) \<Rightarrow> 'a catalog_db_scheme \<Rightarrow> 'a catalog_db_scheme \<Rightarrow> bool"
  for coll num where
  "get_category_by_id nid db = None \<Longrightarrow> catalog_step coll num db (snd (create_category u nid cc db))"
| "catalog_step coll num db (snd (update_category u cid cu db))"
| "catalog_step coll num db (snd (move_category coll u cid np db))"
| "catalog_step coll num db (snd (delete_category u cid db))"
| "get_product_by_id nid db = None \<Longrightarrow> catalog_step coll num db (snd (create_product num u nid now pc db))"
| "catalog_step coll num db (snd (update_product num u now pid pu db))"
| "catalog_step coll num db (snd (archive_product u now pid db))"
| "catalog_step coll num db (snd (restock_product u pid ia db))"
| "catalog_step coll num db (snd (adjust_product_inventory u pid ia db))"
| "catalog_step coll num db (snd (get_category_tree coll db))"
| "catalog_step coll num db (snd (get_product slug db))"
| "catalog_step coll num db (snd (featured_products db))"
| "catalog_step coll num db (snd (popular_products db))"
| "0 \<le> q \<Longrightarrow> reserve pid q rt rid a db = Inr db' \<Longrightarrow> catalog_step coll num db db'"
| "0 \<le> q \<Longrightarrow> release pid q rt rid a db = Inr db' \<Longrightarrow> catalog_step coll num db db'"
| "0 \<le> q \<Longrightarrow> commit_purchase pid q rt rid a db = Inr db' \<Longrightarrow> catalog_step coll num db db'"
| "c \<subseteq>\<^sub>m redis db \<Longrightarrow> catalog_step coll num db (db\<lparr>redis := c\<rparr>)"

definition catalog_inv :: "(string \<Rightarrow> nat) \<Rightarrow> 'a catalog_db_scheme \<Rightarrow> bool" where
  "catalog_inv coll db \<longleftrightarrow> catalog_ok db \<and> cache_coherent coll db"

lemma commit_catalog_Inr: "commit_catalog r db = Inr (r', db') \<longleftrightarrow> r' = r \<and> db' = db \<and> catalog_constraints db"
  by (auto simp: commit_catalog_def)

lemma validated_Inr [simp]: "validated ok = Inr x \<longleftrightarrow> ok"
  by (simp add: validated_def)

lemma inv_stock_write:
  "catalog_inv coll db \<Longrightarrow> stock_write db db' \<Longrightarrow> inventory_ok db' \<Longrightarrow> catalog_inv coll db'"
  by (simp add: catalog_inv_def catalog_ok_stock_write coherent_stock_write)

lemma inv_category_writes:
  "catalog_inv coll db \<Longrightarrow> get_category_by_id nid db = None \<Longrightarrow> category_create nid cc db = Inr (c, db') \<Longrightarrow>
     catalog_inv coll db'"
  "catalog_inv coll db \<Longrightarrow> category_update cid cu db = Inr (c, db') \<Longrightarrow> catalog_inv coll db'"
  "catalog_inv coll db \<Longrightarrow> category_move coll cid np db = Inr (c, db') \<Longrightarrow> catalog_inv coll db'"
  "catalog_inv coll db \<Longrightarrow> category_delete cid db = Inr db' \<Longrightarrow> catalog_inv coll db'"
  unfolding catalog_inv_def
  by (blast intro: catalog_ok_category_create catalog_ok_category_update catalog_ok_category_move
      catalog_ok_category_delete coherent_category_write category_create_frame category_update_frame
      category_move_frame category_delete_frame)+

lemma inv_product_writes:
  "catalog_inv coll db \<Longrightarrow> numeric_column num \<Longrightarrow> product_create_valid pc \<Longrightarrow> get_product_by_id nid db = None \<Longrightarrow>
     product_create num nid now pc db = Inr (p, db') \<Longrightarrow> catalog_inv coll db'"
  "catalog_inv coll db \<Longrightarrow> numeric_column num \<Longrightarrow> product_update_valid pu \<Longrightarrow>
     product_update num now pid pu db = Inr (p, db') \<Longrightarrow> catalog_inv coll db'"
  "catalog_inv coll db \<Longrightarrow> archive now pid db = Inr db' \<Longrightarrow> catalog_inv coll db'"
  unfolding catalog_inv_def
  by (blast intro: catalog_ok_product_create catalog_ok_product_update catalog_ok_archive
      coherent_product_create coherent_product_update coherent_archive)+

lemmas route_simps =
  option.case cached.case the_or_simps bindE_simps request_simps snd_conv fst_conv

lemma reads_keep_catalog_ok:
  "catalog_ok (snd (get_category_tree coll db)) = catalog_ok db"
  "catalog_ok (snd (get_product slug db)) = catalog_ok db"
  "catalog_ok (snd (cached_list k q db)) = catalog_ok db"
proof -
  show "catalog_ok (snd (get_category_tree coll db)) = catalog_ok db"
  proof (cases "cache_get_json CATEGORY_TREE_CACHE_KEY (redis db)")
    case None
    then show ?thesis
      by (cases "get_tree coll db") (simp_all only: get_category_tree_def route_simps catalog_ok_cache)
  next
    case (Some c)
    then show ?thesis by (cases c) (simp_all only: get_category_tree_def route_simps)
  qed
  show "catalog_ok (snd (cached_list k q db)) = catalog_ok db"
  proof (cases "cache_get_json k (redis db)")
    case None
    then show ?thesis
      by (cases "mapE (\<lambda>p. serialize_product p db) (q db)")
         (simp_all only: cached_list_def route_simps catalog_ok_cache)
  next
    case (Some c)
    then show ?thesis by (cases c) (simp_all only: cached_list_def route_simps)
  qed
  show "catalog_ok (snd (get_product slug db)) = catalog_ok db"
  proof (cases "cache_get_json (product_cache_key slug) (redis db)")
    case None
    show ?thesis
    proof (cases "get_product_by_slug slug db")
      case None
      with \<open>cache_get_json _ _ = None\<close> show ?thesis by (simp only: get_product_def route_simps)
    next
      case (Some p)
      with None show ?thesis
        by (cases "serialize_product p db") (simp_all only: get_product_def route_simps catalog_ok_cache)
    qed
  next
    case (Some c)
    then show ?thesis by (cases c) (simp_all only: get_product_def route_simps)
  qed
qed

lemma commit_keeps_inventory_ok:
  "commit_catalog r db = Inr x \<Longrightarrow> unique_by inv_product_id (inventories db) \<Longrightarrow> inventory_ok db"
  by (auto simp: commit_catalog_def catalog_constraints_def inventory_ok_def split: if_splits)

lemma stock_write_unique:
  "stock_write db db' \<Longrightarrow> inventory_ok db \<Longrightarrow> unique_by inv_product_id (inventories db')"
  by (simp add: stock_write_def inventory_ok_def unique_by_def)

lemma inv_stock_ops:
  "catalog_inv coll db \<Longrightarrow> 0 \<le> q \<Longrightarrow> reserve p q rt rid a db = Inr db' \<Longrightarrow> catalog_inv coll db'"
  "catalog_inv coll db \<Longrightarrow> 0 \<le> q \<Longrightarrow> release p q rt rid a db = Inr db' \<Longrightarrow> catalog_inv coll db'"
  "catalog_inv coll db \<Longrightarrow> commit_purchase p q rt rid a db = Inr db' \<Longrightarrow> catalog_inv coll db'"
  "catalog_inv coll db \<Longrightarrow> adjust p q a db = Inr db' \<Longrightarrow> catalog_inv coll db'"
  using inv_stock_write [OF _ stock_write_ops(1)] reserve_keeps_ok
    inv_stock_write [OF _ stock_write_ops(2)] release_keeps_ok
    inv_stock_write [OF _ stock_write_ops(3)] commit_purchase_keeps_ok
    inv_stock_write [OF _ stock_write_ops(5)] adjust_keeps_ok
  by (metis catalog_inv_def catalog_ok_def)+

lemma inv_restock:
  assumes "catalog_inv coll db" shows "catalog_inv coll (snd (restock_product u pid ia db))"
  unfolding restock_product_def
proof (rule request_invariant [where I = "catalog_inv coll", OF assms])
  fix r db' assume "bindE (require_permission ''product.update'' u) (\<lambda>_. bindE (validated (inventory_adjust_valid ia)) (\<lambda>_.
     bindE (restock pid (ia_delta ia) (Some (u_id u)) db) (commit_catalog ()))) = Inr (r, db')"
  then obtain d where d: "restock pid (ia_delta ia) (Some (u_id u)) db = Inr d" "commit_catalog () d = Inr (r, db')"
    by (auto simp: bindE_eq_Inr)
  note w = stock_write_ops(4) [OF d(1)]
  have "inventory_ok d"
    using commit_keeps_inventory_ok [OF d(2)] stock_write_unique [OF w] assms
    by (simp add: catalog_inv_def catalog_ok_def)
  with inv_stock_write [OF assms w] d(2) show "catalog_inv coll db'" by (simp add: commit_catalog_Inr)
qed

lemma inv_catalog_step:
  assumes "numeric_column num" "catalog_step coll num db db'" "catalog_inv coll db"
  shows "catalog_inv coll db'"
  using assms(2,3)
proof (induction rule: catalog_step.induct)
  case (1 nid db u cc)
  then show ?case unfolding create_category_def
    by - (rule request_invariant [where I = "catalog_inv coll"], auto simp: bindE_eq_Inr commit_catalog_Inr intro: inv_category_writes)
next
  case (2 db u cid cu)
  then show ?case unfolding update_category_def
    by - (rule request_invariant [where I = "catalog_inv coll"], auto simp: bindE_eq_Inr commit_catalog_Inr intro: inv_category_writes)
next
  case (3 db u cid np)
  then show ?case unfolding move_category_def
    by - (rule request_invariant [where I = "catalog_inv coll"], auto simp: bindE_eq_Inr commit_catalog_Inr intro: inv_category_writes)
next
  case (4 db u cid)
  then show ?case unfolding delete_category_def
    by - (rule request_invariant [where I = "catalog_inv coll"], auto simp: bindE_eq_Inr commit_catalog_Inr intro: inv_category_writes)
next
  case (5 nid db u now pc)
  then show ?case unfolding create_product_def
    by - (rule request_invariant [where I = "catalog_inv coll"], auto simp: bindE_eq_Inr commit_catalog_Inr intro: inv_product_writes(1) [OF _ assms(1)])
next
  case (6 db u now pid pu)
  then show ?case unfolding update_product_def
    by (auto simp: bindE_eq_Inr commit_catalog_Inr intro: inv_product_writes(2) [OF _ assms(1)] split: sum.split)
next
  case (7 db u now pid)
  then show ?case unfolding archive_product_def
    by - (rule request_invariant [where I = "catalog_inv coll"], auto simp: bindE_eq_Inr commit_catalog_Inr intro: inv_product_writes)
next
  case (8 db u pid ia)
  then show ?case by (rule inv_restock)
next
  case (9 db u pid ia)
  then show ?case unfolding adjust_product_inventory_def
    by - (rule request_invariant [where I = "catalog_inv coll"],
          auto simp: bindE_eq_Inr commit_catalog_Inr intro: inv_stock_ops)
next
  case (10 db)
  then show ?case by (simp add: catalog_inv_def reads_keep_catalog_ok coherent_get_category_tree)
next
  case (11 db slug)
  then show ?case by (simp add: catalog_inv_def reads_keep_catalog_ok coherent_get_product)
next
  case (12 db)
  then show ?case by (simp add: catalog_inv_def reads_keep_catalog_ok coherent_cached_list featured_products_def)
next
  case (13 db)
  then show ?case by (simp add: catalog_inv_def reads_keep_catalog_ok coherent_cached_list popular_products_def)
next
  case (14 q pid rt rid a db db')
  then show ?case by (blast intro: inv_stock_ops)
next
  case (15 q pid rt rid a db db')
  then show ?case by (blast intro: inv_stock_ops)
next
  case (16 q pid rt rid a db db')
  then show ?case by (blast intro: inv_stock_ops)
next
  case (17 c db)
  then show ?case by (simp add: catalog_inv_def coherent_expire)
qed

lemma inv_catalog_steps:
  assumes "numeric_column num" "(catalog_step coll num)\<^sup>*\<^sup>* db db'" "catalog_inv coll db"
  shows "catalog_inv coll db'"
  using assms(2,3) by (induction rule: rtranclp_induct) (auto intro: inv_catalog_step [OF assms(1)])

text \<open>An empty catalogue satisfies the invariant.\<close>

lemma inv_initial:
  "inventories db = [] \<Longrightarrow> categories db = [] \<Longrightarrow> products db = [] \<Longrightarrow> redis db = Map.empty \<Longrightarrow> catalog_inv coll db"
  by (simp add: catalog_inv_def catalog_ok_def inventory_ok_def forest_def products_ok_def
      cache_coherent_def child_rel_def acyclic_def)

section \<open>The cache is transparent\<close>

lemma reads_without_cache:
  "serialize_product p (db\<lparr>redis := c\<rparr>) = serialize_product p db"
  "get_product_by_slug slug (db\<lparr>redis := c\<rparr>) = get_product_by_slug slug db"
  by (simp_all add: serialize_product_def available_stock_def lock_for_update_def get_product_by_slug_def)

lemma transparent_get_product:
  assumes "cache_coherent coll db"
  shows "map_sum id hide_stock (fst (get_product slug db)) =
         map_sum id hide_stock (fst (get_product slug (db\<lparr>redis := Map.empty\<rparr>)))"
proof (cases "redis db (product_cache_key slug)")
  case None
  show ?thesis
    by (cases "bindE (the_or NotFoundError (get_product_by_slug slug db)) (\<lambda>p. serialize_product p db)")
       (auto simp: None get_product_def cache_get_json_def reads_without_cache bindE_eq_Inr bindE_eq_Inl)
next
  case (Some c)
  with assms obtain v p where c: "c = CachedProduct v" "get_product_by_slug slug db = Some p"
      "product_view p = Inr (hide_stock v)" unfolding cache_coherent_def by blast
  have v: "map_sum id hide_stock (serialize_product p db) = Inr (hide_stock v)"
    using c(3) by (simp add: view_of_serialize)
  then obtain w where w: "serialize_product p db = Inr w" "hide_stock w = hide_stock v"
    by (cases "serialize_product p db") simp_all
  with Some c(1,2) show ?thesis
    by (simp add: get_product_def cache_get_json_def reads_without_cache)
qed

lemma map_views_Inr:
  assumes "map (map_sum id h) xs = map (Inr \<circ> h) vs"
  obtains ws where "xs = map Inr ws" "map h ws = map h vs"
proof -
  have "\<exists>ws. xs = map Inr ws \<and> map h ws = map h vs"
    using assms
  proof (induction xs arbitrary: vs)
    case (Cons x xs)
    from Cons.prems obtain v vs' where vs: "vs = v # vs'" by (cases vs) simp_all
    have v: "map_sum id h x = Inr (h v)" "map (map_sum id h) xs = map (Inr \<circ> h) vs'"
      using Cons.prems unfolding vs list.map list.inject comp_apply by blast+
    from Cons.IH [OF v(2)] obtain ws where "xs = map Inr ws" "map h ws = map h vs'" by blast
    moreover from v(1) obtain w where "x = Inr w" "h w = h v" by (cases x) auto
    ultimately show ?case by (intro exI [of _ "w # ws"]) (simp add: vs)
  qed simp
  with that show thesis by blast
qed

lemma transparent_cached_list:
  assumes k: "\<And>c. redis db k = Some c \<Longrightarrow>
       \<exists>vs. c = CachedProducts vs \<and> map product_view (q db) = map (Inr \<circ> hide_stock) vs"
    and q: "q (db\<lparr>redis := Map.empty\<rparr>) = q db"
  shows "map_sum id (map hide_stock) (fst (cached_list k q db)) =
         map_sum id (map hide_stock) (fst (cached_list k q (db\<lparr>redis := Map.empty\<rparr>)))"
proof (cases "redis db k")
  case None
  show ?thesis
    by (cases "mapE (\<lambda>p. serialize_product p db) (q db)")
       (simp_all add: None cached_list_def cache_get_json_def q reads_without_cache)
next
  case (Some c)
  let ?db = "db\<lparr>redis := Map.empty\<rparr>"
  from k [OF Some] obtain vs where c: "c = CachedProducts vs"
      "map product_view (q db) = map (Inr \<circ> hide_stock) vs" by blast
  have "map (map_sum id hide_stock) (map (\<lambda>p. serialize_product p ?db) (q db)) = map (Inr \<circ> hide_stock) vs"
    using c(2) by (simp add: comp_def view_of_serialize)
  from map_views_Inr [OF this] obtain ws where "mapE (\<lambda>p. serialize_product p ?db) (q ?db) = Inr ws" "map hide_stock ws = map hide_stock vs"
    by (auto simp: mapE_eq_Inr q)
  with Some c(1) show ?thesis by (simp add: cached_list_def cache_get_json_def)
qed

text \<open>Every cached read at once: with a coherent cache it answers as with an empty one.\<close>

lemma transparent_reads:
  assumes c: "cache_coherent coll db"
  shows "map_sum id hide_stock (fst (get_product slug db)) =
      map_sum id hide_stock (fst (get_product slug (db\<lparr>redis := Map.empty\<rparr>)))"
    and "map_sum id (map hide_stock) (fst (featured_products db)) =
      map_sum id (map hide_stock) (fst (featured_products (db\<lparr>redis := Map.empty\<rparr>)))"
    and "map_sum id (map hide_stock) (fst (popular_products db)) =
      map_sum id (map hide_stock) (fst (popular_products (db\<lparr>redis := Map.empty\<rparr>)))"
    and "fst (get_category_tree coll db) = fst (get_category_tree coll (db\<lparr>redis := Map.empty\<rparr>))"
proof -
  let ?cold = "db\<lparr>redis := Map.empty\<rparr>"
  have q: "list_flagged a b n ?cold = list_flagged a b n db" for a b n by (rule reads_cong(2)) simp
  show "map_sum id hide_stock (fst (get_product slug db)) = map_sum id hide_stock (fst (get_product slug ?cold))"
    by (rule transparent_get_product [OF c])
  show "map_sum id (map hide_stock) (fst (featured_products db)) = map_sum id (map hide_stock) (fst (featured_products ?cold))"
    unfolding featured_products_def
  proof (rule transparent_cached_list [OF _ q])
    fix x assume "redis db FEATURED_PRODUCTS_CACHE_KEY = Some x"
    with c show "\<exists>vs. x = CachedProducts vs \<and> map product_view (list_flagged True False 8 db) = map (Inr \<circ> hide_stock) vs"
      unfolding cache_coherent_def by blast
  qed
  show "map_sum id (map hide_stock) (fst (popular_products db)) = map_sum id (map hide_stock) (fst (popular_products ?cold))"
    unfolding popular_products_def
  proof (rule transparent_cached_list [OF _ q])
    fix x assume "redis db POPULAR_PRODUCTS_CACHE_KEY = Some x"
    with c show "\<exists>vs. x = CachedProducts vs \<and> map product_view (list_flagged False True 8 db) = map (Inr \<circ> hide_stock) vs"
      unfolding cache_coherent_def by blast
  qed
  have t: "get_tree coll ?cold = get_tree coll db" by (rule reads_cong(3)) simp
  show "fst (get_category_tree coll db) = fst (get_category_tree coll ?cold)"
  proof (cases "redis db CATEGORY_TREE_CACHE_KEY")
    case None
    then show ?thesis by (cases "get_tree coll db") (simp_all add: get_category_tree_def cache_get_json_def t)
  next
    case (Some x)
    with c obtain s where "x = CachedTree s" "get_tree coll db = Some s" unfolding cache_coherent_def by blast
    with Some show ?thesis by (simp add: get_category_tree_def cache_get_json_def t)
  qed
qed

end
