(* ===== verification/Idempotency.thy ===== *)
theory Idempotency
  imports Catalog_Invariants
begin

text \<open>
  Idempotency keys: \<open>app/common/idempotency.py\<close> and \<open>idempotency_models.py\<close>. The guard
  is a dependency of the six unsafe routes: it inserts a row for (user, operation, key)
  before the handler runs, the handler completes the row with its response, and one
  commit stores the row and the effects of the handler together. A second request
  with the key is answered from the row.

  \<open>guarded_operation\<close> is the interface between the guard and a handler; the cart, wallet,
  order and payment handlers interpret it.
\<close>

section \<open>JSON bodies\<close>

text \<open>What \<open>model_dump(mode="json")\<close> stores; the leaves keep the type they are printed from.\<close>

datatype json =
    JNull
  | JBool bool
  | JInt int
  | JMoney decimal
  | JStr string
  | JNote note_text
  | JUuid uuid
  | JTime datetime
  | JList "json list"
  | JObj "(string \<times> json) list"

definition json_opt :: "('a \<Rightarrow> json) \<Rightarrow> 'a option \<Rightarrow> json" where
  "json_opt f x = (case x of None \<Rightarrow> JNull | Some v \<Rightarrow> f v)"

type_synonym http_response = "nat \<times> json"

section \<open>Data\<close>

datatype idempotency_status = IkPending | IkCompleted

record idempotency_key =
  ik_key :: string
  ik_user_id :: uuid
  ik_operation :: string
  ik_request_hash :: string
  ik_status :: idempotency_status
  ik_response_status :: "nat option"
  ik_response_body :: "json option"
  ik_created_at :: datetime
  ik_expires_at :: datetime

record idem_db = catalog_db +
  idempotency_keys :: "idempotency_key list"

text \<open>The columns of \<open>uq_idempotency_user_operation_key\<close>.\<close>

type_synonym ik_ident = "uuid \<times> string \<times> string"

definition ik_id :: "idempotency_key \<Rightarrow> ik_ident" where
  "ik_id r = (ik_user_id r, ik_operation r, ik_key r)"

definition IDEMPOTENCY_TTL :: int where
  "IDEMPOTENCY_TTL = hours 24"

section \<open>The guard\<close>

definition finish :: "ik_ident \<Rightarrow> http_response \<Rightarrow> 'a idem_db_scheme \<Rightarrow> 'a idem_db_scheme" where
  "finish i r db = db\<lparr>idempotency_keys := update_by ik_id i
     (\<lambda>k. k\<lparr>ik_status := IkCompleted, ik_response_status := Some (fst r), ik_response_body := Some (snd r)\<rparr>)
     (idempotency_keys db)\<rparr>"

text \<open>The dependency: it refuses the request, replays a stored response, or lets the handler run
  on the state with the new row.\<close>

datatype 'd guard_outcome = Proceed ik_ident 'd | Replay http_response

definition stored_response :: "idempotency_key \<Rightarrow> http_response" where
  "stored_response r =
     (case ik_response_status r of None \<Rightarrow> 200 | Some s \<Rightarrow> (if s = 0 then 200 else s),
      case ik_response_body r of None \<Rightarrow> JNull | Some b \<Rightarrow> b)"

definition idempotency_guard ::
    "string \<Rightarrow> uuid \<Rightarrow> string option \<Rightarrow> string \<Rightarrow> datetime \<Rightarrow> 'a idem_db_scheme
     \<Rightarrow> exn + 'a idem_db_scheme guard_outcome" where
  "idempotency_guard operation user_id idempotency_key request_hash now db =
     (case truthy idempotency_key of
        None \<Rightarrow> Inl IdempotencyKeyRequiredError
      | Some key \<Rightarrow>
          if 255 < text_length key then Inl DBAPIError
          else (case find_by ik_id (user_id, operation, key) (idempotency_keys db) of
              Some existing \<Rightarrow>
                if ik_request_hash existing \<noteq> request_hash then Inl IdempotencyKeyReusedError
                else Inr (Replay (stored_response existing))
            | None \<Rightarrow> Inr (Proceed (user_id, operation, key) (db\<lparr>idempotency_keys := idempotency_keys db @
                  [\<lparr> ik_key = key, ik_user_id = user_id, ik_operation = operation,
                     ik_request_hash = request_hash, ik_status = IkPending,
                     ik_response_status = None, ik_response_body = None,
                     ik_created_at = now, ik_expires_at = now + IDEMPOTENCY_TTL \<rparr>]\<rparr>))))"

text \<open>A guarded route: the guard, the handler's action on the session's state, \<open>guard.finish\<close> and
  the commit. An exception or a replay stores nothing.\<close>

definition guarded ::
    "string \<Rightarrow> uuid \<Rightarrow> string option \<Rightarrow> string \<Rightarrow> datetime
     \<Rightarrow> ('a idem_db_scheme \<Rightarrow> exn + (http_response \<times> 'a idem_db_scheme)) \<Rightarrow> 'a idem_db_scheme
     \<Rightarrow> (exn + http_response) \<times> 'a idem_db_scheme" where
  "guarded operation user_id key request_hash now act db = request db (
     bindE (idempotency_guard operation user_id key request_hash now db) (\<lambda>outcome.
       case outcome of
         Replay r \<Rightarrow> Inr (r, db)
       | Proceed i db1 \<Rightarrow> bindE (act db1) (\<lambda>(r, db2). Inr (r, finish i r db2))))"

section \<open>What a guarded handler gets\<close>

definition keys_ok :: "'a idem_db_scheme \<Rightarrow> bool" where
  "keys_ok db \<longleftrightarrow> unique_by ik_id (idempotency_keys db)
     \<and> (\<forall>r \<in> set (idempotency_keys db). ik_status r = IkCompleted
          \<and> (\<exists>s. ik_response_status r = Some s \<and> s \<noteq> 0) \<and> ik_response_body r \<noteq> None)"

lemma ik_id_finish [simp]:
  "ik_id (k\<lparr>ik_status := s, ik_response_status := t, ik_response_body := b\<rparr>) = ik_id k"
  by (simp add: ik_id_def)

locale guarded_operation =
  fixes act :: "'a idem_db_scheme \<Rightarrow> exn + (http_response \<times> 'a idem_db_scheme)"
  assumes keeps_keys: "act db = Inr (r, db') \<Longrightarrow> idempotency_keys db' = idempotency_keys db"
    and status_set: "act db = Inr (r, db') \<Longrightarrow> fst r \<noteq> 0"
begin

lemma guarded_cases:
  assumes "guarded op u key h now act db = (Inr r, db')"
  obtains (replayed) k e where "truthy key = Some k" "find_by ik_id (u, op, k) (idempotency_keys db) = Some e"
      "ik_request_hash e = h" "r = stored_response e" "db' = db"
    | (ran) k row db2 where "truthy key = Some k" "find_by ik_id (u, op, k) (idempotency_keys db) = None"
      "row = \<lparr> ik_key = k, ik_user_id = u, ik_operation = op, ik_request_hash = h, ik_status = IkPending,
               ik_response_status = None, ik_response_body = None,
               ik_created_at = now, ik_expires_at = now + IDEMPOTENCY_TTL \<rparr>"
      "act (db\<lparr>idempotency_keys := idempotency_keys db @ [row]\<rparr>) = Inr (r, db2)"
      "db' = finish (u, op, k) r db2"
proof (cases "truthy key")
  case None
  with assms show thesis by (simp add: guarded_def idempotency_guard_def)
next
  case (Some k)
  show thesis
  proof (cases "255 < text_length k")
    case True
    with assms Some show thesis by (simp add: guarded_def idempotency_guard_def)
  next
    case short: False
    show thesis
    proof (cases "find_by ik_id (u, op, k) (idempotency_keys db)")
      case None
      let ?row = "\<lparr> ik_key = k, ik_user_id = u, ik_operation = op, ik_request_hash = h, ik_status = IkPending,
               ik_response_status = None, ik_response_body = None,
               ik_created_at = now, ik_expires_at = now + IDEMPOTENCY_TTL \<rparr>"
      let ?db1 = "db\<lparr>idempotency_keys := idempotency_keys db @ [?row]\<rparr>"
      have g: "guarded op u key h now act db =
          request db (bindE (act ?db1) (\<lambda>(r, db2). Inr (r, finish (u, op, k) r db2)))"
        using Some None short by (simp add: guarded_def idempotency_guard_def)
      then obtain r2 db2 where a: "act ?db1 = Inr (r2, db2)"
        using assms by (cases "act ?db1") auto
      with g assms have "r2 = r" "db' = finish (u, op, k) r db2" by simp_all
      with a ran [OF Some None refl] show thesis by simp
    next
      case (Some e)
      with assms \<open>truthy key = Some k\<close> short show thesis
        by (intro replayed [of k e]) (auto simp: guarded_def idempotency_guard_def split: if_splits)
    qed
  qed
qed

text \<open>The response of a guarded request that succeeded is in its row.\<close>

lemma success_recorded:
  assumes "guarded op u key h now act db = (Inr r, db')" and ok: "keys_ok db"
  obtains k e where "truthy key = Some k" "find_by ik_id (u, op, k) (idempotency_keys db') = Some e"
    "ik_request_hash e = h" "stored_response e = r" "text_length k \<le> 255"
proof -
  have len: "text_length k \<le> 255" if "truthy key = Some k" for k
    using that assms(1) by (auto simp: guarded_def idempotency_guard_def not_less split: if_splits)
  show thesis
    using assms(1)
  proof (cases rule: guarded_cases)
    case (replayed k e)
    with that [of k e] len show ?thesis by simp
  next
    case (ran k row db2)
    have "idempotency_keys db2 = idempotency_keys db @ [row]" using keeps_keys [OF ran(4)] by simp
    moreover have "ik_id row = (u, op, k)" by (simp add: ran(3) ik_id_def)
    ultimately have f: "find_by ik_id (u, op, k) (idempotency_keys db') =
        Some (row\<lparr>ik_status := IkCompleted, ik_response_status := Some (fst r), ik_response_body := Some (snd r)\<rparr>)"
      using ran(2) by (simp add: ran(5) finish_def find_by_update_by find_by_append)
    show ?thesis
      by (rule that [OF ran(1) f _ _ len [OF ran(1)]])
         (use status_set [OF ran(4)] in \<open>simp_all add: ran(3) stored_response_def\<close>)
  qed
qed

text \<open>So a repetition of the request, at any later time and in any later state that still has
  the row, gives the same response and changes nothing.\<close>

lemma replay:
  assumes "guarded op u key h now act db = (Inr r, db')" "keys_ok db"
    and "\<And>i. find_by ik_id i (idempotency_keys later) = find_by ik_id i (idempotency_keys db')"
  shows "guarded op u key h now' act' later = (Inr r, later)"
proof -
  from assms(1,2) obtain k e where "truthy key = Some k"
      "find_by ik_id (u, op, k) (idempotency_keys db') = Some e"
      "ik_request_hash e = h" "stored_response e = r" "text_length k \<le> 255" by (rule success_recorded)
  with assms(3) show ?thesis by (simp add: guarded_def idempotency_guard_def)
qed

lemma reuse:
  assumes "guarded op u key h now act db = (Inr r, db')" "keys_ok db" "h' \<noteq> h"
  shows "guarded op u key h' now' act' db' = (Inl IdempotencyKeyReusedError, db')"
proof -
  from assms(1,2) obtain k e where "truthy key = Some k"
      "find_by ik_id (u, op, k) (idempotency_keys db') = Some e"
      "ik_request_hash e = h" "stored_response e = r" "text_length k \<le> 255" by (rule success_recorded)
  with assms(3) show ?thesis by (simp add: guarded_def idempotency_guard_def)
qed

text \<open>The table never holds an unfinished row: what is committed is completed.\<close>

lemma keeps_ok:
  assumes "keys_ok db" shows "keys_ok (snd (guarded op u key h now act db))"
proof (cases "fst (guarded op u key h now act db)")
  case (Inl e)
  then have "snd (guarded op u key h now act db) = db"
    unfolding guarded_def request_def by (auto split: sum.splits)
  with assms show ?thesis by simp
next
  case (Inr r)
  then obtain db' where g: "guarded op u key h now act db = (Inr r, db')" by (metis prod.collapse)
  then show ?thesis
  proof (cases rule: guarded_cases)
    case (replayed k e)
    with g assms show ?thesis by simp
  next
    case (ran k row db2)
    have keys: "idempotency_keys db2 = idempotency_keys db @ [row]" using keeps_keys [OF ran(4)] by simp
    have id: "ik_id row = (u, op, k)" by (simp add: ran(3) ik_id_def)
    have "ik_id x \<noteq> (u, op, k)" if "x \<in> set (idempotency_keys db)" for x
      using ran(2) that by (metis find_by_None imageI)
    with assms keys id ran(2) status_set [OF ran(4)] g show ?thesis
      by (auto simp: keys_ok_def ran(5) finish_def unique_update_by unique_by_append_one set_update_by)
  qed
qed

text \<open>A refused or failed request leaves the state as it was.\<close>

lemma failure_changes_nothing:
  "guarded op u key h now act db = (Inl e, db') \<Longrightarrow> db' = db"
  unfolding guarded_def request_def by (auto split: sum.splits prod.splits)

end

lemma guarded_missing_key:
  "truthy key = None \<Longrightarrow> guarded op u key h now act db = (Inl IdempotencyKeyRequiredError, db)"
  by (simp add: guarded_def idempotency_guard_def)

end
