(* ===== verification/Cart.thy ===== *)
theory Cart
  imports Idempotency
begin

text \<open>
  The shopping cart (\<open>app/modules/cart\<close>): one cart per user, created on first use, with
  at most one line per product. \<open>CartRepository\<close>, \<open>CartService\<close> and the routes. A cart
  item's own key and the carts' timestamps are read by no code modelled here.
\<close>

section \<open>Data\<close>

record cart =
  cart_id :: uuid
  cart_user_id :: uuid

record cart_item =
  ci_cart_id :: uuid
  ci_product_id :: uuid
  ci_quantity :: int

record cart_db = idem_db +
  carts :: "cart list"
  cart_items :: "cart_item list"

definition ci_key :: "cart_item \<Rightarrow> uuid \<times> uuid" where
  "ci_key i = (ci_cart_id i, ci_product_id i)"

record cart_item_public =
  cip_product_id :: uuid
  cip_name :: string
  cip_slug :: string
  cip_unit_price :: int
  cip_quantity :: int
  cip_subtotal :: int
  cip_available_stock :: int

record cart_summary =
  cs_items :: "cart_item_public list"
  cs_subtotal :: int
  cs_total :: int

definition quantity_valid :: "int \<Rightarrow> bool" where
  "quantity_valid q \<longleftrightarrow> 1 \<le> q \<and> q \<le> 99"

section \<open>Repository\<close>

definition get_or_create_cart :: "uuid \<Rightarrow> uuid \<Rightarrow> 'a cart_db_scheme \<Rightarrow> cart \<times> 'a cart_db_scheme" where
  "get_or_create_cart new_id user_id db =
     (case find_by cart_user_id user_id (carts db) of
        Some cart \<Rightarrow> (cart, db)
      | None \<Rightarrow> let cart = \<lparr>cart_id = new_id, cart_user_id = user_id\<rparr>
                in (cart, db\<lparr>carts := carts db @ [cart]\<rparr>))"

definition items_of :: "cart \<Rightarrow> 'a cart_db_scheme \<Rightarrow> cart_item list" where
  "items_of cart db = filter (\<lambda>i. ci_cart_id i = cart_id cart) (cart_items db)"

definition get_item :: "uuid \<Rightarrow> uuid \<Rightarrow> 'a cart_db_scheme \<Rightarrow> cart_item option" where
  "get_item cid pid db = find_by ci_key (cid, pid) (cart_items db)"

definition delete_item :: "cart_item \<Rightarrow> 'a cart_db_scheme \<Rightarrow> 'a cart_db_scheme" where
  "delete_item item db = db\<lparr>cart_items := filter (\<lambda>i. ci_key i \<noteq> ci_key item) (cart_items db)\<rparr>"

definition clear_items :: "uuid \<Rightarrow> 'a cart_db_scheme \<Rightarrow> 'a cart_db_scheme" where
  "clear_items cid db = db\<lparr>cart_items := filter (\<lambda>i. ci_cart_id i \<noteq> cid) (cart_items db)\<rparr>"

section \<open>Service\<close>

definition cart_add_item ::
    "uuid \<Rightarrow> uuid \<Rightarrow> uuid \<Rightarrow> int \<Rightarrow> 'a cart_db_scheme \<Rightarrow> exn + 'a cart_db_scheme" where
  "cart_add_item new_id user_id pid quantity db =
     (case get_product_by_id pid db of
        None \<Rightarrow> Inl NotFoundError
      | Some product \<Rightarrow>
          if \<not> p_is_active product then Inl NotFoundError
          else
            let (cart, db1) = get_or_create_cart new_id user_id db;
                existing = get_item (cart_id cart) pid db1;
                new_quantity = quantity + (case existing of Some i \<Rightarrow> ci_quantity i | None \<Rightarrow> 0)
            in if available_stock product db1 < new_quantity then Inl ConflictError
               else if \<not> int4 new_quantity then Inl DBAPIError
               else Inr (case existing of
                   Some i \<Rightarrow> db1\<lparr>cart_items := update_by ci_key (cart_id cart, pid)
                               (\<lambda>i. i\<lparr>ci_quantity := new_quantity\<rparr>) (cart_items db1)\<rparr>
                 | None \<Rightarrow> db1\<lparr>cart_items := cart_items db1 @
                     [\<lparr>ci_cart_id = cart_id cart, ci_product_id = pid, ci_quantity = new_quantity\<rparr>]\<rparr>))"

definition cart_update_item ::
    "uuid \<Rightarrow> uuid \<Rightarrow> uuid \<Rightarrow> int \<Rightarrow> 'a cart_db_scheme \<Rightarrow> exn + 'a cart_db_scheme" where
  "cart_update_item new_id user_id pid quantity db =
     bindE (the_or NotFoundError (get_product_by_id pid db)) (\<lambda>product.
       if available_stock product db < quantity then Inl ConflictError
       else
         let (cart, db1) = get_or_create_cart new_id user_id db
         in case get_item (cart_id cart) pid db1 of
              None \<Rightarrow> Inl NotFoundError
            | Some item \<Rightarrow> Inr (db1\<lparr>cart_items := update_by ci_key (cart_id cart, pid)
                             (\<lambda>i. i\<lparr>ci_quantity := quantity\<rparr>) (cart_items db1)\<rparr>))"

definition cart_remove_item :: "uuid \<Rightarrow> uuid \<Rightarrow> uuid \<Rightarrow> 'a cart_db_scheme \<Rightarrow> 'a cart_db_scheme" where
  "cart_remove_item new_id user_id pid db =
     (let (cart, db1) = get_or_create_cart new_id user_id db
      in case get_item (cart_id cart) pid db1 of None \<Rightarrow> db1 | Some item \<Rightarrow> delete_item item db1)"

definition cart_clear :: "uuid \<Rightarrow> uuid \<Rightarrow> 'a cart_db_scheme \<Rightarrow> 'a cart_db_scheme" where
  "cart_clear new_id user_id db =
     (let (cart, db1) = get_or_create_cart new_id user_id db in clear_items (cart_id cart) db1)"

text \<open>The loop of \<open>get_summary\<close>: unavailable products are skipped.\<close>

fun summary_loop ::
    "'a cart_db_scheme \<Rightarrow> cart_item list \<Rightarrow> cart_item_public list \<Rightarrow> int \<Rightarrow> cart_item_public list \<times> int" where
  "summary_loop db [] items subtotal = (items, subtotal)"
| "summary_loop db (ci # rest) items subtotal =
     (case get_product_by_id (ci_product_id ci) db of
        None \<Rightarrow> summary_loop db rest items subtotal
      | Some product \<Rightarrow>
          if \<not> p_is_active product then summary_loop db rest items subtotal
          else
            let unit_price = effective_unit_price product;
                item_subtotal = unit_price * ci_quantity ci
            in summary_loop db rest
                 (items @ [\<lparr> cip_product_id = p_id product, cip_name = p_name product,
                             cip_slug = p_slug product, cip_unit_price = unit_price,
                             cip_quantity = ci_quantity ci, cip_subtotal = item_subtotal,
                             cip_available_stock = available_stock product db \<rparr>])
                 (subtotal + item_subtotal))"

definition get_summary :: "uuid \<Rightarrow> uuid \<Rightarrow> 'a cart_db_scheme \<Rightarrow> cart_summary \<times> 'a cart_db_scheme" where
  "get_summary new_id user_id db =
     (let (cart, db1) = get_or_create_cart new_id user_id db;
          (items, subtotal) = summary_loop db1 (items_of cart db1) [] 0
      in (\<lparr>cs_items = items, cs_subtotal = subtotal, cs_total = subtotal\<rparr>, db1))"

section \<open>Routes\<close>

definition json_of_summary :: "cart_summary \<Rightarrow> json" where
  "json_of_summary s = JObj
     [(''items'', JList (map (\<lambda>i. JObj
         [(''product_id'', JUuid (cip_product_id i)), (''name'', JStr (cip_name i)),
          (''slug'', JStr (cip_slug i)), (''unit_price'', JMoney (of_int (cip_unit_price i))),
          (''quantity'', JInt (cip_quantity i)), (''subtotal'', JMoney (of_int (cip_subtotal i))),
          (''available_stock'', JInt (cip_available_stock i))]) (cs_items s))),
      (''subtotal'', JMoney (of_int (cs_subtotal s))), (''total'', JMoney (of_int (cs_total s)))]"

text \<open>\<open>GET /cart\<close> does not commit: a cart it creates is dropped with the session.\<close>

definition get_cart :: "user \<Rightarrow> uuid \<Rightarrow> 'a cart_db_scheme \<Rightarrow> cart_summary" where
  "get_cart u new_id db = fst (get_summary new_id (u_id u) db)"

definition add_cart_item_action ::
    "user \<Rightarrow> uuid \<Rightarrow> uuid \<Rightarrow> int \<Rightarrow> 'a cart_db_scheme \<Rightarrow> exn + (http_response \<times> 'a cart_db_scheme)" where
  "add_cart_item_action u new_id pid quantity db =
     bindE (validated (quantity_valid quantity)) (\<lambda>_.
     bindE (cart_add_item new_id (u_id u) pid quantity db) (\<lambda>db1.
       let (summary, db2) = get_summary new_id (u_id u) db1
       in Inr ((201, json_of_summary summary), db2)))"

definition add_cart_item ::
    "user \<Rightarrow> uuid \<Rightarrow> string option \<Rightarrow> string \<Rightarrow> datetime \<Rightarrow> uuid \<Rightarrow> int \<Rightarrow> 'a cart_db_scheme
     \<Rightarrow> (exn + http_response) \<times> 'a cart_db_scheme" where
  "add_cart_item u new_id key request_hash now pid quantity db =
     guarded ''cart.add_item'' (u_id u) key request_hash now (add_cart_item_action u new_id pid quantity) db"

definition update_cart_item ::
    "user \<Rightarrow> uuid \<Rightarrow> uuid \<Rightarrow> int \<Rightarrow> 'a cart_db_scheme \<Rightarrow> (exn + cart_summary) \<times> 'a cart_db_scheme" where
  "update_cart_item u new_id pid quantity db = request db (
     bindE (validated (quantity_valid quantity)) (\<lambda>_.
     bindE (cart_update_item new_id (u_id u) pid quantity db) (\<lambda>db1.
       Inr (get_summary new_id (u_id u) db1))))"

definition remove_cart_item :: "user \<Rightarrow> uuid \<Rightarrow> uuid \<Rightarrow> 'a cart_db_scheme \<Rightarrow> 'a cart_db_scheme" where
  "remove_cart_item u new_id pid db = cart_remove_item new_id (u_id u) pid db"

definition clear_cart :: "user \<Rightarrow> uuid \<Rightarrow> 'a cart_db_scheme \<Rightarrow> 'a cart_db_scheme" where
  "clear_cart u new_id db = cart_clear new_id (u_id u) db"

section \<open>Invariant\<close>

text \<open>One cart per user, one line per product and cart, no line without a cart, and only
  quantities the API accepts have a lower bound: every quantity is positive.\<close>

definition cart_ok :: "'a cart_db_scheme \<Rightarrow> bool" where
  "cart_ok db \<longleftrightarrow> unique_by cart_id (carts db) \<and> unique_by cart_user_id (carts db)
     \<and> unique_by ci_key (cart_items db)
     \<and> (\<forall>i \<in> set (cart_items db). 1 \<le> ci_quantity i \<and> ci_cart_id i \<in> cart_id ` set (carts db))"

definition fresh_cart :: "uuid \<Rightarrow> 'a cart_db_scheme \<Rightarrow> bool" where
  "fresh_cart new_id db \<longleftrightarrow> new_id \<notin> cart_id ` set (carts db)"

lemma ci_key_quantity [simp]: "ci_key (i\<lparr>ci_quantity := q\<rparr>) = ci_key i"
  by (simp add: ci_key_def)

lemma get_or_create_cart_cases:
  obtains (found) cart where "find_by cart_user_id u (carts db) = Some cart"
      "get_or_create_cart nid u db = (cart, db)"
    | (created) "find_by cart_user_id u (carts db) = None"
      "get_or_create_cart nid u db = (\<lparr>cart_id = nid, cart_user_id = u\<rparr>,
         db\<lparr>carts := carts db @ [\<lparr>cart_id = nid, cart_user_id = u\<rparr>]\<rparr>)"
  by (cases "find_by cart_user_id u (carts db)") (simp_all add: get_or_create_cart_def Let_def)

lemma get_or_create_cart_ok:
  assumes "cart_ok db" "fresh_cart nid db" "get_or_create_cart nid u db = (cart, db1)"
  shows "cart_ok db1" and "cart \<in> set (carts db1)" and "cart_items db1 = cart_items db"
    and "find_by cart_user_id u (carts db1) = Some cart"
proof -
  have "cart_ok db1 \<and> cart \<in> set (carts db1) \<and> cart_items db1 = cart_items db
      \<and> find_by cart_user_id u (carts db1) = Some cart"
  proof (cases rule: get_or_create_cart_cases [of u db nid])
    case (found c)
    with assms show ?thesis by (simp add: find_by_mem)
  next
    case created
    then have e: "cart = \<lparr>cart_id = nid, cart_user_id = u\<rparr>" "db1 = db\<lparr>carts := carts db @ [cart]\<rparr>"
      using assms(3) by simp_all
    then have "cart_ok db1"
      using assms(1,2) created(1)
      by (simp add: cart_ok_def fresh_cart_def unique_by_append_one find_by_None)
    with e created(1) show ?thesis by (simp add: find_by_append)
  qed
  then show "cart_ok db1" "cart \<in> set (carts db1)" "cart_items db1 = cart_items db"
    "find_by cart_user_id u (carts db1) = Some cart" by blast+
qed

lemma get_or_create_cart_frame:
  assumes "get_or_create_cart nid u db = (cart, db1)"
  shows "products db1 = products db" "inventories db1 = inventories db" "categories db1 = categories db"
    "inventory_log db1 = inventory_log db"
    "idempotency_keys db1 = idempotency_keys db" "redis db1 = redis db" "cart_items db1 = cart_items db"
  using assms by (cases rule: get_or_create_cart_cases [of u db nid]; auto)+

text \<open>Once the user has a cart, asking again finds it.\<close>

lemma get_or_create_cart_again:
  assumes "get_or_create_cart nid u db = (cart, db1)" "carts db2 = carts db1"
  shows "get_or_create_cart nid2 u db2 = (cart, db2)"
  using assms(1)
  by (cases rule: get_or_create_cart_cases [of u db nid])
     (use assms(2) in \<open>auto simp: get_or_create_cart_def find_by_append\<close>)

lemma cart_ok_set_quantity:
  assumes "cart_ok db" "1 \<le> q"
  shows "cart_ok (db\<lparr>cart_items := update_by ci_key k (\<lambda>i. i\<lparr>ci_quantity := q\<rparr>) (cart_items db)\<rparr>)"
  using assms by (auto simp: cart_ok_def unique_update_by set_update_by)

lemma cart_ok_filter:
  "cart_ok db \<Longrightarrow> cart_ok (db\<lparr>cart_items := filter P (cart_items db)\<rparr>)"
  by (auto simp: cart_ok_def unique_by_filter)

lemma cart_add_item_cases:
  assumes "cart_add_item nid u pid q db = Inr db'"
  obtains product cart db1 n where "get_product_by_id pid db = Some product" "p_is_active product"
    "get_or_create_cart nid u db = (cart, db1)"
    "n = q + (case get_item (cart_id cart) pid db1 of Some i \<Rightarrow> ci_quantity i | None \<Rightarrow> 0)"
    "n \<le> available_stock product db1"
    "db' = (case get_item (cart_id cart) pid db1 of
        Some i \<Rightarrow> db1\<lparr>cart_items := update_by ci_key (cart_id cart, pid) (\<lambda>i. i\<lparr>ci_quantity := n\<rparr>) (cart_items db1)\<rparr>
      | None \<Rightarrow> db1\<lparr>cart_items := cart_items db1 @ [\<lparr>ci_cart_id = cart_id cart, ci_product_id = pid, ci_quantity = n\<rparr>]\<rparr>)"
proof -
  obtain product where p: "get_product_by_id pid db = Some product"
    using assms by (auto simp: cart_add_item_def split: option.splits)
  obtain cart db1 where c: "get_or_create_cart nid u db = (cart, db1)" by fastforce
  from assms p c show thesis
    by (intro that [OF p _ c refl]) (auto simp: cart_add_item_def Let_def not_less split: if_splits)
qed

lemma cart_add_item_ok:
  assumes "cart_ok db" "fresh_cart nid db" "1 \<le> q" "cart_add_item nid u pid q db = Inr db'"
  shows "cart_ok db'"
  using assms(4)
proof (rule cart_add_item_cases)
  fix product cart db1 n
  assume c: "get_or_create_cart nid u db = (cart, db1)"
    and n: "n = q + (case get_item (cart_id cart) pid db1 of Some i \<Rightarrow> ci_quantity i | None \<Rightarrow> 0)"
    and db': "db' = (case get_item (cart_id cart) pid db1 of
        Some i \<Rightarrow> db1\<lparr>cart_items := update_by ci_key (cart_id cart, pid) (\<lambda>i. i\<lparr>ci_quantity := n\<rparr>) (cart_items db1)\<rparr>
      | None \<Rightarrow> db1\<lparr>cart_items := cart_items db1 @ [\<lparr>ci_cart_id = cart_id cart, ci_product_id = pid, ci_quantity = n\<rparr>]\<rparr>)"
  note ok = get_or_create_cart_ok [OF assms(1,2) c]
  show ?thesis
  proof (cases "get_item (cart_id cart) pid db1")
    case None
    with n db' ok(1,2) assms(3) show ?thesis
      by (auto simp: cart_ok_def get_item_def unique_by_append_one ci_key_def [of "\<lparr>ci_cart_id = _, ci_product_id = _, ci_quantity = _\<rparr>"])
  next
    case (Some i)
    then have "1 \<le> ci_quantity i" using ok(1) by (auto simp: get_item_def cart_ok_def dest: find_by_mem)
    with n Some assms(3) have "1 \<le> n" by simp
    with db' Some ok(1) show ?thesis by (simp add: cart_ok_set_quantity)
  qed
qed

lemma cart_update_item_ok:
  assumes "cart_ok db" "fresh_cart nid db" "1 \<le> q" "cart_update_item nid u pid q db = Inr db'"
  shows "cart_ok db'"
proof -
  obtain cart db1 where c: "get_or_create_cart nid u db = (cart, db1)" by fastforce
  from assms(4) c have "db' = db1\<lparr>cart_items := update_by ci_key (cart_id cart, pid)
      (\<lambda>i. i\<lparr>ci_quantity := q\<rparr>) (cart_items db1)\<rparr>"
    by (auto simp: cart_update_item_def bindE_eq_Inr split: if_splits option.splits)
  with cart_ok_set_quantity [OF get_or_create_cart_ok(1) [OF assms(1,2) c] assms(3)] show ?thesis by simp
qed

lemma cart_remove_item_ok:
  assumes "cart_ok db" "fresh_cart nid db" shows "cart_ok (cart_remove_item nid u pid db)"
proof -
  obtain cart db1 where c: "get_or_create_cart nid u db = (cart, db1)" by fastforce
  with get_or_create_cart_ok(1) [OF assms c] show ?thesis
    by (auto simp: cart_remove_item_def delete_item_def cart_ok_filter split: option.split)
qed

lemma cart_clear_ok:
  assumes "cart_ok db" "fresh_cart nid db" shows "cart_ok (cart_clear nid u db)"
proof -
  obtain cart db1 where c: "get_or_create_cart nid u db = (cart, db1)" by fastforce
  with get_or_create_cart_ok(1) [OF assms c] show ?thesis
    by (simp add: cart_clear_def clear_items_def cart_ok_filter)
qed

section \<open>The abstract cart\<close>

text \<open>How many of a product a user has in the cart.\<close>

definition in_cart :: "'a cart_db_scheme \<Rightarrow> uuid \<Rightarrow> uuid \<Rightarrow> int" where
  "in_cart db u p =
     (case find_by cart_user_id u (carts db) of
        None \<Rightarrow> 0
      | Some cart \<Rightarrow> (case get_item (cart_id cart) p db of None \<Rightarrow> 0 | Some i \<Rightarrow> ci_quantity i))"

lemma no_items_without_cart:
  assumes "cart_ok db" "c \<notin> cart_id ` set (carts db)" shows "get_item c p db = None"
  using assms by (force simp: cart_ok_def get_item_def find_by_None ci_key_def image_iff)

lemma get_item_frame: "cart_items db' = cart_items db \<Longrightarrow> get_item c p db' = get_item c p db"
  by (simp add: get_item_def)

lemma in_cart_after_create:
  assumes "cart_ok db" "fresh_cart nid db" "get_or_create_cart nid u db = (cart, db1)"
  shows "in_cart db1 u' p = in_cart db u' p"
proof (cases rule: get_or_create_cart_cases [of u db nid])
  case (found c)
  with assms(3) show ?thesis by simp
next
  case created
  then have e: "cart = \<lparr>cart_id = nid, cart_user_id = u\<rparr>" "db1 = db\<lparr>carts := carts db @ [cart]\<rparr>"
    using assms(3) by simp_all
  have "get_item nid p db = None"
    by (rule no_items_without_cart [OF assms(1)]) (use assms(2) in \<open>simp add: fresh_cart_def\<close>)
  then have "get_item nid p db1 = None" by (simp add: e(2) get_item_def)
  moreover have "get_item c p db1 = get_item c p db" for c by (simp add: e(2) get_item_def)
  ultimately show ?thesis
    using created(1) by (auto simp: in_cart_def e find_by_append split: option.split)
qed

text \<open>Two users never share a cart.\<close>

lemma other_cart:
  assumes "cart_ok db" "find_by cart_user_id u (carts db) = Some c" "find_by cart_user_id u' (carts db) = Some c'"
    and "u \<noteq> u'"
  shows "cart_id c \<noteq> cart_id c'"
proof
  assume "cart_id c = cart_id c'"
  moreover have "c \<in> set (carts db)" "c' \<in> set (carts db)" using assms(2,3) by (simp_all add: find_by_mem)
  ultimately have "c = c'" using assms(1) find_by_unique [of cart_id "carts db"]
    by (metis cart_ok_def option.inject)
  with assms(2,3,4) find_by_key show False by metis
qed

text \<open>An operation that only touches the line of \<open>cart\<close> and \<open>pid\<close>.\<close>

lemma in_cart_line_write:
  assumes ok: "cart_ok db1" and cart: "find_by cart_user_id u (carts db1) = Some cart"
    and carts: "carts db' = carts db1"
    and line: "\<And>c p. get_item c p db' = (if c = cart_id cart \<and> p = pid then new else get_item c p db1)"
  shows "in_cart db' u' p = (if u' = u \<and> p = pid then (case new of None \<Rightarrow> 0 | Some i \<Rightarrow> ci_quantity i)
                             else in_cart db1 u' p)"
proof (cases "u' = u")
  case True
  with cart show ?thesis by (simp add: in_cart_def carts line)
next
  case False
  then have "cart_id c \<noteq> cart_id cart" if "find_by cart_user_id u' (carts db1) = Some c" for c
    using other_cart [OF ok cart that] by auto
  with False show ?thesis by (auto simp: in_cart_def carts line split: option.split)
qed

lemma get_item_update:
  "get_item c p (db\<lparr>cart_items := update_by ci_key (c', p') (\<lambda>i. i\<lparr>ci_quantity := n\<rparr>) (cart_items db)\<rparr>) =
     (if c = c' \<and> p = p' then map_option (\<lambda>i. i\<lparr>ci_quantity := n\<rparr>) (get_item c p db) else get_item c p db)"
  by (auto simp: get_item_def find_by_update_by)

lemma get_item_append:
  "get_item c p (db\<lparr>cart_items := cart_items db @ [\<lparr>ci_cart_id = c', ci_product_id = p', ci_quantity = n\<rparr>]\<rparr>) =
     (case get_item c p db of Some i \<Rightarrow> Some i
      | None \<Rightarrow> if c = c' \<and> p = p' then Some \<lparr>ci_cart_id = c', ci_product_id = p', ci_quantity = n\<rparr> else None)"
  by (auto simp: get_item_def find_by_append ci_key_def split: option.split)

lemma find_by_filter_key:
  "find_by key k (filter (\<lambda>r. key r \<noteq> k') t) = (if k = k' then None else find_by key k t)"
  by (induction t) auto

lemma in_cart_line:
  "find_by cart_user_id u (carts db) = Some cart \<Longrightarrow>
     in_cart db u p = (case get_item (cart_id cart) p db of None \<Rightarrow> 0 | Some i \<Rightarrow> ci_quantity i)"
  by (simp add: in_cart_def)

lemma cart_add_item_effect:
  assumes "cart_ok db" "fresh_cart nid db" "cart_add_item nid u pid q db = Inr db'"
  shows "in_cart db' u' p = (if u' = u \<and> p = pid then in_cart db u pid + q else in_cart db u' p)"
  using assms(3)
proof (rule cart_add_item_cases)
  fix product cart db1 n
  assume c: "get_or_create_cart nid u db = (cart, db1)"
    and n: "n = q + (case get_item (cart_id cart) pid db1 of Some i \<Rightarrow> ci_quantity i | None \<Rightarrow> 0)"
    and db': "db' = (case get_item (cart_id cart) pid db1 of
        Some i \<Rightarrow> db1\<lparr>cart_items := update_by ci_key (cart_id cart, pid) (\<lambda>i. i\<lparr>ci_quantity := n\<rparr>) (cart_items db1)\<rparr>
      | None \<Rightarrow> db1\<lparr>cart_items := cart_items db1 @ [\<lparr>ci_cart_id = cart_id cart, ci_product_id = pid, ci_quantity = n\<rparr>]\<rparr>)"
  note ok = get_or_create_cart_ok [OF assms(1,2) c]
  note same = in_cart_after_create [OF assms(1,2) c]
  have n': "n = in_cart db1 u pid + q"
    using n by (simp add: in_cart_line [OF ok(4)] split: option.split)
  show ?thesis
  proof (cases "get_item (cart_id cart) pid db1")
    case None
    then have "in_cart db' u' p = (if u' = u \<and> p = pid then n else in_cart db1 u' p)"
      using in_cart_line_write [OF ok(1,4), of db' pid
          "Some \<lparr>ci_cart_id = cart_id cart, ci_product_id = pid, ci_quantity = n\<rparr>" u' p]
      by (simp add: db' get_item_append split: option.split)
    with n' same show ?thesis by simp
  next
    case (Some i)
    then have "in_cart db' u' p = (if u' = u \<and> p = pid then n else in_cart db1 u' p)"
      using in_cart_line_write [OF ok(1,4), of db' pid "Some (i\<lparr>ci_quantity := n\<rparr>)" u' p]
      by (simp add: db' get_item_update)
    with n' same show ?thesis by simp
  qed
qed

lemma cart_add_item_available:
  assumes "cart_ok db" "fresh_cart nid db" "cart_add_item nid u pid q db = Inr db'"
  obtains product where "get_product_by_id pid db = Some product" "p_is_active product"
    "in_cart db u pid + q \<le> available_stock product db"
  using assms(3)
proof (rule cart_add_item_cases)
  fix product cart db1 n
  assume p: "get_product_by_id pid db = Some product" "p_is_active product"
    and c: "get_or_create_cart nid u db = (cart, db1)"
    and n: "n = q + (case get_item (cart_id cart) pid db1 of Some i \<Rightarrow> ci_quantity i | None \<Rightarrow> 0)"
      "n \<le> available_stock product db1"
  have "n = in_cart db u pid + q"
    using n(1) by (simp add: in_cart_line [OF get_or_create_cart_ok(4) [OF assms(1,2) c], symmetric]
        in_cart_after_create [OF assms(1,2) c])
  moreover have "available_stock product db1 = available_stock product db"
    using get_or_create_cart_frame [OF c] by (simp add: available_stock_def lock_for_update_def)
  ultimately show thesis using that [OF p] n(2) by simp
qed

lemma cart_update_item_effect:
  assumes "cart_ok db" "fresh_cart nid db" "cart_update_item nid u pid q db = Inr db'"
  shows "in_cart db' u' p = (if u' = u \<and> p = pid then q else in_cart db u' p)"
proof -
  obtain cart db1 where c: "get_or_create_cart nid u db = (cart, db1)" by fastforce
  note ok = get_or_create_cart_ok [OF assms(1,2) c]
  from assms(3) c obtain i where i: "get_item (cart_id cart) pid db1 = Some i" and db': "db' = db1\<lparr>cart_items :=
      update_by ci_key (cart_id cart, pid) (\<lambda>i. i\<lparr>ci_quantity := q\<rparr>) (cart_items db1)\<rparr>"
    by (auto simp: cart_update_item_def bindE_eq_Inr split: if_splits option.splits)
  then show ?thesis
    using in_cart_line_write [OF ok(1,4), of db' pid "Some (i\<lparr>ci_quantity := q\<rparr>)" u' p]
      in_cart_after_create [OF assms(1,2) c]
    by (simp add: get_item_update)
qed

lemma cart_remove_item_effect:
  assumes "cart_ok db" "fresh_cart nid db"
  shows "in_cart (cart_remove_item nid u pid db) u' p = (if u' = u \<and> p = pid then 0 else in_cart db u' p)"
proof -
  obtain cart db1 where c: "get_or_create_cart nid u db = (cart, db1)" by fastforce
  note ok = get_or_create_cart_ok [OF assms c]
  note same = in_cart_after_create [OF assms c]
  show ?thesis
  proof (cases "get_item (cart_id cart) pid db1")
    case None
    then have "in_cart db u pid = 0" using same [of u pid] in_cart_line [OF ok(4), of pid] by simp
    with None c same show ?thesis by (simp add: cart_remove_item_def)
  next
    case (Some i)
    then have k: "ci_key i = (cart_id cart, pid)" unfolding get_item_def by (rule find_by_key)
    have "get_item c p (delete_item i db1) = (if c = cart_id cart \<and> p = pid then None else get_item c p db1)" for c p
      by (auto simp: get_item_def delete_item_def k find_by_filter_key)
    from in_cart_line_write [OF ok(1,4) _ this, of u' p] Some c same show ?thesis
      by (simp add: cart_remove_item_def delete_item_def)
  qed
qed

lemma ci_key_eq: "ci_key i = (c, p) \<longleftrightarrow> ci_cart_id i = c \<and> ci_product_id i = p"
  by (simp add: ci_key_def)

lemma get_item_clear:
  "get_item c p (clear_items cid db) = (if c = cid then None else get_item c p db)"
proof -
  have "find_by ci_key (c, p) (filter (\<lambda>i. ci_cart_id i \<noteq> cid) t) =
      (if c = cid then None else find_by ci_key (c, p) t)" for t
    by (induction t) (auto simp: ci_key_eq)
  then show ?thesis by (simp add: get_item_def clear_items_def)
qed

lemma carts_clear_items [simp]: "carts (clear_items cid db) = carts db"
  by (simp add: clear_items_def)

lemma clear_items_effect:
  assumes "cart_ok db1" "find_by cart_user_id u (carts db1) = Some cart"
  shows "in_cart (clear_items (cart_id cart) db1) u' p = (if u' = u then 0 else in_cart db1 u' p)"
proof (cases "u' = u")
  case True
  with assms show ?thesis by (simp add: in_cart_def get_item_clear)
next
  case False
  then have "cart_id c \<noteq> cart_id cart" if "find_by cart_user_id u' (carts db1) = Some c" for c
    using other_cart [OF assms that] by auto
  with False show ?thesis by (auto simp: in_cart_def get_item_clear split: option.split)
qed

lemma cart_clear_effect:
  assumes "cart_ok db" "fresh_cart nid db"
  shows "in_cart (cart_clear nid u db) u' p = (if u' = u then 0 else in_cart db u' p)"
proof -
  obtain cart db1 where c: "get_or_create_cart nid u db = (cart, db1)" by fastforce
  note ok = get_or_create_cart_ok [OF assms c]
  from clear_items_effect [OF ok(1,4)] in_cart_after_create [OF assms c] c show ?thesis
    by (simp add: cart_clear_def)
qed

section \<open>The summary and the guarded route\<close>

definition visible :: "'a cart_db_scheme \<Rightarrow> cart_item \<Rightarrow> product option" where
  "visible db ci = (case get_product_by_id (ci_product_id ci) db of
     None \<Rightarrow> None | Some p \<Rightarrow> if p_is_active p then Some p else None)"

lemma summary_loop_eq:
  "summary_loop db rest items subtotal =
     (items @ List.map_filter (\<lambda>ci. map_option (\<lambda>p.
        \<lparr> cip_product_id = p_id p, cip_name = p_name p, cip_slug = p_slug p,
          cip_unit_price = effective_unit_price p, cip_quantity = ci_quantity ci,
          cip_subtotal = effective_unit_price p * ci_quantity ci,
          cip_available_stock = available_stock p db \<rparr>) (visible db ci)) rest,
      subtotal + sum_list (List.map_filter (\<lambda>ci. map_option (\<lambda>p.
          effective_unit_price p * ci_quantity ci) (visible db ci)) rest))"
  by (induction rest arbitrary: items subtotal)
     (auto simp: visible_def map_filter_simps Let_def split: option.split)

lemma map_map_filter: "map f (List.map_filter g xs) = List.map_filter (map_option f \<circ> g) xs"
  by (induction xs) (auto simp: map_filter_simps split: option.split)

lemma summary_total_is_sum:
  "cs_total (fst (get_summary nid u db)) = (\<Sum>i \<leftarrow> cs_items (fst (get_summary nid u db)). cip_subtotal i)
   \<and> cs_subtotal (fst (get_summary nid u db)) = cs_total (fst (get_summary nid u db))"
  by (cases "get_or_create_cart nid u db")
     (simp add: get_summary_def summary_loop_eq map_map_filter comp_def option.map_comp)

lemma get_summary_keys [simp]: "idempotency_keys (snd (get_summary nid u db)) = idempotency_keys db"
  using get_or_create_cart_frame(5) [of nid u db]
  by (cases "get_or_create_cart nid u db") (simp add: get_summary_def case_prod_beta)

lemma cart_add_item_keys:
  "cart_add_item nid u pid q db = Inr db' \<Longrightarrow> idempotency_keys db' = idempotency_keys db"
  by (erule cart_add_item_cases) (auto dest: get_or_create_cart_frame(5) split: option.splits)

interpretation add_item_guard: guarded_operation "add_cart_item_action u nid pid q" for u nid pid q
proof
  fix db r db' assume "add_cart_item_action u nid pid q db = Inr (r, db' :: 'b cart_db_scheme)"
  then obtain db1 where "cart_add_item nid (u_id u) pid q db = Inr db1"
      "r = (201, json_of_summary (fst (get_summary nid (u_id u) db1)))"
      "db' = snd (get_summary nid (u_id u) db1)"
    by (auto simp: add_cart_item_action_def bindE_eq_Inr case_prod_beta)
  then show "idempotency_keys db' = idempotency_keys db" "fst r \<noteq> 0"
    by (simp_all add: cart_add_item_keys)
qed

end
