(* ===== verification/Wallet.thy ===== *)
theory Wallet
  imports Cart
begin

text \<open>
  The wallet (\<open>app/modules/wallet\<close>): a balance per user and the ledger of transactions it
  is the cache of. \<open>WalletRepository\<close>, \<open>WalletService\<close> and the routes. The request
  amounts are any positive decimals; \<open>num\<close> is the conversion of a written amount to
  \<open>NUMERIC(14, 0)\<close>.
\<close>

section \<open>Data\<close>

datatype wallet_transaction_type = Deposit | Purchase | Refund | AdminCredit | AdminDebit

definition CREDIT_TYPES :: "wallet_transaction_type list" where
  "CREDIT_TYPES = [Deposit, Refund, AdminCredit]"

definition DEBIT_TYPES :: "wallet_transaction_type list" where
  "DEBIT_TYPES = [Purchase, AdminDebit]"

record wallet =
  w_id :: uuid
  w_user_id :: uuid
  w_balance :: int

record wallet_transaction =
  wt_id :: uuid
  wt_wallet_id :: uuid
  wt_type :: wallet_transaction_type
  wt_amount :: int
  wt_balance_after :: int
  wt_reference_type :: "string option"
  wt_reference_id :: "uuid option"
  wt_note :: "note_text option"
  wt_actor_id :: "uuid option"
  wt_created_at :: datetime

record wallet_db = cart_db +
  wallets :: "wallet list"
  wallet_transactions :: "wallet_transaction list"

text \<open>Values a request brings from outside: fresh keys and the clock.\<close>

record fresh_ids =
  f_wallet :: uuid
  f_transaction :: uuid
  f_now :: datetime

section \<open>Repository\<close>

definition get_wallet_by_user_id :: "uuid \<Rightarrow> 'a wallet_db_scheme \<Rightarrow> wallet option" where
  "get_wallet_by_user_id uid db = find_by w_user_id uid (wallets db)"

definition list_for_wallet ::
    "uuid \<Rightarrow> int \<Rightarrow> int \<Rightarrow> 'a wallet_db_scheme \<Rightarrow> wallet_transaction list \<times> int" where
  "list_for_wallet wid off n db =
     (let rows = filter (\<lambda>t. wt_wallet_id t = wid) (wallet_transactions db)
      in (offset_limit off n (sort_key (\<lambda>t. - wt_created_at t) rows), int (length rows)))"

section \<open>Service\<close>

definition get_or_create_wallet :: "uuid \<Rightarrow> uuid \<Rightarrow> 'a wallet_db_scheme \<Rightarrow> wallet \<times> 'a wallet_db_scheme" where
  "get_or_create_wallet new_id uid db =
     (case get_wallet_by_user_id uid db of
        Some w \<Rightarrow> (w, db)
      | None \<Rightarrow> let w = \<lparr>w_id = new_id, w_user_id = uid, w_balance = 0\<rparr>
                in (w, db\<lparr>wallets := wallets db @ [w]\<rparr>))"

text \<open>The transaction object of the session keeps the amounts of the request; the row that the
  flush writes has them as whole numbers.\<close>

record transaction_view =
  tv_id :: uuid
  tv_type :: wallet_transaction_type
  tv_amount :: decimal
  tv_balance_after :: decimal
  tv_note :: "note_text option"
  tv_created_at :: datetime

definition apply_transaction ::
    "(decimal \<Rightarrow> int) \<Rightarrow> fresh_ids \<Rightarrow> uuid \<Rightarrow> wallet_transaction_type \<Rightarrow> decimal
     \<Rightarrow> string option \<Rightarrow> uuid option \<Rightarrow> note_text option \<Rightarrow> uuid option \<Rightarrow> 'a wallet_db_scheme
     \<Rightarrow> exn + (transaction_view \<times> 'a wallet_db_scheme)" where
  "apply_transaction num fresh uid type amount ref_type ref_id note actor db =
     (let (w, db1) = get_or_create_wallet (f_wallet fresh) uid db;
          signed_amount = (if type \<in> set CREDIT_TYPES then amount else - amount);
          new_balance = of_int (w_balance w) + signed_amount
      in if new_balance < 0 then Inl ConflictError
         else if \<not> (numeric_fits 14 (num new_balance) \<and> numeric_fits 14 (num amount)) then Inl DBAPIError
         else Inr
           (\<lparr> tv_id = f_transaction fresh, tv_type = type, tv_amount = amount,
              tv_balance_after = new_balance, tv_note = note, tv_created_at = f_now fresh \<rparr>,
            db1\<lparr> wallets := update_by w_user_id uid (\<lambda>w. w\<lparr>w_balance := num new_balance\<rparr>) (wallets db1),
                 wallet_transactions := wallet_transactions db1 @
                   [\<lparr> wt_id = f_transaction fresh, wt_wallet_id = w_id w, wt_type = type,
                      wt_amount = num amount, wt_balance_after = num new_balance,
                      wt_reference_type = ref_type, wt_reference_id = ref_id, wt_note = note,
                      wt_actor_id = actor, wt_created_at = f_now fresh \<rparr>] \<rparr>))"

definition deposit ::
    "(decimal \<Rightarrow> int) \<Rightarrow> fresh_ids \<Rightarrow> uuid \<Rightarrow> decimal \<Rightarrow> 'a wallet_db_scheme
     \<Rightarrow> exn + (transaction_view \<times> 'a wallet_db_scheme)" where
  "deposit num fresh uid amount db =
     apply_transaction num fresh uid Deposit amount None None (Some DepositNote) None db"

definition refund_order ::
    "(decimal \<Rightarrow> int) \<Rightarrow> fresh_ids \<Rightarrow> uuid \<Rightarrow> decimal \<Rightarrow> uuid \<Rightarrow> uuid \<Rightarrow> 'a wallet_db_scheme
     \<Rightarrow> exn + (transaction_view \<times> 'a wallet_db_scheme)" where
  "refund_order num fresh uid amount order_id actor db =
     apply_transaction num fresh uid Refund amount (Some ''order'') (Some order_id) (Some RefundNote) (Some actor) db"

definition admin_credit ::
    "(decimal \<Rightarrow> int) \<Rightarrow> fresh_ids \<Rightarrow> uuid \<Rightarrow> decimal \<Rightarrow> string \<Rightarrow> uuid \<Rightarrow> 'a wallet_db_scheme
     \<Rightarrow> exn + (transaction_view \<times> 'a wallet_db_scheme)" where
  "admin_credit num fresh uid amount reason actor db =
     apply_transaction num fresh uid AdminCredit amount None None (Some (UserNote reason)) (Some actor) db"

definition admin_debit ::
    "(decimal \<Rightarrow> int) \<Rightarrow> fresh_ids \<Rightarrow> uuid \<Rightarrow> decimal \<Rightarrow> string \<Rightarrow> uuid \<Rightarrow> 'a wallet_db_scheme
     \<Rightarrow> exn + (transaction_view \<times> 'a wallet_db_scheme)" where
  "admin_debit num fresh uid amount reason actor db =
     apply_transaction num fresh uid AdminDebit amount None None (Some (UserNote reason)) (Some actor) db"

section \<open>Routes\<close>

fun json_of_type :: "wallet_transaction_type \<Rightarrow> json" where
  "json_of_type Deposit = JStr ''deposit''"
| "json_of_type Purchase = JStr ''purchase''"
| "json_of_type Refund = JStr ''refund''"
| "json_of_type AdminCredit = JStr ''admin_credit''"
| "json_of_type AdminDebit = JStr ''admin_debit''"

definition json_of_transaction :: "transaction_view \<Rightarrow> json" where
  "json_of_transaction t = JObj
     [(''id'', JUuid (tv_id t)), (''type'', json_of_type (tv_type t)), (''amount'', JMoney (tv_amount t)),
      (''balance_after'', JMoney (tv_balance_after t)), (''note'', json_opt JNote (tv_note t)),
      (''created_at'', JTime (tv_created_at t))]"

definition get_my_wallet :: "user \<Rightarrow> fresh_ids \<Rightarrow> 'a wallet_db_scheme \<Rightarrow> wallet \<times> 'a wallet_db_scheme" where
  "get_my_wallet u fresh db = get_or_create_wallet (f_wallet fresh) (u_id u) db"

definition list_my_wallet_transactions ::
    "user \<Rightarrow> fresh_ids \<Rightarrow> page_params \<Rightarrow> 'a wallet_db_scheme
     \<Rightarrow> (exn + wallet_transaction page) \<times> 'a wallet_db_scheme" where
  "list_my_wallet_transactions u fresh ps db = request db (
     bindE (validated (page_params_valid ps)) (\<lambda>_.
       let (w, db1) = get_or_create_wallet (f_wallet fresh) (u_id u) db;
           (items, n) = list_for_wallet (w_id w) (page_offset ps) (pg_page_size ps) db1
       in Inr (page_create items n ps, db1)))"

definition deposit_action ::
    "(decimal \<Rightarrow> int) \<Rightarrow> user \<Rightarrow> fresh_ids \<Rightarrow> decimal \<Rightarrow> 'a wallet_db_scheme
     \<Rightarrow> exn + (http_response \<times> 'a wallet_db_scheme)" where
  "deposit_action num u fresh amount db =
     bindE (validated (0 < amount)) (\<lambda>_.
     bindE (deposit num fresh (u_id u) amount db) (\<lambda>(t, db1).
       Inr ((201, json_of_transaction t), db1)))"

definition deposit_to_wallet ::
    "(decimal \<Rightarrow> int) \<Rightarrow> user \<Rightarrow> fresh_ids \<Rightarrow> string option \<Rightarrow> string \<Rightarrow> decimal \<Rightarrow> 'a wallet_db_scheme
     \<Rightarrow> (exn + http_response) \<times> 'a wallet_db_scheme" where
  "deposit_to_wallet num u fresh key request_hash amount db =
     guarded ''wallet.deposit'' (u_id u) key request_hash (f_now fresh) (deposit_action num u fresh amount) db"

definition admin_get_wallet ::
    "user \<Rightarrow> fresh_ids \<Rightarrow> uuid \<Rightarrow> 'a wallet_db_scheme \<Rightarrow> (exn + wallet) \<times> 'a wallet_db_scheme" where
  "admin_get_wallet u fresh uid db = request db (
     bindE (require_permission ''wallet.manage'' u) (\<lambda>_. Inr (get_or_create_wallet (f_wallet fresh) uid db)))"

definition admin_adjust_action ::
    "bool \<Rightarrow> (decimal \<Rightarrow> int) \<Rightarrow> user \<Rightarrow> fresh_ids \<Rightarrow> uuid \<Rightarrow> decimal \<Rightarrow> string \<Rightarrow> 'a wallet_db_scheme
     \<Rightarrow> exn + (http_response \<times> 'a wallet_db_scheme)" where
  "admin_adjust_action is_credit num u fresh uid amount reason db =
     bindE (validated (0 < amount \<and> length_between 1 500 reason)) (\<lambda>_.
     bindE (if is_credit then admin_credit num fresh uid amount reason (u_id u) db
            else admin_debit num fresh uid amount reason (u_id u) db) (\<lambda>(t, db1).
       Inr ((201, json_of_transaction t), db1)))"

definition admin_credit_wallet ::
    "(decimal \<Rightarrow> int) \<Rightarrow> user \<Rightarrow> fresh_ids \<Rightarrow> string option \<Rightarrow> string \<Rightarrow> uuid \<Rightarrow> decimal \<Rightarrow> string
     \<Rightarrow> 'a wallet_db_scheme \<Rightarrow> (exn + http_response) \<times> 'a wallet_db_scheme" where
  "admin_credit_wallet num u fresh key request_hash uid amount reason db =
     (case require_permission ''wallet.manage'' u of
        Inl e \<Rightarrow> (Inl e, db)
      | Inr _ \<Rightarrow> guarded ''wallet.admin_credit'' (u_id u) key request_hash (f_now fresh)
                  (admin_adjust_action True num u fresh uid amount reason) db)"

definition admin_debit_wallet ::
    "(decimal \<Rightarrow> int) \<Rightarrow> user \<Rightarrow> fresh_ids \<Rightarrow> string option \<Rightarrow> string \<Rightarrow> uuid \<Rightarrow> decimal \<Rightarrow> string
     \<Rightarrow> 'a wallet_db_scheme \<Rightarrow> (exn + http_response) \<times> 'a wallet_db_scheme" where
  "admin_debit_wallet num u fresh key request_hash uid amount reason db =
     (case require_permission ''wallet.manage'' u of
        Inl e \<Rightarrow> (Inl e, db)
      | Inr _ \<Rightarrow> guarded ''wallet.admin_debit'' (u_id u) key request_hash (f_now fresh)
                  (admin_adjust_action False num u fresh uid amount reason) db)"

section \<open>The ledger\<close>

definition signed :: "wallet_transaction \<Rightarrow> int" where
  "signed t = (if wt_type t \<in> set CREDIT_TYPES then wt_amount t else - wt_amount t)"

definition ledger_of :: "uuid \<Rightarrow> 'a wallet_db_scheme \<Rightarrow> wallet_transaction list" where
  "ledger_of wid db = filter (\<lambda>t. wt_wallet_id t = wid) (wallet_transactions db)"

text \<open>Each row's \<open>balance_after\<close> is the sum of the rows up to it.\<close>

fun running :: "int \<Rightarrow> wallet_transaction list \<Rightarrow> bool" where
  "running b [] = True"
| "running b (t # ts) = (wt_balance_after t = b + signed t \<and> 0 \<le> wt_balance_after t \<and> running (b + signed t) ts)"

definition wallets_ok :: "'a wallet_db_scheme \<Rightarrow> bool" where
  "wallets_ok db \<longleftrightarrow> unique_by w_user_id (wallets db) \<and> unique_by w_id (wallets db)
     \<and> (\<forall>w \<in> set (wallets db). 0 \<le> w_balance w)
     \<and> (\<forall>t \<in> set (wallet_transactions db). wt_wallet_id t \<in> w_id ` set (wallets db))"

definition ledger_ok :: "'a wallet_db_scheme \<Rightarrow> bool" where
  "ledger_ok db \<longleftrightarrow> (\<forall>w \<in> set (wallets db).
     w_balance w = (\<Sum>t \<leftarrow> ledger_of (w_id w) db. signed t) \<and> running 0 (ledger_of (w_id w) db))"

definition fresh_wallet :: "fresh_ids \<Rightarrow> 'a wallet_db_scheme \<Rightarrow> bool" where
  "fresh_wallet fresh db \<longleftrightarrow> f_wallet fresh \<notin> w_id ` set (wallets db)"

definition balance_of :: "'a wallet_db_scheme \<Rightarrow> uuid \<Rightarrow> int" where
  "balance_of db uid = (case get_wallet_by_user_id uid db of None \<Rightarrow> 0 | Some w \<Rightarrow> w_balance w)"

lemma running_append: "running b (ts @ us) \<longleftrightarrow> running b ts \<and> running (b + (\<Sum>t \<leftarrow> ts. signed t)) us"
  by (induction ts arbitrary: b) (auto simp: add.assoc)

lemma get_or_create_wallet_cases:
  obtains (found) w where "get_wallet_by_user_id uid db = Some w" "get_or_create_wallet nid uid db = (w, db)"
    | (created) w where "get_wallet_by_user_id uid db = None" "w = \<lparr>w_id = nid, w_user_id = uid, w_balance = 0\<rparr>"
      "get_or_create_wallet nid uid db = (w, db\<lparr>wallets := wallets db @ [w]\<rparr>)"
  by (cases "get_wallet_by_user_id uid db") (simp_all add: get_or_create_wallet_def Let_def)

lemma ledger_of_fresh:
  "wallets_ok db \<Longrightarrow> wid \<notin> w_id ` set (wallets db) \<Longrightarrow> ledger_of wid db = []"
  by (auto simp: ledger_of_def wallets_ok_def filter_empty_conv)

lemma get_or_create_wallet_ok:
  assumes "wallets_ok db" "fresh_wallet fresh db" "get_or_create_wallet (f_wallet fresh) uid db = (w, db1)"
  shows "wallets_ok db1" and "get_wallet_by_user_id uid db1 = Some w"
    and "ledger_ok db \<Longrightarrow> ledger_ok db1" and "balance_of db1 u = balance_of db u"
    and "w_balance w = balance_of db uid"
proof -
  have "wallets_ok db1 \<and> get_wallet_by_user_id uid db1 = Some w \<and> (ledger_ok db \<longrightarrow> ledger_ok db1)
      \<and> balance_of db1 u = balance_of db u \<and> w_balance w = balance_of db uid"
  proof (cases rule: get_or_create_wallet_cases [of uid db "f_wallet fresh"])
    case (found v)
    with assms show ?thesis by (simp add: balance_of_def)
  next
    case (created v)
    then have e: "w = v" "db1 = db\<lparr>wallets := wallets db @ [v]\<rparr>" using assms(3) by simp_all
    have "ledger_of (f_wallet fresh) db1 = ledger_of (f_wallet fresh) db" by (simp add: e ledger_of_def)
    also have "\<dots> = []" by (rule ledger_of_fresh [OF assms(1)]) (use assms(2) in \<open>simp add: fresh_wallet_def\<close>)
    finally have l: "ledger_of (f_wallet fresh) db1 = []" .
    have l': "ledger_of x db1 = ledger_of x db" for x by (simp add: e ledger_of_def)
    have "wallets_ok db1"
      using assms(1,2) created(1,2)
      by (auto simp: wallets_ok_def e unique_by_append_one find_by_None fresh_wallet_def get_wallet_by_user_id_def)
    moreover have "ledger_ok db1" if "ledger_ok db"
      using that created(2) l by (auto simp: ledger_ok_def l') (auto simp: e)
    ultimately show ?thesis
      using created(1,2)
      by (auto simp: e get_wallet_by_user_id_def find_by_append balance_of_def split: option.split)
  qed
  then show "wallets_ok db1" "get_wallet_by_user_id uid db1 = Some w" "ledger_ok db \<Longrightarrow> ledger_ok db1"
    "balance_of db1 u = balance_of db u" "w_balance w = balance_of db uid" by blast+
qed

lemma apply_transaction_cases:
  assumes "apply_transaction num fresh uid ty amount rt rid note actor db = Inr (t, db')"
  obtains w db1 b where "get_or_create_wallet (f_wallet fresh) uid db = (w, db1)"
    "b = of_int (w_balance w) + (if ty \<in> set CREDIT_TYPES then amount else - amount)" "0 \<le> b"
    "db' = db1\<lparr> wallets := update_by w_user_id uid (\<lambda>w. w\<lparr>w_balance := num b\<rparr>) (wallets db1),
                wallet_transactions := wallet_transactions db1 @
                   [\<lparr> wt_id = f_transaction fresh, wt_wallet_id = w_id w, wt_type = ty,
                      wt_amount = num amount, wt_balance_after = num b,
                      wt_reference_type = rt, wt_reference_id = rid, wt_note = note,
                      wt_actor_id = actor, wt_created_at = f_now fresh \<rparr>] \<rparr>"
    "tv_balance_after t = b" "tv_amount t = amount"
proof -
  obtain w db1 where g: "get_or_create_wallet (f_wallet fresh) uid db = (w, db1)" by fastforce
  from assms g show thesis
    by (intro that [OF g refl]) (auto simp: apply_transaction_def Let_def not_less split: if_splits)
qed

lemma wallet_of_user:
  assumes "wallets_ok db" "get_wallet_by_user_id uid db = Some w" "v \<in> set (wallets db)"
  shows "w_user_id v = uid \<longleftrightarrow> v = w" and "w_id v = w_id w \<longleftrightarrow> v = w"
proof -
  have w: "w \<in> set (wallets db)" "w_user_id w = uid"
    using assms(2) unfolding get_wallet_by_user_id_def by (blast dest: find_by_SomeD)+
  show "w_user_id v = uid \<longleftrightarrow> v = w" "w_id v = w_id w \<longleftrightarrow> v = w"
    using find_by_unique [of w_user_id "wallets db"] find_by_unique [of w_id "wallets db"] assms(1,3) w
    unfolding wallets_ok_def by (metis option.inject)+
qed

lemma apply_transaction_ok:
  assumes "numeric_column num" "wallets_ok db" "fresh_wallet fresh db"
    and "apply_transaction num fresh uid ty amount rt rid note actor db = Inr (t, db')"
  shows "wallets_ok db'"
  using assms(4)
proof (rule apply_transaction_cases)
  fix w db1 b
  assume g: "get_or_create_wallet (f_wallet fresh) uid db = (w, db1)" and b: "0 \<le> b"
    and db': "db' = db1\<lparr> wallets := update_by w_user_id uid (\<lambda>w. w\<lparr>w_balance := num b\<rparr>) (wallets db1),
                wallet_transactions := wallet_transactions db1 @
                   [\<lparr> wt_id = f_transaction fresh, wt_wallet_id = w_id w, wt_type = ty,
                      wt_amount = num amount, wt_balance_after = num b,
                      wt_reference_type = rt, wt_reference_id = rid, wt_note = note,
                      wt_actor_id = actor, wt_created_at = f_now fresh \<rparr>] \<rparr>"
  note ok = get_or_create_wallet_ok [OF assms(2,3) g]
  have w: "w \<in> set (wallets db1)" using ok(2) unfolding get_wallet_by_user_id_def by (rule find_by_mem)
  have ids: "map w_id (wallets db') = map w_id (wallets db1)" by (simp add: db' map_update_by_same)
  then have "w_id ` set (wallets db') = w_id ` set (wallets db1)" by (metis set_map)
  moreover have "0 \<le> num b" by (rule numeric_column.num_nonneg [OF assms(1) b])
  ultimately show ?thesis
    using ok(1) w ids
    by (auto simp: wallets_ok_def unique_by_def [of w_id] db' unique_update_by set_update_by)
qed

lemma apply_transaction_balance:
  assumes "numeric_column num" "wallets_ok db" "fresh_wallet fresh db" "amount \<in> \<int>"
    and "apply_transaction num fresh uid ty amount rt rid note actor db = Inr (t, db')"
  shows "balance_of db' u = balance_of db u
      + (if u = uid then (if ty \<in> set CREDIT_TYPES then num amount else - num amount) else 0)"
  using assms(5)
proof (rule apply_transaction_cases)
  fix w db1 b
  assume g: "get_or_create_wallet (f_wallet fresh) uid db = (w, db1)"
    and b: "b = of_int (w_balance w) + (if ty \<in> set CREDIT_TYPES then amount else - amount)"
    and db': "db' = db1\<lparr> wallets := update_by w_user_id uid (\<lambda>w. w\<lparr>w_balance := num b\<rparr>) (wallets db1),
                wallet_transactions := wallet_transactions db1 @
                   [\<lparr> wt_id = f_transaction fresh, wt_wallet_id = w_id w, wt_type = ty,
                      wt_amount = num amount, wt_balance_after = num b,
                      wt_reference_type = rt, wt_reference_id = rid, wt_note = note,
                      wt_actor_id = actor, wt_created_at = f_now fresh \<rparr>] \<rparr>"
  note ok = get_or_create_wallet_ok [OF assms(2,3) g]
  obtain z where z: "amount = of_int z" using assms(4) by (elim Ints_cases)
  have nb: "num b = w_balance w + (if ty \<in> set CREDIT_TYPES then num amount else - num amount)"
    using numeric_column.num_whole [OF assms(1), of z]
      numeric_column.num_whole [OF assms(1), of "w_balance w + z"]
      numeric_column.num_whole [OF assms(1), of "w_balance w - z"]
    by (simp add: b z)
  have "balance_of db' u = (if u = uid then num b else balance_of db1 u)"
    using ok(2) by (simp add: balance_of_def get_wallet_by_user_id_def db' find_by_update_by)
  with nb ok(4,5) show ?thesis by simp
qed

lemma apply_transaction_ledger:
  assumes "numeric_column num" "wallets_ok db" "fresh_wallet fresh db" "amount \<in> \<int>" "ledger_ok db"
    and "apply_transaction num fresh uid ty amount rt rid note actor db = Inr (t, db')"
  shows "ledger_ok db'"
  using assms(6)
proof (rule apply_transaction_cases)
  fix w db1 b
  assume g: "get_or_create_wallet (f_wallet fresh) uid db = (w, db1)" and b0: "0 \<le> b"
    and b: "b = of_int (w_balance w) + (if ty \<in> set CREDIT_TYPES then amount else - amount)"
    and db': "db' = db1\<lparr> wallets := update_by w_user_id uid (\<lambda>w. w\<lparr>w_balance := num b\<rparr>) (wallets db1),
                wallet_transactions := wallet_transactions db1 @
                   [\<lparr> wt_id = f_transaction fresh, wt_wallet_id = w_id w, wt_type = ty,
                      wt_amount = num amount, wt_balance_after = num b,
                      wt_reference_type = rt, wt_reference_id = rid, wt_note = note,
                      wt_actor_id = actor, wt_created_at = f_now fresh \<rparr>] \<rparr>"
  let ?t = "\<lparr> wt_id = f_transaction fresh, wt_wallet_id = w_id w, wt_type = ty,
                      wt_amount = num amount, wt_balance_after = num b,
                      wt_reference_type = rt, wt_reference_id = rid, wt_note = note,
                      wt_actor_id = actor, wt_created_at = f_now fresh \<rparr>"
  note ok = get_or_create_wallet_ok [OF assms(2,3) g]
  note own = wallet_of_user [OF ok(1,2)]
  have L: "ledger_ok db1" by (rule ok(3) [OF assms(5)])
  have w: "w \<in> set (wallets db1)" using ok(2) unfolding get_wallet_by_user_id_def by (rule find_by_mem)
  obtain z where z: "amount = of_int z" using assms(4) by (elim Ints_cases)
  have nb: "num b = w_balance w + signed ?t"
    using numeric_column.num_whole [OF assms(1), of z]
      numeric_column.num_whole [OF assms(1), of "w_balance w + z"]
      numeric_column.num_whole [OF assms(1), of "w_balance w - z"]
    by (simp add: b z signed_def)
  have ld: "ledger_of x db' = ledger_of x db1 @ (if x = w_id w then [?t] else [])" for x
    by (simp add: ledger_of_def db')
  have nn: "0 \<le> num b" by (rule numeric_column.num_nonneg [OF assms(1) b0])
  show ?thesis
    unfolding ledger_ok_def
  proof
    fix v assume "v \<in> set (wallets db')"
    then have "v \<in> set (wallets db1) \<and> w_user_id v \<noteq> uid \<or> (\<exists>r \<in> set (wallets db1). w_user_id r = uid \<and> v = r\<lparr>w_balance := num b\<rparr>)"
      by (auto simp: db' set_update_by)
    then consider (other) "v \<in> set (wallets db1)" "w_user_id v \<noteq> uid" | (mine) "v = w\<lparr>w_balance := num b\<rparr>"
      using own(1) by blast
    then show "w_balance v = (\<Sum>t \<leftarrow> ledger_of (w_id v) db'. signed t) \<and> running 0 (ledger_of (w_id v) db')"
    proof cases
      case other
      then have "w_id v \<noteq> w_id w" using own by auto
      with other(1) L show ?thesis by (simp add: ld ledger_ok_def)
    next
      case mine
      from L w have "w_balance w = (\<Sum>t \<leftarrow> ledger_of (w_id w) db1. signed t)" "running 0 (ledger_of (w_id w) db1)"
        by (simp_all add: ledger_ok_def)
      with nb nn show ?thesis by (simp add: mine ld running_append)
    qed
  qed
qed

text \<open>An account, as the rest of the program sees it: operations that return have added their
  amount to one balance, and no balance is ever negative.\<close>

locale account =
  fixes balance :: "'s \<Rightarrow> uuid \<Rightarrow> int"
    and invar :: "'s \<Rightarrow> bool"
    and run :: "'op \<Rightarrow> 's \<Rightarrow> exn + 's"
    and delta :: "'op \<Rightarrow> uuid \<Rightarrow> int"
  assumes run_balance: "invar s \<Longrightarrow> run op s = Inr s' \<Longrightarrow> balance s' u = balance s u + delta op u"
    and run_invar: "invar s \<Longrightarrow> run op s = Inr s' \<Longrightarrow> invar s'"
    and never_negative: "invar s \<Longrightarrow> 0 \<le> balance s u"
begin

definition run_all :: "'op list \<Rightarrow> 's \<Rightarrow> exn + 's" where
  "run_all = foldE run"

lemma run_all_balance:
  assumes "run_all ops s = Inr s'" "invar s"
  shows "balance s' u = balance s u + (\<Sum>op \<leftarrow> ops. delta op u) \<and> invar s'"
  using assms
proof (induction ops arbitrary: s)
  case Nil
  then show ?case by (simp add: run_all_def)
next
  case (Cons op ops)
  then obtain t where t: "run op s = Inr t" "run_all ops t = Inr s'"
    by (auto simp: run_all_def bindE_eq_Inr)
  from Cons.IH [OF t(2) run_invar [OF Cons.prems(2) t(1)]] run_balance [OF Cons.prems(2) t(1), of u]
  show ?case by simp
qed

text \<open>Whatever is spent was there: the debits of any successful sequence are covered by the
  opening balance and the credits.\<close>

lemma no_overdraft:
  assumes "run_all ops s = Inr s'" "invar s"
  shows "(\<Sum>op \<leftarrow> ops. max 0 (- delta op u)) \<le> balance s u + (\<Sum>op \<leftarrow> ops. max 0 (delta op u))"
proof -
  have "0 \<le> balance s u + (\<Sum>op \<leftarrow> ops. delta op u)"
    using run_all_balance [OF assms, of u] never_negative [of s' u] by simp
  moreover have "(\<Sum>op \<leftarrow> ops. delta op u) = (\<Sum>op \<leftarrow> ops. max 0 (delta op u)) - (\<Sum>op \<leftarrow> ops. max 0 (- delta op u))"
    by (induction ops) auto
  ultimately show ?thesis by simp
qed

end

text \<open>The operations of the service, with whole amounts; fresh keys are part of an operation.\<close>

datatype wallet_op =
    OpDeposit fresh_ids uuid int
  | OpRefund fresh_ids uuid int uuid uuid
  | OpCredit fresh_ids uuid int string uuid
  | OpDebit fresh_ids uuid int string uuid

fun op_fresh :: "wallet_op \<Rightarrow> fresh_ids" where
  "op_fresh (OpDeposit f u a) = f"
| "op_fresh (OpRefund f u a i x) = f"
| "op_fresh (OpCredit f u a r x) = f"
| "op_fresh (OpDebit f u a r x) = f"

fun op_run :: "(decimal \<Rightarrow> int) \<Rightarrow> wallet_op \<Rightarrow> 'a wallet_db_scheme \<Rightarrow> exn + (transaction_view \<times> 'a wallet_db_scheme)" where
  "op_run num (OpDeposit f u a) db = deposit num f u (of_int a) db"
| "op_run num (OpRefund f u a i x) db = refund_order num f u (of_int a) i x db"
| "op_run num (OpCredit f u a r x) db = admin_credit num f u (of_int a) r x db"
| "op_run num (OpDebit f u a r x) db = admin_debit num f u (of_int a) r x db"

fun op_delta :: "wallet_op \<Rightarrow> uuid \<Rightarrow> int" where
  "op_delta (OpDeposit f u a) v = (if v = u then a else 0)"
| "op_delta (OpRefund f u a i x) v = (if v = u then a else 0)"
| "op_delta (OpCredit f u a r x) v = (if v = u then a else 0)"
| "op_delta (OpDebit f u a r x) v = (if v = u then - a else 0)"

text \<open>The operation as a state change; a wallet key that is already taken cannot occur.\<close>

definition wallet_run :: "(decimal \<Rightarrow> int) \<Rightarrow> wallet_op \<Rightarrow> 'a wallet_db_scheme \<Rightarrow> exn + 'a wallet_db_scheme" where
  "wallet_run num op db =
     (if f_wallet (op_fresh op) \<in> set (map w_id (wallets db)) then Inl DBAPIError
      else map_sum id snd (op_run num op db))"

lemma op_run_apply:
  obtains ty uid a rt rid nt actor where
    "\<And>db. op_run num op db = apply_transaction num (op_fresh op) uid ty (of_int a) rt rid nt actor db"
    "\<And>v. op_delta op v = (if v = uid then (if ty \<in> set CREDIT_TYPES then a else - a) else 0)"
proof (cases op)
  case (OpDeposit f u a)
  show thesis by (rule that [of u Deposit a None None "Some DepositNote" None])
    (simp_all add: OpDeposit deposit_def CREDIT_TYPES_def)
next
  case (OpRefund f u a i x)
  show thesis by (rule that [of u Refund a "Some ''order''" "Some i" "Some RefundNote" "Some x"])
    (simp_all add: OpRefund refund_order_def CREDIT_TYPES_def)
next
  case (OpCredit f u a r x)
  show thesis by (rule that [of u AdminCredit a None None "Some (UserNote r)" "Some x"])
    (simp_all add: OpCredit admin_credit_def CREDIT_TYPES_def)
next
  case (OpDebit f u a r x)
  show thesis by (rule that [of u AdminDebit a None None "Some (UserNote r)" "Some x"])
    (simp_all add: OpDebit admin_debit_def CREDIT_TYPES_def)
qed

definition wallet_inv :: "'a wallet_db_scheme \<Rightarrow> bool" where
  "wallet_inv db \<longleftrightarrow> wallets_ok db \<and> ledger_ok db"

lemma wallet_run_facts:
  assumes num: "numeric_column num" and inv: "wallet_inv s" and run: "wallet_run num op s = Inr s'"
  shows "balance_of s' u = balance_of s u + op_delta op u" and "wallet_inv s'"
proof -
  from run have f: "fresh_wallet (op_fresh op) s" and "map_sum id snd (op_run num op s) = Inr s'"
    by (auto simp: wallet_run_def fresh_wallet_def split: if_splits)
  then obtain t where t: "op_run num op s = Inr (t, s')" by (cases "op_run num op s") auto
  obtain ty uid a rt rid nt actor where
    o: "\<And>db :: 'a wallet_db_scheme. op_run num op db = apply_transaction num (op_fresh op) uid ty (of_int a) rt rid nt actor db"
    and d: "\<And>v. op_delta op v = (if v = uid then (if ty \<in> set CREDIT_TYPES then a else - a) else 0)"
    by (rule op_run_apply [of num op thesis]) (rule that, assumption, assumption)
  from t o have ap: "apply_transaction num (op_fresh op) uid ty (of_int a) rt rid nt actor s = Inr (t, s')" by simp
  from inv have ok: "wallets_ok s" "ledger_ok s" by (simp_all add: wallet_inv_def)
  show "balance_of s' u = balance_of s u + op_delta op u"
    using apply_transaction_balance [OF num ok(1) f _ ap] by (simp add: d numeric_column.num_whole [OF num])
  show "wallet_inv s'"
    using apply_transaction_ok [OF num ok(1) f ap] apply_transaction_ledger [OF num ok(1) f _ ok(2) ap]
    by (simp add: wallet_inv_def)
qed

lemma balance_nonneg: "wallets_ok db \<Longrightarrow> 0 \<le> balance_of db u"
  unfolding balance_of_def get_wallet_by_user_id_def wallets_ok_def
  by (auto split: option.split dest: find_by_mem)

interpretation wallet: account balance_of wallet_inv "wallet_run round_half_away" op_delta
proof
  fix s :: "'b wallet_db_scheme" and op s' u
  assume i: "wallet_inv s"
  then show "0 \<le> balance_of s u" by (simp add: wallet_inv_def balance_nonneg)
  assume r: "wallet_run round_half_away op s = Inr s'"
  from wallet_run_facts [OF pg.numeric_column_axioms i r]
  show "balance_of s' u = balance_of s u + op_delta op u" "wallet_inv s'" by simp_all
qed

text \<open>A debit that the balance does not cover is refused and changes nothing.\<close>

lemma debit_refused:
  assumes "wallets_ok db" "fresh_wallet fresh db" "of_int (balance_of db uid) < amount"
  shows "admin_debit num fresh uid amount reason actor db = Inl ConflictError"
proof -
  obtain w db1 where g: "get_or_create_wallet (f_wallet fresh) uid db = (w, db1)" by fastforce
  from get_or_create_wallet_ok(5) [OF assms(1,2) g] assms(3) g show ?thesis
    by (simp add: admin_debit_def apply_transaction_def CREDIT_TYPES_def)
qed

section \<open>The guarded routes\<close>

lemma apply_transaction_keys:
  "apply_transaction num fresh uid ty amount rt rid note actor db = Inr (t, db') \<Longrightarrow>
     idempotency_keys db' = idempotency_keys db"
proof (erule apply_transaction_cases)
  fix w db1 b
  assume g: "get_or_create_wallet (f_wallet fresh) uid db = (w, db1)"
    and db': "db' = db1\<lparr> wallets := update_by w_user_id uid (\<lambda>w. w\<lparr>w_balance := num b\<rparr>) (wallets db1),
                wallet_transactions := wallet_transactions db1 @
                   [\<lparr> wt_id = f_transaction fresh, wt_wallet_id = w_id w, wt_type = ty,
                      wt_amount = num amount, wt_balance_after = num b,
                      wt_reference_type = rt, wt_reference_id = rid, wt_note = note,
                      wt_actor_id = actor, wt_created_at = f_now fresh \<rparr>] \<rparr>"
  have "idempotency_keys db1 = idempotency_keys db"
    using g by (cases "get_wallet_by_user_id uid db") (auto simp: get_or_create_wallet_def Let_def)
  then show "idempotency_keys db' = idempotency_keys db" by (simp add: db')
qed

lemmas wallet_services = deposit_def admin_credit_def admin_debit_def refund_order_def

interpretation deposit_guard: guarded_operation "deposit_action num u fresh amount" for num u fresh amount
proof
  fix db r db' assume "deposit_action num u fresh amount db = Inr (r, db' :: 'b wallet_db_scheme)"
  then obtain t where "deposit num fresh (u_id u) amount db = Inr (t, db')" "fst r = 201"
    by (auto simp: deposit_action_def bindE_eq_Inr)
  then show "idempotency_keys db' = idempotency_keys db" "fst r \<noteq> 0"
    using apply_transaction_keys by (auto simp: wallet_services)
qed

interpretation adjust_guard: guarded_operation "admin_adjust_action is_credit num u fresh uid amount reason"
  for is_credit num u fresh uid amount reason
proof
  fix db r db' assume "admin_adjust_action is_credit num u fresh uid amount reason db = Inr (r, db' :: 'b wallet_db_scheme)"
  then have "(\<exists>t. admin_credit num fresh uid amount reason (u_id u) db = Inr (t, db')
      \<or> admin_debit num fresh uid amount reason (u_id u) db = Inr (t, db')) \<and> fst r = 201"
    by (auto simp: admin_adjust_action_def bindE_eq_Inr split: if_splits)
  then show "idempotency_keys db' = idempotency_keys db" "fst r \<noteq> 0"
    using apply_transaction_keys by (auto simp: wallet_services)
qed

end
