(* ===== verification/Orders.thy ===== *)
theory Orders
  imports Wallet
begin

text \<open>
  Orders (\<open>app/modules/orders\<close>): the state machine of an order, checkout, the outcome of a
  payment, cancellation and the administrator's status changes. \<open>OrderRepository\<close>,
  \<open>OrderService\<close> and the routes. The fresh key of a new order and the clock are arguments.
\<close>

section \<open>Data\<close>

datatype order_status =
    OrdPending | OrdAwaitingPayment | OrdPaid | OrdProcessing | OrdShipped | OrdCompleted
  | OrdCancelled | OrdPaymentFailed | OrdRefunded

fun ALLOWED_TRANSITIONS :: "order_status \<Rightarrow> order_status list" where
  "ALLOWED_TRANSITIONS OrdPending = [OrdAwaitingPayment, OrdCancelled]"
| "ALLOWED_TRANSITIONS OrdAwaitingPayment = [OrdPaid, OrdPaymentFailed, OrdCancelled]"
| "ALLOWED_TRANSITIONS OrdPaid = [OrdProcessing, OrdRefunded, OrdCancelled]"
| "ALLOWED_TRANSITIONS OrdProcessing = [OrdShipped, OrdCancelled]"
| "ALLOWED_TRANSITIONS OrdShipped = [OrdCompleted]"
| "ALLOWED_TRANSITIONS OrdCompleted = [OrdRefunded]"
| "ALLOWED_TRANSITIONS OrdPaymentFailed = [OrdAwaitingPayment, OrdCancelled]"
| "ALLOWED_TRANSITIONS OrdCancelled = []"
| "ALLOWED_TRANSITIONS OrdRefunded = []"

record shipping_address =
  sa_recipient_name :: string
  sa_province :: string
  sa_city :: string
  sa_address_line :: string
  sa_postal_code :: string
  sa_phone_number :: string

definition shipping_address_valid :: "shipping_address \<Rightarrow> bool" where
  "shipping_address_valid a \<longleftrightarrow>
     length_between 0 150 (sa_recipient_name a) \<and> length_between 0 100 (sa_province a)
     \<and> length_between 0 100 (sa_city a) \<and> length_between 0 500 (sa_address_line a)
     \<and> length_between 0 20 (sa_postal_code a) \<and> length_between 0 20 (sa_phone_number a)"

record order =
  o_id :: uuid
  o_user_id :: uuid
  o_status :: order_status
  o_subtotal :: int
  o_total :: int
  o_shipping_address :: "shipping_address option"
  o_cancelled_at :: "datetime option"
  o_created_at :: datetime

record order_item =
  oi_order_id :: uuid
  oi_product_id :: "uuid option"
  oi_product_name_snapshot :: string
  oi_sku_snapshot :: string
  oi_unit_price_snapshot :: int
  oi_quantity :: int
  oi_subtotal :: int

record order_status_history =
  oh_order_id :: uuid
  oh_from_status :: "order_status option"
  oh_to_status :: order_status
  oh_actor_id :: "uuid option"
  oh_note :: "note_text option"
  oh_created_at :: datetime

record orders_db = wallet_db +
  orders :: "order list"
  order_items :: "order_item list"
  order_history :: "order_status_history list"

section \<open>Repository\<close>

definition get_order_by_id :: "uuid \<Rightarrow> 'a orders_db_scheme \<Rightarrow> order option" where
  "get_order_by_id oid db = find_by o_id oid (orders db)"

definition items_of_order :: "uuid \<Rightarrow> 'a orders_db_scheme \<Rightarrow> order_item list" where
  "items_of_order oid db = filter (\<lambda>i. oi_order_id i = oid) (order_items db)"

definition list_for_user ::
    "uuid \<Rightarrow> int \<Rightarrow> int \<Rightarrow> 'a orders_db_scheme \<Rightarrow> order list \<times> int" where
  "list_for_user uid off n db =
     (let rows = filter (\<lambda>r. o_user_id r = uid) (orders db)
      in (offset_limit off n (sort_key (\<lambda>r. - o_created_at r) rows), int (length rows)))"

definition list_all :: "int \<Rightarrow> int \<Rightarrow> 'a orders_db_scheme \<Rightarrow> order list \<times> int" where
  "list_all off n db =
     (offset_limit off n (sort_key (\<lambda>r. - o_created_at r) (orders db)), int (length (orders db)))"

section \<open>Service\<close>

text \<open>\<open>_transition\<close>: the check, the history row and the assignment to the order.\<close>

definition set_status :: "order_status \<Rightarrow> datetime \<Rightarrow> order \<Rightarrow> order" where
  "set_status new_status now r =
     r\<lparr> o_status := new_status,
        o_cancelled_at := (if new_status = OrdCancelled then Some now else o_cancelled_at r) \<rparr>"

definition transition ::
    "order \<Rightarrow> order_status \<Rightarrow> uuid option \<Rightarrow> note_text option \<Rightarrow> datetime \<Rightarrow> 'a orders_db_scheme
     \<Rightarrow> exn + (order \<times> 'a orders_db_scheme)" where
  "transition ord new_status actor note now db =
     (if new_status \<notin> set (ALLOWED_TRANSITIONS (o_status ord)) then Inl ConflictError
      else Inr (set_status new_status now ord,
        db\<lparr> order_history := order_history db @
              [\<lparr> oh_order_id = o_id ord, oh_from_status = Some (o_status ord), oh_to_status = new_status,
                 oh_actor_id = actor, oh_note = note, oh_created_at = now \<rparr>],
            orders := update_by o_id (o_id ord) (set_status new_status now) (orders db) \<rparr>))"

text \<open>One pass of the loop of \<open>checkout\<close> over the cart's items.\<close>

definition checkout_line ::
    "uuid \<Rightarrow> uuid \<Rightarrow> cart_item \<Rightarrow> 'a orders_db_scheme \<times> int \<Rightarrow> exn + ('a orders_db_scheme \<times> int)" where
  "checkout_line oid uid item s =
     (case s of (db, subtotal) \<Rightarrow>
       (case get_product_by_id (ci_product_id item) db of
          None \<Rightarrow> Inl ConflictError
        | Some product \<Rightarrow>
            if \<not> p_is_active product then Inl ConflictError
            else
              let unit_price = effective_unit_price product;
                  item_subtotal = unit_price * ci_quantity item;
                  row = \<lparr> oi_order_id = oid, oi_product_id = Some (p_id product),
                          oi_product_name_snapshot = p_name product, oi_sku_snapshot = p_sku product,
                          oi_unit_price_snapshot = unit_price, oi_quantity = ci_quantity item,
                          oi_subtotal = item_subtotal \<rparr>
              in bindE (reserve (p_id product) (ci_quantity item) ''order'' oid (Some uid)
                     (db\<lparr>order_items := order_items db @ [row]\<rparr>)) (\<lambda>db'.
                   Inr (db', subtotal + item_subtotal))))"

text \<open>What the flush refuses: amounts outside \<open>NUMERIC(14, 0)\<close> and \<open>NUMERIC(12, 0)\<close>, and the
  constraints of the stock rows.\<close>

definition orders_fit :: "'a orders_db_scheme \<Rightarrow> bool" where
  "orders_fit db \<longleftrightarrow> catalog_constraints db
     \<and> (\<forall>r \<in> set (orders db). numeric_fits 14 (o_subtotal r) \<and> numeric_fits 14 (o_total r))
     \<and> (\<forall>i \<in> set (order_items db). numeric_fits 14 (oi_subtotal i) \<and> numeric_fits 12 (oi_unit_price_snapshot i)
          \<and> int4 (oi_quantity i))"

definition flush_orders :: "'r \<Rightarrow> 'a orders_db_scheme \<Rightarrow> exn + ('r \<times> 'a orders_db_scheme)" where
  "flush_orders r db = (if orders_fit db then Inr (r, db) else Inl DBAPIError)"

record checkout_fresh =
  k_cart :: uuid
  k_order :: uuid
  k_now :: datetime

definition checkout_service ::
    "checkout_fresh \<Rightarrow> uuid \<Rightarrow> shipping_address option \<Rightarrow> 'a orders_db_scheme
     \<Rightarrow> exn + (order \<times> 'a orders_db_scheme)" where
  "checkout_service k uid addr db =
     (let (cart, db1) = get_or_create_cart (k_cart k) uid db;
          items = items_of cart db1
      in if items = [] then Inl ConflictError
         else
           let oid = k_order k;
               ord = \<lparr> o_id = oid, o_user_id = uid, o_status = OrdPending, o_subtotal = 0, o_total = 0,
                       o_shipping_address = addr, o_cancelled_at = None, o_created_at = k_now k \<rparr>
           in bindE (foldE (checkout_line oid uid) items (db1\<lparr>orders := orders db1 @ [ord]\<rparr>, 0)) (\<lambda>(db2, subtotal).
              let ord2 = ord\<lparr>o_subtotal := subtotal, o_total := subtotal\<rparr>;
                  db3 = db2\<lparr>orders := update_by o_id oid
                            (\<lambda>r. r\<lparr>o_subtotal := subtotal, o_total := subtotal\<rparr>) (orders db2)\<rparr>
              in bindE (transition ord2 OrdAwaitingPayment (Some uid) None (k_now k) db3) (\<lambda>(ord3, db4).
                 flush_orders ord3 (clear_items (cart_id cart) db4))))"

text \<open>The loops over \<open>order.items\<close> that call the stock keeper; a line whose product is gone is
  skipped.\<close>

definition each_item ::
    "(uuid \<Rightarrow> int \<Rightarrow> 'a orders_db_scheme \<Rightarrow> exn + 'a orders_db_scheme) \<Rightarrow> uuid \<Rightarrow> 'a orders_db_scheme
     \<Rightarrow> exn + 'a orders_db_scheme" where
  "each_item f oid db =
     foldE (\<lambda>i d. case oi_product_id i of None \<Rightarrow> Inr d | Some pid \<Rightarrow> f pid (oi_quantity i) d)
       (items_of_order oid db) db"

definition mark_paid :: "datetime \<Rightarrow> uuid \<Rightarrow> 'a orders_db_scheme \<Rightarrow> exn + (order \<times> 'a orders_db_scheme)" where
  "mark_paid now oid db =
     bindE (the_or NotFoundError (get_order_by_id oid db)) (\<lambda>ord.
     bindE (each_item (\<lambda>pid q. commit_purchase pid q ''order'' oid None) oid db) (\<lambda>db1.
       transition ord OrdPaid None (Some PaidNote) now db1))"

definition mark_payment_failed :: "datetime \<Rightarrow> uuid \<Rightarrow> 'a orders_db_scheme \<Rightarrow> exn + (order \<times> 'a orders_db_scheme)" where
  "mark_payment_failed now oid db =
     bindE (the_or NotFoundError (get_order_by_id oid db)) (\<lambda>ord.
     bindE (each_item (\<lambda>pid q. release pid q ''order'' oid None) oid db) (\<lambda>db1.
       transition ord OrdPaymentFailed None (Some PaymentFailedNote) now db1))"

definition authorize_access :: "order \<Rightarrow> user \<Rightarrow> exn + unit" where
  "authorize_access ord u =
     (if o_user_id ord \<noteq> u_id u \<and> u_role u \<notin> {Admin, SuperAdmin} then Inl PermissionDeniedError else Inr ())"

definition cancel :: "datetime \<Rightarrow> uuid \<Rightarrow> user \<Rightarrow> 'a orders_db_scheme \<Rightarrow> exn + (order \<times> 'a orders_db_scheme)" where
  "cancel now oid u db =
     bindE (the_or NotFoundError (get_order_by_id oid db)) (\<lambda>ord.
     bindE (authorize_access ord u) (\<lambda>_.
     bindE (if o_status ord \<in> {OrdPending, OrdAwaitingPayment, OrdPaid}
            then each_item (\<lambda>pid q. release pid q ''order'' oid None) oid db
            else Inr db) (\<lambda>db1.
       transition ord OrdCancelled (Some (u_id u)) (Some CancelledNote) now db1)))"

definition admin_update_status ::
    "datetime \<Rightarrow> uuid \<Rightarrow> order_status \<Rightarrow> string option \<Rightarrow> uuid \<Rightarrow> 'a orders_db_scheme
     \<Rightarrow> exn + (order \<times> 'a orders_db_scheme)" where
  "admin_update_status now oid new_status note actor db =
     bindE (the_or NotFoundError (get_order_by_id oid db)) (\<lambda>ord.
       transition ord new_status (Some actor) (map_option UserNote note) now db)"

definition get_for_user :: "uuid \<Rightarrow> user \<Rightarrow> 'a orders_db_scheme \<Rightarrow> exn + order" where
  "get_for_user oid u db =
     bindE (the_or NotFoundError (get_order_by_id oid db)) (\<lambda>ord.
     bindE (authorize_access ord u) (\<lambda>_. Inr ord))"

section \<open>Routes\<close>

record order_public =
  op_id :: uuid
  op_status :: order_status
  op_subtotal :: int
  op_total :: int
  op_shipping_address :: "shipping_address option"
  op_items :: "order_item list"
  op_created_at :: datetime

definition serialize_order :: "order \<Rightarrow> 'a orders_db_scheme \<Rightarrow> order_public" where
  "serialize_order ord db =
     \<lparr> op_id = o_id ord, op_status = o_status ord, op_subtotal = o_subtotal ord, op_total = o_total ord,
       op_shipping_address = o_shipping_address ord, op_items = items_of_order (o_id ord) db,
       op_created_at = o_created_at ord \<rparr>"

fun json_of_status :: "order_status \<Rightarrow> json" where
  "json_of_status OrdPending = JStr ''pending''"
| "json_of_status OrdAwaitingPayment = JStr ''awaiting_payment''"
| "json_of_status OrdPaid = JStr ''paid''"
| "json_of_status OrdProcessing = JStr ''processing''"
| "json_of_status OrdShipped = JStr ''shipped''"
| "json_of_status OrdCompleted = JStr ''completed''"
| "json_of_status OrdCancelled = JStr ''cancelled''"
| "json_of_status OrdPaymentFailed = JStr ''payment_failed''"
| "json_of_status OrdRefunded = JStr ''refunded''"

definition json_of_address :: "shipping_address \<Rightarrow> json" where
  "json_of_address a = JObj
     [(''recipient_name'', JStr (sa_recipient_name a)), (''province'', JStr (sa_province a)),
      (''city'', JStr (sa_city a)), (''address_line'', JStr (sa_address_line a)),
      (''postal_code'', JStr (sa_postal_code a)), (''phone_number'', JStr (sa_phone_number a))]"

definition json_of_order :: "order_public \<Rightarrow> json" where
  "json_of_order r = JObj
     [(''id'', JUuid (op_id r)), (''status'', json_of_status (op_status r)),
      (''subtotal'', JMoney (of_int (op_subtotal r))), (''total'', JMoney (of_int (op_total r))),
      (''shipping_address'', json_opt json_of_address (op_shipping_address r)),
      (''items'', JList (map (\<lambda>i. JObj
         [(''product_id'', json_opt JUuid (oi_product_id i)),
          (''product_name'', JStr (oi_product_name_snapshot i)), (''sku'', JStr (oi_sku_snapshot i)),
          (''unit_price'', JMoney (of_int (oi_unit_price_snapshot i))),
          (''quantity'', JInt (oi_quantity i)), (''subtotal'', JMoney (of_int (oi_subtotal i)))]) (op_items r))),
      (''created_at'', JTime (op_created_at r))]"

definition checkout_action ::
    "user \<Rightarrow> checkout_fresh \<Rightarrow> shipping_address option \<Rightarrow> 'a orders_db_scheme
     \<Rightarrow> exn + (http_response \<times> 'a orders_db_scheme)" where
  "checkout_action u k addr db =
     bindE (validated (case addr of None \<Rightarrow> True | Some a \<Rightarrow> shipping_address_valid a)) (\<lambda>_.
     bindE (checkout_service k (u_id u) addr db) (\<lambda>(ord, db1).
       Inr ((201, json_of_order (serialize_order ord db1)), db1)))"

definition checkout ::
    "user \<Rightarrow> checkout_fresh \<Rightarrow> string option \<Rightarrow> string \<Rightarrow> shipping_address option \<Rightarrow> 'a orders_db_scheme
     \<Rightarrow> (exn + http_response) \<times> 'a orders_db_scheme" where
  "checkout u k key request_hash addr db =
     guarded ''order.checkout'' (u_id u) key request_hash (k_now k) (checkout_action u k addr) db"

definition list_my_orders ::
    "user \<Rightarrow> page_params \<Rightarrow> 'a orders_db_scheme \<Rightarrow> exn + order_public page" where
  "list_my_orders u ps db =
     bindE (validated (page_params_valid ps)) (\<lambda>_.
       let (items, n) = list_for_user (u_id u) (page_offset ps) (pg_page_size ps) db
       in Inr (page_create (map (\<lambda>r. serialize_order r db) items) n ps))"

definition get_order :: "user \<Rightarrow> uuid \<Rightarrow> 'a orders_db_scheme \<Rightarrow> exn + order_public" where
  "get_order u oid db = bindE (get_for_user oid u db) (\<lambda>ord. Inr (serialize_order ord db))"

definition cancel_order ::
    "user \<Rightarrow> datetime \<Rightarrow> uuid \<Rightarrow> 'a orders_db_scheme \<Rightarrow> (exn + order_public) \<times> 'a orders_db_scheme" where
  "cancel_order u now oid db = request db (
     bindE (cancel now oid u db) (\<lambda>(ord, db1). flush_orders (serialize_order ord db1) db1))"

definition list_all_orders ::
    "user \<Rightarrow> page_params \<Rightarrow> 'a orders_db_scheme \<Rightarrow> exn + order_public page" where
  "list_all_orders u ps db =
     bindE (require_permission ''order.read'' u) (\<lambda>_.
     bindE (validated (page_params_valid ps)) (\<lambda>_.
       let (items, n) = list_all (page_offset ps) (pg_page_size ps) db
       in Inr (page_create (map (\<lambda>r. serialize_order r db) items) n ps)))"

definition update_order_status ::
    "(decimal \<Rightarrow> int) \<Rightarrow> user \<Rightarrow> fresh_ids \<Rightarrow> uuid \<Rightarrow> order_status \<Rightarrow> string option \<Rightarrow> 'a orders_db_scheme
     \<Rightarrow> (exn + order_public) \<times> 'a orders_db_scheme" where
  "update_order_status num u fresh oid new_status note db = request db (
     bindE (require_permission ''order.manage'' u) (\<lambda>_.
     bindE (validated (case note of None \<Rightarrow> True | Some n \<Rightarrow> text_length n \<le> 500)) (\<lambda>_.
     bindE (admin_update_status (f_now fresh) oid new_status note (u_id u) db) (\<lambda>(ord, db1).
     bindE (if o_status ord = OrdRefunded
            then map_sum id snd (refund_order num fresh (o_user_id ord) (of_int (o_total ord)) (o_id ord) (u_id u) db1)
            else Inr db1) (\<lambda>db2.
       flush_orders (serialize_order ord db2) db2)))))"

end
