(* ===== verification/Order_Facts.thy ===== *)
theory Order_Facts
  imports Orders
begin

text \<open>
  What the order service does, stated over the abstract stock map and the tables: the
  loops over the lines of a cart or an order as the loops of \<open>stock_service\<close>, the exact
  effect of a checkout, of a payment outcome and of a cancellation, and the invariants
  of the order tables.
\<close>

section \<open>Stock movements touch two tables\<close>

definition stock_only :: "'a inventory_db_scheme \<Rightarrow> 'a inventory_db_scheme \<Rightarrow> bool" where
  "stock_only db db' \<longleftrightarrow> (\<exists>inv hist. db' = db\<lparr>inventories := inv, inventory_log := hist\<rparr>)"

lemma stock_only_refl: "stock_only db db"
  unfolding stock_only_def by (rule exI [of _ "inventories db"], rule exI [of _ "inventory_log db"]) simp

lemma stock_only_trans: "stock_only a b \<Longrightarrow> stock_only b c \<Longrightarrow> stock_only a c"
  unfolding stock_only_def by clarsimp blast

lemma stock_only_put: "stock_only db (add_inventory_history h (put_inventory p f db))"
  unfolding stock_only_def add_inventory_history_def put_inventory_def by auto

lemma stock_only_ops:
  "reserve p q rt rid a db = Inr db' \<Longrightarrow> stock_only db db'"
  "release p q rt rid a db = Inr db' \<Longrightarrow> stock_only db db'"
  "commit_purchase p q rt rid a db = Inr db' \<Longrightarrow> stock_only db db'"
  by (auto simp: reserve_def release_def commit_purchase_def bindE_eq_Inr Let_def stock_only_put
      split: if_splits)

lemma stock_only_foldE:
  assumes "\<And>x d d'. f x d = Inr d' \<Longrightarrow> stock_only d d'" "foldE f xs db = Inr db'"
  shows "stock_only db db'"
  by (rule foldE_invariant [where I = "stock_only db", OF assms(2) stock_only_refl])
     (use assms(1) stock_only_trans in blast)

lemma reserve_order_items:
  "reserve p q rt rid a (db\<lparr>order_items := x\<rparr>) = map_sum id (\<lambda>d. d\<lparr>order_items := x\<rparr>) (reserve p q rt rid a db)"
  by (simp add: reserve_def locked_inventory_def lock_for_update_def bindE_def Let_def
      add_inventory_history_def put_inventory_def split: sum.split)

text \<open>They read the same two tables.\<close>

definition stock_part :: "'a inventory_db_scheme \<Rightarrow> inventory_row list \<times> inventory_history list" where
  "stock_part db = (inventories db, inventory_log db)"

lemma stock_ops_part:
  assumes "stock_part s = stock_part t"
  shows "map_sum id stock_part (reserve p q rt rid a s) = map_sum id stock_part (reserve p q rt rid a t)"
    and "map_sum id stock_part (release p q rt rid a s) = map_sum id stock_part (release p q rt rid a t)"
    and "map_sum id stock_part (commit_purchase p q rt rid a s) = map_sum id stock_part (commit_purchase p q rt rid a t)"
  using assms
  by (cases "lock_for_update p t";
      simp add: stock_part_def reserve_def release_def commit_purchase_def locked_inventory_def lock_for_update_def
        Let_def add_inventory_history_def put_inventory_def)+

lemma reserve_all_part:
  "stock_part s = stock_part t \<Longrightarrow>
     map_sum id stock_part (stk.reserve_all rt rid a ls s) = map_sum id stock_part (stk.reserve_all rt rid a ls t)"
  unfolding stk.reserve_all_def by (rule foldE_lockstep) (rule stock_ops_part)

section \<open>Lines\<close>

definition order_lines :: "uuid \<Rightarrow> 'a orders_db_scheme \<Rightarrow> order_line list" where
  "order_lines oid db =
     List.map_filter (\<lambda>i. map_option (\<lambda>p. (p, oi_quantity i)) (oi_product_id i)) (items_of_order oid db)"

definition cart_lines :: "cart_item list \<Rightarrow> order_line list" where
  "cart_lines items = map (\<lambda>i. (ci_product_id i, ci_quantity i)) items"

lemma each_item_lines: "each_item f oid db = foldE (\<lambda>l. f (fst l) (snd l)) (order_lines oid db) db"
proof -
  have "foldE (\<lambda>i d. case oi_product_id i of None \<Rightarrow> Inr d | Some pid \<Rightarrow> f pid (oi_quantity i) d) xs d =
      foldE (\<lambda>l. f (fst l) (snd l))
        (List.map_filter (\<lambda>i. map_option (\<lambda>p. (p, oi_quantity i)) (oi_product_id i)) xs) d" for xs d
  proof (induction xs arbitrary: d)
    case (Cons i xs)
    then have "foldE (\<lambda>i d. case oi_product_id i of None \<Rightarrow> Inr d | Some pid \<Rightarrow> f pid (oi_quantity i) d) xs =
        foldE (\<lambda>l. f (fst l) (snd l))
          (List.map_filter (\<lambda>i. map_option (\<lambda>p. (p, oi_quantity i)) (oi_product_id i)) xs)"
      by (rule ext)
    then show ?case by (simp add: map_filter_simps split: option.split)
  qed (simp add: map_filter_simps)
  then show ?thesis by (simp add: each_item_def order_lines_def)
qed

lemma each_item_release:
  "each_item (\<lambda>pid q. release pid q ''order'' oid a) oid db = stk.release_all ''order'' oid a (order_lines oid db) db"
  by (simp add: each_item_lines stk.release_all_def)

lemma each_item_purchase:
  "each_item (\<lambda>pid q. commit_purchase pid q ''order'' oid a) oid db =
     stk.purchase_all ''order'' oid a (order_lines oid db) db"
  by (simp add: each_item_lines stk.purchase_all_def)

section \<open>Checkout\<close>

definition product_of :: "'a catalog_db_scheme \<Rightarrow> cart_item \<Rightarrow> product" where
  "product_of db i = the (get_product_by_id (ci_product_id i) db)"

definition available_line :: "'a catalog_db_scheme \<Rightarrow> cart_item \<Rightarrow> bool" where
  "available_line db i \<longleftrightarrow> (\<exists>p. get_product_by_id (ci_product_id i) db = Some p \<and> p_is_active p)"

definition item_row :: "uuid \<Rightarrow> product \<Rightarrow> cart_item \<Rightarrow> order_item" where
  "item_row oid p i =
     \<lparr> oi_order_id = oid, oi_product_id = Some (ci_product_id i),
       oi_product_name_snapshot = p_name p, oi_sku_snapshot = p_sku p,
       oi_unit_price_snapshot = effective_unit_price p, oi_quantity = ci_quantity i,
       oi_subtotal = effective_unit_price p * ci_quantity i \<rparr>"

definition lines_total :: "'a catalog_db_scheme \<Rightarrow> cart_item list \<Rightarrow> int" where
  "lines_total db items = (\<Sum>i \<leftarrow> items. effective_unit_price (product_of db i) * ci_quantity i)"

lemma stock_only_products: "stock_only db db' \<Longrightarrow> get_product_by_id p db' = get_product_by_id p db"
  by (auto simp: stock_only_def get_product_by_id_def)

lemma checkout_line_Inr:
  "checkout_line oid uid i (db, s) = Inr (db', s') \<longleftrightarrow>
     available_line db i \<and> s' = s + effective_unit_price (product_of db i) * ci_quantity i
     \<and> (\<exists>d. reserve (ci_product_id i) (ci_quantity i) ''order'' oid (Some uid) db = Inr d
          \<and> db' = d\<lparr>order_items := order_items db @ [item_row oid (product_of db i) i]\<rparr>)"
proof (cases "get_product_by_id (ci_product_id i) db")
  case None
  then show ?thesis by (simp add: checkout_line_def available_line_def)
next
  case (Some p)
  then have id: "p_id p = ci_product_id i" unfolding get_product_by_id_def by (rule find_by_key)
  show ?thesis
  proof (cases "p_is_active p")
    case False
    with Some show ?thesis by (simp add: checkout_line_def available_line_def)
  next
    case True
    with Some id show ?thesis
      by (cases "reserve (ci_product_id i) (ci_quantity i) ''order'' oid (Some uid) db")
         (auto simp: checkout_line_def available_line_def product_of_def item_row_def Let_def reserve_order_items)
  qed
qed

lemma checkout_loop:
  assumes "foldE (checkout_line oid uid) items (db, s) = Inr (db', s')"
  shows "(\<forall>i \<in> set items. available_line db i) \<and> s' = s + lines_total db items
    \<and> (\<exists>d. stk.reserve_all ''order'' oid (Some uid) (cart_lines items) db = Inr d
         \<and> db' = d\<lparr>order_items := order_items db @ map (\<lambda>i. item_row oid (product_of db i) i) items\<rparr>)"
  using assms
proof (induction items arbitrary: db s)
  case Nil
  then show ?case by (simp add: lines_total_def cart_lines_def stk.reserve_all_def)
next
  case (Cons i items)
  then obtain t u where l: "checkout_line oid uid i (db, s) = Inr (t, u)"
      and r: "foldE (checkout_line oid uid) items (t, u) = Inr (db', s')"
    by (auto simp: bindE_eq_Inr)
  from l obtain d where d: "available_line db i" "u = s + effective_unit_price (product_of db i) * ci_quantity i"
      "reserve (ci_product_id i) (ci_quantity i) ''order'' oid (Some uid) db = Inr d"
      "t = d\<lparr>order_items := order_items db @ [item_row oid (product_of db i) i]\<rparr>"
    unfolding checkout_line_Inr by blast
  have st: "stock_only db d" by (rule stock_only_ops(1) [OF d(3)])
  have same: "get_product_by_id p t = get_product_by_id p db" for p
    using stock_only_products [OF st] by (simp add: d(4) get_product_by_id_def)
  then have pr: "product_of t = product_of db" "available_line t = available_line db"
    by (auto simp: product_of_def available_line_def)
  have com: "stk.reserve_all ''order'' oid (Some uid) ls (x\<lparr>order_items := y\<rparr>) =
      map_sum id (\<lambda>d. d\<lparr>order_items := y\<rparr>) (stk.reserve_all ''order'' oid (Some uid) ls x)" for ls x y
    unfolding stk.reserve_all_def
    by (induction ls arbitrary: x)
       (simp_all add: reserve_order_items bindE_def split: sum.split)
  from Cons.IH [OF r] obtain e where e: "\<forall>i \<in> set items. available_line t i" "s' = u + lines_total t items"
      "stk.reserve_all ''order'' oid (Some uid) (cart_lines items) t = Inr e"
      "db' = e\<lparr>order_items := order_items t @ map (\<lambda>i. item_row oid (product_of t i) i) items\<rparr>"
    by blast
  from e(3) obtain f where f: "stk.reserve_all ''order'' oid (Some uid) (cart_lines items) d = Inr f"
      "e = f\<lparr>order_items := order_items t\<rparr>"
    unfolding d(4) com by (cases "stk.reserve_all ''order'' oid (Some uid) (cart_lines items) d") auto
  have "stk.reserve_all ''order'' oid (Some uid) (cart_lines (i # items)) db = Inr f"
    using d(3) f(1) by (simp add: stk.reserve_all_def cart_lines_def)
  with d(1,2) e(1,2,4) f(2) pr show ?case
    by (auto simp: lines_total_def) (auto simp: d(4))
qed

text \<open>The order a checkout makes.\<close>

definition new_order :: "checkout_fresh \<Rightarrow> uuid \<Rightarrow> shipping_address option \<Rightarrow> int \<Rightarrow> order" where
  "new_order k uid addr amount =
     \<lparr> o_id = k_order k, o_user_id = uid, o_status = OrdAwaitingPayment, o_subtotal = amount,
       o_total = amount, o_shipping_address = addr, o_cancelled_at = None, o_created_at = k_now k \<rparr>"

lemma checkout_built:
  assumes c: "get_or_create_cart (k_cart k) uid db = (cart, db1)" and ne: "items_of cart db1 \<noteq> []"
    and fresh: "get_order_by_id (k_order k) db = None"
    and loop: "foldE (checkout_line (k_order k) uid) (items_of cart db1)
      (db1\<lparr>orders := orders db1 @ [(new_order k uid addr 0)\<lparr>o_status := OrdPending\<rparr>]\<rparr>, 0) = Inr (db2, subtotal)"
  obtains d fin where
    "\<forall>i \<in> set (items_of cart db1). available_line db i"
    "stk.reserve_all ''order'' (k_order k) (Some uid) (cart_lines (items_of cart db1)) db = Inr d"
    "checkout_service k uid addr db = flush_orders (new_order k uid addr (lines_total db (items_of cart db1))) fin"
    "orders fin = orders db @ [new_order k uid addr (lines_total db (items_of cart db1))]"
    "order_items fin = order_items db @ map (\<lambda>i. item_row (k_order k) (product_of db i) i) (items_of cart db1)"
    "order_history fin = order_history db @ [\<lparr>oh_order_id = k_order k, oh_from_status = Some OrdPending,
        oh_to_status = OrdAwaitingPayment, oh_actor_id = Some uid, oh_note = None, oh_created_at = k_now k\<rparr>]"
    "inventories fin = inventories d" "inventory_log fin = inventory_log d"
    "carts fin = carts db1"
    "cart_items fin = filter (\<lambda>i. ci_cart_id i \<noteq> cart_id cart) (cart_items db)"
    "products fin = products db" "categories fin = categories db" "redis fin = redis db"
    "wallets fin = wallets db" "wallet_transactions fin = wallet_transactions db"
    "idempotency_keys fin = idempotency_keys db"
proof -
  define items where "items = items_of cart db1"
  define ord0 where "ord0 = (new_order k uid addr 0)\<lparr>o_status := OrdPending\<rparr>"
  define db0 where "db0 = db1\<lparr>orders := orders db1 @ [ord0]\<rparr>"
  have o0: "ord0 = \<lparr> o_id = k_order k, o_user_id = uid, o_status = OrdPending, o_subtotal = 0, o_total = 0,
                 o_shipping_address = addr, o_cancelled_at = None, o_created_at = k_now k \<rparr>"
    by (simp add: ord0_def new_order_def)
  have loop: "foldE (checkout_line (k_order k) uid) items (db0, 0) = Inr (db2, subtotal)"
    using loop by (simp add: items_def db0_def ord0_def)
  have "checkout_service k uid addr db =
      bindE (transition (ord0\<lparr>o_subtotal := subtotal, o_total := subtotal\<rparr>) OrdAwaitingPayment (Some uid) None (k_now k)
        (db2\<lparr>orders := update_by o_id (k_order k) (\<lambda>r. r\<lparr>o_subtotal := subtotal, o_total := subtotal\<rparr>) (orders db2)\<rparr>))
        (\<lambda>(ord3, db4). flush_orders ord3 (clear_items (cart_id cart) db4))"
    using ne loop unfolding checkout_service_def c items_def db0_def o0 by (simp add: Let_def)
  note rest = this
  from checkout_loop [OF loop] obtain e where e:
      "\<forall>i \<in> set items. available_line db0 i" "subtotal = lines_total db0 items"
      "stk.reserve_all ''order'' (k_order k) (Some uid) (cart_lines items) db0 = Inr e"
      "db2 = e\<lparr>order_items := order_items db0 @ map (\<lambda>i. item_row (k_order k) (product_of db0 i) i) items\<rparr>"
    by auto
  have only: "stock_only db0 e"
    using e(3) unfolding stk.reserve_all_def by (rule stock_only_foldE [rotated]) (rule stock_only_ops)
  then obtain inv hist where e': "e = db0\<lparr>inventories := inv, inventory_log := hist\<rparr>"
    unfolding stock_only_def by blast
  note fr = get_or_create_cart_frame [OF c]
  have fr2: "orders db1 = orders db" "order_items db1 = order_items db" "order_history db1 = order_history db"
      "wallets db1 = wallets db" "wallet_transactions db1 = wallet_transactions db"
    using c by (cases rule: get_or_create_cart_cases [of uid db "k_cart k"]; auto)+
  have part: "stock_part db0 = stock_part db" by (simp add: stock_part_def db0_def fr)
  from reserve_all_part [OF part, of "''order''" "k_order k" "Some uid" "cart_lines items"] e(3)
  obtain d where d: "stk.reserve_all ''order'' (k_order k) (Some uid) (cart_lines items) db = Inr d"
      "stock_part e = stock_part d"
    by (cases "stk.reserve_all ''order'' (k_order k) (Some uid) (cart_lines items) db") auto
  have look: "get_product_by_id p db0 = get_product_by_id p db" for p
    by (simp add: get_product_by_id_def db0_def fr)
  then have prod: "product_of db0 = product_of db" "available_line db0 = available_line db"
      "lines_total db0 items = lines_total db items"
    by (auto simp: product_of_def available_line_def lines_total_def)
  have up: "update_by o_id (k_order k) f (orders db @ [ord0]) = orders db @ [f ord0]" for f
    using fresh by (simp add: update_by_append update_by_absent get_order_by_id_def o0)
  have up2: "update_by o_id (k_order k) f (orders db @ [ord0\<lparr>o_subtotal := x, o_total := y\<rparr>]) =
      orders db @ [f (ord0\<lparr>o_subtotal := x, o_total := y\<rparr>)]" for f x y
    using fresh by (simp add: update_by_append update_by_absent get_order_by_id_def o0)
  let ?ord = "new_order k uid addr (lines_total db items)"
  let ?h = "\<lparr>oh_order_id = k_order k, oh_from_status = Some OrdPending,
        oh_to_status = OrdAwaitingPayment, oh_actor_id = Some uid, oh_note = None, oh_created_at = k_now k\<rparr>"
  have sub: "subtotal = lines_total db items" using e(2) prod(3) by simp
  have st: "set_status OrdAwaitingPayment (k_now k) (ord0\<lparr>o_subtotal := subtotal, o_total := subtotal\<rparr>) = ?ord"
    by (simp add: set_status_def o0 new_order_def sub)
  have ids: "o_id ord0 = k_order k" "o_status ord0 = OrdPending" by (simp_all add: o0)
  have ups: "update_by o_id (k_order k) (\<lambda>r. r\<lparr>o_subtotal := subtotal, o_total := subtotal\<rparr>) (orders db @ [ord0]) =
        orders db @ [ord0\<lparr>o_subtotal := subtotal, o_total := subtotal\<rparr>]"
      "update_by o_id (k_order k) (set_status OrdAwaitingPayment (k_now k))
         (orders db @ [ord0\<lparr>o_subtotal := subtotal, o_total := subtotal\<rparr>]) = orders db @ [?ord]"
    by (simp_all only: up up2 st)
  have db2: "orders db2 = orders db @ [ord0]" by (simp add: e(4) e' db0_def fr2)
  let ?fin = "clear_items (cart_id cart) (db2\<lparr>order_history := order_history db2 @ [?h], orders := orders db @ [?ord]\<rparr>)"
  have fin: "checkout_service k uid addr db = flush_orders ?ord ?fin"
    unfolding rest by (simp add: transition_def ids db2 ups st)
  have fr0: "products db0 = products db" "categories db0 = categories db" "redis db0 = redis db"
      "idempotency_keys db0 = idempotency_keys db" "carts db0 = carts db1" "cart_items db0 = cart_items db"
      "wallets db0 = wallets db" "wallet_transactions db0 = wallet_transactions db"
      "order_items db0 = order_items db" "order_history db0 = order_history db"
    by (simp_all add: db0_def fr fr2)
  have av: "\<forall>i \<in> set items. available_line db i" using e(1) by (simp add: prod)
  have sp: "inv = inventories d" "hist = inventory_log d" using d(2) by (simp_all add: e' stock_part_def)
  show thesis
    by (rule that [unfolded items_def [symmetric], OF av d(1) fin])
       (simp_all add: clear_items_def e(4) e' fr0 prod(1) sp)
qed

lemma checkout_service_cases:
  assumes "checkout_service k uid addr db = Inr (ord, db')"
    and fresh: "get_order_by_id (k_order k) db = None"
  obtains cart db1 items d where
    "get_or_create_cart (k_cart k) uid db = (cart, db1)" "items = items_of cart db1" "items \<noteq> []"
    "\<forall>i \<in> set items. available_line db i"
    "stk.reserve_all ''order'' (k_order k) (Some uid) (cart_lines items) db = Inr d"
    "ord = new_order k uid addr (lines_total db items)"
    "orders db' = orders db @ [ord]"
    "order_items db' = order_items db @ map (\<lambda>i. item_row (k_order k) (product_of db i) i) items"
    "order_history db' = order_history db @ [\<lparr>oh_order_id = k_order k, oh_from_status = Some OrdPending,
        oh_to_status = OrdAwaitingPayment, oh_actor_id = Some uid, oh_note = None, oh_created_at = k_now k\<rparr>]"
    "inventories db' = inventories d" "inventory_log db' = inventory_log d"
    "carts db' = carts db1"
    "cart_items db' = filter (\<lambda>i. ci_cart_id i \<noteq> cart_id cart) (cart_items db)"
    "products db' = products db" "categories db' = categories db" "redis db' = redis db"
    "wallets db' = wallets db" "wallet_transactions db' = wallet_transactions db"
    "idempotency_keys db' = idempotency_keys db" "orders_fit db'"
proof -
  obtain cart db1 where c: "get_or_create_cart (k_cart k) uid db = (cart, db1)" by fastforce
  have ne: "items_of cart db1 \<noteq> []" using assms(1) c by (auto simp: checkout_service_def)
  with assms(1) c obtain db2 subtotal where
    "foldE (checkout_line (k_order k) uid) (items_of cart db1)
       (db1\<lparr>orders := orders db1 @ [(new_order k uid addr 0)\<lparr>o_status := OrdPending\<rparr>]\<rparr>, 0) = Inr (db2, subtotal)"
    by (auto simp: checkout_service_def new_order_def bindE_eq_Inr Let_def split: prod.splits)
  with c ne fresh show thesis
  proof (rule checkout_built)
    fix d fin
    assume *: "checkout_service k uid addr db = flush_orders (new_order k uid addr (lines_total db (items_of cart db1))) fin"
      and **: "\<forall>i \<in> set (items_of cart db1). available_line db i"
      "stk.reserve_all ''order'' (k_order k) (Some uid) (cart_lines (items_of cart db1)) db = Inr d"
      "orders fin = orders db @ [new_order k uid addr (lines_total db (items_of cart db1))]"
      "order_items fin = order_items db @ map (\<lambda>i. item_row (k_order k) (product_of db i) i) (items_of cart db1)"
      "order_history fin = order_history db @ [\<lparr>oh_order_id = k_order k, oh_from_status = Some OrdPending,
          oh_to_status = OrdAwaitingPayment, oh_actor_id = Some uid, oh_note = None, oh_created_at = k_now k\<rparr>]"
      "inventories fin = inventories d" "inventory_log fin = inventory_log d" "carts fin = carts db1"
      "cart_items fin = filter (\<lambda>i. ci_cart_id i \<noteq> cart_id cart) (cart_items db)"
      "products fin = products db" "categories fin = categories db" "redis fin = redis db"
      "wallets fin = wallets db" "wallet_transactions fin = wallet_transactions db"
      "idempotency_keys fin = idempotency_keys db"
    from * assms(1) have "ord = new_order k uid addr (lines_total db (items_of cart db1))" "db' = fin" "orders_fit fin"
      by (auto simp: flush_orders_def split: if_splits)
    with ** c ne show thesis by (intro that [OF c refl ne]) simp_all
  qed
qed

section \<open>One status change\<close>

definition order_moved :: "uuid \<Rightarrow> order_status \<Rightarrow> 'a orders_db_scheme \<Rightarrow> 'a orders_db_scheme \<Rightarrow> bool" where
  "order_moved oid s db db' \<longleftrightarrow> (\<exists>ord a n now. get_order_by_id oid db = Some ord
     \<and> s \<in> set (ALLOWED_TRANSITIONS (o_status ord))
     \<and> orders db' = update_by o_id oid (set_status s now) (orders db)
     \<and> order_items db' = order_items db
     \<and> order_history db' = order_history db @
          [\<lparr>oh_order_id = oid, oh_from_status = Some (o_status ord), oh_to_status = s,
            oh_actor_id = a, oh_note = n, oh_created_at = now\<rparr>])"

lemma get_order_id: "get_order_by_id oid db = Some ord \<Longrightarrow> o_id ord = oid"
  unfolding get_order_by_id_def by (rule find_by_key)

lemma transition_moved:
  assumes "get_order_by_id oid db = Some ord" "stock_only db d"
    and "transition ord s a n now d = Inr (ord', db')"
  shows "order_moved oid s db db'"
    and "ord' = set_status s now ord" and "inventories db' = inventories d" "inventory_log db' = inventory_log d"
    and "wallets db' = wallets db" "wallet_transactions db' = wallet_transactions db"
    and "idempotency_keys db' = idempotency_keys db" "products db' = products db"
    and "carts db' = carts db" "cart_items db' = cart_items db" "s \<in> set (ALLOWED_TRANSITIONS (o_status ord))"
  using assms get_order_id [OF assms(1)]
  by (auto simp: transition_def order_moved_def stock_only_def split: if_splits)

lemma release_all_only: "stk.release_all rt rid a ls db = Inr d \<Longrightarrow> stock_only db d"
  unfolding stk.release_all_def by (erule stock_only_foldE [rotated]) (rule stock_only_ops)

lemma purchase_all_only: "stk.purchase_all rt rid a ls db = Inr d \<Longrightarrow> stock_only db d"
  unfolding stk.purchase_all_def by (erule stock_only_foldE [rotated]) (rule stock_only_ops)

lemma reserve_all_only: "stk.reserve_all rt rid a ls db = Inr d \<Longrightarrow> stock_only db d"
  unfolding stk.reserve_all_def by (erule stock_only_foldE [rotated]) (rule stock_only_ops)

lemma mark_paid_cases:
  assumes "mark_paid now oid db = Inr (ord', db')"
  obtains ord d where "get_order_by_id oid db = Some ord"
    "stk.purchase_all ''order'' oid None (order_lines oid db) db = Inr d"
    "transition ord OrdPaid None (Some PaidNote) now d = Inr (ord', db')"
  using assms by (auto simp: mark_paid_def bindE_eq_Inr each_item_purchase)

lemma mark_payment_failed_cases:
  assumes "mark_payment_failed now oid db = Inr (ord', db')"
  obtains ord d where "get_order_by_id oid db = Some ord"
    "stk.release_all ''order'' oid None (order_lines oid db) db = Inr d"
    "transition ord OrdPaymentFailed None (Some PaymentFailedNote) now d = Inr (ord', db')"
  using assms by (auto simp: mark_payment_failed_def bindE_eq_Inr each_item_release)

lemma cancel_cases:
  assumes "cancel now oid u db = Inr (ord', db')"
  obtains ord d where "get_order_by_id oid db = Some ord"
    "o_user_id ord = u_id u \<or> u_role u \<in> {Admin, SuperAdmin}"
    "o_status ord \<in> {OrdPending, OrdAwaitingPayment, OrdPaid} \<longrightarrow>
       stk.release_all ''order'' oid None (order_lines oid db) db = Inr d"
    "o_status ord \<notin> {OrdPending, OrdAwaitingPayment, OrdPaid} \<longrightarrow> d = db"
    "stock_only db d"
    "transition ord OrdCancelled (Some (u_id u)) (Some CancelledNote) now d = Inr (ord', db')"
proof -
  from assms obtain ord d where o: "get_order_by_id oid db = Some ord"
      "authorize_access ord u = Inr ()"
      "(if o_status ord \<in> {OrdPending, OrdAwaitingPayment, OrdPaid}
        then stk.release_all ''order'' oid None (order_lines oid db) db else Inr db) = Inr d"
      "transition ord OrdCancelled (Some (u_id u)) (Some CancelledNote) now d = Inr (ord', db')"
    unfolding cancel_def each_item_release by (auto simp: bindE_eq_Inr simp del: insert_iff)
  have "o_user_id ord = u_id u \<or> u_role u \<in> {Admin, SuperAdmin}"
    using o(2) by (auto simp: authorize_access_def split: if_splits)
  moreover have "stock_only db d"
    using o(3) by (auto simp: stock_only_refl simp del: insert_iff dest: release_all_only split: if_splits)
  ultimately show thesis using o by (intro that [OF o(1)]) (auto simp del: insert_iff split: if_splits)
qed

section \<open>Invariants of the order tables\<close>

text \<open>The history of an order is a path of allowed transitions from \<open>pending\<close> to its status.\<close>

fun follows :: "order_status \<Rightarrow> order_status_history list \<Rightarrow> order_status \<Rightarrow> bool" where
  "follows s [] s' = (s = s')"
| "follows s (h # hs) s' = (oh_from_status h = Some s \<and> oh_to_status h \<in> set (ALLOWED_TRANSITIONS s)
     \<and> follows (oh_to_status h) hs s')"

definition history_of :: "uuid \<Rightarrow> 'a orders_db_scheme \<Rightarrow> order_status_history list" where
  "history_of oid db = filter (\<lambda>h. oh_order_id h = oid) (order_history db)"

definition history_ok :: "'a orders_db_scheme \<Rightarrow> bool" where
  "history_ok db \<longleftrightarrow> (\<forall>r \<in> set (orders db). follows OrdPending (history_of (o_id r) db) (o_status r))
     \<and> (\<forall>h \<in> set (order_history db). oh_order_id h \<in> o_id ` set (orders db))"

text \<open>An order's totals are the sum of its lines, each priced at its snapshot.\<close>

definition totals_ok :: "'a orders_db_scheme \<Rightarrow> bool" where
  "totals_ok db \<longleftrightarrow> unique_by o_id (orders db)
     \<and> (\<forall>r \<in> set (orders db). o_total r = (\<Sum>i \<leftarrow> items_of_order (o_id r) db. oi_subtotal i) \<and> o_subtotal r = o_total r)
     \<and> (\<forall>i \<in> set (order_items db). oi_order_id i \<in> o_id ` set (orders db) \<and> 1 \<le> oi_quantity i
          \<and> oi_subtotal i = oi_unit_price_snapshot i * oi_quantity i)"

lemma follows_append: "follows s hs t \<Longrightarrow> oh_from_status h = Some t \<Longrightarrow> oh_to_status h \<in> set (ALLOWED_TRANSITIONS t) \<Longrightarrow>
    follows s (hs @ [h]) (oh_to_status h)"
  by (induction hs arbitrary: s) auto

lemma set_status_sel [simp]:
  "o_id (set_status s now r) = o_id r" "o_user_id (set_status s now r) = o_user_id r"
  "o_status (set_status s now r) = s" "o_total (set_status s now r) = o_total r"
  "o_subtotal (set_status s now r) = o_subtotal r"
  by (simp_all add: set_status_def)

lemma moved_orders:
  assumes "order_moved oid s db db'" "unique_by o_id (orders db)"
  obtains ord now where "get_order_by_id oid db = Some ord" "s \<in> set (ALLOWED_TRANSITIONS (o_status ord))"
    "\<And>r. r \<in> set (orders db') \<longleftrightarrow> (r \<in> set (orders db) \<and> o_id r \<noteq> oid) \<or> r = set_status s now ord"
    "map o_id (orders db') = map o_id (orders db)" "order_items db' = order_items db"
    "\<And>x. history_of x db' = history_of x db @ (if x = oid then filter (\<lambda>h. oh_order_id h = oid)
        (drop (length (order_history db)) (order_history db')) else [])"
proof -
  from assms(1) obtain ord a n now where o: "get_order_by_id oid db = Some ord"
      "s \<in> set (ALLOWED_TRANSITIONS (o_status ord))"
      "orders db' = update_by o_id oid (set_status s now) (orders db)" "order_items db' = order_items db"
      "order_history db' = order_history db @
          [\<lparr>oh_order_id = oid, oh_from_status = Some (o_status ord), oh_to_status = s,
            oh_actor_id = a, oh_note = n, oh_created_at = now\<rparr>]"
    unfolding order_moved_def by blast
  have one: "r = ord" if "r \<in> set (orders db)" "o_id r = oid" for r
    using find_by_unique [OF assms(2) that(1)] that(2) o(1) by (simp add: get_order_by_id_def)
  have ord: "ord \<in> set (orders db)" "o_id ord = oid"
    using o(1) find_by_SomeD unfolding get_order_by_id_def by fast+
  show thesis
  proof (rule that [OF o(1,2) _ _ o(4)])
    show "r \<in> set (orders db') \<longleftrightarrow> (r \<in> set (orders db) \<and> o_id r \<noteq> oid) \<or> r = set_status s now ord" for r
      unfolding o(3) set_update_by using one ord by blast
    show "map o_id (orders db') = map o_id (orders db)" by (simp add: o(3) keys_update_by)
    show "history_of x db' = history_of x db @ (if x = oid then filter (\<lambda>h. oh_order_id h = oid)
        (drop (length (order_history db)) (order_history db')) else [])" for x
      by (simp add: history_of_def o(5))
  qed
qed

lemma totals_moved:
  assumes "order_moved oid s db db'" "totals_ok db" shows "totals_ok db'"
proof -
  from assms(2) have u: "unique_by o_id (orders db)" by (simp add: totals_ok_def)
  from moved_orders [OF assms(1) u] obtain ord now where o: "get_order_by_id oid db = Some ord"
    "\<And>r. r \<in> set (orders db') \<longleftrightarrow> (r \<in> set (orders db) \<and> o_id r \<noteq> oid) \<or> r = set_status s now ord"
    "map o_id (orders db') = map o_id (orders db)" "order_items db' = order_items db" by metis
  have "ord \<in> set (orders db)" using o(1) by (simp add: get_order_by_id_def find_by_mem)
  moreover have "o_id ` set (orders db') = o_id ` set (orders db)" using o(3) by (metis set_map)
  moreover have "unique_by o_id (orders db')" using u o(3) by (simp add: unique_by_def)
  moreover have "o_total r = (\<Sum>i \<leftarrow> items_of_order (o_id r) db'. oi_subtotal i) \<and> o_subtotal r = o_total r"
    if "r \<in> set (orders db')" for r
    using that assms(2) \<open>ord \<in> set (orders db)\<close> unfolding o(2) totals_ok_def items_of_order_def o(4) by auto
  ultimately show ?thesis using assms(2) by (simp add: totals_ok_def o(4))
qed

lemma history_moved:
  assumes m: "order_moved oid s db db'" and h: "history_ok db" and u: "unique_by o_id (orders db)"
  shows "history_ok db'"
proof -
  from m obtain ord a n now where o: "get_order_by_id oid db = Some ord"
      "s \<in> set (ALLOWED_TRANSITIONS (o_status ord))"
      "order_history db' = order_history db @
          [\<lparr>oh_order_id = oid, oh_from_status = Some (o_status ord), oh_to_status = s,
            oh_actor_id = a, oh_note = n, oh_created_at = now\<rparr>]"
    unfolding order_moved_def by blast
  from moved_orders [OF m u] obtain ord2 now2 where o2: "get_order_by_id oid db = Some ord2"
    "\<And>r. r \<in> set (orders db') \<longleftrightarrow> (r \<in> set (orders db) \<and> o_id r \<noteq> oid) \<or> r = set_status s now2 ord2"
    "map o_id (orders db') = map o_id (orders db)" by metis
  have eq: "ord2 = ord" using o(1) o2(1) by simp
  have ord: "ord \<in> set (orders db)" "o_id ord = oid"
    using o(1) find_by_SomeD unfolding get_order_by_id_def by fast+
  have hist: "history_of x db' = history_of x db @ (if x = oid then
       [\<lparr>oh_order_id = oid, oh_from_status = Some (o_status ord), oh_to_status = s,
            oh_actor_id = a, oh_note = n, oh_created_at = now\<rparr>] else [])" for x
    by (simp add: history_of_def o(3))
  have "follows OrdPending (history_of (o_id r) db') (o_status r)" if "r \<in> set (orders db')" for r
  proof (cases "o_id r = oid")
    case True
    with that o2(2) eq have r: "r = set_status s now2 ord" by blast
    from h ord have "follows OrdPending (history_of oid db) (o_status ord)" by (auto simp: history_ok_def)
    from follows_append [OF this, of "\<lparr>oh_order_id = oid, oh_from_status = Some (o_status ord), oh_to_status = s,
            oh_actor_id = a, oh_note = n, oh_created_at = now\<rparr>"] o(2) True r
    show ?thesis by (simp add: hist)
  next
    case False
    with that o2(2) eq ord(2) have "r \<in> set (orders db)" by auto
    with h False show ?thesis by (simp add: hist history_ok_def)
  qed
  moreover have ids: "o_id ` set (orders db') = o_id ` set (orders db)" using o2(3) by (metis set_map)
  ultimately show ?thesis using h ord by (auto simp: history_ok_def ids o(3))
qed

end
