(* ===== verification/Order_Invariants.thy ===== *)
theory Order_Invariants
  imports Order_Facts
begin

text \<open>
  Invariants of orders over every operation: the history is a path of the state machine,
  totals are the sum of the lines, what is reserved is what the orders awaiting payment
  ask for, and an order is refunded at most once, with its total.
\<close>

section \<open>Checkout keeps the tables\<close>

lemma fresh_order: "get_order_by_id oid db = None \<longleftrightarrow> oid \<notin> o_id ` set (orders db)"
  by (simp add: get_order_by_id_def find_by_None)

lemma totals_checkout:
  assumes c: "checkout_service k uid addr db = Inr (ord, db')" and f: "get_order_by_id (k_order k) db = None"
    and t: "totals_ok db" and q: "cart_ok db"
  shows "totals_ok db'"
  using c f
proof (rule checkout_service_cases)
  fix cart db1 items
  assume g: "get_or_create_cart (k_cart k) uid db = (cart, db1)" and items: "items = items_of cart db1"
    and ord: "ord = new_order k uid addr (lines_total db items)" and os: "orders db' = orders db @ [ord]"
    and its: "order_items db' = order_items db @ map (\<lambda>i. item_row (k_order k) (product_of db i) i) items"
  have none: "items_of_order (k_order k) db = []"
  proof -
    have "\<forall>i \<in> set (order_items db). oi_order_id i \<in> o_id ` set (orders db)"
      using t by (simp add: totals_ok_def)
    with f show ?thesis unfolding items_of_order_def filter_empty_conv fresh_order by metis
  qed
  have own: "items_of_order (k_order k) db' = map (\<lambda>i. item_row (k_order k) (product_of db i) i) items"
    using none by (simp add: items_of_order_def its filter_map comp_def item_row_def)
  have other: "items_of_order x db' = items_of_order x db" if "x \<noteq> k_order k" for x
    using that by (simp add: items_of_order_def its filter_map comp_def item_row_def)
  have quantity: "1 \<le> ci_quantity i" if "i \<in> set items" for i
    using that q get_or_create_cart_frame(7) [OF g] by (auto simp: items items_of_def cart_ok_def)
  have sum: "(\<Sum>i \<leftarrow> items_of_order (k_order k) db'. oi_subtotal i) = lines_total db items"
    by (simp add: own lines_total_def comp_def item_row_def)
  have "o_total r = (\<Sum>i \<leftarrow> items_of_order (o_id r) db'. oi_subtotal i) \<and> o_subtotal r = o_total r"
    if "r \<in> set (orders db')" for r
  proof (cases "r = ord")
    case True
    then show ?thesis by (simp add: ord new_order_def sum)
  next
    case False
    with that os have r: "r \<in> set (orders db)" by simp
    with f have "o_id r \<noteq> k_order k" unfolding fresh_order by (metis imageI)
    with r t show ?thesis by (simp add: other totals_ok_def)
  qed
  moreover have "unique_by o_id (orders db')"
    using t f by (simp add: os ord new_order_def unique_by_append_one totals_ok_def get_order_by_id_def)
  moreover have "oi_order_id i \<in> o_id ` set (orders db') \<and> 1 \<le> oi_quantity i
      \<and> oi_subtotal i = oi_unit_price_snapshot i * oi_quantity i" if "i \<in> set (order_items db')" for i
    using that t quantity by (auto simp: its os ord new_order_def item_row_def totals_ok_def)
  ultimately show ?thesis by (simp add: totals_ok_def)
qed

lemma history_checkout:
  assumes c: "checkout_service k uid addr db = Inr (ord, db')" and f: "get_order_by_id (k_order k) db = None"
    and h: "history_ok db"
  shows "history_ok db'"
  using c f
proof (rule checkout_service_cases)
  fix items
  assume ord: "ord = new_order k uid addr (lines_total db items)" and os: "orders db' = orders db @ [ord]"
    and hs: "order_history db' = order_history db @ [\<lparr>oh_order_id = k_order k, oh_from_status = Some OrdPending,
        oh_to_status = OrdAwaitingPayment, oh_actor_id = Some uid, oh_note = None, oh_created_at = k_now k\<rparr>]"
  have "history_of (k_order k) db = []"
    using h f unfolding history_of_def filter_empty_conv history_ok_def fresh_order by metis
  then have "follows OrdPending (history_of (o_id ord) db') (o_status ord)"
    by (simp add: history_of_def hs ord new_order_def)
  moreover have "history_of (o_id r) db' = history_of (o_id r) db" if "r \<in> set (orders db)" for r
    using that f by (auto simp: history_of_def hs fresh_order)
  ultimately show ?thesis using h by (auto simp: history_ok_def os hs) (simp add: ord new_order_def)
qed

section \<open>What is reserved\<close>

definition awaiting :: "'a orders_db_scheme \<Rightarrow> order list" where
  "awaiting db = filter (\<lambda>r. o_status r = OrdAwaitingPayment) (orders db)"

definition awaiting_demand :: "'a orders_db_scheme \<Rightarrow> uuid \<Rightarrow> int" where
  "awaiting_demand db p = (\<Sum>r \<leftarrow> awaiting db. demand p (order_lines (o_id r) db))"

definition reserved_matches :: "'a orders_db_scheme \<Rightarrow> bool" where
  "reserved_matches db \<longleftrightarrow> (\<forall>p t r. stock_of db p = Some (t, r) \<longrightarrow> r = awaiting_demand db p)"

lemma order_lines_cong: "order_items db' = order_items db \<Longrightarrow> order_lines oid db' = order_lines oid db"
  by (simp add: order_lines_def items_of_order_def)

lemma order_lines_nonneg:
  "totals_ok db \<Longrightarrow> \<forall>l \<in> set (order_lines oid db). 0 \<le> snd l"
proof -
  assume t: "totals_ok db"
  have "\<forall>l \<in> set (List.map_filter (\<lambda>i. map_option (\<lambda>p. (p, oi_quantity i)) (oi_product_id i)) xs). 0 \<le> snd l"
    if "set xs \<subseteq> set (order_items db)" for xs
    using that t
  proof (induction xs)
    case (Cons i xs)
    then have "1 \<le> oi_quantity i" by (simp add: totals_ok_def)
    with Cons show ?case by (auto simp: map_filter_simps split: option.splits)
  qed (simp add: map_filter_simps)
  from this [of "items_of_order oid db"] show ?thesis by (auto simp: order_lines_def items_of_order_def)
qed

lemma sum_list_unique:
  assumes "unique_by o_id t" "ord \<in> set t" "P ord" "\<And>r. o_id (f r) = o_id r" "\<not> P (f ord)"
  shows "(\<Sum>r \<leftarrow> filter P t. (g (o_id r) :: int)) =
         (\<Sum>r \<leftarrow> filter P (update_by o_id (o_id ord) f t). g (o_id r)) + g (o_id ord)"
  using assms
proof (induction t)
  case (Cons a t)
  show ?case
  proof (cases "a = ord")
    case True
    with Cons.prems(1) have "find_by o_id (o_id ord) t = None" by (simp add: unique_by_def find_by_None)
    with True Cons.prems(3,5) show ?thesis by (simp add: update_by_absent)
  next
    case False
    with Cons.prems(1,2) have "o_id a \<noteq> o_id ord" "ord \<in> set t" "unique_by o_id t"
      by (auto simp: unique_by_def)
    with Cons show ?thesis by simp
  qed
qed simp

lemma filter_update_none:
  assumes "unique_by o_id t" "ord \<in> set t" "\<not> P ord" "\<not> P (f ord)"
  shows "filter P (update_by o_id (o_id ord) f t) = filter P t"
  using assms
proof (induction t)
  case (Cons a t)
  show ?case
  proof (cases "a = ord")
    case True
    with Cons.prems(1) have "find_by o_id (o_id ord) t = None" by (simp add: unique_by_def find_by_None)
    with True Cons.prems(3,4) show ?thesis by (simp add: update_by_absent)
  next
    case False
    with Cons.prems(1,2) have "o_id a \<noteq> o_id ord" "ord \<in> set t" "unique_by o_id t"
      by (auto simp: unique_by_def)
    with Cons show ?thesis by simp
  qed
qed simp

text \<open>An order that leaves \<open>awaiting_payment\<close> takes its demand with it; one that is not in it and
  does not enter it changes nothing.\<close>

lemma awaiting_left:
  assumes m: "order_moved oid s db db'" and u: "unique_by o_id (orders db)"
    and o: "get_order_by_id oid db = Some ord" "o_status ord = OrdAwaitingPayment" "s \<noteq> OrdAwaitingPayment"
  shows "awaiting_demand db p = awaiting_demand db' p + demand p (order_lines oid db)"
proof -
  from m obtain now where e: "orders db' = update_by o_id oid (set_status s now) (orders db)"
      "order_items db' = order_items db" unfolding order_moved_def by blast
  have ord: "ord \<in> set (orders db)" "o_id ord = oid"
    using o(1) find_by_SomeD unfolding get_order_by_id_def by fast+
  have l: "order_lines x db' = order_lines x db" for x by (rule order_lines_cong [OF e(2)])
  from sum_list_unique [OF u ord(1), of "\<lambda>r. o_status r = OrdAwaitingPayment" "set_status s now"
      "\<lambda>x. demand p (order_lines x db)"] o(2,3) ord(2)
  show ?thesis by (simp add: awaiting_demand_def awaiting_def e(1) l)
qed

lemma awaiting_same:
  assumes m: "order_moved oid s db db'" and u: "unique_by o_id (orders db)"
    and o: "get_order_by_id oid db = Some ord" "o_status ord \<noteq> OrdAwaitingPayment" "s \<noteq> OrdAwaitingPayment"
  shows "awaiting_demand db' p = awaiting_demand db p"
proof -
  from m obtain now where e: "orders db' = update_by o_id oid (set_status s now) (orders db)"
      "order_items db' = order_items db" unfolding order_moved_def by blast
  have ord: "ord \<in> set (orders db)" "o_id ord = oid"
    using o(1) find_by_SomeD unfolding get_order_by_id_def by fast+
  have l: "order_lines x db' = order_lines x db" for x by (rule order_lines_cong [OF e(2)])
  from filter_update_none [OF u ord(1), of "\<lambda>r. o_status r = OrdAwaitingPayment" "set_status s now"] o(2,3) ord(2)
  show ?thesis by (simp add: awaiting_demand_def awaiting_def e(1) l)
qed

lemma awaiting_covers:
  assumes "totals_ok db" "get_order_by_id oid db = Some ord" "o_status ord = OrdAwaitingPayment"
  shows "demand p (order_lines oid db) \<le> awaiting_demand db p"
proof -
  have ord: "ord \<in> set (awaiting db)" "o_id ord = oid"
    using assms(2,3) find_by_SomeD unfolding get_order_by_id_def awaiting_def by fastforce+
  have "x \<le> sum_list xs" if "x \<in> set xs" "\<forall>y \<in> set xs. 0 \<le> y" for x :: int and xs
    using that
  proof (induction xs)
    case (Cons y ys)
    then have "0 \<le> sum_list ys" by (intro sum_list_nonneg) simp
    with Cons show ?case by auto
  qed simp
  from this [of "demand p (order_lines oid db)" "map (\<lambda>r. demand p (order_lines (o_id r) db)) (awaiting db)"]
  show ?thesis
    using ord demand_nonneg [OF order_lines_nonneg [OF assms(1)]] by (auto simp: awaiting_demand_def)
qed

lemma stock_of_cong: "inventories db' = inventories db \<Longrightarrow> stock_of db' = stock_of db"
  by (simp add: stock_of_def fun_eq_iff)

lemma stock_part_only:
  "stock_only db d \<Longrightarrow> order_items d = order_items db \<and> orders d = orders db"
  by (auto simp: stock_only_def)

lemma reserved_checkout:
  assumes c: "checkout_service k uid addr db = Inr (ord, db')" and f: "get_order_by_id (k_order k) db = None"
    and t: "totals_ok db" and q: "cart_ok db" and i: "inventory_ok db" and r: "reserved_matches db"
  shows "reserved_matches db' \<and> inventory_ok db'"
  using c f
proof (rule checkout_service_cases)
  fix cart db1 items d
  assume g: "get_or_create_cart (k_cart k) uid db = (cart, db1)" and items: "items = items_of cart db1"
    and d: "stk.reserve_all ''order'' (k_order k) (Some uid) (cart_lines items) db = Inr d"
    and ord: "ord = new_order k uid addr (lines_total db items)" and os: "orders db' = orders db @ [ord]"
    and its: "order_items db' = order_items db @ map (\<lambda>i. item_row (k_order k) (product_of db i) i) items"
    and inv: "inventories db' = inventories d"
  have none: "items_of_order (k_order k) db = []"
  proof -
    have "\<forall>i \<in> set (order_items db). oi_order_id i \<in> o_id ` set (orders db)"
      using t by (simp add: totals_ok_def)
    with f show ?thesis unfolding items_of_order_def filter_empty_conv fresh_order by metis
  qed
  have own: "order_lines (k_order k) db' = cart_lines items"
  proof -
    have "items_of_order (k_order k) db' = map (\<lambda>i. item_row (k_order k) (product_of db i) i) items"
      using none by (simp add: items_of_order_def its filter_map comp_def item_row_def)
    moreover have "List.map_filter (\<lambda>i. map_option (\<lambda>p. (p, oi_quantity i)) (oi_product_id i))
        (map (\<lambda>i. item_row (k_order k) (product_of db i) i) xs) = cart_lines xs" for xs
      by (induction xs) (simp_all add: map_filter_simps item_row_def cart_lines_def)
    ultimately show ?thesis by (simp add: order_lines_def)
  qed
  have other: "order_lines x db' = order_lines x db" if "x \<noteq> k_order k" for x
    using that by (simp add: order_lines_def items_of_order_def its filter_map comp_def item_row_def)
  have aw: "awaiting_demand db' p = awaiting_demand db p + demand p (cart_lines items)" for p
  proof -
    have m: "map (\<lambda>r. demand p (order_lines (o_id r) db')) (awaiting db) = map (\<lambda>r. demand p (order_lines (o_id r) db)) (awaiting db)"
    proof (rule map_cong [OF refl])
      fix r assume "r \<in> set (awaiting db)"
      then have "o_id r \<in> o_id ` set (orders db)" by (simp add: awaiting_def)
      then have "o_id r \<noteq> k_order k" using f unfolding fresh_order by metis
      then show "demand p (order_lines (o_id r) db') = demand p (order_lines (o_id r) db)" by (simp add: other)
    qed
    have "awaiting db' = awaiting db @ [ord]" "o_id ord = k_order k"
      by (simp_all add: awaiting_def os ord new_order_def)
    then show ?thesis unfolding awaiting_demand_def using own arg_cong [OF m, of sum_list] by simp
  qed
  have "0 \<le> ci_quantity i" if "i \<in> set items" for i
    using that q get_or_create_cart_frame(7) [OF g] by (fastforce simp: items items_of_def cart_ok_def)
  then have nn: "\<forall>l \<in> set (cart_lines items). 0 \<le> snd l" by (auto simp: cart_lines_def)
  have "inventory_ok d" by (rule stk.reserve_all_invar [OF i nn d])
  then have "inventory_ok db'" by (simp add: inventory_ok_cong [OF inv])
  moreover have "reserved_matches db'"
    unfolding reserved_matches_def
  proof (intro allI impI)
    fix p a b assume "stock_of db' p = Some (a, b)"
    then have s: "stock_of d p = Some (a, b)" by (simp add: stock_of_cong [OF inv])
    show "b = awaiting_demand db' p"
    proof (cases "stock_of db p")
      case None
      with stk.reserve_all_missing [OF d None] s show ?thesis by simp
    next
      case (Some x)
      obtain t0 r0 where x: "stock_of db p = Some (t0, r0)" using Some by (cases x) simp
      with r have "r0 = awaiting_demand db p" by (simp add: reserved_matches_def)
      with stk.reserve_all_stock [OF d x] s aw show ?thesis by simp
    qed
  qed
  ultimately show ?thesis by simp
qed

text \<open>The two outcomes of a payment.\<close>

lemma failed_only_from_awaiting: "OrdPaymentFailed \<in> set (ALLOWED_TRANSITIONS s) \<longleftrightarrow> s = OrdAwaitingPayment"
  by (cases s) simp_all

lemma paid_only_from_awaiting: "OrdPaid \<in> set (ALLOWED_TRANSITIONS s) \<longleftrightarrow> s = OrdAwaitingPayment"
  by (cases s) simp_all

lemma reserved_release:
  assumes d: "stk.release_all ''order'' oid a (order_lines oid db) db = Inr d"
    and m: "order_moved oid s db db'" and o: "get_order_by_id oid db = Some ord"
      "o_status ord = OrdAwaitingPayment" "s \<noteq> OrdAwaitingPayment"
    and inv: "inventories db' = inventories d"
    and t: "totals_ok db" and i: "inventory_ok db" and r: "reserved_matches db"
  shows "reserved_matches db' \<and> inventory_ok db'"
proof -
  have nn: "\<forall>l \<in> set (order_lines oid db). 0 \<le> snd l" by (rule order_lines_nonneg [OF t])
  have "inventory_ok d" by (rule stk.release_all_invar [OF i nn d])
  then have "inventory_ok db'" by (simp add: inventory_ok_cong [OF inv])
  moreover have "b = awaiting_demand db' p" if "stock_of db' p = Some (x, b)" for p x b
  proof (cases "stock_of db p")
    case None
    with stk.release_all_missing [OF d None] that show ?thesis by (simp add: stock_of_cong [OF inv])
  next
    case (Some y)
    then obtain t0 r0 where y: "stock_of db p = Some (t0, r0)" by (cases y) simp
    with r have r0: "r0 = awaiting_demand db p" by (simp add: reserved_matches_def)
    have "0 \<le> r0" using inventory_ok_stock [OF i y] by simp
    with stk.release_all_stock [OF d y _ nn] that have "b = max 0 (r0 - demand p (order_lines oid db))"
      by (simp add: stock_of_cong [OF inv])
    with awaiting_left [OF m _ o] awaiting_covers [OF t o(1,2)] t r0 show ?thesis
      by (simp add: totals_ok_def)
  qed
  ultimately show ?thesis by (simp add: reserved_matches_def)
qed

lemma reserved_purchase:
  assumes d: "stk.purchase_all ''order'' oid a (order_lines oid db) db = Inr d"
    and m: "order_moved oid s db db'" and o: "get_order_by_id oid db = Some ord"
      "o_status ord = OrdAwaitingPayment" "s \<noteq> OrdAwaitingPayment"
    and inv: "inventories db' = inventories d"
    and t: "totals_ok db" and i: "inventory_ok db" and r: "reserved_matches db"
  shows "reserved_matches db' \<and> inventory_ok db'"
proof -
  have nn: "\<forall>l \<in> set (order_lines oid db). 0 \<le> snd l" by (rule order_lines_nonneg [OF t])
  have "inventory_ok d" by (rule stk.purchase_all_invar [OF i d])
  then have "inventory_ok db'" by (simp add: inventory_ok_cong [OF inv])
  moreover have "b = awaiting_demand db' p" if "stock_of db' p = Some (x, b)" for p x b
  proof (cases "stock_of db p")
    case None
    with stk.purchase_all_missing [OF d None] that show ?thesis by (simp add: stock_of_cong [OF inv])
  next
    case (Some y)
    then obtain t0 r0 where y: "stock_of db p = Some (t0, r0)" by (cases y) simp
    with r have r0: "r0 = awaiting_demand db p" by (simp add: reserved_matches_def)
    have "0 \<le> r0" "0 \<le> t0" using inventory_ok_stock [OF i y] by simp_all
    with stk.purchase_all_stock [OF d y _ _ nn] that have "b = max 0 (r0 - demand p (order_lines oid db))"
      by (simp add: stock_of_cong [OF inv])
    with awaiting_left [OF m _ o] awaiting_covers [OF t o(1,2)] t r0 show ?thesis
      by (simp add: totals_ok_def)
  qed
  ultimately show ?thesis by (simp add: reserved_matches_def)
qed

text \<open>A status change that neither leaves nor enters \<open>awaiting_payment\<close> and moves no stock.\<close>

lemma reserved_untouched:
  assumes m: "order_moved oid s db db'" and o: "get_order_by_id oid db = Some ord"
      "o_status ord \<noteq> OrdAwaitingPayment" "s \<noteq> OrdAwaitingPayment"
    and inv: "inventories db' = inventories db"
    and t: "totals_ok db" and i: "inventory_ok db" and r: "reserved_matches db"
  shows "reserved_matches db' \<and> inventory_ok db'"
  using awaiting_same [OF m _ o] i r t
  by (simp add: reserved_matches_def stock_of_cong [OF inv] inventory_ok_cong [OF inv] totals_ok_def)

text \<open>The steps that keep the books: checkout, the payment outcomes, cancelling an order that is
  not paid (or is no longer holding stock), the administrator's changes that neither take
  an order out of \<open>awaiting_payment\<close> nor put one into it, and stock corrections. Left out are
  the cancellation of a paid order and the administrator's other changes, which break the
  property (\<open>Order_Effects\<close>).\<close>

definition books_ok :: "'a orders_db_scheme \<Rightarrow> bool" where
  "books_ok db \<longleftrightarrow> totals_ok db \<and> cart_ok db \<and> inventory_ok db \<and> reserved_matches db
     \<and> (\<forall>r \<in> set (orders db). o_status r \<noteq> OrdPending)"

inductive book_step :: "(decimal \<Rightarrow> int) \<Rightarrow> 'a orders_db_scheme \<Rightarrow> 'a orders_db_scheme \<Rightarrow> bool" for num where
  book_checkout: "get_order_by_id (k_order k) db = None \<Longrightarrow> fresh_cart (k_cart k) db \<Longrightarrow>
     checkout_service k uid addr db = Inr (r, db') \<Longrightarrow> book_step num db db'"
| book_paid: "mark_paid now oid db = Inr (r, db') \<Longrightarrow> book_step num db db'"
| book_failed: "mark_payment_failed now oid db = Inr (r, db') \<Longrightarrow> book_step num db db'"
| book_cancel: "get_order_by_id oid db = Some ord \<Longrightarrow> o_status ord \<noteq> OrdPaid \<Longrightarrow>
     cancel now oid u db = Inr (r, db') \<Longrightarrow> book_step num db db'"
| book_admin: "get_order_by_id oid db = Some ord \<Longrightarrow> o_status ord \<noteq> OrdAwaitingPayment \<Longrightarrow>
     s \<noteq> OrdAwaitingPayment \<Longrightarrow> admin_update_status now oid s note actor db = Inr (r, db') \<Longrightarrow> book_step num db db'"
| book_adjust: "adjust p delta a db = Inr db' \<Longrightarrow> book_step num db db'"
| book_restock: "0 \<le> q \<Longrightarrow> restock p q a db = Inr db' \<Longrightarrow> book_step num db db'"

lemma never_pending: "OrdPending \<notin> set (ALLOWED_TRANSITIONS s)"
  by (cases s) simp_all

lemma moved_not_pending:
  assumes "order_moved oid s db db'" "\<forall>r \<in> set (orders db). o_status r \<noteq> OrdPending"
  shows "\<forall>r \<in> set (orders db'). o_status r \<noteq> OrdPending"
  using assms never_pending by (auto simp: order_moved_def set_update_by)

lemma cart_ok_cong: "carts db' = carts db \<Longrightarrow> cart_items db' = cart_items db \<Longrightarrow> cart_ok db' = cart_ok db"
  by (simp add: cart_ok_def)

lemma cart_ok_checkout:
  assumes "checkout_service k uid addr db = Inr (ord, db')" "get_order_by_id (k_order k) db = None"
    and "cart_ok db" "fresh_cart (k_cart k) db"
  shows "cart_ok db'"
  using assms(1,2)
proof (rule checkout_service_cases)
  fix cart db1
  assume g: "get_or_create_cart (k_cart k) uid db = (cart, db1)" and c: "carts db' = carts db1"
    and i: "cart_items db' = filter (\<lambda>i. ci_cart_id i \<noteq> cart_id cart) (cart_items db)"
  note ok = get_or_create_cart_ok [OF assms(3,4) g]
  from cart_ok_filter [OF ok(1)] show ?thesis by (simp add: cart_ok_def c i ok(3))
qed

lemma books_moved:
  assumes "books_ok db" "order_moved oid s db db'" "carts db' = carts db" "cart_items db' = cart_items db"
    and "reserved_matches db' \<and> inventory_ok db'"
  shows "books_ok db'"
  using assms totals_moved [OF assms(2)] moved_not_pending [OF assms(2)] cart_ok_cong [OF assms(3,4)]
  by (simp add: books_ok_def)

lemma books_stock:
  assumes "books_ok db" "stock_only db db'" "inventory_ok db'"
    and "\<And>x. map_option snd (stock_of db' x) = map_option snd (stock_of db x)"
  shows "books_ok db'"
proof -
  from assms(2) have same: "orders db' = orders db" "order_items db' = order_items db"
      "carts db' = carts db" "cart_items db' = cart_items db" by (auto simp: stock_only_def)
  have "awaiting_demand db' p = awaiting_demand db p" for p
    by (simp add: awaiting_demand_def awaiting_def same order_lines_cong [OF same(2)])
  moreover have "\<exists>t'. stock_of db x = Some (t', r)" if "stock_of db' x = Some (t, r)" for x t r
    using assms(4) [of x] that by (cases "stock_of db x") auto
  ultimately have "reserved_matches db'" using assms(1) by (fastforce simp: reserved_matches_def books_ok_def)
  moreover have "totals_ok db'" using assms(1) by (simp add: books_ok_def totals_ok_def same items_of_order_def)
  ultimately show ?thesis using assms(1,3) cart_ok_cong [OF same(3,4)] by (simp add: books_ok_def same(1))
qed

lemma books_step:
  assumes "book_step num db db'" "books_ok db" shows "books_ok db'"
  using assms
proof (induction rule: book_step.induct)
  case (book_checkout k db uid addr r db')
  then have b: "totals_ok db" "cart_ok db" "inventory_ok db" "reserved_matches db"
      "\<forall>r \<in> set (orders db). o_status r \<noteq> OrdPending" by (simp_all add: books_ok_def)
  have "\<forall>r \<in> set (orders db'). o_status r \<noteq> OrdPending"
    using book_checkout.hyps(3,1) by (rule checkout_service_cases) (use b(5) in \<open>auto simp: new_order_def\<close>)
  with b book_checkout.hyps show ?case
    using totals_checkout [OF book_checkout.hyps(3,1) b(1,2)]
      reserved_checkout [OF book_checkout.hyps(3,1) b(1,2,3,4)]
      cart_ok_checkout [OF book_checkout.hyps(3,1) b(2) book_checkout.hyps(2)]
    by (simp add: books_ok_def)
next
  case (book_paid now oid db r db')
  then have b: "totals_ok db" "inventory_ok db" "reserved_matches db" by (simp_all add: books_ok_def)
  from book_paid.hyps obtain ord d where o: "get_order_by_id oid db = Some ord"
      "stk.purchase_all ''order'' oid None (order_lines oid db) db = Inr d"
      "transition ord OrdPaid None (Some PaidNote) now d = Inr (r, db')" by (rule mark_paid_cases)
  note m = transition_moved [OF o(1) purchase_all_only [OF o(2)] o(3)]
  have "o_status ord = OrdAwaitingPayment" using m(11) paid_only_from_awaiting by simp
  from reserved_purchase [OF o(2) m(1) o(1) this _ m(3) b] books_moved [OF book_paid.prems m(1) m(9,10)]
  show ?case by simp
next
  case (book_failed now oid db r db')
  then have b: "totals_ok db" "inventory_ok db" "reserved_matches db" by (simp_all add: books_ok_def)
  from book_failed.hyps obtain ord d where o: "get_order_by_id oid db = Some ord"
      "stk.release_all ''order'' oid None (order_lines oid db) db = Inr d"
      "transition ord OrdPaymentFailed None (Some PaymentFailedNote) now d = Inr (r, db')"
    by (rule mark_payment_failed_cases)
  note m = transition_moved [OF o(1) release_all_only [OF o(2)] o(3)]
  have "o_status ord = OrdAwaitingPayment" using m(11) failed_only_from_awaiting by simp
  from reserved_release [OF o(2) m(1) o(1) this _ m(3) b] books_moved [OF book_failed.prems m(1) m(9,10)]
  show ?case by simp
next
  case (book_cancel oid db ord now u r db')
  then have b: "totals_ok db" "inventory_ok db" "reserved_matches db"
      "\<forall>r \<in> set (orders db). o_status r \<noteq> OrdPending" by (simp_all add: books_ok_def)
  have np: "o_status ord \<noteq> OrdPending" using b(4) book_cancel.hyps(1) by (auto simp: get_order_by_id_def dest: find_by_mem)
  from book_cancel.hyps(3) obtain ord2 d where o: "get_order_by_id oid db = Some ord2"
      and "o_user_id ord2 = u_id u \<or> u_role u \<in> {Admin, SuperAdmin}"
      and o': "o_status ord2 \<in> {OrdPending, OrdAwaitingPayment, OrdPaid} \<longrightarrow>
         stk.release_all ''order'' oid None (order_lines oid db) db = Inr d"
      "o_status ord2 \<notin> {OrdPending, OrdAwaitingPayment, OrdPaid} \<longrightarrow> d = db" "stock_only db d"
      "transition ord2 OrdCancelled (Some (u_id u)) (Some CancelledNote) now d = Inr (r, db')"
    by (rule cancel_cases)
  have eq: "ord2 = ord" using o book_cancel.hyps(1) by simp
  note m = transition_moved [OF o o'(3) o'(4)]
  show ?case
  proof (cases "o_status ord = OrdAwaitingPayment")
    case True
    then have "stk.release_all ''order'' oid None (order_lines oid db) db = Inr d"
      using o'(1) eq by simp
    from reserved_release [OF this m(1) book_cancel.hyps(1) True _ m(3) b(1-3)]
      books_moved [OF book_cancel.prems m(1) m(9,10)]
    show ?thesis by simp
  next
    case False
    then have "d = db" using o'(2) eq np book_cancel.hyps(2) by simp
    with m(3) have inv: "inventories db' = inventories db" by simp
    from reserved_untouched [OF m(1) book_cancel.hyps(1) False _ inv b(1-3)]
      books_moved [OF book_cancel.prems m(1) m(9,10)]
    show ?thesis by simp
  qed
next
  case (book_admin oid db ord s now nt actor r db')
  then have b: "totals_ok db" "inventory_ok db" "reserved_matches db" by (simp_all add: books_ok_def)
  have tr: "transition ord s (Some actor) (map_option UserNote nt) now db = Inr (r, db')"
    using book_admin.hyps(1,4) by (simp add: admin_update_status_def)
  note m = transition_moved [OF book_admin.hyps(1) stock_only_refl tr]
  from reserved_untouched [OF m(1) book_admin.hyps(1,2,3) m(3) b] books_moved [OF book_admin.prems m(1) m(9,10)]
  show ?case by simp
next
  case (book_adjust p delta a db db')
  then have i: "inventory_ok db'" using adjust_keeps_ok by (auto simp: books_ok_def)
  have only: "stock_only db db'"
    using book_adjust.hyps by (auto simp: adjust_def bindE_eq_Inr Let_def stock_only_put split: if_splits)
  have "map_option snd (stock_of db' x) = map_option snd (stock_of db x)" for x
    using inventory_refines(5) [of p delta a db] book_adjust.hyps
    by (auto simp: abs_adjust_def bindE_def the_or_def split: option.splits if_splits)
  from books_stock [OF book_adjust.prems only i this] show ?case .
next
  case (book_restock q p a db db')
  then have i: "inventory_ok db'" using restock_keeps_ok by (auto simp: books_ok_def)
  have only: "stock_only db db'"
    using book_restock.hyps by (auto simp: restock_def bindE_eq_Inr stock_only_put)
  have "map_option snd (stock_of db' x) = map_option snd (stock_of db x)" for x
    using inventory_refines(4) [of p q a db] book_restock.hyps
    by (auto simp: abs_restock_def bindE_def the_or_def split: option.splits)
  from books_stock [OF book_restock.prems only i this] show ?case .
qed

lemma books_steps: "(book_step num)\<^sup>*\<^sup>* db db' \<Longrightarrow> books_ok db \<Longrightarrow> books_ok db'"
  by (induction rule: rtranclp_induct) (auto intro: books_step)

text \<open>So nothing that is on sale is promised twice: what all the orders awaiting payment ask for
  is in stock.\<close>

lemma books_no_oversell:
  assumes "books_ok db" "stock_of db p = Some (t, r)" shows "awaiting_demand db p \<le> t"
  using assms inventory_ok_stock [of db p t r] by (auto simp: books_ok_def reserved_matches_def)

section \<open>Histories and refunds over every operation\<close>

definition refunds_of :: "uuid \<Rightarrow> 'a wallet_db_scheme \<Rightarrow> wallet_transaction list" where
  "refunds_of oid db = filter (\<lambda>t. wt_type t = Refund \<and> wt_reference_id t = Some oid) (wallet_transactions db)"

definition refunds_ok :: "'a orders_db_scheme \<Rightarrow> bool" where
  "refunds_ok db \<longleftrightarrow>
     (\<forall>r \<in> set (orders db). map wt_amount (refunds_of (o_id r) db) =
        (if o_status r = OrdRefunded then [o_total r] else []))
     \<and> (\<forall>t \<in> set (wallet_transactions db). wt_type t = Refund \<longrightarrow>
          (\<exists>r \<in> set (orders db). wt_reference_id t = Some (o_id r)))"

definition order_tables_ok :: "'a orders_db_scheme \<Rightarrow> bool" where
  "order_tables_ok db \<longleftrightarrow> unique_by o_id (orders db) \<and> history_ok db \<and> refunds_ok db"

text \<open>Every operation of the service on any state, the wallet's other operations, and whatever
  leaves these tables alone.\<close>

inductive order_step :: "(decimal \<Rightarrow> int) \<Rightarrow> 'a orders_db_scheme \<Rightarrow> 'a orders_db_scheme \<Rightarrow> bool" for num where
  step_checkout: "get_order_by_id (k_order k) db = None \<Longrightarrow>
     checkout_service k uid addr db = Inr (r, db') \<Longrightarrow> order_step num db db'"
| step_paid: "mark_paid now oid db = Inr (r, db') \<Longrightarrow> order_step num db db'"
| step_failed: "mark_payment_failed now oid db = Inr (r, db') \<Longrightarrow> order_step num db db'"
| step_cancel: "order_step num db (snd (cancel_order u now oid db))"
| step_admin: "order_step num db (snd (update_order_status num u fresh oid s note db))"
| step_deposit: "deposit num fresh uid amount db = Inr (t, db') \<Longrightarrow> order_step num db db'"
| step_credit: "admin_credit num fresh uid amount reason a db = Inr (t, db') \<Longrightarrow> order_step num db db'"
| step_debit: "admin_debit num fresh uid amount reason a db = Inr (t, db') \<Longrightarrow> order_step num db db'"
| step_other: "orders db' = orders db \<Longrightarrow> order_history db' = order_history db \<Longrightarrow>
     wallet_transactions db' = wallet_transactions db \<Longrightarrow> order_step num db db'"

lemma refunds_moved:
  assumes m: "order_moved oid s db db'" and w: "wallet_transactions db' = wallet_transactions db"
    and ok: "order_tables_ok db" and s: "s \<noteq> OrdRefunded"
  shows "order_tables_ok db'"
proof -
  have u: "unique_by o_id (orders db)" and h: "history_ok db" and r: "refunds_ok db"
    using ok by (simp_all add: order_tables_ok_def)
  from moved_orders [OF m u] obtain ord now where o: "get_order_by_id oid db = Some ord"
    "s \<in> set (ALLOWED_TRANSITIONS (o_status ord))"
    "\<And>r. r \<in> set (orders db') \<longleftrightarrow> (r \<in> set (orders db) \<and> o_id r \<noteq> oid) \<or> r = set_status s now ord"
    "map o_id (orders db') = map o_id (orders db)" by metis
  have ord: "ord \<in> set (orders db)" using o(1) by (simp add: get_order_by_id_def find_by_mem)
  have "o_status ord \<noteq> OrdRefunded" using o(2) by auto
  with r ord have none: "refunds_of (o_id ord) db = []" by (auto simp: refunds_ok_def)
  have ref: "refunds_of x db' = refunds_of x db" for x by (simp add: refunds_of_def w)
  have ids: "o_id ` set (orders db') = o_id ` set (orders db)" using o(4) by (metis set_map)
  have "map wt_amount (refunds_of (o_id x) db') = (if o_status x = OrdRefunded then [o_total x] else [])"
    if "x \<in> set (orders db')" for x
    using that none s r unfolding o(3) ref by (auto simp: refunds_ok_def)
  moreover have "\<exists>x \<in> set (orders db'). wt_reference_id t = Some (o_id x)"
    if "t \<in> set (wallet_transactions db')" "wt_type t = Refund" for t
  proof -
    from that r have "\<exists>y \<in> o_id ` set (orders db). wt_reference_id t = Some y" by (auto simp: w refunds_ok_def)
    then show ?thesis by (auto simp flip: ids)
  qed
  ultimately have "refunds_ok db'" by (simp add: refunds_ok_def)
  with history_moved [OF m h u] o(4) u show ?thesis by (simp add: order_tables_ok_def unique_by_def)
qed

lemma apply_transaction_orders:
  assumes "apply_transaction num fresh uid ty amount rt rid nt actor db = Inr (t, db')"
  shows "orders db' = orders db" "order_history db' = order_history db" "order_items db' = order_items db"
    "\<exists>w. wallet_transactions db' = wallet_transactions db @
       [\<lparr> wt_id = f_transaction fresh, wt_wallet_id = w, wt_type = ty, wt_amount = num amount,
          wt_balance_after = num (tv_balance_after t), wt_reference_type = rt, wt_reference_id = rid,
          wt_note = nt, wt_actor_id = actor, wt_created_at = f_now fresh \<rparr>]"
  using assms
  by (cases rule: apply_transaction_cases;
      cases rule: get_or_create_wallet_cases [of uid db "f_wallet fresh"]; auto)+

lemma tables_non_refund:
  assumes "apply_transaction num fresh uid ty amount rt rid nt actor db = Inr (t, db')"
    and "ty \<noteq> Refund" "order_tables_ok db"
  shows "order_tables_ok db'"
proof -
  note f = apply_transaction_orders [OF assms(1)]
  from f(4) obtain x where x: "wallet_transactions db' = wallet_transactions db @ [x]" "wt_type x = ty" by auto
  then have "refunds_of oid db' = refunds_of oid db" for oid using assms(2) by (simp add: refunds_of_def)
  with assms(2,3) x f(1,2) show ?thesis
    by (auto simp: order_tables_ok_def refunds_ok_def history_ok_def history_of_def)
qed

lemma tables_checkout:
  assumes c: "checkout_service k uid addr db = Inr (ord, db')" and f: "get_order_by_id (k_order k) db = None"
    and ok: "order_tables_ok db"
  shows "order_tables_ok db'"
proof -
  have h: "history_ok db'" using history_checkout [OF c f] ok by (simp add: order_tables_ok_def)
  from c f show ?thesis
  proof (rule checkout_service_cases)
    fix items
    assume ord: "ord = new_order k uid addr (lines_total db items)" and os: "orders db' = orders db @ [ord]"
      and w: "wallet_transactions db' = wallet_transactions db"
    have "wt_reference_id t \<noteq> Some (k_order k)" if "t \<in> set (wallet_transactions db)" "wt_type t = Refund" for t
    proof -
      from that ok obtain r where "r \<in> set (orders db)" "wt_reference_id t = Some (o_id r)"
        by (auto simp: order_tables_ok_def refunds_ok_def)
      with f show ?thesis unfolding fresh_order by (metis imageI option.inject)
    qed
    then have "refunds_of (k_order k) db' = []" by (auto simp: refunds_of_def w filter_empty_conv)
    moreover have "refunds_of x db' = refunds_of x db" for x by (simp add: refunds_of_def w)
    ultimately have "refunds_ok db'"
      using ok by (auto simp: order_tables_ok_def refunds_ok_def os ord new_order_def w)
    moreover have "unique_by o_id (orders db')"
      using ok f by (simp add: order_tables_ok_def os ord new_order_def unique_by_append_one get_order_by_id_def)
    ultimately show ?thesis using h by (simp add: order_tables_ok_def)
  qed
qed

lemma tables_admin:
  assumes num: "numeric_column num" and ok: "order_tables_ok db"
  shows "order_tables_ok (snd (update_order_status num u fresh oid s nt db))"
  unfolding update_order_status_def
proof (rule request_invariant [where I = order_tables_ok, OF ok])
  fix r db' assume "bindE (require_permission ''order.manage'' u) (\<lambda>_.
     bindE (validated (case nt of None \<Rightarrow> True | Some n \<Rightarrow> text_length n \<le> 500)) (\<lambda>_.
     bindE (admin_update_status (f_now fresh) oid s nt (u_id u) db) (\<lambda>(ord, db1).
     bindE (if o_status ord = OrdRefunded
            then map_sum id snd (refund_order num fresh (o_user_id ord) (of_int (o_total ord)) (o_id ord) (u_id u) db1)
            else Inr db1) (\<lambda>db2. flush_orders (serialize_order ord db2) db2)))) = Inr (r, db')"
  then obtain ord ord1 db1 where o: "get_order_by_id oid db = Some ord"
      and tr: "transition ord s (Some (u_id u)) (map_option UserNote nt) (f_now fresh) db = Inr (ord1, db1)"
      and rf: "(if o_status ord1 = OrdRefunded
            then map_sum id snd (refund_order num fresh (o_user_id ord1) (of_int (o_total ord1)) (o_id ord1) (u_id u) db1)
            else Inr db1) = Inr db'"
    by (auto simp: bindE_eq_Inr admin_update_status_def flush_orders_def split: if_splits)
  note m = transition_moved [OF o stock_only_refl tr]
  have st: "o_status ord1 = s" "o_id ord1 = oid" "o_total ord1 = o_total ord"
    using m(2) get_order_id [OF o] by simp_all
  show "order_tables_ok db'"
  proof (cases "s = OrdRefunded")
    case False
    with rf st have "db' = db1" by simp
    with refunds_moved [OF m(1) m(6) ok False] show ?thesis by simp
  next
    case True
    with rf st obtain t where t: "refund_order num fresh (o_user_id ord1) (of_int (o_total ord)) oid (u_id u) db1 = Inr (t, db')"
      by (cases "refund_order num fresh (o_user_id ord1) (of_int (o_total ord)) oid (u_id u) db1") auto
    note f = apply_transaction_orders [OF t [unfolded refund_order_def]]
    from f(4) obtain x where x: "wallet_transactions db' = wallet_transactions db @ [x]" "wt_type x = Refund"
        "wt_reference_id x = Some oid" "wt_amount x = o_total ord"
      using m(6) numeric_column.num_whole [OF num, of "o_total ord"] by auto
    have u: "unique_by o_id (orders db)" and h: "history_ok db" and r: "refunds_ok db"
      using ok by (simp_all add: order_tables_ok_def)
    from moved_orders [OF m(1) u] obtain ord2 now where o2: "get_order_by_id oid db = Some ord2"
      "\<And>r. r \<in> set (orders db1) \<longleftrightarrow> (r \<in> set (orders db) \<and> o_id r \<noteq> oid) \<or> r = set_status s now ord2"
      "map o_id (orders db1) = map o_id (orders db)" by metis
    have eq: "ord2 = ord" using o o2(1) by simp
    have ord: "ord \<in> set (orders db)" "o_id ord = oid"
      using o find_by_SomeD unfolding get_order_by_id_def by fast+
    have "o_status ord \<noteq> OrdRefunded" using m(11) by auto
    with r ord have none: "refunds_of oid db = []" by (auto simp: refunds_ok_def)
    have own: "map wt_amount (refunds_of oid db') = [o_total ord]"
      using none by (simp add: refunds_of_def x)
    have other: "refunds_of y db' = refunds_of y db" if "y \<noteq> oid" for y using that by (simp add: refunds_of_def x)
    have ids: "o_id ` set (orders db1) = o_id ` set (orders db)" using o2(3) by (metis set_map)
    have "map wt_amount (refunds_of (o_id y) db') = (if o_status y = OrdRefunded then [o_total y] else [])"
      if "y \<in> set (orders db')" for y
    proof (cases "o_id y = oid")
      case True
      with that o2(2) eq f(1) have "y = set_status s now ord" by auto
      with own \<open>s = OrdRefunded\<close> ord(2) show ?thesis by simp
    next
      case False
      with that o2(2) eq f(1) ord(2) have "y \<in> set (orders db)" by auto
      with False other r show ?thesis by (simp add: refunds_ok_def)
    qed
    moreover have "\<exists>y \<in> set (orders db'). wt_reference_id t = Some (o_id y)"
      if "t \<in> set (wallet_transactions db')" "wt_type t = Refund" for t
    proof -
      from that r ord x have "\<exists>y \<in> o_id ` set (orders db). wt_reference_id t = Some y"
        by (auto simp: refunds_ok_def)
      then show ?thesis by (auto simp: f(1) simp flip: ids)
    qed
    ultimately have "refunds_ok db'" by (simp add: refunds_ok_def)
    moreover have "history_ok db'"
      using history_moved [OF m(1) h u] f(1,2) by (simp add: history_ok_def history_of_def)
    moreover have "unique_by o_id (orders db')" using u o2(3) by (simp add: f(1) unique_by_def)
    ultimately show ?thesis by (simp add: order_tables_ok_def)
  qed
qed

lemma tables_step:
  assumes num: "numeric_column num" and step: "order_step num db db'" and ok: "order_tables_ok db"
  shows "order_tables_ok db'"
  using step ok
proof (induction rule: order_step.induct)
  case (step_checkout k db uid addr r db')
  then show ?case using tables_checkout by blast
next
  case (step_paid now oid db r db')
  from step_paid.hyps obtain ord d where o: "get_order_by_id oid db = Some ord"
      "stk.purchase_all ''order'' oid None (order_lines oid db) db = Inr d"
      "transition ord OrdPaid None (Some PaidNote) now d = Inr (r, db')" by (rule mark_paid_cases)
  note m = transition_moved [OF o(1) purchase_all_only [OF o(2)] o(3)]
  from refunds_moved [OF m(1,6) step_paid.prems] show ?case by simp
next
  case (step_failed now oid db r db')
  from step_failed.hyps obtain ord d where o: "get_order_by_id oid db = Some ord"
      "stk.release_all ''order'' oid None (order_lines oid db) db = Inr d"
      "transition ord OrdPaymentFailed None (Some PaymentFailedNote) now d = Inr (r, db')"
    by (rule mark_payment_failed_cases)
  note m = transition_moved [OF o(1) release_all_only [OF o(2)] o(3)]
  from refunds_moved [OF m(1,6) step_failed.prems] show ?case by simp
next
  case (step_cancel db u now oid)
  show ?case unfolding cancel_order_def
  proof (rule request_invariant [where I = order_tables_ok, OF step_cancel])
    fix r db' assume "bindE (cancel now oid u db) (\<lambda>(ord, db1). flush_orders (serialize_order ord db1) db1) = Inr (r, db')"
    then obtain x where c: "cancel now oid u db = Inr (x, db')"
      by (auto simp: bindE_eq_Inr flush_orders_def split: if_splits)
    from c obtain ord d where o: "get_order_by_id oid db = Some ord" "stock_only db d"
        "transition ord OrdCancelled (Some (u_id u)) (Some CancelledNote) now d = Inr (x, db')"
      by (rule cancel_cases)
    note m = transition_moved [OF o]
    from refunds_moved [OF m(1,6) step_cancel] show "order_tables_ok db'" by simp
  qed
next
  case (step_admin db u fresh oid s nt)
  then show ?case by (rule tables_admin [OF num])
next
  case (step_other db' db)
  then show ?case by (simp add: order_tables_ok_def refunds_ok_def refunds_of_def history_ok_def history_of_def)
qed (auto simp: wallet_services intro: tables_non_refund)

lemma tables_steps:
  "numeric_column num \<Longrightarrow> (order_step num)\<^sup>*\<^sup>* db db' \<Longrightarrow> order_tables_ok db \<Longrightarrow> order_tables_ok db'"
  by (erule rtranclp_induct) (blast intro: tables_step)+

end
