(* ===== verification/Order_Effects.thy ===== *)
theory Order_Effects
  imports Order_Invariants
begin

text \<open>
  The effect of one order operation, product by product: what a checkout promises and when it
  is refused, what a paid, failed or cancelled order does to the stock, and the three ways the
  stock figures and the orders can part company (cancelling a paid order, and closing or
  settling an order through the administrator's status change).
\<close>

section \<open>Checkout\<close>

text \<open>A checkout that returns: every line was on sale and covered, the total is the sum of the
  snapshots, exactly the demand of the lines is reserved, and the cart is empty.\<close>

lemma items_of_other_cart:
  "cart_items db' = filter (\<lambda>i. ci_cart_id i \<noteq> c) (cart_items db) \<Longrightarrow>
     filter (\<lambda>i. ci_cart_id i = c) (cart_items db') = []"
  by (simp add: filter_empty_conv)

lemma checkout_service_effect:
  assumes c: "checkout_service k uid addr db = Inr (ord, db')" and f: "get_order_by_id (k_order k) db = None"
    and i: "inventory_ok db" and g: "get_or_create_cart (k_cart k) uid db = (cart, db1)"
    and its: "items = items_of cart db1"
  shows "items \<noteq> []"
    and "ord = new_order k uid addr (lines_total db items)"
    and "orders db' = orders db @ [ord]"
    and "items_of cart db' = []"
    and "\<And>it. it \<in> set items \<Longrightarrow> available_line db it"
    and "\<And>p t r. stock_of db p = Some (t, r) \<Longrightarrow>
           stock_of db' p = Some (t, r + demand p (cart_lines items)) \<and> r + demand p (cart_lines items) \<le> t"
proof -
  have *: "items \<noteq> [] \<and> ord = new_order k uid addr (lines_total db items) \<and> orders db' = orders db @ [ord]
    \<and> items_of cart db' = [] \<and> (\<forall>it \<in> set items. available_line db it)
    \<and> (\<forall>p t r. stock_of db p = Some (t, r) \<longrightarrow>
         stock_of db' p = Some (t, r + demand p (cart_lines items)) \<and> r + demand p (cart_lines items) \<le> t)"
    using c f
  proof (rule checkout_service_cases)
    fix cart' db1' items' d
    assume g': "get_or_create_cart (k_cart k) uid db = (cart', db1')" and its': "items' = items_of cart' db1'"
      and ne: "items' \<noteq> []" and av: "\<forall>i \<in> set items'. available_line db i"
      and d: "stk.reserve_all ''order'' (k_order k) (Some uid) (cart_lines items') db = Inr d"
      and o: "ord = new_order k uid addr (lines_total db items')" "orders db' = orders db @ [ord]"
      and inv: "inventories db' = inventories d"
      and ci: "cart_items db' = filter (\<lambda>i. ci_cart_id i \<noteq> cart_id cart') (cart_items db)"
    have eq: "cart' = cart" "items' = items" using g g' its its' by simp_all
    have "stock_of db' p = Some (t, r + demand p (cart_lines items)) \<and> r + demand p (cart_lines items) \<le> t"
      if "stock_of db p = Some (t, r)" for p t r
      using stk.reserve_all_stock [OF d that] stk.reserve_all_covered [OF d that] inventory_ok_stock [OF i that]
      by (simp add: stock_of_cong [OF inv] eq)
    moreover have "items_of cart db' = []"
      unfolding items_of_def using items_of_other_cart [OF ci] by (simp add: eq)
    ultimately show ?thesis using ne av o by (simp add: eq)
  qed
  then show "items \<noteq> []" "ord = new_order k uid addr (lines_total db items)" "orders db' = orders db @ [ord]"
    "items_of cart db' = []" "\<And>it. it \<in> set items \<Longrightarrow> available_line db it"
    "\<And>p t r. stock_of db p = Some (t, r) \<Longrightarrow>
       stock_of db' p = Some (t, r + demand p (cart_lines items)) \<and> r + demand p (cart_lines items) \<le> t"
    by auto
qed

lemma checkout_empty:
  "get_or_create_cart (k_cart k) uid db = (cart, db1) \<Longrightarrow> items_of cart db1 = [] \<Longrightarrow>
     checkout_service k uid addr db = Inl ConflictError"
  by (simp add: checkout_service_def)

text \<open>Conversely a cart whose lines are on sale and covered is sold exactly when its total fits.\<close>

lemma checkout_loop_succeeds:
  assumes "\<And>i. i \<in> set items \<Longrightarrow> available_line db i"
    and "stk.reserve_all ''order'' oid (Some uid) (cart_lines items) db = Inr d"
  shows "\<exists>r. foldE (checkout_line oid uid) items (db, s) = Inr r"
  using assms
proof (induction items arbitrary: db s d)
  case (Cons i items)
  from Cons.prems(2) obtain e where e: "reserve (ci_product_id i) (ci_quantity i) ''order'' oid (Some uid) db = Inr e"
      "stk.reserve_all ''order'' oid (Some uid) (cart_lines items) e = Inr d"
    by (auto simp: stk.reserve_all_def cart_lines_def bindE_eq_Inr)
  define t where "t = e\<lparr>order_items := order_items db @ [item_row oid (product_of db i) i]\<rparr>"
  define u where "u = s + effective_unit_price (product_of db i) * ci_quantity i"
  have l: "checkout_line oid uid i (db, s) = Inr (t, u)"
    unfolding checkout_line_Inr using Cons.prems(1) e(1) t_def u_def by simp
  have "available_line t j" if "j \<in> set items" for j
    using Cons.prems(1) [of j] that stock_only_products [OF stock_only_ops(1) [OF e(1)], of "ci_product_id j"]
    by (simp add: available_line_def t_def get_product_by_id_def)
  moreover have "stock_part t = stock_part e" by (simp add: t_def stock_part_def)
  from reserve_all_part [OF this, of "''order''" oid "Some uid" "cart_lines items"] e(2)
  obtain x where "stk.reserve_all ''order'' oid (Some uid) (cart_lines items) t = Inr x"
    by (cases "stk.reserve_all ''order'' oid (Some uid) (cart_lines items) t") auto
  ultimately obtain r where "foldE (checkout_line oid uid) items (t, u) = Inr r"
    using Cons.IH [of t x u] by blast
  with l show ?case by simp
qed simp

text \<open>The row limits of the stock tables survive the reservations: what is reserved is within what is there.\<close>

definition stock_fits :: "'a inventory_db_scheme \<Rightarrow> bool" where
  "stock_fits db \<longleftrightarrow> inventory_ok db
     \<and> (\<forall>i \<in> set (inventories db). int4 (stock_total i) \<and> int4 (stock_reserved i))
     \<and> (\<forall>h \<in> set (inventory_log db). int4 (ih_quantity h))"

lemma reserve_fits:
  assumes s: "stock_fits db" and q: "0 \<le> q" and r: "reserve p q rt rid a db = Inr db'"
  shows "stock_fits db'"
proof -
  from r obtain i where i: "lock_for_update p db = Some i" "q \<le> stock_total i - stock_reserved i"
    and d: "db' = add_inventory_history
              \<lparr> ih_product_id = p, ih_change_type = CtReserve, ih_quantity = q,
                ih_reference_type = Some rt, ih_reference_id = Some rid, ih_actor_id = a \<rparr>
              (put_inventory p (\<lambda>r. r\<lparr>stock_reserved := stock_reserved r + q\<rparr>) db)"
    by (auto simp: reserve_def locked_inventory_def Let_def bindE_eq_Inr split: if_splits)
  have u: "unique_by inv_product_id (inventories db)" using s by (simp add: stock_fits_def inventory_ok_def)
  have mem: "i \<in> set (inventories db)" using i(1) by (simp add: lock_for_update_def find_by_mem)
  have same: "x = i" if "x \<in> set (inventories db)" "inv_product_id x = p" for x
    using find_by_unique [OF u that(1)] i(1) that(2) by (simp add: lock_for_update_def)
  have ok: "inventory_row_ok i" "int4 (stock_total i)" "int4 (stock_reserved i)"
    using s mem by (auto simp: stock_fits_def inventory_ok_def)
  have log: "inventory_log db' = inventory_log db @ [\<lparr> ih_product_id = p, ih_change_type = CtReserve, ih_quantity = q,
                ih_reference_type = Some rt, ih_reference_id = Some rid, ih_actor_id = a \<rparr>]"
    "inventories db' = update_by inv_product_id p (\<lambda>r. r\<lparr>stock_reserved := stock_reserved r + q\<rparr>) (inventories db)"
    by (simp_all add: d add_inventory_history_def put_inventory_def)
  have "int4 q" "int4 (stock_reserved i + q)" using ok i(2) q by (auto simp: int4_def inventory_row_ok_def)
  moreover have "inventory_ok db'" using reserve_keeps_ok [OF _ q r] s by (simp add: stock_fits_def)
  ultimately show ?thesis
    using s same ok by (auto simp: stock_fits_def log set_update_by)
qed

lemma reserve_all_fits:
  "stk.reserve_all rt rid a ls db = Inr d \<Longrightarrow> stock_fits db \<Longrightarrow> \<forall>l \<in> set ls. 0 \<le> snd l \<Longrightarrow> stock_fits d"
  unfolding stk.reserve_all_def by (erule foldE_invariant [where I = stock_fits]) (auto intro: reserve_fits)

text \<open>So the only thing that can stop such a checkout is the \<open>NUMERIC(14, 0)\<close> of the total.\<close>

lemma line_fits_with_total:
  assumes "i \<in> set items" "\<And>i. i \<in> set items \<Longrightarrow> 0 \<le> effective_unit_price (product_of db i) \<and> 1 \<le> ci_quantity i"
    and "numeric_fits 14 (lines_total db items)"
  shows "numeric_fits 14 (effective_unit_price (product_of db i) * ci_quantity i)"
proof -
  have n: "0 \<le> effective_unit_price (product_of db j) * ci_quantity j" if "j \<in> set items" for j
    using assms(2) [OF that] by (intro mult_nonneg_nonneg) auto
  have "effective_unit_price (product_of db i) * ci_quantity i \<le> lines_total db items"
    unfolding lines_total_def using n assms(1)
  proof (induction items)
    case (Cons j items)
    have "0 \<le> (\<Sum>i \<leftarrow> items. effective_unit_price (product_of db i) * ci_quantity i)"
      using Cons.prems(1) by (intro sum_list_nonneg) auto
    moreover have "0 \<le> effective_unit_price (product_of db j) * ci_quantity j" using Cons.prems(1) by simp
    ultimately show ?case using Cons.IH Cons.prems by (cases "i = j") (auto intro: add_increasing add_increasing2)
  qed simp
  with n [OF assms(1)] assms(3) show ?thesis by (simp add: numeric_fits_def)
qed

lemma quantity_le_demand:
  "i \<in> set items \<Longrightarrow> \<forall>l \<in> set (cart_lines items). 0 \<le> snd l \<Longrightarrow> ci_quantity i \<le> demand (ci_product_id i) (cart_lines items)"
proof (induction items)
  case (Cons j items)
  have "0 \<le> demand (ci_product_id i) (cart_lines items)"
    using Cons.prems(2) by (intro demand_nonneg) (simp add: cart_lines_def)
  with Cons show ?case by (auto simp: cart_lines_def)
qed simp

lemma checkout_sells:
  assumes f: "get_order_by_id (k_order k) db = None"
    and g: "get_or_create_cart (k_cart k) uid db = (cart, db1)"
    and items: "items_of cart db1 \<noteq> []" "\<And>i. i \<in> set (items_of cart db1) \<Longrightarrow> available_line db i \<and> 1 \<le> ci_quantity i"
    and covered: "\<And>i. i \<in> set (items_of cart db1) \<Longrightarrow>
      \<exists>t r. stock_of db (ci_product_id i) = Some (t, r) \<and> r + demand (ci_product_id i) (cart_lines (items_of cart db1)) \<le> t"
    and fits: "inventory_ok db" "orders_fit db" "\<And>i. i \<in> set (items_of cart db1) \<Longrightarrow>
      0 \<le> effective_unit_price (product_of db i) \<and> numeric_fits 12 (effective_unit_price (product_of db i))"
  shows "if numeric_fits 14 (lines_total db (items_of cart db1))
    then \<exists>db'. checkout_service k uid addr db = Inr (new_order k uid addr (lines_total db (items_of cart db1)), db')
    else checkout_service k uid addr db = Inl DBAPIError"
proof -
  define its where "its = items_of cart db1"
  define db0 where "db0 = db1\<lparr>orders := orders db1 @ [(new_order k uid addr 0)\<lparr>o_status := OrdPending\<rparr>]\<rparr>"
  note fr = get_or_create_cart_frame [OF g]
  have part: "stock_part db0 = stock_part db" by (simp add: stock_part_def db0_def fr)
  have "stock_of db0 = stock_of db" using part by (intro stock_of_cong) (simp add: stock_part_def)
  then have "\<forall>p \<in> fst ` set (cart_lines its). \<exists>t r. stock_of db0 p = Some (t, r) \<and> r + demand p (cart_lines its) \<le> t"
    using covered by (simp add: cart_lines_def its_def [symmetric])
  moreover have pos: "\<forall>l \<in> set (cart_lines its). 0 \<le> snd l"
    using items(2) by (fastforce simp: cart_lines_def its_def)
  ultimately have "\<exists>d. stk.reserve_all ''order'' (k_order k) (Some uid) (cart_lines its) db0 = Inr d"
    by (rule stk.reserve_all_succeeds)
  then obtain d where d: "stk.reserve_all ''order'' (k_order k) (Some uid) (cart_lines its) db0 = Inr d" by blast
  have "available_line db0 i" if "i \<in> set its" for i
    using items(2) that by (simp add: its_def available_line_def get_product_by_id_def db0_def fr)
  from checkout_loop_succeeds [OF this d] obtain db2 s where
      loop: "foldE (checkout_line (k_order k) uid) its (db0, 0) = Inr (db2, s)" by fastforce
  have same: "numeric_fits 14 (lines_total db its) \<longrightarrow> numeric_fits 14 (effective_unit_price (product_of db i) * ci_quantity i)"
    if "i \<in> set its" for i using line_fits_with_total [of i its db] that items(2) fits(3) by (auto simp: its_def)
  from g items(1) f loop [unfolded its_def db0_def] show ?thesis
  proof (rule checkout_built)
    fix e fin
    assume e: "stk.reserve_all ''order'' (k_order k) (Some uid) (cart_lines (items_of cart db1)) db = Inr e"
      and c: "checkout_service k uid addr db = flush_orders (new_order k uid addr (lines_total db (items_of cart db1))) fin"
      and fin: "orders fin = orders db @ [new_order k uid addr (lines_total db (items_of cart db1))]"
      "order_items fin = order_items db @ map (\<lambda>i. item_row (k_order k) (product_of db i) i) (items_of cart db1)"
      "inventories fin = inventories e" "inventory_log fin = inventory_log e" "categories fin = categories db"
    have "stock_fits db" using fits(1,2) by (simp add: stock_fits_def orders_fit_def catalog_constraints_def)
    from reserve_all_fits [OF e this] pos have st: "stock_fits e" by (simp add: its_def)
    then have cat: "catalog_constraints fin"
      using fits(2) by (simp add: stock_fits_def orders_fit_def catalog_constraints_def fin inventory_ok_def)
    have q: "int4 (ci_quantity i)" if i: "i \<in> set its" for i
    proof -
      from covered [of i] i obtain t r where t: "stock_of db (ci_product_id i) = Some (t, r)"
        "r + demand (ci_product_id i) (cart_lines its) \<le> t" by (auto simp: its_def)
      then obtain x where x: "x \<in> set (inventories db)" "t = stock_total x" "r = stock_reserved x"
        by (auto simp: stock_of_def dest: find_by_mem)
      have "ci_quantity i \<le> demand (ci_product_id i) (cart_lines its)"
        using i pos by (rule quantity_le_demand)
      moreover have "1 \<le> ci_quantity i" using items(2) i by (simp add: its_def)
      moreover have "int4 (stock_total x) \<and> 0 \<le> stock_reserved x"
        using fits(2) x(1) by (simp add: orders_fit_def catalog_constraints_def inventory_row_ok_def)
      ultimately show ?thesis using t(2) x(2,3) by (simp add: int4_def)
    qed
    have "orders_fit fin \<longleftrightarrow> numeric_fits 14 (lines_total db its)"
      using cat fits(2,3) same q
      by (auto simp: orders_fit_def fin new_order_def item_row_def its_def [symmetric])
    with c show ?thesis by (simp add: flush_orders_def its_def)
  qed
qed

section \<open>The idempotent route\<close>

lemma checkout_keys:
  assumes "checkout_service k uid addr db = Inr (ord, db')"
  shows "idempotency_keys db' = idempotency_keys db"
proof -
  obtain cart db1 where c: "get_or_create_cart (k_cart k) uid db = (cart, db1)" by fastforce
  have step: "idempotency_keys (fst b) = idempotency_keys (fst a)" if "checkout_line oid uid i a = Inr b" for oid uid i a b
  proof -
    obtain x s y t where ab: "a = (x, s)" "b = (y, t)" by (cases a, cases b) auto
    with that obtain d where "reserve (ci_product_id i) (ci_quantity i) ''order'' oid (Some uid) x = Inr d"
      "y = d\<lparr>order_items := order_items x @ [item_row oid (product_of x i) i]\<rparr>"
      unfolding ab checkout_line_Inr by blast
    with stock_only_ops(1) show ?thesis by (fastforce simp: ab stock_only_def)
  qed
  have loop: "idempotency_keys (fst b) = idempotency_keys (fst a)" if "foldE (checkout_line oid uid) xs a = Inr b"
    for oid uid xs a b
    by (rule foldE_invariant [where I = "\<lambda>x. idempotency_keys (fst x) = idempotency_keys (fst a)", OF that refl])
       (use step in metis)
  from assms c show ?thesis
    using loop get_or_create_cart_frame(5) [OF c]
    by (fastforce simp: checkout_service_def bindE_eq_Inr Let_def transition_def flush_orders_def clear_items_def
        split: if_splits prod.splits)
qed

lemma checkout_action_facts:
  "checkout_action u k addr db = Inr (r, db') \<Longrightarrow> idempotency_keys db' = idempotency_keys db \<and> fst r = 201"
  by (auto simp: checkout_action_def bindE_eq_Inr checkout_keys)

interpretation checkout_guard: guarded_operation "checkout_action u k addr" for u k addr
  by unfold_locales (auto dest: checkout_action_facts)

section \<open>Outcomes\<close>

definition at_order :: "uuid \<Rightarrow> order_status \<Rightarrow> 'a orders_db_scheme \<Rightarrow> bool" where
  "at_order oid s db \<longleftrightarrow> (\<exists>r. get_order_by_id oid db = Some r \<and> o_status r = s)"

lemma at_orderE: "at_order oid s db \<Longrightarrow> (\<And>r. get_order_by_id oid db = Some r \<Longrightarrow> o_status r = s \<Longrightarrow> P) \<Longrightarrow> P"
  by (auto simp: at_order_def)

text \<open>Of an order awaiting payment: paying takes its lines out of the stock, and a failed payment or
  a cancellation gives them back, exactly.\<close>

lemma mark_paid_stock:
  assumes b: "books_ok db" and a: "at_order oid OrdAwaitingPayment db"
    and m: "mark_paid now oid db = Inr (ord, db')" and s: "stock_of db p = Some (t, r)"
  shows "stock_of db' p = Some (t - demand p (order_lines oid db), r - demand p (order_lines oid db))"
  using m
proof (rule mark_paid_cases)
  fix o1 d assume o: "get_order_by_id oid db = Some o1"
    and d: "stk.purchase_all ''order'' oid None (order_lines oid db) db = Inr d"
    and tr: "transition o1 OrdPaid None (Some PaidNote) now d = Inr (ord, db')"
  have t: "totals_ok db" "inventory_ok db" "reserved_matches db" using b by (simp_all add: books_ok_def)
  have r: "r = awaiting_demand db p" using t(3) s by (auto simp: reserved_matches_def)
  have "demand p (order_lines oid db) \<le> r"
    unfolding r using awaiting_covers [OF t(1) o] a o by (simp add: at_order_def)
  with stk.purchase_all_stock [OF d s _ _ order_lines_nonneg [OF t(1)]] inventory_ok_stock [OF t(2) s]
  show ?thesis
    by (simp add: stock_of_cong [OF transition_moved(3) [OF o purchase_all_only [OF d] tr]])
qed

lemma release_stock:
  assumes b: "books_ok db" and a: "at_order oid OrdAwaitingPayment db"
    and d: "stk.release_all ''order'' oid x (order_lines oid db) db = Inr d" and s: "stock_of db p = Some (t, r)"
  shows "stock_of d p = Some (t, r - demand p (order_lines oid db))"
proof -
  have t: "totals_ok db" "inventory_ok db" "reserved_matches db" using b by (simp_all add: books_ok_def)
  have r: "r = awaiting_demand db p" using t(3) s by (auto simp: reserved_matches_def)
  from a obtain o1 where o: "get_order_by_id oid db = Some o1" "o_status o1 = OrdAwaitingPayment" by (rule at_orderE)
  have "demand p (order_lines oid db) \<le> r" unfolding r by (rule awaiting_covers [OF t(1) o])
  with stk.release_all_stock [OF d s _ order_lines_nonneg [OF t(1)]] inventory_ok_stock [OF t(2) s]
  show ?thesis by simp
qed

lemma mark_payment_failed_stock:
  assumes "books_ok db" "at_order oid OrdAwaitingPayment db"
    and m: "mark_payment_failed now oid db = Inr (ord, db')" and "stock_of db p = Some (t, r)"
  shows "stock_of db' p = Some (t, r - demand p (order_lines oid db))"
  using m
proof (rule mark_payment_failed_cases)
  fix o1 d assume o: "get_order_by_id oid db = Some o1"
    and d: "stk.release_all ''order'' oid None (order_lines oid db) db = Inr d"
    and tr: "transition o1 OrdPaymentFailed None (Some PaymentFailedNote) now d = Inr (ord, db')"
  from release_stock [OF assms(1,2) d assms(4)] show ?thesis
    by (simp add: stock_of_cong [OF transition_moved(3) [OF o release_all_only [OF d] tr]])
qed

text \<open>What a cancellation does to the stock, whatever the order's status.\<close>

lemma cancel_releases:
  assumes c: "cancel now oid u db = Inr (ord, db')" and t: "totals_ok db" and i: "inventory_ok db"
    and s: "stock_of db p = Some (t, r)" "at_order oid st db" "st \<in> {OrdPending, OrdAwaitingPayment, OrdPaid}"
  shows "stock_of db' p = Some (t, max 0 (r - demand p (order_lines oid db)))"
  using c
proof (rule cancel_cases)
  fix o1 d assume o: "get_order_by_id oid db = Some o1"
    and d: "o_status o1 \<in> {OrdPending, OrdAwaitingPayment, OrdPaid} \<longrightarrow>
       stk.release_all ''order'' oid None (order_lines oid db) db = Inr d"
    and only: "stock_only db d"
    and tr: "transition o1 OrdCancelled (Some (u_id u)) (Some CancelledNote) now d = Inr (ord, db')"
  have "o_status o1 = st" using s(2) o by (auto simp: at_order_def)
  with d s(3) have d: "stk.release_all ''order'' oid None (order_lines oid db) db = Inr d" by blast
  from stk.release_all_stock [OF d s(1) _ order_lines_nonneg [OF t]] inventory_ok_stock [OF i s(1)]
  show ?thesis by (simp add: stock_of_cong [OF transition_moved(3) [OF o only tr]])
qed

lemma cancel_stock:
  assumes b: "books_ok db" and a: "at_order oid OrdAwaitingPayment db"
    and c: "cancel now oid u db = Inr (ord, db')" and s: "stock_of db p = Some (t, r)"
  shows "stock_of db' p = Some (t, r - demand p (order_lines oid db))"
proof -
  have t: "totals_ok db" "inventory_ok db" "reserved_matches db" using b by (simp_all add: books_ok_def)
  from a obtain o1 where o: "get_order_by_id oid db = Some o1" "o_status o1 = OrdAwaitingPayment" by (rule at_orderE)
  have "demand p (order_lines oid db) \<le> r"
    using awaiting_covers [OF t(1) o] t(3) s by (auto simp: reserved_matches_def)
  with cancel_releases [OF c t(1,2) s a] show ?thesis by simp
qed

section \<open>Where the figures part\<close>

text \<open>Cancelling a paid order releases its lines once more, although the payment has already taken
  them out of the reservations: the units come off what other orders have reserved, the total is
  not given back, and no money is.\<close>

lemma cancel_paid_unreserves_others:
  assumes b: "books_ok db" and a: "at_order oid OrdPaid db"
    and c: "cancel now oid u db = Inr (ord, db')"
    and s: "stock_of db p = Some (t, r)" "0 < r" "0 < demand p (order_lines oid db)"
  shows "stock_of db' p = Some (t, max 0 (r - demand p (order_lines oid db)))"
    and "awaiting_demand db' p = r" and "\<not> reserved_matches db'"
    and "wallet_transactions db' = wallet_transactions db"
proof -
  have t: "totals_ok db" "inventory_ok db" "reserved_matches db" and un: "unique_by o_id (orders db)"
    using b by (simp_all add: books_ok_def totals_ok_def)
  have r: "r = awaiting_demand db p" using t(3) s by (auto simp: reserved_matches_def)
  show st: "stock_of db' p = Some (t, max 0 (r - demand p (order_lines oid db)))"
    by (rule cancel_releases [OF c t(1,2) s(1) a]) simp
  from c obtain o1 d where o: "get_order_by_id oid db = Some o1" and only: "stock_only db d"
    and tr: "transition o1 OrdCancelled (Some (u_id u)) (Some CancelledNote) now d = Inr (ord, db')"
    by (rule cancel_cases)
  note m = transition_moved [OF o only tr]
  have "o_status o1 = OrdPaid" using a o by (simp add: at_order_def)
  then show aw: "awaiting_demand db' p = r"
    using awaiting_same [OF m(1) un o] by (simp add: r)
  show "wallet_transactions db' = wallet_transactions db" by (rule m(6))
  show "\<not> reserved_matches db'"
  proof
    assume "reserved_matches db'"
    with st aw have "max 0 (r - demand p (order_lines oid db)) = r" by (auto simp: reserved_matches_def)
    with s(2,3) show False by simp
  qed
qed

text \<open>The administrator's status change never moves stock: cancelling or failing an order that
  awaits payment keeps its lines reserved for nobody, and marking it paid keeps them reserved and
  in the total.\<close>

lemma admin_moves_no_stock:
  assumes "admin_update_status now oid st nt actor db = Inr (ord, db')"
  shows "inventories db' = inventories db" "inventory_log db' = inventory_log db"
  using assms by (auto simp: admin_update_status_def bindE_eq_Inr transition_def split: if_splits)

lemma admin_strands_stock:
  assumes b: "books_ok db" and a: "at_order oid OrdAwaitingPayment db"
    and c: "admin_update_status now oid st nt actor db = Inr (ord, db')"
    and s: "stock_of db p = Some (t, r)" "0 < demand p (order_lines oid db)"
  shows "stock_of db' p = Some (t, r)" "awaiting_demand db' p < r" "\<not> reserved_matches db'"
proof -
  have t: "reserved_matches db" and un: "unique_by o_id (orders db)"
    using b by (simp_all add: books_ok_def totals_ok_def)
  have r: "r = awaiting_demand db p" using t s by (auto simp: reserved_matches_def)
  show st: "stock_of db' p = Some (t, r)"
    using s(1) stock_of_cong [OF admin_moves_no_stock(1) [OF c]] by simp
  from c obtain o1 where o: "get_order_by_id oid db = Some o1"
    and tr: "transition o1 st (Some actor) (map_option UserNote nt) now db = Inr (ord, db')"
    by (auto simp: admin_update_status_def bindE_eq_Inr)
  note m = transition_moved [OF o stock_only_refl tr]
  have o1: "o_status o1 = OrdAwaitingPayment" using a o by (simp add: at_order_def)
  with m(11) have "st \<noteq> OrdAwaitingPayment" by auto
  with awaiting_left [OF m(1) un o o1] s(2) show aw: "awaiting_demand db' p < r" by (simp add: r)
  with st show "\<not> reserved_matches db'" by (auto simp: reserved_matches_def)
qed

end
