(* ===== verification/Zarinpal.thy ===== *)
theory Zarinpal
  imports Errors
begin

text \<open>
  The ZarinPal client (\<open>app/integrations/zarinpal.py\<close>). The gateway itself is outside the
  program: what it answers to a POST is a parameter, and the record below holds what the
  client reads of an answer.
\<close>

record gateway_answer =
  ga_status_code :: nat
  ga_code :: "int option"        \<comment> \<open>\<open>data.get("code")\<close>\<close>
  ga_authority :: "string option"
  ga_ref_id :: "string option"   \<comment> \<open>\<open>str(data["ref_id"])\<close> when it is present and not falsy\<close>

record zarinpal_settings =
  zp_merchant_id :: "string option"
  zp_callback_url :: "string option"
  zp_sandbox :: bool

record payment_request_result =
  pr_authority :: string
  pr_payment_url :: string

record payment_verify_result =
  pv_success :: bool
  pv_reference_id :: "string option"
  pv_raw_response :: gateway_answer

definition is_configured :: "zarinpal_settings \<Rightarrow> bool" where
  "is_configured cfg \<longleftrightarrow>
     (case zp_merchant_id cfg of Some (c # cs) \<Rightarrow> True | _ \<Rightarrow> False)
     \<and> (case zp_callback_url cfg of Some (c # cs) \<Rightarrow> True | _ \<Rightarrow> False)"

definition zarinpal_base :: "zarinpal_settings \<Rightarrow> string" where
  "zarinpal_base cfg =
     (if zp_sandbox cfg then ''https://sandbox.zarinpal.com'' else ''https://payment.zarinpal.com'')"

text \<open>The amount (in rial) and the order named in the description identify the POST.\<close>

definition request_payment ::
    "zarinpal_settings \<Rightarrow> (int \<Rightarrow> uuid \<Rightarrow> gateway_answer) \<Rightarrow> int \<Rightarrow> uuid \<Rightarrow> exn + payment_request_result" where
  "request_payment cfg post amount_rial order_id =
     (if \<not> is_configured cfg then Inl ZarinPalNotConfigured
      else
        let response = post amount_rial order_id in
        if ga_status_code response \<noteq> 200 \<or> ga_code response \<noteq> Some 100 then Inl ZarinPalError
        else bindE (the_or KeyError (ga_authority response)) (\<lambda>authority.
          Inr \<lparr> pr_authority = authority,
                pr_payment_url = zarinpal_base cfg @ ''/pg/StartPay/'' @ authority \<rparr>))"

definition verify_payment ::
    "(int \<Rightarrow> string \<Rightarrow> gateway_answer) \<Rightarrow> int \<Rightarrow> string \<Rightarrow> payment_verify_result" where
  "verify_payment post amount_rial authority =
     (let response = post amount_rial authority;
          success = (ga_code response = Some 100 \<or> ga_code response = Some 101)
      in \<lparr> pv_success = success,
           pv_reference_id = (if success then ga_ref_id response else None),
           pv_raw_response = response \<rparr>)"

end
