(* ===== verification/Payments.thy ===== *)
theory Payments
  imports Order_Invariants Zarinpal
begin

text \<open>
  Payments (\<open>app/modules/payments\<close>): opening a payment with the gateway and settling it when
  the gateway calls back. \<open>PaymentRepository\<close>, \<open>PaymentService\<close> and the routes. The gateway
  is the pair of parameters \<open>post_request\<close> and \<open>post_verify\<close> of \<open>Zarinpal\<close>.
\<close>

section \<open>Data\<close>

text \<open>The JSON a payment keeps: an answer of the gateway, or what the seed script writes.\<close>

datatype raw_response = GatewayResponse gateway_answer | DemoSeed string

datatype payment_status = PayInitiated | PayPending | PayVerified | PayFailed

record payment =
  pay_id :: uuid
  pay_order_id :: uuid
  pay_user_id :: uuid
  pay_gateway :: string
  pay_authority :: "string option"
  pay_amount :: int
  pay_status :: payment_status
  pay_reference_id :: "string option"
  pay_created_at :: datetime
  pay_verified_at :: "datetime option"
  pay_raw_gateway_response :: "raw_response option"

record payments_db = orders_db +
  payments :: "payment list"

definition TOMAN_TO_RIAL :: int where
  "TOMAN_TO_RIAL = 10"

section \<open>Repository\<close>

definition get_by_authority :: "string \<Rightarrow> 'a payments_db_scheme \<Rightarrow> payment option" where
  "get_by_authority authority db = find_by pay_authority (Some authority) (payments db)"

definition set_payment :: "uuid \<Rightarrow> (payment \<Rightarrow> payment) \<Rightarrow> 'a payments_db_scheme \<Rightarrow> 'a payments_db_scheme" where
  "set_payment pid f db = db\<lparr>payments := update_by pay_id pid f (payments db)\<rparr>"

text \<open>\<open>UPDATE ... WHERE id = ... AND status = ...\<close>: whether a row changed, and the new state.\<close>

definition try_claim ::
    "uuid \<Rightarrow> payment_status \<Rightarrow> payment_status \<Rightarrow> 'a payments_db_scheme \<Rightarrow> bool \<times> 'a payments_db_scheme" where
  "try_claim pid from_status to_status db =
     (length (filter (\<lambda>p. pay_id p = pid \<and> pay_status p = from_status) (payments db)) = 1,
      db\<lparr>payments := map (\<lambda>p. if pay_id p = pid \<and> pay_status p = from_status
                              then p\<lparr>pay_status := to_status\<rparr> else p) (payments db)\<rparr>)"

section \<open>Service\<close>

record payment_fresh =
  pf_payment :: uuid
  pf_now :: datetime

definition init_payment_service ::
    "zarinpal_settings \<Rightarrow> (int \<Rightarrow> uuid \<Rightarrow> gateway_answer) \<Rightarrow> payment_fresh \<Rightarrow> user \<Rightarrow> uuid
     \<Rightarrow> 'a payments_db_scheme \<Rightarrow> exn + ((payment \<times> string) \<times> 'a payments_db_scheme)" where
  "init_payment_service cfg post_request f u oid db =
     bindE (the_or NotFoundError (get_order_by_id oid db)) (\<lambda>ord.
       if o_user_id ord \<noteq> u_id u then Inl PermissionDeniedError
       else if o_status ord \<notin> {OrdAwaitingPayment, OrdPaymentFailed} then Inl ConflictError
       else
         let p = \<lparr> pay_id = pf_payment f, pay_order_id = o_id ord, pay_user_id = u_id u,
                   pay_gateway = ''zarinpal'', pay_authority = None, pay_amount = o_total ord,
                   pay_status = PayInitiated, pay_reference_id = None, pay_created_at = pf_now f,
                   pay_verified_at = None, pay_raw_gateway_response = None \<rparr>;
             db1 = db\<lparr>payments := payments db @ [p]\<rparr>
         in (case request_payment cfg post_request (o_total ord * TOMAN_TO_RIAL) oid of
               Inl e \<Rightarrow> Inl (if e = ZarinPalNotConfigured then ConflictError else e)
             | Inr result \<Rightarrow>
                 Inr ((p\<lparr>pay_authority := Some (pr_authority result)\<rparr>, pr_payment_url result),
                      set_payment (pf_payment f) (\<lambda>p. p\<lparr>pay_authority := Some (pr_authority result)\<rparr>) db1)))"

text \<open>\<open>handle_callback\<close>; the payment returned is the row as it is after the call.\<close>

definition handle_callback ::
    "(int \<Rightarrow> string \<Rightarrow> gateway_answer) \<Rightarrow> datetime \<Rightarrow> string \<Rightarrow> string \<Rightarrow> 'a payments_db_scheme
     \<Rightarrow> exn + (payment \<times> 'a payments_db_scheme)" where
  "handle_callback post_verify now authority gateway_status db =
     bindE (the_or NotFoundError (get_by_authority authority db)) (\<lambda>p.
       let (claimed, db1) = try_claim (pay_id p) PayInitiated PayPending db
       in if \<not> claimed then Inr (p, db)
          else if gateway_status \<noteq> ''OK'' then
            let g = (\<lambda>p. p\<lparr>pay_status := PayFailed\<rparr>)
            in bindE (mark_payment_failed now (pay_order_id p) (set_payment (pay_id p) g db1)) (\<lambda>(_, db2).
                 Inr (g p, db2))
          else
            let result = verify_payment post_verify (pay_amount p * TOMAN_TO_RIAL) authority in
            if pv_success result then
              let g = (\<lambda>p. p\<lparr> pay_status := PayVerified, pay_reference_id := pv_reference_id result,
                              pay_verified_at := Some now,
                              pay_raw_gateway_response := Some (GatewayResponse (pv_raw_response result)) \<rparr>)
              in bindE (mark_paid now (pay_order_id p) (set_payment (pay_id p) g db1)) (\<lambda>(_, db2).
                   Inr (g p, db2))
            else
              let g = (\<lambda>p. p\<lparr> pay_status := PayFailed,
                              pay_raw_gateway_response := Some (GatewayResponse (pv_raw_response result)) \<rparr>)
              in bindE (mark_payment_failed now (pay_order_id p) (set_payment (pay_id p) g db1)) (\<lambda>(_, db2).
                   Inr (g p, db2)))"

section \<open>Routes\<close>

text \<open>The flush of the commit: the stock and money columns, the unique authority, and the lengths
  of the gateway's strings.\<close>

definition payments_fit :: "'a payments_db_scheme \<Rightarrow> bool" where
  "payments_fit db \<longleftrightarrow> orders_fit db
     \<and> distinct (List.map_filter pay_authority (payments db))
     \<and> (\<forall>p \<in> set (payments db).
          (case pay_authority p of None \<Rightarrow> True | Some a \<Rightarrow> text_length a \<le> 64)
          \<and> (case pay_reference_id p of None \<Rightarrow> True | Some a \<Rightarrow> text_length a \<le> 64))"

definition flush_payments :: "'r \<Rightarrow> 'a payments_db_scheme \<Rightarrow> exn + ('r \<times> 'a payments_db_scheme)" where
  "flush_payments r db = (if payments_fit db then Inr (r, db) else Inl DBAPIError)"

definition init_payment_action ::
    "zarinpal_settings \<Rightarrow> (int \<Rightarrow> uuid \<Rightarrow> gateway_answer) \<Rightarrow> payment_fresh \<Rightarrow> user \<Rightarrow> uuid
     \<Rightarrow> 'a payments_db_scheme \<Rightarrow> exn + (http_response \<times> 'a payments_db_scheme)" where
  "init_payment_action cfg post_request f u oid db =
     bindE (init_payment_service cfg post_request f u oid db) (\<lambda>((p, url), db1).
       flush_payments (201, JObj [(''payment_id'', JUuid (pay_id p)), (''payment_url'', JStr url)]) db1)"

definition init_payment ::
    "zarinpal_settings \<Rightarrow> (int \<Rightarrow> uuid \<Rightarrow> gateway_answer) \<Rightarrow> payment_fresh \<Rightarrow> user
     \<Rightarrow> string option \<Rightarrow> string \<Rightarrow> uuid \<Rightarrow> 'a payments_db_scheme
     \<Rightarrow> (exn + http_response) \<times> 'a payments_db_scheme" where
  "init_payment cfg post_request f u key request_hash oid db =
     guarded ''payment.init'' (u_id u) key request_hash (pf_now f) (init_payment_action cfg post_request f u oid) db"

datatype redirect_outcome = RedirectPaid uuid | RedirectFailed uuid

definition payment_callback ::
    "(int \<Rightarrow> string \<Rightarrow> gateway_answer) \<Rightarrow> datetime \<Rightarrow> string \<Rightarrow> string \<Rightarrow> 'a payments_db_scheme
     \<Rightarrow> (exn + redirect_outcome) \<times> 'a payments_db_scheme" where
  "payment_callback post_verify now authority status db = request db (
     bindE (handle_callback post_verify now authority status db) (\<lambda>(p, db1).
       flush_payments (if pay_status p = PayVerified then RedirectPaid (pay_order_id p)
                       else RedirectFailed (pay_order_id p)) db1))"

end
