(* ===== verification/Payment_Facts.thy ===== *)
theory Payment_Facts
  imports Payments
begin

text \<open>
  What the payment service guarantees: a callback is settled once and replayed after that,
  whatever the gateway would answer then; a verified payment has paid its order; amounts
  and owners are those of the order; and a payment can be opened for
  an order whose payment failed, and cannot be settled while that order is not awaiting payment.
\<close>

section \<open>The cases of a callback\<close>

lemma get_by_authority_mem:
  "get_by_authority a db = Some p \<Longrightarrow> p \<in> set (payments db) \<and> pay_authority p = Some a"
  unfolding get_by_authority_def by (rule find_by_SomeD)

lemma claim_unique:
  assumes u: "unique_by pay_id (payments db)" and p: "p \<in> set (payments db)"
  shows "fst (try_claim (pay_id p) s t db) \<longleftrightarrow> pay_status p = s"
proof -
  have "filter (\<lambda>q. pay_id q = pay_id p \<and> pay_status q = s) ps = (if p \<in> set ps \<and> pay_status p = s then [p] else [])"
    if "unique_by pay_id ps" "\<forall>q \<in> set ps. pay_id q = pay_id p \<longrightarrow> q = p" for ps
    using that
  proof (induction ps)
    case (Cons q ps)
    then show ?case by (auto simp: unique_by_def filter_empty_conv)
  qed simp
  moreover have "\<forall>q \<in> set (payments db). pay_id q = pay_id p \<longrightarrow> q = p"
    using find_by_unique [OF u] p by (metis option.inject)
  ultimately show ?thesis using u p by (simp add: try_claim_def)
qed

lemma settle_row:
  assumes u: "unique_by pay_id (payments db)" and p: "p \<in> set (payments db)"
    and g: "\<And>q s. g (q\<lparr>pay_status := s\<rparr>) = g q"
  shows "set_payment (pay_id p) g (snd (try_claim (pay_id p) s t db)) =
         db\<lparr>payments := update_by pay_id (pay_id p) (\<lambda>_. g p) (payments db)\<rparr>"
proof -
  have "update_by pay_id (pay_id p) g (map (\<lambda>q. if pay_id q = pay_id p \<and> pay_status q = s
        then q\<lparr>pay_status := t\<rparr> else q) ps) = update_by pay_id (pay_id p) (\<lambda>_. g p) ps"
    if "\<forall>q \<in> set ps. pay_id q = pay_id p \<longrightarrow> q = p" for ps
    using that by (induction ps) (auto simp: g)
  moreover have "\<forall>q \<in> set (payments db). pay_id q = pay_id p \<longrightarrow> q = p"
    using find_by_unique [OF u] p by (metis option.inject)
  ultimately show ?thesis by (simp add: set_payment_def try_claim_def)
qed

lemma handle_callback_cases:
  assumes c: "handle_callback post now a status db = Inr (p', db')" and u: "unique_by pay_id (payments db)"
  obtains (replayed) "get_by_authority a db = Some p'" "pay_status p' \<noteq> PayInitiated" "db' = db"
    | (failed) p x ord where "get_by_authority a db = Some p" "pay_status p = PayInitiated"
      "p' = p\<lparr>pay_status := PayFailed, pay_raw_gateway_response := pay_raw_gateway_response p'\<rparr>"
      "x = db\<lparr>payments := update_by pay_id (pay_id p) (\<lambda>_. p') (payments db)\<rparr>"
      "mark_payment_failed now (pay_order_id p) x = Inr (ord, db')"
    | (verified) p x ord result where "get_by_authority a db = Some p" "pay_status p = PayInitiated"
      "status = ''OK''" "result = verify_payment post (pay_amount p * TOMAN_TO_RIAL) a" "pv_success result"
      "p' = p\<lparr> pay_status := PayVerified, pay_reference_id := pv_reference_id result,
              pay_verified_at := Some now, pay_raw_gateway_response := Some (GatewayResponse (pv_raw_response result)) \<rparr>"
      "x = db\<lparr>payments := update_by pay_id (pay_id p) (\<lambda>_. p') (payments db)\<rparr>"
      "mark_paid now (pay_order_id p) x = Inr (ord, db')"
proof -
  from c obtain p where p: "get_by_authority a db = Some p"
    by (auto simp: handle_callback_def bindE_eq_Inr)
  note mem = get_by_authority_mem [OF p, THEN conjunct1]
  obtain claimed db1 where cl: "try_claim (pay_id p) PayInitiated PayPending db = (claimed, db1)" by fastforce
  have claimed: "claimed \<longleftrightarrow> pay_status p = PayInitiated"
    using claim_unique [OF u mem, of PayInitiated PayPending] cl by simp
  have row: "set_payment (pay_id p) g db1 = db\<lparr>payments := update_by pay_id (pay_id p) (\<lambda>_. g p) (payments db)\<rparr>"
    if "\<And>q s. g (q\<lparr>pay_status := s\<rparr>) = g q" for g
    using settle_row [OF u mem that, of PayInitiated PayPending] cl by simp
  let ?r = "verify_payment post (pay_amount p * TOMAN_TO_RIAL) a"
  consider (no) "\<not> claimed" | (bad) "claimed" "status \<noteq> ''OK''"
    | (ok) "claimed" "status = ''OK''" "pv_success ?r" | (rej) "claimed" "status = ''OK''" "\<not> pv_success ?r"
    by blast
  then show thesis
  proof cases
    case no
    with c p cl have "p' = p" "db' = db" by (simp_all add: handle_callback_def)
    with no p claimed replayed show thesis by simp
  next
    case bad
    let ?g = "\<lambda>p. p\<lparr>pay_status := PayFailed\<rparr>"
    have r: "set_payment (pay_id p) ?g db1 = db\<lparr>payments := update_by pay_id (pay_id p) (\<lambda>_. ?g p) (payments db)\<rparr>"
      by (rule row) simp
    from c p cl bad obtain ord where "mark_payment_failed now (pay_order_id p) (set_payment (pay_id p) ?g db1) = Inr (ord, db')"
        "p' = ?g p"
      by (auto simp: handle_callback_def bindE_eq_Inr Let_def)
    with r bad claimed failed [OF p _ _ refl, of ord] show thesis by simp
  next
    case ok
    let ?g = "\<lambda>p. p\<lparr> pay_status := PayVerified, pay_reference_id := pv_reference_id ?r,
              pay_verified_at := Some now, pay_raw_gateway_response := Some (GatewayResponse (pv_raw_response ?r)) \<rparr>"
    have r: "set_payment (pay_id p) ?g db1 = db\<lparr>payments := update_by pay_id (pay_id p) (\<lambda>_. ?g p) (payments db)\<rparr>"
      by (rule row) simp
    from c p cl ok obtain ord where "mark_paid now (pay_order_id p) (set_payment (pay_id p) ?g db1) = Inr (ord, db')"
        "p' = ?g p"
      by (auto simp: handle_callback_def bindE_eq_Inr Let_def)
    with r ok claimed verified [OF p _ _ refl _ _ refl, of ord] show thesis by simp
  next
    case rej
    let ?g = "\<lambda>p. p\<lparr> pay_status := PayFailed, pay_raw_gateway_response := Some (GatewayResponse (pv_raw_response ?r)) \<rparr>"
    have r: "set_payment (pay_id p) ?g db1 = db\<lparr>payments := update_by pay_id (pay_id p) (\<lambda>_. ?g p) (payments db)\<rparr>"
      by (rule row) simp
    from c p cl rej obtain ord where "mark_payment_failed now (pay_order_id p) (set_payment (pay_id p) ?g db1) = Inr (ord, db')"
        "p' = ?g p"
      by (auto simp: handle_callback_def bindE_eq_Inr Let_def)
    with r rej claimed failed [OF p _ _ refl, of ord] show thesis by simp
  qed
qed

section \<open>Frames\<close>

lemma mark_frames:
  "mark_paid now oid x = Inr (ord, db') \<Longrightarrow> payments db' = payments x"
  "mark_payment_failed now oid x = Inr (ord, db') \<Longrightarrow> payments db' = payments x"
proof -
  have tr: "payments db' = payments x" if "stock_only x d" "transition r s a n now d = Inr (ord, db')" for d r s a n
    using that by (auto simp: transition_def stock_only_def split: if_splits)
  show "payments db' = payments x" if "mark_paid now oid x = Inr (ord, db')"
    using that by (rule mark_paid_cases) (blast intro: tr purchase_all_only)
  show "payments db' = payments x" if "mark_payment_failed now oid x = Inr (ord, db')"
    using that by (rule mark_payment_failed_cases) (blast intro: tr release_all_only)
qed

lemma mark_moved:
  assumes "orders x = orders db" "order_items x = order_items db" "order_history x = order_history db"
  shows "mark_paid now oid x = Inr (ord, db') \<Longrightarrow> order_moved oid OrdPaid db db'"
    and "mark_payment_failed now oid x = Inr (ord, db') \<Longrightarrow> order_moved oid OrdPaymentFailed db db'"
proof -
  have eq: "order_moved oid s x db' \<Longrightarrow> order_moved oid s db db'" for s
    using assms by (auto simp: order_moved_def get_order_by_id_def)
  show "mark_paid now oid x = Inr (ord, db') \<Longrightarrow> order_moved oid OrdPaid db db'"
    by (erule mark_paid_cases) (blast intro: eq transition_moved(1) purchase_all_only)
  show "mark_payment_failed now oid x = Inr (ord, db') \<Longrightarrow> order_moved oid OrdPaymentFailed db db'"
    by (erule mark_payment_failed_cases) (blast intro: eq transition_moved(1) release_all_only)
qed

section \<open>Settled once\<close>

lemma authority_row:
  assumes "unique_by pay_id ps" "p \<in> set ps" "find_by pay_authority (Some a) ps = Some p" "pay_authority q = Some a" "pay_id q = pay_id p"
  shows "find_by pay_authority (Some a) (update_by pay_id (pay_id p) (\<lambda>_. q) ps) = Some q"
  using assms
proof (induction ps)
  case (Cons r ps)
  show ?case
  proof (cases "r = p")
    case True
    with Cons.prems show ?thesis by simp
  next
    case False
    with Cons.prems(2) have p: "p \<in> set ps" by simp
    with Cons.prems(1) have "pay_id r \<noteq> pay_id p" by (auto simp: unique_by_def)
    moreover have "pay_authority r \<noteq> Some a" using Cons.prems(3) False by (auto split: if_splits)
    ultimately show ?thesis using Cons p by (simp add: unique_by_def)
  qed
qed simp

lemma settled_row:
  assumes c: "handle_callback post now a status db = Inr (p', db')" and u: "unique_by pay_id (payments db)"
  shows "get_by_authority a db' = Some p'" and "pay_status p' \<noteq> PayInitiated" and "unique_by pay_id (payments db')"
proof -
  have "get_by_authority a db' = Some p' \<and> pay_status p' \<noteq> PayInitiated \<and> unique_by pay_id (payments db')"
    using c u
  proof (cases rule: handle_callback_cases)
    case replayed
    with u show ?thesis by simp
  next
    case (failed p x ord)
    note mem = get_by_authority_mem [OF failed(1)]
    have i: "pay_id p' = pay_id p" "pay_authority p' = Some a" "pay_status p' = PayFailed"
      by (subst failed(3), use mem in simp)+
    have "payments db' = update_by pay_id (pay_id p) (\<lambda>_. p') (payments db)"
      using mark_frames(2) [OF failed(5)] failed(4) by simp
    with authority_row [OF u _ _ i(2,1)] mem failed(1) i u show ?thesis
      by (simp add: get_by_authority_def unique_update_by)
  next
    case (verified p x ord result)
    note mem = get_by_authority_mem [OF verified(1)]
    have i: "pay_id p' = pay_id p" "pay_authority p' = Some a" "pay_status p' = PayVerified"
      using mem verified(6) by simp_all
    have "payments db' = update_by pay_id (pay_id p) (\<lambda>_. p') (payments db)"
      using mark_frames(1) [OF verified(8)] verified(7) by simp
    with authority_row [OF u _ _ i(2,1)] mem verified(1) i u show ?thesis
      by (simp add: get_by_authority_def unique_update_by)
  qed
  then show "get_by_authority a db' = Some p'" "pay_status p' \<noteq> PayInitiated" "unique_by pay_id (payments db')" by simp_all
qed

lemma settled_replays:
  assumes "get_by_authority a db = Some p" "pay_status p \<noteq> PayInitiated" "unique_by pay_id (payments db)"
  shows "handle_callback post now a status db = Inr (p, db)"
proof -
  have "\<not> fst (try_claim (pay_id p) PayInitiated PayPending db)"
    using claim_unique [OF assms(3)] get_by_authority_mem [OF assms(1)] assms(2) by simp
  with assms(1) show ?thesis
    by (cases "try_claim (pay_id p) PayInitiated PayPending db") (simp add: handle_callback_def)
qed

lemma callback_idempotent:
  assumes "handle_callback post now a status db = Inr (p', db')" "unique_by pay_id (payments db)"
  shows "handle_callback post2 now2 a status2 db' = Inr (p', db')"
  by (rule settled_replays) (rule settled_row [OF assms])+

text \<open>The gateway is asked about exactly the amount of the payment, in rial.\<close>

lemma callback_amount:
  assumes "get_by_authority a db = Some p"
    and "post (pay_amount p * 10) a = post2 (pay_amount p * 10) a"
  shows "handle_callback post now a status db = handle_callback post2 now a status db"
proof -
  have v: "verify_payment post (pay_amount p * TOMAN_TO_RIAL) a = verify_payment post2 (pay_amount p * TOMAN_TO_RIAL) a"
    using assms(2) by (simp add: verify_payment_def TOMAN_TO_RIAL_def)
  show ?thesis unfolding handle_callback_def assms(1) the_or_simps bindE_simps v ..
qed

text \<open>A payment of an order that is not awaiting payment cannot be settled: every callback ends
  with an exception and changes nothing, however the gateway answers.\<close>

lemma not_awaiting_never_settles:
  assumes "get_by_authority a db = Some p" "pay_status p = PayInitiated" "unique_by pay_id (payments db)"
    and "get_order_by_id (pay_order_id p) db = Some ord" "o_status ord \<noteq> OrdAwaitingPayment"
  shows "\<exists>e. handle_callback post now a status db = Inl e"
proof (cases "handle_callback post now a status db")
  case (Inr r)
  obtain p' db' where "r = (p', db')" by (cases r)
  with Inr have c: "handle_callback post now a status db = Inr (p', db')" by simp
  from c assms(3) have False
  proof (cases rule: handle_callback_cases)
    case replayed
    with assms(1,2) show False by simp
  next
    case (failed q x o')
    then have "order_moved (pay_order_id p) OrdPaymentFailed db db'"
      using mark_moved(2) [OF _ _ _ failed(5), of db] assms(1) by simp
    with assms(4,5) failed_only_from_awaiting show False by (auto simp: order_moved_def)
  next
    case (verified q x o' result)
    then have "order_moved (pay_order_id p) OrdPaid db db'"
      using mark_moved(1) [OF _ _ _ verified(8), of db] assms(1) by simp
    with assms(4,5) paid_only_from_awaiting show False by (auto simp: order_moved_def)
  qed
  then show ?thesis ..
qed simp

text \<open>A payment can be opened for an order whose payment failed, but until the order awaits payment
  again its callback settles nothing.\<close>

lemma init_payment_opens:
  assumes o: "get_order_by_id oid db = Some ord" "o_user_id ord = u_id u" "o_status ord \<in> {OrdAwaitingPayment, OrdPaymentFailed}"
    and g: "request_payment cfg post_request (o_total ord * TOMAN_TO_RIAL) oid = Inr result"
    and fresh: "pf_payment f \<notin> pay_id ` set (payments db)" "Some (pr_authority result) \<notin> pay_authority ` set (payments db)"
    and fit: "payments_fit db" "text_length (pr_authority result) \<le> 64"
    and p: "p = \<lparr> pay_id = pf_payment f, pay_order_id = oid, pay_user_id = u_id u,
      pay_gateway = ''zarinpal'', pay_authority = Some (pr_authority result), pay_amount = o_total ord,
      pay_status = PayInitiated, pay_reference_id = None, pay_created_at = pf_now f,
      pay_verified_at = None, pay_raw_gateway_response = None \<rparr>"
  shows "init_payment_action cfg post_request f u oid db =
    Inr ((201, JObj [(''payment_id'', JUuid (pf_payment f)), (''payment_url'', JStr (pr_payment_url result))]),
     db\<lparr>payments := payments db @ [p]\<rparr>)"
    and "get_by_authority (pr_authority result) (db\<lparr>payments := payments db @ [p]\<rparr>) = Some p"
    and "unique_by pay_id (payments db) \<Longrightarrow> unique_by pay_id (payments db @ [p])"
proof -
  have id: "o_id ord = oid" by (rule get_order_id [OF o(1)])
  have up: "update_by pay_id (pf_payment f) g (payments db @ [q]) = payments db @ [if pay_id q = pf_payment f then g q else q]" for g q
    using fresh(1) by (simp add: update_by_append update_by_absent find_by_None)
  have "init_payment_service cfg post_request f u oid db =
      Inr ((p, pr_payment_url result), db\<lparr>payments := payments db @ [p]\<rparr>)"
    using o(2,3) by (auto simp: init_payment_service_def o(1) id g p set_payment_def up Let_def)
  moreover have "payments_fit (db\<lparr>payments := payments db @ [p]\<rparr>)"
    using fit fresh(2) by (auto simp: payments_fit_def p orders_fit_def catalog_constraints_def map_filter_def List.map_filter_simps image_iff split: option.splits)
  ultimately show "init_payment_action cfg post_request f u oid db =
    Inr ((201, JObj [(''payment_id'', JUuid (pf_payment f)), (''payment_url'', JStr (pr_payment_url result))]),
     db\<lparr>payments := payments db @ [p]\<rparr>)"
    by (simp add: init_payment_action_def flush_payments_def) (simp add: p)
  show "get_by_authority (pr_authority result) (db\<lparr>payments := payments db @ [p]\<rparr>) = Some p"
    by (simp add: get_by_authority_def find_by_append find_by_None [THEN iffD2, OF fresh(2)] p)
  show "unique_by pay_id (payments db @ [p])" if "unique_by pay_id (payments db)"
    using that fresh(1) by (simp add: unique_by_append_one find_by_None p)
qed

section \<open>The table of payments\<close>

definition payment_matches :: "'a payments_db_scheme \<Rightarrow> payment \<Rightarrow> bool" where
  "payment_matches db p \<longleftrightarrow> pay_status p \<noteq> PayPending
     \<and> (\<exists>ord. get_order_by_id (pay_order_id p) db = Some ord
           \<and> pay_amount p = o_total ord \<and> pay_user_id p = o_user_id ord)
     \<and> (pay_status p = PayVerified \<longrightarrow> (\<exists>h \<in> set (history_of (pay_order_id p) db). oh_to_status h = OrdPaid))"

definition payments_ok :: "'a payments_db_scheme \<Rightarrow> bool" where
  "payments_ok db \<longleftrightarrow> unique_by pay_id (payments db) \<and> unique_by o_id (orders db)
     \<and> (\<forall>p \<in> set (payments db). payment_matches db p)"

text \<open>The orders only gain: they are never deleted, their totals and owners never change, and their
  histories grow.\<close>

definition orders_grow :: "'a orders_db_scheme \<Rightarrow> 'a orders_db_scheme \<Rightarrow> bool" where
  "orders_grow db db' \<longleftrightarrow> unique_by o_id (orders db') \<and> (\<forall>oid ord. get_order_by_id oid db = Some ord \<longrightarrow>
     (\<exists>ord'. get_order_by_id oid db' = Some ord' \<and> o_total ord' = o_total ord \<and> o_user_id ord' = o_user_id ord))
     \<and> (\<forall>oid. set (history_of oid db) \<subseteq> set (history_of oid db'))"

lemma matches_grow:
  "orders_grow db db' \<Longrightarrow> payment_matches db p \<Longrightarrow> payment_matches db' p"
proof -
  assume g: "orders_grow db db'" and m: "payment_matches db p"
  from m obtain ord where o: "get_order_by_id (pay_order_id p) db = Some ord"
      "pay_amount p = o_total ord" "pay_user_id p = o_user_id ord" by (auto simp: payment_matches_def)
  from g o(1) obtain ord' where "get_order_by_id (pay_order_id p) db' = Some ord'"
      "o_total ord' = o_total ord" "o_user_id ord' = o_user_id ord" unfolding orders_grow_def by blast
  moreover from g have "set (history_of (pay_order_id p) db) \<subseteq> set (history_of (pay_order_id p) db')"
    by (simp add: orders_grow_def)
  ultimately show ?thesis using m o unfolding payment_matches_def by auto
qed

lemma moved_grow:
  assumes m: "order_moved oid s db db'" and u: "unique_by o_id (orders db)" shows "orders_grow db db'"
proof -
  from m obtain now where e: "orders db' = update_by o_id oid (set_status s now) (orders db)"
      "\<exists>h. order_history db' = order_history db @ [h]" unfolding order_moved_def by blast
  have g: "get_order_by_id x db' = (if x = oid then map_option (set_status s now) (get_order_by_id x db)
      else get_order_by_id x db)" for x
    by (simp add: get_order_by_id_def e(1) find_by_update_by)
  have "\<exists>ord'. get_order_by_id x db' = Some ord' \<and> o_total ord' = o_total ord \<and> o_user_id ord' = o_user_id ord"
    if "get_order_by_id x db = Some ord" for x ord
    using that by (cases "x = oid") (simp_all add: g)
  moreover have "set (history_of x db) \<subseteq> set (history_of x db')" for x using e(2) by (auto simp: history_of_def)
  moreover have "unique_by o_id (orders db')" using u by (simp add: e(1) unique_update_by)
  ultimately show ?thesis by (simp add: orders_grow_def)
qed

lemma payments_ok_grow:
  assumes "payments_ok db" "orders_grow db db'" "payments db' = payments db"
  shows "payments_ok db'"
  using assms matches_grow by (auto simp: payments_ok_def orders_grow_def)

lemma payments_ok_callback:
  assumes c: "handle_callback post now a status db = Inr (p', db')" and ok: "payments_ok db"
  shows "payments_ok db'"
proof -
  have u: "unique_by pay_id (payments db)" and uo: "unique_by o_id (orders db)"
    using ok by (simp_all add: payments_ok_def)
  have rewrite: "payments_ok db'" if g: "orders_grow db db'"
    and p: "p \<in> set (payments db)" "payment_matches db' p'" "pay_id p' = pay_id p"
    and e: "payments db' = update_by pay_id (pay_id p) (\<lambda>_. p') (payments db)" for p
    using ok g p matches_grow [OF g]
    by (auto simp: payments_ok_def e set_update_by unique_update_by orders_grow_def)
  from c u show ?thesis
  proof (cases rule: handle_callback_cases)
    case replayed
    with ok show ?thesis by simp
  next
    case (failed p x ord)
    have m: "order_moved (pay_order_id p) OrdPaymentFailed db db'"
      using mark_moved(2) [OF _ _ _ failed(5), of db] failed(4) by simp
    note mem = get_by_authority_mem [OF failed(1), THEN conjunct1]
    have i: "pay_id p' = pay_id p" "pay_status p' = PayFailed" "pay_order_id p' = pay_order_id p"
        "pay_amount p' = pay_amount p" "pay_user_id p' = pay_user_id p"
      by (subst failed(3), simp)+
    have "payment_matches db' p" using matches_grow [OF moved_grow [OF m uo]] ok mem by (simp add: payments_ok_def)
    then have "payment_matches db' p'" by (simp add: payment_matches_def i)
    with rewrite [OF moved_grow [OF m uo] mem _ i(1)] mark_frames(2) [OF failed(5)] failed(4) show ?thesis by simp
  next
    case (verified p x ord result)
    have m: "order_moved (pay_order_id p) OrdPaid db db'"
      using mark_moved(1) [OF _ _ _ verified(8), of db] verified(7) by simp
    note mem = get_by_authority_mem [OF verified(1), THEN conjunct1]
    have i: "pay_id p' = pay_id p" "pay_status p' = PayVerified" "pay_order_id p' = pay_order_id p"
        "pay_amount p' = pay_amount p" "pay_user_id p' = pay_user_id p"
      using verified(6) by simp_all
    have "\<exists>h \<in> set (history_of (pay_order_id p) db'). oh_to_status h = OrdPaid"
      using m by (auto simp: order_moved_def history_of_def)
    moreover have "payment_matches db' p" using matches_grow [OF moved_grow [OF m uo]] ok mem by (simp add: payments_ok_def)
    ultimately have "payment_matches db' p'" by (simp add: payment_matches_def i)
    with rewrite [OF moved_grow [OF m uo] mem _ i(1)] mark_frames(1) [OF verified(8)] verified(7) show ?thesis by simp
  qed
qed

lemma init_service_cases:
  assumes "init_payment_service cfg post f u oid db = Inr ((p, url), db')"
  obtains ord authority where "get_order_by_id oid db = Some ord" "o_user_id ord = u_id u"
    "o_status ord = OrdAwaitingPayment \<or> o_status ord = OrdPaymentFailed"
    "p = \<lparr> pay_id = pf_payment f, pay_order_id = oid, pay_user_id = u_id u,
           pay_gateway = ''zarinpal'', pay_authority = Some authority, pay_amount = o_total ord,
           pay_status = PayInitiated, pay_reference_id = None, pay_created_at = pf_now f,
           pay_verified_at = None, pay_raw_gateway_response = None \<rparr>"
    "find_by pay_id (pf_payment f) (payments db) = None \<Longrightarrow> db' = db\<lparr>payments := payments db @ [p]\<rparr>"
proof -
  from assms obtain ord where o: "get_order_by_id oid db = Some ord"
    by (auto simp: init_payment_service_def bindE_eq_Inr)
  note id = get_order_id [OF o]
  let ?q = "\<lambda>a. \<lparr> pay_id = pf_payment f, pay_order_id = oid, pay_user_id = u_id u,
           pay_gateway = ''zarinpal'', pay_authority = a, pay_amount = o_total ord,
           pay_status = PayInitiated, pay_reference_id = None, pay_created_at = pf_now f,
           pay_verified_at = None, pay_raw_gateway_response = None \<rparr>"
  from assms o obtain authority where r: "o_user_id ord = u_id u"
      "o_status ord = OrdAwaitingPayment \<or> o_status ord = OrdPaymentFailed"
      "p = ?q (Some authority)"
      "db' = set_payment (pf_payment f) (\<lambda>p. p\<lparr>pay_authority := Some authority\<rparr>)
         (db\<lparr>payments := payments db @ [?q None]\<rparr>)"
    by (auto simp: init_payment_service_def Let_def id split: if_splits sum.splits)
  show thesis
    by (rule that [OF o r(1,2,3)]) (simp add: r(3,4) set_payment_def update_by_append update_by_absent)
qed

lemma payments_ok_init:
  assumes "init_payment_service cfg post f u oid db = Inr ((p, url), db')" "payments_ok db"
    and "find_by pay_id (pf_payment f) (payments db) = None"
  shows "payments_ok db'"
  using assms(1)
proof (rule init_service_cases)
  fix ord authority
  assume o: "get_order_by_id oid db = Some ord" "o_user_id ord = u_id u"
    and p: "p = \<lparr> pay_id = pf_payment f, pay_order_id = oid, pay_user_id = u_id u,
           pay_gateway = ''zarinpal'', pay_authority = Some authority, pay_amount = o_total ord,
           pay_status = PayInitiated, pay_reference_id = None, pay_created_at = pf_now f,
           pay_verified_at = None, pay_raw_gateway_response = None \<rparr>"
    and db': "find_by pay_id (pf_payment f) (payments db) = None \<Longrightarrow> db' = db\<lparr>payments := payments db @ [p]\<rparr>"
  have e: "db' = db\<lparr>payments := payments db @ [p]\<rparr>" by (rule db' [OF assms(3)])
  have m: "payment_matches db' q \<longleftrightarrow> payment_matches db q" for q
    by (simp add: payment_matches_def e get_order_by_id_def history_of_def)
  have "payment_matches db p" using o by (simp add: payment_matches_def p)
  with assms(2,3) m show ?thesis
    by (auto simp: payments_ok_def e p unique_by_append_one)
qed

text \<open>The payment system as a state machine: opening, settling, and everything else that only
  makes the orders grow.\<close>

inductive payment_step :: "'a payments_db_scheme \<Rightarrow> 'a payments_db_scheme \<Rightarrow> bool" where
  pay_init: "find_by pay_id (pf_payment f) (payments db) = None \<Longrightarrow>
     payment_step db (snd (init_payment cfg post f u key h oid db))"
| pay_callback: "payment_step db (snd (payment_callback post now a status db))"
| pay_paid: "mark_paid now oid db = Inr (r, db') \<Longrightarrow> payment_step db db'"
| pay_failed: "mark_payment_failed now oid db = Inr (r, db') \<Longrightarrow> payment_step db db'"
| pay_other: "orders_grow db db' \<Longrightarrow> payments db' = payments db \<Longrightarrow> payment_step db db'"

lemma init_keys:
  "init_payment_action cfg post f u oid db = Inr (r, db') \<Longrightarrow>
     idempotency_keys db' = idempotency_keys db \<and> fst r = 201"
  by (auto simp: init_payment_action_def init_payment_service_def bindE_eq_Inr flush_payments_def
      Let_def set_payment_def split: if_splits sum.splits)

interpretation init_guard: guarded_operation "init_payment_action cfg post f u oid" for cfg post f u oid
  by unfold_locales (auto dest: init_keys)

lemma payments_ok_init_route:
  assumes "payments_ok db" "find_by pay_id (pf_payment f) (payments db) = None"
  shows "payments_ok (snd (init_payment cfg post f u key h oid db))"
proof (cases "fst (init_payment cfg post f u key h oid db)")
  case (Inl e)
  then have "snd (init_payment cfg post f u key h oid db) = db"
    unfolding init_payment_def by (metis init_guard.failure_changes_nothing prod.collapse)
  with assms show ?thesis by simp
next
  case (Inr r)
  then obtain db' where g: "init_payment cfg post f u key h oid db = (Inr r, db')" by (metis prod.collapse)
  then have "guarded ''payment.init'' (u_id u) key h (pf_now f) (init_payment_action cfg post f u oid) db = (Inr r, db')"
    by (simp add: init_payment_def)
  then show ?thesis
  proof (cases rule: init_guard.guarded_cases)
    case (replayed k e)
    with g assms show ?thesis by simp
  next
    case (ran k row db2)
    let ?db = "db\<lparr>idempotency_keys := idempotency_keys db @ [row]\<rparr>"
    have cong: "payments_ok y \<longleftrightarrow> payments_ok x" if "payments y = payments x" "orders y = orders x" "order_history y = order_history x" for x y
      using that by (simp add: payments_ok_def payment_matches_def get_order_by_id_def history_of_def)
    from ran(4) obtain p url where s: "init_payment_service cfg post f u oid ?db = Inr ((p, url), db2)"
      by (auto simp: init_payment_action_def bindE_eq_Inr flush_payments_def split: if_splits)
    have "payments_ok ?db" using cong [of ?db db] assms(1) by simp
    from payments_ok_init [OF s this] assms(2) have "payments_ok db2" by simp
    with cong [of "finish (u_id u, ''payment.init'', k) r db2" db2] have "payments_ok db'"
      by (simp add: ran(5) finish_def)
    with g show ?thesis by simp
  qed
qed

lemma payments_step:
  assumes "payment_step db db'" "payments_ok db" shows "payments_ok db'"
  using assms
proof (induction rule: payment_step.induct)
  case (pay_init f db cfg post u key h oid)
  then show ?case by (blast intro: payments_ok_init_route)
next
  case (pay_callback db post now a status)
  show ?case unfolding payment_callback_def
  proof (rule request_invariant [where I = payments_ok, OF pay_callback])
    fix r db' assume "bindE (handle_callback post now a status db) (\<lambda>(p, db1).
       flush_payments (if pay_status p = PayVerified then RedirectPaid (pay_order_id p)
                       else RedirectFailed (pay_order_id p)) db1) = Inr (r, db')"
    then obtain p where "handle_callback post now a status db = Inr (p, db')"
      by (auto simp: bindE_eq_Inr flush_payments_def split: if_splits)
    from payments_ok_callback [OF this pay_callback] show "payments_ok db'" .
  qed
next
  case (pay_paid now oid db r db')
  then show ?case
    using payments_ok_grow [OF _ moved_grow [OF mark_moved(1) [OF refl refl refl pay_paid.hyps]] mark_frames(1)]
    by (auto simp: payments_ok_def)
next
  case (pay_failed now oid db r db')
  then show ?case
    using payments_ok_grow [OF _ moved_grow [OF mark_moved(2) [OF refl refl refl pay_failed.hyps]] mark_frames(2)]
    by (auto simp: payments_ok_def)
next
  case (pay_other db db')
  then show ?case by (blast intro: payments_ok_grow)
qed

lemma payments_steps: "payment_step\<^sup>*\<^sup>* db db' \<Longrightarrow> payments_ok db \<Longrightarrow> payments_ok db'"
  by (induction rule: rtranclp_induct) (auto intro: payments_step)

end
