(* ===== verification/Settlement.thy ===== *)
theory Settlement
  imports Payment_Facts Order_Effects
begin

text \<open>
  The whole way of a sale: an order that awaits payment can be settled, whichever way the gateway
  decides, and from the cart to the paid order the stock loses exactly what was ordered.
\<close>

section \<open>The loops over an order's lines go through\<close>

context stock_service
begin

lemma purchase_all_succeeds:
  assumes "\<forall>l \<in> set ls. stock s (fst l) \<noteq> None"
  shows "\<exists>s'. purchase_all ls s = Inr s'"
  using assms
proof (induction ls arbitrary: s)
  case (Cons l ls)
  then obtain t r where "stock s (fst l) = Some (t, r)" by force
  from purchase_done [OF this, of "snd l"] obtain u where u: "purchase1 (fst l) (snd l) s = Inr u"
      "stock u = (stock s)(fst l \<mapsto> (max 0 (t - snd l), max 0 (r - snd l)))" by blast
  from Cons.prems have "\<forall>k \<in> set ls. stock u (fst k) \<noteq> None" by (simp add: u(2))
  from Cons.IH [OF this] u(1) show ?case by (simp add: purchase_all_def)
qed (simp add: purchase_all_def)

lemma release_all_succeeds:
  assumes "\<forall>l \<in> set ls. stock s (fst l) \<noteq> None"
  shows "\<exists>s'. release_all ls s = Inr s'"
  using assms
proof (induction ls arbitrary: s)
  case (Cons l ls)
  then obtain t r where "stock s (fst l) = Some (t, r)" by force
  from release_done [OF this, of "snd l"] obtain u where u: "release1 (fst l) (snd l) s = Inr u"
      "stock u = (stock s)(fst l \<mapsto> (t, max 0 (r - snd l)))" by blast
  from Cons.prems have "\<forall>k \<in> set ls. stock u (fst k) \<noteq> None" by (simp add: u(2))
  from Cons.IH [OF this] u(1) show ?case by (simp add: release_all_def)
qed (simp add: release_all_def)

end

definition lines_stocked :: "uuid \<Rightarrow> 'a orders_db_scheme \<Rightarrow> bool" where
  "lines_stocked oid db \<longleftrightarrow> (\<forall>l \<in> set (order_lines oid db). stock_of db (fst l) \<noteq> None)"

lemma marks_succeed:
  assumes "at_order oid OrdAwaitingPayment db" "lines_stocked oid db"
  shows "\<exists>r. mark_paid now oid db = Inr r" "\<exists>r. mark_payment_failed now oid db = Inr r"
proof -
  from assms(1) obtain ord where o: "get_order_by_id oid db = Some ord" "o_status ord = OrdAwaitingPayment" by (rule at_orderE)
  from assms(2) have l: "\<forall>l \<in> set (order_lines oid db). stock_of db (fst l) \<noteq> None" by (simp add: lines_stocked_def)
  show "\<exists>r. mark_paid now oid db = Inr r"
    using stk.purchase_all_succeeds [OF l, of "''order''" oid None]
    by (auto simp: mark_paid_def o each_item_purchase transition_def)
  show "\<exists>r. mark_payment_failed now oid db = Inr r"
    using stk.release_all_succeeds [OF l, of "''order''" oid None]
    by (auto simp: mark_payment_failed_def o each_item_release transition_def)
qed

section \<open>A callback settles\<close>

text \<open>The callback for an initiated payment of an order that awaits payment returns, and settles order
  and payment the way the gateway says.\<close>

definition accepted :: "(int \<Rightarrow> string \<Rightarrow> gateway_answer) \<Rightarrow> payment \<Rightarrow> string \<Rightarrow> string \<Rightarrow> bool" where
  "accepted post p a status \<longleftrightarrow> status = ''OK'' \<and> pv_success (verify_payment post (pay_amount p * TOMAN_TO_RIAL) a)"

lemma order_moved_at: "order_moved oid s db db' \<Longrightarrow> at_order oid s db'"
  by (auto simp: order_moved_def at_order_def get_order_by_id_def find_by_update_by set_status_def)

lemma other_payments:
  "at_order oid s (db\<lparr>payments := ps\<rparr>) = at_order oid s db"
  "lines_stocked oid (db\<lparr>payments := ps\<rparr>) = lines_stocked oid db"
  "order_lines oid (db\<lparr>payments := ps\<rparr>) = order_lines oid db"
  "stock_of (db\<lparr>payments := ps\<rparr>) q = stock_of db q" "books_ok (db\<lparr>payments := ps\<rparr>) = books_ok db"
  by (simp_all add: at_order_def get_order_by_id_def lines_stocked_def order_lines_def items_of_order_def
      stock_of_def books_ok_def totals_ok_def cart_ok_def inventory_ok_def reserved_matches_def
      awaiting_demand_def awaiting_def)

lemma callback_settles:
  fixes db :: "'a payments_db_scheme"
  assumes u: "unique_by pay_id (payments db)" and b: "books_ok db"
    and p: "get_by_authority a db = Some p" "pay_status p = PayInitiated"
    and o: "at_order (pay_order_id p) OrdAwaitingPayment db" "lines_stocked (pay_order_id p) db"
  shows "\<exists>p' db'. handle_callback post now a status db = Inr (p', db')
    \<and> pay_status p' = (if accepted post p a status then PayVerified else PayFailed)
    \<and> pay_order_id p' = pay_order_id p \<and> pay_amount p' = pay_amount p
    \<and> at_order (pay_order_id p) (if accepted post p a status then OrdPaid else OrdPaymentFailed) db'
    \<and> (\<forall>q t r. stock_of db q = Some (t, r) \<longrightarrow> stock_of db' q =
         Some (if accepted post p a status then t - demand q (order_lines (pay_order_id p) db) else t,
               r - demand q (order_lines (pay_order_id p) db)))"
proof -
  from p have pid: "pay_status p = PayInitiated" "p \<in> set (payments db)" using get_by_authority_mem [OF p(1)] by blast+
  obtain db1 where cl: "try_claim (pay_id p) PayInitiated PayPending db = (True, db1)"
    using claim_unique [OF u pid(2), of PayInitiated PayPending] p(2)
    by (cases "try_claim (pay_id p) PayInitiated PayPending db") simp
  then have "\<exists>ps. db1 = db\<lparr>payments := ps\<rparr>" by (auto simp: try_claim_def Let_def split: if_splits)
  then have set: "\<exists>ps. set_payment (pay_id p) g db1 = db\<lparr>payments := ps\<rparr>" for g by (auto simp: set_payment_def)
  have paid: "\<exists>r. mark_paid now (pay_order_id p) (set_payment (pay_id p) g db1) = Inr r" for g
    using set [of g] marks_succeed(1) [of "pay_order_id p" "db\<lparr>payments := _\<rparr>"] o by (auto simp: other_payments)
  have failed: "\<exists>r. mark_payment_failed now (pay_order_id p) (set_payment (pay_id p) g db1) = Inr r" for g
    using set [of g] marks_succeed(2) [of "pay_order_id p" "db\<lparr>payments := _\<rparr>"] o by (auto simp: other_payments)
  have "\<exists>r. handle_callback post now a status db = Inr r"
    using paid failed by (simp add: handle_callback_def p(1) cl Let_def bindE_def split: sum.splits prod.splits) (metis sum.distinct(1))
  then obtain p' db' where c: "handle_callback post now a status db = Inr (p', db')" by fastforce
  have st: "pay_status p' = (if accepted post p a status then PayVerified else PayFailed)"
    using c by (auto simp: handle_callback_def p(1) cl Let_def bindE_eq_Inr accepted_def split: if_splits)
  from c u have "pay_order_id p' = pay_order_id p \<and> pay_amount p' = pay_amount p
    \<and> at_order (pay_order_id p) (if pay_status p' = PayVerified then OrdPaid else OrdPaymentFailed) db'
    \<and> (\<forall>q t r. stock_of db q = Some (t, r) \<longrightarrow> stock_of db' q =
         Some (if pay_status p' = PayVerified then t - demand q (order_lines (pay_order_id p) db) else t,
               r - demand q (order_lines (pay_order_id p) db)))"
  proof (cases rule: handle_callback_cases)
    case replayed
    with p show ?thesis by simp
  next
    case (failed q x ord)
    have q: "q = p" using failed(1) p(1) by simp
    have m: "mark_payment_failed now (pay_order_id p) x = Inr (ord, db')" using failed(5) by (simp add: q)
    have "books_ok x" "at_order (pay_order_id p) OrdAwaitingPayment x"
      "stock_of x z = stock_of db z" "order_lines (pay_order_id p) x = order_lines (pay_order_id p) db" for z
      using b o(1) by (simp_all add: failed(4) other_payments)
    from mark_payment_failed_stock [OF this(1,2) m, unfolded this(3,4)] order_moved_at [OF mark_moved(2) [OF refl refl refl m]]
    moreover have "pay_status p' = PayFailed" "pay_order_id p' = pay_order_id p" "pay_amount p' = pay_amount p"
      by (subst failed(3), simp add: q)+
    ultimately show ?thesis by simp
  next
    case (verified q x ord result)
    have q: "q = p" using verified(1) p(1) by simp
    have m: "mark_paid now (pay_order_id p) x = Inr (ord, db')" using verified(8) by (simp add: q)
    have "books_ok x" "at_order (pay_order_id p) OrdAwaitingPayment x"
      "stock_of x z = stock_of db z" "order_lines (pay_order_id p) x = order_lines (pay_order_id p) db" for z
      using b o(1) by (simp_all add: verified(7) other_payments)
    from mark_paid_stock [OF this(1,2) m, unfolded this(3,4)] order_moved_at [OF mark_moved(1) [OF refl refl refl m]]
    moreover have "pay_status p' = PayVerified" "pay_order_id p' = pay_order_id p" "pay_amount p' = pay_amount p"
      by (simp_all add: verified(6) q)
    ultimately show ?thesis by simp
  qed
  with c st show ?thesis by (intro exI [of _ p'] exI [of _ db']) (auto split: if_splits)
qed

text \<open>Instead of paying, the owner can cancel, and the stock is as before.\<close>

lemma owner_cancels:
  assumes b: "books_ok db" and o: "get_order_by_id oid db = Some ord" "o_status ord = OrdAwaitingPayment" "o_user_id ord = u_id u"
    and l: "lines_stocked oid db"
  shows "\<exists>ord' db'. cancel now oid u db = Inr (ord', db') \<and> at_order oid OrdCancelled db'
    \<and> (\<forall>q t r. stock_of db q = Some (t, r) \<longrightarrow> stock_of db' q = Some (t, r - demand q (order_lines oid db)))"
proof -
  from l have "\<forall>l \<in> set (order_lines oid db). stock_of db (fst l) \<noteq> None" by (simp add: lines_stocked_def)
  from stk.release_all_succeeds [OF this, of "''order''" oid "Some (u_id u)"] have "\<exists>r. cancel now oid u db = Inr r"
    using stk.release_all_succeeds [OF \<open>\<forall>l \<in> set (order_lines oid db). stock_of db (fst l) \<noteq> None\<close>, of "''order''" oid None]
    by (auto simp: cancel_def o authorize_access_def each_item_release transition_def)
  then obtain ord' db' where c: "cancel now oid u db = Inr (ord', db')" by fastforce
  have "at_order oid OrdCancelled db'"
    using c
  proof (rule cancel_cases)
    fix o1 d assume "get_order_by_id oid db = Some o1" "stock_only db d"
      "transition o1 OrdCancelled (Some (u_id u)) (Some CancelledNote) now d = Inr (ord', db')"
    from transition_moved(1) [OF this] show ?thesis by (rule order_moved_at)
  qed
  moreover have "at_order oid OrdAwaitingPayment db" by (simp add: at_order_def o)
  from cancel_stock [OF b this c] have "\<forall>q t r. stock_of db q = Some (t, r) \<longrightarrow> stock_of db' q = Some (t, r - demand q (order_lines oid db))"
    by blast
  ultimately show ?thesis using c by blast
qed

section \<open>From the cart to the paid order\<close>

lemma checkout_lines:
  assumes "checkout_service k uid addr db = Inr (ord, db')" "get_order_by_id (k_order k) db = None"
    "totals_ok db" "get_or_create_cart (k_cart k) uid db = (cart, db1)"
  shows "order_lines (k_order k) db' = cart_lines (items_of cart db1)"
  using assms(1,2)
proof (rule checkout_service_cases)
  fix c d1 items d
  assume g: "get_or_create_cart (k_cart k) uid db = (c, d1)" "items = items_of c d1"
    and its: "order_items db' = order_items db @ map (\<lambda>i. item_row (k_order k) (product_of db i) i) items"
  have "\<forall>i \<in> set (order_items db). oi_order_id i \<in> o_id ` set (orders db)" using assms(3) by (simp add: totals_ok_def)
  with assms(2) have none: "items_of_order (k_order k) db = []"
    unfolding items_of_order_def filter_empty_conv fresh_order by metis
  have "items_of_order (k_order k) db' = map (\<lambda>i. item_row (k_order k) (product_of db i) i) items"
    using none by (simp add: items_of_order_def its filter_map comp_def item_row_def)
  moreover have "List.map_filter (\<lambda>i. map_option (\<lambda>p. (p, oi_quantity i)) (oi_product_id i))
      (map (\<lambda>i. item_row (k_order k) (product_of db i) i) xs) = cart_lines xs" for xs
    by (induction xs) (simp_all add: map_filter_simps item_row_def cart_lines_def)
  ultimately show ?thesis using g assms(4) by (simp add: order_lines_def)
qed

lemma checkout_stocked:
  assumes "checkout_service k uid addr db = Inr (ord, db')" "get_order_by_id (k_order k) db = None"
    "books_ok db" "fresh_cart (k_cart k) db" "get_or_create_cart (k_cart k) uid db = (cart, db1)"
  shows "books_ok db'" "at_order (k_order k) OrdAwaitingPayment db'" "lines_stocked (k_order k) db'"
    "get_order_by_id (k_order k) db' = Some ord" "o_id ord = k_order k"
proof -
  have t: "totals_ok db" "inventory_ok db" using assms(3) by (simp_all add: books_ok_def)
  note e = checkout_service_effect [OF assms(1,2) t(2) assms(5) refl]
  show "books_ok db'" by (rule books_step [OF book_checkout [OF assms(2,4,1), where num = round_half_away] assms(3)])
  show id: "o_id ord = k_order k" by (simp add: e(2) new_order_def)
  from assms(2) id show g: "get_order_by_id (k_order k) db' = Some ord"
    by (simp add: get_order_by_id_def e(3) find_by_append)
  then show "at_order (k_order k) OrdAwaitingPayment db'" by (simp add: at_order_def e(2) new_order_def)
  have "stock_of db' p \<noteq> None" if "p \<in> fst ` set (cart_lines (items_of cart db1))" for p
  proof (cases "stock_of db p")
    case None
    from assms(1,2) have False
    proof (rule checkout_service_cases)
      fix c d1 items d
      assume g: "get_or_create_cart (k_cart k) uid db = (c, d1)" "items = items_of c d1"
        and d: "stk.reserve_all ''order'' (k_order k) (Some uid) (cart_lines items) db = Inr d"
      from stk.reserve_all_missing [OF d None] that g assms(5) show False by simp
    qed
    then show ?thesis ..
  next
    case (Some tr)
    then show ?thesis using e(6) [of p "fst tr" "snd tr"] by simp
  qed
  then show "lines_stocked (k_order k) db'"
    by (auto simp: lines_stocked_def checkout_lines [OF assms(1,2) t(1) assms(5)])
qed

lemma sale_goes_through:
  fixes db db1 db2 :: "'a payments_db_scheme"
  assumes b: "books_ok db" "get_order_by_id (k_order k) db = None" "fresh_cart (k_cart k) db"
    and g: "get_or_create_cart (k_cart k) uid db = (cart, db0)"
    and c: "checkout_service k uid addr db = Inr (ord, db1)"
    and i: "init_payment_service cfg post_request fr u (o_id ord) db1 = Inr ((p, url), db2)"
    and new: "unique_by pay_id (payments db1)" "find_by pay_id (pf_payment fr) (payments db1) = None"
      "get_by_authority (the (pay_authority p)) db1 = None"
  shows "\<exists>p' db3. handle_callback post now (the (pay_authority p)) status db2 = Inr (p', db3)
    \<and> pay_amount p' = o_total ord
    \<and> pay_status p' = (if accepted post p (the (pay_authority p)) status then PayVerified else PayFailed)
    \<and> at_order (o_id ord) (if accepted post p (the (pay_authority p)) status then OrdPaid else OrdPaymentFailed) db3
    \<and> (\<forall>q t r. stock_of db q = Some (t, r) \<longrightarrow> stock_of db3 q =
         Some (if accepted post p (the (pay_authority p)) status then t - demand q (cart_lines (items_of cart db0)) else t, r))"
    "\<exists>ord' db3. cancel now (o_id ord) u db2 = Inr (ord', db3) \<and> at_order (o_id ord) OrdCancelled db3
    \<and> (\<forall>q t r. stock_of db q = Some (t, r) \<longrightarrow> stock_of db3 q = Some (t, r))"
proof -
  have t: "totals_ok db" "inventory_ok db" using b(1) by (simp_all add: books_ok_def)
  note e = checkout_service_effect [OF c b(2) t(2) g refl]
  note k = checkout_stocked [OF c b(2,1,3) g]
  note l = checkout_lines [OF c b(2) t(1) g]
  from i obtain authority where own: "o_user_id ord = u_id u" and p: "p = \<lparr> pay_id = pf_payment fr, pay_order_id = o_id ord, pay_user_id = u_id u,
           pay_gateway = ''zarinpal'', pay_authority = Some authority, pay_amount = o_total ord,
           pay_status = PayInitiated, pay_reference_id = None, pay_created_at = pf_now fr,
           pay_verified_at = None, pay_raw_gateway_response = None \<rparr>"
      and d: "db2 = db1\<lparr>payments := payments db1 @ [p]\<rparr>"
    by (rule init_service_cases) (use k(4,5) new(2) in auto)
  have "unique_by pay_id (payments db2)"
    using new(1,2) by (simp add: d unique_by_append_one p)
  moreover have "books_ok db2" "at_order (o_id ord) OrdAwaitingPayment db2" "lines_stocked (o_id ord) db2"
    using k by (simp_all add: d other_payments)
  moreover have a: "the (pay_authority p) = authority" by (simp add: p)
  moreover have "get_by_authority authority db2 = Some p"
    using new(3) by (simp add: a get_by_authority_def d find_by_append p)
  ultimately obtain p' db3 where h: "handle_callback post now authority status db2 = Inr (p', db3)"
      "pay_status p' = (if accepted post p authority status then PayVerified else PayFailed)"
      "pay_amount p' = pay_amount p"
      "at_order (o_id ord) (if accepted post p authority status then OrdPaid else OrdPaymentFailed) db3"
      "\<forall>q t r. stock_of db2 q = Some (t, r) \<longrightarrow> stock_of db3 q =
         Some (if accepted post p authority status then t - demand q (order_lines (o_id ord) db2) else t,
               r - demand q (order_lines (o_id ord) db2))"
    using callback_settles [of db2 authority p post now status] by (auto simp: p)
  have "stock_of db3 q = Some (if accepted post p authority status then t - demand q (cart_lines (items_of cart db0)) else t, r)"
    if "stock_of db q = Some (t, r)" for q t r
    using h(5) e(6) [OF that] l k(5) by (simp add: d other_payments)
  with h show "\<exists>p' db3. handle_callback post now (the (pay_authority p)) status db2 = Inr (p', db3)
    \<and> pay_amount p' = o_total ord
    \<and> pay_status p' = (if accepted post p (the (pay_authority p)) status then PayVerified else PayFailed)
    \<and> at_order (o_id ord) (if accepted post p (the (pay_authority p)) status then OrdPaid else OrdPaymentFailed) db3
    \<and> (\<forall>q t r. stock_of db q = Some (t, r) \<longrightarrow> stock_of db3 q =
         Some (if accepted post p (the (pay_authority p)) status then t - demand q (cart_lines (items_of cart db0)) else t, r))"
    by (intro exI [of _ p'] exI [of _ db3]) (simp add: a p)
  have "get_order_by_id (o_id ord) db2 = Some ord" "o_status ord = OrdAwaitingPayment" "lines_stocked (o_id ord) db2" "books_ok db2"
    using k e(2) by (simp_all add: d other_payments new_order_def get_order_by_id_def)
  from owner_cancels [OF this(4,1,2) own this(3), of now] obtain ord' db4 where c: "cancel now (o_id ord) u db2 = Inr (ord', db4)"
      "at_order (o_id ord) OrdCancelled db4"
      "\<forall>q t r. stock_of db2 q = Some (t, r) \<longrightarrow> stock_of db4 q = Some (t, r - demand q (order_lines (o_id ord) db2))" by blast
  have "stock_of db4 q = Some (t, r)" if "stock_of db q = Some (t, r)" for q t r
    using c(3) e(6) [OF that] l k(5) by (simp add: d other_payments)
  with c show "\<exists>ord' db3. cancel now (o_id ord) u db2 = Inr (ord', db3) \<and> at_order (o_id ord) OrdCancelled db3
    \<and> (\<forall>q t r. stock_of db q = Some (t, r) \<longrightarrow> stock_of db3 q = Some (t, r))" by blast
qed

end
