(* ===== verification/Audit_Trail.thy ===== *)
theory Audit_Trail
  imports Payment_Facts
begin

text \<open>
  The audit trail (\<open>app/modules/audit\<close>): an append-only table that the users'
  administration and the ticket job write to, and the listing for administrators. A row's key
  is never read by the program and left out; its time is the database's clock.
\<close>

record audit_log =
  al_actor_id :: "uuid option"
  al_action :: string
  al_resource_type :: string
  al_resource_id :: "uuid option"
  al_metadata :: "(string \<times> json) list option"
  al_ip_address :: "string option"
  al_created_at :: datetime

record audit_db = payments_db +
  audit_logs :: "audit_log list"

definition write_audit_log ::
    "datetime \<Rightarrow> uuid option \<Rightarrow> string \<Rightarrow> string \<Rightarrow> uuid option \<Rightarrow> (string \<times> json) list option
     \<Rightarrow> 'a audit_db_scheme \<Rightarrow> 'a audit_db_scheme" where
  "write_audit_log db_now actor action resource_type resource_id metadata db =
     db\<lparr>audit_logs := audit_logs db @
        [\<lparr> al_actor_id = actor, al_action = action, al_resource_type = resource_type,
           al_resource_id = resource_id, al_metadata = metadata, al_ip_address = None,
           al_created_at = db_now \<rparr>]\<rparr>"

definition list_audit_logs :: "int \<Rightarrow> int \<Rightarrow> 'a audit_db_scheme \<Rightarrow> audit_log list \<times> int" where
  "list_audit_logs off n db =
     (offset_limit off n (sort_key (\<lambda>r. - al_created_at r) (audit_logs db)), int (length (audit_logs db)))"

text \<open>\<open>AuditLogPublic\<close> leaves the address out.\<close>

record audit_log_public =
  alp_actor_id :: "uuid option"
  alp_action :: string
  alp_resource_type :: string
  alp_resource_id :: "uuid option"
  alp_metadata :: "(string \<times> json) list option"
  alp_created_at :: datetime

definition public_audit_log :: "audit_log \<Rightarrow> audit_log_public" where
  "public_audit_log r =
     \<lparr> alp_actor_id = al_actor_id r, alp_action = al_action r, alp_resource_type = al_resource_type r,
       alp_resource_id = al_resource_id r, alp_metadata = al_metadata r, alp_created_at = al_created_at r \<rparr>"

definition list_admin_audit_logs ::
    "user \<Rightarrow> page_params \<Rightarrow> 'a audit_db_scheme \<Rightarrow> exn + audit_log_public page" where
  "list_admin_audit_logs u ps db =
     bindE (require_permission ''audit.read'' u) (\<lambda>_.
     bindE (validated (page_params_valid ps)) (\<lambda>_.
       let (items, n) = list_audit_logs (page_offset ps) (pg_page_size ps) db
       in Inr (page_create (map public_audit_log items) n ps)))"

end
