(* ===== verification/Tickets.thy ===== *)
theory Tickets
  imports Audit_Trail
begin

text \<open>
  Support tickets (\<open>app/modules/tickets\<close>) and the job that closes the ones whose customer
  stopped answering (\<open>app/tasks/ticket_tasks.py\<close>). \<open>TicketRepository\<close>, \<open>TicketService\<close>, the
  routes and the job. The fresh keys and the two clocks (the program's and the database's) of a
  request are arguments.
\<close>

section \<open>Data\<close>

datatype ticket_status = TkOpen | TkWaitingForSupport | TkWaitingForCustomer | TkClosed

datatype ticket_priority = TkLow | TkNormal | TkHigh | TkUrgent

datatype author_role = ByCustomer | BySupport | BySystem

datatype message_body = UserText string | AutoCloseNote

record ticket =
  tk_id :: uuid
  tk_user_id :: uuid
  tk_subject :: string
  tk_status :: ticket_status
  tk_priority :: ticket_priority
  tk_closed_at :: "datetime option"
  tk_last_response_at :: datetime
  tk_created_at :: datetime
  tk_updated_at :: datetime

record ticket_message =
  tm_id :: uuid
  tm_ticket_id :: uuid
  tm_author_id :: "uuid option"
  tm_author_role :: author_role
  tm_body :: message_body
  tm_created_at :: datetime

record tickets_db = audit_db +
  tickets :: "ticket list"
  ticket_messages :: "ticket_message list"

record ticket_fresh =
  tf_ticket :: uuid
  tf_message :: uuid
  tf_now :: datetime
  tf_db_now :: datetime

record ticket_create_request =
  tc_subject :: string
  tc_message :: string
  tc_priority :: "ticket_priority option"

definition ticket_create_valid :: "ticket_create_request \<Rightarrow> bool" where
  "ticket_create_valid data \<longleftrightarrow> length_between 3 255 (tc_subject data) \<and> length_between 1 5000 (tc_message data)"

definition reply_valid :: "string \<Rightarrow> bool" where
  "reply_valid message \<longleftrightarrow> length_between 1 5000 message"

section \<open>Repository\<close>

definition get_ticket_by_id :: "uuid \<Rightarrow> 'a tickets_db_scheme \<Rightarrow> ticket option" where
  "get_ticket_by_id tid db = find_by tk_id tid (tickets db)"

definition messages_of :: "uuid \<Rightarrow> 'a tickets_db_scheme \<Rightarrow> ticket_message list" where
  "messages_of tid db = filter (\<lambda>m. tm_ticket_id m = tid) (ticket_messages db)"

definition add_ticket_message :: "ticket_message \<Rightarrow> 'a tickets_db_scheme \<Rightarrow> 'a tickets_db_scheme" where
  "add_ticket_message m db = db\<lparr>ticket_messages := ticket_messages db @ [m]\<rparr>"

definition latest_first :: "ticket list \<Rightarrow> ticket list" where
  "latest_first = sort_key (\<lambda>t. - tk_last_response_at t)"

definition list_tickets_for_user ::
    "uuid \<Rightarrow> int \<Rightarrow> int \<Rightarrow> 'a tickets_db_scheme \<Rightarrow> ticket list \<times> int" where
  "list_tickets_for_user uid off n db =
     (let rows = filter (\<lambda>t. tk_user_id t = uid) (tickets db)
      in (offset_limit off n (latest_first rows), int (length rows)))"

text \<open>The status parameter is any text; one that is no label of the enumeration is refused by the
  database.\<close>

definition parse_ticket_status :: "string \<Rightarrow> ticket_status option" where
  "parse_ticket_status s =
     (if s = ''open'' then Some TkOpen
      else if s = ''waiting_for_support'' then Some TkWaitingForSupport
      else if s = ''waiting_for_customer'' then Some TkWaitingForCustomer
      else if s = ''closed'' then Some TkClosed else None)"

definition list_all_tickets ::
    "string option \<Rightarrow> int \<Rightarrow> int \<Rightarrow> 'a tickets_db_scheme \<Rightarrow> exn + (ticket list \<times> int)" where
  "list_all_tickets status off n db =
     bindE (case truthy status of
              None \<Rightarrow> Inr (tickets db)
            | Some s \<Rightarrow> bindE (the_or DBAPIError (parse_ticket_status s)) (\<lambda>st.
                Inr (filter (\<lambda>t. tk_status t = st) (tickets db)))) (\<lambda>rows.
       Inr (offset_limit off n (latest_first rows), int (length rows)))"

section \<open>Service\<close>

definition SUPPORT_ROLES :: "user_role list" where
  "SUPPORT_ROLES = [Support, Admin, SuperAdmin]"

text \<open>Assigning to a ticket: the row is written, with a new \<open>updated_at\<close>, when a value changed.\<close>

definition stamped :: "datetime \<Rightarrow> (ticket \<Rightarrow> ticket) \<Rightarrow> ticket \<Rightarrow> ticket" where
  "stamped db_now f t = (if f t = t then t else (f t)\<lparr>tk_updated_at := db_now\<rparr>)"

definition save_ticket ::
    "datetime \<Rightarrow> (ticket \<Rightarrow> ticket) \<Rightarrow> uuid \<Rightarrow> 'a tickets_db_scheme \<Rightarrow> 'a tickets_db_scheme" where
  "save_ticket db_now f tid db = 
     db\<lparr>tickets := update_by tk_id tid (stamped db_now f) (tickets db)\<rparr>"

definition ticket_create ::
    "ticket_fresh \<Rightarrow> uuid \<Rightarrow> string \<Rightarrow> string \<Rightarrow> ticket_priority \<Rightarrow> 'a tickets_db_scheme \<Rightarrow> ticket \<times> 'a tickets_db_scheme" where
  "ticket_create k uid subject message priority db =
     (let t = \<lparr> tk_id = tf_ticket k, tk_user_id = uid, tk_subject = subject,
                tk_status = TkWaitingForSupport, tk_priority = priority, tk_closed_at = None,
                tk_last_response_at = tf_now k, tk_created_at = tf_db_now k, tk_updated_at = tf_db_now k \<rparr>
      in (t, add_ticket_message
               \<lparr> tm_id = tf_message k, tm_ticket_id = tk_id t, tm_author_id = Some uid,
                 tm_author_role = ByCustomer, tm_body = UserText message, tm_created_at = tf_now k \<rparr>
               (db\<lparr>tickets := tickets db @ [t]\<rparr>)))"

definition ticket_get_for_user :: "uuid \<Rightarrow> user \<Rightarrow> 'a tickets_db_scheme \<Rightarrow> exn + ticket" where
  "ticket_get_for_user tid u db =
     bindE (the_or NotFoundError (get_ticket_by_id tid db)) (\<lambda>t.
       if tk_user_id t \<noteq> u_id u \<and> u_role u \<notin> set SUPPORT_ROLES then Inl PermissionDeniedError
       else Inr t)"

definition add_customer_reply ::
    "ticket_fresh \<Rightarrow> uuid \<Rightarrow> user \<Rightarrow> string \<Rightarrow> 'a tickets_db_scheme \<Rightarrow> exn + 'a tickets_db_scheme" where
  "add_customer_reply k tid u body db =
     bindE (ticket_get_for_user tid u db) (\<lambda>t.
       if tk_user_id t \<noteq> u_id u then Inl PermissionDeniedError
       else if tk_status t = TkClosed then Inl ConflictError
       else Inr (save_ticket (tf_db_now k)
              (\<lambda>t. t\<lparr>tk_status := TkWaitingForSupport, tk_last_response_at := tf_now k\<rparr>) tid
              (add_ticket_message
                \<lparr> tm_id = tf_message k, tm_ticket_id = tk_id t, tm_author_id = Some (u_id u),
                  tm_author_role = ByCustomer, tm_body = UserText body, tm_created_at = tf_now k \<rparr> db)))"

definition add_support_reply ::
    "ticket_fresh \<Rightarrow> uuid \<Rightarrow> user \<Rightarrow> string \<Rightarrow> 'a tickets_db_scheme \<Rightarrow> exn + 'a tickets_db_scheme" where
  "add_support_reply k tid actor body db =
     bindE (the_or NotFoundError (get_ticket_by_id tid db)) (\<lambda>t.
       if tk_status t = TkClosed then Inl ConflictError
       else Inr (save_ticket (tf_db_now k)
              (\<lambda>t. t\<lparr>tk_status := TkWaitingForCustomer, tk_last_response_at := tf_now k\<rparr>) tid
              (add_ticket_message
                \<lparr> tm_id = tf_message k, tm_ticket_id = tk_id t, tm_author_id = Some (u_id actor),
                  tm_author_role = BySupport, tm_body = UserText body, tm_created_at = tf_now k \<rparr> db)))"

definition change_status ::
    "ticket_fresh \<Rightarrow> uuid \<Rightarrow> ticket_status \<Rightarrow> 'a tickets_db_scheme \<Rightarrow> exn + 'a tickets_db_scheme" where
  "change_status k tid new_status db =
     bindE (the_or NotFoundError (get_ticket_by_id tid db)) (\<lambda>t.
       Inr (save_ticket (tf_db_now k)
         (\<lambda>t. t\<lparr> tk_status := new_status,
                 tk_closed_at := (if new_status = TkClosed then Some (tf_now k) else tk_closed_at t) \<rparr>) tid db))"

section \<open>Routes\<close>

record ticket_public =
  tp_ticket :: ticket
  tp_messages :: "ticket_message list"

record ticket_list_item =
  tli_id :: uuid
  tli_subject :: string
  tli_status :: ticket_status
  tli_priority :: ticket_priority
  tli_last_response_at :: datetime

definition serialize_ticket :: "ticket \<Rightarrow> 'a tickets_db_scheme \<Rightarrow> ticket_public" where
  "serialize_ticket t db = \<lparr>tp_ticket = t, tp_messages = messages_of (tk_id t) db\<rparr>"

definition ticket_list_item_of :: "ticket \<Rightarrow> ticket_list_item" where
  "ticket_list_item_of t =
     \<lparr> tli_id = tk_id t, tli_subject = tk_subject t, tli_status = tk_status t,
       tli_priority = tk_priority t, tli_last_response_at = tk_last_response_at t \<rparr>"

definition fetch_full_ticket :: "uuid \<Rightarrow> 'a tickets_db_scheme \<Rightarrow> exn + ticket_public" where
  "fetch_full_ticket tid db =
     bindE (the_or NotFoundError (get_ticket_by_id tid db)) (\<lambda>t. Inr (serialize_ticket t db))"

text \<open>A route that commits and then builds its response from the database again.\<close>

definition committed :: "'s \<Rightarrow> 'e + 's \<Rightarrow> ('s \<Rightarrow> 'e + 'r) \<Rightarrow> ('e + 'r) \<times> 's" where
  "committed s m view = (case m of Inl e \<Rightarrow> (Inl e, s) | Inr s' \<Rightarrow> (view s', s'))"

definition create_ticket ::
    "user \<Rightarrow> ticket_fresh \<Rightarrow> ticket_create_request \<Rightarrow> 'a tickets_db_scheme
     \<Rightarrow> (exn + ticket_public) \<times> 'a tickets_db_scheme" where
  "create_ticket u k data db = committed db
     (bindE (validated (ticket_create_valid data)) (\<lambda>_.
        Inr (snd (ticket_create k (u_id u) (tc_subject data) (tc_message data)
                   (case tc_priority data of None \<Rightarrow> TkNormal | Some p \<Rightarrow> p) db))))
     (fetch_full_ticket (tf_ticket k))"

definition list_my_tickets ::
    "user \<Rightarrow> page_params \<Rightarrow> 'a tickets_db_scheme \<Rightarrow> exn + ticket_list_item page" where
  "list_my_tickets u ps db =
     bindE (validated (page_params_valid ps)) (\<lambda>_.
       let (items, n) = list_tickets_for_user (u_id u) (page_offset ps) (pg_page_size ps) db
       in Inr (page_create (map ticket_list_item_of items) n ps))"

definition get_ticket :: "user \<Rightarrow> uuid \<Rightarrow> 'a tickets_db_scheme \<Rightarrow> exn + ticket_public" where
  "get_ticket u tid db = bindE (ticket_get_for_user tid u db) (\<lambda>t. Inr (serialize_ticket t db))"

definition reply_to_ticket ::
    "user \<Rightarrow> ticket_fresh \<Rightarrow> uuid \<Rightarrow> string \<Rightarrow> 'a tickets_db_scheme
     \<Rightarrow> (exn + ticket_public) \<times> 'a tickets_db_scheme" where
  "reply_to_ticket u k tid message db = committed db
     (bindE (validated (reply_valid message)) (\<lambda>_. add_customer_reply k tid u message db))
     (fetch_full_ticket tid)"

definition admin_list_tickets ::
    "user \<Rightarrow> page_params \<Rightarrow> string option \<Rightarrow> 'a tickets_db_scheme \<Rightarrow> exn + ticket_list_item page" where
  "admin_list_tickets u ps status db =
     bindE (require_permission ''ticket.read'' u) (\<lambda>_.
     bindE (validated (page_params_valid ps)) (\<lambda>_.
     bindE (list_all_tickets status (page_offset ps) (pg_page_size ps) db) (\<lambda>(items, n).
       Inr (page_create (map ticket_list_item_of items) n ps))))"

definition admin_get_ticket :: "user \<Rightarrow> uuid \<Rightarrow> 'a tickets_db_scheme \<Rightarrow> exn + ticket_public" where
  "admin_get_ticket u tid db =
     bindE (require_permission ''ticket.read'' u) (\<lambda>_. fetch_full_ticket tid db)"

definition admin_reply_to_ticket ::
    "user \<Rightarrow> ticket_fresh \<Rightarrow> uuid \<Rightarrow> string \<Rightarrow> 'a tickets_db_scheme
     \<Rightarrow> (exn + ticket_public) \<times> 'a tickets_db_scheme" where
  "admin_reply_to_ticket u k tid message db = committed db
     (bindE (require_permission ''ticket.respond'' u) (\<lambda>_.
      bindE (validated (reply_valid message)) (\<lambda>_. add_support_reply k tid u message db)))
     (fetch_full_ticket tid)"

definition admin_change_ticket_status ::
    "user \<Rightarrow> ticket_fresh \<Rightarrow> uuid \<Rightarrow> ticket_status \<Rightarrow> 'a tickets_db_scheme
     \<Rightarrow> (exn + ticket_public) \<times> 'a tickets_db_scheme" where
  "admin_change_ticket_status u k tid status db = committed db
     (bindE (require_permission ''ticket.manage'' u) (\<lambda>_. change_status k tid status db))
     (fetch_full_ticket tid)"

section \<open>The job\<close>

definition STALE_AFTER :: int where
  "STALE_AFTER = hours 24"

definition BATCH_SIZE :: nat where
  "BATCH_SIZE = 100"

definition is_stale :: "datetime \<Rightarrow> ticket \<Rightarrow> bool" where
  "is_stale cutoff t \<longleftrightarrow> tk_status t = TkWaitingForCustomer \<and> tk_last_response_at t < cutoff"

text \<open>The query has a limit and no order; the model takes the rows in insertion order.\<close>

definition stale_candidates :: "datetime \<Rightarrow> 'a tickets_db_scheme \<Rightarrow> uuid list" where
  "stale_candidates cutoff db = take BATCH_SIZE (map tk_id (filter (is_stale cutoff) (tickets db)))"

text \<open>One pass of the loop: the conditional update, and with it the note, the audit row and the
  commit. The result says whether the update matched its one row.\<close>

definition auto_close_one ::
    "ticket_fresh \<Rightarrow> uuid \<Rightarrow> 'a tickets_db_scheme \<Rightarrow> bool \<times> 'a tickets_db_scheme" where
  "auto_close_one k tid db =
     (let guard = (\<lambda>t. tk_id t = tid \<and> tk_status t = TkWaitingForCustomer);
          db1 = db\<lparr>tickets := map (\<lambda>t. if guard t
                 then t\<lparr>tk_status := TkClosed, tk_closed_at := Some (tf_now k), tk_updated_at := tf_db_now k\<rparr>
                 else t) (tickets db)\<rparr>
      in if length (filter guard (tickets db)) \<noteq> 1 then (False, db1)
         else (True, write_audit_log (tf_db_now k) None ''ticket.auto_closed'' ''ticket'' (Some tid)
                 (Some [(''reason'', JStr ''waiting_for_customer_timeout'')])
                 (add_ticket_message
                    \<lparr> tm_id = tf_message k, tm_ticket_id = tid, tm_author_id = None,
                      tm_author_role = BySystem, tm_body = AutoCloseNote, tm_created_at = tf_now k \<rparr> db1)))"

fun auto_close_loop ::
    "(uuid \<Rightarrow> ticket_fresh) \<Rightarrow> uuid list \<Rightarrow> nat \<times> 'a tickets_db_scheme \<Rightarrow> nat \<times> 'a tickets_db_scheme" where
  "auto_close_loop fr [] (n, db) = (n, db)"
| "auto_close_loop fr (tid # tids) (n, db) =
     (let (closed, db') = auto_close_one (fr tid) tid db
      in auto_close_loop fr tids (if closed then n + 1 else n, db'))"

definition auto_close_stale_tickets ::
    "datetime \<Rightarrow> (uuid \<Rightarrow> ticket_fresh) \<Rightarrow> 'a tickets_db_scheme \<Rightarrow> nat \<times> 'a tickets_db_scheme" where
  "auto_close_stale_tickets now fr db =
     auto_close_loop fr (stale_candidates (now - STALE_AFTER) db) (0, db)"

end
