(* ===== verification/Digests.thy ===== *)
theory Digests
  imports Unicode "HOL-Library.Word"
begin

text \<open>
  What the program takes of \<open>hashlib\<close>, \<open>hmac\<close>, \<open>base64\<close> and \<open>secrets\<close>: SHA-256 (FIPS 180-4) on 32-bit
  words, HMAC, the hexadecimal digest and the URL-safe base64 of random bytes. Bytes are characters of
  HOL, so the bytes \<open>encode()\<close> gives of a text are the text itself.
\<close>

section \<open>SHA-256\<close>

unbundle bit_operations_syntax

type_synonym w32 = "32 word"

definition SHA_K :: "w32 list" where
  "SHA_K =
     [0x428A2F98, 0x71374491, 0xB5C0FBCF, 0xE9B5DBA5, 0x3956C25B, 0x59F111F1, 0x923F82A4, 0xAB1C5ED5,
      0xD807AA98, 0x12835B01, 0x243185BE, 0x550C7DC3, 0x72BE5D74, 0x80DEB1FE, 0x9BDC06A7, 0xC19BF174,
      0xE49B69C1, 0xEFBE4786, 0x0FC19DC6, 0x240CA1CC, 0x2DE92C6F, 0x4A7484AA, 0x5CB0A9DC, 0x76F988DA,
      0x983E5152, 0xA831C66D, 0xB00327C8, 0xBF597FC7, 0xC6E00BF3, 0xD5A79147, 0x06CA6351, 0x14292967,
      0x27B70A85, 0x2E1B2138, 0x4D2C6DFC, 0x53380D13, 0x650A7354, 0x766A0ABB, 0x81C2C92E, 0x92722C85,
      0xA2BFE8A1, 0xA81A664B, 0xC24B8B70, 0xC76C51A3, 0xD192E819, 0xD6990624, 0xF40E3585, 0x106AA070,
      0x19A4C116, 0x1E376C08, 0x2748774C, 0x34B0BCB5, 0x391C0CB3, 0x4ED8AA4A, 0x5B9CCA4F, 0x682E6FF3,
      0x748F82EE, 0x78A5636F, 0x84C87814, 0x8CC70208, 0x90BEFFFA, 0xA4506CEB, 0xBEF9A3F7, 0xC67178F2]"

definition ch :: "w32 \<Rightarrow> w32 \<Rightarrow> w32 \<Rightarrow> w32" where
  "ch x y z = (x AND y) XOR (NOT x AND z)"

definition maj :: "w32 \<Rightarrow> w32 \<Rightarrow> w32 \<Rightarrow> w32" where
  "maj x y z = (x AND y) XOR (x AND z) XOR (y AND z)"

definition rotr :: "nat \<Rightarrow> w32 \<Rightarrow> w32" where
  "rotr n x = drop_bit n x OR push_bit (32 - n) x"

definition big_sigma0 :: "w32 \<Rightarrow> w32" where
  "big_sigma0 x = rotr 2 x XOR rotr 13 x XOR rotr 22 x"

definition big_sigma1 :: "w32 \<Rightarrow> w32" where
  "big_sigma1 x = rotr 6 x XOR rotr 11 x XOR rotr 25 x"

definition small_sigma0 :: "w32 \<Rightarrow> w32" where
  "small_sigma0 x = rotr 7 x XOR rotr 18 x XOR drop_bit 3 x"

definition small_sigma1 :: "w32 \<Rightarrow> w32" where
  "small_sigma1 x = rotr 17 x XOR rotr 19 x XOR drop_bit 10 x"

text \<open>Words and bytes, the most significant first.\<close>

definition byte_of :: "nat \<Rightarrow> 'a :: len word \<Rightarrow> char" where
  "byte_of i w =
     (let b = (\<lambda>k. bit w (8 * i + k)) in Char (b 0) (b 1) (b 2) (b 3) (b 4) (b 5) (b 6) (b 7))"

definition word_bytes :: "w32 \<Rightarrow> string" where
  "word_bytes w = map (\<lambda>i. byte_of i w) [3, 2, 1, 0]"

fun bytes_words :: "string \<Rightarrow> w32 list" where
  "bytes_words (a # b # c # d # s) =
     (of_char a * 0x1000000 + of_char b * 0x10000 + of_char c * 0x100 + of_char d) # bytes_words s"
| "bytes_words _ = []"

text \<open>The message, a bit 1, zeros up to 56 bytes modulo 64, and the number of bits on 8 bytes.\<close>

definition sha_pad :: "string \<Rightarrow> string" where
  "sha_pad s =
     s @ CHR 0x80 # replicate ((119 - length s mod 64) mod 64) (CHR 0x00)
       @ map (\<lambda>i. byte_of i (of_nat (8 * length s) :: 64 word)) [7, 6, 5, 4, 3, 2, 1, 0]"

text \<open>The schedule, its latest word first.\<close>

definition sha_extend :: "w32 list \<Rightarrow> w32 list" where
  "sha_extend ws = (small_sigma1 (ws ! 1) + ws ! 6 + small_sigma0 (ws ! 14) + ws ! 15) # ws"

definition sha_schedule :: "w32 list \<Rightarrow> w32 list" where
  "sha_schedule block = rev ((sha_extend ^^ 48) (rev block))"

type_synonym sha_state = "w32 \<times> w32 \<times> w32 \<times> w32 \<times> w32 \<times> w32 \<times> w32 \<times> w32"

fun sha_round :: "w32 \<times> w32 \<Rightarrow> sha_state \<Rightarrow> sha_state" where
  "sha_round (k, w) (a, b, c, d, e, f, g, h) =
     (let t1 = h + big_sigma1 e + ch e f g + k + w; t2 = big_sigma0 a + maj a b c
      in (t1 + t2, a, b, c, d + t1, e, f, g))"

fun sha_add :: "sha_state \<Rightarrow> sha_state \<Rightarrow> sha_state" where
  "sha_add (a, b, c, d, e, f, g, h) (a', b', c', d', e', f', g', h') =
     (a + a', b + b', c + c', d + d', e + e', f + f', g + g', h + h')"

definition sha_compress :: "sha_state \<Rightarrow> w32 list \<Rightarrow> sha_state" where
  "sha_compress s block = sha_add s (fold sha_round (zip SHA_K (sha_schedule block)) s)"

fun sha_blocks :: "w32 list \<Rightarrow> sha_state \<Rightarrow> sha_state" where
  "sha_blocks ws s = (if length ws < 16 then s else sha_blocks (drop 16 ws) (sha_compress s (take 16 ws)))"

declare sha_blocks.simps [simp del]

definition SHA_INIT :: sha_state where
  "SHA_INIT = (0x6A09E667, 0xBB67AE85, 0x3C6EF372, 0xA54FF53A, 0x510E527F, 0x9B05688C, 0x1F83D9AB, 0x5BE0CD19)"

fun sha_output :: "sha_state \<Rightarrow> string" where
  "sha_output (a, b, c, d, e, f, g, h) = concat (map word_bytes [a, b, c, d, e, f, g, h])"

definition sha256 :: "string \<Rightarrow> string" where
  "sha256 s = sha_output (sha_blocks (bytes_words (sha_pad s)) SHA_INIT)"

lemma length_word_bytes [simp]: "length (word_bytes w) = 4"
  by (simp add: word_bytes_def)

lemma length_sha_output: "length (sha_output s) = 32"
  by (induction s rule: sha_output.induct) simp

lemma length_sha256 [simp]: "length (sha256 s) = 32"
  by (simp add: sha256_def length_sha_output)

text \<open>The padded message is a whole number of blocks, so every byte of it is read.\<close>

lemma sha_pad_blocks: "length (sha_pad s) mod 64 = 0"
proof -
  have "length (sha_pad s) = length s + (9 + (119 - length s mod 64) mod 64)" by (simp add: sha_pad_def)
  moreover have "(n + (9 + (119 - n mod 64) mod 64)) mod 64 = 0" for n :: nat
  proof -
    have "(n + (9 + (119 - n mod 64) mod 64)) mod 64 = (n mod 64 + (9 + (119 - n mod 64))) mod 64"
      using mod_add_right_eq [of "n + 9" "119 - n mod 64" 64] mod_add_left_eq [of n 64 "9 + (119 - n mod 64)"]
      by (simp only: add.assoc)
    moreover have "n mod 64 + (9 + (119 - n mod 64)) = 128" using mod_less_divisor [of 64 n] by linarith
    ultimately show ?thesis by simp
  qed
  ultimately show ?thesis by metis
qed


section \<open>HMAC\<close>

definition xor_byte :: "nat \<Rightarrow> char \<Rightarrow> char" where
  "xor_byte n c = char_of (of_char c XOR n)"

definition hmac_key :: "string \<Rightarrow> string" where
  "hmac_key key =
     (let k = if 64 < length key then sha256 key else key in k @ replicate (64 - length k) (char_of (0 :: nat)))"

definition hmac_sha256 :: "string \<Rightarrow> string \<Rightarrow> string" where
  "hmac_sha256 key msg =
     sha256 (map (xor_byte 0x5C) (hmac_key key) @ sha256 (map (xor_byte 0x36) (hmac_key key) @ msg))"

section \<open>Hexadecimal digits\<close>

definition HEX_DIGITS :: string where
  "HEX_DIGITS = ''0123456789abcdef''"

definition hex_digit :: "nat \<Rightarrow> char" where
  "hex_digit n = HEX_DIGITS ! (n mod 16)"

definition hexdigest :: "string \<Rightarrow> string" where
  "hexdigest s = concat (map (\<lambda>c. [hex_digit (of_char c div 16), hex_digit (of_char c)]) s)"


lemma hex_digits: "distinct HEX_DIGITS" "length HEX_DIGITS = 16" "ascii HEX_DIGITS"
  by (simp_all add: HEX_DIGITS_def ascii_def)

lemma hex_digit_eq: "hex_digit m = hex_digit n \<longleftrightarrow> m mod 16 = n mod 16"
  using nth_eq_iff_index_eq [of HEX_DIGITS "m mod 16" "n mod 16"] by (simp add: hex_digit_def hex_digits)

lemma hexdigest_simps [simp]:
  "hexdigest [] = []"
  "hexdigest (c # s) = hex_digit (of_char c div 16) # hex_digit (of_char c) # hexdigest s"
  by (simp_all add: hexdigest_def)

lemma length_hexdigest [simp]: "length (hexdigest s) = 2 * length s"
  by (induction s) simp_all

lemma hexdigest_inj: "hexdigest s = hexdigest t \<longleftrightarrow> s = t"
proof (induction s arbitrary: t)
  case Nil
  then show ?case by (cases t) simp_all
next
  case (Cons c s)
  have same: "m = n" if "m div 16 mod 16 = n div 16 mod 16" "m mod 16 = n mod 16" "m < 256" "n < 256" for m n :: nat
  proof -
    have "m div 16 < 16" "n div 16 < 16" using that(3,4) by (simp_all add: less_mult_imp_div_less)
    then have "m div 16 = n div 16" using that(1) by (simp only: mod_less)
    then show ?thesis using that(2) div_mult_mod_eq [of m 16] div_mult_mod_eq [of n 16] by metis
  qed
  have "c = d" if "hex_digit (of_char c div 16) = hex_digit (of_char d div 16)" "hex_digit (of_char c) = hex_digit (of_char d)" for d
  proof -
    have "(of_char c :: nat) = of_char d" by (rule same) (use that in \<open>simp_all only: hex_digit_eq\<close>, simp_all)
    then show ?thesis by simp
  qed
  with Cons show ?case by (cases t) auto
qed

lemma hexdigest_set: "set (hexdigest s) \<subseteq> set HEX_DIGITS"
  by (induction s) (simp_all add: hex_digit_def hex_digits)

lemma hexdigest_ascii: "ascii (hexdigest s)"
  using hexdigest_set [of s] hex_digits(3) by (auto simp: ascii_def)

lemma hexdigest_text_length: "text_length (hexdigest s) \<le> 2 * length s"
  using text_length_le [of "hexdigest s"] by simp

section \<open>URL-safe base64\<close>

definition B64_ALPHABET :: string where
  "B64_ALPHABET = ''ABCDEFGHIJKLMNOPQRSTUVWXYZabcdefghijklmnopqrstuvwxyz0123456789-_''"

text \<open>Three bytes become four digits of six bits; one or two bytes at the end become two or three.\<close>

fun b64_digits :: "nat list \<Rightarrow> nat list" where
  "b64_digits (a # b # c # s) =
     a div 4 # (a mod 4 * 16 + b div 16) # (b mod 16 * 4 + c div 64) # c mod 64 # b64_digits s"
| "b64_digits [a, b] = [a div 4, a mod 4 * 16 + b div 16, b mod 16 * 4]"
| "b64_digits [a] = [a div 4, a mod 4 * 16]"
| "b64_digits [] = []"

fun b64_bytes :: "nat list \<Rightarrow> nat list" where
  "b64_bytes (p # q # r # t # s) =
     (p * 4 + q div 16) # (q mod 16 * 16 + r div 4) # (r mod 4 * 64 + t) # b64_bytes s"
| "b64_bytes [p, q, r] = [p * 4 + q div 16, q mod 16 * 16 + r div 4]"
| "b64_bytes [p, q] = [p * 4 + q div 16]"
| "b64_bytes _ = []"

definition urlsafe_b64encode :: "string \<Rightarrow> string" where
  "urlsafe_b64encode s =
     map ((!) B64_ALPHABET) (b64_digits (map of_char s)) @ replicate ((3 - length s mod 3) mod 3) (CHR ''='')"

text \<open>\<open>rstrip("=")\<close>.\<close>

definition rstrip_char :: "char \<Rightarrow> string \<Rightarrow> string" where
  "rstrip_char x s = rev (dropWhile (\<lambda>c. c = x) (rev s))"

text \<open>\<open>secrets.token_urlsafe(n)\<close> of its \<open>n\<close> random bytes.\<close>

definition token_urlsafe :: "string \<Rightarrow> string" where
  "token_urlsafe random = rstrip_char (CHR ''='') (urlsafe_b64encode random)"

lemma b64_round_trip: "\<forall>b \<in> set bs. b < 256 \<Longrightarrow> b64_bytes (b64_digits bs) = bs"
  by (induction bs rule: b64_digits.induct) auto

lemma b64_digits_small: "\<forall>b \<in> set bs. b < 256 \<Longrightarrow> \<forall>d \<in> set (b64_digits bs). d < 64"
  by (induction bs rule: b64_digits.induct) auto

lemma length_b64_digits: "length (b64_digits bs) = (4 * length bs + 2) div 3"
  by (induction bs rule: b64_digits.induct) auto

lemma b64_alphabet: "length B64_ALPHABET = 64" "distinct B64_ALPHABET" "CHR ''='' \<notin> set B64_ALPHABET" "ascii B64_ALPHABET"
  by (simp_all add: B64_ALPHABET_def ascii_def)

lemma rstrip_char_pad:
  assumes "x \<notin> set ds" shows "rstrip_char x (ds @ replicate n x) = ds"
proof -
  have "dropWhile (\<lambda>c. c = x) (replicate n x @ rev ds) = rev ds"
  proof (induction n)
    case 0
    have "rev ds = [] \<or> hd (rev ds) \<noteq> x" using assms hd_in_set [of "rev ds"] by auto
    then show ?case by (simp add: dropWhile_eq_self_iff)
  qed simp
  then show ?thesis by (simp add: rstrip_char_def)
qed

lemma b64_text_set: "set (map ((!) B64_ALPHABET) (b64_digits (map of_char s))) \<subseteq> set B64_ALPHABET"
proof -
  have "\<forall>d \<in> set (b64_digits (map of_char s)). d < 64" by (rule b64_digits_small) auto
  then show ?thesis using nth_mem [of _ B64_ALPHABET] by (auto simp: b64_alphabet(1))
qed

lemma token_urlsafe_digits: "token_urlsafe s = map ((!) B64_ALPHABET) (b64_digits (map of_char s))"
  unfolding token_urlsafe_def urlsafe_b64encode_def
  by (rule rstrip_char_pad) (use b64_text_set b64_alphabet(3) in blast)

lemma token_urlsafe_inj: "token_urlsafe s = token_urlsafe t \<longleftrightarrow> s = t"
proof
  assume eq: "token_urlsafe s = token_urlsafe t"
  have small: "\<forall>b \<in> set (map of_char u). b < (256 :: nat)" for u :: string by auto
  have "inj_on ((!) B64_ALPHABET) (set (b64_digits (map of_char s)) \<union> set (b64_digits (map of_char t)))"
    using b64_digits_small [OF small] b64_alphabet(1,2)
    by (auto intro!: inj_onI simp: nth_eq_iff_index_eq)
  with eq have "b64_digits (map of_char s) = b64_digits (map of_char t)"
    by (simp add: token_urlsafe_digits inj_on_map_eq_map)
  then have "map of_char s = (map of_char t :: nat list)" using b64_round_trip [OF small] by metis
  then show "s = t" by (simp add: inj_map_eq_map inj_of_char) 
qed simp

lemma token_urlsafe_set: "set (token_urlsafe s) \<subseteq> set B64_ALPHABET"
  unfolding token_urlsafe_digits by (rule b64_text_set)

lemma length_token_urlsafe: "length (token_urlsafe s) = (4 * length s + 2) div 3"
  by (simp add: token_urlsafe_digits length_b64_digits)

end
