(* ===== verification/Web_Security.thy ===== *)
theory Web_Security
  imports Products Permissions Digests
begin

text \<open>
  The layer every request passes: settings (\<open>app/core/config.py\<close>), the request id and the CSRF
  check (\<open>app/core/middleware.py\<close>, \<open>app/security/csrf.py\<close>), access tokens
  (\<open>app/security/jwt.py\<close>) and cookies (\<open>app/common/cookies.py\<close>). The JWT
  library (\<open>enc\<close>, \<open>dec\<close>) is a parameter; random values are arguments.
\<close>

section \<open>Settings\<close>

datatype environment = Development | Production | TestEnv

record settings =
  st_environment :: environment
  st_access_token_expire_minutes :: int
  st_refresh_token_expire_days :: int
  st_csrf_secret_key :: string
  st_cors_allow_origins_raw :: string
  st_cookie_secure_raw :: string

fun split_on :: "char \<Rightarrow> string \<Rightarrow> string list" where
  "split_on d [] = [[]]"
| "split_on d (c # s) =
     (if c = d then [] # split_on d s
      else (case split_on d s of [] \<Rightarrow> [[c]] | w # ws \<Rightarrow> (c # w) # ws))"

definition cors_allow_origins :: "settings \<Rightarrow> string list" where
  "cors_allow_origins cfg =
     map strip (filter (\<lambda>origin. strip origin \<noteq> []) (split_on (CHR '','') (st_cors_allow_origins_raw cfg)))"

definition lower_char :: "char \<Rightarrow> char" where
  "lower_char c =
     (let n = (of_char c :: nat) in if 65 \<le> n \<and> n \<le> 90 then char_of (n + 32) else c)"

text \<open>Of the comparison with the three words only the ASCII letters matter.\<close>

definition cookie_secure :: "settings \<Rightarrow> bool" where
  "cookie_secure cfg =
     (if strip (st_cookie_secure_raw cfg) \<noteq> []
      then map lower_char (strip (st_cookie_secure_raw cfg)) \<in> {''1'', ''true'', ''yes''}
      else st_environment cfg = Production)"

section \<open>CSRF tokens\<close>

text \<open>\<open>hmac.compare_digest\<close> on strings refuses any character outside ASCII.\<close>

definition is_ascii :: "string \<Rightarrow> bool" where
  "is_ascii s \<longleftrightarrow> (\<forall>c \<in> set s. (of_char c :: nat) < 128)"

definition compare_digest :: "string \<Rightarrow> string \<Rightarrow> exn + bool" where
  "compare_digest a b = (if is_ascii a \<and> is_ascii b then Inr (a = b) else Inl TypeError)"

definition csrf_signature :: "settings \<Rightarrow> string \<Rightarrow> string" where
  "csrf_signature cfg nonce = hexdigest (hmac_sha256 (st_csrf_secret_key cfg) nonce)"

definition generate_csrf_token :: "settings \<Rightarrow> string \<Rightarrow> string" where
  "generate_csrf_token cfg nonce = nonce @ ''.'' @ csrf_signature cfg nonce"

text \<open>\<open>token.split(".", 1)\<close>, with \<open>None\<close> when there are not two parts to unpack.\<close>

fun split_dot :: "string \<Rightarrow> (string \<times> string) option" where
  "split_dot [] = None"
| "split_dot (c # s) =
     (if c = CHR ''.'' then Some ([], s) else map_option (\<lambda>(a, b). (c # a, b)) (split_dot s))"

definition is_valid_csrf_token :: "settings \<Rightarrow> string \<Rightarrow> exn + bool" where
  "is_valid_csrf_token cfg token =
     (case split_dot token of
        None \<Rightarrow> Inr False
      | Some (nonce, signature) \<Rightarrow> compare_digest signature (csrf_signature cfg nonce))"

definition csrf_tokens_match ::
    "settings \<Rightarrow> string option \<Rightarrow> string option \<Rightarrow> exn + bool" where
  "csrf_tokens_match cfg cookie_token header_token =
     (case (truthy cookie_token, truthy header_token) of
        (Some c, Some h) \<Rightarrow>
          bindE (compare_digest c h) (\<lambda>same. if \<not> same then Inr False else is_valid_csrf_token cfg c)
      | _ \<Rightarrow> Inr False)"

section \<open>Middleware\<close>

definition MUTATING_METHODS :: "string list" where
  "MUTATING_METHODS = [''POST'', ''PUT'', ''PATCH'', ''DELETE'']"

datatype csrf_outcome = CallNext | CsrfRefused

text \<open>The check before the handler runs.\<close>

definition csrf_protection_middleware ::
    "settings \<Rightarrow> string \<Rightarrow> string option \<Rightarrow> string option
     \<Rightarrow> exn + csrf_outcome" where
  "csrf_protection_middleware cfg http_method cookie_token header_token =
     (if http_method \<in> set MUTATING_METHODS then
        (case truthy cookie_token of
           None \<Rightarrow> Inr CallNext
         | Some c \<Rightarrow> bindE (csrf_tokens_match cfg cookie_token header_token) (\<lambda>ok.
             Inr (if \<not> ok then CsrfRefused else CallNext)))
      else Inr CallNext)"

text \<open>The request id: the header's, else a fresh one.\<close>

definition request_context_id :: "string option \<Rightarrow> string \<Rightarrow> string" where
  "request_context_id header new_id = (case header of None \<Rightarrow> new_id | Some h \<Rightarrow> h)"

section \<open>Access tokens\<close>

text \<open>The claims the program writes and reads; \<open>iat\<close> and \<open>exp\<close> are whole seconds. A token whose
  subject is missing or no UUID has \<open>None\<close> there.\<close>

record jwt_claims =
  jc_sub :: "uuid option"
  jc_role :: user_role
  jc_jti :: uuid
  jc_iat :: int
  jc_exp :: int
  jc_type :: string

definition create_access_token ::
    "(jwt_claims \<Rightarrow> string) \<Rightarrow> settings \<Rightarrow> datetime \<Rightarrow> uuid \<Rightarrow> uuid \<Rightarrow> user_role \<Rightarrow> string" where
  "create_access_token enc cfg now jti user_id role =
     enc \<lparr> jc_sub = Some user_id, jc_role = role, jc_jti = jti, jc_iat = now div seconds 1,
           jc_exp = (now + seconds (60 * st_access_token_expire_minutes cfg)) div seconds 1,
           jc_type = ''access'' \<rparr>"

text \<open>\<open>None\<close> is \<open>TokenError\<close>: the library refused the token at this time, or it is of another
  type.\<close>

definition decode_access_token ::
    "(datetime \<Rightarrow> string \<Rightarrow> jwt_claims option) \<Rightarrow> datetime \<Rightarrow> string \<Rightarrow> jwt_claims option" where
  "decode_access_token dec now token =
     (case dec now token of
        None \<Rightarrow> None
      | Some payload \<Rightarrow> if jc_type payload \<noteq> ''access'' then None else Some payload)"

fun remove_prefix :: "string \<Rightarrow> string \<Rightarrow> string option" where
  "remove_prefix [] s = Some s"
| "remove_prefix (p # ps) [] = None"
| "remove_prefix (p # ps) (c # s) = (if p = c then remove_prefix ps s else None)"

definition bearer_token_from_header :: "string option \<Rightarrow> string option" where
  "bearer_token_from_header header =
     (case truthy header of None \<Rightarrow> None | Some h \<Rightarrow> remove_prefix ''Bearer '' h)"

section \<open>Cookies\<close>

record cookie =
  ck_name :: string
  ck_value :: string
  ck_max_age :: int
  ck_httponly :: bool
  ck_secure :: bool
  ck_samesite :: string
  ck_path :: string

definition set_auth_cookies :: "settings \<Rightarrow> string \<Rightarrow> string \<Rightarrow> string \<Rightarrow> cookie list" where
  "set_auth_cookies cfg access_token refresh_token csrf =
     [\<lparr> ck_name = ''access_token'', ck_value = access_token,
        ck_max_age = st_access_token_expire_minutes cfg * 60, ck_httponly = True,
        ck_secure = cookie_secure cfg, ck_samesite = ''lax'', ck_path = ''/'' \<rparr>,
      \<lparr> ck_name = ''refresh_token'', ck_value = refresh_token,
        ck_max_age = st_refresh_token_expire_days cfg * 24 * 60 * 60, ck_httponly = True,
        ck_secure = cookie_secure cfg, ck_samesite = ''lax'', ck_path = ''/api/v1/auth'' \<rparr>,
      \<lparr> ck_name = ''csrf_token'', ck_value = csrf,
        ck_max_age = st_refresh_token_expire_days cfg * 24 * 60 * 60, ck_httponly = False,
        ck_secure = cookie_secure cfg, ck_samesite = ''lax'', ck_path = ''/'' \<rparr>]"

text \<open>Name and path of the cookies a response deletes.\<close>

definition clear_auth_cookies :: "(string \<times> string) list" where
  "clear_auth_cookies =
     [(''access_token'', ''/''), (''refresh_token'', ''/api/v1/auth''), (''csrf_token'', ''/'')]"

section \<open>Facts\<close>

lemma split_dot_Some: "split_dot s = Some (a, b) \<longleftrightarrow> s = a @ ''.'' @ b \<and> CHR ''.'' \<notin> set a"
proof (induction s arbitrary: a)
  case (Cons c s)
  show ?case
  proof (cases "c = CHR ''.''")
    case True
    then show ?thesis by (cases a) auto
  next
    case False
    have "map_option (\<lambda>(a, b). (c # a, b)) y = Some (a, b) \<longleftrightarrow> (\<exists>a'. a = c # a' \<and> y = Some (a', b))" for y
      by (cases y) auto
    then have "split_dot (c # s) = Some (a, b) \<longleftrightarrow> (\<exists>a'. a = c # a' \<and> split_dot s = Some (a', b))"
      using False by simp
    with Cons.IH False show ?thesis by (cases a) auto
  qed
qed simp

lemma is_ascii_iff: "is_ascii s \<longleftrightarrow> ascii s"
proof -
  have "(of_char c :: nat) < 128 \<longleftrightarrow> \<not> digit7 c" for c
    by (cases c) (auto simp: of_char_bits of_bool_def)
  then show ?thesis by (simp add: is_ascii_def ascii_def)
qed

lemma csrf_signature_ascii: "is_ascii (csrf_signature cfg nonce)"
  by (simp add: is_ascii_iff csrf_signature_def hexdigest_ascii)

text \<open>A token is valid exactly when it is the one generated for its nonce.\<close>

lemma csrf_valid_iff:
  "is_valid_csrf_token cfg token = Inr True \<longleftrightarrow>
     (\<exists>nonce. CHR ''.'' \<notin> set nonce \<and> token = generate_csrf_token cfg nonce)"
proof (cases "split_dot token")
  case None
  have "split_dot (generate_csrf_token cfg nonce) \<noteq> None" if "CHR ''.'' \<notin> set nonce" for nonce
    using that split_dot_Some [of "generate_csrf_token cfg nonce" nonce "csrf_signature cfg nonce"]
    by (simp add: generate_csrf_token_def)
  with None have "\<not> (CHR ''.'' \<notin> set nonce \<and> token = generate_csrf_token cfg nonce)" for nonce by metis
  moreover have "is_valid_csrf_token cfg token = Inr False" using None by (simp add: is_valid_csrf_token_def)
  ultimately show ?thesis by (metis sum.inject(2))
next
  case (Some ab)
  obtain a b where ab: "ab = (a, b)" by (cases ab)
  with Some have t: "token = a @ ''.'' @ b" "CHR ''.'' \<notin> set a" by (simp_all add: split_dot_Some)
  let ?m = "csrf_signature cfg"
  have v: "is_valid_csrf_token cfg token = Inr True \<longleftrightarrow> b = ?m a"
    using Some ab by (auto simp: is_valid_csrf_token_def compare_digest_def csrf_signature_ascii)
  have "nonce = a \<and> b = ?m a" if "CHR ''.'' \<notin> set nonce" "token = generate_csrf_token cfg nonce" for nonce
  proof -
    have "split_dot token = Some (nonce, ?m nonce)"
      using that by (simp add: split_dot_Some generate_csrf_token_def)
    with Some ab show ?thesis by auto
  qed
  moreover have "token = generate_csrf_token cfg a" if "b = ?m a" using t(1) that by (simp add: generate_csrf_token_def)
  ultimately show ?thesis unfolding v using t(2) by blast
qed

text \<open>The tokens the server issues are valid.\<close>

lemma token_urlsafe_plain: "is_ascii (token_urlsafe r)" "CHR ''.'' \<notin> set (token_urlsafe r)"
proof -
  have "CHR ''.'' \<notin> set B64_ALPHABET" by (simp add: B64_ALPHABET_def)
  with token_urlsafe_set [of r] b64_alphabet(4)
  show "is_ascii (token_urlsafe r)" "CHR ''.'' \<notin> set (token_urlsafe r)" by (auto simp: is_ascii_iff ascii_def)
qed

lemma issued_csrf_token:
  "is_ascii (generate_csrf_token cfg (token_urlsafe r))"
  "is_valid_csrf_token cfg (generate_csrf_token cfg (token_urlsafe r)) = Inr True"
  using token_urlsafe_plain [of r] csrf_signature_ascii [of cfg "token_urlsafe r"]
  by (auto simp: generate_csrf_token_def is_ascii_def csrf_valid_iff)

text \<open>The middleware lets a mutating request with a session through only if the header repeats a
  valid cookie token; a character outside ASCII in either makes it raise.\<close>

lemma csrf_lets_through:
  assumes "http_method \<in> set MUTATING_METHODS" "truthy cookie = Some c"
  shows "csrf_protection_middleware cfg http_method cookie header = Inr CallNext \<longleftrightarrow>
           truthy header = Some c \<and> is_ascii c \<and> is_valid_csrf_token cfg c = Inr True"
  using assms
  by (auto simp: csrf_protection_middleware_def csrf_tokens_match_def compare_digest_def bindE_eq_Inr
      split: option.splits if_splits)

lemma csrf_raises:
  assumes "http_method \<in> set MUTATING_METHODS" "truthy cookie = Some c" "truthy header = Some h"
    and "\<not> (is_ascii c \<and> is_ascii h)"
  shows "csrf_protection_middleware cfg http_method cookie header = Inl TypeError"
  using assms by (auto simp: csrf_protection_middleware_def csrf_tokens_match_def compare_digest_def)

end
