(* ===== verification/Accounts.thy ===== *)
theory Accounts
  imports Tickets Web_Security
begin

text \<open>
  Accounts and sessions: \<open>app/modules/auth/repository.py\<close> and \<open>service.py\<close>. Password hashing
  (argon2), token hashing (SHA-256), the normalisation of e-mail addresses (\<open>EmailStr\<close>) and
  \<open>str.lower\<close> are parameters, bundled in \<open>auth_env\<close>; fresh keys, random tokens, salts and the
  clock come with each request in \<open>auth_fresh\<close>. The mails the program would send are the rows
  of \<open>outbox\<close>; \<open>oauth_sessions\<close> are the entries of Redis under \<open>oauth:google:\<close>.
\<close>

section \<open>State\<close>

datatype mail = PasswordResetMail string string | VerificationMail string string

record oauth_session =
  os_nonce :: string
  os_verifier :: string
  os_link_user :: "uuid option"   \<comment> \<open>the user of an action \<open>link\<close>; \<open>None\<close> for \<open>login\<close>\<close>

record accounts_db = tickets_db +
  users :: "user list"
  oauth_accounts :: "oauth_account list"
  refresh_tokens :: "refresh_token list"
  password_resets :: "single_use_token list"
  email_verifications :: "single_use_token list"
  outbox :: "mail list"
  oauth_sessions :: "string \<Rightarrow> oauth_session option"

record auth_env =
  e_settings :: settings
  e_lower :: "string \<Rightarrow> string"
  e_email :: "string \<Rightarrow> string option"
  e_hash_password :: "string \<Rightarrow> string \<Rightarrow> string"    \<comment> \<open>salt, password\<close>
  e_verify :: "string \<Rightarrow> string \<Rightarrow> bool"             \<comment> \<open>password, hash\<close>
  e_hash_token :: "string \<Rightarrow> string"
  e_encode :: "jwt_claims \<Rightarrow> string"
  e_decode :: "datetime \<Rightarrow> string \<Rightarrow> jwt_claims option"

record auth_fresh =
  a_now :: datetime
  a_db_now :: datetime
  a_user :: uuid
  a_token_id :: uuid
  a_family :: uuid
  a_jti :: uuid
  a_raw :: string          \<comment> \<open>the refresh token\<close>
  a_mail_raw :: string     \<comment> \<open>the token sent by mail\<close>
  a_salt :: string
  a_csrf_nonce :: string
  a_user_agent :: "string option"
  a_ip_address :: "string option"

definition PASSWORD_RESET_TTL :: int where
  "PASSWORD_RESET_TTL = hours 1"

definition EMAIL_VERIFICATION_TTL :: int where
  "EMAIL_VERIFICATION_TTL = hours 48"

section \<open>Repositories\<close>

definition get_user_by_id :: "uuid \<Rightarrow> 'a accounts_db_scheme \<Rightarrow> user option" where
  "get_user_by_id uid db = find_by u_id uid (users db)"

definition get_user_by_email :: "auth_env \<Rightarrow> string \<Rightarrow> 'a accounts_db_scheme \<Rightarrow> user option" where
  "get_user_by_email env email db = find_by u_email (e_lower env email) (users db)"

definition get_user_by_username :: "string \<Rightarrow> 'a accounts_db_scheme \<Rightarrow> user option" where
  "get_user_by_username username db = find_by u_username username (users db)"

definition oa_key :: "oauth_account \<Rightarrow> oauth_provider \<times> string" where
  "oa_key a = (oa_provider a, oa_provider_user_id a)"

definition get_user_by_oauth :: "oauth_provider \<Rightarrow> string \<Rightarrow> 'a accounts_db_scheme \<Rightarrow> user option" where
  "get_user_by_oauth provider provider_user_id db =
     (case find_by oa_key (provider, provider_user_id) (oauth_accounts db) of
        None \<Rightarrow> None
      | Some acct \<Rightarrow> get_user_by_id (oa_user_id acct) db)"

definition get_refresh_by_hash :: "string \<Rightarrow> 'a accounts_db_scheme \<Rightarrow> refresh_token option" where
  "get_refresh_by_hash h db = find_by rt_token_hash h (refresh_tokens db)"

definition revoke_where ::
    "(refresh_token \<Rightarrow> bool) \<Rightarrow> datetime \<Rightarrow> 'a accounts_db_scheme \<Rightarrow> 'a accounts_db_scheme" where
  "revoke_where P revoked_at db =
     db\<lparr>refresh_tokens := map (\<lambda>t. if P t \<and> rt_revoked_at t = None then t\<lparr>rt_revoked_at := Some revoked_at\<rparr> else t)
          (refresh_tokens db)\<rparr>"

definition revoke_family :: "uuid \<Rightarrow> datetime \<Rightarrow> 'a accounts_db_scheme \<Rightarrow> 'a accounts_db_scheme" where
  "revoke_family family revoked_at = revoke_where (\<lambda>t. rt_family_id t = family) revoked_at"

definition revoke_all_for_user :: "uuid \<Rightarrow> datetime \<Rightarrow> 'a accounts_db_scheme \<Rightarrow> 'a accounts_db_scheme" where
  "revoke_all_for_user uid revoked_at = revoke_where (\<lambda>t. rt_user_id t = uid) revoked_at"

definition put_user :: "(user \<Rightarrow> user) \<Rightarrow> uuid \<Rightarrow> 'a accounts_db_scheme \<Rightarrow> 'a accounts_db_scheme" where
  "put_user f uid db = db\<lparr>users := update_by u_id uid f (users db)\<rparr>"

section \<open>Schemas\<close>

record register_request =
  rr_email :: string
  rr_username :: string
  rr_password :: string
  rr_first_name :: string
  rr_last_name :: string

definition username_char :: "char \<Rightarrow> bool" where
  "username_char c \<longleftrightarrow> (let n = (of_char c :: nat) in
     48 \<le> n \<and> n \<le> 57 \<or> 65 \<le> n \<and> n \<le> 90 \<or> 97 \<le> n \<and> n \<le> 122 \<or> n = 95)"

definition username_valid :: "string \<Rightarrow> bool" where
  "username_valid s \<longleftrightarrow> length_between 3 50 s \<and> (\<forall>c \<in> set s. username_char c)"

text \<open>\<open>isdigit\<close> and \<open>isalpha\<close>; on a text of ASCII characters they are these tests.\<close>

definition all_digits :: "string \<Rightarrow> bool" where
  "all_digits s \<longleftrightarrow> s \<noteq> [] \<and> (\<forall>c \<in> set s. let n = (of_char c :: nat) in 48 \<le> n \<and> n \<le> 57)"

definition all_letters :: "string \<Rightarrow> bool" where
  "all_letters s \<longleftrightarrow> s \<noteq> [] \<and> (\<forall>c \<in> set s. let n = (of_char c :: nat) in 65 \<le> n \<and> n \<le> 90 \<or> 97 \<le> n \<and> n \<le> 122)"

definition password_strength :: "string \<Rightarrow> bool" where
  "password_strength s \<longleftrightarrow> \<not> (all_digits s \<or> all_letters s)"

definition register_valid :: "register_request \<Rightarrow> bool" where
  "register_valid d \<longleftrightarrow> username_valid (rr_username d)
     \<and> length_between 8 128 (rr_password d) \<and> password_strength (rr_password d)
     \<and> text_length (rr_first_name d) \<le> 100 \<and> text_length (rr_last_name d) \<le> 100"

definition new_password_valid :: "string \<Rightarrow> bool" where
  "new_password_valid s \<longleftrightarrow> length_between 8 128 s"

section \<open>What the database accepts\<close>

definition user_fits :: "user \<Rightarrow> bool" where
  "user_fits u \<longleftrightarrow> text_length (u_email u) \<le> 255 \<and> text_length (u_username u) \<le> 50
     \<and> (case u_hashed_password u of None \<Rightarrow> True | Some h \<Rightarrow> text_length h \<le> 255)
     \<and> text_length (u_first_name u) \<le> 100 \<and> text_length (u_last_name u) \<le> 100
     \<and> (case u_avatar u of None \<Rightarrow> True | Some a \<Rightarrow> text_length a \<le> 500)"

definition accounts_fit :: "'a accounts_db_scheme \<Rightarrow> bool" where
  "accounts_fit db \<longleftrightarrow> (\<forall>u \<in> set (users db). user_fits u)
     \<and> unique_by u_id (users db) \<and> unique_by u_email (users db) \<and> unique_by u_username (users db)
     \<and> unique_by oa_key (oauth_accounts db)
     \<and> (\<forall>a \<in> set (oauth_accounts db). text_length (oa_provider_user_id a) \<le> 255 \<and> text_length (oa_email a) \<le> 255)
     \<and> unique_by rt_id (refresh_tokens db) \<and> unique_by rt_token_hash (refresh_tokens db)
     \<and> (\<forall>t \<in> set (refresh_tokens db). text_length (rt_token_hash t) \<le> 255
          \<and> (case rt_ip_address t of None \<Rightarrow> True | Some a \<Rightarrow> text_length a \<le> 64))
     \<and> unique_by su_token_hash (password_resets db) \<and> unique_by su_token_hash (email_verifications db)"

definition flush_accounts :: "'r \<Rightarrow> 'a accounts_db_scheme \<Rightarrow> exn + ('r \<times> 'a accounts_db_scheme)" where
  "flush_accounts r db = (if accounts_fit db then Inr (r, db) else Inl DBAPIError)"

section \<open>Service\<close>

definition issue_email_verification ::
    "auth_env \<Rightarrow> auth_fresh \<Rightarrow> user \<Rightarrow> 'a accounts_db_scheme \<Rightarrow> 'a accounts_db_scheme" where
  "issue_email_verification env k u db =
     db\<lparr> email_verifications := email_verifications db @
           [\<lparr> su_user_id = u_id u, su_token_hash = e_hash_token env (a_mail_raw k),
              su_expires_at = a_now k + EMAIL_VERIFICATION_TTL, su_used_at = None, su_created_at = a_now k \<rparr>],
         outbox := outbox db @ [VerificationMail (u_email u) (a_mail_raw k)] \<rparr>"

definition register_user ::
    "auth_env \<Rightarrow> auth_fresh \<Rightarrow> string \<Rightarrow> register_request \<Rightarrow> 'a accounts_db_scheme
     \<Rightarrow> exn + (user \<times> 'a accounts_db_scheme)" where
  "register_user env k email data db =
     (if get_user_by_email env email db \<noteq> None then Inl ConflictError
      else if get_user_by_username (rr_username data) db \<noteq> None then Inl ConflictError
      else
        let u = \<lparr> u_id = a_user k, u_email = e_lower env email, u_username = rr_username data,
                  u_hashed_password = Some (e_hash_password env (a_salt k) (rr_password data)),
                  u_first_name = rr_first_name data, u_last_name = rr_last_name data, u_avatar = None,
                  u_role = Customer, u_is_active = True, u_is_verified = False, u_last_login = None,
                  u_created_at = a_db_now k \<rparr>
        in bindE (flush_accounts u (db\<lparr>users := users db @ [u]\<rparr>)) (\<lambda>(u, db1).
             Inr (u, issue_email_verification env k u db1)))"

definition authenticate ::
    "auth_env \<Rightarrow> datetime \<Rightarrow> string \<Rightarrow> string \<Rightarrow> 'a accounts_db_scheme \<Rightarrow> exn + (user \<times> 'a accounts_db_scheme)" where
  "authenticate env now email password db =
     (case get_user_by_email env email db of
        None \<Rightarrow> Inl UnauthorizedError
      | Some u \<Rightarrow>
          (case u_hashed_password u of
             None \<Rightarrow> Inl UnauthorizedError
           | Some h \<Rightarrow>
               if \<not> e_verify env password h then Inl UnauthorizedError
               else if \<not> u_is_active u then Inl UnauthorizedError
               else Inr (u\<lparr>u_last_login := Some now\<rparr>,
                         put_user (\<lambda>u. u\<lparr>u_last_login := Some now\<rparr>) (u_id u) db)))"

text \<open>\<open>_issue_refresh_token\<close>: the access token, the raw token and the row.\<close>

definition issue_refresh_token ::
    "auth_env \<Rightarrow> auth_fresh \<Rightarrow> user \<Rightarrow> uuid \<Rightarrow> 'a accounts_db_scheme
     \<Rightarrow> exn + ((string \<times> string \<times> refresh_token) \<times> 'a accounts_db_scheme)" where
  "issue_refresh_token env k u family db =
     (let row = \<lparr> rt_id = a_token_id k, rt_user_id = u_id u, rt_token_hash = e_hash_token env (a_raw k),
                  rt_family_id = family, rt_replaced_by_id = None, rt_revoked_at = None,
                  rt_expires_at = a_now k + days (st_refresh_token_expire_days (e_settings env)),
                  rt_created_at = a_now k, rt_user_agent = map_option (text_take 500) (truthy (a_user_agent k)),
                  rt_ip_address = a_ip_address k \<rparr>;
          access = create_access_token (e_encode env) (e_settings env) (a_now k) (a_jti k) (u_id u) (u_role u)
      in flush_accounts (access, a_raw k, row) (db\<lparr>refresh_tokens := refresh_tokens db @ [row]\<rparr>))"

definition issue_token_pair ::
    "auth_env \<Rightarrow> auth_fresh \<Rightarrow> user \<Rightarrow> 'a accounts_db_scheme
     \<Rightarrow> exn + ((string \<times> string) \<times> 'a accounts_db_scheme)" where
  "issue_token_pair env k u db =
     bindE (issue_refresh_token env k u (a_family k) db) (\<lambda>((access, raw, row), db1).
       Inr ((access, raw), db1))"

text \<open>\<open>rotate_refresh_token\<close>. The revocation of a reused token's family is committed before the
  exception, so the exception comes with the state.\<close>

definition rotate_refresh_token ::
    "auth_env \<Rightarrow> auth_fresh \<Rightarrow> string \<Rightarrow> 'a accounts_db_scheme
     \<Rightarrow> (exn + (string \<times> string \<times> user)) \<times> 'a accounts_db_scheme" where
  "rotate_refresh_token env k raw db =
     (case get_refresh_by_hash (e_hash_token env raw) db of
        None \<Rightarrow> (Inl UnauthorizedError, db)
      | Some stored \<Rightarrow>
          if rt_revoked_at stored \<noteq> None
          then (Inl UnauthorizedError, revoke_family (rt_family_id stored) (a_now k) db)
          else if rt_expires_at stored < a_now k then (Inl UnauthorizedError, db)
          else (case get_user_by_id (rt_user_id stored) db of
              None \<Rightarrow> (Inl UnauthorizedError, db)
            | Some u \<Rightarrow>
                if \<not> u_is_active u then (Inl UnauthorizedError, db)
                else request db
                  (bindE (issue_refresh_token env k u (rt_family_id stored)
                     (db\<lparr>refresh_tokens := update_by rt_id (rt_id stored)
                           (\<lambda>t. t\<lparr>rt_revoked_at := Some (a_now k)\<rparr>) (refresh_tokens db)\<rparr>))
                     (\<lambda>((access, new_raw, row), db1).
                       Inr ((access, new_raw, u),
                         db1\<lparr>refresh_tokens := update_by rt_id (rt_id stored)
                               (\<lambda>t. t\<lparr>rt_replaced_by_id := Some (rt_id row)\<rparr>) (refresh_tokens db1)\<rparr>)))))"

definition logout_service :: "auth_env \<Rightarrow> datetime \<Rightarrow> string \<Rightarrow> 'a accounts_db_scheme \<Rightarrow> 'a accounts_db_scheme" where
  "logout_service env now raw db =
     (case get_refresh_by_hash (e_hash_token env raw) db of
        None \<Rightarrow> db
      | Some stored \<Rightarrow>
          if rt_revoked_at stored = None
          then db\<lparr>refresh_tokens := update_by rt_id (rt_id stored)
                   (\<lambda>t. t\<lparr>rt_revoked_at := Some now\<rparr>) (refresh_tokens db)\<rparr>
          else db)"

definition change_password_service ::
    "auth_env \<Rightarrow> auth_fresh \<Rightarrow> user \<Rightarrow> string \<Rightarrow> string \<Rightarrow> 'a accounts_db_scheme \<Rightarrow> exn + 'a accounts_db_scheme" where
  "change_password_service env k u current new db =
     (case u_hashed_password u of
        None \<Rightarrow> Inl UnauthorizedError
      | Some h \<Rightarrow>
          if \<not> e_verify env current h then Inl UnauthorizedError
          else Inr (revoke_all_for_user (u_id u) (a_now k)
                 (put_user (\<lambda>u. u\<lparr>u_hashed_password := Some (e_hash_password env (a_salt k) new)\<rparr>) (u_id u) db)))"

definition request_password_reset_service ::
    "auth_env \<Rightarrow> auth_fresh \<Rightarrow> string \<Rightarrow> 'a accounts_db_scheme \<Rightarrow> 'a accounts_db_scheme" where
  "request_password_reset_service env k email db =
     (case get_user_by_email env email db of
        None \<Rightarrow> db
      | Some u \<Rightarrow>
          db\<lparr> password_resets := password_resets db @
                [\<lparr> su_user_id = u_id u, su_token_hash = e_hash_token env (a_mail_raw k),
                   su_expires_at = a_now k + PASSWORD_RESET_TTL, su_used_at = None, su_created_at = a_now k \<rparr>],
              outbox := outbox db @ [PasswordResetMail (u_email u) (a_mail_raw k)] \<rparr>)"

text \<open>A stored single-use token that may be used now.\<close>

definition usable_token :: "datetime \<Rightarrow> string \<Rightarrow> single_use_token list \<Rightarrow> exn + single_use_token" where
  "usable_token now h tokens =
     (case find_by su_token_hash h tokens of
        None \<Rightarrow> Inl UnauthorizedError
      | Some r \<Rightarrow> if su_used_at r \<noteq> None \<or> su_expires_at r < now then Inl UnauthorizedError else Inr r)"

definition use_token :: "datetime \<Rightarrow> string \<Rightarrow> single_use_token list \<Rightarrow> single_use_token list" where
  "use_token now h tokens = update_by su_token_hash h (\<lambda>r. r\<lparr>su_used_at := Some now\<rparr>) tokens"

definition confirm_password_reset_service ::
    "auth_env \<Rightarrow> auth_fresh \<Rightarrow> string \<Rightarrow> string \<Rightarrow> 'a accounts_db_scheme \<Rightarrow> exn + 'a accounts_db_scheme" where
  "confirm_password_reset_service env k token new db =
     bindE (usable_token (a_now k) (e_hash_token env token) (password_resets db)) (\<lambda>r.
     bindE (the_or NotFoundError (get_user_by_id (su_user_id r) db)) (\<lambda>u.
       Inr (revoke_all_for_user (u_id u) (a_now k)
         ((put_user (\<lambda>u. u\<lparr>u_hashed_password := Some (e_hash_password env (a_salt k) new)\<rparr>) (u_id u) db)
            \<lparr>password_resets := use_token (a_now k) (e_hash_token env token) (password_resets db)\<rparr>))))"

definition confirm_email_verification_service ::
    "auth_env \<Rightarrow> datetime \<Rightarrow> string \<Rightarrow> 'a accounts_db_scheme \<Rightarrow> exn + 'a accounts_db_scheme" where
  "confirm_email_verification_service env now token db =
     bindE (usable_token now (e_hash_token env token) (email_verifications db)) (\<lambda>r.
     bindE (the_or NotFoundError (get_user_by_id (su_user_id r) db)) (\<lambda>u.
       Inr ((put_user (\<lambda>u. u\<lparr>u_is_verified := True\<rparr>) (u_id u) db)
              \<lparr>email_verifications := use_token now (e_hash_token env token) (email_verifications db)\<rparr>)))"

end
