(* ===== verification/Google.thy ===== *)
theory Google
  imports Accounts Digests
begin

text \<open>
  Signing in with Google: \<open>app/integrations/google_oauth.py\<close> and the two service methods that
  use an identity. What Google's token endpoints answer is a parameter; the records hold what
  the client reads of an answer. \<open>urlencode\<close> is a parameter too.
\<close>

section \<open>The client\<close>

record google_config =
  gg_client_id :: string
  gg_client_secret :: string
  gg_redirect_uri :: string

datatype google_error = GoogleOAuthNotConfigured | GoogleOAuthError | GoogleKeyError

record google_identity =
  gi_subject :: string
  gi_email :: string
  gi_email_verified :: bool
  gi_name :: string
  gi_picture :: "string option"

record token_answer =
  ta_status_code :: nat
  ta_id_token :: "string option"

record tokeninfo_answer =
  ti_status_code :: nat
  ti_aud :: "string option"
  ti_iss :: "string option"
  ti_nonce :: "string option"
  ti_email :: "string option"
  ti_sub :: "string option"
  ti_email_verified :: "string option"
  ti_name :: "string option"
  ti_picture :: "string option"

definition google_is_configured :: "google_config \<Rightarrow> bool" where
  "google_is_configured cfg \<longleftrightarrow> gg_client_id cfg \<noteq> [] \<and> gg_client_secret cfg \<noteq> [] \<and> gg_redirect_uri cfg \<noteq> []"

definition build_authorization_url ::
    "((string \<times> string) list \<Rightarrow> string) \<Rightarrow> google_config \<Rightarrow> string \<Rightarrow> string \<Rightarrow> string \<Rightarrow> google_error + string" where
  "build_authorization_url urlencode cfg state nonce code_challenge =
     (if \<not> google_is_configured cfg then Inl GoogleOAuthNotConfigured
      else Inr (''https://accounts.google.com/o/oauth2/v2/auth?'' @ urlencode
        [(''client_id'', gg_client_id cfg), (''redirect_uri'', gg_redirect_uri cfg),
         (''response_type'', ''code''), (''scope'', ''openid email profile''), (''state'', state),
         (''nonce'', nonce), (''code_challenge'', code_challenge), (''code_challenge_method'', ''S256''),
         (''access_type'', ''online''), (''prompt'', ''select_account'')]))"

text \<open>\<open>random\<close> are the 64 bytes \<open>secrets\<close> draws.\<close>

definition generate_pkce_pair :: "string \<Rightarrow> string \<times> string" where
  "generate_pkce_pair random =
     (let verifier = take 128 (token_urlsafe random); digest = sha256 verifier;
          challenge = rstrip_char (CHR ''='') (urlsafe_b64encode digest)
      in (verifier, challenge))"

definition exchange_code ::
    "google_config \<Rightarrow> (string \<Rightarrow> string \<Rightarrow> token_answer) \<Rightarrow> string \<Rightarrow> string \<Rightarrow> google_error + string" where
  "exchange_code cfg post code code_verifier =
     (if \<not> google_is_configured cfg then Inl GoogleOAuthNotConfigured
      else let response = post code code_verifier
           in if ta_status_code response \<noteq> 200 then Inl GoogleOAuthError
              else the_or GoogleOAuthError (truthy (ta_id_token response)))"

definition verify_id_token ::
    "google_config \<Rightarrow> (string \<Rightarrow> tokeninfo_answer) \<Rightarrow> string \<Rightarrow> string \<Rightarrow> google_error + google_identity" where
  "verify_id_token cfg get raw_id_token expected_nonce =
     (let claims = get raw_id_token
      in if ti_status_code claims \<noteq> 200 then Inl GoogleOAuthError
         else if ti_aud claims \<noteq> Some (gg_client_id cfg) then Inl GoogleOAuthError
         else if ti_iss claims \<notin> {Some ''accounts.google.com'', Some ''https://accounts.google.com''}
           then Inl GoogleOAuthError
         else if ti_nonce claims \<noteq> Some expected_nonce then Inl GoogleOAuthError
         else bindE (the_or GoogleOAuthError (truthy (ti_email claims))) (\<lambda>email.
              bindE (the_or GoogleKeyError (ti_sub claims)) (\<lambda>sub.
                Inr \<lparr> gi_subject = sub, gi_email = email,
                      gi_email_verified = (ti_email_verified claims = Some ''true''),
                      gi_name = (case ti_name claims of None \<Rightarrow> [] | Some n \<Rightarrow> n),
                      gi_picture = ti_picture claims \<rparr>)))"

section \<open>A free user name\<close>

text \<open>\<open>f"{base_username}{suffix}"\<close>.\<close>

fun nat_str :: "nat \<Rightarrow> string" where
  "nat_str n = (if n < 10 then [char_of (48 + n)] else nat_str (n div 10) @ [char_of (48 + n mod 10)])"

declare nat_str.simps [simp del]

definition read_nat :: "string \<Rightarrow> nat" where
  "read_nat s = foldl (\<lambda>v c. 10 * v + (of_char c - 48)) 0 s"

lemma read_nat_str: "read_nat (nat_str n) = n"
proof (induction n rule: nat_str.induct)
  case (1 n)
  show ?case
  proof (cases "n < 10")
    case True
    then show ?thesis by (subst nat_str.simps) (simp add: read_nat_def)
  next
    case False
    with 1 show ?thesis by (subst nat_str.simps) (simp add: read_nat_def)
  qed
qed

lemma nat_str_inj: "nat_str m = nat_str n \<longleftrightarrow> m = n"
  by (metis read_nat_str)

lemma length_nat_str: "n < 10 ^ Suc d \<Longrightarrow> length (nat_str n) \<le> Suc d"
proof (induction d arbitrary: n)
  case 0
  then show ?case by (subst nat_str.simps) simp
next
  case (Suc d)
  then have "n div 10 < 10 ^ Suc d" by (simp add: less_mult_imp_div_less)
  from Suc.IH [OF this] show ?case by (subst nat_str.simps) simp
qed

definition username_candidate :: "string \<Rightarrow> nat \<Rightarrow> string" where
  "username_candidate base_name suffix = (if suffix = 0 then base_name else base_name @ nat_str suffix)"

lemma candidates_finite: "finite {j. username_candidate b j \<in> set taken}"
proof -
  have "finite {j. 0 < j \<and> username_candidate b j \<in> set taken}"
    by (rule finite_imageD [where f = "username_candidate b"])
       (auto intro: finite_subset [of _ "set taken"] inj_onI simp: username_candidate_def nat_str_inj)
  then have "finite (insert 0 {j. 0 < j \<and> username_candidate b j \<in> set taken})" by simp
  then show ?thesis by (rule finite_subset [rotated]) auto
qed

function free_username :: "string list \<Rightarrow> string \<Rightarrow> nat \<Rightarrow> string" where
  "free_username taken base_name suffix =
     (if username_candidate base_name suffix \<in> set taken then free_username taken base_name (suffix + 1)
      else username_candidate base_name suffix)"
  by pat_completeness auto
termination
proof (relation "measure (\<lambda>(taken, b, k). card {j. k \<le> j \<and> username_candidate b j \<in> set taken})")
  fix taken :: "string list" and b :: string and k :: nat
  assume k: "username_candidate b k \<in> set taken"
  let ?S = "\<lambda>k. {j. k \<le> j \<and> username_candidate b j \<in> set taken}"
  have "finite (?S k)" by (rule finite_subset [OF _ candidates_finite [of b taken]]) auto
  moreover have "?S (k + 1) \<subset> ?S k"
  proof (rule psubsetI)
    have "k \<in> ?S k" "k \<notin> ?S (k + 1)" using k by simp_all
    then show "?S (k + 1) \<noteq> ?S k" by metis
  qed auto
  ultimately show "((taken, b, k + 1), (taken, b, k))
      \<in> measure (\<lambda>(taken, b, k). card {j. k \<le> j \<and> username_candidate b j \<in> set taken})"
    by (auto intro: psubset_card_mono)
qed simp

declare free_username.simps [simp del]

section \<open>Service\<close>

definition base_username :: "string \<Rightarrow> string" where
  "base_username email =
     (let part = text_take 40 (hd (split_on (CHR ''@'') email)) in if part = [] then ''user'' else part)"

definition login_or_register_with_google ::
    "auth_env \<Rightarrow> auth_fresh \<Rightarrow> google_identity \<Rightarrow> 'a accounts_db_scheme \<Rightarrow> exn + (user \<times> 'a accounts_db_scheme)" where
  "login_or_register_with_google env k identity db =
     (case get_user_by_oauth Google (gi_subject identity) db of
        Some u \<Rightarrow> Inr (u\<lparr>u_last_login := Some (a_now k)\<rparr>,
                    put_user (\<lambda>u. u\<lparr>u_last_login := Some (a_now k)\<rparr>) (u_id u) db)
      | None \<Rightarrow>
          if get_user_by_email env (gi_email identity) db \<noteq> None then Inl ConflictError
          else
            let username = free_username (map u_username (users db)) (base_username (gi_email identity)) 0;
                u = \<lparr> u_id = a_user k, u_email = e_lower env (gi_email identity), u_username = username,
                      u_hashed_password = None, u_first_name = gi_name identity, u_last_name = [],
                      u_avatar = gi_picture identity, u_role = Customer, u_is_active = True,
                      u_is_verified = gi_email_verified identity, u_last_login = Some (a_now k),
                      u_created_at = a_db_now k \<rparr>
            in bindE (flush_accounts u (db\<lparr>users := users db @ [u]\<rparr>)) (\<lambda>(u, db1).
                 Inr (u, db1\<lparr>oauth_accounts := oauth_accounts db1 @
                   [\<lparr> oa_user_id = u_id u, oa_provider = Google,
                      oa_provider_user_id = gi_subject identity, oa_email = gi_email identity \<rparr>]\<rparr>)))"

definition link_google_account ::
    "auth_env \<Rightarrow> user \<Rightarrow> google_identity \<Rightarrow> 'a accounts_db_scheme \<Rightarrow> exn + 'a accounts_db_scheme" where
  "link_google_account env u identity db =
     (if e_lower env (gi_email identity) \<noteq> e_lower env (u_email u) then Inl ConflictError
      else if get_user_by_oauth Google (gi_subject identity) db \<noteq> None then Inl ConflictError
      else Inr (db\<lparr>oauth_accounts := oauth_accounts db @
             [\<lparr> oa_user_id = u_id u, oa_provider = Google,
                oa_provider_user_id = gi_subject identity, oa_email = gi_email identity \<rparr>]\<rparr>))"

section \<open>Facts\<close>

text \<open>The search ends with a name nobody has, and within as many suffixes as there are users.\<close>

lemma free_username_free: "free_username taken b k \<notin> set taken"
  by (induction taken b k rule: free_username.induct) (subst free_username.simps, simp)

lemma free_username_suffix:
  "\<exists>j. free_username taken b k = username_candidate b j \<and> k \<le> j \<and> (\<forall>i. k \<le> i \<and> i < j \<longrightarrow> username_candidate b i \<in> set taken)"
proof (induction taken b k rule: free_username.induct)
  case (1 taken b k)
  show ?case
  proof (cases "username_candidate b k \<in> set taken")
    case True
    from 1 [OF True] obtain j where j: "free_username taken b (k + 1) = username_candidate b j" "k + 1 \<le> j"
      "\<forall>i. k + 1 \<le> i \<and> i < j \<longrightarrow> username_candidate b i \<in> set taken" by blast
    have "username_candidate b i \<in> set taken" if "k \<le> i" "i < j" for i
      using that True j(3) by (cases "i = k") auto
    with True j show ?thesis by (subst free_username.simps) auto
  next
    case False
    then show ?thesis by (subst free_username.simps) auto
  qed
qed

lemma free_username_first:
  "\<exists>j \<le> Suc (length taken). free_username taken b 0 = username_candidate b j
     \<and> username_candidate b j \<notin> set taken \<and> (\<forall>i < j. username_candidate b i \<in> set taken)"
proof -
  obtain j where j: "free_username taken b 0 = username_candidate b j"
    "\<forall>i. i < j \<longrightarrow> username_candidate b i \<in> set taken"
    using free_username_suffix [of taken b 0] by auto
  have "inj_on (username_candidate b) {1..<j}"
    by (rule inj_onI) (simp add: username_candidate_def nat_str_inj)
  then have "card {1..<j} = card (username_candidate b ` {1..<j})" by (simp add: card_image)
  also have "\<dots> \<le> card (set taken)" by (rule card_mono) (use j(2) in auto)
  also have "\<dots> \<le> length taken" by (rule card_length)
  finally have "j \<le> Suc (length taken)" by simp
  with j free_username_free [of taken b 0] show ?thesis by metis
qed

lemma free_username_fits:
  assumes "length taken < 10 ^ 10 - 1" shows "text_length (free_username taken (base_username email) 0) \<le> 50"
proof -
  obtain j where j: "j \<le> Suc (length taken)" "free_username taken (base_username email) 0 = username_candidate (base_username email) j"
    using free_username_first by blast
  have "j < 10 ^ Suc 9" using j(1) assms by simp
  from length_nat_str [OF this] text_length_le [of "nat_str j"] have "text_length (nat_str j) \<le> 10" by simp
  moreover have "text_length (base_username email) \<le> 40" 
    using text_length_le [of "''user''"] by (simp add: base_username_def Let_def text_length_take)
  ultimately show ?thesis by (simp add: j(2) username_candidate_def)
qed

text \<open>The account a first sign-in makes.\<close>

lemma new_google_user:
  assumes "login_or_register_with_google env k identity db = Inr (u, db1)"
    and "get_user_by_oauth Google (gi_subject identity) db = None"
  shows "u_username u = free_username (map u_username (users db)) (base_username (gi_email identity)) 0"
    "users db1 = users db @ [u]"
  using assms by (auto simp: login_or_register_with_google_def Let_def bindE_eq_Inr flush_accounts_def split: option.splits if_splits)

end
