(* ===== verification/Auth_Routes.thy ===== *)
theory Auth_Routes
  imports Google
begin

text \<open>
  The authentication routes (\<open>app/modules/auth/router.py\<close>), the current user of a request
  (\<open>dependencies.py\<close>) and the administration of users (\<open>app/modules/users\<close>). A response is its
  body and the cookies it sets.
\<close>

section \<open>The current user\<close>

definition get_current_user ::
    "auth_env \<Rightarrow> datetime \<Rightarrow> string option \<Rightarrow> string option \<Rightarrow> 'a accounts_db_scheme \<Rightarrow> exn + user" where
  "get_current_user env now access_token header db =
     (let token = (case truthy access_token of Some t \<Rightarrow> Some t | None \<Rightarrow> truthy (bearer_token_from_header header))
      in bindE (the_or UnauthorizedError token) (\<lambda>token.
         bindE (the_or UnauthorizedError (decode_access_token (e_decode env) now token)) (\<lambda>payload.
         bindE (the_or KeyError (jc_sub payload)) (\<lambda>sub.
         (case get_user_by_id sub db of
            None \<Rightarrow> Inl UnauthorizedError
          | Some u \<Rightarrow> if \<not> u_is_active u then Inl UnauthorizedError else Inr u)))))"

section \<open>Routes of \<open>/auth\<close>\<close>

record user_public =
  up_id :: uuid
  up_email :: string
  up_username :: string
  up_first_name :: string
  up_last_name :: string
  up_avatar :: "string option"
  up_role :: user_role
  up_is_verified :: bool

definition public_user :: "user \<Rightarrow> user_public" where
  "public_user u =
     \<lparr> up_id = u_id u, up_email = u_email u, up_username = u_username u, up_first_name = u_first_name u,
       up_last_name = u_last_name u, up_avatar = u_avatar u, up_role = u_role u,
       up_is_verified = u_is_verified u \<rparr>"

definition auth_cookies :: "auth_env \<Rightarrow> auth_fresh \<Rightarrow> string \<Rightarrow> string \<Rightarrow> cookie list" where
  "auth_cookies env k access raw =
     set_auth_cookies (e_settings env) access raw (generate_csrf_token (e_settings env) (a_csrf_nonce k))"

definition signed_in ::
    "auth_env \<Rightarrow> auth_fresh \<Rightarrow> user \<Rightarrow> 'a accounts_db_scheme
     \<Rightarrow> exn + ((user_public \<times> cookie list) \<times> 'a accounts_db_scheme)" where
  "signed_in env k u db =
     bindE (issue_token_pair env k u db) (\<lambda>((access, raw), db1).
     flush_accounts (public_user u, auth_cookies env k access raw) db1)"

definition register ::
    "auth_env \<Rightarrow> auth_fresh \<Rightarrow> register_request \<Rightarrow> 'a accounts_db_scheme
     \<Rightarrow> (exn + (user_public \<times> cookie list)) \<times> 'a accounts_db_scheme" where
  "register env k data db = request db (
     bindE (the_or RequestValidationError (e_email env (rr_email data))) (\<lambda>email.
     bindE (validated (register_valid data)) (\<lambda>_.
     bindE (register_user env k email data db) (\<lambda>(u, db1). signed_in env k u db1))))"

definition login ::
    "auth_env \<Rightarrow> auth_fresh \<Rightarrow> string \<Rightarrow> string \<Rightarrow> 'a accounts_db_scheme
     \<Rightarrow> (exn + (user_public \<times> cookie list)) \<times> 'a accounts_db_scheme" where
  "login env k raw_email password db = request db (
     bindE (the_or RequestValidationError (e_email env raw_email)) (\<lambda>email.
     bindE (authenticate env (a_now k) email password db) (\<lambda>(u, db1). signed_in env k u db1)))"

definition refresh ::
    "auth_env \<Rightarrow> auth_fresh \<Rightarrow> string option \<Rightarrow> 'a accounts_db_scheme
     \<Rightarrow> (exn + (user_public \<times> cookie list)) \<times> 'a accounts_db_scheme" where
  "refresh env k refresh_token db =
     (case truthy refresh_token of
        None \<Rightarrow> (Inl UnauthorizedError, db)
      | Some raw \<Rightarrow>
          (case rotate_refresh_token env k raw db of
             (Inl e, db1) \<Rightarrow> (Inl e, db1)
           | (Inr (access, new_raw, u), db1) \<Rightarrow>
               (Inr (public_user u, auth_cookies env k access new_raw), db1)))"

text \<open>The result is the names and paths of the cookies the response deletes.\<close>

definition logout ::
    "auth_env \<Rightarrow> datetime \<Rightarrow> string option \<Rightarrow> 'a accounts_db_scheme \<Rightarrow> (string \<times> string) list \<times> 'a accounts_db_scheme" where
  "logout env now refresh_token db =
     (clear_auth_cookies,
      case truthy refresh_token of None \<Rightarrow> db | Some raw \<Rightarrow> logout_service env now raw db)"

definition me ::
    "auth_env \<Rightarrow> datetime \<Rightarrow> string option \<Rightarrow> string option \<Rightarrow> 'a accounts_db_scheme \<Rightarrow> exn + user_public" where
  "me env now access_token header db =
     bindE (get_current_user env now access_token header db) (\<lambda>u. Inr (public_user u))"

definition change_password ::
    "auth_env \<Rightarrow> auth_fresh \<Rightarrow> user \<Rightarrow> string \<Rightarrow> string \<Rightarrow> 'a accounts_db_scheme
     \<Rightarrow> (exn + (string \<times> string) list) \<times> 'a accounts_db_scheme" where
  "change_password env k u current new db = request db (
     bindE (validated (new_password_valid new)) (\<lambda>_.
     bindE (change_password_service env k u current new db) (\<lambda>db1. flush_accounts clear_auth_cookies db1)))"

definition request_password_reset ::
    "auth_env \<Rightarrow> auth_fresh \<Rightarrow> string \<Rightarrow> 'a accounts_db_scheme \<Rightarrow> (exn + unit) \<times> 'a accounts_db_scheme" where
  "request_password_reset env k raw_email db = request db (
     bindE (the_or RequestValidationError (e_email env raw_email)) (\<lambda>email.
       flush_accounts () (request_password_reset_service env k email db)))"

definition confirm_password_reset ::
    "auth_env \<Rightarrow> auth_fresh \<Rightarrow> string \<Rightarrow> string \<Rightarrow> 'a accounts_db_scheme \<Rightarrow> (exn + unit) \<times> 'a accounts_db_scheme" where
  "confirm_password_reset env k token new db = request db (
     bindE (validated (new_password_valid new)) (\<lambda>_.
     bindE (confirm_password_reset_service env k token new db) (\<lambda>db1. flush_accounts () db1)))"

definition confirm_email_verification ::
    "auth_env \<Rightarrow> datetime \<Rightarrow> string \<Rightarrow> 'a accounts_db_scheme \<Rightarrow> (exn + unit) \<times> 'a accounts_db_scheme" where
  "confirm_email_verification env now token db = request db (
     bindE (confirm_email_verification_service env now token db) (\<lambda>db1. flush_accounts () db1))"

section \<open>Google\<close>

record google_fresh =
  g_state :: string
  g_nonce :: string
  g_random :: string

text \<open>Redis is not part of the transaction: what a request wrote there stays.\<close>

definition start_google ::
    "((string \<times> string) list \<Rightarrow> string) \<Rightarrow> google_config \<Rightarrow> google_fresh \<Rightarrow> uuid option
     \<Rightarrow> 'a accounts_db_scheme \<Rightarrow> (exn + string) \<times> 'a accounts_db_scheme" where
  "start_google urlencode cfg g link_user db =
     (let (verifier, challenge) = generate_pkce_pair (g_random g)
      in case build_authorization_url urlencode cfg (g_state g) (g_nonce g) challenge of
           Inl e \<Rightarrow> (Inl ConflictError, db)
         | Inr url \<Rightarrow> (Inr url, db\<lparr>oauth_sessions := (oauth_sessions db)(g_state g \<mapsto>
               \<lparr>os_nonce = g_nonce g, os_verifier = verifier, os_link_user = link_user\<rparr>)\<rparr>))"

definition google_login ::
    "((string \<times> string) list \<Rightarrow> string) \<Rightarrow> google_config \<Rightarrow> google_fresh
     \<Rightarrow> 'a accounts_db_scheme \<Rightarrow> (exn + string) \<times> 'a accounts_db_scheme" where
  "google_login urlencode cfg g db = start_google urlencode cfg g None db"

definition google_link_start ::
    "((string \<times> string) list \<Rightarrow> string) \<Rightarrow> google_config \<Rightarrow> google_fresh \<Rightarrow> user
     \<Rightarrow> 'a accounts_db_scheme \<Rightarrow> (exn + string) \<times> 'a accounts_db_scheme" where
  "google_link_start urlencode cfg g u db = start_google urlencode cfg g (Some (u_id u)) db"

definition google_exn :: "google_error \<Rightarrow> exn" where
  "google_exn e = (case e of GoogleKeyError \<Rightarrow> KeyError | _ \<Rightarrow> ConflictError)"

definition google_identity_of ::
    "google_config \<Rightarrow> (string \<Rightarrow> string \<Rightarrow> token_answer) \<Rightarrow> (string \<Rightarrow> tokeninfo_answer) \<Rightarrow> oauth_session \<Rightarrow> string
     \<Rightarrow> google_error + google_identity" where
  "google_identity_of cfg post get s code =
     bindE (exchange_code cfg post code (os_verifier s)) (\<lambda>raw. verify_id_token cfg get raw (os_nonce s))"

definition google_callback ::
    "auth_env \<Rightarrow> google_config \<Rightarrow> (string \<Rightarrow> string \<Rightarrow> token_answer) \<Rightarrow> (string \<Rightarrow> tokeninfo_answer) \<Rightarrow> auth_fresh
     \<Rightarrow> string \<Rightarrow> string \<Rightarrow> 'a accounts_db_scheme \<Rightarrow> (exn + cookie list) \<times> 'a accounts_db_scheme" where
  "google_callback env cfg post get k code state db =
     (case oauth_sessions db state of
        None \<Rightarrow> (Inl UnauthorizedError, db)
      | Some s \<Rightarrow>
          let db0 = db\<lparr>oauth_sessions := (oauth_sessions db)(state := None)\<rparr>
          in (case google_identity_of cfg post get s code of
                Inl e \<Rightarrow> (Inl (google_exn e), db0)
              | Inr identity \<Rightarrow> request db0
                  (case os_link_user s of
                     Some uid \<Rightarrow>
                       bindE (the_or UnauthorizedError (get_user_by_id uid db0)) (\<lambda>u.
                       bindE (link_google_account env u identity db0) (\<lambda>db1. flush_accounts [] db1))
                   | None \<Rightarrow>
                       bindE (login_or_register_with_google env k identity db0) (\<lambda>(u, db1).
                       bindE (issue_token_pair env k u db1) (\<lambda>((access, raw), db2).
                         flush_accounts (auth_cookies env k access raw) db2)))))"

section \<open>Administration of users\<close>

text \<open>\<open>ilike\<close> is the database's; it is a parameter on the term between the two wildcards.\<close>

definition search_users ::
    "(string \<Rightarrow> string \<Rightarrow> bool) \<Rightarrow> string option \<Rightarrow> int \<Rightarrow> int \<Rightarrow> 'a accounts_db_scheme \<Rightarrow> user list \<times> int" where
  "search_users ilike term off n db =
     (let rows = (case truthy term of
            None \<Rightarrow> users db
          | Some s \<Rightarrow> filter (\<lambda>u. ilike (strip s) (u_email u) \<or> ilike (strip s) (u_username u)) (users db))
      in (offset_limit off n (sort_key (\<lambda>u. - u_created_at u) rows), int (length rows)))"

definition admin_get_user_service :: "uuid \<Rightarrow> 'a accounts_db_scheme \<Rightarrow> exn + user" where
  "admin_get_user_service uid db = the_or NotFoundError (get_user_by_id uid db)"

record admin_user_update =
  au_role :: "user_role option"
  au_is_active :: "bool option"

definition role_value :: "user_role \<Rightarrow> string" where
  "role_value r = (case r of Customer \<Rightarrow> ''customer'' | Support \<Rightarrow> ''support'' | Admin \<Rightarrow> ''admin''
                   | SuperAdmin \<Rightarrow> ''super_admin'')"

definition update_user_service ::
    "datetime \<Rightarrow> uuid \<Rightarrow> admin_user_update \<Rightarrow> uuid \<Rightarrow> 'a accounts_db_scheme \<Rightarrow> exn + (user \<times> 'a accounts_db_scheme)" where
  "update_user_service db_now uid data actor db =
     bindE (admin_get_user_service uid db) (\<lambda>u.
     bindE (case au_role data of
              None \<Rightarrow> Inr (u, db)
            | Some role \<Rightarrow>
                if role = u_role u then Inr (u, db)
                else if u_id u = actor then Inl ConflictError
                else Inr (u\<lparr>u_role := role\<rparr>,
                  put_user (\<lambda>u. u\<lparr>u_role := role\<rparr>) uid
                    (write_audit_log db_now (Some actor) ''user.role_changed'' ''user'' (Some (u_id u))
                      (Some [(''from'', JStr (role_value (u_role u))), (''to'', JStr (role_value role))]) db)))
       (\<lambda>(u1, db1).
     Inr (case au_is_active data of
            None \<Rightarrow> (u1, db1)
          | Some active \<Rightarrow>
              if active = u_is_active u1 then (u1, db1)
              else (u1\<lparr>u_is_active := active\<rparr>,
                put_user (\<lambda>u. u\<lparr>u_is_active := active\<rparr>) uid
                  (write_audit_log db_now (Some actor) (if active then ''user.activated'' else ''user.deactivated'')
                    ''user'' (Some (u_id u1)) None db1)))))"

record admin_user_public =
  aup_id :: uuid
  aup_email :: string
  aup_username :: string
  aup_first_name :: string
  aup_last_name :: string
  aup_role :: user_role
  aup_is_active :: bool
  aup_is_verified :: bool
  aup_created_at :: datetime
  aup_last_login :: "datetime option"

definition public_admin_user :: "user \<Rightarrow> admin_user_public" where
  "public_admin_user u =
     \<lparr> aup_id = u_id u, aup_email = u_email u, aup_username = u_username u, aup_first_name = u_first_name u,
       aup_last_name = u_last_name u, aup_role = u_role u, aup_is_active = u_is_active u,
       aup_is_verified = u_is_verified u, aup_created_at = u_created_at u, aup_last_login = u_last_login u \<rparr>"

definition list_users ::
    "(string \<Rightarrow> string \<Rightarrow> bool) \<Rightarrow> user \<Rightarrow> page_params \<Rightarrow> string option \<Rightarrow> 'a accounts_db_scheme
     \<Rightarrow> exn + admin_user_public page" where
  "list_users ilike u ps term db =
     bindE (require_permission ''user.read'' u) (\<lambda>_.
     bindE (validated (page_params_valid ps)) (\<lambda>_.
       let (items, n) = search_users ilike term (page_offset ps) (pg_page_size ps) db
       in Inr (page_create (map public_admin_user items) n ps)))"

definition get_user :: "user \<Rightarrow> uuid \<Rightarrow> 'a accounts_db_scheme \<Rightarrow> exn + admin_user_public" where
  "get_user u uid db =
     bindE (require_permission ''user.read'' u) (\<lambda>_.
     bindE (admin_get_user_service uid db) (\<lambda>v. Inr (public_admin_user v)))"

definition update_user ::
    "user \<Rightarrow> datetime \<Rightarrow> uuid \<Rightarrow> admin_user_update \<Rightarrow> 'a accounts_db_scheme
     \<Rightarrow> (exn + admin_user_public) \<times> 'a accounts_db_scheme" where
  "update_user u db_now uid data db = request db (
     bindE (require_permission ''user.manage'' u) (\<lambda>_.
     bindE (update_user_service db_now uid data (u_id u) db) (\<lambda>(v, db1). Inr (public_admin_user v, db1))))"

end
