(* ===== verification/Sessions.thy ===== *)
theory Sessions
  imports Auth_Routes
begin

text \<open>
  A small machine on the table of refresh tokens: the only ways the program changes it. The
  invariants of token families are proved here once; \<open>Auth_Facts\<close> shows that every route is a step.
\<close>

section \<open>The machine on refresh tokens\<close>

inductive tokens_step :: "refresh_token list \<Rightarrow> refresh_token list \<Rightarrow> bool" where
  ts_same: "tokens_step ts ts"
| ts_revoke: "tokens_step ts (map (\<lambda>t. if P t \<and> rt_revoked_at t = None then t\<lparr>rt_revoked_at := Some now\<rparr> else t) ts)"
| ts_open: "rt_family_id row \<notin> rt_family_id ` set ts \<Longrightarrow> rt_revoked_at row = None \<Longrightarrow> rt_replaced_by_id row = None \<Longrightarrow>
     unique_by rt_id (ts @ [row]) \<Longrightarrow> tokens_step ts (ts @ [row])"
| ts_rotate: "stored \<in> set ts \<Longrightarrow> rt_revoked_at stored = None \<Longrightarrow> rt_family_id row = rt_family_id stored \<Longrightarrow>
     rt_user_id row = rt_user_id stored \<Longrightarrow> rt_revoked_at row = None \<Longrightarrow> rt_replaced_by_id row = None \<Longrightarrow>
     unique_by rt_id (ts @ [row]) \<Longrightarrow>
     tokens_step ts (map (\<lambda>t. if t = stored then t\<lparr>rt_revoked_at := Some now, rt_replaced_by_id := Some (rt_id row)\<rparr>
                               else t) ts @ [row])"

text \<open>A family has at most one token that is not revoked, belongs to one user, and a replaced token
  is revoked.\<close>

definition families_ok :: "refresh_token list \<Rightarrow> bool" where
  "families_ok ts \<longleftrightarrow> unique_by rt_id ts
     \<and> (\<forall>t \<in> set ts. \<forall>u \<in> set ts. rt_family_id t = rt_family_id u \<longrightarrow>
          rt_user_id t = rt_user_id u \<and> (rt_revoked_at t = None \<longrightarrow> rt_revoked_at u = None \<longrightarrow> t = u))
     \<and> (\<forall>t \<in> set ts. rt_replaced_by_id t \<noteq> None \<longrightarrow> rt_revoked_at t \<noteq> None)"

definition dead_family :: "uuid \<Rightarrow> refresh_token list \<Rightarrow> bool" where
  "dead_family f ts \<longleftrightarrow> f \<in> rt_family_id ` set ts
     \<and> (\<forall>t \<in> set ts. rt_family_id t = f \<longrightarrow> rt_revoked_at t \<noteq> None)"

lemma families_map:
  assumes ok: "families_ok ts"
    and g: "\<And>t. rt_id (g t) = rt_id t" "\<And>t. rt_family_id (g t) = rt_family_id t"
      "\<And>t. rt_user_id (g t) = rt_user_id t"
      "\<And>t. rt_replaced_by_id (g t) = rt_replaced_by_id t"
      "\<And>t. rt_revoked_at (g t) = None \<Longrightarrow> rt_revoked_at t = None \<and> g t = t"
  shows "families_ok (map g ts)"
proof -
  have "map rt_id (map g ts) = map rt_id ts" using g(1) by simp
  then have "unique_by rt_id (map g ts)" using ok by (simp only: unique_by_def families_ok_def)
  moreover have "rt_user_id (g x) = rt_user_id (g y) \<and>
      (rt_revoked_at (g x) = None \<longrightarrow> rt_revoked_at (g y) = None \<longrightarrow> g x = g y)"
    if "x \<in> set ts" "y \<in> set ts" "rt_family_id (g x) = rt_family_id (g y)" for x y
  proof -
    have "rt_family_id x = rt_family_id y" using that(3) g(2) by simp
    with that(1,2) ok have "rt_user_id x = rt_user_id y
        \<and> (rt_revoked_at x = None \<longrightarrow> rt_revoked_at y = None \<longrightarrow> x = y)" unfolding families_ok_def by blast
    then show ?thesis using g(3) [of x] g(3) [of y] g(5) [of x] g(5) [of y] by metis
  qed
  moreover have "rt_revoked_at (g x) \<noteq> None" if "x \<in> set ts" "rt_replaced_by_id (g x) \<noteq> None" for x
    using that ok g(4) [of x] g(5) [of x] unfolding families_ok_def by metis
  ultimately show ?thesis unfolding families_ok_def set_map by blast
qed

lemma families_step: "tokens_step ts ts' \<Longrightarrow> families_ok ts \<Longrightarrow> families_ok ts'"
proof (induction rule: tokens_step.induct)
  case (ts_same ts)
  then show ?case .
next
  case (ts_revoke ts P now)
  let ?f = "\<lambda>t. if P t \<and> rt_revoked_at t = None then t\<lparr>rt_revoked_at := Some now\<rparr> else t"
  have live: "rt_revoked_at t = None \<and> ?f t = t" if "rt_revoked_at (?f t) = None" for t
  proof (cases "P t \<and> rt_revoked_at t = None")
    case True
    then have "?f t = t\<lparr>rt_revoked_at := Some now\<rparr>" by (simp only: if_True simp_thms)
    with that show ?thesis by simp
  next
    case False
    then have "?f t = t" by (simp only: if_False)
    with that show ?thesis by metis
  qed
  show ?case by (rule families_map [OF ts_revoke _ _ _ _ live]) simp_all
next
  case (ts_open row ts)
  have other: "rt_family_id t \<noteq> rt_family_id row" if "t \<in> set ts" for t using ts_open.hyps(1) that by (metis imageI)
  have "\<forall>t \<in> insert row (set ts). \<forall>u \<in> insert row (set ts). rt_family_id t = rt_family_id u \<longrightarrow>
      rt_user_id t = rt_user_id u \<and> (rt_revoked_at t = None \<longrightarrow> rt_revoked_at u = None \<longrightarrow> t = u)"
    using ts_open.prems other unfolding families_ok_def by (metis insert_iff)
  moreover have "\<forall>t \<in> insert row (set ts). rt_replaced_by_id t \<noteq> None \<longrightarrow> rt_revoked_at t \<noteq> None"
    using ts_open.prems ts_open.hyps(3) unfolding families_ok_def by (metis insert_iff)
  moreover have "set (ts @ [row]) = insert row (set ts)" by simp
  ultimately show ?case using ts_open.hyps(4) unfolding families_ok_def by (simp only: simp_thms)
next
  case (ts_rotate stored ts row now)
  let ?f = "\<lambda>t. if t = stored then t\<lparr>rt_revoked_at := Some now, rt_replaced_by_id := Some (rt_id row)\<rparr> else t"
  have f: "rt_family_id (?f t) = rt_family_id t" "rt_user_id (?f t) = rt_user_id t" "rt_id (?f t) = rt_id t" for t by auto
  have live: "t \<noteq> stored \<and> ?f t = t \<and> rt_revoked_at t = None" if "rt_revoked_at (?f t) = None" for t
    using that by (auto split: if_splits)
  have rep: "rt_revoked_at (?f t) \<noteq> None" if "rt_replaced_by_id (?f t) \<noteq> None" "t \<in> set ts" for t
  proof (cases "t = stored")
    case False
    then have eq: "?f t = t" by (simp only: if_False)
    have "rt_replaced_by_id t \<noteq> None" using that(1) by (simp only: eq not_False_eq_True)
    moreover have "\<forall>t \<in> set ts. rt_replaced_by_id t \<noteq> None \<longrightarrow> rt_revoked_at t \<noteq> None"
      using ts_rotate.prems unfolding families_ok_def by (elim conjE)
    ultimately show ?thesis using that(2) unfolding eq by blast
  qed simp
  have "map rt_id (map ?f ts @ [row]) = map rt_id (ts @ [row])" using f(3) by (simp add: comp_def)
  then have "unique_by rt_id (map ?f ts @ [row])" using ts_rotate.hyps(7) by (simp only: unique_by_def)
  moreover have "rt_user_id t = rt_user_id u \<and> (rt_revoked_at t = None \<longrightarrow> rt_revoked_at u = None \<longrightarrow> t = u)"
    if tu: "t \<in> set (map ?f ts @ [row])" "u \<in> set (map ?f ts @ [row])" "rt_family_id t = rt_family_id u" for t u
  proof -
    have orig: "\<exists>x \<in> set ts. rt_family_id x = rt_family_id y \<and> rt_user_id x = rt_user_id y
        \<and> (rt_revoked_at y = None \<longrightarrow> y = row \<or> y = x \<and> x \<noteq> stored)" if "y \<in> set (map ?f ts @ [row])" for y
    proof (cases "y = row")
      case True
      then show ?thesis using ts_rotate.hyps(1,3,4) by (intro bexI [of _ stored]) simp_all
    next
      case False
      with that obtain x where x: "x \<in> set ts" "y = ?f x" by (simp only: set_append set_map) auto
      have "rt_family_id x = rt_family_id y" "rt_user_id x = rt_user_id y" unfolding x(2) by (simp_all only: f)
      moreover have "y = x \<and> x \<noteq> stored" if "rt_revoked_at y = None"
      proof -
        from live [OF that [unfolded x(2)]] have "x \<noteq> stored" ..
        then show ?thesis unfolding x(2) by (simp only: if_False simp_thms)
      qed
      ultimately show ?thesis using x(1) by (intro bexI [OF _ x(1)] conjI impI disjI2) simp_all
    qed
    from orig [OF tu(1)] obtain x where x: "x \<in> set ts" "rt_family_id x = rt_family_id t" "rt_user_id x = rt_user_id t"
      "rt_revoked_at t = None \<longrightarrow> t = row \<or> t = x \<and> x \<noteq> stored" by (elim bexE conjE) (rule that)
    from orig [OF tu(2)] obtain y where y: "y \<in> set ts" "rt_family_id y = rt_family_id u" "rt_user_id y = rt_user_id u"
      "rt_revoked_at u = None \<longrightarrow> u = row \<or> u = y \<and> y \<noteq> stored" by (elim bexE conjE) (rule that)
    have one: "a = b" if "a \<in> set ts" "b \<in> set ts" "rt_family_id a = rt_family_id b" "rt_revoked_at a = None"
      "rt_revoked_at b = None" for a b
      using that ts_rotate.prems unfolding families_ok_def by blast
    have "rt_user_id t = rt_user_id u" using x y tu(3) ts_rotate.prems by (metis families_ok_def)
    moreover have "t = u" if "rt_revoked_at t = None" "rt_revoked_at u = None"
      using that x y tu(3) one ts_rotate.hyps(1,2,3) by metis
    ultimately show ?thesis by blast
  qed
  moreover have "rt_revoked_at t \<noteq> None" if "t \<in> set (map ?f ts @ [row])" "rt_replaced_by_id t \<noteq> None" for t
  proof (cases "t = row")
    case True
    with that ts_rotate.hyps(6) show ?thesis by simp
  next
    case False
    with that obtain x where x: "x \<in> set ts" "t = ?f x" by (simp only: set_append set_map) auto
    from rep [OF that(2) [unfolded x(2)] x(1)] show ?thesis unfolding x(2) .
  qed
  ultimately show ?case unfolding families_ok_def by blast
qed

text \<open>A family without a live token never gets one again.\<close>

lemma dead_step: "tokens_step ts ts' \<Longrightarrow> dead_family f ts \<Longrightarrow> dead_family f ts'"
  by (induction rule: tokens_step.induct) (auto simp: dead_family_def image_iff)

lemma families_steps: "tokens_step\<^sup>*\<^sup>* ts ts' \<Longrightarrow> families_ok ts \<Longrightarrow> families_ok ts'"
  by (induction rule: rtranclp_induct) (auto intro: families_step)

lemma dead_steps: "tokens_step\<^sup>*\<^sup>* ts ts' \<Longrightarrow> dead_family f ts \<Longrightarrow> dead_family f ts'"
  by (induction rule: rtranclp_induct) (auto intro: dead_step)

end
