(* ===== verification/Auth_Facts.thy ===== *)
theory Auth_Facts
  imports Sessions
begin

text \<open>
  What holds of accounts and sessions: the routes refine the machine of \<open>Sessions\<close>; then the
  single-use tokens, the ways to obtain a session, and the administration of users.
\<close>

section \<open>Columns and keys\<close>

text \<open>The rows a session may have changed after its last flush are written at the commit, so the
  constraints have to hold of them too.\<close>

lemma accounts_fit_cong:
  assumes "map (\<lambda>t. (rt_id t, rt_token_hash t, rt_ip_address t)) (refresh_tokens db') =
      map (\<lambda>t. (rt_id t, rt_token_hash t, rt_ip_address t)) (refresh_tokens db)"
    and "map (\<lambda>u. u\<lparr>u_role := Customer, u_is_active := True\<rparr>) (users db') =
      map (\<lambda>u. u\<lparr>u_role := Customer, u_is_active := True\<rparr>) (users db)"
    and "oauth_accounts db' = oauth_accounts db" "password_resets db' = password_resets db"
      "email_verifications db' = email_verifications db"
  shows "accounts_fit db' = accounts_fit db"
proof -
  let ?t = "\<lambda>t. (rt_id t, rt_token_hash t, rt_ip_address t)"
  let ?u = "\<lambda>u :: user. u\<lparr>u_role := Customer, u_is_active := True\<rparr>"
  have t: "unique_by rt_id ts = distinct (map fst (map ?t ts))"
    "unique_by rt_token_hash ts = distinct (map (fst \<circ> snd) (map ?t ts))"
    "(\<forall>t \<in> set ts. text_length (rt_token_hash t) \<le> 255 \<and> (case rt_ip_address t of None \<Rightarrow> True | Some a \<Rightarrow> text_length a \<le> 64)) =
      (\<forall>(i, h, a) \<in> set (map ?t ts). text_length h \<le> 255 \<and> (case a of None \<Rightarrow> True | Some a \<Rightarrow> text_length a \<le> 64))" for ts
    by (simp_all add: unique_by_def comp_def)
  have u: "unique_by u_id us = distinct (map u_id (map ?u us))" "unique_by u_email us = distinct (map u_email (map ?u us))"
    "unique_by u_username us = distinct (map u_username (map ?u us))"
    "(\<forall>u \<in> set us. user_fits u) = (\<forall>u \<in> set (map ?u us). user_fits u)" for us
    by (simp_all add: unique_by_def comp_def user_fits_def)
  show ?thesis 
    unfolding accounts_fit_def t [of "refresh_tokens db"] t [of "refresh_tokens db'"] u [of "users db"] u [of "users db'"] assms
    by (rule refl)
qed

lemma fit_update_tokens:
  assumes "\<And>t. rt_id (f t) = rt_id t" "\<And>t. rt_token_hash (f t) = rt_token_hash t" "\<And>t. rt_ip_address (f t) = rt_ip_address t"
  shows "accounts_fit (db\<lparr>refresh_tokens := update_by key k f (refresh_tokens db)\<rparr>) = accounts_fit db"
  by (rule accounts_fit_cong) (simp_all add: update_by_def assms)

lemma fit_revoke: "accounts_fit (revoke_where P now db) = accounts_fit db"
  by (rule accounts_fit_cong) (simp_all add: revoke_where_def)

section \<open>The routes take steps of the machine\<close>

lemma flush_accounts_Inr [simp]:
  "flush_accounts r db = Inr (r', db') \<longleftrightarrow> accounts_fit db \<and> r' = r \<and> db' = db"
  by (auto simp: flush_accounts_def)

lemma issue_refresh_token_Inr:
  assumes "issue_refresh_token env k u fam db = Inr ((access, raw, row), db1)"
  shows "raw = a_raw k" "db1 = db\<lparr>refresh_tokens := refresh_tokens db @ [row]\<rparr>"
    "rt_family_id row = fam" "rt_user_id row = u_id u" "rt_revoked_at row = None" "rt_replaced_by_id row = None"
    "rt_id row = a_token_id k" "rt_token_hash row = e_hash_token env (a_raw k)"
    "unique_by rt_id (refresh_tokens db @ [row])" "unique_by rt_token_hash (refresh_tokens db @ [row])"
    "access = create_access_token (e_encode env) (e_settings env) (a_now k) (a_jti k) (u_id u) (u_role u)"
    "accounts_fit db1"
  using assms by (auto simp: issue_refresh_token_def Let_def accounts_fit_def)

lemma revoke_where_step: "tokens_step (refresh_tokens db) (refresh_tokens (revoke_where P now db))"
  using ts_revoke [of "refresh_tokens db" P now] by (simp add: revoke_where_def)

lemma put_user_tokens [simp]: "refresh_tokens (put_user f uid db) = refresh_tokens db"
  by (simp add: put_user_def)

text \<open>What a rotation does to the table.\<close>

lemma rotate_cases:
  fixes env k raw db
  defines "res \<equiv> rotate_refresh_token env k raw db"
  obtains (refused) "fst res = Inl UnauthorizedError \<or> fst res = Inl DBAPIError" "snd res = db"
  | (reused) stored where "fst res = Inl UnauthorizedError" "get_refresh_by_hash (e_hash_token env raw) db = Some stored"
      "rt_revoked_at stored \<noteq> None" "snd res = revoke_family (rt_family_id stored) (a_now k) db"
  | (rotated) stored u access row where "fst res = Inr (access, a_raw k, u)"
      "get_refresh_by_hash (e_hash_token env raw) db = Some stored" "rt_revoked_at stored = None"
      "a_now k \<le> rt_expires_at stored"
      "get_user_by_id (rt_user_id stored) db = Some u" "u_is_active u"
      "access = create_access_token (e_encode env) (e_settings env) (a_now k) (a_jti k) (u_id u) (u_role u)"
      "rt_family_id row = rt_family_id stored" "rt_user_id row = u_id u" "rt_revoked_at row = None"
      "rt_replaced_by_id row = None" "rt_token_hash row = e_hash_token env (a_raw k)"
      "unique_by rt_id (refresh_tokens db @ [row])"
      "unique_by rt_token_hash (refresh_tokens db @ [row])"
      "snd res = db\<lparr>refresh_tokens :=
         update_by rt_id (rt_id stored) (\<lambda>t. t\<lparr>rt_replaced_by_id := Some (rt_id row)\<rparr>)
           (update_by rt_id (rt_id stored) (\<lambda>t. t\<lparr>rt_revoked_at := Some (a_now k)\<rparr>) (refresh_tokens db) @ [row])\<rparr>"
      "accounts_fit (snd res)"
proof (cases "get_refresh_by_hash (e_hash_token env raw) db")
  case None
  then show ?thesis using refused by (simp add: res_def rotate_refresh_token_def)
next
  case (Some stored)
  let ?db0 = "db\<lparr>refresh_tokens := update_by rt_id (rt_id stored) (\<lambda>t. t\<lparr>rt_revoked_at := Some (a_now k)\<rparr>) (refresh_tokens db)\<rparr>"
  show ?thesis
  proof (cases "rt_revoked_at stored = None \<and> \<not> rt_expires_at stored < a_now k")
    case False
    show ?thesis
    proof (cases "rt_revoked_at stored = None")
      case True
      with False Some have "res = (Inl UnauthorizedError, db)" by (simp add: res_def rotate_refresh_token_def)
      then show ?thesis using refused by simp
    next
      case False
      with Some have "res = (Inl UnauthorizedError, revoke_family (rt_family_id stored) (a_now k) db)"
        by (simp add: res_def rotate_refresh_token_def)
      then show ?thesis using reused [of stored] Some False by simp
    qed
  next
    case live: True
    show ?thesis
    proof (cases "get_user_by_id (rt_user_id stored) db")
      case None
      with live Some show ?thesis using refused by (simp add: res_def rotate_refresh_token_def)
    next
      case user: (Some u)
      show ?thesis
      proof (cases "u_is_active u")
        case False
        with live Some user show ?thesis using refused by (simp add: res_def rotate_refresh_token_def)
      next
        case active: True
        show ?thesis
        proof (cases "issue_refresh_token env k u (rt_family_id stored) ?db0")
          case (Inl e)
          then have "e = DBAPIError" by (auto simp: issue_refresh_token_def Let_def flush_accounts_def split: if_splits)
          with Inl live Some user active show ?thesis using refused by (simp add: res_def rotate_refresh_token_def)
        next
          case (Inr r)
          obtain access new_raw row db1 where r: "r = ((access, new_raw, row), db1)" by (cases r) auto
          note i = issue_refresh_token_Inr [OF Inr [unfolded r]]
          have res: "res = (Inr (access, a_raw k, u), db1\<lparr>refresh_tokens := update_by rt_id (rt_id stored)
              (\<lambda>t. t\<lparr>rt_replaced_by_id := Some (rt_id row)\<rparr>) (refresh_tokens db1)\<rparr>)"
            using Some user Inr r live active by (simp add: res_def rotate_refresh_token_def i(1))
          have "unique_by rt_id (refresh_tokens db @ [row])" "unique_by rt_token_hash (refresh_tokens db @ [row])"
            using i(9,10) by (simp_all add: unique_by_def tables)
          moreover have "accounts_fit (snd res)" using i(12) by (simp add: res fit_update_tokens)
          ultimately show ?thesis using rotated [of access u stored row] res Some live user active i by simp
        qed
      qed
    qed
  qed
qed

lemma update_by_twice:
  assumes "unique_by rt_id (ts @ [row])" "stored \<in> set ts"
  shows "update_by rt_id (rt_id stored) (\<lambda>t. t\<lparr>rt_replaced_by_id := Some r\<rparr>)
      (update_by rt_id (rt_id stored) (\<lambda>t. t\<lparr>rt_revoked_at := Some now\<rparr>) ts @ [row]) =
    map (\<lambda>t. if t = stored then t\<lparr>rt_revoked_at := Some now, rt_replaced_by_id := Some r\<rparr> else t) ts @ [row]"
proof -
  have row: "rt_id row \<noteq> rt_id stored" using assms by (auto simp: unique_by_def)
  have "t = stored" if "t \<in> set ts" "rt_id t = rt_id stored" for t
    using assms that by (auto simp: unique_by_def dest: inj_onD [OF distinct_map [THEN iffD1, THEN conjunct2]])
  with row show ?thesis by (auto simp: update_by_def)
qed

lemma rotate_step:
  "tokens_step (refresh_tokens db) (refresh_tokens (snd (rotate_refresh_token env k raw db)))"
proof (cases rule: rotate_cases [of env k raw db])
  case refused
  then show ?thesis by (simp add: ts_same)
next
  case (reused stored)
  then show ?thesis by (simp add: revoke_family_def revoke_where_step)
next
  case (rotated stored u access row)
  have mem: "stored \<in> set (refresh_tokens db)"
    using rotated(2) by (auto simp: get_refresh_by_hash_def dest: find_by_mem)
  have uid: "rt_user_id stored = u_id u"
    using rotated(5) by (auto simp: get_user_by_id_def dest: find_by_key)
  show ?thesis
    unfolding rotated(15) using ts_rotate [OF mem rotated(3,8) _ rotated(10,11,13)] rotated(9) uid
    by (simp add: update_by_twice [OF rotated(13) mem])
qed

lemma logout_step:
  assumes uniq: "unique_by rt_id (refresh_tokens db)"
  shows "tokens_step (refresh_tokens db) (refresh_tokens (snd (logout env now token db)))"
proof -
  have "tokens_step (refresh_tokens db) (refresh_tokens (logout_service env now raw db))" for raw
  proof (cases "get_refresh_by_hash (e_hash_token env raw) db")
    case None
    then show ?thesis by (simp add: logout_service_def ts_same)
  next
    case (Some stored)
    show ?thesis
    proof (cases "rt_revoked_at stored = None")
      case True
      have mem: "stored \<in> set (refresh_tokens db)" using Some by (auto simp: get_refresh_by_hash_def dest: find_by_mem)
      have one: "t = stored" if "t \<in> set (refresh_tokens db)" "rt_id t = rt_id stored" for t
        using uniq mem that unfolding unique_by_def distinct_map by (blast dest: inj_onD)
      have "update_by rt_id (rt_id stored) (\<lambda>t. t\<lparr>rt_revoked_at := Some now\<rparr>) (refresh_tokens db) =
          map (\<lambda>t. if rt_id t = rt_id stored \<and> rt_revoked_at t = None then t\<lparr>rt_revoked_at := Some now\<rparr> else t)
            (refresh_tokens db)"
        using one True unfolding update_by_def by (intro map_cong refl if_cong) metis+
      then show ?thesis using Some True ts_revoke [of "refresh_tokens db" "\<lambda>t. rt_id t = rt_id stored" now]
        by (simp add: logout_service_def)
    next
      case False
      with Some show ?thesis by (auto simp: logout_service_def ts_same)
    qed
  qed
  then show ?thesis by (cases "truthy token") (simp_all add: logout_def ts_same)
qed

text \<open>A successful update of a user, field by field.\<close>

definition role_step :: "datetime \<Rightarrow> uuid \<Rightarrow> user_role option \<Rightarrow> uuid \<Rightarrow> user \<Rightarrow> 'a accounts_db_scheme \<Rightarrow> user \<times> 'a accounts_db_scheme" where
  "role_step db_now uid role actor u db =
     (case role of None \<Rightarrow> (u, db)
      | Some r \<Rightarrow> if r = u_role u then (u, db)
          else (u\<lparr>u_role := r\<rparr>, put_user (\<lambda>u. u\<lparr>u_role := r\<rparr>) uid
            (write_audit_log db_now (Some actor) ''user.role_changed'' ''user'' (Some (u_id u))
              (Some [(''from'', JStr (role_value (u_role u))), (''to'', JStr (role_value r))]) db)))"

definition active_step :: "datetime \<Rightarrow> uuid \<Rightarrow> bool option \<Rightarrow> uuid \<Rightarrow> user \<times> 'a accounts_db_scheme \<Rightarrow> user \<times> 'a accounts_db_scheme" where
  "active_step db_now uid act actor p = (case p of (u, db) \<Rightarrow>
     (case act of None \<Rightarrow> (u, db)
      | Some a \<Rightarrow> if a = u_is_active u then (u, db)
          else (u\<lparr>u_is_active := a\<rparr>, put_user (\<lambda>u. u\<lparr>u_is_active := a\<rparr>) uid
            (write_audit_log db_now (Some actor) (if a then ''user.activated'' else ''user.deactivated'')
              ''user'' (Some (u_id u)) None db))))"

lemma update_user_service_eq:
  "update_user_service db_now uid data actor db =
     (case get_user_by_id uid db of
        None \<Rightarrow> Inl NotFoundError
      | Some u \<Rightarrow>
          if (case au_role data of None \<Rightarrow> False | Some r \<Rightarrow> r \<noteq> u_role u \<and> u_id u = actor) then Inl ConflictError
          else Inr (active_step db_now uid (au_is_active data) actor (role_step db_now uid (au_role data) actor u db)))"
proof (cases "get_user_by_id uid db")
  case None
  then show ?thesis by (simp add: update_user_service_def admin_get_user_service_def)
next
  case (Some u)
  show ?thesis
  proof (cases "au_role data")
    case None
    with Some show ?thesis
      by (simp add: update_user_service_def admin_get_user_service_def role_step_def active_step_def)
  next
    case role: (Some r)
    then show ?thesis
      by (cases "r = u_role u"; cases "u_id u = actor")
         (simp_all add: update_user_service_def admin_get_user_service_def role_step_def active_step_def Some role)
  qed
qed

lemma user_steps_tokens:
  "refresh_tokens (snd (role_step db_now uid role actor u db)) = refresh_tokens db"
  "refresh_tokens (snd (active_step db_now uid act actor p)) = refresh_tokens (snd p)"
  by (simp_all add: role_step_def active_step_def write_audit_log_def split: option.splits prod.splits)

lemma update_user_tokens:
  "update_user_service db_now uid ud actor db = Inr (v, db1) \<Longrightarrow> refresh_tokens db1 = refresh_tokens db"
  using user_steps_tokens(1) [of db_now uid "au_role ud" actor _ db]
    user_steps_tokens(2) [of db_now uid "au_is_active ud" actor "role_step db_now uid (au_role ud) actor _ db"]
  by (auto simp: update_user_service_eq split: option.splits if_splits) (metis snd_conv)+

lemma tokens_flow:
  "refresh_tokens (issue_email_verification env k u db) = refresh_tokens db"
  "refresh_tokens (request_password_reset_service env k email db) = refresh_tokens db"
  "register_user env k email d db = Inr (v, db1) \<Longrightarrow> refresh_tokens db1 = refresh_tokens db"
  "authenticate env now email password db = Inr (v, db1) \<Longrightarrow> refresh_tokens db1 = refresh_tokens db"
  "confirm_email_verification_service env now token db = Inr db1 \<Longrightarrow> refresh_tokens db1 = refresh_tokens db"
  "login_or_register_with_google env k i db = Inr (v, db1) \<Longrightarrow> refresh_tokens db1 = refresh_tokens db"
  "link_google_account env v i db = Inr db1 \<Longrightarrow> refresh_tokens db1 = refresh_tokens db"
  subgoal by (simp add: issue_email_verification_def)
  subgoal by (simp add: request_password_reset_service_def split: option.splits)
  subgoal by (auto simp: register_user_def issue_email_verification_def Let_def bindE_eq_Inr split: if_splits)
  subgoal by (auto simp: authenticate_def split: option.splits if_splits)
  subgoal by (auto simp: confirm_email_verification_service_def bindE_eq_Inr)
  subgoal by (auto simp: login_or_register_with_google_def Let_def bindE_eq_Inr split: option.splits if_splits)
  subgoal by (auto simp: link_google_account_def split: if_splits)
  done

lemma issue_pair_step:
  assumes "issue_token_pair env k u db = Inr (r, db')" "a_family k \<notin> rt_family_id ` set (refresh_tokens db)"
  shows "tokens_step (refresh_tokens db) (refresh_tokens db')"
proof -
  from assms(1) obtain access raw row where
    i: "issue_refresh_token env k u (a_family k) db = Inr ((access, raw, row), db')"
    by (auto simp: issue_token_pair_def bindE_eq_Inr)
  note row = issue_refresh_token_Inr [OF i]
  have "tokens_step (refresh_tokens db) (refresh_tokens db @ [row])"
    by (rule ts_open) (use row assms(2) in simp_all)
  then show ?thesis by (simp add: row(2))
qed

section \<open>Runs of the authentication routes\<close>

text \<open>The requests that reach the table of sessions, in any order, with any inputs. The family of a new
  session is a fresh UUID; \<open>other\<close> is every request of another component.\<close>

inductive auth_step :: "auth_env \<Rightarrow> 'a accounts_db_scheme \<Rightarrow> 'a accounts_db_scheme \<Rightarrow> bool" for env where
  as_register: "a_family k \<notin> rt_family_id ` set (refresh_tokens db) \<Longrightarrow> auth_step env db (snd (register env k d db))"
| as_login: "a_family k \<notin> rt_family_id ` set (refresh_tokens db) \<Longrightarrow> auth_step env db (snd (login env k email pw db))"
| as_google: "a_family k \<notin> rt_family_id ` set (refresh_tokens db) \<Longrightarrow>
    auth_step env db (snd (google_callback env cfg post get k code state db))"
| as_refresh: "auth_step env db (snd (refresh env k token db))"
| as_logout: "auth_step env db (snd (logout env now token db))"
| as_change: "auth_step env db (snd (change_password env k u current new db))"
| as_ask_reset: "auth_step env db (snd (request_password_reset env k email db))"
| as_reset: "auth_step env db (snd (confirm_password_reset env k t new db))"
| as_verify: "auth_step env db (snd (confirm_email_verification env now t db))"
| as_update: "auth_step env db (snd (update_user admin db_now uid ud db))"
| as_other: "refresh_tokens db' = refresh_tokens db \<Longrightarrow> users db' = users db \<Longrightarrow>
    oauth_accounts db' = oauth_accounts db \<Longrightarrow> password_resets db' = password_resets db \<Longrightarrow>
    email_verifications db' = email_verifications db \<Longrightarrow> auth_step env db db'"

lemma request_tokens_step:
  assumes "\<And>r db'. m = Inr (r, db') \<Longrightarrow> tokens_step (refresh_tokens db) (refresh_tokens db')"
  shows "tokens_step (refresh_tokens db) (refresh_tokens (snd (request db m)))"
  by (rule request_invariant [where I = "\<lambda>s. tokens_step (refresh_tokens db) (refresh_tokens s)"])
     (simp_all add: ts_same assms)

lemma signed_in_step:
  assumes "signed_in env k u db = Inr (r, db')" "a_family k \<notin> rt_family_id ` set (refresh_tokens db)"
  shows "tokens_step (refresh_tokens db) (refresh_tokens db')"
  using assms by (auto simp: signed_in_def bindE_eq_Inr intro: issue_pair_step)

lemma change_service_step:
  assumes "change_password_service env k u current new db = Inr db'"
  shows "tokens_step (refresh_tokens db) (refresh_tokens db')"
  using assms revoke_where_step [of "put_user f uid db" for f uid]
  by (auto simp: change_password_service_def revoke_all_for_user_def split: option.splits if_splits)

lemma confirm_reset_Inr:
  "confirm_password_reset_service env k t new db = Inr db' \<longleftrightarrow>
    (\<exists>r u. usable_token (a_now k) (e_hash_token env t) (password_resets db) = Inr r
       \<and> get_user_by_id (su_user_id r) db = Some u
       \<and> db' = revoke_all_for_user (u_id u) (a_now k)
           ((put_user (\<lambda>u. u\<lparr>u_hashed_password := Some (e_hash_password env (a_salt k) new)\<rparr>) (u_id u) db)
              \<lparr>password_resets := use_token (a_now k) (e_hash_token env t) (password_resets db)\<rparr>))"
  by (auto simp: confirm_password_reset_service_def bindE_eq_Inr)

lemma reset_service_step:
  assumes "confirm_password_reset_service env k t new db = Inr db'"
  shows "tokens_step (refresh_tokens db) (refresh_tokens db')"
proof -
  from assms [unfolded confirm_reset_Inr] obtain u :: user where "db' = revoke_all_for_user (u_id u) (a_now k)
      ((put_user (\<lambda>u. u\<lparr>u_hashed_password := Some (e_hash_password env (a_salt k) new)\<rparr>) (u_id u) db)
         \<lparr>password_resets := use_token (a_now k) (e_hash_token env t) (password_resets db)\<rparr>)"
    by (elim exE conjE) (rule that)
  then have "refresh_tokens db' = refresh_tokens (revoke_where (\<lambda>t. rt_user_id t = u_id u) (a_now k) db)"
    by (simp add: revoke_all_for_user_def revoke_where_def)
  then show ?thesis by (simp only: revoke_where_step)
qed

lemma callback_step:
  assumes "a_family k \<notin> rt_family_id ` set (refresh_tokens db)"
  shows "tokens_step (refresh_tokens db) (refresh_tokens (snd (google_callback env cfg post get k code state db)))"
proof (cases "oauth_sessions db state")
  case None
  then show ?thesis by (simp add: google_callback_def ts_same)
next
  case (Some s)
  define db0 where "db0 = db\<lparr>oauth_sessions := (oauth_sessions db)(state := None)\<rparr>"
  have t0: "refresh_tokens db0 = refresh_tokens db" by (simp add: db0_def)
  show ?thesis
  proof (cases "google_identity_of cfg post get s code")
    case (Inl e)
    with Some show ?thesis by (simp add: google_callback_def ts_same)
  next
    case (Inr identity)
    define m where "m = (case os_link_user s of
       Some uid \<Rightarrow>
         bindE (the_or UnauthorizedError (get_user_by_id uid db0)) (\<lambda>u.
         bindE (link_google_account env u identity db0) (\<lambda>db1. flush_accounts [] db1))
     | None \<Rightarrow>
         bindE (login_or_register_with_google env k identity db0) (\<lambda>(u, db1).
         bindE (issue_token_pair env k u db1) (\<lambda>((access, raw), db2).
           flush_accounts (auth_cookies env k access raw) db2)))"
    have run: "google_callback env cfg post get k code state db = request db0 m"
      by (simp only: google_callback_def Some Inr option.case sum.case Let_def db0_def m_def)
    have "tokens_step (refresh_tokens db0) (refresh_tokens db')" if m: "m = Inr (r, db')" for r db'
    proof (cases "os_link_user s")
      case None
      with m obtain u db1 access raw where
        l: "login_or_register_with_google env k identity db0 = Inr (u, db1)"
        and i: "issue_token_pair env k u db1 = Inr ((access, raw), db')"
        by (auto simp: m_def bindE_eq_Inr)
      have "refresh_tokens db1 = refresh_tokens db" using tokens_flow(6) [OF l] t0 by simp
      with issue_pair_step [OF i] assms t0 show ?thesis by simp
    next
      case (Some uid)
      with m obtain u where "link_google_account env u identity db0 = Inr db'" by (auto simp: m_def bindE_eq_Inr)
      from tokens_flow(7) [OF this] show ?thesis by (simp add: ts_same)
    qed
    then show ?thesis unfolding run t0 [symmetric] by (rule request_tokens_step)
  qed
qed

lemma auth_tokens_step:
  "auth_step env db db' \<Longrightarrow> unique_by rt_id (refresh_tokens db) \<Longrightarrow> tokens_step (refresh_tokens db) (refresh_tokens db')"
proof (induction rule: auth_step.induct)
  case (as_register k db d)
  show ?case unfolding register_def
  proof (rule request_tokens_step)
    fix r db'
    assume "bindE (the_or RequestValidationError (e_email env (rr_email d))) (\<lambda>email.
      bindE (validated (register_valid d)) (\<lambda>_.
      bindE (register_user env k email d db) (\<lambda>(u, db1). signed_in env k u db1))) = Inr (r, db')"
    then obtain email u db1 where "register_user env k email d db = Inr (u, db1)" "signed_in env k u db1 = Inr (r, db')"
      by (auto simp: bindE_eq_Inr)
    with signed_in_step [of env k u db1 r db'] tokens_flow(3) as_register
    show "tokens_step (refresh_tokens db) (refresh_tokens db')" by metis
  qed
next
  case (as_login k db email pw)
  show ?case unfolding login_def
  proof (rule request_tokens_step)
    fix r db'
    assume "bindE (the_or RequestValidationError (e_email env email)) (\<lambda>email.
      bindE (authenticate env (a_now k) email pw db) (\<lambda>(u, db1). signed_in env k u db1)) = Inr (r, db')"
    then obtain email' u db1 where "authenticate env (a_now k) email' pw db = Inr (u, db1)"
      "signed_in env k u db1 = Inr (r, db')" by (auto simp: bindE_eq_Inr)
    with signed_in_step [of env k u db1 r db'] tokens_flow(4) as_login
    show "tokens_step (refresh_tokens db) (refresh_tokens db')" by metis
  qed
next
  case (as_google k db cfg post get code state)
  show ?case by (rule callback_step [OF as_google(1)])
next
  case (as_refresh db k token)
  show ?case
  proof (cases "truthy token")
    case (Some raw)
    then have "snd (refresh env k token db) = snd (rotate_refresh_token env k raw db)"
      by (simp add: refresh_def split: prod.splits sum.splits)
    then show ?thesis by (simp only: rotate_step)
  qed (simp add: refresh_def ts_same)
next
  case (as_logout db now token)
  then show ?case by (rule logout_step)
next
  case (as_change db k u current new)
  show ?case unfolding change_password_def
    by (rule request_tokens_step) (auto simp: bindE_eq_Inr intro: change_service_step)
next
  case (as_ask_reset db k email)
  show ?case unfolding request_password_reset_def
    by (rule request_tokens_step) (auto simp: bindE_eq_Inr tokens_flow ts_same)
next
  case (as_reset db k t new)
  show ?case unfolding confirm_password_reset_def
    by (rule request_tokens_step) (auto simp: bindE_eq_Inr intro: reset_service_step)
next
  case (as_verify db now t)
  show ?case unfolding confirm_email_verification_def
    by (rule request_tokens_step) (auto simp: bindE_eq_Inr ts_same dest: tokens_flow(5))
next
  case (as_update db admin db_now uid ud)
  show ?case unfolding update_user_def
    by (rule request_tokens_step) (auto simp: bindE_eq_Inr ts_same dest: update_user_tokens)
next
  case (as_other db' db)
  then show ?case by (simp add: ts_same)
qed

lemma sessions_run:
  assumes "(auth_step env)\<^sup>*\<^sup>* db db'" "families_ok (refresh_tokens db)"
  shows "families_ok (refresh_tokens db') \<and> tokens_step\<^sup>*\<^sup>* (refresh_tokens db) (refresh_tokens db')"
  using assms
proof (induction rule: rtranclp_induct)
  case base
  then show ?case by simp
next
  case (step y z)
  then have y: "families_ok (refresh_tokens y)" "tokens_step\<^sup>*\<^sup>* (refresh_tokens db) (refresh_tokens y)" by simp_all
  have "unique_by rt_id (refresh_tokens y)" using y(1) by (simp only: families_ok_def)
  from auth_tokens_step [OF step.hyps(2) this] have t: "tokens_step (refresh_tokens y) (refresh_tokens z)" .
  from families_step [OF t y(1)] rtranclp.rtrancl_into_rtrancl [OF y(2) t] show ?case ..
qed

section \<open>The accounts keep to their columns and keys\<close>

lemma fit_rotate:
  assumes "accounts_fit db" shows "accounts_fit (snd (rotate_refresh_token env k raw db))"
proof (cases rule: rotate_cases [of env k raw db])
  case refused
  then show ?thesis using assms by simp
next
  case (reused stored)
  then show ?thesis using assms by (simp add: revoke_family_def fit_revoke)
next
  case (rotated stored u access row)
  then show ?thesis by blast
qed

lemma request_fit:
  assumes "accounts_fit db" "\<And>r db'. m = Inr (r, db') \<Longrightarrow> accounts_fit db'"
  shows "accounts_fit (snd (request db m))"
  by (rule request_invariant [where I = accounts_fit]) (use assms in simp_all)

lemma update_user_fit:
  assumes "accounts_fit db" shows "accounts_fit (snd (update_user admin db_now uid ud db))"
proof -
  have put: "accounts_fit (put_user (\<lambda>u. u\<lparr>u_role := r\<rparr>) uid db0) = accounts_fit db0"
    "accounts_fit (put_user (\<lambda>u. u\<lparr>u_is_active := a\<rparr>) uid db0) = accounts_fit db0" for r a and db0 :: "'a accounts_db_scheme"
    by (rule accounts_fit_cong; simp add: put_user_def update_by_def)+
  have audit: "accounts_fit (write_audit_log n ac x y z m db0) = accounts_fit db0"
    for n ac x y z m and db0 :: "'a accounts_db_scheme"
    by (rule accounts_fit_cong) (simp_all add: write_audit_log_def)
  have steps: "accounts_fit (snd (active_step db_now uid act actor (role_step db_now uid role actor u db)))" for act actor role u
    using assms by (simp add: active_step_def role_step_def put audit split: option.splits prod.splits)
  show ?thesis unfolding update_user_def
  proof (rule request_fit [OF assms])
    fix r db'
    assume "bindE (require_permission ''user.manage'' admin) (\<lambda>_.
      bindE (update_user_service db_now uid ud (u_id admin) db) (\<lambda>(v, db1). Inr (public_admin_user v, db1))) = Inr (r, db')"
    then obtain v where "update_user_service db_now uid ud (u_id admin) db = Inr (v, db')" by (auto simp: bindE_eq_Inr)
    then obtain u where "active_step db_now uid (au_is_active ud) (u_id admin) (role_step db_now uid (au_role ud) (u_id admin) u db) = (v, db')"
      by (auto simp: update_user_service_eq split: option.splits if_splits)
    with steps [of "au_is_active ud" "u_id admin" "au_role ud" u] show "accounts_fit db'" by simp
  qed
qed

lemma auth_fit_step: "auth_step env db db' \<Longrightarrow> accounts_fit db \<Longrightarrow> accounts_fit db'"
proof (induction rule: auth_step.induct)
  case (as_register k db d)
  then show ?case unfolding register_def by (intro request_fit) (auto simp: bindE_eq_Inr signed_in_def)
next
  case (as_login k db email pw)
  then show ?case unfolding login_def by (intro request_fit) (auto simp: bindE_eq_Inr signed_in_def)
next
  case (as_google k db cfg post get code state)
  have z: "accounts_fit (db\<lparr>oauth_sessions := x\<rparr>)" for x
    using as_google(2) by (simp add: accounts_fit_def)
  show ?case unfolding google_callback_def Let_def
    by (auto simp: as_google(2) z bindE_eq_Inr intro!: request_fit split: option.splits sum.splits)
next
  case (as_refresh db k token)
  show ?case
  proof (cases "truthy token")
    case (Some raw)
    then have "snd (refresh env k token db) = snd (rotate_refresh_token env k raw db)"
      by (simp add: refresh_def split: prod.splits sum.splits)
    then show ?thesis using fit_rotate [OF as_refresh] by simp
  qed (simp add: refresh_def as_refresh)
next
  case (as_logout db now token)
  then show ?case by (simp add: logout_def logout_service_def fit_update_tokens split: option.splits)
next
  case (as_change db k u current new)
  then show ?case unfolding change_password_def by (intro request_fit) (auto simp: bindE_eq_Inr)
next
  case (as_ask_reset db k email)
  then show ?case unfolding request_password_reset_def by (intro request_fit) (auto simp: bindE_eq_Inr)
next
  case (as_reset db k t new)
  then show ?case unfolding confirm_password_reset_def by (intro request_fit) (auto simp: bindE_eq_Inr)
next
  case (as_verify db now t)
  then show ?case unfolding confirm_email_verification_def by (intro request_fit) (auto simp: bindE_eq_Inr)
next
  case (as_update db admin db_now uid ud)
  then show ?case by (rule update_user_fit)
next
  case (as_other db' db)
  then show ?case by (simp add: accounts_fit_def)
qed

lemma accounts_fit_run: "(auth_step env)\<^sup>*\<^sup>* db db' \<Longrightarrow> accounts_fit db \<Longrightarrow> accounts_fit db'"
  by (induction rule: rtranclp_induct) (auto intro: auth_fit_step)

section \<open>Reuse of a refresh token\<close>

lemma reuse_refused:
  assumes "get_refresh_by_hash (e_hash_token env raw) db = Some stored" "rt_revoked_at stored \<noteq> None" "raw \<noteq> []"
  shows "refresh env k (Some raw) db = (Inl UnauthorizedError, revoke_family (rt_family_id stored) (a_now k) db)"
  using assms by (cases raw) (simp_all add: refresh_def rotate_refresh_token_def truthy_def)

lemma revoked_where:
  assumes t: "t \<in> set (refresh_tokens (revoke_where P now db))" "P t"
  shows "rt_revoked_at t \<noteq> None"
  using t by (auto simp: revoke_where_def)

lemma revoke_where_families:
  "map rt_family_id (refresh_tokens (revoke_where P now db)) = map rt_family_id (refresh_tokens db)"
  by (simp add: revoke_where_def)

lemma revoke_family_dead:
  assumes "stored \<in> set (refresh_tokens db)"
  shows "dead_family (rt_family_id stored) (refresh_tokens (revoke_family (rt_family_id stored) now db))"
proof -
  have "rt_family_id stored \<in> set (map rt_family_id (refresh_tokens (revoke_family (rt_family_id stored) now db)))"
    unfolding revoke_family_def revoke_where_families using assms by simp
  moreover have "rt_revoked_at t \<noteq> None"
    if "t \<in> set (refresh_tokens (revoke_family (rt_family_id stored) now db))" "rt_family_id t = rt_family_id stored" for t
    using revoked_where [OF that(1) [unfolded revoke_family_def] that(2)] .
  ultimately show ?thesis unfolding dead_family_def set_map by blast
qed

lemma revoke_family_families:
  "families_ok (refresh_tokens db) \<Longrightarrow> families_ok (refresh_tokens (revoke_family f now db))"
  unfolding revoke_family_def by (rule families_step [OF revoke_where_step])

lemma dead_run:
  assumes "(auth_step env)\<^sup>*\<^sup>* db db'" "families_ok (refresh_tokens db)" "dead_family f (refresh_tokens db)"
  shows "dead_family f (refresh_tokens db')"
  using sessions_run [OF assms(1,2)] dead_steps [OF _ assms(3)] by blast

section \<open>Single-use tokens\<close>

text \<open>A token that was used; no request makes it usable again.\<close>

definition spent :: "string \<Rightarrow> single_use_token list \<Rightarrow> bool" where
  "spent h ts \<longleftrightarrow> (\<exists>r. find_by su_token_hash h ts = Some r \<and> su_used_at r \<noteq> None)"

lemma spent_append [simp]: "spent h ts \<Longrightarrow> spent h (ts @ xs)"
  by (auto simp: spent_def find_by_append)

lemma spent_use [simp]: "spent h ts \<Longrightarrow> spent h (use_token now h' ts)"
proof -
  have "find_by su_token_hash h (use_token now h' ts) =
      map_option (\<lambda>r. if su_token_hash r = h' then r\<lparr>su_used_at := Some now\<rparr> else r) (find_by su_token_hash h ts)"
    unfolding use_token_def by (induction ts) simp_all
  then show "spent h ts \<Longrightarrow> spent h (use_token now h' ts)" by (fastforce simp: spent_def split: if_splits)
qed

lemma spent_unusable: "spent h ts \<Longrightarrow> usable_token now h ts = Inl UnauthorizedError"
  by (auto simp: spent_def usable_token_def)

lemma used_is_spent: "usable_token now h ts = Inr r \<Longrightarrow> spent h (use_token now h ts)"
proof -
  assume "usable_token now h ts = Inr r"
  then have "find_by su_token_hash h ts = Some r" by (auto simp: usable_token_def split: option.splits if_splits)
  then have "find_by su_token_hash h (use_token now h ts) = Some (r\<lparr>su_used_at := Some now\<rparr>)"
    unfolding use_token_def by (subst find_by_update_by) simp_all
  then show ?thesis by (simp add: spent_def)
qed

lemma resets_flow:
  "register_user env k email d db = Inr (v, db1) \<Longrightarrow> password_resets db1 = password_resets db"
  "authenticate env now email pw db = Inr (v, db1) \<Longrightarrow> password_resets db1 = password_resets db"
  "signed_in env k v db = Inr (x, db1) \<Longrightarrow> password_resets db1 = password_resets db"
  "issue_token_pair env k v db = Inr (y, db1) \<Longrightarrow> password_resets db1 = password_resets db"
  "login_or_register_with_google env k i db = Inr (v, db1) \<Longrightarrow> password_resets db1 = password_resets db"
  "link_google_account env v i db = Inr db1 \<Longrightarrow> password_resets db1 = password_resets db"
  "change_password_service env k v c n db = Inr db1 \<Longrightarrow> password_resets db1 = password_resets db"
  "confirm_email_verification_service env now t db = Inr db1 \<Longrightarrow> password_resets db1 = password_resets db"
  "update_user_service db_now uid ud actor db = Inr (v, db1) \<Longrightarrow> password_resets db1 = password_resets db"
  subgoal by (auto simp: register_user_def issue_email_verification_def Let_def bindE_eq_Inr split: if_splits)
  subgoal by (auto simp: authenticate_def put_user_def split: option.splits if_splits)
  subgoal by (auto simp: signed_in_def issue_token_pair_def issue_refresh_token_def Let_def bindE_eq_Inr)
  subgoal by (auto simp: issue_token_pair_def issue_refresh_token_def Let_def bindE_eq_Inr)
  subgoal by (auto simp: login_or_register_with_google_def put_user_def Let_def bindE_eq_Inr split: option.splits if_splits)
  subgoal by (auto simp: link_google_account_def split: if_splits)
  subgoal by (auto simp: change_password_service_def revoke_all_for_user_def revoke_where_def put_user_def split: option.splits if_splits)
  subgoal by (auto simp: confirm_email_verification_service_def put_user_def bindE_eq_Inr)
  subgoal by (auto simp: update_user_service_eq active_step_def role_step_def write_audit_log_def put_user_def
      split: option.splits if_splits)
  done

lemma resets_kept [simp]:
  "password_resets (snd (rotate_refresh_token env k t db)) = password_resets db"
  "password_resets (logout_service env now t db) = password_resets db"
  subgoal by (cases rule: rotate_cases [of env k t db]) (simp_all add: revoke_family_def revoke_where_def)
  subgoal by (simp add: logout_service_def split: option.splits)
  done

lemma spent_request:
  assumes "spent h (password_resets db)" "\<And>r db'. m = Inr (r, db') \<Longrightarrow> spent h (password_resets db')"
  shows "spent h (password_resets (snd (request db m)))"
  by (rule request_invariant [where I = "\<lambda>s. spent h (password_resets s)"]) (use assms in simp_all)

lemma spent_step: "auth_step env db db' \<Longrightarrow> spent h (password_resets db) \<Longrightarrow> spent h (password_resets db')"
proof (induction rule: auth_step.induct)
  case (as_register k db d)
  then show ?case unfolding register_def by (intro spent_request) (auto simp: bindE_eq_Inr dest!: resets_flow)
next
  case (as_login k db email pw)
  then show ?case unfolding login_def by (intro spent_request) (auto simp: bindE_eq_Inr dest!: resets_flow)
next
  case (as_google k db cfg post get code state)
  then have z: "spent h (password_resets (db\<lparr>oauth_sessions := x\<rparr>))" for x by simp
  show ?case unfolding google_callback_def Let_def
    by (auto simp: as_google(2) z bindE_eq_Inr dest!: resets_flow intro!: spent_request split: option.splits sum.splits)
next
  case (as_refresh db k token)
  show ?case
  proof (cases "truthy token")
    case (Some raw)
    then have "snd (refresh env k token db) = snd (rotate_refresh_token env k raw db)"
      by (simp add: refresh_def split: prod.splits sum.splits)
    then show ?thesis using as_refresh by simp
  qed (simp add: refresh_def as_refresh)
next
  case (as_logout db now token)
  then show ?case by (simp add: logout_def split: option.splits)
next
  case (as_change db k u current new)
  then show ?case unfolding change_password_def by (intro spent_request) (auto simp: bindE_eq_Inr dest!: resets_flow)
next
  case (as_ask_reset db k email)
  then show ?case unfolding request_password_reset_def
    by (intro spent_request) (auto simp: bindE_eq_Inr request_password_reset_service_def split: option.splits)
next
  case (as_reset db k t new)
  then show ?case unfolding confirm_password_reset_def
    by (intro spent_request) (auto simp: bindE_eq_Inr confirm_reset_Inr revoke_all_for_user_def revoke_where_def put_user_def)
next
  case (as_verify db now t)
  then show ?case unfolding confirm_email_verification_def by (intro spent_request) (auto simp: bindE_eq_Inr dest!: resets_flow)
next
  case (as_update db admin db_now uid ud)
  then show ?case unfolding update_user_def by (intro spent_request) (auto simp: bindE_eq_Inr dest!: resets_flow)
next
  case (as_other db' db)
  then show ?case by simp
qed

lemma spent_run: "(auth_step env)\<^sup>*\<^sup>* db db' \<Longrightarrow> spent h (password_resets db) \<Longrightarrow> spent h (password_resets db')"
  by (induction rule: rtranclp_induct) (auto intro: spent_step)

text \<open>A password reset that succeeds.\<close>

lemma reset_effect:
  assumes "confirm_password_reset env k t new db = (Inr (), db')"
  obtains r u where "find_by su_token_hash (e_hash_token env t) (password_resets db) = Some r"
    "su_used_at r = None" "a_now k \<le> su_expires_at r" "get_user_by_id (su_user_id r) db = Some u"
    "users db' = update_by u_id (su_user_id r) (\<lambda>u. u\<lparr>u_hashed_password := Some (e_hash_password env (a_salt k) new)\<rparr>) (users db)"
    "refresh_tokens db' = refresh_tokens (revoke_all_for_user (su_user_id r) (a_now k) db)"
    "spent (e_hash_token env t) (password_resets db')"
proof -
  from assms have "confirm_password_reset_service env k t new db = Inr db'"
    by (auto simp: confirm_password_reset_def request_def bindE_eq_Inr split: sum.splits)
  from this [unfolded confirm_reset_Inr] obtain r u where
    r: "usable_token (a_now k) (e_hash_token env t) (password_resets db) = Inr r"
    and u: "get_user_by_id (su_user_id r) db = Some u"
    and db': "db' = revoke_all_for_user (u_id u) (a_now k)
           ((put_user (\<lambda>u. u\<lparr>u_hashed_password := Some (e_hash_password env (a_salt k) new)\<rparr>) (u_id u) db)
              \<lparr>password_resets := use_token (a_now k) (e_hash_token env t) (password_resets db)\<rparr>)"
    by (elim exE conjE) (rule that)
  have id: "u_id u = su_user_id r" using u by (auto simp: get_user_by_id_def dest: find_by_key)
  from r have f: "find_by su_token_hash (e_hash_token env t) (password_resets db) = Some r" "su_used_at r = None"
      "a_now k \<le> su_expires_at r"
    by (auto simp: usable_token_def split: option.splits if_splits)
  show ?thesis
    by (rule that [OF f u])
       (use used_is_spent [OF r] in \<open>simp_all add: db' id revoke_all_for_user_def revoke_where_def put_user_def\<close>)
qed

lemma revoke_all_sessions:
  "t \<in> set (refresh_tokens (revoke_all_for_user uid now db)) \<Longrightarrow> rt_user_id t = uid \<Longrightarrow> rt_revoked_at t \<noteq> None"
  "filter (\<lambda>t. rt_user_id t \<noteq> uid) (refresh_tokens (revoke_all_for_user uid now db)) =
     filter (\<lambda>t. rt_user_id t \<noteq> uid) (refresh_tokens db)"
proof -
  show "rt_revoked_at t \<noteq> None" if "t \<in> set (refresh_tokens (revoke_all_for_user uid now db))" "rt_user_id t = uid"
    using revoked_where [OF that(1) [unfolded revoke_all_for_user_def] that(2)] .
  have "filter (\<lambda>t. rt_user_id t \<noteq> uid) (map (\<lambda>t. if rt_user_id t = uid \<and> rt_revoked_at t = None
      then t\<lparr>rt_revoked_at := Some now\<rparr> else t) ts) = filter (\<lambda>t. rt_user_id t \<noteq> uid) ts" for ts
    by (induction ts) auto
  then show "filter (\<lambda>t. rt_user_id t \<noteq> uid) (refresh_tokens (revoke_all_for_user uid now db)) =
     filter (\<lambda>t. rt_user_id t \<noteq> uid) (refresh_tokens db)" by (simp add: revoke_all_for_user_def revoke_where_def)
qed

section \<open>Ways into a session\<close>

lemma issue_pair_row:
  assumes "issue_token_pair env k u db = Inr ((access, raw), db')"
  obtains row where "db' = db\<lparr>refresh_tokens := refresh_tokens db @ [row]\<rparr>" "rt_user_id row = u_id u"
    "rt_family_id row = a_family k" "rt_revoked_at row = None" "rt_token_hash row = e_hash_token env (a_raw k)"
    "raw = a_raw k" "access = create_access_token (e_encode env) (e_settings env) (a_now k) (a_jti k) (u_id u) (u_role u)"
proof -
  from assms obtain row where i: "issue_refresh_token env k u (a_family k) db = Inr ((access, raw, row), db')"
    by (auto simp: issue_token_pair_def bindE_eq_Inr)
  note r = issue_refresh_token_Inr [OF i]
  show ?thesis by (rule that [OF r(2,4,3,5,8,1,11)])
qed

lemma login_effect:
  assumes "login env k email pw db = (Inr (v, cks), db')"
  obtains a u h row where "e_email env email = Some a" "get_user_by_email env a db = Some u"
    "u_hashed_password u = Some h" "e_verify env pw h" "u_is_active u" "v = public_user u"
    "users db' = update_by u_id (u_id u) (\<lambda>u. u\<lparr>u_last_login := Some (a_now k)\<rparr>) (users db)"
    "refresh_tokens db' = refresh_tokens db @ [row]"
    "rt_user_id row = u_id u" "rt_revoked_at row = None" "rt_token_hash row = e_hash_token env (a_raw k)"
    "rt_family_id row = a_family k"
    "cks = auth_cookies env k
       (create_access_token (e_encode env) (e_settings env) (a_now k) (a_jti k) (u_id u) (u_role u)) (a_raw k)"
proof -
  from assms obtain a u' db1 where a: "e_email env email = Some a"
    and l: "authenticate env (a_now k) a pw db = Inr (u', db1)"
    and s: "signed_in env k u' db1 = Inr ((v, cks), db')"
    by (auto simp: login_def request_def bindE_eq_Inr split: sum.splits)
  from l obtain u h where u: "get_user_by_email env a db = Some u" "u_hashed_password u = Some h" "e_verify env pw h"
      "u_is_active u" and u': "u' = u\<lparr>u_last_login := Some (a_now k)\<rparr>"
      and db1: "db1 = put_user (\<lambda>u. u\<lparr>u_last_login := Some (a_now k)\<rparr>) (u_id u) db"
    by (auto simp: authenticate_def split: option.splits if_splits)
  from s obtain access raw where p: "issue_token_pair env k u' db1 = Inr ((access, raw), db')"
    and v: "v = public_user u'" and c: "cks = auth_cookies env k access raw"
    by (auto simp: signed_in_def bindE_eq_Inr)
  from p obtain row where row: "db' = db1\<lparr>refresh_tokens := refresh_tokens db1 @ [row]\<rparr>" "rt_user_id row = u_id u'"
    "rt_family_id row = a_family k" "rt_revoked_at row = None" "rt_token_hash row = e_hash_token env (a_raw k)"
    "raw = a_raw k" "access = create_access_token (e_encode env) (e_settings env) (a_now k) (a_jti k) (u_id u') (u_role u')"
    by (rule issue_pair_row)
  show ?thesis
    by (rule that [OF a u, where row = row]) (simp_all add: row(2-) row(1) v c u' db1 put_user_def public_user_def)
qed

lemma login_opens:
  assumes "login env k email pw db = (Inr (v, cks), db')"
  shows "\<exists>row. refresh_tokens db' = refresh_tokens db @ [row]"
  using assms by (rule login_effect) blast

text \<open>Signing in with Google opens a session for the user of a link that exists, or for a new user.\<close>

lemma google_effect:
  assumes "google_callback env cfg post get k code state db = (Inr cks, db')"
    and "oauth_sessions db state = Some s" "os_link_user s = None"
  obtains identity row where "google_identity_of cfg post get s code = Inr identity"
    "refresh_tokens db' = refresh_tokens db @ [row]"
    "(\<exists>acct \<in> set (oauth_accounts db). oa_key acct = (Google, gi_subject identity) \<and> oa_user_id acct = rt_user_id row
        \<and> map u_id (users db') = map u_id (users db) \<and> oauth_accounts db' = oauth_accounts db)
     \<or> e_lower env (gi_email identity) \<notin> u_email ` set (users db) \<and> rt_user_id row = a_user k
        \<and> a_user k \<notin> u_id ` set (users db)"
proof -
  define db0 where "db0 = db\<lparr>oauth_sessions := (oauth_sessions db)(state := None)\<rparr>"
  have fields: "users db0 = users db" "oauth_accounts db0 = oauth_accounts db" "refresh_tokens db0 = refresh_tokens db"
    by (simp_all add: db0_def)
  obtain identity where i: "google_identity_of cfg post get s code = Inr identity"
    using assms by (cases "google_identity_of cfg post get s code") (simp_all add: google_callback_def)
  from assms i have "request db0 (bindE (login_or_register_with_google env k identity db0) (\<lambda>(u, db1).
      bindE (issue_token_pair env k u db1) (\<lambda>((access, raw), db2).
        flush_accounts (auth_cookies env k access raw) db2))) = (Inr cks, db')"
    by (simp only: google_callback_def option.case sum.case Let_def db0_def)
  then obtain u db1 access raw where l: "login_or_register_with_google env k identity db0 = Inr (u, db1)"
    and p: "issue_token_pair env k u db1 = Inr ((access, raw), db')"
    by (auto simp: request_def bindE_eq_Inr split: sum.splits)
  from p obtain row where row: "db' = db1\<lparr>refresh_tokens := refresh_tokens db1 @ [row]\<rparr>" "rt_user_id row = u_id u"
    by (rule issue_pair_row)
  have rt: "refresh_tokens db' = refresh_tokens db @ [row]" using tokens_flow(6) [OF l] row(1) fields by simp
  show ?thesis
  proof (cases "get_user_by_oauth Google (gi_subject identity) db0")
    case (Some v)
    with l have u: "u_id u = u_id v"
      and db1: "db1 = put_user (\<lambda>u. u\<lparr>u_last_login := Some (a_now k)\<rparr>) (u_id v) db0"
      by (auto simp: login_or_register_with_google_def)
    from Some obtain acct where acct: "find_by oa_key (Google, gi_subject identity) (oauth_accounts db0) = Some acct"
      "get_user_by_id (oa_user_id acct) db0 = Some v"
      by (auto simp: get_user_by_oauth_def split: option.splits)
    have "acct \<in> set (oauth_accounts db)" "oa_key acct = (Google, gi_subject identity)"
      using find_by_SomeD [OF acct(1)] fields by simp_all
    moreover have "oa_user_id acct = rt_user_id row"
      using acct(2) row(2) u by (auto simp: get_user_by_id_def dest: find_by_key)
    moreover have "map u_id (users db') = map u_id (users db)" "oauth_accounts db' = oauth_accounts db"
      by (simp_all add: row(1) db1 put_user_def fields map_update_by_same)
    ultimately show ?thesis using that [OF i rt] by blast
  next
    case None
    with l have e: "get_user_by_email env (gi_email identity) db0 = None" and u: "u_id u = a_user k"
      and f: "unique_by u_id (users db0 @ [u])"
      by (auto simp: login_or_register_with_google_def Let_def bindE_eq_Inr accounts_fit_def split: if_splits)
    have "e_lower env (gi_email identity) \<notin> u_email ` set (users db)"
      using e fields by (simp add: get_user_by_email_def find_by_None)
    moreover have "a_user k \<notin> u_id ` set (users db)" using f u fields by (simp add: tables find_by_None)
    moreover have "rt_user_id row = a_user k" using row(2) u by simp
    ultimately show ?thesis using that [OF i rt] by blast
  qed
qed

section \<open>The current user\<close>

definition issued_claims :: "auth_env \<Rightarrow> auth_fresh \<Rightarrow> user \<Rightarrow> jwt_claims" where
  "issued_claims env k u =
     \<lparr> jc_sub = Some (u_id u), jc_role = u_role u, jc_jti = a_jti k, jc_iat = a_now k div seconds 1,
       jc_exp = (a_now k + seconds (60 * st_access_token_expire_minutes (e_settings env))) div seconds 1,
       jc_type = ''access'' \<rparr>"

lemma issued_token:
  "create_access_token (e_encode env) (e_settings env) (a_now k) (a_jti k) (u_id u) (u_role u) =
     e_encode env (issued_claims env k u)"
  by (simp add: create_access_token_def issued_claims_def)

text \<open>With an access token the library accepts, the current user is the row the token names, while that
  account is active.\<close>

lemma current_user_of_token:
  assumes "token \<noteq> []" "e_decode env now token = Some c" "jc_type c = ''access''" "jc_sub c = Some uid"
  shows "get_current_user env now (Some token) header db =
     (case get_user_by_id uid db of None \<Rightarrow> Inl UnauthorizedError
      | Some u \<Rightarrow> if u_is_active u then Inr u else Inl UnauthorizedError)"
  using assms by (cases token) (simp_all add: get_current_user_def truthy_def decode_access_token_def split: option.splits)

lemma no_user_of_refused_token:
  assumes "token \<noteq> []" "e_decode env now token = None"
  shows "get_current_user env now (Some token) header db = Inl UnauthorizedError"
  using assms by (cases token) (simp_all add: get_current_user_def truthy_def decode_access_token_def)

section \<open>Administration\<close>

lemma update_user_effect:
  assumes run: "update_user admin db_now uid data db = (Inr v, db')"
  obtains u where "get_user_by_id uid db = Some u" "role_has_permission (u_role admin) ''user.manage''"
    "\<And>r. au_role data = Some r \<Longrightarrow> r \<noteq> u_role u \<Longrightarrow> uid \<noteq> u_id admin"
    "v = public_admin_user (u\<lparr>u_role := (case au_role data of None \<Rightarrow> u_role u | Some r \<Rightarrow> r),
           u_is_active := (case au_is_active data of None \<Rightarrow> u_is_active u | Some a \<Rightarrow> a)\<rparr>)"
    "map al_action (audit_logs db') = map al_action (audit_logs db)
       @ (case au_role data of None \<Rightarrow> [] | Some r \<Rightarrow> if r = u_role u then [] else [''user.role_changed''])
       @ (case au_is_active data of None \<Rightarrow> [] | Some a \<Rightarrow> if a = u_is_active u then []
            else [if a then ''user.activated'' else ''user.deactivated''])"
    "\<forall>row \<in> set (drop (length (audit_logs db)) (audit_logs db')). al_actor_id row = Some (u_id admin) \<and> al_resource_id row = Some uid"
proof -
  from run obtain v' where perm: "role_has_permission (u_role admin) ''user.manage''"
    and s: "update_user_service db_now uid data (u_id admin) db = Inr (v', db')" and v: "v = public_admin_user v'"
    by (auto simp: update_user_def request_def bindE_eq_Inr require_permission_Inr split: sum.splits)
  from s obtain u where u: "get_user_by_id uid db = Some u"
    and self: "\<And>r. au_role data = Some r \<Longrightarrow> r \<noteq> u_role u \<Longrightarrow> uid \<noteq> u_id admin"
    and res: "(v', db') = active_step db_now uid (au_is_active data) (u_id admin)
                (role_step db_now uid (au_role data) (u_id admin) u db)"
  proof -
    assume *: "\<And>u. get_user_by_id uid db = Some u \<Longrightarrow>
      (\<And>r. au_role data = Some r \<Longrightarrow> r \<noteq> u_role u \<Longrightarrow> uid \<noteq> u_id admin) \<Longrightarrow>
      (v', db') = active_step db_now uid (au_is_active data) (u_id admin)
                (role_step db_now uid (au_role data) (u_id admin) u db) \<Longrightarrow> thesis"
    obtain u where u: "get_user_by_id uid db = Some u" using s by (cases "get_user_by_id uid db") (simp_all add: update_user_service_eq)
    have "u_id u = uid" using u by (auto simp: get_user_by_id_def dest: find_by_key)
    with s u show thesis by (intro * [OF u]) (auto simp: update_user_service_eq split: if_splits option.splits)
  qed
  have id: "u_id u = uid" using u by (auto simp: get_user_by_id_def dest: find_by_key)
  show ?thesis
  proof (rule that [OF u perm self])
    show "v = public_admin_user (u\<lparr>u_role := (case au_role data of None \<Rightarrow> u_role u | Some r \<Rightarrow> r),
           u_is_active := (case au_is_active data of None \<Rightarrow> u_is_active u | Some a \<Rightarrow> a)\<rparr>)"
      using res unfolding v by (auto simp: active_step_def role_step_def split: option.splits if_splits)
  next
    show "map al_action (audit_logs db') = map al_action (audit_logs db)
       @ (case au_role data of None \<Rightarrow> [] | Some r \<Rightarrow> if r = u_role u then [] else [''user.role_changed''])
       @ (case au_is_active data of None \<Rightarrow> [] | Some a \<Rightarrow> if a = u_is_active u then []
            else [if a then ''user.activated'' else ''user.deactivated''])"
      using res by (auto simp: active_step_def role_step_def write_audit_log_def put_user_def split: option.splits if_splits)
  next
    show "\<forall>row \<in> set (drop (length (audit_logs db)) (audit_logs db')). al_actor_id row = Some (u_id admin) \<and> al_resource_id row = Some uid"
      using res by (auto simp: active_step_def role_step_def write_audit_log_def put_user_def id split: option.splits if_splits)
  qed
qed

text \<open>The stored rows: the user's, with what was asked, and the others.\<close>

lemma update_user_rows:
  assumes run: "update_user admin db_now uid data db = (Inr v, db')" and u: "get_user_by_id uid db = Some u"
  shows "find_by u_id uid (users db') = Some (u\<lparr>u_role := aup_role v, u_is_active := aup_is_active v\<rparr>)"
    "filter (\<lambda>r. u_id r \<noteq> uid) (users db') = filter (\<lambda>r. u_id r \<noteq> uid) (users db)"
proof -
  from run obtain v' where s: "update_user_service db_now uid data (u_id admin) db = Inr (v', db')" and v: "v = public_admin_user v'"
    by (auto simp: update_user_def request_def bindE_eq_Inr split: sum.splits)
  from s have res: "(v', db') = active_step db_now uid (au_is_active data) (u_id admin)
                (role_step db_now uid (au_role data) (u_id admin) u db)"
    by (auto simp: update_user_service_eq u split: option.splits if_splits)
  have f: "find_by u_id uid (users db) = Some u" using u by (simp add: get_user_by_id_def)
  have up: "find_by u_id uid (update_by u_id uid g us) = map_option g (find_by u_id uid us)"
    if "\<And>r. u_id (g r) = u_id r" for g us using that by (induction us) simp_all
  have keep: "filter (\<lambda>r. u_id r \<noteq> uid) (update_by u_id uid g us) = filter (\<lambda>r. u_id r \<noteq> uid) us"
    if "\<And>r. u_id (g r) = u_id r" for g us using that by (induction us) simp_all
  show "find_by u_id uid (users db') = Some (u\<lparr>u_role := aup_role v, u_is_active := aup_is_active v\<rparr>)"
    "filter (\<lambda>r. u_id r \<noteq> uid) (users db') = filter (\<lambda>r. u_id r \<noteq> uid) (users db)"
    using res f by (auto simp: v public_admin_user_def active_step_def role_step_def write_audit_log_def put_user_def up keep
        split: option.splits if_splits)
qed

end
