(* ===== verification/Sign_Up.thy ===== *)
theory Sign_Up
  imports Auth_Facts
begin

text \<open>
  What a registration can be used for: the account it creates logs in with its password and with no
  other, the session it opens can be refreshed until it expires, and ends at the logout; and when a
  registration goes through.
\<close>

section \<open>When a session can be opened\<close>

text \<open>The token of a request is new to the database and its row fits the columns.\<close>

definition token_fits :: "auth_env \<Rightarrow> auth_fresh \<Rightarrow> 'a accounts_db_scheme \<Rightarrow> bool" where
  "token_fits env k db \<longleftrightarrow> a_token_id k \<notin> rt_id ` set (refresh_tokens db)
     \<and> e_hash_token env (a_raw k) \<notin> rt_token_hash ` set (refresh_tokens db)
     \<and> text_length (e_hash_token env (a_raw k)) \<le> 255
     \<and> (case a_ip_address k of None \<Rightarrow> True | Some a \<Rightarrow> text_length a \<le> 64)"

lemma issue_succeeds:
  assumes "accounts_fit db" "token_fits env k db"
  shows "\<exists>access row. issue_refresh_token env k u family db =
    Inr ((access, a_raw k, row), db\<lparr>refresh_tokens := refresh_tokens db @ [row]\<rparr>) \<and> rt_id row = a_token_id k
    \<and> accounts_fit (db\<lparr>refresh_tokens := refresh_tokens db @ [row]\<rparr>)"
  using assms
  by (simp add: issue_refresh_token_def Let_def flush_accounts_def accounts_fit_def token_fits_def
      unique_by_append_one find_by_None)

lemma signed_in_succeeds:
  assumes "accounts_fit db" "token_fits env k db"
  shows "\<exists>cks db'. signed_in env k u db = Inr ((public_user u, cks), db')"
  using issue_succeeds [OF assms, of u "a_family k"]
  by (auto simp: signed_in_def issue_token_pair_def flush_accounts_def)

lemma put_login_fits: "accounts_fit (put_user (\<lambda>u. u\<lparr>u_last_login := x\<rparr>) uid db) = accounts_fit db"
proof -
  let ?us = "update_by u_id uid (\<lambda>u. u\<lparr>u_last_login := x\<rparr>) (users db)"
  have "unique_by u_id ?us = unique_by u_id (users db)" "unique_by u_email ?us = unique_by u_email (users db)"
    "unique_by u_username ?us = unique_by u_username (users db)"
    by (simp_all add: unique_by_def map_update_by_same)
  moreover have "(\<forall>u \<in> set (update_by u_id uid (\<lambda>u. u\<lparr>u_last_login := x\<rparr>) us). user_fits u) = (\<forall>u \<in> set us. user_fits u)" for us
    by (induction us) (simp_all add: user_fits_def)
  ultimately show ?thesis by (simp add: accounts_fit_def put_user_def)
qed

section \<open>What a registration leaves\<close>

lemma register_effect:
  assumes "register env k data db = (Inr (v, cks), db1)"
  obtains email u row where "e_email env (rr_email data) = Some email" "get_user_by_email env email db1 = Some u"
    "u_hashed_password u = Some (e_hash_password env (a_salt k) (rr_password data))" "u_is_active u"
    "v = public_user u" "get_user_by_id (u_id u) db1 = Some u"
    "get_refresh_by_hash (e_hash_token env (a_raw k)) db1 = Some row" "rt_user_id row = u_id u"
    "rt_revoked_at row = None" "rt_expires_at row = a_now k + days (st_refresh_token_expire_days (e_settings env))"
    "accounts_fit db1"
proof -
  from assms obtain email u d where e: "e_email env (rr_email data) = Some email"
    and r: "register_user env k email data db = Inr (u, d)" and s: "signed_in env k u d = Inr ((v, cks), db1)"
    by (auto simp: register_def request_def bindE_eq_Inr split: sum.splits)
  from s obtain access raw where p: "issue_token_pair env k u d = Inr ((access, raw), db1)"
    and v: "v = public_user u" and fit: "accounts_fit db1"
    by (auto simp: signed_in_def bindE_eq_Inr)
  from p obtain row where i: "issue_refresh_token env k u (a_family k) d = Inr ((access, raw, row), db1)"
    by (auto simp: issue_token_pair_def bindE_eq_Inr)
  then have row: "refresh_tokens db1 = refresh_tokens d @ [row]" "users db1 = users d" "rt_user_id row = u_id u"
      "rt_token_hash row = e_hash_token env (a_raw k)" "rt_revoked_at row = None"
      "rt_expires_at row = a_now k + days (st_refresh_token_expire_days (e_settings env))"
    by (auto simp: issue_refresh_token_def Let_def)
  from r have u: "users d = users db @ [u]" "u_email u = e_lower env email" "u_is_active u"
      "u_hashed_password u = Some (e_hash_password env (a_salt k) (rr_password data))"
    by (auto simp: register_user_def Let_def bindE_eq_Inr issue_email_verification_def split: if_splits)
  have q: "unique_by u_id (users db1)" "unique_by u_email (users db1)" "unique_by rt_token_hash (refresh_tokens db1)"
    using fit by (simp_all add: accounts_fit_def)
  have "u \<in> set (users db1)" "row \<in> set (refresh_tokens db1)" by (simp_all add: row u)
  with find_by_unique [OF q(1)] find_by_unique [OF q(2)] find_by_unique [OF q(3)]
  have "get_user_by_id (u_id u) db1 = Some u" "get_user_by_email env email db1 = Some u"
      "get_refresh_by_hash (e_hash_token env (a_raw k)) db1 = Some row"
    by (simp_all add: get_user_by_id_def get_user_by_email_def get_refresh_by_hash_def u(2) [symmetric] row(4) [symmetric])
  with e u v row fit show ?thesis by (intro that)
qed

section \<open>Using it\<close>

lemma truthy_Some: "s \<noteq> [] \<Longrightarrow> truthy (Some s) = Some s"
  by (cases s) (simp_all add: truthy_def)

lemma login_succeeds:
  assumes "e_email env raw_email = Some email" "get_user_by_email env email db = Some u" "u_hashed_password u = Some h"
    "e_verify env pw h" "u_is_active u" "accounts_fit db" "token_fits env k db"
  shows "\<exists>cks db'. login env k raw_email pw db = (Inr (public_user u, cks), db')"
proof -
  let ?u = "u\<lparr>u_last_login := Some (a_now k)\<rparr>"
  let ?db = "put_user (\<lambda>u. u\<lparr>u_last_login := Some (a_now k)\<rparr>) (u_id u) db"
  have "token_fits env k ?db" using assms(7) by (simp add: token_fits_def put_user_def)
  moreover have "accounts_fit ?db" by (simp add: put_login_fits assms(6))
  ultimately obtain cks db' where "signed_in env k ?u ?db = Inr ((public_user ?u, cks), db')"
    using signed_in_succeeds by blast
  with assms(1-5) have "login env k raw_email pw db = (Inr (public_user ?u, cks), db')"
    by (simp add: login_def authenticate_def request_def)
  moreover have "public_user ?u = public_user u" by (simp add: public_user_def)
  ultimately show ?thesis by metis
qed

lemma login_refused:
  assumes "e_email env raw_email = Some email" "get_user_by_email env email db = Some u" "u_hashed_password u = Some h"
    "\<not> e_verify env pw h"
  shows "login env k raw_email pw db = (Inl UnauthorizedError, db)"
  using assms by (simp add: login_def authenticate_def request_def)

lemma refresh_succeeds:
  assumes s: "get_refresh_by_hash (e_hash_token env raw) db = Some row" "rt_revoked_at row = None"
      "a_now k \<le> rt_expires_at row"
    and u: "get_user_by_id (rt_user_id row) db = Some u" "u_is_active u"
    and f: "accounts_fit db" "token_fits env k db" and raw: "raw \<noteq> []"
  shows "\<exists>cks db'. refresh env k (Some raw) db = (Inr (public_user u, cks), db')"
proof -
  let ?f = "\<lambda>t. t\<lparr>rt_revoked_at := Some (a_now k)\<rparr>"
  let ?db = "db\<lparr>refresh_tokens := update_by rt_id (rt_id row) ?f (refresh_tokens db)\<rparr>"
  have "map rt_id (refresh_tokens ?db) = map rt_id (refresh_tokens db)"
    "map rt_token_hash (refresh_tokens ?db) = map rt_token_hash (refresh_tokens db)"
    by (simp_all add: map_update_by_same)
  then have "token_fits env k ?db" using f(2) by (simp only: token_fits_def list.set_map [symmetric]) simp
  moreover have "accounts_fit ?db" using f(1) by (simp add: fit_update_tokens)
  ultimately obtain access new where "issue_refresh_token env k u (rt_family_id row) ?db =
      Inr ((access, a_raw k, new), ?db\<lparr>refresh_tokens := refresh_tokens ?db @ [new]\<rparr>)"
    using issue_succeeds by blast
  with s u raw show ?thesis
    by (simp add: refresh_def rotate_refresh_token_def truthy_Some request_def)
qed

lemma find_by_update_other:
  assumes "\<And>r. key (f r) = key r"
  shows "find_by key x (update_by key' x' f t) = map_option (\<lambda>r. if key' r = x' then f r else r) (find_by key x t)"
  by (induction t) (simp_all add: assms)

lemma refresh_after_logout:
  assumes "get_refresh_by_hash (e_hash_token env raw) db = Some row" "raw \<noteq> []"
  shows "fst (refresh env k (Some raw) (snd (logout env now (Some raw) db))) = Inl UnauthorizedError"
proof -
  let ?db = "snd (logout env now (Some raw) db)"
  have "\<exists>r. get_refresh_by_hash (e_hash_token env raw) ?db = Some r \<and> rt_revoked_at r \<noteq> None"
  proof (cases "rt_revoked_at row = None")
    case True
    have "get_refresh_by_hash (e_hash_token env raw) ?db = Some (row\<lparr>rt_revoked_at := Some now\<rparr>)"
      using assms True
      by (simp add: logout_def logout_service_def truthy_Some get_refresh_by_hash_def find_by_update_other)
    then show ?thesis by simp
  qed (use assms in \<open>auto simp: logout_def logout_service_def truthy_Some\<close>)
  then show ?thesis using assms(2) by (auto simp: refresh_def rotate_refresh_token_def truthy_Some)
qed

section \<open>When a registration goes through\<close>

text \<open>With fresh identifiers and texts within the columns the database refuses nothing that the
  service lets through.\<close>

lemma register_decided:
  assumes fit: "accounts_fit db" "token_fits env k db" "a_user k \<notin> u_id ` set (users db)"
    and mail: "e_hash_token env (a_mail_raw k) \<notin> su_token_hash ` set (email_verifications db)"
    and len: "text_length (e_hash_password env (a_salt k) (rr_password data)) \<le> 255" "text_length (e_lower env email) \<le> 255"
    and email: "e_email env (rr_email data) = Some email" "register_valid data"
    and free: "e_lower env email \<notin> u_email ` set (users db)" "rr_username data \<notin> u_username ` set (users db)"
  shows "\<exists>u cks db'. register env k data db = (Inr (public_user u, cks), db') \<and> users db' = users db @ [u]
     \<and> u_email u = e_lower env email \<and> u_username u = rr_username data \<and> u_role u = Customer \<and> u_is_active u"
proof -
  let ?u = "\<lparr> u_id = a_user k, u_email = e_lower env email, u_username = rr_username data,
                  u_hashed_password = Some (e_hash_password env (a_salt k) (rr_password data)),
                  u_first_name = rr_first_name data, u_last_name = rr_last_name data, u_avatar = None,
                  u_role = Customer, u_is_active = True, u_is_verified = False, u_last_login = None,
                  u_created_at = a_db_now k \<rparr>"
  let ?db = "issue_email_verification env k ?u (db\<lparr>users := users db @ [?u]\<rparr>)"
  have "user_fits ?u" using len email(2)
    by (simp add: user_fits_def register_valid_def username_valid_def length_between_def)
  then have f: "accounts_fit (db\<lparr>users := users db @ [?u]\<rparr>)"
    using fit(1,3) free by (simp add: accounts_fit_def unique_by_append_one find_by_None)
  then have f2: "accounts_fit ?db"
    using mail by (simp add: accounts_fit_def issue_email_verification_def unique_by_append_one find_by_None)
  have "token_fits env k ?db" using fit(2) by (simp add: token_fits_def issue_email_verification_def)
  from issue_succeeds [OF f2 this, of ?u "a_family k"] obtain access row where
    i: "issue_refresh_token env k ?u (a_family k) ?db =
      Inr ((access, a_raw k, row), ?db\<lparr>refresh_tokens := refresh_tokens ?db @ [row]\<rparr>)"
      "accounts_fit (?db\<lparr>refresh_tokens := refresh_tokens ?db @ [row]\<rparr>)" by blast
  have "register_user env k email data db = Inr (?u, ?db)"
    using free f by (simp add: register_user_def get_user_by_email_def get_user_by_username_def find_by_None flush_accounts_def Let_def)
  then have "register env k data db = (Inr (public_user ?u, auth_cookies env k access (a_raw k)),
      ?db\<lparr>refresh_tokens := refresh_tokens ?db @ [row]\<rparr>)"
    using email i by (simp add: register_def signed_in_def issue_token_pair_def flush_accounts_def validated_def)
  moreover have "users (?db\<lparr>refresh_tokens := refresh_tokens ?db @ [row]\<rparr>) = users db @ [?u]"
    by (simp add: issue_email_verification_def)
  ultimately show ?thesis by force
qed

end
