(* ===== verification/Secrets.thy ===== *)
theory Secrets
  imports Sign_Up
begin

text \<open>
  Passwords and opaque tokens: \<open>app/security/password.py\<close> and \<open>app/security/tokens.py\<close>. argon2 is outside
  the program; what the code relies on is the law \<open>argon2_law\<close>. \<open>program_env\<close> is the environment of
  \<open>Accounts\<close> with the program's own functions in place of the parameters.
\<close>

section \<open>Passwords\<close>

text \<open>What \<open>PasswordHasher.verify\<close> does: it returns, or raises one of its exceptions.\<close>

datatype argon2_outcome = Verified | VerifyMismatchError | VerificationError | InvalidHashError

record password_hasher =
  ph_hash :: "string \<Rightarrow> string \<Rightarrow> string"              \<comment> \<open>salt, password\<close>
  ph_verify :: "string \<Rightarrow> string \<Rightarrow> argon2_outcome"    \<comment> \<open>hash, password\<close>

definition hash_password :: "password_hasher \<Rightarrow> string \<Rightarrow> string \<Rightarrow> string" where
  "hash_password hasher salt plain_password = ph_hash hasher salt plain_password"

text \<open>Only the mismatch is caught.\<close>

definition verify_password :: "password_hasher \<Rightarrow> string \<Rightarrow> string \<Rightarrow> argon2_outcome + bool" where
  "verify_password hasher plain_password hashed_password =
     (case ph_verify hasher hashed_password plain_password of
        Verified \<Rightarrow> Inr True
      | VerifyMismatchError \<Rightarrow> Inr False
      | e \<Rightarrow> Inl e)"

text \<open>A hash accepts the password it was made from and no other.\<close>

definition argon2_law :: "password_hasher \<Rightarrow> bool" where
  "argon2_law hasher \<longleftrightarrow> (\<forall>salt p q. ph_verify hasher (ph_hash hasher salt p) q =
     (if p = q then Verified else VerifyMismatchError))"

lemma verify_hashed:
  "argon2_law hasher \<Longrightarrow> verify_password hasher q (hash_password hasher salt p) = Inr (p = q)"
  by (simp add: argon2_law_def verify_password_def hash_password_def)

section \<open>Opaque tokens\<close>

text \<open>\<open>random\<close> are the 48 bytes \<open>secrets\<close> draws.\<close>

definition generate_opaque_token :: "string \<Rightarrow> string" where
  "generate_opaque_token random = token_urlsafe random"

definition hash_token :: "string \<Rightarrow> string" where
  "hash_token token = hexdigest (sha256 token)"

lemma hash_token_length: "length (hash_token token) = 64" "text_length (hash_token token) \<le> 64"
  using hexdigest_text_length [of "sha256 token"] by (simp_all add: hash_token_def)

lemma hash_token_eq: "hash_token s = hash_token t \<longleftrightarrow> sha256 s = sha256 t"
  by (simp add: hash_token_def hexdigest_inj)

section \<open>The program's environment\<close>

text \<open>\<open>base\<close> supplies the settings and the libraries.\<close>

definition program_env :: "password_hasher \<Rightarrow> auth_env \<Rightarrow> auth_env" where
  "program_env hasher base = base\<lparr> e_hash_password := hash_password hasher,
     e_verify := (\<lambda>p h. verify_password hasher p h = Inr True), e_hash_token := hash_token \<rparr>"

lemma program_env_simps [simp]:
  "e_hash_password (program_env hasher base) = hash_password hasher"
  "e_verify (program_env hasher base) p h \<longleftrightarrow> verify_password hasher p h = Inr True"
  "e_hash_token (program_env hasher base) = hash_token"
  "e_email (program_env hasher base) = e_email base"
  "e_lower (program_env hasher base) = e_lower base"
  "e_settings (program_env hasher base) = e_settings base"
  by (simp_all add: program_env_def)

text \<open>A new token always fits its column; it is new if its digest is.\<close>

lemma token_fits_program:
  "token_fits (program_env hasher base) k db \<longleftrightarrow> a_token_id k \<notin> rt_id ` set (refresh_tokens db)
     \<and> hash_token (a_raw k) \<notin> rt_token_hash ` set (refresh_tokens db)
     \<and> (case a_ip_address k of None \<Rightarrow> True | Some a \<Rightarrow> text_length a \<le> 64)"
  using hash_token_length(2) [of "a_raw k"] by (simp add: token_fits_def)

text \<open>What the program gives its users as a token: 64 characters that are safe in a cookie and a URL,
  and different ones for different random bytes.\<close>

lemma opaque_token_shape:
  assumes "length random = 48"
  shows "length (generate_opaque_token random) = 64" "set (generate_opaque_token random) \<subseteq> set B64_ALPHABET"
    "generate_opaque_token random \<noteq> []"
    "generate_opaque_token random = generate_opaque_token random' \<longleftrightarrow> random = random'"
proof -
  show "length (generate_opaque_token random) = 64"
    using assms by (simp add: generate_opaque_token_def length_token_urlsafe)
  then show "generate_opaque_token random \<noteq> []" by auto
qed (simp_all add: generate_opaque_token_def token_urlsafe_set token_urlsafe_inj)

end
