(* ===== verification/Reports.thy ===== *)
theory Reports
  imports Accounts
begin

text \<open>
  The dashboard (\<open>app/modules/reports\<close>): the statistics, the charts and the report over a range
  of dates. A date is a number of days since the epoch, in UTC, which is taken to be
  the time zone of the database session that casts a column to a date. The column \<open>carts.updated_at\<close>,
  which no other component reads, is the argument \<open>cart_updated\<close>; \<open>ctx\<close> is the rounding of
  Python's decimal context, which a division goes through. The groups of a \<open>GROUP BY\<close> come in
  no order that is promised; the model lists them as they first occur.
\<close>

section \<open>Dates and ranges\<close>

type_synonym date = int

definition date_of :: "datetime \<Rightarrow> date" where
  "date_of t = t div days 1"

definition day_start :: "date \<Rightarrow> datetime" where
  "day_start d = days d"

definition day_end :: "date \<Rightarrow> datetime" where
  "day_end d = days (d + 1) - 1"

datatype report_range = RangeToday | Range7d | Range30d | RangeCustom

text \<open>The missing dates of a custom range raise \<open>ValueError\<close>, which only the route sees and turns
  into an \<open>AppError\<close>.\<close>

definition resolve_range ::
    "datetime \<Rightarrow> report_range \<Rightarrow> date option \<Rightarrow> date option \<Rightarrow> exn + (datetime \<times> datetime)" where
  "resolve_range now rng start_date end_date =
     (let today_start = day_start (date_of now)
      in case rng of
           RangeToday \<Rightarrow> Inr (today_start, now)
         | Range7d \<Rightarrow> Inr (today_start - days 6, now)
         | Range30d \<Rightarrow> Inr (today_start - days 29, now)
         | RangeCustom \<Rightarrow>
             (case (start_date, end_date) of
                (Some s, Some e) \<Rightarrow> Inr (day_start s, day_end e)
              | _ \<Rightarrow> Inl AppError))"

definition between :: "datetime \<Rightarrow> datetime \<Rightarrow> datetime \<Rightarrow> bool" where
  "between start end t \<longleftrightarrow> start \<le> t \<and> t \<le> end"

section \<open>Queries\<close>

definition count_where :: "('r \<Rightarrow> bool) \<Rightarrow> 'r list \<Rightarrow> int" where
  "count_where P rows = int (length (filter P rows))"

definition sum_where :: "('r \<Rightarrow> bool) \<Rightarrow> ('r \<Rightarrow> int) \<Rightarrow> 'r list \<Rightarrow> int" where
  "sum_where P f rows = sum_list (map f (filter P rows))"

definition grouped :: "('r \<Rightarrow> 'k) \<Rightarrow> ('r list \<Rightarrow> 'v) \<Rightarrow> 'r list \<Rightarrow> ('k \<times> 'v) list" where
  "grouped key agg rows = map (\<lambda>k. (k, agg (filter (\<lambda>r. key r = k) rows))) (remdups (map key rows))"

definition group_count :: "('r \<Rightarrow> 'k) \<Rightarrow> 'r list \<Rightarrow> ('k \<times> int) list" where
  "group_count key = grouped key (\<lambda>rs. int (length rs))"

definition COMPLETED_ORDER_STATUSES :: "order_status list" where
  "COMPLETED_ORDER_STATUSES = [OrdPaid, OrdProcessing, OrdShipped, OrdCompleted]"

definition PENDING_ORDER_STATUSES :: "order_status list" where
  "PENDING_ORDER_STATUSES = [OrdPending, OrdAwaitingPayment]"

definition ABANDONED_CART_AGE :: int where
  "ABANDONED_CART_AGE = hours 24"

definition stock_left :: "inventory_row \<Rightarrow> int" where
  "stock_left i = stock_total i - stock_reserved i"

definition low_stock_products :: "'a accounts_db_scheme \<Rightarrow> int" where
  "low_stock_products db = count_where (\<lambda>i. 0 < stock_left i \<and> stock_left i \<le> 5) (inventories db)"

definition out_of_stock_products :: "'a accounts_db_scheme \<Rightarrow> int" where
  "out_of_stock_products db = count_where (\<lambda>i. stock_left i \<le> 0) (inventories db)"

section \<open>Statistics\<close>

record dashboard_stats =
  ds_total_users :: int
  ds_active_users :: int
  ds_new_users_today :: int
  ds_total_products :: int
  ds_low_stock_products :: int
  ds_out_of_stock_products :: int
  ds_total_orders :: int
  ds_orders_today :: int
  ds_pending_orders :: int
  ds_completed_orders :: int
  ds_cancelled_orders :: int
  ds_successful_payments :: int
  ds_failed_payments :: int
  ds_total_sales :: int
  ds_wallet_transactions :: int
  ds_open_tickets :: int
  ds_unanswered_tickets :: int
  ds_closed_tickets :: int
  ds_active_carts :: int
  ds_abandoned_carts :: int

definition completed_order :: "order \<Rightarrow> bool" where
  "completed_order r \<longleftrightarrow> o_status r \<in> set COMPLETED_ORDER_STATUSES"

definition get_dashboard_stats ::
    "(uuid \<Rightarrow> datetime) \<Rightarrow> datetime \<Rightarrow> 'a accounts_db_scheme \<Rightarrow> dashboard_stats" where
  "get_dashboard_stats cart_updated now db =
     (let today_start = day_start (date_of now)
      in \<lparr> ds_total_users = count_where (\<lambda>_. True) (users db),
           ds_active_users = count_where u_is_active (users db),
           ds_new_users_today = count_where (\<lambda>u. today_start \<le> u_created_at u) (users db),
           ds_total_products = count_where (\<lambda>_. True) (products db),
           ds_low_stock_products = low_stock_products db,
           ds_out_of_stock_products = out_of_stock_products db,
           ds_total_orders = count_where (\<lambda>_. True) (orders db),
           ds_orders_today = count_where (\<lambda>r. today_start \<le> o_created_at r) (orders db),
           ds_pending_orders = count_where (\<lambda>r. o_status r \<in> set PENDING_ORDER_STATUSES) (orders db),
           ds_completed_orders = count_where (\<lambda>r. o_status r = OrdCompleted) (orders db),
           ds_cancelled_orders = count_where (\<lambda>r. o_status r = OrdCancelled) (orders db),
           ds_successful_payments = count_where (\<lambda>p. pay_status p = PayVerified) (payments db),
           ds_failed_payments = count_where (\<lambda>p. pay_status p = PayFailed) (payments db),
           ds_total_sales = sum_where completed_order o_total (orders db),
           ds_wallet_transactions = count_where (\<lambda>_. True) (wallet_transactions db),
           ds_open_tickets = count_where (\<lambda>t. tk_status t \<noteq> TkClosed) (tickets db),
           ds_unanswered_tickets = count_where (\<lambda>t. tk_status t = TkWaitingForSupport) (tickets db),
           ds_closed_tickets = count_where (\<lambda>t. tk_status t = TkClosed) (tickets db),
           ds_active_carts = int (length (remdups (map ci_cart_id (cart_items db)))),
           ds_abandoned_carts = int (length (remdups (map (cart_id \<circ> fst)
             (filter (\<lambda>(c, i). ci_cart_id i = cart_id c \<and> cart_updated (cart_id c) < now - ABANDONED_CART_AGE)
               (List.product (carts db) (cart_items db)))))) \<rparr>)"

record recent_activity_item =
  ra_action :: string
  ra_resource_type :: string
  ra_created_at :: datetime

definition get_recent_activity :: "int \<Rightarrow> 'a accounts_db_scheme \<Rightarrow> recent_activity_item list" where
  "get_recent_activity n db =
     map (\<lambda>row. \<lparr>ra_action = al_action row, ra_resource_type = al_resource_type row, ra_created_at = al_created_at row\<rparr>)
       (take (nat n) (sort_key (\<lambda>r. - al_created_at r) (audit_logs db)))"

section \<open>Charts\<close>

definition daily_value :: "(date \<times> int) list \<Rightarrow> date \<Rightarrow> int" where
  "daily_value raw d = (case map_of raw d of None \<Rightarrow> 0 | Some v \<Rightarrow> v)"

definition fill_daily_series :: "(date \<times> int) list \<Rightarrow> int \<Rightarrow> date \<Rightarrow> (date \<times> int) list" where
  "fill_daily_series raw n today =
     (let start = today - (n - 1) in map (\<lambda>i. (start + int i, daily_value raw (start + int i))) [0..<nat n])"

fun order_label :: "order_status \<Rightarrow> string" where
  "order_label OrdPending = ''pending''"
| "order_label OrdAwaitingPayment = ''awaiting_payment''"
| "order_label OrdPaid = ''paid''"
| "order_label OrdProcessing = ''processing''"
| "order_label OrdShipped = ''shipped''"
| "order_label OrdCompleted = ''completed''"
| "order_label OrdCancelled = ''cancelled''"
| "order_label OrdPaymentFailed = ''payment_failed''"
| "order_label OrdRefunded = ''refunded''"

fun payment_label :: "payment_status \<Rightarrow> string" where
  "payment_label PayInitiated = ''initiated''"
| "payment_label PayPending = ''pending''"
| "payment_label PayVerified = ''verified''"
| "payment_label PayFailed = ''failed''"

fun ticket_label :: "ticket_status \<Rightarrow> string" where
  "ticket_label TkOpen = ''open''"
| "ticket_label TkWaitingForSupport = ''waiting_for_support''"
| "ticket_label TkWaitingForCustomer = ''waiting_for_customer''"
| "ticket_label TkClosed = ''closed''"

definition slices :: "('k \<Rightarrow> string) \<Rightarrow> ('k \<times> int) list \<Rightarrow> (string \<times> int) list" where
  "slices label groups = map (\<lambda>(k, n). (label k, n)) groups"

record dashboard_charts =
  dc_orders_per_day :: "(date \<times> int) list"
  dc_revenue_per_day :: "(date \<times> int) list"
  dc_registrations_per_day :: "(date \<times> int) list"
  dc_order_status_distribution :: "(string \<times> int) list"
  dc_payment_status_distribution :: "(string \<times> int) list"
  dc_products_by_category :: "(string \<times> int) list"
  dc_ticket_status_distribution :: "(string \<times> int) list"

definition get_dashboard_charts :: "datetime \<Rightarrow> int \<Rightarrow> 'a accounts_db_scheme \<Rightarrow> dashboard_charts" where
  "get_dashboard_charts now n db =
     (let today = date_of now;
          window_start = day_start (today - (n - 1));
          recent = filter (\<lambda>r. window_start \<le> o_created_at r) (orders db)
      in \<lparr> dc_orders_per_day = fill_daily_series (group_count (\<lambda>r. date_of (o_created_at r)) recent) n today,
           dc_revenue_per_day = fill_daily_series
             (grouped (\<lambda>r. date_of (o_created_at r)) (\<lambda>rs. sum_list (map o_total rs)) (filter completed_order recent))
             n today,
           dc_registrations_per_day = fill_daily_series
             (group_count (\<lambda>u. date_of (u_created_at u)) (filter (\<lambda>u. window_start \<le> u_created_at u) (users db))) n today,
           dc_order_status_distribution = slices order_label (group_count o_status (orders db)),
           dc_payment_status_distribution = slices payment_label (group_count pay_status (payments db)),
           dc_products_by_category = group_count (cat_name \<circ> fst)
             (filter (\<lambda>(c, p). p_category_id p = cat_id c) (List.product (categories db) (products db))),
           dc_ticket_status_distribution = slices ticket_label (group_count tk_status (tickets db)) \<rparr>)"

section \<open>The report\<close>

record admin_report =
  ar_range :: report_range
  ar_start_date :: datetime
  ar_end_date :: datetime
  ar_order_count :: int
  ar_total_revenue :: int
  ar_average_order_value :: decimal
  ar_orders_by_status :: "(string \<times> int) list"
  ar_new_registrations :: int
  ar_total_active_products :: int
  ar_low_stock_count :: int
  ar_out_of_stock_count :: int
  ar_verified_count :: int
  ar_verified_amount :: int
  ar_failed_count :: int
  ar_tickets_by_status :: "(string \<times> int) list"
  ar_auto_closed_count :: int
  ar_category_performance :: "(string \<times> int \<times> int) list"

text \<open>The join of order lines with their order, product and category: a line whose product is gone
  has no row in it.\<close>

definition sold_lines :: "(order \<Rightarrow> bool) \<Rightarrow> 'a accounts_db_scheme \<Rightarrow> (category \<times> order_item) list" where
  "sold_lines P db = [(c, i). i \<leftarrow> order_items db, r \<leftarrow> orders db, o_id r = oi_order_id i, P r,
     p \<leftarrow> products db, oi_product_id i = Some (p_id p), c \<leftarrow> categories db, cat_id c = p_category_id p]"

definition verified_in :: "datetime \<Rightarrow> datetime \<Rightarrow> payment \<Rightarrow> bool" where
  "verified_in start end p \<longleftrightarrow>
     (case pay_verified_at p of None \<Rightarrow> False | Some t \<Rightarrow> between start end t) \<and> pay_status p = PayVerified"

definition get_admin_report ::
    "(decimal \<Rightarrow> decimal) \<Rightarrow> datetime \<Rightarrow> report_range \<Rightarrow> date option \<Rightarrow> date option \<Rightarrow> 'a accounts_db_scheme
     \<Rightarrow> exn + admin_report" where
  "get_admin_report ctx now rng start_date end_date db =
     bindE (resolve_range now rng start_date end_date) (\<lambda>(start, end).
       let sold = (\<lambda>r. between start end (o_created_at r) \<and> completed_order r);
           order_count = count_where sold (orders db);
           total_revenue = sum_where sold o_total (orders db)
       in Inr \<lparr> ar_range = rng, ar_start_date = start, ar_end_date = end,
                ar_order_count = order_count, ar_total_revenue = total_revenue,
                ar_average_order_value =
                  (if order_count \<noteq> 0 then ctx (of_int total_revenue / of_int order_count) else 0),
                ar_orders_by_status = slices order_label (group_count o_status
                  (filter (\<lambda>r. between start end (o_created_at r)) (orders db))),
                ar_new_registrations = count_where (\<lambda>u. between start end (u_created_at u)) (users db),
                ar_total_active_products = count_where p_is_active (products db),
                ar_low_stock_count = low_stock_products db,
                ar_out_of_stock_count = out_of_stock_products db,
                ar_verified_count = count_where (verified_in start end) (payments db),
                ar_verified_amount = sum_where (verified_in start end) pay_amount (payments db),
                ar_failed_count = count_where
                  (\<lambda>p. between start end (pay_created_at p) \<and> pay_status p = PayFailed) (payments db),
                ar_tickets_by_status = slices ticket_label (group_count tk_status
                  (filter (\<lambda>t. between start end (tk_created_at t)) (tickets db))),
                ar_auto_closed_count = count_where
                  (\<lambda>a. al_action a = ''ticket.auto_closed'' \<and> between start end (al_created_at a)) (audit_logs db),
                ar_category_performance = grouped (cat_name \<circ> fst)
                  (\<lambda>rs. (int (length rs), sum_list (map (oi_subtotal \<circ> snd) rs))) (sold_lines sold db) \<rparr>)"

section \<open>Routes\<close>

definition dashboard_stats_route ::
    "user \<Rightarrow> (uuid \<Rightarrow> datetime) \<Rightarrow> datetime \<Rightarrow> 'a accounts_db_scheme \<Rightarrow> exn + dashboard_stats" where
  "dashboard_stats_route u cart_updated now db =
     bindE (require_permission ''report.read'' u) (\<lambda>_. Inr (get_dashboard_stats cart_updated now db))"

definition dashboard_charts_route :: "user \<Rightarrow> datetime \<Rightarrow> int \<Rightarrow> 'a accounts_db_scheme \<Rightarrow> exn + dashboard_charts" where
  "dashboard_charts_route u now n db =
     bindE (require_permission ''report.read'' u) (\<lambda>_.
     bindE (validated (7 \<le> n \<and> n \<le> 90)) (\<lambda>_. Inr (get_dashboard_charts now n db)))"

definition admin_report_route ::
    "user \<Rightarrow> (decimal \<Rightarrow> decimal) \<Rightarrow> datetime \<Rightarrow> report_range \<Rightarrow> date option \<Rightarrow> date option \<Rightarrow> 'a accounts_db_scheme
     \<Rightarrow> exn + admin_report" where
  "admin_report_route u ctx now rng start_date end_date db =
     bindE (require_permission ''report.read'' u) (\<lambda>_. get_admin_report ctx now rng start_date end_date db)"

end
