(* ===== verification/Storage.thy ===== *)
theory Storage
  imports Products Permissions "HOL-Library.Word"
begin

text \<open>
  Uploaded product images: \<open>app/integrations/storage.py\<close> and the upload route of
  \<open>app/modules/catalog/router.py\<close>. The directory of images is a map from file names to contents;
  the two random parts of a file name are arguments.
\<close>

type_synonym bytes = "8 word list"
type_synonym images = "string \<rightharpoonup> bytes"

definition ALLOWED_IMAGE_TYPES :: "string \<rightharpoonup> string" where
  "ALLOWED_IMAGE_TYPES = [''image/jpeg'' \<mapsto> ''.jpg'', ''image/png'' \<mapsto> ''.png'', ''image/webp'' \<mapsto> ''.webp'']"

definition MAX_UPLOAD_BYTES :: "nat \<Rightarrow> nat" where
  "MAX_UPLOAD_BYTES max_upload_size_mb = max_upload_size_mb * 1024 * 1024"

text \<open>\<open>LocalImageStorage.save\<close>.\<close>

definition save_image ::
    "nat \<Rightarrow> string \<Rightarrow> string \<Rightarrow> bytes \<Rightarrow> string \<Rightarrow> images \<Rightarrow> exn + (string \<times> images)" where
  "save_image max_mb uuid_hex token_hex content content_type images =
     (case ALLOWED_IMAGE_TYPES content_type of
        None \<Rightarrow> Inl UnsupportedFileError
      | Some extension \<Rightarrow>
          if MAX_UPLOAD_BYTES max_mb < length content then Inl FileTooLargeError
          else let filename = uuid_hex @ token_hex @ extension
               in Inr (''/media/products/'' @ filename, images(filename \<mapsto> content)))"

definition upload_product_image ::
    "nat \<Rightarrow> string \<Rightarrow> string \<Rightarrow> user \<Rightarrow> bytes \<Rightarrow> string option \<Rightarrow> images \<Rightarrow> (exn + string) \<times> images" where
  "upload_product_image max_mb uuid_hex token_hex u content content_type images = request images (
     bindE (require_permission ''product.update'' u) (\<lambda>_.
       save_image max_mb uuid_hex token_hex content (case content_type of None \<Rightarrow> [] | Some t \<Rightarrow> t) images))"

text \<open>What an upload may do: it needs the permission, an image type and a bounded size, it adds one file
  under the generated name and, that name being new, changes no other; refused, it changes nothing.\<close>

lemma upload_accepted:
  assumes "upload_product_image max_mb uh th u content content_type images = (Inr url, images')"
  obtains extension where "role_has_permission (u_role u) ''product.update''"
    "extension \<in> {''.jpg'', ''.png'', ''.webp''}" "length content \<le> max_mb * 1024 * 1024"
    "url = ''/media/products/'' @ uh @ th @ extension" "images' = images(uh @ th @ extension \<mapsto> content)"
  using assms
  by (auto simp: upload_product_image_def request_def bindE_eq_Inr require_permission_Inr save_image_def
      ALLOWED_IMAGE_TYPES_def MAX_UPLOAD_BYTES_def Let_def split: sum.splits option.splits if_splits)

lemma upload_keeps_images:
  assumes "upload_product_image max_mb uh th u content content_type images = (res, images')"
    and "\<And>extension. uh @ th @ extension \<notin> dom images"
  shows "images \<subseteq>\<^sub>m images'"
  using assms
  by (auto simp: upload_product_image_def request_def bindE_def require_permission_def save_image_def Let_def
      map_le_def split: sum.splits option.splits if_splits) (metis domI)+

end
