(* ===== verification/Admin_Api.thy ===== *)
theory Admin_Api
  imports Auth_Routes Reports Storage Catalog_Routes
begin

text \<open>
  The administration routes as the application offers them (\<open>api/v1/router.py\<close> with the routers it
  includes): a request names its route with the parameters and the fresh values of the server, the
  user comes from the access token, and each route checks the permission it declares before it does
  anything. The upload of an image, which writes a file and no table, is in \<open>Storage\<close>.
\<close>

section \<open>Requests\<close>

datatype admin_call =
    Create_Category uuid category_create_request
  | Update_Category uuid category_update_request
  | Move_Category uuid "uuid option"
  | Delete_Category uuid
  | Create_Product uuid datetime product_create_request
  | Update_Product datetime uuid product_update_request
  | Archive_Product datetime uuid
  | Restock_Product uuid inventory_adjust_request
  | Adjust_Inventory uuid inventory_adjust_request
  | List_Orders page_params
  | Update_Order_Status fresh_ids uuid order_status "string option"
  | Get_Wallet fresh_ids uuid
  | Credit_Wallet fresh_ids "string option" string uuid decimal string
  | Debit_Wallet fresh_ids "string option" string uuid decimal string
  | List_Tickets page_params "string option"
  | Get_Ticket uuid
  | Reply_To_Ticket ticket_fresh uuid string
  | Change_Ticket_Status ticket_fresh uuid ticket_status
  | List_Users page_params "string option"
  | Get_User uuid
  | Update_User datetime uuid admin_user_update
  | List_Audit_Logs page_params
  | Dashboard_Stats "uuid \<Rightarrow> datetime" datetime
  | Dashboard_Charts datetime int
  | Admin_Report "decimal \<Rightarrow> decimal" datetime report_range "date option" "date option"

text \<open>What the database library and its collation contribute.\<close>

record database_env =
  de_num :: "decimal \<Rightarrow> int"
  de_coll :: "string \<Rightarrow> nat"
  de_ilike :: "string \<Rightarrow> string \<Rightarrow> bool"

section \<open>Dispatch\<close>

text \<open>Of an answer only whether it is an exception is kept; a route that only reads leaves the state.\<close>

definition outcome :: "(exn + 'r) \<times> 's \<Rightarrow> (exn + unit) \<times> 's" where
  "outcome r = (map_sum id (\<lambda>_. ()) (fst r), snd r)"

definition reading :: "exn + 'r \<Rightarrow> 's \<Rightarrow> (exn + unit) \<times> 's" where
  "reading r db = (map_sum id (\<lambda>_. ()) r, db)"

fun admin_routes :: "database_env \<Rightarrow> user \<Rightarrow> admin_call \<Rightarrow> 'a accounts_db_scheme \<Rightarrow> (exn + unit) \<times> 'a accounts_db_scheme" where
  "admin_routes d u (Create_Category i data) db = outcome (create_category u i data db)"
| "admin_routes d u (Update_Category i data) db = outcome (update_category u i data db)"
| "admin_routes d u (Move_Category i p) db = outcome (move_category (de_coll d) u i p db)"
| "admin_routes d u (Delete_Category i) db = outcome (delete_category u i db)"
| "admin_routes d u (Create_Product i now data) db = outcome (create_product (de_num d) u i now data db)"
| "admin_routes d u (Update_Product now i data) db = outcome (update_product (de_num d) u now i data db)"
| "admin_routes d u (Archive_Product now i) db = outcome (archive_product u now i db)"
| "admin_routes d u (Restock_Product i data) db = outcome (restock_product u i data db)"
| "admin_routes d u (Adjust_Inventory i data) db = outcome (adjust_product_inventory u i data db)"
| "admin_routes d u (List_Orders ps) db = reading (list_all_orders u ps db) db"
| "admin_routes d u (Update_Order_Status k i st note) db = outcome (update_order_status (de_num d) u k i st note db)"
| "admin_routes d u (Get_Wallet k i) db = outcome (admin_get_wallet u k i db)"
| "admin_routes d u (Credit_Wallet k key h i a r) db = outcome (admin_credit_wallet (de_num d) u k key h i a r db)"
| "admin_routes d u (Debit_Wallet k key h i a r) db = outcome (admin_debit_wallet (de_num d) u k key h i a r db)"
| "admin_routes d u (List_Tickets ps st) db = reading (admin_list_tickets u ps st db) db"
| "admin_routes d u (Get_Ticket i) db = reading (admin_get_ticket u i db) db"
| "admin_routes d u (Reply_To_Ticket k i m) db = outcome (admin_reply_to_ticket u k i m db)"
| "admin_routes d u (Change_Ticket_Status k i st) db = outcome (admin_change_ticket_status u k i st db)"
| "admin_routes d u (List_Users ps term) db = reading (list_users (de_ilike d) u ps term db) db"
| "admin_routes d u (Get_User i) db = reading (get_user u i db) db"
| "admin_routes d u (Update_User now i data) db = outcome (update_user u now i data db)"
| "admin_routes d u (List_Audit_Logs ps) db = reading (list_admin_audit_logs u ps db) db"
| "admin_routes d u (Dashboard_Stats cu now) db = reading (dashboard_stats_route u cu now db) db"
| "admin_routes d u (Dashboard_Charts now n) db = reading (dashboard_charts_route u now n db) db"
| "admin_routes d u (Admin_Report ctx now rng s e) db = reading (admin_report_route u ctx now rng s e db) db"

text \<open>The dependency \<open>CurrentUser\<close> runs before the check of the permission.\<close>

definition serve_admin ::
    "auth_env \<Rightarrow> database_env \<Rightarrow> datetime \<Rightarrow> string option \<Rightarrow> string option \<Rightarrow> admin_call \<Rightarrow> 'a accounts_db_scheme
     \<Rightarrow> (exn + unit) \<times> 'a accounts_db_scheme" where
  "serve_admin env d now access_token header call db =
     (case get_current_user env now access_token header db of
        Inl e \<Rightarrow> (Inl e, db)
      | Inr u \<Rightarrow> admin_routes d u call db)"

section \<open>Who may do what\<close>

text \<open>The permission each route asks for.\<close>

fun needs :: "admin_call \<Rightarrow> permission" where
  "needs (Create_Category i data) = ''category.manage''"
| "needs (Update_Category i data') = ''category.manage''"
| "needs (Move_Category i p) = ''category.manage''"
| "needs (Delete_Category i) = ''category.manage''"
| "needs (Create_Product i now pc) = ''product.create''"
| "needs (Update_Product now i pu) = ''product.update''"
| "needs (Archive_Product now i) = ''product.delete''"
| "needs (Restock_Product i ia) = ''product.update''"
| "needs (Adjust_Inventory i ia) = ''product.update''"
| "needs (List_Orders ps) = ''order.read''"
| "needs (Update_Order_Status k i st note) = ''order.manage''"
| "needs (List_Tickets ps st') = ''ticket.read''"
| "needs (Get_Ticket i) = ''ticket.read''"
| "needs (Reply_To_Ticket k' i m) = ''ticket.respond''"
| "needs (Change_Ticket_Status k' i ts) = ''ticket.manage''"
| "needs (List_Users ps term) = ''user.read''"
| "needs (Get_User i) = ''user.read''"
| "needs (Update_User now i au) = ''user.manage''"
| "needs (List_Audit_Logs ps) = ''audit.read''"
| "needs (Dashboard_Stats cu now) = ''report.read''"
| "needs (Dashboard_Charts now n) = ''report.read''"
| "needs (Admin_Report ctx now rng s e) = ''report.read''"
| "needs _ = ''wallet.manage''"

lemmas admin_route_defs = create_category_def update_category_def move_category_def delete_category_def
  create_product_def update_product_def archive_product_def restock_product_def adjust_product_inventory_def
  list_all_orders_def update_order_status_def admin_get_wallet_def admin_credit_wallet_def admin_debit_wallet_def
  admin_list_tickets_def admin_get_ticket_def admin_reply_to_ticket_def admin_change_ticket_status_def
  list_users_def get_user_def update_user_def list_admin_audit_logs_def dashboard_stats_route_def
  dashboard_charts_route_def admin_report_route_def

text \<open>Without the permission nothing happens.\<close>

lemma admin_routes_refuse:
  assumes "\<not> role_has_permission (u_role u) (needs call)"
  shows "admin_routes d u call db = (Inl PermissionDeniedError, db)"
  using assms by (cases call)
    (simp_all add: admin_route_defs require_permission_def request_def committed_def outcome_def reading_def)

text \<open>With it, the role plays no further part.\<close>

lemma admin_routes_role:
  assumes "role_has_permission (u_role u) (needs call)" "role_has_permission r (needs call)"
  shows "admin_routes d u call db = admin_routes d (u\<lparr>u_role := r\<rparr>) call db"
  using assms by (cases call)
    (simp_all add: admin_route_defs require_permission_def add_support_reply_def admin_adjust_action_def [abs_def]
      cong: if_cong)

text \<open>The roles: support answers tickets and reads orders and users, the administrators do everything.\<close>

definition support_call :: "admin_call \<Rightarrow> bool" where
  "support_call call \<longleftrightarrow> (case call of
      List_Orders _ \<Rightarrow> True | List_Tickets _ _ \<Rightarrow> True | Get_Ticket _ \<Rightarrow> True | Reply_To_Ticket _ _ _ \<Rightarrow> True
    | Change_Ticket_Status _ _ _ \<Rightarrow> True | List_Users _ _ \<Rightarrow> True | Get_User _ \<Rightarrow> True | _ \<Rightarrow> False)"

lemma role_may:
  "role_has_permission r (needs call) \<longleftrightarrow> r \<in> {Admin, SuperAdmin} \<or> r = Support \<and> support_call call"
  by (cases r; cases call) (simp_all add: role_has_permission_def permission_lists support_call_def)

lemma serve_admin_refused:
  assumes "get_current_user env now token header db = Inr u"
    "\<not> (u_role u \<in> {Admin, SuperAdmin} \<or> u_role u = Support \<and> support_call call)"
  shows "serve_admin env d now token header call db = (Inl PermissionDeniedError, db)"
  using admin_routes_refuse [of u call d db] assms by (simp add: serve_admin_def role_may)

end
