(* ===== verification/Shop_Api.thy ===== *)
theory Shop_Api
  imports Admin_Api Payments
begin

text \<open>
  The rest of the interface (\<open>api/v1/router.py\<close> with the routers it includes): the routes of a customer,
  behind the current user, and the public ones, and one request of any kind. As in \<open>Admin_Api\<close>, a
  request carries its parameters, the fresh values of the server and the clock; the answers of the
  payment gateway and of Google come with the request they answer.
\<close>

section \<open>Requests\<close>

datatype customer_call =
    View_Cart uuid
  | Add_To_Cart uuid "string option" string datetime uuid int
  | Change_Cart_Item uuid uuid int
  | Drop_Cart_Item uuid uuid
  | Empty_Cart uuid
  | Check_Out checkout_fresh "string option" string "shipping_address option"
  | My_Orders page_params
  | My_Order uuid
  | Cancel_My_Order datetime uuid
  | Pay zarinpal_settings "int \<Rightarrow> uuid \<Rightarrow> gateway_answer" payment_fresh "string option" string uuid
  | My_Wallet fresh_ids
  | My_Transactions fresh_ids page_params
  | Deposit_Money fresh_ids "string option" string decimal
  | Open_Ticket ticket_fresh ticket_create_request
  | My_Tickets page_params
  | My_Ticket uuid
  | Answer_Ticket ticket_fresh uuid string
  | Who_Am_I
  | Change_My_Password auth_fresh string string
  | Link_Google "(string \<times> string) list \<Rightarrow> string" google_config google_fresh

datatype public_call =
    Browse_Categories
  | Browse_Products page_params product_query sort_column bool
  | Show_Featured
  | Show_Popular
  | Show_Product string
  | Gateway_Callback "int \<Rightarrow> string \<Rightarrow> gateway_answer" datetime string string
  | Register auth_fresh register_request
  | Log_In auth_fresh string string
  | Refresh_Session auth_fresh "string option"
  | Log_Out datetime "string option"
  | Ask_Password_Reset auth_fresh string
  | Reset_Password auth_fresh string string
  | Confirm_Email datetime string
  | Google_Login "(string \<times> string) list \<Rightarrow> string" google_config google_fresh
  | Google_Return google_config "string \<Rightarrow> string \<Rightarrow> token_answer" "string \<Rightarrow> tokeninfo_answer" auth_fresh string string

section \<open>Dispatch\<close>

text \<open>\<open>GET /cart\<close> gives a summary and commits nothing.\<close>

fun customer_routes ::
    "auth_env \<Rightarrow> database_env \<Rightarrow> user \<Rightarrow> customer_call \<Rightarrow> 'a accounts_db_scheme \<Rightarrow> (exn + unit) \<times> 'a accounts_db_scheme" where
  "customer_routes env d u (View_Cart i) db = reading (Inr (get_cart u i db)) db"
| "customer_routes env d u (Add_To_Cart i key h now pid q) db = outcome (add_cart_item u i key h now pid q db)"
| "customer_routes env d u (Change_Cart_Item i pid q) db = outcome (update_cart_item u i pid q db)"
| "customer_routes env d u (Drop_Cart_Item i pid) db = (Inr (), remove_cart_item u i pid db)"
| "customer_routes env d u (Empty_Cart i) db = (Inr (), clear_cart u i db)"
| "customer_routes env d u (Check_Out k key h addr) db = outcome (checkout u k key h addr db)"
| "customer_routes env d u (My_Orders ps) db = reading (list_my_orders u ps db) db"
| "customer_routes env d u (My_Order i) db = reading (get_order u i db) db"
| "customer_routes env d u (Cancel_My_Order now i) db = outcome (cancel_order u now i db)"
| "customer_routes env d u (Pay cfg post f key h i) db = outcome (init_payment cfg post f u key h i db)"
| "customer_routes env d u (My_Wallet k) db = (Inr (), snd (get_my_wallet u k db))"
| "customer_routes env d u (My_Transactions k ps) db = outcome (list_my_wallet_transactions u k ps db)"
| "customer_routes env d u (Deposit_Money k key h a) db = outcome (deposit_to_wallet (de_num d) u k key h a db)"
| "customer_routes env d u (Open_Ticket k data) db = outcome (create_ticket u k data db)"
| "customer_routes env d u (My_Tickets ps) db = reading (list_my_tickets u ps db) db"
| "customer_routes env d u (My_Ticket i) db = reading (get_ticket u i db) db"
| "customer_routes env d u (Answer_Ticket k i m) db = outcome (reply_to_ticket u k i m db)"
| "customer_routes env d u Who_Am_I db = reading (Inr (public_user u)) db"
| "customer_routes env d u (Change_My_Password k current new) db = outcome (change_password env k u current new db)"
| "customer_routes env d u (Link_Google enc cfg g) db = outcome (google_link_start enc cfg g u db)"

fun public_routes ::
    "auth_env \<Rightarrow> database_env \<Rightarrow> public_call \<Rightarrow> 'a accounts_db_scheme \<Rightarrow> (exn + unit) \<times> 'a accounts_db_scheme" where
  "public_routes env d Browse_Categories db = outcome (get_category_tree (de_coll d) db)"
| "public_routes env d (Browse_Products ps q s desc) db =
     reading (list_products (de_coll d) (de_ilike d) ps q s desc db) db"
| "public_routes env d Show_Featured db = outcome (featured_products db)"
| "public_routes env d Show_Popular db = outcome (popular_products db)"
| "public_routes env d (Show_Product slug) db = outcome (get_product slug db)"
| "public_routes env d (Gateway_Callback post now a status) db = outcome (payment_callback post now a status db)"
| "public_routes env d (Register k data) db = outcome (register env k data db)"
| "public_routes env d (Log_In k email pw) db = outcome (login env k email pw db)"
| "public_routes env d (Refresh_Session k token) db = outcome (refresh env k token db)"
| "public_routes env d (Log_Out now token) db = (Inr (), snd (logout env now token db))"
| "public_routes env d (Ask_Password_Reset k email) db = outcome (request_password_reset env k email db)"
| "public_routes env d (Reset_Password k t new) db = outcome (confirm_password_reset env k t new db)"
| "public_routes env d (Confirm_Email now t) db = outcome (confirm_email_verification env now t db)"
| "public_routes env d (Google_Login enc cfg g) db = outcome (google_login enc cfg g db)"
| "public_routes env d (Google_Return cfg post get k code state) db =
     outcome (google_callback env cfg post get k code state db)"

definition serve_customer ::
    "auth_env \<Rightarrow> database_env \<Rightarrow> datetime \<Rightarrow> string option \<Rightarrow> string option \<Rightarrow> customer_call \<Rightarrow> 'a accounts_db_scheme
     \<Rightarrow> (exn + unit) \<times> 'a accounts_db_scheme" where
  "serve_customer env d now access_token header call db =
     (case get_current_user env now access_token header db of
        Inl e \<Rightarrow> (Inl e, db)
      | Inr u \<Rightarrow> customer_routes env d u call db)"

text \<open>A request to the application: with the cookie and the header that may carry an access token.\<close>

datatype shop_request =
    Public_Request public_call
  | Customer_Request datetime "string option" "string option" customer_call
  | Admin_Request datetime "string option" "string option" admin_call

fun serve_shop ::
    "auth_env \<Rightarrow> database_env \<Rightarrow> shop_request \<Rightarrow> 'a accounts_db_scheme \<Rightarrow> (exn + unit) \<times> 'a accounts_db_scheme" where
  "serve_shop env d (Public_Request call) db = public_routes env d call db"
| "serve_shop env d (Customer_Request now token header call) db = serve_customer env d now token header call db"
| "serve_shop env d (Admin_Request now token header call) db = serve_admin env d now token header call db"

lemma outcome_state [simp]: "snd (outcome r) = snd r" "snd (reading x s) = s"
  by (simp_all add: outcome_def reading_def)

text \<open>Without a user who may log in, no request behind the current user has an effect.\<close>

lemma no_user_no_effect:
  assumes "get_current_user env now token header db = Inl e"
  shows "serve_shop env d (Customer_Request now token header call) db = (Inl e, db)"
    "serve_shop env d (Admin_Request now token header call') db = (Inl e, db)"
  using assms by (simp_all add: serve_customer_def serve_admin_def)

end
