(* ===== verification/Ticket_Facts.thy ===== *)
theory Ticket_Facts
  imports Tickets
begin

text \<open>
  What holds of tickets: the conversation invariant over every operation in any interleaving with
  the job, what one run of the job closes and how many runs empty the backlog, and who may read
  and answer.
\<close>

section \<open>Conversations\<close>

definition by_person :: "ticket_message \<Rightarrow> bool" where
  "by_person m \<longleftrightarrow> tm_author_role m \<noteq> BySystem"

text \<open>A ticket opens with its owner's message, only the owner writes as the customer, the system's
  messages are exactly the anonymous closing notes, the ticket's last response is the time of the
  last message of a person, and a closed ticket has a closing time.\<close>

definition conversation_ok :: "ticket \<Rightarrow> ticket_message list \<Rightarrow> bool" where
  "conversation_ok t ms \<longleftrightarrow> ms \<noteq> [] \<and> tm_author_role (hd ms) = ByCustomer
     \<and> (\<forall>m \<in> set ms. tm_author_role m = ByCustomer \<longrightarrow> tm_author_id m = Some (tk_user_id t))
     \<and> (\<forall>m \<in> set ms. (tm_author_role m = BySystem) = (tm_author_id m = None)
          \<and> (tm_author_role m = BySystem) = (tm_body m = AutoCloseNote))
     \<and> tk_last_response_at t = tm_created_at (last (filter by_person ms))
     \<and> (tk_status t = TkClosed \<longrightarrow> tk_closed_at t \<noteq> None)"

definition tickets_ok :: "'a tickets_db_scheme \<Rightarrow> bool" where
  "tickets_ok db \<longleftrightarrow> unique_by tk_id (tickets db)
     \<and> (\<forall>m \<in> set (ticket_messages db). tm_ticket_id m \<in> tk_id ` set (tickets db))
     \<and> (\<forall>t \<in> set (tickets db). conversation_ok t (messages_of (tk_id t) db))"

definition closing_notes :: "uuid \<Rightarrow> 'a tickets_db_scheme \<Rightarrow> nat" where
  "closing_notes tid db = length (filter (\<lambda>m. tm_author_role m = BySystem) (messages_of tid db))"

definition closing_records :: "uuid \<Rightarrow> 'a audit_db_scheme \<Rightarrow> nat" where
  "closing_records tid db =
     length (filter (\<lambda>a. al_action a = ''ticket.auto_closed'' \<and> al_resource_id a = Some tid) (audit_logs db))"

definition tickets_inv :: "'a tickets_db_scheme \<Rightarrow> bool" where
  "tickets_inv db \<longleftrightarrow> tickets_ok db \<and> (\<forall>tid. closing_notes tid db = closing_records tid db)"

text \<open>One ticket changes and gets messages.\<close>

lemma get_ticketD: "get_ticket_by_id tid db = Some t \<Longrightarrow> t \<in> set (tickets db) \<and> tk_id t = tid"
  unfolding get_ticket_by_id_def by (rule find_by_SomeD)

lemma messages_of_append:
  assumes "ticket_messages db' = ticket_messages db @ ms" "\<And>m. m \<in> set ms \<Longrightarrow> tm_ticket_id m = tid"
  shows "messages_of x db' = messages_of x db @ (if x = tid then ms else [])"
proof (cases "x = tid")
  case True
  then have "filter (\<lambda>m. tm_ticket_id m = x) ms = ms" using assms(2) by (simp add: filter_id_conv)
  with True show ?thesis by (simp add: messages_of_def assms(1))
next
  case False
  then have "filter (\<lambda>m. tm_ticket_id m = x) ms = []" using assms(2) by (simp add: filter_empty_conv)
  with False show ?thesis by (simp add: messages_of_def assms(1))
qed

lemma tickets_ok_move:
  assumes ok: "tickets_ok db" and t: "get_ticket_by_id tid db = Some t"
    and ts: "tickets db' = update_by tk_id tid f (tickets db)" "tk_id (f t) = tid"
    and ms: "ticket_messages db' = ticket_messages db @ ms" "\<And>m. m \<in> set ms \<Longrightarrow> tm_ticket_id m = tid"
    and c: "conversation_ok (f t) (messages_of tid db @ ms)"
  shows "tickets_ok db'"
proof -
  have u: "unique_by tk_id (tickets db)" using ok by (simp add: tickets_ok_def)
  have one: "r = t" if "r \<in> set (tickets db)" "tk_id r = tid" for r
    using find_by_unique [OF u that(1)] that(2) t by (simp add: get_ticket_by_id_def)
  note tt = get_ticketD [OF t]
  have set: "set (tickets db') = insert (f t) {r \<in> set (tickets db). tk_id r \<noteq> tid}"
    unfolding ts(1) set_update_by using one tt by blast
  have keys: "map tk_id (tickets db') = map tk_id (tickets db)"
    unfolding ts(1) update_by_def using one ts(2) by (auto simp: comp_def)
  have ids: "tk_id ` set (tickets db') = tk_id ` set (tickets db)" using keys by (metis set_map)
  have "unique_by tk_id (tickets db')" using u keys by (simp add: unique_by_def)
  moreover have "tm_ticket_id m \<in> tk_id ` set (tickets db')" if "m \<in> set (ticket_messages db')" for m
  proof (cases "m \<in> set ms")
    case True
    with ms(2) tt show ?thesis unfolding ids by force
  next
    case False
    with that ms(1) ok show ?thesis unfolding ids by (simp add: tickets_ok_def)
  qed
  moreover have "conversation_ok r (messages_of (tk_id r) db')" if "r \<in> set (tickets db')" for r
    using that c ok ts(2) by (auto simp: set messages_of_append [OF ms] tickets_ok_def)
  ultimately show ?thesis by (simp add: tickets_ok_def)
qed

lemma closing_notes_append:
  assumes "ticket_messages db' = ticket_messages db @ ms" "\<And>m. m \<in> set ms \<Longrightarrow> tm_ticket_id m = tid"
  shows "closing_notes x db' = closing_notes x db
    + (if x = tid then length (filter (\<lambda>m. tm_author_role m = BySystem) ms) else 0)"
  by (simp add: closing_notes_def messages_of_append [OF assms])

text \<open>A reply: its guard, and what it changes.\<close>

lemma conversation_reply:
  assumes "conversation_ok t ms" "by_person m" "tm_author_id m \<noteq> None" "tm_body m \<noteq> AutoCloseNote"
    and "tm_author_role m = ByCustomer \<longrightarrow> tm_author_id m = Some (tk_user_id t)"
    and "tk_user_id t' = tk_user_id t" "tk_last_response_at t' = tm_created_at m" "tk_status t' \<noteq> TkClosed"
  shows "conversation_ok t' (ms @ [m])"
  using assms by (auto simp: conversation_ok_def by_person_def)

lemma conversation_note:
  assumes "conversation_ok t ms" "tm_author_role m = BySystem" "tm_author_id m = None" "tm_body m = AutoCloseNote"
    and "tk_user_id t' = tk_user_id t" "tk_last_response_at t' = tk_last_response_at t" "tk_closed_at t' \<noteq> None"
  shows "conversation_ok t' (ms @ [m])"
  using assms by (auto simp: conversation_ok_def by_person_def)

lemma conversation_status:
  assumes "conversation_ok t ms" "tk_user_id t' = tk_user_id t" "tk_last_response_at t' = tk_last_response_at t"
    and "tk_status t' = TkClosed \<longrightarrow> tk_closed_at t' \<noteq> None"
  shows "conversation_ok t' ms"
  using assms by (auto simp: conversation_ok_def)

lemma inv_move:
  assumes inv: "tickets_inv db" and "get_ticket_by_id tid db = Some t"
    and "tickets db' = update_by tk_id tid f (tickets db)" "tk_id (f t) = tid"
    and ms: "ticket_messages db' = ticket_messages db @ ms" "\<And>m. m \<in> set ms \<Longrightarrow> tm_ticket_id m = tid"
    and "conversation_ok t (messages_of tid db) \<Longrightarrow> conversation_ok (f t) (messages_of tid db @ ms)"
    and "\<And>x. closing_records x db' = closing_records x db
           + (if x = tid then length (filter (\<lambda>m. tm_author_role m = BySystem) ms) else 0)"
  shows "tickets_inv db'"
proof -
  have ok: "tickets_ok db" using inv by (simp add: tickets_inv_def)
  then have "conversation_ok t (messages_of tid db)"
    using get_ticketD [OF assms(2)] by (auto simp: tickets_ok_def)
  from tickets_ok_move [OF ok assms(2-6) assms(7) [OF this]] inv assms(8) closing_notes_append [OF ms]
  show ?thesis by (simp add: tickets_inv_def)
qed

lemma save_ticket_frame [simp]:
  "ticket_messages (save_ticket n f tid db) = ticket_messages db"
  "audit_logs (save_ticket n f tid db) = audit_logs db"
  "tickets (save_ticket n f tid db) = update_by tk_id tid (stamped n f) (tickets db)"
  by (simp_all add: save_ticket_def)

lemma add_message_frame [simp]:
  "ticket_messages (add_ticket_message m db) = ticket_messages db @ [m]"
  "audit_logs (add_ticket_message m db) = audit_logs db"
  "tickets (add_ticket_message m db) = tickets db"
  by (simp_all add: add_ticket_message_def)

lemma stamped_sel [simp]:
  "tk_status (stamped n f t) = tk_status (f t)" "tk_last_response_at (stamped n f t) = tk_last_response_at (f t)"
  "tk_user_id (stamped n f t) = tk_user_id (f t)" "tk_closed_at (stamped n f t) = tk_closed_at (f t)"
  "tk_id (stamped n f t) = tk_id (f t)"
  by (cases "f t = t"; simp add: stamped_def)+

text \<open>A reply, whoever gives it, is one message and one change of the row.\<close>

lemma inv_reply:
  assumes inv: "tickets_inv db" and t: "get_ticket_by_id tid db = Some t"
    and m: "by_person m" "tm_author_id m \<noteq> None" "tm_body m \<noteq> AutoCloseNote" "tm_ticket_id m = tid"
      "tm_author_role m = ByCustomer \<longrightarrow> tm_author_id m = Some (tk_user_id t)"
    and st: "st \<noteq> TkClosed"
  shows "tickets_inv (save_ticket n (\<lambda>t. t\<lparr>tk_status := st, tk_last_response_at := tm_created_at m\<rparr>) tid
           (add_ticket_message m db))"
proof -
  let ?f = "\<lambda>t. t\<lparr>tk_status := st, tk_last_response_at := tm_created_at m\<rparr>"
  show ?thesis
  proof (rule inv_move [OF inv t, where f = "stamped n ?f" and ms = "[m]"])
    show "conversation_ok (stamped n ?f t) (messages_of tid db @ [m])" if "conversation_ok t (messages_of tid db)"
      by (rule conversation_reply [OF that m(1,2,3,5)]) (use st in simp_all)
  qed (use m get_ticketD [OF t] in \<open>auto simp: closing_records_def by_person_def\<close>)
qed

lemma inv_customer_reply:
  assumes "tickets_inv db" "add_customer_reply k tid u body db = Inr db'"
  shows "tickets_inv db'"
proof -
  from assms(2) obtain t where t: "get_ticket_by_id tid db = Some t" "tk_user_id t = u_id u"
    by (auto simp: add_customer_reply_def ticket_get_for_user_def bindE_eq_Inr split: if_splits)
  let ?m = "\<lparr> tm_id = tf_message k, tm_ticket_id = tid, tm_author_id = Some (u_id u),
         tm_author_role = ByCustomer, tm_body = UserText body, tm_created_at = tf_now k \<rparr>"
  from assms(2) t get_ticketD [OF t(1)] have "db' = save_ticket (tf_db_now k)
      (\<lambda>t. t\<lparr>tk_status := TkWaitingForSupport, tk_last_response_at := tf_now k\<rparr>) tid (add_ticket_message ?m db)"
    by (auto simp: add_customer_reply_def ticket_get_for_user_def bindE_eq_Inr split: if_splits)
  with inv_reply [OF assms(1) t(1), of ?m TkWaitingForSupport "tf_db_now k"] t(2) show ?thesis
    by (simp add: by_person_def)
qed

lemma inv_support_reply:
  assumes "tickets_inv db" "add_support_reply k tid u body db = Inr db'"
  shows "tickets_inv db'"
proof -
  from assms(2) obtain t where t: "get_ticket_by_id tid db = Some t"
    by (auto simp: add_support_reply_def bindE_eq_Inr split: if_splits)
  let ?m = "\<lparr> tm_id = tf_message k, tm_ticket_id = tid, tm_author_id = Some (u_id u),
         tm_author_role = BySupport, tm_body = UserText body, tm_created_at = tf_now k \<rparr>"
  from assms(2) t get_ticketD [OF t(1)] have "db' = save_ticket (tf_db_now k)
      (\<lambda>t. t\<lparr>tk_status := TkWaitingForCustomer, tk_last_response_at := tf_now k\<rparr>) tid (add_ticket_message ?m db)"
    by (auto simp: add_support_reply_def bindE_eq_Inr split: if_splits)
  with inv_reply [OF assms(1) t(1), of ?m TkWaitingForCustomer "tf_db_now k"] show ?thesis
    by (simp add: by_person_def)
qed

lemma inv_change_status:
  assumes inv: "tickets_inv db" and c: "change_status k tid st db = Inr db'"
  shows "tickets_inv db'"
proof -
  from c obtain t where t: "get_ticket_by_id tid db = Some t" by (auto simp: change_status_def bindE_eq_Inr)
  let ?f = "\<lambda>t. t\<lparr>tk_status := st, tk_closed_at := (if st = TkClosed then Some (tf_now k) else tk_closed_at t)\<rparr>"
  from c t have db': "db' = save_ticket (tf_db_now k) ?f tid db" by (simp add: change_status_def)
  show ?thesis
  proof (rule inv_move [OF inv t, where f = "stamped (tf_db_now k) ?f" and ms = "[]"])
    show "conversation_ok (stamped (tf_db_now k) ?f t) (messages_of tid db @ [])"
      if "conversation_ok t (messages_of tid db)"
      unfolding append_Nil2 by (rule conversation_status [OF that]) simp_all
  qed (use get_ticketD [OF t] in \<open>auto simp: db' closing_records_def\<close>)
qed

lemma inv_create:
  assumes inv: "tickets_inv db" and fresh: "get_ticket_by_id (tf_ticket k) db = None"
  shows "tickets_inv (snd (ticket_create k uid subject message p db))"
proof -
  have f: "tf_ticket k \<notin> tk_id ` set (tickets db)"
    using fresh by (simp add: get_ticket_by_id_def find_by_None)
  have no: "messages_of (tf_ticket k) db = []"
    using inv f unfolding messages_of_def filter_empty_conv tickets_inv_def tickets_ok_def by metis
  let ?db = "snd (ticket_create k uid subject message p db)"
  have ms: "messages_of x ?db = messages_of x db @ (if x = tf_ticket k then
      [\<lparr> tm_id = tf_message k, tm_ticket_id = tf_ticket k, tm_author_id = Some uid, tm_author_role = ByCustomer,
         tm_body = UserText message, tm_created_at = tf_now k \<rparr>] else [])" for x
    by (simp add: messages_of_def ticket_create_def add_ticket_message_def Let_def)
  have rec: "closing_records x ?db = closing_records x db" for x
    by (simp add: closing_records_def ticket_create_def add_ticket_message_def Let_def)
  have old: "tk_id t \<noteq> tf_ticket k" if "t \<in> set (tickets db)" for t
    using f that by (metis imageI)
  have "tickets_ok ?db"
    using inv f no old by (auto simp: tickets_inv_def tickets_ok_def ticket_create_def add_ticket_message_def Let_def
        unique_by_append_one find_by_None conversation_ok_def by_person_def messages_of_def)
  moreover have "closing_notes x ?db = closing_records x ?db" for x
    using inv by (simp add: closing_notes_def ms rec tickets_inv_def)
  ultimately show ?thesis by (simp add: tickets_inv_def)
qed

section \<open>The job\<close>

definition closed_by :: "ticket_fresh \<Rightarrow> ticket \<Rightarrow> ticket" where
  "closed_by k t = t\<lparr>tk_status := TkClosed, tk_closed_at := Some (tf_now k), tk_updated_at := tf_db_now k\<rparr>"

lemma closed_by_sel [simp]:
  "tk_id (closed_by k t) = tk_id t" "tk_status (closed_by k t) = TkClosed" "tk_user_id (closed_by k t) = tk_user_id t"
  "tk_last_response_at (closed_by k t) = tk_last_response_at t" "tk_closed_at (closed_by k t) = Some (tf_now k)"
  by (simp_all add: closed_by_def)

definition closing_note :: "ticket_fresh \<Rightarrow> uuid \<Rightarrow> ticket_message" where
  "closing_note k tid = \<lparr> tm_id = tf_message k, tm_ticket_id = tid, tm_author_id = None,
     tm_author_role = BySystem, tm_body = AutoCloseNote, tm_created_at = tf_now k \<rparr>"

definition closing_record :: "ticket_fresh \<Rightarrow> uuid \<Rightarrow> audit_log" where
  "closing_record k tid = \<lparr> al_actor_id = None, al_action = ''ticket.auto_closed'', al_resource_type = ''ticket'',
     al_resource_id = Some tid, al_metadata = Some [(''reason'', JStr ''waiting_for_customer_timeout'')],
     al_ip_address = None, al_created_at = tf_db_now k \<rparr>"

text \<open>The conditional update claims at most one row, and a pass that claims none changes nothing.\<close>

lemma auto_close_one_cases:
  assumes u: "unique_by tk_id (tickets db)"
  obtains (skipped) "\<not> (\<exists>t. get_ticket_by_id tid db = Some t \<and> tk_status t = TkWaitingForCustomer)"
      "auto_close_one k tid db = (False, db)"
    | (closed) t where "get_ticket_by_id tid db = Some t" "tk_status t = TkWaitingForCustomer"
      "auto_close_one k tid db = (True, db\<lparr> audit_logs := audit_logs db @ [closing_record k tid],
         tickets := update_by tk_id tid (closed_by k) (tickets db),
         ticket_messages := ticket_messages db @ [closing_note k tid] \<rparr>)"
proof -
  let ?g = "\<lambda>t. tk_id t = tid \<and> tk_status t = TkWaitingForCustomer"
  let ?c = "\<lambda>t. if ?g t then t\<lparr>tk_status := TkClosed, tk_closed_at := Some (tf_now k), tk_updated_at := tf_db_now k\<rparr> else t"
  have none: "filter ?g ts = [] \<and> map ?c ts = ts" if "\<And>t. t \<in> set ts \<Longrightarrow> \<not> ?g t" for ts
    using that by (induction ts) auto
  have one: "filter ?g ts = [t] \<and> map ?c ts = update_by tk_id tid (closed_by k) ts"
    if "unique_by tk_id ts" "find_by tk_id tid ts = Some t" "tk_status t = TkWaitingForCustomer" for ts t
    using that
  proof (induction ts)
    case (Cons a ts)
    show ?case
    proof (cases "tk_id a = tid")
      case True
      with Cons.prems(2) have a: "a = t" by simp
      have rest: "find_by tk_id tid ts = None"
        using Cons.prems(1) True by (auto simp: unique_by_def find_by_None)
      then have "\<not> ?g r" if "r \<in> set ts" for r using that by (auto simp: find_by_None)
      from none [OF this] True a Cons.prems(3) rest show ?thesis
        by (simp add: closed_by_def update_by_absent)
    next
      case False
      with Cons show ?thesis by (simp add: unique_by_def)
    qed
  qed simp
  show thesis
  proof (cases "\<exists>t. get_ticket_by_id tid db = Some t \<and> tk_status t = TkWaitingForCustomer")
    case True
    then obtain t where t: "get_ticket_by_id tid db = Some t" "tk_status t = TkWaitingForCustomer" by blast
    from one [OF u t(1) [unfolded get_ticket_by_id_def] t(2)] show thesis
      by (intro closed [OF t])
         (simp add: auto_close_one_def write_audit_log_def add_ticket_message_def closing_note_def closing_record_def)
  next
    case False
    have "\<not> ?g r" if "r \<in> set (tickets db)" for r
      using False find_by_unique [OF u that] by (auto simp: get_ticket_by_id_def)
    from none [OF this] show thesis by (intro skipped [OF False]) (simp add: auto_close_one_def)
  qed
qed

lemma inv_auto_close_one:
  assumes inv: "tickets_inv db" shows "tickets_inv (snd (auto_close_one k tid db))"
proof -
  have "unique_by tk_id (tickets db)" using inv by (simp add: tickets_inv_def tickets_ok_def)
  then show ?thesis
  proof (cases rule: auto_close_one_cases [of db tid k])
    case skipped
    with inv show ?thesis by simp
  next
    case (closed t)
    show ?thesis
    proof (rule inv_move [OF inv closed(1), where f = "closed_by k" and ms = "[closing_note k tid]"])
      show "conversation_ok (closed_by k t) (messages_of tid db @ [closing_note k tid])"
        if "conversation_ok t (messages_of tid db)"
        by (rule conversation_note [OF that]) (simp_all add: closing_note_def)
    qed (use closed(3) get_ticketD [OF closed(1)] in
         \<open>auto simp: closing_note_def closing_record_def closing_records_def\<close>)
  qed
qed

section \<open>Every interleaving\<close>

text \<open>The requests, one pass of the job by any worker, and what leaves these tables alone.\<close>

inductive ticket_step :: "'a tickets_db_scheme \<Rightarrow> 'a tickets_db_scheme \<Rightarrow> bool" where
  tk_create: "get_ticket_by_id (tf_ticket k) db = None \<Longrightarrow> ticket_step db (snd (create_ticket u k data db))"
| tk_reply: "ticket_step db (snd (reply_to_ticket u k tid message db))"
| tk_answer: "ticket_step db (snd (admin_reply_to_ticket u k tid message db))"
| tk_status: "ticket_step db (snd (admin_change_ticket_status u k tid st db))"
| tk_close: "ticket_step db (snd (auto_close_one k tid db))"
| tk_other: "tickets db' = tickets db \<Longrightarrow> ticket_messages db' = ticket_messages db \<Longrightarrow>
     audit_logs db' = audit_logs db @ rows \<Longrightarrow> \<forall>r \<in> set rows. al_action r \<noteq> ''ticket.auto_closed'' \<Longrightarrow>
     ticket_step db db'"

lemma committed_inv:
  "I s \<Longrightarrow> (\<And>s'. m = Inr s' \<Longrightarrow> I s') \<Longrightarrow> I (snd (committed s m view))"
  by (cases m) (simp_all add: committed_def)

lemma inv_ticket_step: "ticket_step db db' \<Longrightarrow> tickets_inv db \<Longrightarrow> tickets_inv db'"
proof (induction rule: ticket_step.induct)
  case (tk_create k db u data)
  show ?case unfolding create_ticket_def
    by (rule committed_inv [where I = tickets_inv, OF tk_create(2)])
       (use inv_create [OF tk_create(2,1)] in \<open>auto simp: bindE_eq_Inr\<close>)
next
  case (tk_reply db u k tid message)
  show ?case unfolding reply_to_ticket_def
    by (rule committed_inv [where I = tickets_inv, OF tk_reply])
       (use inv_customer_reply [OF tk_reply] in \<open>auto simp: bindE_eq_Inr\<close>)
next
  case (tk_answer db u k tid message)
  show ?case unfolding admin_reply_to_ticket_def
    by (rule committed_inv [where I = tickets_inv, OF tk_answer])
       (use inv_support_reply [OF tk_answer] in \<open>auto simp: bindE_eq_Inr\<close>)
next
  case (tk_status db u k tid st)
  show ?case unfolding admin_change_ticket_status_def
    by (rule committed_inv [where I = tickets_inv, OF tk_status])
       (use inv_change_status [OF tk_status] in \<open>auto simp: bindE_eq_Inr\<close>)
next
  case (tk_close db k tid)
  then show ?case by (rule inv_auto_close_one)
next
  case (tk_other db' db rows)
  then have "closing_records x db' = closing_records x db" for x
    by (auto simp: closing_records_def filter_empty_conv)
  with tk_other show ?case
    by (simp add: tickets_inv_def tickets_ok_def messages_of_def closing_notes_def)
qed

lemma inv_ticket_steps: "ticket_step\<^sup>*\<^sup>* db db' \<Longrightarrow> tickets_inv db \<Longrightarrow> tickets_inv db'"
  by (induction rule: rtranclp_induct) (auto intro: inv_ticket_step)

section \<open>What a run closes\<close>

definition closed_in :: "(uuid \<Rightarrow> ticket_fresh) \<Rightarrow> uuid set \<Rightarrow> ticket \<Rightarrow> ticket" where
  "closed_in fr S t = (if tk_id t \<in> S then closed_by (fr (tk_id t)) t else t)"

lemma auto_close_loop_effect:
  assumes "unique_by tk_id (tickets db)" "distinct tids"
    and "\<And>tid. tid \<in> set tids \<Longrightarrow> \<exists>t. get_ticket_by_id tid db = Some t \<and> tk_status t = TkWaitingForCustomer"
  shows "\<exists>db'. auto_close_loop fr tids (n, db) = (n + length tids, db')
    \<and> tickets db' = map (closed_in fr (set tids)) (tickets db)
    \<and> ticket_messages db' = ticket_messages db @ map (\<lambda>tid. closing_note (fr tid) tid) tids
    \<and> audit_logs db' = audit_logs db @ map (\<lambda>tid. closing_record (fr tid) tid) tids"
  using assms
proof (induction tids arbitrary: n db)
  case Nil
  then show ?case by (simp add: closed_in_def)
next
  case (Cons tid tids)
  from Cons.prems(3) [of tid] obtain t where t: "get_ticket_by_id tid db = Some t" "tk_status t = TkWaitingForCustomer"
    by auto
  let ?db = "db\<lparr> audit_logs := audit_logs db @ [closing_record (fr tid) tid],
         tickets := update_by tk_id tid (closed_by (fr tid)) (tickets db),
         ticket_messages := ticket_messages db @ [closing_note (fr tid) tid] \<rparr>"
  have one: "auto_close_one (fr tid) tid db = (True, ?db)"
    using Cons.prems(1) by (cases rule: auto_close_one_cases [of db tid "fr tid"]) (use t in auto)
  have u: "unique_by tk_id (tickets ?db)" using Cons.prems(1) by (simp add: unique_update_by)
  have w: "\<exists>t. get_ticket_by_id x ?db = Some t \<and> tk_status t = TkWaitingForCustomer" if "x \<in> set tids" for x
  proof -
    have "x \<noteq> tid" using that Cons.prems(2) by auto
    then show ?thesis using Cons.prems(3) [of x] that by (simp add: get_ticket_by_id_def find_by_update_by)
  qed
  have d: "distinct tids" using Cons.prems(2) by simp
  from Cons.IH [OF u d w, of "n + 1"] obtain db' where db':
      "auto_close_loop fr tids (n + 1, ?db) = (n + 1 + length tids, db')"
      "tickets db' = map (closed_in fr (set tids)) (tickets ?db)"
      "ticket_messages db' = ticket_messages ?db @ map (\<lambda>tid. closing_note (fr tid) tid) tids"
      "audit_logs db' = audit_logs ?db @ map (\<lambda>tid. closing_record (fr tid) tid) tids" by blast
  have "tid \<notin> set tids" using Cons.prems(2) by simp
  then have "map (closed_in fr (set tids)) (tickets ?db) = map (closed_in fr (set (tid # tids))) (tickets db)"
    by (auto simp: update_by_def closed_in_def)
  with one db' show ?case by simp
qed

lemma filter_not_taken:
  assumes "distinct (map key xs)"
  shows "filter (\<lambda>x. key x \<notin> set (take n (map key xs))) xs = drop n xs"
  using assms
proof (induction xs arbitrary: n)
  case (Cons x xs)
  show ?case
  proof (cases n)
    case (Suc m)
    have "filter (\<lambda>y. key y \<notin> set (take m (map key xs)) \<and> key y \<noteq> key x) xs =
          filter (\<lambda>y. key y \<notin> set (take m (map key xs))) xs"
      using Cons.prems by (intro filter_cong) (auto simp: image_iff)
    with Suc Cons show ?thesis by (simp add: conj_commute)
  qed simp
qed simp

definition backlog :: "datetime \<Rightarrow> 'a tickets_db_scheme \<Rightarrow> ticket list" where
  "backlog now db = filter (is_stale (now - STALE_AFTER)) (tickets db)"

text \<open>A run that nothing interrupts closes exactly the first \<open>BATCH_SIZE\<close> stale tickets, each with
  one note and one audit row, and leaves every other ticket as it was.\<close>

lemma run_closes_batch:
  assumes u: "unique_by tk_id (tickets db)" and r: "auto_close_stale_tickets now fr db = (n, db')"
  defines "batch \<equiv> map tk_id (take BATCH_SIZE (backlog now db))"
  shows "n = min BATCH_SIZE (length (backlog now db))"
    and "tickets db' = map (closed_in fr (set batch)) (tickets db)"
    and "ticket_messages db' = ticket_messages db @ map (\<lambda>tid. closing_note (fr tid) tid) batch"
    and "audit_logs db' = audit_logs db @ map (\<lambda>tid. closing_record (fr tid) tid) batch"
    and "backlog now db' = drop BATCH_SIZE (backlog now db)"
proof -
  have c: "stale_candidates (now - STALE_AFTER) db = batch"
    by (simp add: stale_candidates_def batch_def backlog_def take_map)
  have db: "distinct (map tk_id (backlog now db))"
    using u unfolding backlog_def by (simp add: unique_by_def distinct_map_filter)
  then have d: "distinct batch" by (simp add: batch_def take_map [symmetric])
  have w: "\<exists>t. get_ticket_by_id tid db = Some t \<and> tk_status t = TkWaitingForCustomer" if "tid \<in> set batch" for tid
  proof -
    from that obtain t where t: "t \<in> set (take BATCH_SIZE (backlog now db))" "tk_id t = tid"
      unfolding batch_def by auto
    from t(1) have "t \<in> set (tickets db)" "is_stale (now - STALE_AFTER) t"
      using in_set_takeD by (fastforce simp: backlog_def)+
    then show ?thesis using find_by_unique [OF u, of t] t(2) by (auto simp: get_ticket_by_id_def is_stale_def)
  qed
  from auto_close_loop_effect [OF u d w, of fr 0] r
  have e: "n = length batch" "tickets db' = map (closed_in fr (set batch)) (tickets db)"
    "ticket_messages db' = ticket_messages db @ map (\<lambda>tid. closing_note (fr tid) tid) batch"
    "audit_logs db' = audit_logs db @ map (\<lambda>tid. closing_record (fr tid) tid) batch"
    by (auto simp: auto_close_stale_tickets_def c)
  then show "tickets db' = map (closed_in fr (set batch)) (tickets db)"
    "ticket_messages db' = ticket_messages db @ map (\<lambda>tid. closing_note (fr tid) tid) batch"
    "audit_logs db' = audit_logs db @ map (\<lambda>tid. closing_record (fr tid) tid) batch" by blast+
  show "n = min BATCH_SIZE (length (backlog now db))" by (simp add: e(1) batch_def min.commute)
  have "filter (is_stale c) (map (closed_in fr S) ts) = filter (\<lambda>t. tk_id t \<notin> S) (filter (is_stale c) ts)" for c S ts
    by (induction ts) (auto simp: closed_in_def is_stale_def)
  then have "backlog now db' = filter (\<lambda>t. tk_id t \<notin> set batch) (backlog now db)"
    by (simp add: backlog_def e(2))
  also have "\<dots> = drop BATCH_SIZE (backlog now db)"
    unfolding batch_def take_map [symmetric] by (rule filter_not_taken [OF db])
  finally show "backlog now db' = drop BATCH_SIZE (backlog now db)" .
qed

text \<open>So enough runs empty the backlog.\<close>

lemma runs_shrink_backlog:
  assumes "unique_by tk_id (tickets db)"
  shows "unique_by tk_id (tickets (((\<lambda>d. snd (auto_close_stale_tickets now fr d)) ^^ k) db))
    \<and> backlog now (((\<lambda>d. snd (auto_close_stale_tickets now fr d)) ^^ k) db) = drop (k * BATCH_SIZE) (backlog now db)"
  using assms
proof (induction k)
  case (Suc k)
  let ?d = "((\<lambda>d. snd (auto_close_stale_tickets now fr d)) ^^ k) db"
  from Suc have u: "unique_by tk_id (tickets ?d)" and b: "backlog now ?d = drop (k * BATCH_SIZE) (backlog now db)"
    by blast+
  note e = run_closes_batch [OF u surjective_pairing, of now fr]
  have "unique_by tk_id (tickets (snd (auto_close_stale_tickets now fr ?d)))"
    unfolding e(2) using u by (simp add: unique_by_def comp_def closed_in_def if_distrib cong: if_cong)
  with e(5) b show ?case by (simp add: add.commute)
qed simp

section \<open>Access\<close>

lemma outsider_refused:
  assumes "get_ticket_by_id tid db = Some t" "tk_user_id t \<noteq> u_id u"
  shows "get_ticket u tid db = (if u_role u = Customer then Inl PermissionDeniedError else Inr (serialize_ticket t db))"
    and "add_customer_reply k tid u body db = Inl PermissionDeniedError"
  using assms by (cases "u_role u"; simp add: get_ticket_def add_customer_reply_def ticket_get_for_user_def SUPPORT_ROLES_def)+

lemma closed_refuses_replies:
  assumes "get_ticket_by_id tid db = Some t" "tk_status t = TkClosed"
  shows "\<exists>e. add_customer_reply k tid u body db = Inl e" "add_support_reply k tid u body db = Inl ConflictError"
  using assms by (auto simp: add_customer_reply_def add_support_reply_def ticket_get_for_user_def)

text \<open>The conditional update checks the status only: a ticket that was answered after it was
  selected, and waits for the customer again, is closed however recent the answer is.\<close>

lemma recheck_ignores_time:
  assumes "unique_by tk_id (tickets db)" "get_ticket_by_id tid db = Some t" "tk_status t = TkWaitingForCustomer"
  shows "fst (auto_close_one k tid db)"
    and "get_ticket_by_id tid (snd (auto_close_one k tid db)) = Some (closed_by k t)"
  using assms(1)
  by (cases rule: auto_close_one_cases [of db tid k];
      use assms(2,3) in \<open>auto simp: get_ticket_by_id_def find_by_update_by\<close>)+

end
