(* ===== verification/Shop_Frames.thy ===== *)
theory Shop_Frames
  imports Shop_Api Auth_Facts Ticket_Facts Order_Effects
begin

text \<open>
  What each group of routes leaves alone. The state grows by extension along the imports, so the
  tables behind a component are the \<open>more\<close> part of its record, and the tables before it the
  \<open>truncate\<close> part.
\<close>

section \<open>Parts of the state\<close>

named_theorems frames

lemma behind_catalog:
  fixes db db' :: "'a accounts_db_scheme"
  assumes "catalog_db.more db' = catalog_db.more db"
  shows "idempotency_keys db' = idempotency_keys db" "cart_db.more db' = cart_db.more db"
    "carts db' = carts db" "cart_items db' = cart_items db"
  using assms by (cases db; cases db'; simp)+

lemma behind_cart:
  fixes db db' :: "'a accounts_db_scheme"
  assumes "cart_db.more db' = cart_db.more db"
  shows "wallets db' = wallets db" "wallet_transactions db' = wallet_transactions db"
    "wallet_db.more db' = wallet_db.more db"
  using assms by (cases db; cases db'; simp)+

lemma behind_wallet:
  fixes db db' :: "'a accounts_db_scheme"
  assumes "wallet_db.more db' = wallet_db.more db"
  shows "orders db' = orders db" "order_items db' = order_items db" "order_history db' = order_history db"
    "payments db' = payments db" "payments_db.more db' = payments_db.more db"
  using assms by (cases db; cases db'; simp)+

lemma behind_payments:
  fixes db db' :: "'a accounts_db_scheme"
  assumes "payments_db.more db' = payments_db.more db"
  shows "audit_logs db' = audit_logs db" "tickets db' = tickets db" "ticket_messages db' = ticket_messages db"
    "users db' = users db" "oauth_accounts db' = oauth_accounts db" "refresh_tokens db' = refresh_tokens db"
    "password_resets db' = password_resets db" "email_verifications db' = email_verifications db"
  using assms by (cases db; cases db'; simp)+

lemma behind_tickets:
  fixes db db' :: "'a accounts_db_scheme"
  assumes "tickets_db.more db' = tickets_db.more db"
  shows "users db' = users db" "oauth_accounts db' = oauth_accounts db" "refresh_tokens db' = refresh_tokens db"
    "password_resets db' = password_resets db" "email_verifications db' = email_verifications db"
  using assms by (cases db; cases db'; simp)+

lemma before_orders:
  fixes db db' :: "'a cart_db_scheme"
  assumes "catalog_db.truncate db' = catalog_db.truncate db"
  shows "inventories db' = inventories db" "categories db' = categories db" "products db' = products db" "redis db' = redis db"
  using assms by (cases db; cases db'; simp add: catalog_db.truncate_def)+

lemma before_audit:
  fixes db db' :: "'a accounts_db_scheme"
  assumes "payments_db.truncate db' = payments_db.truncate db"
  shows "inventories db' = inventories db" "categories db' = categories db" "products db' = products db" "redis db' = redis db"
    "idempotency_keys db' = idempotency_keys db" "carts db' = carts db" "cart_items db' = cart_items db"
    "wallets db' = wallets db" "wallet_transactions db' = wallet_transactions db" "orders db' = orders db"
    "order_items db' = order_items db" "order_history db' = order_history db" "payments db' = payments db"
  using assms by (cases db; cases db'; simp add: payments_db.truncate_def)+

section \<open>The catalogue\<close>

lemma category_rest:
  "category_create nid cc db = Inr (c, db') \<Longrightarrow> catalog_db.more db' = catalog_db.more db"
  "category_update cid cu db = Inr (c, db') \<Longrightarrow> catalog_db.more db' = catalog_db.more db"
  "category_move coll cid np db = Inr (c, db') \<Longrightarrow> catalog_db.more db' = catalog_db.more db"
  "category_delete cid db = Inr db' \<Longrightarrow> catalog_db.more db' = catalog_db.more db"
  by (auto simp: category_create_def category_update_def category_move_def category_delete_def Let_def bindE_eq_Inr
      invalidate_tree_cache_def split: if_splits)

lemma stock_rest:
  "restock pid q a db = Inr db' \<Longrightarrow> catalog_db.more db' = catalog_db.more db"
  "adjust pid q a db = Inr db' \<Longrightarrow> catalog_db.more db' = catalog_db.more db"
  by (auto simp: restock_def adjust_def bindE_eq_Inr Let_def add_inventory_history_def put_inventory_def split: if_splits)

lemma product_rest:
  "product_create num nid now pc db = Inr (p, db') \<Longrightarrow> catalog_db.more db' = catalog_db.more db"
  "product_update num now pid pu db = Inr (p, db') \<Longrightarrow> catalog_db.more db' = catalog_db.more db"
  "archive now pid db = Inr db' \<Longrightarrow> catalog_db.more db' = catalog_db.more db"
  by (auto simp: product_create_def product_update_def archive_def bindE_eq_Inr Let_def invalidate_product_cache_def
      split: if_splits option.splits)

lemma request_rest:
  assumes "\<And>r s'. m = Inr (r, s') \<Longrightarrow> f s' = f s" shows "f (snd (request s m)) = f s"
  by (rule request_invariant [where I = "\<lambda>s'. f s' = f s"]) (simp_all add: assms)

lemma category_routes_rest [frames]:
  "catalog_db.more (snd (create_category u nid cc db)) = catalog_db.more db"
  "catalog_db.more (snd (update_category u cid cu db)) = catalog_db.more db"
  "catalog_db.more (snd (move_category coll u cid np db)) = catalog_db.more db"
  "catalog_db.more (snd (delete_category u cid db)) = catalog_db.more db"
  unfolding create_category_def update_category_def move_category_def delete_category_def
  by (rule request_rest, auto simp: bindE_eq_Inr commit_catalog_Inr dest: category_rest)+

lemma product_routes_rest [frames]:
  "catalog_db.more (snd (create_product num u nid now pc db)) = catalog_db.more db"
  "catalog_db.more (snd (archive_product u now pid db)) = catalog_db.more db"
  "catalog_db.more (snd (restock_product u pid ia db)) = catalog_db.more db"
  "catalog_db.more (snd (adjust_product_inventory u pid ia db)) = catalog_db.more db"
  unfolding create_product_def archive_product_def restock_product_def adjust_product_inventory_def
  by (rule request_rest, auto simp: bindE_eq_Inr commit_catalog_Inr dest: product_rest stock_rest)+

lemma update_product_rest [frames]:
  "catalog_db.more (snd (update_product num u now pid pu db)) = catalog_db.more db"
  by (auto simp: update_product_def bindE_eq_Inr commit_catalog_Inr dest: product_rest(2) split: sum.split)

lemma catalog_reads_rest [frames]:
  "catalog_db.more (snd (get_category_tree coll db)) = catalog_db.more db"
  "catalog_db.more (snd (get_product slug db)) = catalog_db.more db"
  "catalog_db.more (snd (featured_products db)) = catalog_db.more db"
  "catalog_db.more (snd (popular_products db)) = catalog_db.more db"
  unfolding get_category_tree_def get_product_def featured_products_def popular_products_def cached_list_def
  by (auto simp: bindE_eq_Inr intro!: request_rest split: option.split cached.split)

section \<open>Cart and wallet\<close>

text \<open>A guarded action also writes its key.\<close>

lemma guarded_invariant:
  assumes "I db" "\<And>s k. I s \<Longrightarrow> I (s\<lparr>idempotency_keys := k\<rparr>)"
    and "\<And>k r s'. act (db\<lparr>idempotency_keys := k\<rparr>) = Inr (r, s') \<Longrightarrow> I s'"
  shows "I (snd (guarded op u key h now act db))"
  unfolding guarded_def
proof (rule request_invariant [where I = I, OF assms(1)])
  fix r s'
  assume "bindE (idempotency_guard op u key h now db) (\<lambda>outcome. case outcome of Replay r \<Rightarrow> Inr (r, db)
     | Proceed i db1 \<Rightarrow> bindE (act db1) (\<lambda>(r, db2). Inr (r, finish i r db2))) = Inr (r, s')"
  then obtain oc where g: "idempotency_guard op u key h now db = Inr oc"
    and run: "(case oc of Replay r \<Rightarrow> Inr (r, db)
     | Proceed i db1 \<Rightarrow> bindE (act db1) (\<lambda>(r, db2). Inr (r, finish i r db2))) = Inr (r, s')"
    by (auto simp: bindE_eq_Inr)
  show "I s'"
  proof (cases oc)
    case (Proceed i db1)
    with g obtain ks where k: "db1 = db\<lparr>idempotency_keys := ks\<rparr>"
      by (auto simp: idempotency_guard_def split: option.splits if_splits)
    from run Proceed obtain db2 where "act db1 = Inr (r, db2)" "s' = finish i r db2" by (auto simp: bindE_eq_Inr)
    then show ?thesis using assms(2,3) unfolding finish_def k by metis
  next
    case (Replay r')
    with run assms(1) show ?thesis by simp
  qed
qed

lemma guarded_rest:
  assumes "\<And>s k. f (s\<lparr>idempotency_keys := k\<rparr>) = f s" "\<And>s r s'. act s = Inr (r, s') \<Longrightarrow> f s' = f s"
  shows "f (snd (guarded op u key h now act db)) = f db"
  by (rule guarded_invariant [where I = "\<lambda>s. f s = f db"]) (simp_all add: assms)

lemma get_or_create_cart_rest:
  "catalog_db.truncate (snd (get_or_create_cart nid u db)) = catalog_db.truncate db"
  "cart_db.more (snd (get_or_create_cart nid u db)) = cart_db.more db"
  by (simp_all add: get_or_create_cart_def Let_def catalog_db.truncate_def split: option.split)

lemma get_summary_rest:
  "snd (get_summary nid u db) = snd (get_or_create_cart nid u db)"
  by (simp add: get_summary_def split: prod.split)

lemma cart_services_rest:
  "cart_add_item nid u pid q db = Inr db' \<Longrightarrow> catalog_db.truncate db' = catalog_db.truncate db \<and> cart_db.more db' = cart_db.more db"
  "cart_update_item nid u pid q db = Inr db' \<Longrightarrow> catalog_db.truncate db' = catalog_db.truncate db \<and> cart_db.more db' = cart_db.more db"
  "catalog_db.truncate (cart_remove_item nid u pid db) = catalog_db.truncate db \<and> cart_db.more (cart_remove_item nid u pid db) = cart_db.more db"
  "catalog_db.truncate (cart_clear nid u db) = catalog_db.truncate db \<and> cart_db.more (cart_clear nid u db) = cart_db.more db"
  using get_or_create_cart_rest [of nid u db]
  by (cases "get_or_create_cart nid u db";
      auto simp: cart_add_item_def cart_update_item_def cart_remove_item_def cart_clear_def clear_items_def delete_item_def
        Let_def bindE_eq_Inr catalog_db.truncate_def split: option.splits if_splits)+


lemma keys_rest [simp]:
  "catalog_db.truncate (db\<lparr>idempotency_keys := k\<rparr>) = catalog_db.truncate db"
  "cart_db.more (db\<lparr>idempotency_keys := k\<rparr>) = cart_db.more db"
  by (simp_all add: catalog_db.truncate_def)

lemma cart_routes_rest [frames]:
  "catalog_db.truncate (snd (add_cart_item u i key h now pid q db)) = catalog_db.truncate db"
  "cart_db.more (snd (add_cart_item u i key h now pid q db)) = cart_db.more db"
  "catalog_db.truncate (snd (update_cart_item u i pid q db)) = catalog_db.truncate db"
  "cart_db.more (snd (update_cart_item u i pid q db)) = cart_db.more db"
  unfolding add_cart_item_def update_cart_item_def
  by (rule guarded_rest request_rest;
      auto simp: add_cart_item_action_def bindE_eq_Inr case_prod_beta get_summary_rest get_or_create_cart_rest
        prod_eq_iff dest!: cart_services_rest(1,2))+

lemma get_or_create_wallet_rest:
  "catalog_db.truncate (snd (get_or_create_wallet nid u db)) = catalog_db.truncate db"
  "carts (snd (get_or_create_wallet nid u db)) = carts db"
  "cart_items (snd (get_or_create_wallet nid u db)) = cart_items db"
  "idempotency_keys (snd (get_or_create_wallet nid u db)) = idempotency_keys db"
  "wallet_transactions (snd (get_or_create_wallet nid u db)) = wallet_transactions db"
  "wallet_db.more (snd (get_or_create_wallet nid u db)) = wallet_db.more db"
  by (simp_all add: get_or_create_wallet_def Let_def catalog_db.truncate_def split: option.split)

text \<open>What a booking leaves alone, as one value.\<close>

definition beside_wallets where
  "beside_wallets db = (catalog_db.truncate db, carts db, cart_items db, wallet_db.more db)"

lemma beside_wallets_keys [simp]: "beside_wallets (db\<lparr>idempotency_keys := k\<rparr>) = beside_wallets db"
  by (simp add: beside_wallets_def catalog_db.truncate_def)

lemma apply_transaction_rest:
  "apply_transaction num k uid ty amount rt rid note actor db = Inr (t, db') \<Longrightarrow> beside_wallets db' = beside_wallets db"
  using get_or_create_wallet_rest [of "f_wallet k" uid db]
  by (auto simp: beside_wallets_def catalog_db.truncate_def elim!: apply_transaction_cases)

lemma wallet_routes_rest [frames]:
  "beside_wallets (snd (get_my_wallet u k db)) = beside_wallets db"
  "beside_wallets (snd (list_my_wallet_transactions u k ps db)) = beside_wallets db"
  "beside_wallets (snd (admin_get_wallet u k uid db)) = beside_wallets db"
  "beside_wallets (snd (deposit_to_wallet num u k key h amount db)) = beside_wallets db"
  "beside_wallets (snd (admin_credit_wallet num u k key h uid amount reason db)) = beside_wallets db"
  "beside_wallets (snd (admin_debit_wallet num u k key h uid amount reason db)) = beside_wallets db"
proof -
  have w: "beside_wallets (snd (get_or_create_wallet nid u db)) = beside_wallets db" for nid u
    by (simp add: beside_wallets_def get_or_create_wallet_rest)
  then show "beside_wallets (snd (get_my_wallet u k db)) = beside_wallets db" by (simp add: get_my_wallet_def)
  show "beside_wallets (snd (list_my_wallet_transactions u k ps db)) = beside_wallets db"
    "beside_wallets (snd (admin_get_wallet u k uid db)) = beside_wallets db"
    unfolding list_my_wallet_transactions_def admin_get_wallet_def
    by (rule request_rest; use w in \<open>auto simp: bindE_eq_Inr case_prod_beta prod_eq_iff\<close>)+
  show "beside_wallets (snd (deposit_to_wallet num u k key h amount db)) = beside_wallets db"
    unfolding deposit_to_wallet_def
    by (rule guarded_rest) (auto simp: deposit_action_def wallet_services bindE_eq_Inr dest: apply_transaction_rest)
  have adj: "beside_wallets (snd (guarded op uid' key h now (admin_adjust_action c num u k uid amount reason) db)) = beside_wallets db"
    for op uid' now c
    by (rule guarded_rest) (auto simp: admin_adjust_action_def wallet_services bindE_eq_Inr dest: apply_transaction_rest split: if_splits)
  show "beside_wallets (snd (admin_credit_wallet num u k key h uid amount reason db)) = beside_wallets db"
    "beside_wallets (snd (admin_debit_wallet num u k key h uid amount reason db)) = beside_wallets db"
    by (simp_all add: admin_credit_wallet_def admin_debit_wallet_def adj split: sum.split)
qed

section \<open>Orders and payments\<close>

text \<open>What comes with the payments and behind them.\<close>

lemma stock_only_rest: "stock_only db d \<Longrightarrow> payments_db.more d = payments_db.more db"
  by (auto simp: stock_only_def)

lemma transition_rest:
  "transition ord s a n now db = Inr (ord', db') \<Longrightarrow> payments db' = payments db \<and> payments_db.more db' = payments_db.more db"
  by (auto simp: transition_def split: if_splits)

lemma checkout_service_rest:
  fixes db :: "'a accounts_db_scheme"
  assumes "checkout_service k uid addr db = Inr (ord, db')"
  shows "payments db' = payments db" "payments_db.more db' = payments_db.more db"
proof -
  define f :: "'a accounts_db_scheme \<Rightarrow> _" where "f db = (payments db, payments_db.more db)" for db
  have line: "f d' = f d" if "checkout_line oid uid i (d, s) = Inr (d', s')" for oid i and d d' :: "'a accounts_db_scheme" and s s'
    using that by (auto simp: f_def checkout_line_Inr stock_only_def dest!: stock_only_ops(1))
  have loop: "f d' = f d" if "foldE (checkout_line oid uid) is (d, s) = Inr (d', s')" for oid "is" s s' and d d' :: "'a accounts_db_scheme"
    using foldE_invariant [where I = "\<lambda>p. f (fst p) = f d", OF that] line by force
  obtain cart db1 where g: "get_or_create_cart (k_cart k) uid db = (cart, db1)" by fastforce
  have "f db1 = f db"
    using behind_cart [OF get_or_create_cart_rest(2) [of "k_cart k" uid db]] behind_wallet(4,5) [of db1 db] g by (simp add: f_def)
  moreover from assms g have "f db' = f db1"
    by (auto simp: checkout_service_def Let_def bindE_eq_Inr flush_orders_def clear_items_def dest!: loop transition_rest split: if_splits)
       (simp_all add: f_def)
  ultimately show "payments db' = payments db" "payments_db.more db' = payments_db.more db" by (simp_all add: f_def)
qed

lemma mark_rest:
  "mark_paid now oid db = Inr (ord, db') \<Longrightarrow> payments_db.more db' = payments_db.more db"
  "mark_payment_failed now oid db = Inr (ord, db') \<Longrightarrow> payments_db.more db' = payments_db.more db"
  "cancel now oid u db = Inr (ord, db') \<Longrightarrow> payments_db.more db' = payments_db.more db"
  by (blast elim: mark_paid_cases mark_payment_failed_cases cancel_cases
      intro: trans [OF conjunct2 [OF transition_rest] stock_only_rest] purchase_all_only release_all_only)+

lemma order_routes_rest [frames]:
  fixes db :: "'a accounts_db_scheme"
  shows "payments_db.more (snd (checkout u k key h addr db)) = payments_db.more db"
    and "payments_db.more (snd (cancel_order u now oid db)) = payments_db.more db"
    and "payments_db.more (snd (update_order_status num u fresh oid st note db)) = payments_db.more db"
proof -
  show "payments_db.more (snd (checkout u k key h addr db)) = payments_db.more db"
    unfolding checkout_def
    by (rule guarded_rest) (auto simp: checkout_action_def bindE_eq_Inr dest: checkout_service_rest)
  show "payments_db.more (snd (cancel_order u now oid db)) = payments_db.more db"
    unfolding cancel_order_def
    by (rule request_rest) (auto simp: bindE_eq_Inr flush_orders_def dest: mark_rest split: if_splits)
  have w: "payments_db.more d' = payments_db.more d" if "refund_order num k v a i x d = Inr (t, d')" for k v a i x t and d d' :: "'a accounts_db_scheme"
    using apply_transaction_rest [OF that [unfolded refund_order_def]] behind_wallet(5) [of d' d] by (simp add: beside_wallets_def)
  have r: "payments_db.more d' = payments_db.more d" if "map_sum id snd (refund_order num k v a i x d) = Inr d'" for k v a i x and d d' :: "'a accounts_db_scheme"
    using that w by (cases "refund_order num k v a i x d") auto
  show "payments_db.more (snd (update_order_status num u fresh oid st note db)) = payments_db.more db"
    unfolding update_order_status_def
    by (rule request_rest) (auto simp: bindE_eq_Inr flush_orders_def admin_update_status_def dest!: transition_rest r split: if_splits)
qed

lemma payment_writes_rest [simp]:
  "payments_db.more (set_payment i g db) = payments_db.more db"
  "payments_db.more (snd (try_claim i s t db)) = payments_db.more db"
  by (simp_all add: set_payment_def try_claim_def)

lemma handle_callback_rest:
  assumes "handle_callback verify now a status db = Inr (p, db')"
  shows "payments_db.more db' = payments_db.more db"
proof -
  from assms obtain q where q: "get_by_authority a db = Some q" by (auto simp: handle_callback_def bindE_eq_Inr)
  obtain claimed db1 where c: "try_claim (pay_id q) PayInitiated PayPending db = (claimed, db1)" by fastforce
  then have db1: "payments_db.more db1 = payments_db.more db"
    using payment_writes_rest(2) [of "pay_id q" PayInitiated PayPending db] by simp
  have settled: "payments_db.more d = payments_db.more db"
    if "mark_paid now i (set_payment j g db1) = Inr (x, d) \<or> mark_payment_failed now i (set_payment j g db1) = Inr (x, d)" for i j g x d
    using that db1 by (auto dest: mark_rest)
  from assms show ?thesis
    by (simp add: handle_callback_def q c Let_def bindE_eq_Inr split: if_splits) (use settled in blast)+
qed

lemma payment_routes_rest [frames]:
  "payments_db.more (snd (init_payment cfg post f u key h oid db)) = payments_db.more db"
  "payments_db.more (snd (payment_callback verify now a status db)) = payments_db.more db"
proof -
  show "payments_db.more (snd (init_payment cfg post f u key h oid db)) = payments_db.more db"
    unfolding init_payment_def
    by (rule guarded_rest) (auto simp: init_payment_action_def init_payment_service_def flush_payments_def
        bindE_eq_Inr Let_def split: if_splits sum.splits)
  show "payments_db.more (snd (payment_callback verify now a status db)) = payments_db.more db"
    unfolding payment_callback_def
    by (rule request_rest) (auto simp: bindE_eq_Inr flush_payments_def dest: handle_callback_rest split: if_splits)
qed

section \<open>Tickets and accounts\<close>

lemma audit_row_rest [simp]:
  "payments_db.truncate (write_audit_log n a c t i m db) = payments_db.truncate db"
  "tickets_db.more (write_audit_log n a c t i m db) = tickets_db.more db"
  by (simp_all add: write_audit_log_def payments_db.truncate_def)

lemma ticket_writes_rest [simp]:
  "payments_db.truncate (add_ticket_message m db) = payments_db.truncate db"
  "tickets_db.more (add_ticket_message m db) = tickets_db.more db"
  "payments_db.truncate (save_ticket n f i db) = payments_db.truncate db"
  "tickets_db.more (save_ticket n f i db) = tickets_db.more db"
  "payments_db.truncate (db\<lparr>tickets := ts\<rparr>) = payments_db.truncate db"
  by (simp_all add: add_ticket_message_def save_ticket_def payments_db.truncate_def)

lemma committed_rest: "(\<And>s'. m = Inr s' \<Longrightarrow> f s' = f s) \<Longrightarrow> f (snd (committed s m view)) = f s"
  by (cases m) (simp_all add: committed_def)

lemma ticket_services_rest:
  "payments_db.truncate (snd (ticket_create k i su msg pr db)) = payments_db.truncate db
     \<and> tickets_db.more (snd (ticket_create k i su msg pr db)) = tickets_db.more db"
  "add_customer_reply k tid u m db = Inr db' \<Longrightarrow>
     payments_db.truncate db' = payments_db.truncate db \<and> tickets_db.more db' = tickets_db.more db"
  "add_support_reply k tid u m db = Inr db' \<Longrightarrow>
     payments_db.truncate db' = payments_db.truncate db \<and> tickets_db.more db' = tickets_db.more db"
  "change_status k tid st db = Inr db' \<Longrightarrow>
     payments_db.truncate db' = payments_db.truncate db \<and> tickets_db.more db' = tickets_db.more db"
  by (auto simp: ticket_create_def add_customer_reply_def add_support_reply_def change_status_def Let_def bindE_eq_Inr split: if_splits)

lemma ticket_routes_rest [frames]:
  "payments_db.truncate (snd (create_ticket u k d db)) = payments_db.truncate db"
  "tickets_db.more (snd (create_ticket u k d db)) = tickets_db.more db"
  "payments_db.truncate (snd (reply_to_ticket u k tid m db)) = payments_db.truncate db"
  "tickets_db.more (snd (reply_to_ticket u k tid m db)) = tickets_db.more db"
  "payments_db.truncate (snd (admin_reply_to_ticket u k tid m db)) = payments_db.truncate db"
  "tickets_db.more (snd (admin_reply_to_ticket u k tid m db)) = tickets_db.more db"
  "payments_db.truncate (snd (admin_change_ticket_status u k tid st db)) = payments_db.truncate db"
  "tickets_db.more (snd (admin_change_ticket_status u k tid st db)) = tickets_db.more db"
  "payments_db.truncate (snd (auto_close_one k tid db)) = payments_db.truncate db"
  "tickets_db.more (snd (auto_close_one k tid db)) = tickets_db.more db"
  unfolding create_ticket_def reply_to_ticket_def admin_reply_to_ticket_def admin_change_ticket_status_def
  by ((rule committed_rest, auto simp: bindE_eq_Inr ticket_services_rest(1) dest: ticket_services_rest(2-4)) | simp add: auto_close_one_def Let_def)+

text \<open>An account route writes the tables of the accounts, and the administration of users the audit trail.\<close>

lemma account_writes_rest [simp]:
  "tickets_db.truncate (db\<lparr>users := us\<rparr>) = tickets_db.truncate db"
  "tickets_db.truncate (db\<lparr>oauth_accounts := oa\<rparr>) = tickets_db.truncate db"
  "tickets_db.truncate (db\<lparr>refresh_tokens := ts\<rparr>) = tickets_db.truncate db"
  "tickets_db.truncate (db\<lparr>password_resets := ps\<rparr>) = tickets_db.truncate db"
  "tickets_db.truncate (db\<lparr>email_verifications := ev\<rparr>) = tickets_db.truncate db"
  "tickets_db.truncate (db\<lparr>outbox := ms\<rparr>) = tickets_db.truncate db"
  "tickets_db.truncate (db\<lparr>oauth_sessions := os\<rparr>) = tickets_db.truncate db"
  "tickets_db.truncate (put_user f i db) = tickets_db.truncate db"
  "tickets_db.truncate (revoke_where P now db) = tickets_db.truncate db"
  "tickets_db.truncate (revoke_family i now db) = tickets_db.truncate db"
  "tickets_db.truncate (revoke_all_for_user i now db) = tickets_db.truncate db"
  "tickets_db.truncate (issue_email_verification env k u db) = tickets_db.truncate db"
  by (simp_all add: tickets_db.truncate_def put_user_def revoke_where_def revoke_family_def revoke_all_for_user_def
      issue_email_verification_def)

lemma account_services_rest:
  "register_user env k email d db = Inr (v, db') \<Longrightarrow> tickets_db.truncate db' = tickets_db.truncate db"
  "authenticate env now email pw db = Inr (v, db') \<Longrightarrow> tickets_db.truncate db' = tickets_db.truncate db"
  "issue_refresh_token env k u i db = Inr (r, db') \<Longrightarrow> tickets_db.truncate db' = tickets_db.truncate db"
  "change_password_service env k u cur new db = Inr db' \<Longrightarrow> tickets_db.truncate db' = tickets_db.truncate db"
  "tickets_db.truncate (request_password_reset_service env k email db) = tickets_db.truncate db"
  "tickets_db.truncate (logout_service env now raw db) = tickets_db.truncate db"
  "confirm_password_reset_service env k t new db = Inr db' \<Longrightarrow> tickets_db.truncate db' = tickets_db.truncate db"
  "confirm_email_verification_service env now t db = Inr db' \<Longrightarrow> tickets_db.truncate db' = tickets_db.truncate db"
  "login_or_register_with_google env k gi db = Inr (v, db') \<Longrightarrow> tickets_db.truncate db' = tickets_db.truncate db"
  "link_google_account env v gi db = Inr db' \<Longrightarrow> tickets_db.truncate db' = tickets_db.truncate db"
  by (auto simp: register_user_def authenticate_def issue_refresh_token_def change_password_service_def
      request_password_reset_service_def logout_service_def confirm_password_reset_service_def
      confirm_email_verification_service_def login_or_register_with_google_def link_google_account_def Let_def bindE_eq_Inr
      split: option.splits if_splits)

lemma issue_pair_rest:
  "issue_token_pair env k u db = Inr (r, db') \<Longrightarrow> tickets_db.truncate db' = tickets_db.truncate db"
  by (auto simp: issue_token_pair_def bindE_eq_Inr dest: account_services_rest(3))

lemma rotate_rest: "tickets_db.truncate (snd (rotate_refresh_token env k raw db)) = tickets_db.truncate db"
proof (cases rule: rotate_cases [of env k raw db])
  case (rotated stored u access row)
  show ?thesis by (simp add: rotated(15))
qed simp_all

lemma auth_routes_rest [frames]:
  "tickets_db.truncate (snd (register env k d db)) = tickets_db.truncate db"
  "tickets_db.truncate (snd (login env k email pw db)) = tickets_db.truncate db"
  "tickets_db.truncate (snd (change_password env k u cur new db)) = tickets_db.truncate db"
  "tickets_db.truncate (snd (request_password_reset env k email db)) = tickets_db.truncate db"
  "tickets_db.truncate (snd (confirm_password_reset env k t new db)) = tickets_db.truncate db"
  "tickets_db.truncate (snd (confirm_email_verification env now t db)) = tickets_db.truncate db"
  unfolding register_def login_def change_password_def request_password_reset_def confirm_password_reset_def
    confirm_email_verification_def
  by (rule request_rest, auto simp: bindE_eq_Inr signed_in_def account_services_rest(5)
      dest!: account_services_rest(1,2,4,7,8) issue_pair_rest)+

lemma session_routes_rest [frames]:
  "tickets_db.truncate (snd (refresh env k token db)) = tickets_db.truncate db"
  "tickets_db.truncate (snd (logout env now token db)) = tickets_db.truncate db"
  "tickets_db.truncate (snd (google_login enc cfg g db)) = tickets_db.truncate db"
  "tickets_db.truncate (snd (google_link_start enc cfg g u db)) = tickets_db.truncate db"
  by (auto simp: refresh_def logout_def google_login_def google_link_start_def start_google_def account_services_rest(6)
      rotate_rest split: option.split prod.split sum.split) (metis rotate_rest snd_conv)+

lemma google_callback_rest [frames]:
  "tickets_db.truncate (snd (google_callback env cfg post get k code st db)) = tickets_db.truncate db"
proof -
  have r: "tickets_db.truncate (snd (request (db\<lparr>oauth_sessions := os\<rparr>) m)) = tickets_db.truncate db"
    if "\<And>r s'. m = Inr (r, s') \<Longrightarrow> tickets_db.truncate s' = tickets_db.truncate (db\<lparr>oauth_sessions := os\<rparr>)" for m :: "exn + (cookie list \<times> 'a accounts_db_scheme)" and os
    using request_rest [where f = tickets_db.truncate, OF that] by simp
  show ?thesis
    by (auto simp: google_callback_def Let_def bindE_eq_Inr intro!: r
        dest!: account_services_rest(9,10) issue_pair_rest split: option.split sum.split)
qed

lemma update_user_rest [frames]:
  "payments_db.truncate (snd (update_user u now i d db)) = payments_db.truncate db"
  "tickets (snd (update_user u now i d db)) = tickets db"
  "ticket_messages (snd (update_user u now i d db)) = ticket_messages db"
  "\<exists>rows. audit_logs (snd (update_user u now i d db)) = audit_logs db @ rows \<and> (\<forall>r \<in> set rows. al_action r \<noteq> ''ticket.auto_closed'')"
proof -
  define I where "I s \<longleftrightarrow> payments_db.truncate s = payments_db.truncate db \<and> tickets s = tickets db \<and> ticket_messages s = ticket_messages db
    \<and> (\<exists>rows. audit_logs s = audit_logs db @ rows \<and> (\<forall>r \<in> set rows. al_action r \<noteq> ''ticket.auto_closed''))" for s :: "'a accounts_db_scheme"
  have put: "I (put_user f x s)" if "I s" for f x s using that by (simp add: I_def put_user_def payments_db.truncate_def)
  have row: "I (write_audit_log n a ac x y z s)" if "I s" "ac \<noteq> ''ticket.auto_closed''" for n a ac x y z s
    using that by (auto simp: I_def write_audit_log_def payments_db.truncate_def)
  have role: "I (snd (role_step n x r a v s))" if "I s" for n x r a v s
    using that by (auto simp: role_step_def intro!: put row split: option.split)
  have act: "I (snd (active_step n x b a (v, s)))" if "I s" for n x b a v s
    using that by (auto simp: active_step_def intro!: put row split: option.split)
  have "I (snd (update_user u now i d db))"
    unfolding update_user_def
  proof (rule request_invariant [where I = I])
    show "I db" by (simp add: I_def)
    fix r s' assume "bindE (require_permission ''user.manage'' u) (\<lambda>_.
      bindE (update_user_service now i d (u_id u) db) (\<lambda>(v, db1). Inr (public_admin_user v, db1))) = Inr (r, s')"
    then obtain v where "update_user_service now i d (u_id u) db = Inr (v, s')" by (auto simp: bindE_eq_Inr)
    then obtain w where "active_step now i (au_is_active d) (u_id u) (role_step now i (au_role d) (u_id u) w db) = (v, s')"
      by (auto simp: update_user_service_eq split: option.splits if_splits)
    then have "s' = snd (active_step now i (au_is_active d) (u_id u) (role_step now i (au_role d) (u_id u) w db))" by (metis snd_conv)
    moreover have "I db" by (simp add: I_def)
    ultimately show "I s'" using act [OF role] by (metis prod.collapse)
  qed
  then show "payments_db.truncate (snd (update_user u now i d db)) = payments_db.truncate db"
    "tickets (snd (update_user u now i d db)) = tickets db" "ticket_messages (snd (update_user u now i d db)) = ticket_messages db"
    "\<exists>rows. audit_logs (snd (update_user u now i d db)) = audit_logs db @ rows \<and> (\<forall>r \<in> set rows. al_action r \<noteq> ''ticket.auto_closed'')"
    by (simp_all add: I_def)
qed

end
