(* ===== verification/Sales_Invariant.thy ===== *)
theory Sales_Invariant
  imports Shop_Frames
begin

text \<open>
  The tables of a sale, from the catalogue to the payments, kept consistent together by every request
  that writes them: the invariants of the components, each shown for its own operations, over all
  the operations.
\<close>

section \<open>The invariant\<close>

definition goods_inv :: "(string \<Rightarrow> nat) \<Rightarrow> 'a orders_db_scheme \<Rightarrow> bool" where
  "goods_inv coll db \<longleftrightarrow> catalog_inv coll db \<and> cart_ok db \<and> wallets_ok db \<and> totals_ok db"

definition sales_inv :: "(string \<Rightarrow> nat) \<Rightarrow> 'a payments_db_scheme \<Rightarrow> bool" where
  "sales_inv coll db \<longleftrightarrow> goods_inv coll db \<and> order_tables_ok db \<and> keys_ok db \<and> payments_ok db"

text \<open>Each part reads its own tables.\<close>

lemma catalog_inv_cong:
  assumes "categories db' = categories db" "products db' = products db" "inventories db' = inventories db" "redis db' = redis db"
  shows "catalog_inv coll db' = catalog_inv coll db"
  unfolding catalog_inv_def catalog_ok_cong [OF assms(1-3)] cache_coherent_def assms(4)
    reads_cong(1,2) [OF assms(2)] reads_cong(3) [OF assms(1)] ..

lemma keys_ok_cong: "idempotency_keys db' = idempotency_keys db \<Longrightarrow> keys_ok db' = keys_ok db"
  by (simp add: keys_ok_def)

lemma wallets_ok_cong:
  "wallets db' = wallets db \<Longrightarrow> wallet_transactions db' = wallet_transactions db \<Longrightarrow> wallets_ok db' = wallets_ok db"
  by (simp add: wallets_ok_def)

lemma totals_ok_cong: "orders db' = orders db \<Longrightarrow> order_items db' = order_items db \<Longrightarrow> totals_ok db' = totals_ok db"
  by (simp add: totals_ok_def items_of_order_def)

lemma order_tables_cong:
  "orders db' = orders db \<Longrightarrow> order_history db' = order_history db \<Longrightarrow> wallet_transactions db' = wallet_transactions db \<Longrightarrow>
     order_tables_ok db' = order_tables_ok db"
  by (simp add: order_tables_ok_def history_ok_def history_of_def refunds_ok_def refunds_of_def)

lemma payments_ok_cong:
  "payments db' = payments db \<Longrightarrow> orders db' = orders db \<Longrightarrow> order_history db' = order_history db \<Longrightarrow>
     payments_ok db' = payments_ok db"
  by (simp add: payments_ok_def payment_matches_def get_order_by_id_def history_of_def)

lemmas part_congs = catalog_inv_cong keys_ok_cong cart_ok_cong wallets_ok_cong totals_ok_cong order_tables_cong payments_ok_cong

lemma goods_inv_cong:
  assumes "catalog_inv coll db' = catalog_inv coll db" "carts db' = carts db" "cart_items db' = cart_items db"
    "wallets db' = wallets db" "wallet_transactions db' = wallet_transactions db" "orders db' = orders db" "order_items db' = order_items db"
  shows "goods_inv coll db' = goods_inv coll db"
  unfolding goods_inv_def assms(1) cart_ok_cong [OF assms(2,3)] wallets_ok_cong [OF assms(4,5)] totals_ok_cong [OF assms(6,7)] ..

lemma parts_ignore_keys [simp]:
  "goods_inv coll (r\<lparr>idempotency_keys := k\<rparr>) = goods_inv coll r"
  "order_tables_ok (r\<lparr>idempotency_keys := k\<rparr>) = order_tables_ok r"
  "payments_ok (p\<lparr>idempotency_keys := k\<rparr>) = payments_ok p"
  "cart_ok (d\<lparr>idempotency_keys := k\<rparr>) = cart_ok d"
  by (rule goods_inv_cong order_tables_cong payments_ok_cong cart_ok_cong; (rule catalog_inv_cong)?; simp)+

lemma parts_ignore_payments [simp]:
  "goods_inv coll (db\<lparr>payments := p\<rparr>) = goods_inv coll db" "order_tables_ok (db\<lparr>payments := p\<rparr>) = order_tables_ok db"
  by (rule goods_inv_cong order_tables_cong; (rule catalog_inv_cong)?; simp)+

section \<open>Orders\<close>

lemma stock_loops_catalog:
  "catalog_inv coll db \<Longrightarrow> \<forall>l \<in> set ls. 0 \<le> snd l \<Longrightarrow> stk.reserve_all rt rid a ls db = Inr d \<Longrightarrow> catalog_inv coll d"
  "catalog_inv coll db \<Longrightarrow> \<forall>l \<in> set ls. 0 \<le> snd l \<Longrightarrow> stk.release_all rt rid a ls db = Inr d \<Longrightarrow> catalog_inv coll d"
  "catalog_inv coll db \<Longrightarrow> stk.purchase_all rt rid a ls db = Inr d \<Longrightarrow> catalog_inv coll d"
  unfolding stk.reserve_all_def stk.release_all_def stk.purchase_all_def
  by (erule foldE_invariant; auto intro: inv_stock_ops)+

lemma goods_checkout:
  assumes c: "checkout_service k uid addr db = Inr (ord, db')" and f: "get_order_by_id (k_order k) db = None"
    and fc: "fresh_cart (k_cart k) db" and inv: "goods_inv coll db"
  shows "goods_inv coll db'"
proof -
  have i: "catalog_inv coll db" "cart_ok db" "wallets_ok db" "totals_ok db" using inv by (simp_all add: goods_inv_def)
  from c f have "catalog_inv coll db' \<and> wallets_ok db'"
  proof (rule checkout_service_cases)
    fix cart db1 items d
    assume g: "get_or_create_cart (k_cart k) uid db = (cart, db1)" and items: "items = items_of cart db1"
      and d: "stk.reserve_all ''order'' (k_order k) (Some uid) (cart_lines items) db = Inr d"
      and e: "inventories db' = inventories d" "products db' = products db" "categories db' = categories db" "redis db' = redis db"
        "wallets db' = wallets db" "wallet_transactions db' = wallet_transactions db"
    have "0 \<le> ci_quantity i" if "i \<in> set items" for i
      using that i(2) get_or_create_cart_frame(7) [OF g] by (fastforce simp: items items_of_def cart_ok_def)
    then have "catalog_inv coll d" by (intro stock_loops_catalog(1) [OF i(1) _ d]) (auto simp: cart_lines_def)
    moreover have "stock_only db d" by (rule reserve_all_only [OF d])
    then have "products d = products db" "categories d = categories db" "redis d = redis db" by (auto simp: stock_only_def)
    ultimately show ?thesis using catalog_inv_cong [of db' d coll] wallets_ok_cong [of db' db] e i(3) by simp
  qed
  with totals_checkout [OF c f i(4,2)] cart_ok_checkout [OF c f i(2) fc] show ?thesis by (simp add: goods_inv_def)
qed

lemma goods_moved:
  assumes inv: "goods_inv coll db" and o: "get_order_by_id oid db = Some ord" and only: "stock_only db d"
    and cat: "catalog_inv coll d" and tr: "transition ord s a n now d = Inr (r, db')"
  shows "goods_inv coll db'"
proof -
  note m = transition_moved [OF o only tr]
  have "products db' = products d" "categories db' = categories d" "redis db' = redis d"
    using tr by (auto simp: transition_def split: if_splits)
  then have "catalog_inv coll db'" using catalog_inv_cong [of db' d coll] m(3) cat by simp
  with inv totals_moved [OF m(1)] cart_ok_cong [OF m(9,10)] wallets_ok_cong [OF m(5,6)] show ?thesis
    by (simp add: goods_inv_def)
qed

lemma order_outcomes:
  assumes inv: "goods_inv coll db" "order_tables_ok db"
  shows "mark_paid now oid db = Inr (r, db') \<Longrightarrow> goods_inv coll db' \<and> order_tables_ok db'"
    and "mark_payment_failed now oid db = Inr (r, db') \<Longrightarrow> goods_inv coll db' \<and> order_tables_ok db'"
    and "cancel now oid u db = Inr (r, db') \<Longrightarrow> goods_inv coll db' \<and> order_tables_ok db'"
proof -
  have cat: "catalog_inv coll db" and nn: "\<forall>l \<in> set (order_lines oid db). 0 \<le> snd l"
    using inv(1) order_lines_nonneg by (auto simp: goods_inv_def)
  have both: "goods_inv coll db' \<and> order_tables_ok db'"
    if "get_order_by_id oid db = Some ord" "stock_only db d" "catalog_inv coll d"
      "transition ord s a n now d = Inr (r, db')" "s \<noteq> OrdRefunded" for ord d s a n
    using goods_moved [OF inv(1) that(1-4)] refunds_moved [OF transition_moved(1,6) [OF that(1,2,4)] inv(2) that(5)] by simp
  show "goods_inv coll db' \<and> order_tables_ok db'" if "mark_paid now oid db = Inr (r, db')"
    using that by (rule mark_paid_cases) (rule both, auto intro: stock_loops_catalog [OF cat] purchase_all_only)
  show "goods_inv coll db' \<and> order_tables_ok db'" if "mark_payment_failed now oid db = Inr (r, db')"
    using that by (rule mark_payment_failed_cases) (rule both, auto intro: stock_loops_catalog(2) [OF cat nn] release_all_only)
  show "goods_inv coll db' \<and> order_tables_ok db'" if "cancel now oid u db = Inr (r, db')"
    using that
  proof (rule cancel_cases)
    fix ord d
    assume o: "get_order_by_id oid db = Some ord" "stock_only db d"
      "o_status ord \<in> {OrdPending, OrdAwaitingPayment, OrdPaid} \<longrightarrow> stk.release_all ''order'' oid None (order_lines oid db) db = Inr d"
      "o_status ord \<notin> {OrdPending, OrdAwaitingPayment, OrdPaid} \<longrightarrow> d = db"
      "transition ord OrdCancelled (Some (u_id u)) (Some CancelledNote) now d = Inr (r, db')"
    have "catalog_inv coll d" using o(3,4) stock_loops_catalog(2) [OF cat nn] cat by blast
    then show ?thesis using both [OF o(1,2) _ o(5)] by simp
  qed
qed

lemma goods_transaction:
  fixes db :: "'a orders_db_scheme"
  assumes "numeric_column num" "goods_inv coll db" "fresh_wallet fresh db"
    and t: "apply_transaction num fresh uid ty amount rt rid note actor db = Inr (t, db')"
  shows "goods_inv coll db'"
proof -
  obtain w db1 where g: "get_or_create_wallet (f_wallet fresh) uid db = (w, db1)" by fastforce
  have same: "categories db' = categories db" "products db' = products db" "inventories db' = inventories db" "redis db' = redis db"
    "carts db' = carts db" "cart_items db' = cart_items db"
    using t by (cases rule: apply_transaction_cases;
      cases rule: get_or_create_wallet_cases [of uid db "f_wallet fresh"]; auto)+
  with assms(2) apply_transaction_ok [OF assms(1) _ assms(3) t] apply_transaction_orders(1,3) [OF t] show ?thesis
    by (simp add: goods_inv_def catalog_inv_cong [of db' db coll] cart_ok_cong [of db' db] totals_ok_cong [of db' db])
qed

lemma checkout_grow:
  assumes c: "checkout_service k uid addr db = Inr (ord, db')" and f: "get_order_by_id (k_order k) db = None"
    and u: "unique_by o_id (orders db)"
  shows "orders_grow db db'"
  using c f
proof (rule checkout_service_cases)
  fix items h
  assume o: "ord = new_order k uid addr (lines_total db items)" "orders db' = orders db @ [ord]"
    and "order_history db' = order_history db @ [\<lparr>oh_order_id = k_order k, oh_from_status = Some OrdPending,
        oh_to_status = OrdAwaitingPayment, oh_actor_id = Some uid, oh_note = None, oh_created_at = k_now k\<rparr>]"
  then have "set (history_of x db) \<subseteq> set (history_of x db')" for x by (auto simp: history_of_def)
  moreover have "unique_by o_id (orders db')" using u f by (simp add: o unique_by_append_one get_order_by_id_def new_order_def)
  ultimately show ?thesis by (auto simp: orders_grow_def get_order_by_id_def o(2) find_by_append)
qed

section \<open>Requests\<close>

text \<open>The three parts a guarded action has to keep, besides its key.\<close>

definition trade_inv :: "(string \<Rightarrow> nat) \<Rightarrow> 'a payments_db_scheme \<Rightarrow> bool" where
  "trade_inv coll db \<longleftrightarrow> goods_inv coll db \<and> order_tables_ok db \<and> payments_ok db"

lemma sales_trade: "sales_inv coll db \<longleftrightarrow> trade_inv coll db \<and> keys_ok db"
  by (auto simp: sales_inv_def trade_inv_def)

lemma trade_ignores_keys [simp]: "trade_inv coll (db\<lparr>idempotency_keys := k\<rparr>) = trade_inv coll db"
  by (simp add: trade_inv_def)

lemma sales_guarded:
  assumes "sales_inv coll db" "keys_ok (snd (guarded op u key h now act db))"
    and "\<And>k r s'. act (db\<lparr>idempotency_keys := k\<rparr>) = Inr (r, s') \<Longrightarrow> trade_inv coll s'"
  shows "sales_inv coll (snd (guarded op u key h now act db))"
proof -
  have "trade_inv coll (snd (guarded op u key h now act db))"
    by (rule guarded_invariant [where I = "trade_inv coll"]) (use assms(1,3) in \<open>simp_all add: sales_trade\<close>)
  with assms(2) show ?thesis by (simp add: sales_trade)
qed

lemma sales_request:
  assumes "sales_inv coll db"
    and "\<And>r s'. m = Inr (r, s') \<Longrightarrow> trade_inv coll s' \<and> idempotency_keys s' = idempotency_keys db"
  shows "sales_inv coll (snd (request db m))"
  by (rule request_invariant [where I = "sales_inv coll", OF assms(1)])
     (use assms keys_ok_cong in \<open>auto simp: sales_trade\<close>)

subsection \<open>Catalogue and cart\<close>

lemma after_catalog:
  fixes db :: "'a accounts_db_scheme"
  assumes "sales_inv coll db" "catalog_inv coll db'" and m: "catalog_db.more db' = catalog_db.more db"
  shows "sales_inv coll db'"
proof -
  note k = behind_catalog [OF m] and c = behind_cart [OF behind_catalog(2) [OF m]]
  note w = behind_wallet [OF c(3)]
  from assms(1,2) show ?thesis
    unfolding sales_inv_def goods_inv_def keys_ok_cong [OF k(1)] cart_ok_cong [OF k(3,4)] wallets_ok_cong [OF c(1,2)]
      totals_ok_cong [OF w(1,2)] order_tables_cong [OF w(1,3) c(2)] payments_ok_cong [OF w(4,1,3)] by blast
qed

lemma trade_cart:
  fixes db :: "'a accounts_db_scheme"
  assumes "trade_inv coll db" "cart_ok db'"
    and t: "catalog_db.truncate db' = catalog_db.truncate db" and m: "cart_db.more db' = cart_db.more db"
  shows "trade_inv coll db'"
proof -
  note g = before_orders [OF t] and c = behind_cart [OF m]
  note w = behind_wallet [OF c(3)]
  from assms(1,2) show ?thesis
    unfolding trade_inv_def goods_inv_def catalog_inv_cong [OF g(2,3,1,4)] wallets_ok_cong [OF c(1,2)]
      totals_ok_cong [OF w(1,2)] order_tables_cong [OF w(1,3) c(2)] payments_ok_cong [OF w(4,1,3)] by blast
qed

lemma cart_services_keys:
  "cart_update_item nid u pid q db = Inr db' \<Longrightarrow> idempotency_keys db' = idempotency_keys db"
  "idempotency_keys (cart_remove_item nid u pid db) = idempotency_keys db"
  "idempotency_keys (cart_clear nid u db) = idempotency_keys db"
  "idempotency_keys (snd (get_or_create_cart nid u db)) = idempotency_keys db"
  using get_or_create_cart_frame(5) [of nid u db]
  by (cases "get_or_create_cart nid u db";
      auto simp: cart_update_item_def cart_remove_item_def cart_clear_def clear_items_def delete_item_def bindE_eq_Inr
        split: option.splits if_splits)+

text \<open>The cart exists after an item was put into it, so the summary creates none.\<close>

lemma cart_again:
  "cart_add_item nid u pid q db = Inr db' \<Longrightarrow> snd (get_or_create_cart nid2 u db') = db'"
  "cart_update_item nid u pid q db = Inr db' \<Longrightarrow> snd (get_or_create_cart nid2 u db') = db'"
proof -
  obtain cart db1 where c: "get_or_create_cart nid u db = (cart, db1)" by fastforce
  have again: "snd (get_or_create_cart nid2 u db') = db'" if "carts db' = carts db1"
    using get_or_create_cart_again [OF c that] by simp
  show "snd (get_or_create_cart nid2 u db') = db'" if "cart_add_item nid u pid q db = Inr db'"
    using that c by (intro again) (auto simp: cart_add_item_def Let_def split: option.splits if_splits)
  show "snd (get_or_create_cart nid2 u db') = db'" if "cart_update_item nid u pid q db = Inr db'"
    using that c by (intro again) (auto simp: cart_update_item_def bindE_eq_Inr split: option.splits if_splits)
qed

lemma after_cart:
  fixes db :: "'a accounts_db_scheme"
  assumes inv: "sales_inv coll db" and f: "fresh_cart i db"
  shows "sales_inv coll (snd (add_cart_item u i key h now pid q db))"
    and "sales_inv coll (snd (update_cart_item u i pid q db))"
    and "sales_inv coll (remove_cart_item u i pid db)"
    and "sales_inv coll (clear_cart u i db)"
proof -
  have ok: "cart_ok db" "keys_ok db" "trade_inv coll db" using inv by (simp_all add: sales_trade trade_inv_def goods_inv_def)
  have fk: "fresh_cart i (db\<lparr>idempotency_keys := k\<rparr>)" for k using f by (simp add: fresh_cart_def)
  show "sales_inv coll (snd (add_cart_item u i key h now pid q db))"
    unfolding add_cart_item_def
  proof (rule sales_guarded [OF inv add_item_guard.keeps_ok [OF ok(2)]])
    fix k r s' assume "add_cart_item_action u i pid q (db\<lparr>idempotency_keys := k\<rparr>) = Inr (r, s')"
    then obtain d where q: "quantity_valid q" and d: "cart_add_item i (u_id u) pid q (db\<lparr>idempotency_keys := k\<rparr>) = Inr d"
      and s': "s' = snd (get_summary i (u_id u) d)"
      by (auto simp: add_cart_item_action_def bindE_eq_Inr case_prod_beta)
    have e: "s' = d" using cart_again(1) [OF d] by (simp add: s' get_summary_rest)
    have "cart_ok d" using cart_add_item_ok [OF _ fk _ d] ok(1) q by (simp add: quantity_valid_def)
    with trade_cart [OF ok(3)] cart_services_rest(1) [OF d] show "trade_inv coll s'" by (simp add: e)
  qed
  show "sales_inv coll (snd (update_cart_item u i pid q db))"
    unfolding update_cart_item_def
  proof (rule sales_request [OF inv])
    fix r s' assume "bindE (validated (quantity_valid q)) (\<lambda>_. bindE (cart_update_item i (u_id u) pid q db) (\<lambda>db1.
       Inr (get_summary i (u_id u) db1))) = Inr (r, s')"
    then obtain d where q: "quantity_valid q" and d: "cart_update_item i (u_id u) pid q db = Inr d"
      and s': "s' = snd (get_summary i (u_id u) d)"
      by (auto simp: bindE_eq_Inr)
    have e: "s' = d" using cart_again(2) [OF d] by (simp add: s' get_summary_rest)
    have "cart_ok d" using cart_update_item_ok [OF ok(1) f _ d] q by (simp add: quantity_valid_def)
    with trade_cart [OF ok(3)] cart_services_rest(2) [OF d] cart_services_keys(1) [OF d]
    show "trade_inv coll s' \<and> idempotency_keys s' = idempotency_keys db" by (simp add: e)
  qed
  show "sales_inv coll (remove_cart_item u i pid db)" "sales_inv coll (clear_cart u i db)"
    unfolding sales_trade remove_cart_item_def clear_cart_def
    using trade_cart [OF ok(3) cart_remove_item_ok [OF ok(1) f]] trade_cart [OF ok(3) cart_clear_ok [OF ok(1) f]] ok(2)
    by (simp_all add: keys_ok_def cart_services_keys cart_services_rest)
qed

subsection \<open>Wallet\<close>

lemma trade_wallet:
  fixes db :: "'a accounts_db_scheme"
  assumes "trade_inv coll db" "wallets_ok db'" "order_tables_ok db'" and b: "beside_wallets db' = beside_wallets db"
  shows "trade_inv coll db'"
proof -
  from b have g: "catalog_inv coll db' = catalog_inv coll db"
    using before_orders [of db' db] by (intro catalog_inv_cong) (simp_all add: beside_wallets_def)
  have c: "carts db' = carts db" "cart_items db' = cart_items db" "wallet_db.more db' = wallet_db.more db"
    using b by (simp_all add: beside_wallets_def)
  note w = behind_wallet [OF c(3)]
  from assms(1-3) show ?thesis
    unfolding trade_inv_def goods_inv_def g cart_ok_cong [OF c(1,2)] totals_ok_cong [OF w(1,2)] payments_ok_cong [OF w(4,1,3)] by blast
qed

lemma trade_transaction:
  fixes db :: "'a accounts_db_scheme"
  assumes "numeric_column num" "trade_inv coll db" "fresh_wallet fresh db"
    and t: "apply_transaction num fresh uid ty amount rt rid note actor db = Inr (t, db')" and "ty \<noteq> Refund"
  shows "trade_inv coll db'"
  using trade_wallet [OF assms(2) _ _ apply_transaction_rest [OF t]] apply_transaction_ok [OF assms(1) _ assms(3) t]
    tables_non_refund [OF t assms(5)] assms(2) by (simp add: trade_inv_def goods_inv_def)

lemma trade_new_wallet:
  fixes db :: "'a accounts_db_scheme"
  assumes "trade_inv coll db" "fresh_wallet fresh db"
  shows "trade_inv coll (snd (get_or_create_wallet (f_wallet fresh) uid db))"
proof -
  obtain w db1 where g: "get_or_create_wallet (f_wallet fresh) uid db = (w, db1)" by fastforce
  note r = get_or_create_wallet_rest [of "f_wallet fresh" uid db, unfolded g snd_conv]
  have "order_tables_ok db1 = order_tables_ok db"
    using behind_wallet [OF r(6)] r(5) by (intro order_tables_cong)
  then show ?thesis
    using trade_wallet [of coll db db1] get_or_create_wallet_ok(1) [OF _ assms(2) g] assms(1) r
    by (simp add: g trade_inv_def goods_inv_def beside_wallets_def)
qed

lemma after_wallet:
  fixes db :: "'a accounts_db_scheme"
  assumes num: "numeric_column num" and inv: "sales_inv coll db" and f: "fresh_wallet k db"
  shows "sales_inv coll (snd (get_my_wallet u k db))"
    and "sales_inv coll (snd (list_my_wallet_transactions u k ps db))"
    and "sales_inv coll (snd (admin_get_wallet u k uid db))"
    and "sales_inv coll (snd (deposit_to_wallet num u k key h amount db))"
    and "sales_inv coll (snd (admin_credit_wallet num u k key h uid amount reason db))"
    and "sales_inv coll (snd (admin_debit_wallet num u k key h uid amount reason db))"
proof -
  have ok: "keys_ok db" "trade_inv coll db" using inv by (simp_all add: sales_trade)
  have fk: "fresh_wallet k (db\<lparr>idempotency_keys := x\<rparr>)" for x using f by (simp add: fresh_wallet_def)
  have new: "trade_inv coll (snd (get_or_create_wallet (f_wallet k) v db))
      \<and> idempotency_keys (snd (get_or_create_wallet (f_wallet k) v db)) = idempotency_keys db" for v
    using trade_new_wallet [OF ok(2) f] get_or_create_wallet_rest(4) by blast
  then show "sales_inv coll (snd (get_my_wallet u k db))"
    using ok(1) keys_ok_cong by (auto simp: get_my_wallet_def sales_trade)
  show "sales_inv coll (snd (list_my_wallet_transactions u k ps db))"
    unfolding list_my_wallet_transactions_def
    by (rule sales_request [OF inv]) (use new [of "u_id u"] in \<open>auto simp: bindE_eq_Inr case_prod_beta\<close>)
  show "sales_inv coll (snd (admin_get_wallet u k uid db))"
    unfolding admin_get_wallet_def
    by (rule sales_request [OF inv]) (use new [of uid] in \<open>auto simp: bindE_eq_Inr\<close>)
  have booked: "trade_inv coll s'"
    if "apply_transaction num k v ty a rt rid nt actor (db\<lparr>idempotency_keys := x\<rparr>) = Inr (t, s')" "ty \<noteq> Refund"
    for v ty a rt rid nt actor x t s'
    using trade_transaction [OF num _ fk that] ok(2) by simp
  show "sales_inv coll (snd (deposit_to_wallet num u k key h amount db))"
    unfolding deposit_to_wallet_def
    by (rule sales_guarded [OF inv deposit_guard.keeps_ok [OF ok(1)]])
       (auto simp: deposit_action_def wallet_services bindE_eq_Inr dest: booked)
  have adj: "sales_inv coll (snd (guarded op v key h now (admin_adjust_action c num u k uid amount reason) db))" for op v now c
    by (rule sales_guarded [OF inv adjust_guard.keeps_ok [OF ok(1)]])
       (auto simp: admin_adjust_action_def wallet_services bindE_eq_Inr dest: booked split: if_splits)
  show "sales_inv coll (snd (admin_credit_wallet num u k key h uid amount reason db))"
    "sales_inv coll (snd (admin_debit_wallet num u k key h uid amount reason db))"
    using adj inv by (simp_all add: admin_credit_wallet_def admin_debit_wallet_def split: sum.split)
qed

subsection \<open>Orders and payments\<close>

lemma order_services_keys:
  "mark_paid now oid db = Inr (r, db') \<Longrightarrow> idempotency_keys db' = idempotency_keys db"
  "mark_payment_failed now oid db = Inr (r, db') \<Longrightarrow> idempotency_keys db' = idempotency_keys db"
  "cancel now oid u db = Inr (r, db') \<Longrightarrow> idempotency_keys db' = idempotency_keys db"
  by (blast elim: mark_paid_cases mark_payment_failed_cases cancel_cases
      intro: transition_moved(7) purchase_all_only release_all_only)+

lemma after_checkout:
  fixes db :: "'a accounts_db_scheme"
  assumes inv: "sales_inv coll db" and f: "get_order_by_id (k_order k) db = None" "fresh_cart (k_cart k) db"
  shows "sales_inv coll (snd (checkout u k key h addr db))"
  unfolding checkout_def
proof (rule sales_guarded [OF inv checkout_guard.keeps_ok])
  show "keys_ok db" using inv by (simp add: sales_inv_def)
  fix x r s' assume "checkout_action u k addr (db\<lparr>idempotency_keys := x\<rparr>) = Inr (r, s')"
  then obtain ord where c: "checkout_service k (u_id u) addr (db\<lparr>idempotency_keys := x\<rparr>) = Inr (ord, s')"
    by (auto simp: checkout_action_def bindE_eq_Inr)
  let ?db = "db\<lparr>idempotency_keys := x\<rparr>"
  have fk: "get_order_by_id (k_order k) ?db = None" "fresh_cart (k_cart k) ?db"
    using f by (simp_all add: get_order_by_id_def fresh_cart_def)
  have t: "goods_inv coll ?db" "order_tables_ok ?db" "payments_ok ?db" using inv by (simp_all add: sales_inv_def)
  have "unique_by o_id (orders ?db)" using t(3) by (simp add: payments_ok_def)
  from payments_ok_grow [OF t(3) checkout_grow [OF c fk(1) this] checkout_service_rest(1) [OF c]]
    goods_checkout [OF c fk t(1)] tables_checkout [OF c fk(1) t(2)]
  show "trade_inv coll s'" by (simp add: trade_inv_def)
qed

lemma after_cancel:
  assumes inv: "sales_inv coll db" shows "sales_inv coll (snd (cancel_order u now oid db))"
  unfolding cancel_order_def
proof (rule sales_request [OF inv])
  fix r s' assume "bindE (cancel now oid u db) (\<lambda>(ord, db1). flush_orders (serialize_order ord db1) db1) = Inr (r, s')"
  then obtain ord where c: "cancel now oid u db = Inr (ord, s')" by (auto simp: bindE_eq_Inr flush_orders_def split: if_splits)
  have t: "goods_inv coll db" "order_tables_ok db" "payments_ok db" using inv by (simp_all add: sales_inv_def)
  have m: "order_moved oid OrdCancelled db s' \<and> payments s' = payments db"
    using c
  proof (rule cancel_cases)
    fix ord' d
    assume o: "get_order_by_id oid db = Some ord'" "stock_only db d"
      "transition ord' OrdCancelled (Some (u_id u)) (Some CancelledNote) now d = Inr (ord, s')"
    then show ?thesis using transition_moved(1) [OF o] transition_rest [OF o(3)] by (auto simp: stock_only_def)
  qed
  have "unique_by o_id (orders db)" using t(3) by (simp add: payments_ok_def)
  with m have "payments_ok s'" using payments_ok_grow [OF t(3) moved_grow] by blast
  with order_outcomes(3) [OF t(1,2) c] order_services_keys(3) [OF c]
  show "trade_inv coll s' \<and> idempotency_keys s' = idempotency_keys db"
    by (simp add: trade_inv_def)
qed

lemma after_init_payment:
  assumes inv: "sales_inv coll db" and f: "find_by pay_id (pf_payment f) (payments db) = None"
  shows "sales_inv coll (snd (init_payment cfg post f u key h oid db))"
  unfolding init_payment_def
proof (rule sales_guarded [OF inv init_guard.keeps_ok])
  show "keys_ok db" using inv by (simp add: sales_inv_def)
  fix x r s' assume "init_payment_action cfg post f u oid (db\<lparr>idempotency_keys := x\<rparr>) = Inr (r, s')"
  then obtain p url where s: "init_payment_service cfg post f u oid (db\<lparr>idempotency_keys := x\<rparr>) = Inr ((p, url), s')"
    by (auto simp: init_payment_action_def bindE_eq_Inr flush_payments_def split: if_splits)
  let ?db = "db\<lparr>idempotency_keys := x\<rparr>"
  have t: "goods_inv coll ?db" "order_tables_ok ?db" "payments_ok ?db" using inv by (simp_all add: sales_inv_def)
  have "s' = ?db\<lparr>payments := payments ?db @ [p]\<rparr>" using s f by (auto elim: init_service_cases)
  with t(1,2) payments_ok_init [OF s t(3)] f show "trade_inv coll s'"
    by (simp add: trade_inv_def del: parts_ignore_keys)
qed

lemma after_callback:
  assumes inv: "sales_inv coll db"
  shows "sales_inv coll (snd (payment_callback verify now a status db))"
  unfolding payment_callback_def
proof (rule sales_request [OF inv])
  fix r s' assume "bindE (handle_callback verify now a status db) (\<lambda>(p, db1).
       flush_payments (if pay_status p = PayVerified then RedirectPaid (pay_order_id p)
                       else RedirectFailed (pay_order_id p)) db1) = Inr (r, s')"
  then obtain p where c: "handle_callback verify now a status db = Inr (p, s')"
    by (auto simp: bindE_eq_Inr flush_payments_def split: if_splits)
  have t: "goods_inv coll db" "order_tables_ok db" "payments_ok db" using inv by (simp_all add: sales_inv_def)
  have u: "unique_by pay_id (payments db)" using t(3) by (simp add: payments_ok_def)
  have "goods_inv coll s' \<and> order_tables_ok s' \<and> idempotency_keys s' = idempotency_keys db"
    using c u
  proof (cases rule: handle_callback_cases)
    case (failed q x ord)
    then show ?thesis using order_outcomes(2) [OF _ _ failed(5)] order_services_keys(2) [OF failed(5)] t by simp
  next
    case (verified q x ord result)
    then show ?thesis using order_outcomes(1) [OF _ _ verified(8)] order_services_keys(1) [OF verified(8)] t by simp
  qed (use t in \<open>simp_all add: payments_ok_def\<close>)
  with payments_ok_callback [OF c t(3)] show "trade_inv coll s' \<and> idempotency_keys s' = idempotency_keys db"
    by (simp add: trade_inv_def)
qed

lemma after_status_change:
  fixes db :: "'a accounts_db_scheme"
  assumes num: "numeric_column num" and inv: "sales_inv coll db" and f: "fresh_wallet fresh db"
  shows "sales_inv coll (snd (update_order_status num u fresh oid s nt db))"
proof -
  have t: "goods_inv coll db" "order_tables_ok db" "payments_ok db" "keys_ok db" using inv by (simp_all add: sales_inv_def)
  have uo: "unique_by o_id (orders db)" using t(3) by (simp add: payments_ok_def)
  let ?I = "\<lambda>d. goods_inv coll d \<and> payments_ok d \<and> keys_ok d"
  have "?I (snd (update_order_status num u fresh oid s nt db))"
    unfolding update_order_status_def
  proof (rule request_invariant [where I = ?I])
    show "?I db" using t by simp
    fix r db' assume "bindE (require_permission ''order.manage'' u) (\<lambda>_.
       bindE (validated (case nt of None \<Rightarrow> True | Some n \<Rightarrow> text_length n \<le> 500)) (\<lambda>_.
       bindE (admin_update_status (f_now fresh) oid s nt (u_id u) db) (\<lambda>(ord, db1).
       bindE (if o_status ord = OrdRefunded
              then map_sum id snd (refund_order num fresh (o_user_id ord) (of_int (o_total ord)) (o_id ord) (u_id u) db1)
              else Inr db1) (\<lambda>db2. flush_orders (serialize_order ord db2) db2)))) = Inr (r, db')"
    then obtain ord ord1 db1 where o: "get_order_by_id oid db = Some ord"
        and tr: "transition ord s (Some (u_id u)) (map_option UserNote nt) (f_now fresh) db = Inr (ord1, db1)"
        and rf: "(if o_status ord1 = OrdRefunded
              then map_sum id snd (refund_order num fresh (o_user_id ord1) (of_int (o_total ord1)) (o_id ord1) (u_id u) db1)
              else Inr db1) = Inr db'"
      by (auto simp: bindE_eq_Inr admin_update_status_def flush_orders_def split: if_splits)
    note m = transition_moved [OF o stock_only_refl tr]
    have "catalog_inv coll db" using t(1) by (simp add: goods_inv_def)
    note g1 = goods_moved [OF t(1) o stock_only_refl this tr]
    have p1: "payments_ok db1" using payments_ok_grow [OF t(3) moved_grow [OF m(1) uo]] transition_rest [OF tr] by blast
    have k1: "keys_ok db1" using t(4) keys_ok_cong [OF m(7)] by simp
    have f1: "fresh_wallet fresh db1" using f m(5) by (simp add: fresh_wallet_def)
    show "?I db'"
    proof (cases "o_status ord1 = OrdRefunded")
      case True
      with rf obtain v where v: "apply_transaction num fresh (o_user_id ord1) Refund (of_int (o_total ord1)) (Some ''order'')
          (Some (o_id ord1)) (Some RefundNote) (Some (u_id u)) db1 = Inr (v, db')"
        by (cases "refund_order num fresh (o_user_id ord1) (of_int (o_total ord1)) (o_id ord1) (u_id u) db1")
           (auto simp: refund_order_def)
      have "payments db' = payments db1" using apply_transaction_rest [OF v] behind_wallet(4) [of db' db1] by (simp add: beside_wallets_def)
      with goods_transaction [OF num g1 f1 v] payments_ok_cong [of db' db1] apply_transaction_orders(1,2) [OF v] p1
        keys_ok_cong [OF apply_transaction_keys [OF v]] k1 show ?thesis by simp
    next
      case False
      with rf g1 p1 k1 show ?thesis by simp
    qed
  qed
  with tables_admin [OF num t(2)] show ?thesis by (simp add: sales_inv_def)
qed

end
