(* ===== verification/Whole_Shop.thy ===== *)
theory Whole_Shop
  imports Sales_Invariant
begin

text \<open>
  The shop as one system: any request to its interface, one pass of the closing job, and entries of
  Redis running out, in any order. What each component keeps true is true of the composition.
\<close>

section \<open>The invariant\<close>

definition shop_inv :: "(string \<Rightarrow> nat) \<Rightarrow> 'a accounts_db_scheme \<Rightarrow> bool" where
  "shop_inv coll db \<longleftrightarrow> sales_inv coll db \<and> tickets_inv db \<and> accounts_fit db \<and> families_ok (refresh_tokens db)"

text \<open>The sales, the tickets and the accounts share the database and no table.\<close>

lemma sales_inv_cong:
  fixes db db' :: "'a accounts_db_scheme"
  assumes "payments_db.truncate db' = payments_db.truncate db" shows "sales_inv coll db' = sales_inv coll db"
proof -
  note b = before_audit [OF assms]
  show ?thesis
    unfolding sales_inv_def goods_inv_def catalog_inv_cong [OF b(2,3,1,4)] cart_ok_cong [OF b(6,7)] wallets_ok_cong [OF b(8,9)]
      totals_ok_cong [OF b(10,11)] order_tables_cong [OF b(10,12,9)] keys_ok_cong [OF b(5)] payments_ok_cong [OF b(13,10,12)] ..
qed

lemma tickets_inv_cong:
  "tickets db' = tickets db \<Longrightarrow> ticket_messages db' = ticket_messages db \<Longrightarrow> audit_logs db' = audit_logs db \<Longrightarrow>
     tickets_inv db' = tickets_inv db"
  by (simp add: tickets_inv_def tickets_ok_def messages_of_def closing_notes_def closing_records_def)

lemma accounts_fit_tables:
  "users db' = users db \<Longrightarrow> oauth_accounts db' = oauth_accounts db \<Longrightarrow> refresh_tokens db' = refresh_tokens db \<Longrightarrow>
     password_resets db' = password_resets db \<Longrightarrow> email_verifications db' = email_verifications db \<Longrightarrow>
     accounts_fit db' = accounts_fit db"
  by (simp add: accounts_fit_def)

lemma shop_after_sales:
  assumes "shop_inv coll db" "sales_inv coll db'" "payments_db.more db' = payments_db.more db"
  shows "shop_inv coll db'"
proof -
  note b = behind_payments [OF assms(3)]
  from assms(1,2) show ?thesis
    unfolding shop_inv_def tickets_inv_cong [OF b(2,3,1)] accounts_fit_tables [OF b(4-8)] b(6) by simp
qed

lemma shop_after_catalog:
  assumes "shop_inv coll db" "catalog_inv coll db'" "catalog_db.more db' = catalog_db.more db"
  shows "shop_inv coll db'"
proof (rule shop_after_sales [OF assms(1)])
  show "sales_inv coll db'" using after_catalog [OF _ assms(2,3)] assms(1) by (simp add: shop_inv_def)
  show "payments_db.more db' = payments_db.more db"
    by (rule behind_wallet(5) behind_cart(3) behind_catalog(2) assms(3))+
qed

lemma shop_after_tickets:
  assumes "shop_inv coll db" "tickets_inv db'" "payments_db.truncate db' = payments_db.truncate db"
    "tickets_db.more db' = tickets_db.more db"
  shows "shop_inv coll db'"
proof -
  note b = behind_tickets [OF assms(4)]
  from assms(1,2) show ?thesis
    unfolding shop_inv_def sales_inv_cong [OF assms(3)] accounts_fit_tables [OF b] b(3) by simp
qed

lemma before_accounts:
  fixes db db' :: "'a accounts_db_scheme"
  assumes "tickets_db.truncate db' = tickets_db.truncate db"
  shows "payments_db.truncate db' = payments_db.truncate db" "tickets db' = tickets db"
    "ticket_messages db' = ticket_messages db" "audit_logs db' = audit_logs db"
  using assms by (cases db; cases db'; simp add: tickets_db.truncate_def payments_db.truncate_def)+

lemma shop_after_auth:
  fixes db :: "'a accounts_db_scheme"
  assumes inv: "shop_inv coll db" and step: "auth_step env db db'"
    and rest: "payments_db.truncate db' = payments_db.truncate db" "tickets_inv db'"
  shows "shop_inv coll db'"
proof -
  have f: "families_ok (refresh_tokens db)" "accounts_fit db" using inv by (simp_all add: shop_inv_def)
  have "unique_by rt_id (refresh_tokens db)" using f(1) by (simp add: families_ok_def)
  from families_step [OF auth_tokens_step [OF step this] f(1)] auth_fit_step [OF step f(2)] rest inv show ?thesis
    unfolding shop_inv_def sales_inv_cong [OF rest(1)] by simp
qed

lemma shop_after_accounts:
  fixes db :: "'a accounts_db_scheme"
  assumes inv: "shop_inv coll db" and step: "auth_step env db db'" and rest: "tickets_db.truncate db' = tickets_db.truncate db"
  shows "shop_inv coll db'"
  using shop_after_auth [OF inv step] before_accounts [OF rest] tickets_inv_cong [of db' db] inv by (simp add: shop_inv_def)

text \<open>What the cart and the wallet leave alone is behind them.\<close>

lemma cart_frames:
  fixes db :: "'a accounts_db_scheme"
  shows "payments_db.more (snd (add_cart_item u i key h now pid q db)) = payments_db.more db"
    and "payments_db.more (snd (update_cart_item u i pid q db)) = payments_db.more db"
    and "payments_db.more (remove_cart_item u i pid db) = payments_db.more db"
    and "payments_db.more (clear_cart u i db) = payments_db.more db"
  by (rule behind_wallet(5) [OF behind_cart(3)], simp add: frames remove_cart_item_def clear_cart_def cart_services_rest)+

lemma beside_walletsD: "beside_wallets db' = beside_wallets db \<Longrightarrow> wallet_db.more db' = wallet_db.more db"
  by (simp add: beside_wallets_def)

lemma wallet_frames:
  fixes db :: "'a accounts_db_scheme"
  shows "payments_db.more (snd (get_my_wallet u k db)) = payments_db.more db"
    and "payments_db.more (snd (list_my_wallet_transactions u k ps db)) = payments_db.more db"
    and "payments_db.more (snd (admin_get_wallet u k uid db)) = payments_db.more db"
    and "payments_db.more (snd (deposit_to_wallet num u k key h amount db)) = payments_db.more db"
    and "payments_db.more (snd (admin_credit_wallet num u k key h uid amount reason db)) = payments_db.more db"
    and "payments_db.more (snd (admin_debit_wallet num u k key h uid amount reason db)) = payments_db.more db"
  by (rule behind_wallet(5), rule beside_walletsD, rule frames)+

section \<open>The identifiers of a request\<close>

text \<open>What the server draws for a request is not in use: the keys of the rows it may insert.\<close>

definition new_family :: "auth_fresh \<Rightarrow> 'a accounts_db_scheme \<Rightarrow> bool" where
  "new_family k db \<longleftrightarrow> a_family k \<notin> rt_family_id ` set (refresh_tokens db)"

fun fresh_public :: "public_call \<Rightarrow> 'a accounts_db_scheme \<Rightarrow> bool" where
  "fresh_public (Register k data) db = new_family k db"
| "fresh_public (Log_In k email pw) db = new_family k db"
| "fresh_public (Google_Return cfg post get k code state) db = new_family k db"
| "fresh_public _ db = True"

fun fresh_customer :: "customer_call \<Rightarrow> 'a accounts_db_scheme \<Rightarrow> bool" where
  "fresh_customer (Add_To_Cart i key h now pid q) db = fresh_cart i db"
| "fresh_customer (Change_Cart_Item i pid q) db = fresh_cart i db"
| "fresh_customer (Drop_Cart_Item i pid) db = fresh_cart i db"
| "fresh_customer (Empty_Cart i) db = fresh_cart i db"
| "fresh_customer (Check_Out k key h addr) db = (get_order_by_id (k_order k) db = None \<and> fresh_cart (k_cart k) db)"
| "fresh_customer (Pay cfg post f key h i) db = (find_by pay_id (pf_payment f) (payments db) = None)"
| "fresh_customer (My_Wallet k) db = fresh_wallet k db"
| "fresh_customer (My_Transactions k ps) db = fresh_wallet k db"
| "fresh_customer (Deposit_Money k key h a) db = fresh_wallet k db"
| "fresh_customer (Open_Ticket k data) db = (get_ticket_by_id (tf_ticket k) db = None)"
| "fresh_customer _ db = True"

fun fresh_admin :: "admin_call \<Rightarrow> 'a accounts_db_scheme \<Rightarrow> bool" where
  "fresh_admin (Create_Category i data) db = (get_category_by_id i db = None)"
| "fresh_admin (Create_Product i now data) db = (get_product_by_id i db = None)"
| "fresh_admin (Update_Order_Status k i st note) db = fresh_wallet k db"
| "fresh_admin (Get_Wallet k i) db = fresh_wallet k db"
| "fresh_admin (Credit_Wallet k key h i a r) db = fresh_wallet k db"
| "fresh_admin (Debit_Wallet k key h i a r) db = fresh_wallet k db"
| "fresh_admin _ db = True"

fun fresh_request :: "shop_request \<Rightarrow> 'a accounts_db_scheme \<Rightarrow> bool" where
  "fresh_request (Public_Request call) db = fresh_public call db"
| "fresh_request (Customer_Request now token header call) db = fresh_customer call db"
| "fresh_request (Admin_Request now token header call) db = fresh_admin call db"

section \<open>Every request keeps the shop consistent\<close>

lemma google_start_step:
  "auth_step env db (snd (google_login enc cfg g db))" "auth_step env db (snd (google_link_start enc cfg g u db))"
  by (rule as_other; simp add: google_login_def google_link_start_def start_google_def split: prod.split sum.split)+

lemma public_keeps:
  assumes num: "numeric_column (de_num d)" and inv: "shop_inv (de_coll d) db" and f: "fresh_public call db"
  shows "shop_inv (de_coll d) (snd (public_routes env d call db))"
proof -
  have cat: "catalog_inv (de_coll d) db" and sal: "sales_inv (de_coll d) db"
    using inv by (simp_all add: shop_inv_def sales_inv_def goods_inv_def)
  note step = inv_catalog_step [OF num _ cat]
  show ?thesis
  proof (cases call)
    case Browse_Categories
    then show ?thesis by (simp add: shop_after_catalog [OF inv step] frames catalog_step.intros)
  next
    case Show_Featured
    then show ?thesis by (simp add: shop_after_catalog [OF inv step] frames catalog_step.intros)
  next
    case Show_Popular
    then show ?thesis by (simp add: shop_after_catalog [OF inv step] frames catalog_step.intros)
  next
    case (Show_Product slug)
    then show ?thesis by (simp add: shop_after_catalog [OF inv step] frames catalog_step.intros)
  next
    case (Gateway_Callback post now a st)
    then show ?thesis by (simp add: shop_after_sales [OF inv after_callback [OF sal]] frames)
  next
    case (Register k data)
    with f show ?thesis using shop_after_accounts [OF inv as_register] by (simp add: frames new_family_def)
  next
    case (Log_In k email pw)
    with f show ?thesis using shop_after_accounts [OF inv as_login] by (simp add: frames new_family_def)
  next
    case (Refresh_Session k token)
    then show ?thesis using shop_after_accounts [OF inv as_refresh] by (simp add: frames)
  next
    case (Log_Out now token)
    then show ?thesis using shop_after_accounts [OF inv as_logout] by (simp add: frames)
  next
    case (Ask_Password_Reset k email)
    then show ?thesis using shop_after_accounts [OF inv as_ask_reset] by (simp add: frames)
  next
    case (Reset_Password k t new)
    then show ?thesis using shop_after_accounts [OF inv as_reset] by (simp add: frames)
  next
    case (Confirm_Email now t)
    then show ?thesis using shop_after_accounts [OF inv as_verify] by (simp add: frames)
  next
    case (Google_Login enc cfg g)
    then show ?thesis using shop_after_accounts [OF inv google_start_step(1)] by (simp add: frames)
  next
    case (Google_Return cfg post get k code state)
    with f show ?thesis using shop_after_accounts [OF inv as_google] by (simp add: frames new_family_def)
  qed (simp add: inv)
qed

lemma customer_keeps:
  assumes num: "numeric_column (de_num d)" and inv: "shop_inv (de_coll d) db" and f: "fresh_customer call db"
  shows "shop_inv (de_coll d) (snd (customer_routes env d u call db))"
proof -
  have sal: "sales_inv (de_coll d) db" and tk: "tickets_inv db" using inv by (simp_all add: shop_inv_def)
  show ?thesis
  proof (cases call)
    case (Add_To_Cart i key h now pid q)
    with f show ?thesis by (simp add: shop_after_sales [OF inv after_cart(1) [OF sal]] cart_frames)
  next
    case (Change_Cart_Item i pid q)
    with f show ?thesis by (simp add: shop_after_sales [OF inv after_cart(2) [OF sal]] cart_frames)
  next
    case (Drop_Cart_Item i pid)
    with f show ?thesis by (simp add: shop_after_sales [OF inv after_cart(3) [OF sal]] cart_frames)
  next
    case (Empty_Cart i)
    with f show ?thesis by (simp add: shop_after_sales [OF inv after_cart(4) [OF sal]] cart_frames)
  next
    case (Check_Out k key h addr)
    with f show ?thesis by (simp add: shop_after_sales [OF inv after_checkout [OF sal]] frames)
  next
    case (Cancel_My_Order now i)
    then show ?thesis by (simp add: shop_after_sales [OF inv after_cancel [OF sal]] frames)
  next
    case (Pay cfg post g key h i)
    with f show ?thesis by (simp add: shop_after_sales [OF inv after_init_payment [OF sal]] frames)
  next
    case (My_Wallet k)
    with f show ?thesis by (simp add: shop_after_sales [OF inv after_wallet(1) [OF num sal]] wallet_frames)
  next
    case (My_Transactions k ps)
    with f show ?thesis by (simp add: shop_after_sales [OF inv after_wallet(2) [OF num sal]] wallet_frames)
  next
    case (Deposit_Money k key h a)
    with f show ?thesis by (simp add: shop_after_sales [OF inv after_wallet(4) [OF num sal]] wallet_frames)
  next
    case (Open_Ticket k data)
    with f show ?thesis by (simp add: shop_after_tickets [OF inv inv_ticket_step [OF tk_create tk]] frames)
  next
    case (Answer_Ticket k i m)
    then show ?thesis by (simp add: shop_after_tickets [OF inv inv_ticket_step [OF tk_reply tk]] frames)
  next
    case (Change_My_Password k current new)
    then show ?thesis using shop_after_accounts [OF inv as_change] by (simp add: frames)
  next
    case (Link_Google enc cfg g)
    then show ?thesis using shop_after_accounts [OF inv google_start_step(2)] by (simp add: frames)
  qed (simp_all add: inv)
qed

lemma admin_keeps:
  assumes num: "numeric_column (de_num d)" and inv: "shop_inv (de_coll d) db" and f: "fresh_admin call db"
  shows "shop_inv (de_coll d) (snd (admin_routes d u call db))"
proof -
  have cat: "catalog_inv (de_coll d) db" and sal: "sales_inv (de_coll d) db" and tk: "tickets_inv db"
    using inv by (simp_all add: shop_inv_def sales_inv_def goods_inv_def)
  note step = inv_catalog_step [OF num _ cat]
  show ?thesis
  proof (cases call)
    case (Update_Order_Status k i st nt)
    with f show ?thesis by (simp add: shop_after_sales [OF inv after_status_change [OF num sal]] frames)
  next
    case (Get_Wallet k i)
    with f show ?thesis by (simp add: shop_after_sales [OF inv after_wallet(3) [OF num sal]] wallet_frames)
  next
    case (Credit_Wallet k key h i a r)
    with f show ?thesis by (simp add: shop_after_sales [OF inv after_wallet(5) [OF num sal]] wallet_frames)
  next
    case (Debit_Wallet k key h i a r)
    with f show ?thesis by (simp add: shop_after_sales [OF inv after_wallet(6) [OF num sal]] wallet_frames)
  next
    case (Reply_To_Ticket k i m)
    then show ?thesis by (simp add: shop_after_tickets [OF inv inv_ticket_step [OF tk_answer tk]] frames)
  next
    case (Change_Ticket_Status k i st)
    then show ?thesis by (simp add: shop_after_tickets [OF inv inv_ticket_step [OF tk_status tk]] frames)
  next
    case (Update_User now i data)
    obtain rows where "audit_logs (snd (update_user u now i data db)) = audit_logs db @ rows"
      "\<forall>r \<in> set rows. al_action r \<noteq> ''ticket.auto_closed''" using update_user_rest(4) by blast
    from tk_other [OF update_user_rest(2,3) this]
    have "tickets_inv (snd (update_user u now i data db))" using inv_ticket_step tk by blast
    then show ?thesis using shop_after_auth [OF inv as_update] by (simp add: Update_User frames)
  qed (use f in \<open>simp_all add: inv shop_after_catalog [OF inv step] frames catalog_step.intros\<close>)
qed

lemma request_keeps:
  assumes "numeric_column (de_num d)" "shop_inv (de_coll d) db" "fresh_request r db"
  shows "shop_inv (de_coll d) (snd (serve_shop env d r db))"
  using assms by (cases r) (auto simp: serve_customer_def serve_admin_def public_keeps customer_keeps admin_keeps split: sum.split)

section \<open>The system\<close>

inductive shop_step :: "auth_env \<Rightarrow> database_env \<Rightarrow> 'a accounts_db_scheme \<Rightarrow> 'a accounts_db_scheme \<Rightarrow> bool" for env d where
  by_request: "fresh_request r db \<Longrightarrow> shop_step env d db (snd (serve_shop env d r db))"
| by_job: "shop_step env d db (snd (auto_close_one k tid db))"
| by_expiry: "c \<subseteq>\<^sub>m redis db \<Longrightarrow> os \<subseteq>\<^sub>m oauth_sessions db \<Longrightarrow>
     shop_step env d db (db\<lparr>redis := c, oauth_sessions := os\<rparr>)"

lemma expiry_keeps:
  fixes db :: "'a accounts_db_scheme"
  assumes inv: "shop_inv coll db" and c: "c \<subseteq>\<^sub>m redis db"
  shows "shop_inv coll (db\<lparr>redis := c, oauth_sessions := os\<rparr>)"
proof -
  have "catalog_inv coll (db\<lparr>redis := c\<rparr>)"
    using inv coherent_expire [OF c] by (simp add: shop_inv_def sales_inv_def goods_inv_def catalog_inv_def)
  from shop_after_catalog [OF inv this] have "shop_inv coll (db\<lparr>redis := c\<rparr>)" by simp
  from shop_after_accounts [OF this as_other, of "db\<lparr>redis := c, oauth_sessions := os\<rparr>"] show ?thesis
    by (simp add: account_writes_rest(7) [of _ "db\<lparr>redis := c\<rparr>"])
qed

lemma shop_step_keeps:
  assumes "numeric_column (de_num d)" "shop_step env d db db'" "shop_inv (de_coll d) db"
  shows "shop_inv (de_coll d) db'"
  using assms(2,3)
proof (induction rule: shop_step.induct)
  case (by_request r db)
  then show ?case by (intro request_keeps [OF assms(1)])
next
  case (by_job db k tid)
  then have "tickets_inv db" by (simp add: shop_inv_def)
  from shop_after_tickets [OF by_job inv_ticket_step [OF tk_close this]] show ?case by (simp add: frames)
next
  case (by_expiry c db os)
  then show ?case by (intro expiry_keeps)
qed

lemma shop_steps_keep:
  assumes "numeric_column (de_num d)" "(shop_step env d)\<^sup>*\<^sup>* db db'" "shop_inv (de_coll d) db"
  shows "shop_inv (de_coll d) db'"
  using assms(2,3) by (induction rule: rtranclp_induct) (auto intro: shop_step_keeps [OF assms(1)])

text \<open>What that says across the components.\<close>

lemma shop_inv_means:
  assumes "shop_inv coll db"
  shows "i \<in> set (inventories db) \<Longrightarrow> 0 \<le> stock_reserved i \<and> stock_reserved i \<le> stock_total i"
    and "r \<in> set (orders db) \<Longrightarrow> o_total r = (\<Sum>i \<leftarrow> items_of_order (o_id r) db. oi_subtotal i)
       \<and> follows OrdPending (history_of (o_id r) db) (o_status r)
       \<and> map wt_amount (refunds_of (o_id r) db) = (if o_status r = OrdRefunded then [o_total r] else [])"
    and "p \<in> set (payments db) \<Longrightarrow> \<exists>r \<in> set (orders db). o_id r = pay_order_id p \<and> pay_amount p = o_total r \<and> pay_user_id p = o_user_id r"
proof -
  from assms have i: "inventory_ok db" "totals_ok db" "order_tables_ok db" "payments_ok db"
    by (simp_all add: shop_inv_def sales_inv_def goods_inv_def catalog_inv_def catalog_ok_def)
  show "i \<in> set (inventories db) \<Longrightarrow> 0 \<le> stock_reserved i \<and> stock_reserved i \<le> stock_total i"
    using i(1) by (auto simp: inventory_ok_def inventory_row_ok_def)
  show "r \<in> set (orders db) \<Longrightarrow> o_total r = (\<Sum>i \<leftarrow> items_of_order (o_id r) db. oi_subtotal i)
       \<and> follows OrdPending (history_of (o_id r) db) (o_status r)
       \<and> map wt_amount (refunds_of (o_id r) db) = (if o_status r = OrdRefunded then [o_total r] else [])"
    using i(2,3) by (simp add: totals_ok_def order_tables_ok_def history_ok_def refunds_ok_def)
  show "p \<in> set (payments db) \<Longrightarrow> \<exists>r \<in> set (orders db). o_id r = pay_order_id p \<and> pay_amount p = o_total r \<and> pay_user_id p = o_user_id r"
  proof -
    assume "p \<in> set (payments db)"
    with i(4) obtain r where "get_order_by_id (pay_order_id p) db = Some r" "pay_amount p = o_total r" "pay_user_id p = o_user_id r"
      by (auto simp: payments_ok_def payment_matches_def)
    then show ?thesis unfolding get_order_by_id_def by (metis find_by_SomeD)
  qed
qed

end
