(* ===== verification/Balanced_Books.thy ===== *)
theory Balanced_Books
  imports Whole_Shop
begin

text \<open>
  The books of the shop over its whole interface: what is reserved is what the orders awaiting
  payment ask for. Two kinds of request can break it and are left out: the cancellation of a paid
  order, and an administrator who takes an order out of \<open>awaiting_payment\<close> or puts one into it.
\<close>

section \<open>What the books read\<close>

definition balanced :: "'a orders_db_scheme \<Rightarrow> bool" where
  "balanced db \<longleftrightarrow> reserved_matches db \<and> (\<forall>r \<in> set (orders db). o_status r \<noteq> OrdPending)"

lemma shop_books: "shop_inv coll db \<Longrightarrow> balanced db \<Longrightarrow> books_ok db"
  by (simp add: shop_inv_def sales_inv_def goods_inv_def catalog_inv_def catalog_ok_def balanced_def books_ok_def)

lemma books_balanced: "books_ok db \<Longrightarrow> balanced db"
  by (simp add: balanced_def books_ok_def)

lemma balanced_stock:
  assumes "balanced db" "orders db' = orders db" "order_items db' = order_items db"
    and "\<And>p t r. stock_of db' p = Some (t, r) \<Longrightarrow> (\<exists>t0. stock_of db p = Some (t0, r)) \<or> awaiting_demand db p = r"
  shows "balanced db'"
proof -
  have "awaiting_demand db' p = awaiting_demand db p" for p
    by (simp add: awaiting_demand_def awaiting_def assms(2) order_lines_cong [OF assms(3)])
  with assms(1,4) show ?thesis by (force simp: balanced_def reserved_matches_def assms(2))
qed

lemma balanced_cong:
  assumes "inventories db' = inventories db" "orders db' = orders db" "order_items db' = order_items db"
  shows "balanced db \<Longrightarrow> balanced db'"
  by (rule balanced_stock [OF _ assms(2,3)]) (auto simp: stock_of_cong [OF assms(1)])

lemma balanced_ignores_keys [simp]: "balanced (db\<lparr>idempotency_keys := k\<rparr>) = balanced db"
  using balanced_cong [of "db\<lparr>idempotency_keys := k\<rparr>" db] balanced_cong [of db "db\<lparr>idempotency_keys := k\<rparr>"] by auto

section \<open>The catalogue\<close>

lemma adjusted_stock:
  assumes "adjust p q a db = Inr db' \<or> restock p q a db = Inr db'" "stock_of db' x = Some (t, r)"
  shows "\<exists>t0. stock_of db x = Some (t0, r)"
proof -
  have "map_option snd (stock_of db' x) = map_option snd (stock_of db x)"
    using assms(1) inventory_refines(4) [of p q a db] inventory_refines(5) [of p q a db]
    by (auto simp: abs_adjust_def abs_restock_def bindE_def the_or_def split: option.splits if_splits)
  with assms(2) show ?thesis by (cases "stock_of db x") auto
qed

lemma balanced_catalog:
  fixes db db' :: "'a accounts_db_scheme"
  assumes "balanced db" and m: "catalog_db.more db' = catalog_db.more db"
    and "\<And>p t r. stock_of db' p = Some (t, r) \<Longrightarrow> (\<exists>t0. stock_of db p = Some (t0, r)) \<or> awaiting_demand db p = r"
  shows "balanced db'"
  by (rule balanced_stock [OF assms(1) behind_wallet(1,2) [OF behind_cart(3) [OF behind_catalog(2) [OF m]]] assms(3)])

lemma balanced_same_stock:
  fixes db db' :: "'a accounts_db_scheme"
  assumes "balanced db" "catalog_db.more db' = catalog_db.more db" "inventories db' = inventories db"
  shows "balanced db'"
  by (rule balanced_catalog [OF assms(1,2)]) (auto simp: stock_of_cong [OF assms(3)])

lemma catalog_routes_stock:
  "inventories (snd (create_category u nid cc db)) = inventories db"
  "inventories (snd (update_category u cid cu db)) = inventories db"
  "inventories (snd (move_category coll u cid np db)) = inventories db"
  "inventories (snd (delete_category u cid db)) = inventories db"
  "inventories (snd (archive_product u now pid db)) = inventories db"
  unfolding create_category_def update_category_def move_category_def delete_category_def archive_product_def
  by (rule request_rest, auto simp: bindE_eq_Inr commit_catalog_Inr
      dest: category_create_frame(2) category_update_frame(2) category_move_frame(2) category_delete_frame(2)
      elim!: archive_frame)+

lemma update_product_stock: "inventories (snd (update_product num u now pid pu db)) = inventories db"
  by (auto simp: update_product_def bindE_eq_Inr commit_catalog_Inr elim!: product_update_frame split: sum.split)

lemma catalog_reads_stock:
  "inventories (snd (get_category_tree coll db)) = inventories db"
  "inventories (snd (get_product slug db)) = inventories db"
  "inventories (snd (featured_products db)) = inventories db"
  "inventories (snd (popular_products db)) = inventories db"
  unfolding get_category_tree_def get_product_def featured_products_def popular_products_def cached_list_def
  by (auto simp: bindE_eq_Inr intro!: request_rest split: option.split cached.split)

lemma balanced_stock_routes:
  fixes db :: "'a accounts_db_scheme"
  assumes "balanced db"
  shows "balanced (snd (restock_product u pid ia db))" "balanced (snd (adjust_product_inventory u pid ia db))"
proof -
  have "\<exists>t0. stock_of db p = Some (t0, r)" if "stock_of (snd (request db m)) p = Some (t, r)"
    "\<And>x d. m = Inr (x, d) \<Longrightarrow> \<exists>q a. adjust pid q a db = Inr d \<or> restock pid q a db = Inr d"
    for p t r and m :: "exn + (unit \<times> 'a accounts_db_scheme)"
  proof (cases m)
    case (Inr y)
    obtain x d where y: "y = (x, d)" by (cases y)
    with that(2) Inr obtain q a where "adjust pid q a db = Inr d \<or> restock pid q a db = Inr d" by blast
    with that(1) Inr y adjusted_stock [of pid q a db d p t r] show ?thesis by simp
  qed (use that in simp)
  note stock = this
  show "balanced (snd (restock_product u pid ia db))"
    by (rule balanced_catalog [OF assms product_routes_rest(3)], rule disjI1, unfold restock_product_def, erule stock)
       (auto simp: bindE_eq_Inr commit_catalog_Inr)
  show "balanced (snd (adjust_product_inventory u pid ia db))"
    by (rule balanced_catalog [OF assms product_routes_rest(4)], rule disjI1, unfold adjust_product_inventory_def, erule stock)
       (auto simp: bindE_eq_Inr commit_catalog_Inr)
qed

text \<open>A new product starts without reservations, and nobody has ordered it.\<close>

definition never_ordered :: "uuid \<Rightarrow> 'a orders_db_scheme \<Rightarrow> bool" where
  "never_ordered pid db \<longleftrightarrow> (\<forall>i \<in> set (order_items db). oi_product_id i \<noteq> Some pid)"

lemma no_demand_for_new:
  assumes "never_ordered pid db" shows "awaiting_demand db pid = 0"
proof -
  have "demand pid (List.map_filter (\<lambda>i. map_option (\<lambda>p. (p, oi_quantity i)) (oi_product_id i)) xs) = 0"
    if "set xs \<subseteq> set (order_items db)" for xs
    using that assms by (induction xs) (auto simp: map_filter_simps never_ordered_def split: option.split)
  then have "demand pid (order_lines oid db) = 0" for oid by (simp add: order_lines_def items_of_order_def)
  then show ?thesis by (simp add: awaiting_demand_def)
qed

lemma balanced_create_product:
  fixes db :: "'a accounts_db_scheme"
  assumes b: "balanced db" and n: "never_ordered nid db"
  shows "balanced (snd (create_product num u nid now pc db))"
proof (rule balanced_catalog [OF b product_routes_rest(1)])
  fix p t r assume s: "stock_of (snd (create_product num u nid now pc db)) p = Some (t, r)"
  have "inventories (snd (create_product num u nid now pc db)) = inventories db
      \<or> inventories (snd (create_product num u nid now pc db)) = inventories db @
         [\<lparr>inv_product_id = nid, stock_total = pc_initial_stock pc, stock_reserved = 0\<rparr>]"
    unfolding create_product_def
    by (rule request_invariant [where I = "\<lambda>d. inventories d = inventories db \<or> inventories d = inventories db @
         [\<lparr>inv_product_id = nid, stock_total = pc_initial_stock pc, stock_reserved = 0\<rparr>]"])
       (auto simp: bindE_eq_Inr commit_catalog_Inr dest: product_create_frame(4))
  with s no_demand_for_new [OF n] show "(\<exists>t0. stock_of db p = Some (t0, r)) \<or> awaiting_demand db p = r"
    by (auto simp: stock_of_def find_by_append split: option.splits if_splits)
qed

section \<open>Cart, wallet, tickets and accounts\<close>

lemma balanced_cart:
  fixes db db' :: "'a accounts_db_scheme"
  assumes "balanced db" and t: "catalog_db.truncate db' = catalog_db.truncate db" and m: "cart_db.more db' = cart_db.more db"
  shows "balanced db'"
  by (rule balanced_cong [OF before_orders(1) [OF t] behind_wallet(1,2) [OF behind_cart(3) [OF m]] assms(1)])

lemma balanced_wallet:
  fixes db db' :: "'a accounts_db_scheme"
  assumes "balanced db" and b: "beside_wallets db' = beside_wallets db"
  shows "balanced db'"
proof -
  have t: "catalog_db.truncate db' = catalog_db.truncate db" and m: "wallet_db.more db' = wallet_db.more db"
    using b by (simp_all add: beside_wallets_def)
  show ?thesis by (rule balanced_cong [OF before_orders(1) [OF t] behind_wallet(1,2) [OF m] assms(1)])
qed

lemma balanced_rest:
  fixes db db' :: "'a accounts_db_scheme"
  assumes "balanced db" "payments_db.truncate db' = payments_db.truncate db"
  shows "balanced db'"
  by (rule balanced_cong [OF before_audit(1,10,11) [OF assms(2)] assms(1)])

section \<open>Orders and payments\<close>

lemma books_ok_cong:
  assumes "inventories db' = inventories db" "orders db' = orders db" "order_items db' = order_items db"
    "carts db' = carts db" "cart_items db' = cart_items db"
  shows "books_ok db' = books_ok db"
  using balanced_cong [OF assms(1-3)] balanced_cong [of db db'] totals_ok_cong [OF assms(2,3)] cart_ok_cong [OF assms(4,5)]
    inventory_ok_cong [OF assms(1)] assms(1-3)
  by (auto simp: books_ok_def balanced_def)

lemma books_ignore [simp]:
  "books_ok (db\<lparr>idempotency_keys := k\<rparr>) = books_ok db" "books_ok (p\<lparr>payments := ps\<rparr>) = books_ok p"
  by (rule books_ok_cong; simp)+

lemma balanced_checkout:
  assumes b: "books_ok db" and f: "get_order_by_id (k_order k) db = None" "fresh_cart (k_cart k) db"
  shows "balanced (snd (checkout u k key h addr db))"
  unfolding checkout_def
proof (rule guarded_invariant [where I = balanced])
  show "balanced db" by (rule books_balanced [OF b])
  fix x r s' assume "checkout_action u k addr (db\<lparr>idempotency_keys := x\<rparr>) = Inr (r, s')"
  then obtain ord where c: "checkout_service k (u_id u) addr (db\<lparr>idempotency_keys := x\<rparr>) = Inr (ord, s')"
    by (auto simp: checkout_action_def bindE_eq_Inr)
  have "book_step round_half_away (db\<lparr>idempotency_keys := x\<rparr>) s'"
    using book_checkout [OF _ _ c] f by (simp add: get_order_by_id_def fresh_cart_def)
  from books_balanced [OF books_step [OF this]] b show "balanced s'" by simp
qed simp

lemma balanced_cancel:
  assumes b: "books_ok db" and p: "\<not> at_order oid OrdPaid db"
  shows "balanced (snd (cancel_order u now oid db))"
  unfolding cancel_order_def
proof (rule request_invariant [where I = balanced])
  show "balanced db" by (rule books_balanced [OF b])
  fix r s' assume "bindE (cancel now oid u db) (\<lambda>(ord, db1). flush_orders (serialize_order ord db1) db1) = Inr (r, s')"
  then obtain ord where c: "cancel now oid u db = Inr (ord, s')" by (auto simp: bindE_eq_Inr flush_orders_def split: if_splits)
  then obtain o1 where o: "get_order_by_id oid db = Some o1" by (auto simp: cancel_def bindE_eq_Inr)
  with p have "o_status o1 \<noteq> OrdPaid" by (simp add: at_order_def)
  from books_balanced [OF books_step [OF book_cancel [OF o this c] b]] show "balanced s'" .
qed

lemma balanced_callback:
  assumes b: "books_ok db" and u: "unique_by pay_id (payments db)"
  shows "balanced (snd (payment_callback verify now a status db))"
  unfolding payment_callback_def
proof (rule request_invariant [where I = balanced])
  show bal: "balanced db" by (rule books_balanced [OF b])
  fix r s' assume "bindE (handle_callback verify now a status db) (\<lambda>(p, db1).
       flush_payments (if pay_status p = PayVerified then RedirectPaid (pay_order_id p)
                       else RedirectFailed (pay_order_id p)) db1) = Inr (r, s')"
  then obtain p where c: "handle_callback verify now a status db = Inr (p, s')"
    by (auto simp: bindE_eq_Inr flush_payments_def split: if_splits)
  from c u show "balanced s'"
  proof (cases rule: handle_callback_cases)
    case (failed q x ord)
    from books_balanced [OF books_step [OF book_failed [OF failed(5)]]] b failed(4) show ?thesis by simp
  next
    case (verified q x ord result)
    from books_balanced [OF books_step [OF book_paid [OF verified(8)]]] b verified(7) show ?thesis by simp
  qed (use bal in simp)
qed

lemma balanced_init_payment:
  assumes b: "balanced db" and f: "find_by pay_id (pf_payment f) (payments db) = None"
  shows "balanced (snd (init_payment cfg post f u key h oid db))"
  unfolding init_payment_def
proof (rule guarded_invariant [where I = balanced, OF b])
  fix x r s' assume "init_payment_action cfg post f u oid (db\<lparr>idempotency_keys := x\<rparr>) = Inr (r, s')"
  then obtain p url where s: "init_payment_service cfg post f u oid (db\<lparr>idempotency_keys := x\<rparr>) = Inr ((p, url), s')"
    by (auto simp: init_payment_action_def bindE_eq_Inr flush_payments_def split: if_splits)
  then have "s' = (db\<lparr>idempotency_keys := x\<rparr>)\<lparr>payments := payments db @ [p]\<rparr>" using f by (auto elim: init_service_cases)
  then show "balanced s'" using balanced_cong [of s' db] b by simp
qed simp

lemma balanced_status_change:
  assumes b: "books_ok db" and p: "\<not> at_order oid OrdAwaitingPayment db" "s \<noteq> OrdAwaitingPayment"
  shows "balanced (snd (update_order_status num u fresh oid s nt db))"
  unfolding update_order_status_def
proof (rule request_invariant [where I = balanced])
  show "balanced db" by (rule books_balanced [OF b])
  fix r db' assume "bindE (require_permission ''order.manage'' u) (\<lambda>_.
     bindE (validated (case nt of None \<Rightarrow> True | Some n \<Rightarrow> text_length n \<le> 500)) (\<lambda>_.
     bindE (admin_update_status (f_now fresh) oid s nt (u_id u) db) (\<lambda>(ord, db1).
     bindE (if o_status ord = OrdRefunded
            then map_sum id snd (refund_order num fresh (o_user_id ord) (of_int (o_total ord)) (o_id ord) (u_id u) db1)
            else Inr db1) (\<lambda>db2. flush_orders (serialize_order ord db2) db2)))) = Inr (r, db')"
  then obtain ord db1 where a: "admin_update_status (f_now fresh) oid s nt (u_id u) db = Inr (ord, db1)"
      and rf: "(if o_status ord = OrdRefunded
            then map_sum id snd (refund_order num fresh (o_user_id ord) (of_int (o_total ord)) (o_id ord) (u_id u) db1)
            else Inr db1) = Inr db'"
    by (auto simp: bindE_eq_Inr flush_orders_def split: if_splits)
  from a obtain o1 where o: "get_order_by_id oid db = Some o1" by (auto simp: admin_update_status_def bindE_eq_Inr)
  with p(1) have "o_status o1 \<noteq> OrdAwaitingPayment" by (simp add: at_order_def)
  note b1 = books_balanced [OF books_step [OF book_admin [OF o this p(2) a] b]]
  show "balanced db'"
  proof (cases "o_status ord = OrdRefunded")
    case True
    with rf obtain v where v: "apply_transaction num fresh (o_user_id ord) Refund (of_int (o_total ord)) (Some ''order'')
        (Some (o_id ord)) (Some RefundNote) (Some (u_id u)) db1 = Inr (v, db')"
      by (cases "refund_order num fresh (o_user_id ord) (of_int (o_total ord)) (o_id ord) (u_id u) db1")
         (auto simp: refund_order_def)
    have "inventories db' = inventories db1"
      using v by (cases rule: apply_transaction_cases;
        cases rule: get_or_create_wallet_cases [of "o_user_id ord" db1 "f_wallet fresh"]; auto)
    with balanced_cong [of db' db1] apply_transaction_orders(1,3) [OF v] b1 show ?thesis by simp
  next
    case False
    with rf b1 show ?thesis by simp
  qed
qed

section \<open>The interface\<close>

text \<open>The requests that keep the books. A new product's identifier is new to the order lines too.\<close>

fun orderly :: "shop_request \<Rightarrow> 'a accounts_db_scheme \<Rightarrow> bool" where
  "orderly (Customer_Request now token header (Cancel_My_Order now' i)) db = (\<not> at_order i OrdPaid db)"
| "orderly (Admin_Request now token header (Update_Order_Status k i st note)) db =
     (\<not> at_order i OrdAwaitingPayment db \<and> st \<noteq> OrdAwaitingPayment)"
| "orderly (Admin_Request now token header (Create_Product i now' data)) db = never_ordered i db"
| "orderly _ db = True"

lemma cart_balanced:
  fixes db :: "'a accounts_db_scheme"
  assumes "balanced db"
  shows "balanced (snd (add_cart_item u i key h now pid q db))" "balanced (snd (update_cart_item u i pid q db))"
    "balanced (remove_cart_item u i pid db)" "balanced (clear_cart u i db)"
  by (rule balanced_cart [OF assms]; simp add: frames remove_cart_item_def clear_cart_def cart_services_rest)+

lemma wallet_balanced:
  fixes db :: "'a accounts_db_scheme"
  assumes "balanced db"
  shows "balanced (snd (get_my_wallet u k db))" "balanced (snd (list_my_wallet_transactions u k ps db))"
    "balanced (snd (admin_get_wallet u k uid db))" "balanced (snd (deposit_to_wallet num u k key h amount db))"
    "balanced (snd (admin_credit_wallet num u k key h uid amount reason db))"
    "balanced (snd (admin_debit_wallet num u k key h uid amount reason db))"
  by (rule balanced_wallet [OF assms], rule frames)+

lemma catalog_balanced:
  fixes db :: "'a accounts_db_scheme"
  assumes "balanced db"
  shows "balanced (snd (get_category_tree coll db))" "balanced (snd (get_product slug db))"
    "balanced (snd (featured_products db))" "balanced (snd (popular_products db))"
    "balanced (snd (create_category u nid cc db))" "balanced (snd (update_category u cid cu db))"
    "balanced (snd (move_category coll u cid np db))" "balanced (snd (delete_category u cid db))"
    "balanced (snd (update_product num u now pid pu db))" "balanced (snd (archive_product u now pid db))"
  by (rule balanced_same_stock [OF assms], rule frames,
      rule catalog_reads_stock catalog_routes_stock update_product_stock)+

lemma ticket_balanced:
  fixes db :: "'a accounts_db_scheme"
  assumes "balanced db"
  shows "balanced (snd (create_ticket u k data db))" "balanced (snd (reply_to_ticket u k tid m db))"
    "balanced (snd (admin_reply_to_ticket u k tid m db))" "balanced (snd (admin_change_ticket_status u k tid st db))"
    "balanced (snd (auto_close_one k tid db))" "balanced (snd (update_user u now uid ud db))"
  by (rule balanced_rest [OF assms], rule frames)+

lemma account_balanced:
  fixes db :: "'a accounts_db_scheme"
  assumes "balanced db"
  shows "balanced (snd (register env k d db))" "balanced (snd (login env k email pw db))"
    "balanced (snd (refresh env k token db))" "balanced (snd (logout env now token db))"
    "balanced (snd (change_password env k u cur new db))" "balanced (snd (request_password_reset env k email db))"
    "balanced (snd (confirm_password_reset env k t new db))" "balanced (snd (confirm_email_verification env now t db))"
    "balanced (snd (google_login enc cfg g db))" "balanced (snd (google_link_start enc cfg g u db))"
    "balanced (snd (google_callback env cfg post get k code st db))"
  by (rule balanced_rest [OF assms before_accounts(1)], rule frames)+

lemma public_balanced:
  assumes inv: "shop_inv coll db" and b: "balanced db"
  shows "balanced (snd (public_routes env d call db))"
proof -
  have u: "unique_by pay_id (payments db)" using inv by (simp add: shop_inv_def sales_inv_def payments_ok_def)
  show ?thesis
  proof (cases call)
    case (Gateway_Callback post now a st)
    then show ?thesis by (simp add: balanced_callback [OF shop_books [OF inv b] u])
  qed (simp_all add: b catalog_balanced account_balanced)
qed

lemma customer_balanced:
  assumes inv: "shop_inv coll db" and b: "balanced db" and f: "fresh_customer call db"
    and o: "orderly (Customer_Request now token header call) db"
  shows "balanced (snd (customer_routes env d u call db))"
proof (cases call)
  case (Check_Out k key h addr)
  with f show ?thesis by (simp add: balanced_checkout [OF shop_books [OF inv b]])
next
  case (Cancel_My_Order now' i)
  with o show ?thesis by (simp add: balanced_cancel [OF shop_books [OF inv b]])
next
  case (Pay cfg post g key h i)
  with f show ?thesis by (simp add: balanced_init_payment [OF b])
qed (simp_all add: b cart_balanced wallet_balanced ticket_balanced account_balanced)

lemma admin_balanced:
  assumes inv: "shop_inv coll db" and b: "balanced db"
    and o: "orderly (Admin_Request now token header call) db"
  shows "balanced (snd (admin_routes d u call db))"
proof (cases call)
  case (Create_Product i now' data)
  with o show ?thesis by (simp add: balanced_create_product [OF b])
next
  case (Update_Order_Status k i st nt)
  with o show ?thesis by (simp add: balanced_status_change [OF shop_books [OF inv b]])
qed (simp_all add: b catalog_balanced balanced_stock_routes wallet_balanced ticket_balanced)

lemma request_balanced:
  assumes "shop_inv coll db" "balanced db" "fresh_request r db" "orderly r db"
  shows "balanced (snd (serve_shop env d r db))"
proof (cases r)
  case (Public_Request call)
  with public_balanced [OF assms(1,2)] show ?thesis by simp
next
  case (Customer_Request now token header call)
  with customer_balanced [OF assms(1,2)] assms(2-4) show ?thesis by (simp add: serve_customer_def split: sum.split)
next
  case (Admin_Request now token header call)
  with admin_balanced [OF assms(1,2)] assms(2-4) show ?thesis by (simp add: serve_admin_def split: sum.split)
qed

inductive orderly_step :: "auth_env \<Rightarrow> database_env \<Rightarrow> 'a accounts_db_scheme \<Rightarrow> 'a accounts_db_scheme \<Rightarrow> bool" for env d where
  orderly_request: "fresh_request r db \<Longrightarrow> orderly r db \<Longrightarrow> orderly_step env d db (snd (serve_shop env d r db))"
| orderly_job: "orderly_step env d db (snd (auto_close_one k tid db))"
| orderly_expiry: "c \<subseteq>\<^sub>m redis db \<Longrightarrow> os \<subseteq>\<^sub>m oauth_sessions db \<Longrightarrow>
     orderly_step env d db (db\<lparr>redis := c, oauth_sessions := os\<rparr>)"

lemma orderly_is_step: "orderly_step env d db db' \<Longrightarrow> shop_step env d db db'"
  by (induction rule: orderly_step.induct) (auto intro: shop_step.intros)

lemma orderly_step_balanced: "orderly_step env d db db' \<Longrightarrow> shop_inv coll db \<Longrightarrow> balanced db \<Longrightarrow> balanced db'"
proof (induction rule: orderly_step.induct)
  case (orderly_request r db)
  then show ?case by (intro request_balanced)
next
  case (orderly_job db k tid)
  then show ?case by (simp add: ticket_balanced)
next
  case (orderly_expiry c db os)
  then show ?case by (auto intro: balanced_cong [of "db\<lparr>redis := c, oauth_sessions := os\<rparr>" db])
qed

lemma orderly_steps_keep:
  assumes num: "numeric_column (de_num d)" and steps: "(orderly_step env d)\<^sup>*\<^sup>* db db'"
    and inv: "shop_inv (de_coll d) db" "balanced db"
  shows "shop_inv (de_coll d) db' \<and> balanced db'"
  using steps inv
proof (induction rule: rtranclp_induct)
  case (step y z)
  then show ?case using shop_step_keeps [OF num orderly_is_step] orderly_step_balanced by metis
qed simp

end
