(* ===== verification/Report_Facts.thy ===== *)
theory Report_Facts
  imports Reports
begin

text \<open>
  The figures of the dashboard are accounts of the tables: every order of a range is in exactly
  one slice, the daily series adds up to the orders of its window, and the revenue by category
  adds up to the sales of the report when every sold line still has its product.
\<close>

section \<open>Groups\<close>

lemma sum_of_groups:
  assumes "finite K" "key ` set rows \<subseteq> K"
  shows "(\<Sum>k \<in> K. sum_list (map f (filter (\<lambda>r. key r = k) rows))) = (sum_list (map f rows) :: int)"
  using assms(2)
proof (induction rows)
  case (Cons r rows)
  have "(\<Sum>k \<in> K. sum_list (map f (filter (\<lambda>x. key x = k) (r # rows)))) =
      (\<Sum>k \<in> K. (if key r = k then f r else 0) + sum_list (map f (filter (\<lambda>x. key x = k) rows)))"
    by (rule sum.cong) simp_all
  also have "\<dots> = f r + sum_list (map f rows)"
    using Cons assms(1) by (simp add: sum.distrib sum.delta)
  finally show ?case by simp
qed simp

lemma sum_remdups: "sum_list (map g (remdups ks)) = (\<Sum>k \<in> set ks. (g k :: int))"
  by (subst sum_list_distinct_conv_sum_set) simp_all

lemma grouped_total:
  "sum_list (map snd (grouped key (\<lambda>rs. sum_list (map f rs)) rows)) = (sum_list (map f rows) :: int)"
proof -
  have "sum_list (map snd (grouped key (\<lambda>rs. sum_list (map f rs)) rows)) =
      (\<Sum>k \<in> set (map key rows). sum_list (map f (filter (\<lambda>r. key r = k) rows)))"
    unfolding grouped_def map_map comp_def snd_conv by (rule sum_remdups)
  also have "\<dots> = sum_list (map f rows)" by (rule sum_of_groups) simp_all
  finally show ?thesis .
qed

lemma int_length_sum: "int (length xs) = sum_list (map (\<lambda>_. 1) xs)"
  by (induction xs) simp_all

lemma group_count_total: "sum_list (map snd (group_count key rows)) = int (length rows)"
  unfolding group_count_def int_length_sum by (rule grouped_total)

lemma slices_total: "sum_list (map snd (slices lb groups)) = sum_list (map snd groups)"
  by (simp add: slices_def comp_def case_prod_beta)

lemma group_count_mem: "(k, n) \<in> set (group_count key rows) \<longleftrightarrow> k \<in> key ` set rows \<and> n = int (length (filter (\<lambda>r. key r = k) rows))"
  by (auto simp: group_count_def grouped_def)

section \<open>Daily series\<close>

lemma map_of_graph: "map_of (map (\<lambda>k. (k, g k)) ks) k = (if k \<in> set ks then Some (g k) else None)"
  by (induction ks) auto

lemma map_of_grouped:
  "map_of (grouped key agg rows) k = (if k \<in> key ` set rows then Some (agg (filter (\<lambda>r. key r = k) rows)) else None)"
  unfolding grouped_def by (simp add: map_of_graph)

lemma daily_value_grouped:
  assumes "agg [] = 0" shows "daily_value (grouped key agg rows) k = agg (filter (\<lambda>r. key r = k) rows)"
proof (cases "k \<in> key ` set rows")
  case False
  then have "filter (\<lambda>r. key r = k) rows = []" by (auto simp: filter_empty_conv)
  with False show ?thesis by (simp add: daily_value_def map_of_grouped assms)
qed (simp add: daily_value_def map_of_grouped)

lemma series_total:
  assumes n: "0 \<le> n" and rows: "\<And>r. r \<in> set rows \<Longrightarrow> today - n < key r"
  shows "sum_list (map snd (fill_daily_series (grouped key (\<lambda>rs. sum_list (map f rs)) rows) n today)) =
    sum_list (map f (filter (\<lambda>r. key r \<le> today) rows))"
proof -
  let ?g = "\<lambda>k. sum_list (map f (filter (\<lambda>r. key r = k) rows))"
  have "sum_list (map snd (fill_daily_series (grouped key (\<lambda>rs. sum_list (map f rs)) rows) n today)) =
      sum_list (map (\<lambda>i. ?g (today - (n - 1) + int i)) [0..<nat n])"
    by (simp add: fill_daily_series_def Let_def comp_def daily_value_grouped)
  also have "\<dots> = (\<Sum>i \<in> {0..<nat n}. ?g (today - (n - 1) + int i))"
    by (simp add: interv_sum_list_conv_sum_set_nat)
  also have "\<dots> = (\<Sum>k \<in> {today - n + 1..today}. ?g k)"
  proof (rule sum.reindex_bij_witness [where i = "\<lambda>k. nat (k - (today - (n - 1)))" and j = "\<lambda>i. today - (n - 1) + int i"])
  qed (use n in auto)
  also have "\<dots> = (\<Sum>k \<in> {today - n + 1..today}. sum_list (map f (filter (\<lambda>r. key r = k) (filter (\<lambda>r. key r \<le> today) rows))))"
    by (intro sum.cong refl arg_cong [where f = sum_list] arg_cong [where f = "map f"]) (auto intro: filter_cong)
  also have "\<dots> = sum_list (map f (filter (\<lambda>r. key r \<le> today) rows))"
    by (rule sum_of_groups) (use rows in \<open>auto simp: image_iff\<close>, force)
  finally show ?thesis .
qed

section \<open>Revenue by category\<close>

lemma concat_one:
  assumes "unique_by key t"
  shows "concat (map (\<lambda>r. if key r = k then g r else []) t) = (case find_by key k t of None \<Rightarrow> [] | Some r \<Rightarrow> g r)"
  using assms
proof (induction t)
  case (Cons a t)
  then have u: "unique_by key t" and a: "key a \<notin> key ` set t" by (simp_all add: unique_by_def)
  show ?case
  proof (cases "key a = k")
    case True
    with a have "find_by key k t = None" by (simp add: find_by_None)
    with True Cons.IH [OF u] show ?thesis by simp
  next
    case False
    with Cons.IH [OF u] show ?thesis by simp
  qed
qed simp

lemma sold_lines_eq:
  assumes "unique_by o_id (orders db)" "unique_by p_id (products db)" "unique_by cat_id (categories db)"
  shows "sold_lines P db = concat (map (\<lambda>i.
    case find_by o_id (oi_order_id i) (orders db) of None \<Rightarrow> []
    | Some r \<Rightarrow> if P r then
        (case oi_product_id i of None \<Rightarrow> []
         | Some x \<Rightarrow> (case find_by p_id x (products db) of None \<Rightarrow> []
             | Some p \<Rightarrow> (case find_by cat_id (p_category_id p) (categories db) of None \<Rightarrow> [] | Some c \<Rightarrow> [(c, i)])))
        else []) (order_items db))"
proof -
  have c: "concat (map (\<lambda>c. if cat_id c = x then [(c, i)] else []) (categories db)) =
      (case find_by cat_id x (categories db) of None \<Rightarrow> [] | Some c \<Rightarrow> [(c, i)])" for x and i :: order_item
    by (rule concat_one [OF assms(3)])
  have p: "concat (map (\<lambda>p. if oi_product_id i = Some (p_id p) then g p else []) (products db)) =
      (case oi_product_id i of None \<Rightarrow> [] | Some x \<Rightarrow> (case find_by p_id x (products db) of None \<Rightarrow> [] | Some p \<Rightarrow> g p))"
    for i :: order_item and g :: "product \<Rightarrow> (category \<times> order_item) list"
    using concat_one [OF assms(2), of _ g] by (cases "oi_product_id i") (simp_all add: eq_commute [of _ "p_id _"])
  show ?thesis
    unfolding sold_lines_def c p concat_one [OF assms(1)] by (rule refl)
qed

text \<open>Every sold line still has its product and the product its category.\<close>

definition lines_known :: "(order \<Rightarrow> bool) \<Rightarrow> 'a accounts_db_scheme \<Rightarrow> bool" where
  "lines_known P db \<longleftrightarrow> unique_by p_id (products db) \<and> unique_by cat_id (categories db)
     \<and> (\<forall>p \<in> set (products db). p_category_id p \<in> cat_id ` set (categories db))
     \<and> (\<forall>r \<in> set (orders db). P r \<longrightarrow> (\<forall>i \<in> set (items_of_order (o_id r) db).
          oi_product_id i \<in> Some ` p_id ` set (products db)))"

lemma sum_concat: "sum_list (map f (concat xss)) = (sum_list (map (\<lambda>xs. sum_list (map f xs)) xss) :: int)"
  by (induction xss) simp_all

lemma items_of_orders:
  assumes "unique_by o_id rs"
  shows "sum_list (map (\<lambda>i. case find_by o_id (oi_order_id i) rs of None \<Rightarrow> 0 | Some r \<Rightarrow> if P r then f i else 0) is) =
    (sum_list (map (\<lambda>r. sum_list (map f (filter (\<lambda>i. oi_order_id i = o_id r) is))) (filter P rs)) :: int)"
  using assms
proof (induction rs)
  case Nil
  then show ?case by (induction "is") simp_all
next
  case (Cons r rs)
  then have u: "unique_by o_id rs" and a: "o_id r \<notin> o_id ` set rs" by (simp_all add: unique_by_def)
  have "sum_list (map (\<lambda>i. case find_by o_id (oi_order_id i) (r # rs) of None \<Rightarrow> 0 | Some r \<Rightarrow> if P r then f i else 0) is) =
      (if P r then sum_list (map f (filter (\<lambda>i. oi_order_id i = o_id r) is)) else 0)
      + sum_list (map (\<lambda>i. case find_by o_id (oi_order_id i) rs of None \<Rightarrow> 0 | Some r \<Rightarrow> if P r then f i else 0) is)"
  proof (induction "is")
    case (Cons i "is")
    have "find_by o_id (o_id r) rs = None" using a by (simp add: find_by_None)
    with Cons show ?case by (cases "oi_order_id i = o_id r") (auto split: option.splits)
  qed simp
  with Cons.IH [OF u] show ?case by simp
qed

lemma category_revenue:
  assumes t: "totals_ok db" and k: "lines_known P db"
  shows "sum_list (map (oi_subtotal \<circ> snd) (sold_lines P db)) = sum_where P o_total (orders db)"
proof -
  have u: "unique_by o_id (orders db)" "unique_by p_id (products db)" "unique_by cat_id (categories db)"
    using t k by (simp_all add: totals_ok_def lines_known_def)
  have one: "sum_list (map (oi_subtotal \<circ> snd)
      (case find_by o_id (oi_order_id i) (orders db) of None \<Rightarrow> []
        | Some r \<Rightarrow> if P r then
            (case oi_product_id i of None \<Rightarrow> []
             | Some x \<Rightarrow> (case find_by p_id x (products db) of None \<Rightarrow> []
                 | Some p \<Rightarrow> (case find_by cat_id (p_category_id p) (categories db) of None \<Rightarrow> [] | Some c \<Rightarrow> [(c, i)])))
            else [])) =
      (case find_by o_id (oi_order_id i) (orders db) of None \<Rightarrow> 0 | Some r \<Rightarrow> if P r then oi_subtotal i else 0)"
    if i: "i \<in> set (order_items db)" for i
  proof (cases "find_by o_id (oi_order_id i) (orders db)")
    case (Some r)
    show ?thesis
    proof (cases "P r")
      case True
      have r: "r \<in> set (orders db)" "o_id r = oi_order_id i" using find_by_SomeD [OF Some] by simp_all
      with i have "i \<in> set (items_of_order (o_id r) db)" by (simp add: items_of_order_def)
      with k True r(1) obtain p where p: "p \<in> set (products db)" "oi_product_id i = Some (p_id p)"
        unfolding lines_known_def by blast
      from k p(1) obtain c where c: "c \<in> set (categories db)" "cat_id c = p_category_id p"
        unfolding lines_known_def by (metis imageE)
      have "find_by p_id (p_id p) (products db) = Some p" "find_by cat_id (p_category_id p) (categories db) = Some c"
        using find_by_unique [OF u(2) p(1)] find_by_unique [OF u(3) c(1)] c(2) by simp_all
      with Some True p(2) show ?thesis by simp
    qed (simp add: Some)
  qed simp
  have "sum_list (map (oi_subtotal \<circ> snd) (sold_lines P db)) =
      sum_list (map (\<lambda>i. case find_by o_id (oi_order_id i) (orders db) of None \<Rightarrow> 0
        | Some r \<Rightarrow> if P r then oi_subtotal i else 0) (order_items db))"
    unfolding sold_lines_eq [OF u] sum_concat map_map
    by (intro arg_cong [where f = sum_list] map_cong refl) (simp only: comp_def one [unfolded comp_def])
  also have "\<dots> = sum_list (map (\<lambda>r. sum_list (map oi_subtotal (items_of_order (o_id r) db))) (filter P (orders db)))"
    unfolding items_of_order_def by (rule items_of_orders [OF u(1)])
  also have "\<dots> = sum_where P o_total (orders db)"
    unfolding sum_where_def using t by (intro arg_cong [where f = sum_list] map_cong) (auto simp: totals_ok_def)
  finally show ?thesis .
qed

lemma grouped_pairs: "sum_list (map (snd \<circ> snd) (grouped key (\<lambda>rs. (h rs, sum_list (map f rs))) rows)) = (sum_list (map f rows) :: int)"
  using grouped_total [of key f rows] by (simp add: grouped_def comp_def)

section \<open>The figures of a report\<close>

lemma order_label_completed:
  "order_label st \<in> {''paid'', ''processing'', ''shipped'', ''completed''} \<longleftrightarrow> st \<in> set COMPLETED_ORDER_STATUSES"
  by (cases st) (simp_all add: COMPLETED_ORDER_STATUSES_def)

lemma filter_graph: "filter (P \<circ> fst) (map (\<lambda>k. (k, g k)) ks) = map (\<lambda>k. (k, g k)) (filter P ks)"
  by (induction ks) simp_all

lemma filter_grouped: "filter (P \<circ> fst) (grouped key agg rows) = grouped key agg (filter (P \<circ> key) rows)"
proof -
  have "filter P (remdups (map key rows)) = remdups (map key (filter (P \<circ> key) rows))"
    by (simp only: remdups_filter [symmetric] filter_map)
  moreover have "map (\<lambda>k. (k, agg (filter (\<lambda>r. key r = k) rows))) (remdups (map key (filter (P \<circ> key) rows))) =
      map (\<lambda>k. (k, agg (filter (\<lambda>r. key r = k) (filter (P \<circ> key) rows)))) (remdups (map key (filter (P \<circ> key) rows)))"
    by (intro map_cong refl) (auto intro!: arg_cong [where f = agg] filter_cong)
  ultimately show ?thesis unfolding grouped_def filter_graph by simp
qed

lemma completed_slices:
  "sum_list (map snd (filter (\<lambda>(l, n). l \<in> {''paid'', ''processing'', ''shipped'', ''completed''})
      (slices order_label (group_count o_status rows)))) = count_where completed_order rows"
proof -
  have "filter (\<lambda>(l, n). l \<in> {''paid'', ''processing'', ''shipped'', ''completed''}) (slices order_label groups) =
      slices order_label (filter ((\<lambda>st. st \<in> set COMPLETED_ORDER_STATUSES) \<circ> fst) groups)" for groups
    unfolding slices_def filter_map
    by (intro arg_cong [where f = "map _"] filter_cong refl) (simp only: comp_def case_prod_beta fst_conv order_label_completed)
  moreover have "filter ((\<lambda>st. st \<in> set COMPLETED_ORDER_STATUSES) \<circ> fst) (group_count o_status rows) =
      group_count o_status (filter completed_order rows)"
    unfolding group_count_def filter_grouped by (simp add: comp_def completed_order_def [abs_def])
  ultimately show ?thesis by (simp only: slices_total group_count_total count_where_def)
qed

text \<open>The daily orders of the dashboard are the orders of its window, up to today.\<close>

lemma date_of_start: "day_start d \<le> t \<longleftrightarrow> d \<le> date_of t"
proof
  have d: "0 < days 1" "day_start d = d * days 1" by (simp_all add: day_start_def days_def hours_def seconds_def)
  show "d \<le> date_of t" if "day_start d \<le> t"
    using zdiv_mono1 [OF that d(1)] d by (simp add: date_of_def)
  show "day_start d \<le> t" if "d \<le> date_of t"
  proof -
    have "d * days 1 \<le> t div days 1 * days 1" using that d(1) by (simp add: date_of_def)
    also have "\<dots> \<le> t" using d(1) by (simp add: minus_mod_eq_div_mult [symmetric])
    finally show ?thesis by (simp add: d(2))
  qed
qed

lemma orders_per_day_total:
  assumes "0 \<le> n"
  shows "sum_list (map snd (dc_orders_per_day (get_dashboard_charts now n db))) =
    count_where (\<lambda>r. day_start (date_of now - (n - 1)) \<le> o_created_at r \<and> date_of (o_created_at r) \<le> date_of now) (orders db)"
proof -
  let ?recent = "filter (\<lambda>r. day_start (date_of now - (n - 1)) \<le> o_created_at r) (orders db)"
  have w: "date_of now - n < date_of (o_created_at r)" if "r \<in> set ?recent" for r
    using that by (simp add: date_of_start)
  have "sum_list (map snd (dc_orders_per_day (get_dashboard_charts now n db))) =
      sum_list (map snd (fill_daily_series (group_count (\<lambda>r. date_of (o_created_at r)) ?recent) n (date_of now)))"
    by (simp add: get_dashboard_charts_def Let_def)
  also have "\<dots> = sum_list (map (\<lambda>_. 1) (filter (\<lambda>r. date_of (o_created_at r) \<le> date_of now) ?recent))"
    unfolding group_count_def int_length_sum by (rule series_total [OF assms w])
  also have "\<dots> = count_where (\<lambda>r. day_start (date_of now - (n - 1)) \<le> o_created_at r
      \<and> date_of (o_created_at r) \<le> date_of now) (orders db)"
    by (simp add: count_where_def int_length_sum conj_commute)
  finally show ?thesis .
qed

end
