(* ===== verification/Samples.thy ===== *)
theory Samples
  imports Payment_Facts Order_Effects
begin

text \<open>
  A small shop on which the properties are applied: two products of one category, a customer
  with a filled cart, the same shop after the checkout, with a payment open, after the payment,
  and with two customers' orders side by side; and the shop with a product in its cache.
\<close>

definition alice :: user where
  "alice = \<lparr> u_id = 1, u_email = ''a@x'', u_username = ''alice'', u_hashed_password = Some ''h'',
     u_first_name = ''A'', u_last_name = ''A'', u_avatar = None, u_role = Customer, u_is_active = True,
     u_is_verified = True, u_last_login = None, u_created_at = 0 \<rparr>"

definition root_user :: user where
  "root_user = alice\<lparr>u_id := 9, u_email := ''r@x'', u_username := ''root'', u_role := SuperAdmin\<rparr>"

definition lamp :: product where
  "lamp = \<lparr> p_id = 20, p_sku = ''L1'', p_name = ''Lamp'', p_slug = ''lamp'', p_short_description = '''',
     p_description = '''', p_price = 100, p_discount_price = None, p_brand = ''B'', p_category_id = 10,
     p_images = Some [], p_specifications = Some [], p_is_active = True, p_is_featured = False,
     p_is_popular = False, p_created_at = 0, p_updated_at = 0 \<rparr>"

definition wire :: product where
  "wire = lamp\<lparr>p_id := 21, p_sku := ''W1'', p_name := ''Wire'', p_slug := ''wire'', p_price := 50,
     p_discount_price := Some 40\<rparr>"

definition lighting :: category where
  "lighting = \<lparr> cat_id = 10, cat_parent_id = None, cat_name = ''Lighting'', cat_slug = ''lighting'',
     cat_is_active = True, cat_sort_order = 0 \<rparr>"

definition shop :: payments_db where
  "shop = \<lparr>
     inventories = [\<lparr>inv_product_id = 20, stock_total = 10, stock_reserved = 0\<rparr>,
                    \<lparr>inv_product_id = 21, stock_total = 5, stock_reserved = 0\<rparr>],
     inventory_log = [], categories = [lighting], products = [lamp, wire], redis = Map.empty,
     idempotency_keys = [], carts = [\<lparr>cart_id = 30, cart_user_id = 1\<rparr>],
     cart_items = [\<lparr>ci_cart_id = 30, ci_product_id = 20, ci_quantity = 2\<rparr>,
                   \<lparr>ci_cart_id = 30, ci_product_id = 21, ci_quantity = 1\<rparr>],
     wallets = [], wallet_transactions = [], orders = [], order_items = [], order_history = [],
     payments = [] \<rparr>"

definition shop_fresh :: checkout_fresh where
  "shop_fresh = \<lparr>k_cart = 31, k_order = 40, k_now = 5\<rparr>"

definition alices_order :: order where
  "alices_order = \<lparr> o_id = 40, o_user_id = 1, o_status = OrdAwaitingPayment, o_subtotal = 240, o_total = 240,
     o_shipping_address = None, o_cancelled_at = None, o_created_at = 5 \<rparr>"

definition alices_items :: "order_item list" where
  "alices_items =
     [\<lparr> oi_order_id = 40, oi_product_id = Some 20, oi_product_name_snapshot = ''Lamp'', oi_sku_snapshot = ''L1'',
        oi_unit_price_snapshot = 100, oi_quantity = 2, oi_subtotal = 200 \<rparr>,
      \<lparr> oi_order_id = 40, oi_product_id = Some 21, oi_product_name_snapshot = ''Wire'', oi_sku_snapshot = ''W1'',
        oi_unit_price_snapshot = 40, oi_quantity = 1, oi_subtotal = 40 \<rparr>]"

definition opened :: order_status_history where
  "opened = \<lparr>oh_order_id = 40, oh_from_status = Some OrdPending, oh_to_status = OrdAwaitingPayment,
     oh_actor_id = Some 1, oh_note = None, oh_created_at = 5\<rparr>"

definition shop_awaiting :: payments_db where
  "shop_awaiting = shop\<lparr>
     inventories := [\<lparr>inv_product_id = 20, stock_total = 10, stock_reserved = 2\<rparr>,
                     \<lparr>inv_product_id = 21, stock_total = 5, stock_reserved = 1\<rparr>],
     inventory_log := [\<lparr> ih_product_id = 20, ih_change_type = CtReserve, ih_quantity = 2,
          ih_reference_type = Some ''order'', ih_reference_id = Some 40, ih_actor_id = Some 1 \<rparr>,
        \<lparr> ih_product_id = 21, ih_change_type = CtReserve, ih_quantity = 1,
          ih_reference_type = Some ''order'', ih_reference_id = Some 40, ih_actor_id = Some 1 \<rparr>],
     cart_items := [], orders := [alices_order], order_items := alices_items, order_history := [opened] \<rparr>"

definition shop_payment :: payment where
  "shop_payment = \<lparr> pay_id = 50, pay_order_id = 40, pay_user_id = 1, pay_gateway = ''zarinpal'',
     pay_authority = Some ''A1'', pay_amount = 240, pay_status = PayInitiated, pay_reference_id = None,
     pay_created_at = 6, pay_verified_at = None, pay_raw_gateway_response = None \<rparr>"

definition shop_paying :: payments_db where
  "shop_paying = shop_awaiting\<lparr>payments := [shop_payment]\<rparr>"

definition gateway_yes :: gateway_answer where
  "gateway_yes = \<lparr>ga_status_code = 200, ga_code = Some 100, ga_authority = None, ga_ref_id = Some ''R1''\<rparr>"

definition paid_payment :: payment where
  "paid_payment = shop_payment\<lparr>pay_status := PayVerified, pay_reference_id := Some ''R1'',
     pay_verified_at := Some 7, pay_raw_gateway_response := Some (GatewayResponse gateway_yes)\<rparr>"

definition paid_order :: order where
  "paid_order = alices_order\<lparr>o_status := OrdPaid\<rparr>"

definition paid_row :: order_status_history where
  "paid_row = \<lparr>oh_order_id = 40, oh_from_status = Some OrdAwaitingPayment, oh_to_status = OrdPaid,
     oh_actor_id = None, oh_note = Some PaidNote, oh_created_at = 7\<rparr>"

definition shop_paid :: payments_db where
  "shop_paid = shop_paying\<lparr>
     inventories := [\<lparr>inv_product_id = 20, stock_total = 8, stock_reserved = 0\<rparr>,
                     \<lparr>inv_product_id = 21, stock_total = 4, stock_reserved = 0\<rparr>],
     inventory_log := inventory_log shop_awaiting @
       [\<lparr> ih_product_id = 20, ih_change_type = CtPurchase, ih_quantity = 2,
          ih_reference_type = Some ''order'', ih_reference_id = Some 40, ih_actor_id = None \<rparr>,
        \<lparr> ih_product_id = 21, ih_change_type = CtPurchase, ih_quantity = 1,
          ih_reference_type = Some ''order'', ih_reference_id = Some 40, ih_actor_id = None \<rparr>],
     orders := [paid_order], order_history := [opened, paid_row], payments := [paid_payment] \<rparr>"

text \<open>The paid order of Alice beside an order for three lamps that still awaits its payment.\<close>

definition bobs_order :: order where
  "bobs_order = alices_order\<lparr>o_id := 41, o_user_id := 2, o_subtotal := 300, o_total := 300\<rparr>"

definition shop_both :: payments_db where
  "shop_both = shop_paid\<lparr>
     inventories := [\<lparr>inv_product_id = 20, stock_total = 8, stock_reserved = 3\<rparr>,
                     \<lparr>inv_product_id = 21, stock_total = 4, stock_reserved = 0\<rparr>],
     orders := [paid_order, bobs_order],
     order_items := alices_items @ [(hd alices_items)\<lparr>oi_order_id := 41, oi_quantity := 3, oi_subtotal := 300\<rparr>],
     order_history := [opened, paid_row, opened\<lparr>oh_order_id := 41\<rparr>] \<rparr>"

lemmas sample_rows = alice_def root_user_def lamp_def wire_def lighting_def shop_fresh_def alices_order_def
  alices_items_def opened_def shop_payment_def gateway_yes_def paid_payment_def paid_order_def paid_row_def
  bobs_order_def

lemmas sample_states = shop_def shop_awaiting_def shop_paying_def shop_paid_def shop_both_def

section \<open>What the operations do there\<close>

lemmas stock_code = reserve_def release_def commit_purchase_def locked_inventory_def lock_for_update_def
  add_inventory_history_def put_inventory_def Let_def

lemmas shop_code = get_or_create_cart_def items_of_def checkout_service_def checkout_line_def get_product_by_id_def
  effective_unit_price_def transition_def set_status_def clear_items_def flush_orders_def orders_fit_def
  catalog_constraints_def numeric_fits_def int4_def each_item_def items_of_order_def get_order_by_id_def

lemmas books_code = books_ok_def totals_ok_def cart_ok_def inventory_ok_def reserved_matches_def awaiting_demand_def
  awaiting_def order_lines_def items_of_order_def stock_of_def inventory_row_ok_def unique_by_def map_filter_simps
  ci_key_def

lemma sample_checkout: "checkout_service shop_fresh 1 None shop = Inr (alices_order, shop_awaiting)"
  by (simp add: sample_states sample_rows shop_code stock_code inventory_row_ok_def)

lemma sample_paid: "mark_paid 7 40 shop_paying = Inr (paid_order, shop_paid\<lparr>payments := [shop_payment]\<rparr>)"
  by (simp add: mark_paid_def sample_states sample_rows shop_code stock_code)

lemma sample_callback: "handle_callback (\<lambda>amount a. gateway_yes) 7 ''A1'' ''OK'' shop_paying = Inr (paid_payment, shop_paid)"
  by (simp add: handle_callback_def try_claim_def get_by_authority_def set_payment_def verify_payment_def
      mark_paid_def sample_states sample_rows shop_code stock_code)

lemma sample_books:
  "books_ok shop" "books_ok shop_awaiting" "books_ok shop_paying" "books_ok shop_paid" "books_ok shop_both"
  by (simp_all add: books_code sample_states sample_rows)

lemma sample_cart: "get_or_create_cart 31 1 shop = (\<lparr>cart_id = 30, cart_user_id = 1\<rparr>, shop)"
  by (simp add: sample_states get_or_create_cart_def)

lemma sample_stock:
  "stock_of shop 20 = Some (10, 0)" "stock_of shop_awaiting 20 = Some (10, 2)" "stock_of shop_paying 20 = Some (10, 2)"
  "stock_of shop_paid 20 = Some (8, 0)" "stock_of shop_both 20 = Some (8, 3)" "stock_of shop 21 = Some (5, 0)"
  by (simp_all add: sample_states stock_of_def)

lemma sample_tables: "order_tables_ok shop" "order_tables_ok shop_awaiting"
  by (simp_all add: sample_states sample_rows unique_by_def order_tables_ok_def history_ok_def history_of_def refunds_ok_def
      refunds_of_def)

lemma sample_payments: "payments_ok shop_paying"
  by (simp add: unique_by_def payments_ok_def payment_matches_def sample_states sample_rows get_order_by_id_def)

lemma sample_catalog: "catalog_ok shop"
proof -
  have "child_rel (categories shop) = {}" by (auto simp: child_rel_def sample_states sample_rows)
  then have "forest_ok shop" by (simp add: forest_def acyclic_def sample_states sample_rows unique_by_def)
  then show ?thesis
    by (simp add: catalog_ok_def inventory_ok_def inventory_row_ok_def products_ok_def price_ok_def unique_by_def
        sample_states sample_rows)
qed

section \<open>A cached product\<close>

text \<open>The shop after somebody has read the lamp, and after a piece of it was then reserved: the
  cache still holds the view with the old figure.\<close>

definition lamp_view :: product_public where
  "lamp_view = \<lparr> pp_id = 20, pp_sku = ''L1'', pp_name = ''Lamp'', pp_slug = ''lamp'', pp_short_description = '''',
     pp_description = '''', pp_price = 100, pp_discount_price = None, pp_brand = ''B'', pp_category_id = 10,
     pp_images = [], pp_specifications = [], pp_is_active = True, pp_is_featured = False, pp_is_popular = False,
     pp_available_stock = 10 \<rparr>"

definition shop_read :: payments_db where
  "shop_read = shop\<lparr>redis := [product_cache_key ''lamp'' \<mapsto> CachedProduct lamp_view]\<rparr>"

definition shop_moved :: payments_db where
  "shop_moved = shop_read\<lparr>
     inventories := [\<lparr>inv_product_id = 20, stock_total = 10, stock_reserved = 1\<rparr>,
                     \<lparr>inv_product_id = 21, stock_total = 5, stock_reserved = 0\<rparr>],
     inventory_log := [\<lparr> ih_product_id = 20, ih_change_type = CtReserve, ih_quantity = 1,
          ih_reference_type = Some ''order'', ih_reference_id = Some 40, ih_actor_id = None \<rparr>] \<rparr>"

lemma sample_lamp_read: "get_product ''lamp'' shop = (Inr lamp_view, shop_read)"
  by (simp add: get_product_def cache_get_json_def cache_set_json_def sample_states sample_rows get_product_by_slug_def
      serialize_product_def available_stock_def lock_for_update_def shop_read_def lamp_view_def)

lemma sample_lamp_moved: "reserve 20 1 ''order'' 40 None shop_read = Inr shop_moved"
  by (simp add: stock_code sample_states shop_read_def shop_moved_def)

lemma sample_lamp_steps: "(catalog_step (\<lambda>s. 0) round_half_away)\<^sup>*\<^sup>* shop shop_moved"
proof -
  have "catalog_step (\<lambda>s. 0) round_half_away shop shop_read"
    using catalog_step.intros(11) [of "\<lambda>s. 0" round_half_away shop "''lamp''"] by (simp add: sample_lamp_read)
  moreover have "catalog_step (\<lambda>s. 0) round_half_away shop_read shop_moved"
    by (rule catalog_step.intros(14) [OF _ sample_lamp_moved]) simp
  ultimately show ?thesis by (rule converse_rtranclp_into_rtranclp [OF _ r_into_rtranclp])
qed

lemma sample_lamp_stale:
  "fst (get_product ''lamp'' shop_moved) = Inr lamp_view"
  "fst (get_product ''lamp'' (shop_moved\<lparr>redis := Map.empty\<rparr>)) = Inr (lamp_view\<lparr>pp_available_stock := 9\<rparr>)"
  by (simp_all add: get_product_def cache_get_json_def cache_set_json_def sample_states sample_rows get_product_by_slug_def
      serialize_product_def available_stock_def lock_for_update_def shop_read_def shop_moved_def lamp_view_def)

end
