(* ===== verification/Account_Samples.thy ===== *)
theory Account_Samples
  imports Secrets Balanced_Books Report_Facts Samples
begin

text \<open>
  Small concrete states of the support desk and of the accounts, on which the properties are
  applied: Bob's ticket before and after an answer, two accounts with Bob's sessions, and a refund.
\<close>

section \<open>The desk\<close>

definition bobs_ticket :: ticket where
  "bobs_ticket = \<lparr> tk_id = 60, tk_user_id = 2, tk_subject = ''Lamp'', tk_status = TkWaitingForSupport,
     tk_priority = TkNormal, tk_closed_at = None, tk_last_response_at = 3, tk_created_at = 3, tk_updated_at = 3 \<rparr>"

definition bobs_message :: ticket_message where
  "bobs_message = \<lparr> tm_id = 61, tm_ticket_id = 60, tm_author_id = Some 2, tm_author_role = ByCustomer,
     tm_body = UserText ''Broken'', tm_created_at = 3 \<rparr>"

definition desk :: tickets_db where
  "desk = \<lparr> inventories = [], inventory_log = [], categories = [], products = [], redis = Map.empty,
     idempotency_keys = [], carts = [], cart_items = [], wallets = [], wallet_transactions = [],
     orders = [], order_items = [], order_history = [], payments = [], audit_logs = [],
     tickets = [bobs_ticket], ticket_messages = [bobs_message] \<rparr>"

definition answered :: ticket where
  "answered = bobs_ticket\<lparr>tk_status := TkWaitingForCustomer, tk_last_response_at := 4, tk_updated_at := 4\<rparr>"

definition desk_answered :: tickets_db where
  "desk_answered = desk\<lparr> tickets := [answered],
     ticket_messages := [bobs_message, bobs_message\<lparr>tm_id := 62, tm_author_id := Some 9,
       tm_author_role := BySupport, tm_body := UserText ''Try again'', tm_created_at := 4\<rparr>] \<rparr>"

definition desk_fresh :: ticket_fresh where
  "desk_fresh = \<lparr>tf_ticket = 63, tf_message = 62, tf_now = 4, tf_db_now = 4\<rparr>"

lemmas desk_rows = bobs_ticket_def bobs_message_def desk_def answered_def desk_answered_def desk_fresh_def

lemma sample_desk: "tickets_inv desk"
  by (simp add: tickets_inv_def tickets_ok_def conversation_ok_def closing_notes_def closing_records_def
      messages_of_def by_person_def unique_by_def desk_rows)

lemma sample_answer:
  "add_support_reply desk_fresh 60 root_user ''Try again'' desk = Inr desk_answered"
  by (simp add: add_support_reply_def get_ticket_by_id_def save_ticket_def stamped_def add_ticket_message_def
      desk_rows root_user_def)

section \<open>Accounts\<close>

definition sample_settings :: settings where
  "sample_settings = \<lparr> st_environment = Production, st_access_token_expire_minutes = 15,
     st_refresh_token_expire_days = 30, st_csrf_secret_key = ''k'', st_cors_allow_origins_raw = '''',
     st_cookie_secure_raw = '''' \<rparr>"

definition bob :: user where
  "bob = alice\<lparr>u_id := 2, u_email := ''b@x'', u_username := ''bob'', u_hashed_password := Some ''pw''\<rparr>"

definition bob_admin :: user where
  "bob_admin = bob\<lparr>u_role := Admin\<rparr>"

definition bobs_session :: refresh_token where
  "bobs_session = \<lparr> rt_id = 70, rt_user_id = 2, rt_token_hash = ''r0'', rt_family_id = 80, rt_replaced_by_id = None,
     rt_revoked_at = Some 1, rt_expires_at = 900, rt_created_at = 0, rt_user_agent = None, rt_ip_address = None \<rparr>"

definition home :: accounts_db where
  "home = \<lparr> inventories = [], inventory_log = [], categories = [], products = [], redis = Map.empty,
     idempotency_keys = [], carts = [], cart_items = [], wallets = [], wallet_transactions = [],
     orders = [], order_items = [], order_history = [], payments = [], audit_logs = [],
     tickets = [], ticket_messages = [], users = [alice, bob], oauth_accounts = [],
     refresh_tokens = [bobs_session\<lparr>rt_replaced_by_id := Some 71\<rparr>,
        bobs_session\<lparr>rt_id := 71, rt_token_hash := ''r1'', rt_revoked_at := None\<rparr>],
     password_resets = [\<lparr>su_user_id = 2, su_token_hash = ''reset'', su_expires_at = 900, su_used_at = None,
       su_created_at = 0\<rparr>],
     email_verifications = [], outbox = [],
     oauth_sessions = [''st'' \<mapsto> \<lparr>os_nonce = ''n'', os_verifier = ''v'', os_link_user = None\<rparr>] \<rparr>"

definition home_fresh :: auth_fresh where
  "home_fresh = \<lparr> a_now = 5, a_db_now = 5, a_user = 3, a_token_id = 72, a_family = 81, a_jti = 90,
     a_raw = ''r2'', a_mail_raw = ''m'', a_salt = ''s'', a_csrf_nonce = ''c'', a_user_agent = None,
     a_ip_address = None \<rparr>"

text \<open>An environment with the identity for every hash and one access token.\<close>

definition plain_env :: auth_env where
  "plain_env = \<lparr> e_settings = sample_settings, e_lower = (\<lambda>s. s), e_email = Some,
     e_hash_password = (\<lambda>salt s. s), e_verify = (\<lambda>s h. s = h), e_hash_token = (\<lambda>s. s),
     e_encode = (\<lambda>c. ''tok''),
     e_decode = (\<lambda>now s. if s = ''tok'' \<and> now < seconds 900
        then Some \<lparr>jc_sub = Some 2, jc_role = Customer, jc_jti = 90, jc_iat = 0, jc_exp = 900, jc_type = ''access''\<rparr>
        else None) \<rparr>"

lemmas home_rows = sample_settings_def alice_def bob_def bob_admin_def bobs_session_def home_def home_fresh_def plain_env_def

lemma sample_families: "families_ok (refresh_tokens home)"
  by (simp add: families_ok_def unique_by_def home_rows)

lemma sample_family_fresh: "a_family home_fresh \<notin> rt_family_id ` set (refresh_tokens home)"
  by (simp add: home_rows)

lemma sample_login: "\<exists>r db'. login plain_env home_fresh ''b@x'' ''pw'' home = (Inr r, db')"
  by (simp add: login_def authenticate_def get_user_by_email_def signed_in_def issue_token_pair_def
      issue_refresh_token_def Let_def flush_accounts_def accounts_fit_def user_fits_def unique_by_def oa_key_def
      put_user_def truthy_def request_def home_rows)

lemma sample_reset: "\<exists>db'. confirm_password_reset plain_env home_fresh ''reset'' ''new password'' home = (Inr (), db')"
  by (simp add: confirm_password_reset_def validated_def new_password_valid_def length_between_def
      confirm_password_reset_service_def usable_token_def get_user_by_id_def revoke_all_for_user_def revoke_where_def
      put_user_def use_token_def Let_def flush_accounts_def accounts_fit_def user_fits_def unique_by_def oa_key_def
      request_def home_rows)

definition carols_form :: register_request where
  "carols_form = \<lparr> rr_email = ''c@x'', rr_username = ''carol'', rr_password = ''secret12'', rr_first_name = ''C'',
     rr_last_name = ''D'' \<rparr>"

text \<open>Carol registers with the program's tokens; the hash of a password is the password.\<close>

definition plain_hasher :: password_hasher where
  "plain_hasher = \<lparr> ph_hash = (\<lambda>salt p. p), ph_verify = (\<lambda>h p. if h = p then Verified else VerifyMismatchError) \<rparr>"

lemma plain_hasher_law: "argon2_law plain_hasher"
  by (simp add: argon2_law_def plain_hasher_def)

definition carols_fresh :: auth_fresh where
  "carols_fresh = home_fresh\<lparr>a_raw := generate_opaque_token (replicate 48 (CHR ''x''))\<rparr>"

lemma sample_registration:
  "\<exists>v cks db1. register (program_env plain_hasher plain_env) carols_fresh carols_form home = (Inr (v, cks), db1)"
proof -
  have "register_valid carols_form"
    by (simp add: register_valid_def username_valid_def username_char_def length_between_def password_strength_def
        all_digits_def all_letters_def Let_def carols_form_def)
  moreover have no: "hash_token t \<noteq> [c, d]" "text_length (hash_token t) \<le> 255" for t c d
    using hash_token_length [of t] by auto
  ultimately show ?thesis
    by (simp add: register_def validated_def register_user_def get_user_by_email_def get_user_by_username_def Let_def
        issue_email_verification_def signed_in_def issue_token_pair_def issue_refresh_token_def flush_accounts_def
        accounts_fit_def user_fits_def unique_by_def oa_key_def truthy_def request_def hash_password_def
        plain_hasher_def carols_form_def carols_fresh_def home_rows program_env_def
        no no(1) [THEN not_sym])
qed

section \<open>Google\<close>

definition google_cfg :: google_config where
  "google_cfg = \<lparr>gg_client_id = ''id'', gg_client_secret = ''sec'', gg_redirect_uri = ''uri''\<rparr>"

definition google_token :: "string \<Rightarrow> string \<Rightarrow> token_answer" where
  "google_token code verifier = \<lparr>ta_status_code = 200, ta_id_token = Some ''jwt''\<rparr>"

definition google_info :: "string \<Rightarrow> tokeninfo_answer" where
  "google_info raw = \<lparr> ti_status_code = 200, ti_aud = Some ''id'', ti_iss = Some ''accounts.google.com'',
     ti_nonce = Some ''n'', ti_email = Some ''bob@g'', ti_sub = Some ''g1'', ti_email_verified = Some ''true'',
     ti_name = Some ''Bob'', ti_picture = None \<rparr>"

lemma sample_identity:
  "google_identity_of google_cfg google_token google_info \<lparr>os_nonce = ''n'', os_verifier = ''v'', os_link_user = None\<rparr> ''code'' =
     Inr \<lparr>gi_subject = ''g1'', gi_email = ''bob@g'', gi_email_verified = True, gi_name = ''Bob'', gi_picture = None\<rparr>"
  by (simp add: google_identity_of_def exchange_code_def verify_id_token_def google_is_configured_def truthy_def
      google_cfg_def google_token_def google_info_def)

lemma sample_google:
  "\<exists>cks db'. google_callback plain_env google_cfg google_token google_info home_fresh ''code'' ''st'' home = (Inr cks, db')"
proof -
  have n: "free_username [''alice'', ''bob''] ''bob'' 0 = ''bob1''"
    by (simp add: free_username.simps username_candidate_def nat_str.simps char_of_def bit_0)
  have b: "base_username ''bob@g'' = ''bob''" by (simp add: base_username_def Let_def text_take_ascii ascii_def)
  show ?thesis
    by (simp add: google_callback_def sample_identity login_or_register_with_google_def get_user_by_oauth_def
        get_user_by_email_def issue_token_pair_def issue_refresh_token_def Let_def flush_accounts_def accounts_fit_def
        user_fits_def unique_by_def oa_key_def truthy_def request_def n b home_rows)
qed

section \<open>Administration\<close>

lemma sample_promotion:
  "\<exists>v db'. update_user bob_admin 5 1 \<lparr>au_role = Some SuperAdmin, au_is_active = None\<rparr> home = (Inr v, db')"
  by (simp add: update_user_def require_permission_def role_has_permission_def
      ADMIN_PERMISSIONS_def SUPPORT_PERMISSIONS_def update_user_service_def admin_get_user_service_def
      get_user_by_id_def write_audit_log_def put_user_def home_rows)

lemma sample_support_permission: "require_permission ''ticket.respond'' root_user = Inr root_user"
  by (simp add: require_permission_def role_has_permission_def SUPER_ADMIN_PERMISSIONS_def
      ADMIN_PERMISSIONS_def SUPPORT_PERMISSIONS_def root_user_def)

section \<open>Sales\<close>

definition office :: accounts_db where
  "office = home\<lparr>categories := [lighting], products := [lamp, wire], orders := [paid_order], order_items := alices_items\<rparr>"

lemma sample_totals: "totals_ok office"
  by (simp add: office_def totals_ok_def items_of_order_def unique_by_def home_def sample_rows)

lemma sample_lines: "lines_known P office"
  by (simp add: office_def lines_known_def items_of_order_def unique_by_def home_def sample_rows)

lemma sample_report:
  "\<exists>rep. get_admin_report (\<lambda>x. x) 7 RangeCustom (Some 0) (Some 0) office = Inr rep \<and> ar_total_revenue rep = 240"
  by (simp add: get_admin_report_def resolve_range_def day_start_def day_end_def days_def hours_def seconds_def
      between_def sum_where_def completed_order_def COMPLETED_ORDER_STATUSES_def Let_def office_def home_def sample_rows)

section \<open>A refund\<close>

lemma sample_paid_tables: "order_tables_ok shop_paid"
  by (simp add: sample_states sample_rows unique_by_def order_tables_ok_def history_ok_def history_of_def refunds_ok_def
      refunds_of_def)

lemma sample_refund:
  "\<exists>db'. snd (update_order_status round_half_away root_user \<lparr>f_wallet = 60, f_transaction = 61, f_now = 9\<rparr> 40 OrdRefunded None shop_paid) = db'
     \<and> orders db' = [paid_order\<lparr>o_status := OrdRefunded\<rparr>]"
proof -
  have p: "require_permission ''order.manage'' root_user = Inr root_user"
    by (simp add: require_permission_def role_has_permission_def SUPER_ADMIN_PERMISSIONS_def ADMIN_PERMISSIONS_def root_user_def)
  have n: "round_half_away 240 = 240" using round_half_away_whole [of 240] by simp
  show ?thesis
    unfolding update_order_status_def p bindE_simps
    by (simp add: validated_def admin_update_status_def
      refund_order_def apply_transaction_def get_or_create_wallet_def CREDIT_TYPES_def sample_states sample_rows shop_code
      inventory_row_ok_def get_wallet_by_user_id_def Let_def n)
qed

section \<open>A market\<close>

text \<open>Alice's order with its open payment, in the database that has Bob's sessions and account.\<close>

definition market :: accounts_db where
  "market = home\<lparr> inventories := inventories shop_paying, categories := [lighting], products := [lamp, wire],
     carts := carts shop_paying, orders := orders shop_paying, order_items := order_items shop_paying,
     order_history := order_history shop_paying, payments := payments shop_paying \<rparr>"

definition market_env :: database_env where
  "market_env = \<lparr>de_num = round_half_away, de_coll = (\<lambda>s. 0), de_ilike = (\<lambda>a b. a = b)\<rparr>"

lemmas market_rows = market_def home_def bobs_session_def sample_states sample_rows bob_def

lemma sample_goods: "goods_inv (\<lambda>s. 0) market"
proof -
  have "child_rel (categories market) = {}" by (auto simp: child_rel_def market_rows)
  then have "forest_ok market" by (simp add: forest_def acyclic_def market_rows unique_by_def)
  then have "catalog_inv (\<lambda>s. 0) market"
    by (simp add: catalog_inv_def catalog_ok_def inventory_ok_def inventory_row_ok_def int4_def products_ok_def price_ok_def
        cache_coherent_def unique_by_def market_rows)
  then show ?thesis by (simp add: goods_inv_def cart_ok_def wallets_ok_def totals_ok_def items_of_order_def unique_by_def market_rows)
qed

lemma sample_market: "shop_inv (\<lambda>s. 0) market"
proof -
  have "order_tables_ok market" "payments_ok market" "keys_ok market" "tickets_inv market"
    by (simp_all add: order_tables_ok_def history_ok_def history_of_def refunds_ok_def refunds_of_def payments_ok_def
        payment_matches_def get_order_by_id_def keys_ok_def tickets_inv_def tickets_ok_def closing_notes_def closing_records_def
        messages_of_def unique_by_def market_rows)
  moreover have "accounts_fit market" "families_ok (refresh_tokens market)"
    by (simp_all add: accounts_fit_def user_fits_def text_length_def families_ok_def unique_by_def market_rows)
  ultimately show ?thesis using sample_goods by (simp add: shop_inv_def sales_inv_def)
qed

lemma sample_balanced: "balanced market"
  by (simp add: balanced_def books_code market_rows)

end
