(* ===== verification/Seed_Data.thy ===== *)
theory Seed_Data
  imports Products Orders
begin

text \<open>
  The demo data of the seed script (\<open>app/scripts/seed.py\<close>): the category tree, the photo of each
  category, the products, the shipping address and the fixed texts. Persian text is written letter by
  letter in an ASCII alphabet; \<open>text_of\<close> gives the UTF-8 bytes of the text.
\<close>

section \<open>Persian text\<close>

definition persian_letters :: "(char \<times> nat) list" where
  "persian_letters =
     [(CHR ''a'', 0x627), (CHR ''A'', 0x622), (CHR ''O'', 0x623), (CHR ''W'', 0x624), (CHR ''Y'', 0x626),
      (CHR ''b'', 0x628), (CHR ''p'', 0x67E), (CHR ''t'', 0x62A), (CHR ''V'', 0x62B), (CHR ''j'', 0x62C),
      (CHR ''c'', 0x686), (CHR ''H'', 0x62D), (CHR ''x'', 0x62E), (CHR ''d'', 0x62F), (CHR ''D'', 0x630),
      (CHR ''r'', 0x631), (CHR ''z'', 0x632), (CHR ''J'', 0x698), (CHR ''s'', 0x633), (CHR ''S'', 0x634),
      (CHR ''C'', 0x635), (CHR ''Z'', 0x636), (CHR ''T'', 0x637), (CHR ''U'', 0x638), (CHR ''e'', 0x639),
      (CHR ''G'', 0x63A), (CHR ''f'', 0x641), (CHR ''q'', 0x642), (CHR ''k'', 0x6A9), (CHR ''g'', 0x6AF),
      (CHR ''l'', 0x644), (CHR ''m'', 0x645), (CHR ''n'', 0x646), (CHR ''h'', 0x647), (CHR ''w'', 0x648),
      (CHR ''y'', 0x6CC), (CHR ''N'', 0x64B), (CHR ''_'', 0x200C), (CHR '';'', 0x60C), (CHR '':'', 0x61B),
      (CHR ''<'', 0xAB), (CHR ''>'', 0xBB), (CHR ''0'', 0x6F0), (CHR ''1'', 0x6F1), (CHR ''2'', 0x6F2),
      (CHR ''3'', 0x6F3), (CHR ''4'', 0x6F4), (CHR ''5'', 0x6F5), (CHR ''6'', 0x6F6), (CHR ''7'', 0x6F7),
      (CHR ''8'', 0x6F8), (CHR ''9'', 0x6F9)]"

definition fa_bytes :: "string \<Rightarrow> string" where
  "fa_bytes s =
     concat (map (\<lambda>c. utf8 (case map_of persian_letters c of Some n \<Rightarrow> n | None \<Rightarrow> of_char c)) s)"

datatype segment = Fa string | La string

definition text_of :: "segment list \<Rightarrow> string" where
  "text_of ss = concat (map (\<lambda>s. case s of Fa t \<Rightarrow> fa_bytes t | La t \<Rightarrow> t) ss)"

section \<open>Categories\<close>

record category_entry =
  ce_name :: string
  ce_slug :: string
  ce_children :: "(string \<times> string) list"   \<comment> \<open>name and slug\<close>

definition CATEGORY_TREE :: "category_entry list" where
  "CATEGORY_TREE =
     [\<lparr> ce_name = text_of [Fa ''mwbayl w tblt''], ce_slug = ''mobile-tablet'',
         ce_children =
           [(text_of [Fa ''gwSy mwbayl''], ''mobile-phones''),
            (text_of [Fa ''tblt''], ''tablets''),
            (text_of [Fa ''lwazm janby mwbayl''], ''mobile-accessories'')] \<rparr>,
      \<lparr> ce_name = text_of [Fa ''lp_tap w kampywtr''], ce_slug = ''laptop-computer'',
         ce_children =
           [(text_of [Fa ''lp_tap''], ''laptops''),
            (text_of [Fa ''qTeat kampywtr''], ''computer-parts''),
            (text_of [Fa ''lwazm janby kampywtr''], ''computer-accessories'')] \<rparr>,
      \<lparr> ce_name = text_of [Fa ''Cwty w tCwyry''], ce_slug = ''audio-video'',
         ce_children =
           [(text_of [Fa ''hdfwn w hndzfry''], ''headphones''),
            (text_of [Fa ''aspykr''], ''speakers''),
            (text_of [Fa ''tlwyzywn''], ''televisions'')] \<rparr>,
      \<lparr> ce_name = text_of [Fa ''lwazm xangy''], ce_slug = ''home-appliances'',
         ce_children =
           [(text_of [Fa ''lwazm xangy brqy kwck''], ''small-appliances''),
            (text_of [Fa ''yxcal w fryzr''], ''refrigerators'')] \<rparr>,
      \<lparr> ce_name = text_of [Fa ''gymyng''], ce_slug = ''gaming'',
         ce_children =
           [(text_of [Fa ''knswl bazy''], ''game-consoles''),
            (text_of [Fa ''lwazm janby gymyng''], ''gaming-accessories'')] \<rparr>]"

definition CATEGORY_PHOTO_IDS :: "(string \<times> string) list" where
  "CATEGORY_PHOTO_IDS =
     [(''mobile-phones'', ''1544237515-4480d7d7ff8c''),
      (''tablets'', ''1693257260074-77098c29c6dc''),
      (''mobile-accessories'', ''1499033300314-43c811cff6d5''),
      (''laptops'', ''1572666341285-c8cb9790ca50''),
      (''computer-parts'', ''1733741020205-1ed0208314b6''),
      (''computer-accessories'', ''1662758392656-0e5d4b0f53fb''),
      (''headphones'', ''1505740420928-5e560c06d30e''),
      (''speakers'', ''1542483381-41a479b1fb88''),
      (''televisions'', ''1631679893114-7957e44879db''),
      (''small-appliances'', ''1693875161720-b0c2401c1874''),
      (''refrigerators'', ''1588854337048-44569c79c614''),
      (''game-consoles'', ''1653757398818-5016ba6d2594''),
      (''gaming-accessories'', ''1616296425622-4560a2ad83de'')]"

definition category_placeholder_image :: "string \<Rightarrow> exn + string" where
  "category_placeholder_image category_slug =
     bindE (the_or KeyError (map_of CATEGORY_PHOTO_IDS category_slug)) (\<lambda>photo_id.
       Inr (''https://images.unsplash.com/photo-'' @ photo_id @
            ''?fm=jpg&q=80&w=800&auto=format&fit=crop''))"

section \<open>Products\<close>

text \<open>Prices are the numbers their texts denote.\<close>

record product_item =
  it_sku :: string
  it_slug :: string
  it_name :: string
  it_short_description :: string
  it_description :: string
  it_price :: decimal
  it_discount_price :: "decimal option"
  it_brand :: string
  it_category_slug :: string
  it_specifications :: "(string \<times> string) list"
  it_initial_stock :: int
  it_is_featured :: bool
  it_is_popular :: bool

definition item_samsung_galaxy_a54 :: product_item where
  "item_samsung_galaxy_a54 =
     \<lparr> it_sku = ''SGX-A54-128'', it_slug = ''samsung-galaxy-a54'',
       it_name =
         text_of [Fa ''gwSy mwbayl samswng glksy '', La ''A54''],
       it_short_description =
         text_of [Fa ''gwSy myan_rdh ba nmaySgr '', La ''Super AMOLED '',
                  Fa ''w dwrbyn 50 mgapyksly''],
       it_description =
         text_of [Fa ''samswng glksy '', La ''A54 '', Fa ''ba nmaySgr 6.4 ayncy '',
                  La ''Super AMOLED '',
                  Fa ''ba nrx bh_rwzrsany 120 hrtz; dwrbyn aCly 50 mgapyksl ba tVbyt_knndh '',
                  Fa ''nwry tCwyr w batry 5000 myly_Amprsaety; antxaby mnasb bray astfadh '',
                  Fa ''rwzmrh w ekasy ast.''],
       it_price = 24500000, it_discount_price = Some 22900000,
       it_brand = text_of [Fa ''samswng''], it_category_slug = ''mobile-phones'',
       it_specifications =
         [(text_of [Fa ''HafUh daxly''],
           text_of [La ''128 '', Fa ''gygabayt'']),
          (text_of [Fa ''rm''],
           text_of [La ''8 '', Fa ''gygabayt'']),
          (text_of [Fa ''nmaySgr''],
           text_of [La ''6.4 '', Fa ''aync '', La ''Super AMOLED'']),
          (text_of [Fa ''dwrbyn aCly''],
           text_of [La ''50 '', Fa ''mgapyksl'']),
          (text_of [Fa ''batry''],
           text_of [La ''5000 '', Fa ''myly_Amprsaet''])],
       it_initial_stock = 40, it_is_featured = True, it_is_popular = True \<rparr>"

definition item_xiaomi_redmi_note_12 :: product_item where
  "item_xiaomi_redmi_note_12 =
     \<lparr> it_sku = ''XIA-R12-256'', it_slug = ''xiaomi-redmi-note-12'',
       it_name =
         text_of [Fa ''gwSy mwbayl SyaYwmy rdmy nwt '', La ''12''],
       it_short_description =
         text_of [Fa ''gwSy mqrwn_bh_Crfh ba SarJ srye 33 waty w nmaySgr '', La ''AMOLED''],
       it_description =
         text_of [Fa ''rdmy nwt 12 ba prdazndh asnpdragwn; nmaySgr '', La ''AMOLED '',
                  Fa ''fwl ac_dy w SarJr srye 33 wat hmrah jebh; gzynh_ay aqtCady bray karbran '',
                  Fa ''emwmy ast.''],
       it_price = 12300000, it_discount_price = None,
       it_brand = text_of [Fa ''SyaYwmy''], it_category_slug = ''mobile-phones'',
       it_specifications =
         [(text_of [Fa ''HafUh daxly''],
           text_of [La ''256 '', Fa ''gygabayt'']),
          (text_of [Fa ''rm''],
           text_of [La ''8 '', Fa ''gygabayt'']),
          (text_of [Fa ''nmaySgr''],
           text_of [La ''6.67 '', Fa ''aync '', La ''AMOLED'']),
          (text_of [Fa ''SarJ srye''],
           text_of [La ''33 '', Fa ''wat''])],
       it_initial_stock = 55, it_is_featured = False, it_is_popular = True \<rparr>"

definition item_apple_iphone_13 :: product_item where
  "item_apple_iphone_13 =
     \<lparr> it_sku = ''APL-IP13-128'', it_slug = ''apple-iphone-13'',
       it_name =
         text_of [Fa ''gwSy mwbayl apl Ayfwn '', La ''13''],
       it_short_description =
         text_of [Fa ''Ayfwn 13 ba traSh '', La ''A15 Bionic '', Fa ''w dwrbyn dwganh pySrfth''],
       it_description =
         text_of [Fa ''Ayfwn 13 ba traSh qdrtmnd '', La ''A15 Bionic'',
                  Fa ''; dwrbyn dwganh 12 mgapyksly w pStybany az ZbT wydywy synmayy; hmcnan '',
                  Fa ''yky az prfrwS_tryn Ayfwn_hay bazar ayran ast.''],
       it_price = 38900000, it_discount_price = Some 36500000,
       it_brand = text_of [Fa ''apl''], it_category_slug = ''mobile-phones'',
       it_specifications =
         [(text_of [Fa ''HafUh daxly''],
           text_of [La ''128 '', Fa ''gygabayt'']),
          (text_of [Fa ''traSh''],
           ''Apple A15 Bionic''),
          (text_of [Fa ''nmaySgr''],
           text_of [La ''6.1 '', Fa ''aync '', La ''Super Retina XDR''])],
       it_initial_stock = 20, it_is_featured = True, it_is_popular = False \<rparr>"

definition item_samsung_galaxy_s23 :: product_item where
  "item_samsung_galaxy_s23 =
     \<lparr> it_sku = ''SGX-S23-256'', it_slug = ''samsung-galaxy-s23'',
       it_name =
         text_of [Fa ''gwSy mwbayl samswng glksy '', La ''S23''],
       it_short_description =
         text_of [Fa ''prcmdar samswng ba dwrbyn 50 mgapyksl w prdazndh asnpdragwn''],
       it_description =
         text_of [Fa ''glksy '', La ''S23 '', Fa ''ba bdnh fSrdh; prdazndh '',
                  La ''Snapdragon 8 Gen 2 '',
                  Fa ''bray glksy w dwrbyn aCly 50 mgapyksly; tjrbh_ay prcmdar dr andazh_ay '',
                  Fa ''jme_wjwr araYh my_dhd.''],
       it_price = 42000000, it_discount_price = None,
       it_brand = text_of [Fa ''samswng''], it_category_slug = ''mobile-phones'',
       it_specifications =
         [(text_of [Fa ''HafUh daxly''],
           text_of [La ''256 '', Fa ''gygabayt'']),
          (text_of [Fa ''rm''],
           text_of [La ''8 '', Fa ''gygabayt'']),
          (text_of [Fa ''prdazndh''],
           ''Snapdragon 8 Gen 2'')],
       it_initial_stock = 18, it_is_featured = False, it_is_popular = False \<rparr>"

definition item_apple_ipad_9th_gen :: product_item where
  "item_apple_ipad_9th_gen =
     \<lparr> it_sku = ''APL-IPADA9'', it_slug = ''apple-ipad-9th-gen'',
       it_name =
         text_of [Fa ''tblt apl Aypd nsl nhm''],
       it_short_description =
         text_of [Fa ''tblt 10.2 ayncy apl ba traSh '', La ''A13 Bionic'',
                  Fa ''; mnasb kar w AmwzS''],
       it_description =
         text_of [Fa ''Aypd nsl nhm ba nmaySgr 10.2 ayncy R'', La ''etina '', Fa ''w traSh '',
                  La ''A13 Bionic'',
                  Fa ''; bray mTaleh; yaddaSt_brdary ba apl pnsl nsl awl w astfadh_hay rwzmrh '',
                  Fa ''mnasb ast.''],
       it_price = 21500000, it_discount_price = None,
       it_brand = text_of [Fa ''apl''], it_category_slug = ''tablets'',
       it_specifications =
         [(text_of [Fa ''HafUh daxly''],
           text_of [La ''64 '', Fa ''gygabayt'']),
          (text_of [Fa ''nmaySgr''],
           text_of [La ''10.2 '', Fa ''aync R'', La ''etina'']),
          (text_of [Fa ''pStybany qlm''],
           text_of [La ''Apple Pencil '', Fa ''nsl awl''])],
       it_initial_stock = 25, it_is_featured = False, it_is_popular = True \<rparr>"

definition item_samsung_galaxy_tab_s6_lite :: product_item where
  "item_samsung_galaxy_tab_s6_lite =
     \<lparr> it_sku = ''SGX-TABS6L'', it_slug = ''samsung-galaxy-tab-s6-lite'',
       it_name =
         text_of [Fa ''tblt samswng glksy tb '', La ''S6 Lite''],
       it_short_description =
         text_of [Fa ''tblt hmrah ba qlm '', La ''S Pen'', Fa ''; mnasb yaddaSt_brdary w TraHy''],
       it_description =
         text_of [Fa ''glksy tb '', La ''S6 Lite '', Fa ''bh hmrah qlm '', La ''S Pen '',
                  Fa ''erZh my_Swd w bray yaddaSt_brdary; TraHy w srgrmy rwzmrh gzynh_ay '',
                  Fa ''aqtCady dr brabr prcmdarhay apl ast.''],
       it_price = 15800000, it_discount_price = None,
       it_brand = text_of [Fa ''samswng''], it_category_slug = ''tablets'',
       it_specifications =
         [(text_of [Fa ''HafUh daxly''],
           text_of [La ''128 '', Fa ''gygabayt'']),
          (text_of [Fa ''qlm hmrah''],
           ''S Pen'')],
       it_initial_stock = 30, it_is_featured = False, it_is_popular = False \<rparr>"

definition item_anker_charger_20w :: product_item where
  "item_anker_charger_20w =
     \<lparr> it_sku = ''ANK-CHG20W'', it_slug = ''anker-charger-20w'',
       it_name =
         text_of [Fa ''SarJr fst SarJ ankr mdl '', La ''20 '', Fa ''wat''],
       it_short_description =
         text_of [Fa ''Adaptwr SarJ srye P'', La ''D '', Fa ''ba twan 20 wat w pwrt '',
                  La ''Type-C''],
       it_description =
         text_of [Fa ''SarJr ankr 20 wat ba fnawry Po'', La ''werIQ 3 '',
                  Fa ''w pStybany az Po'', La ''wer Delivery'',
                  Fa ''; gwSy_hay Ayfwn w andrwyd ra dr kwtah_tryn zman SarJ my_knd.''],
       it_price = 650000, it_discount_price = None,
       it_brand = text_of [Fa ''ankr''], it_category_slug = ''mobile-accessories'',
       it_specifications =
         [(text_of [Fa ''twan xrwjy''],
           text_of [La ''20 '', Fa ''wat'']),
          (text_of [Fa ''pwrt''],
           ''USB-C''),
          (text_of [Fa ''astandard''],
           ''Power Delivery'')],
       it_initial_stock = 120, it_is_featured = False, it_is_popular = False \<rparr>"

definition item_baseus_case_a54 :: product_item where
  "item_baseus_case_a54 =
     \<lparr> it_sku = ''BSS-CASE-A54'', it_slug = ''baseus-case-a54'',
       it_name =
         text_of [Fa ''qab mHafU gwSy bysws mnasb glksy '', La ''A54''],
       it_short_description =
         text_of [Fa ''qab sylykwny ZdZrbh ba pwSS dqyq dkmh_ha w dwrbyn''],
       it_description =
         text_of [Fa ''qab mHafU bysws az jns sylykwn nrm; dr brabr Zrbh w xT_wxS az gwSy '',
                  Fa ''mHafUt my_knd.''],
       it_price = 210000, it_discount_price = None,
       it_brand = text_of [Fa ''bysws''], it_category_slug = ''mobile-accessories'',
       it_specifications =
         [(text_of [Fa ''jns''],
           text_of [Fa ''sylykwn'']),
          (text_of [Fa ''sazgary''],
           ''Galaxy A54'')],
       it_initial_stock = 200, it_is_featured = False, it_is_popular = False \<rparr>"

definition item_asus_vivobook_15_i5 :: product_item where
  "item_asus_vivobook_15_i5 =
     \<lparr> it_sku = ''ASU-VB15-I5'', it_slug = ''asus-vivobook-15-i5'',
       it_name =
         text_of [Fa ''lp_tap aysws '', La ''Vivobook 15 '', Fa ''prdazndh '', La ''Core i5''],
       it_short_description =
         text_of [Fa ''lp_tap hmh_karh ba prdazndh nsl 12 ayntl w HafUh '', La ''SSD''],
       it_description =
         text_of [Fa ''aysws '', La ''Vivobook 15 '', Fa ''ba prdazndh '', La ''Core i5 '',
                  Fa ''nsl dwazdhm; 8 gygabayt rm w HafUh '', La ''SSD '',
                  Fa ''512 gygabayty; bray karhay adary w danSjwyy mnasb ast.''],
       it_price = 34900000, it_discount_price = None,
       it_brand = text_of [Fa ''aysws''], it_category_slug = ''laptops'',
       it_specifications =
         [(text_of [Fa ''prdazndh''],
           ''Intel Core i5-1235U''),
          (text_of [Fa ''rm''],
           text_of [La ''8 '', Fa ''gygabayt'']),
          (text_of [Fa ''HafUh''],
           text_of [La ''512 '', Fa ''gygabayt '', La ''SSD'']),
          (text_of [Fa ''nmaySgr''],
           text_of [La ''15.6 '', Fa ''aync Fu'', La ''ll HD''])],
       it_initial_stock = 15, it_is_featured = True, it_is_popular = False \<rparr>"

definition item_lenovo_ideapad_3_i7 :: product_item where
  "item_lenovo_ideapad_3_i7 =
     \<lparr> it_sku = ''LEN-IP3-I7'', it_slug = ''lenovo-ideapad-3-i7'',
       it_name =
         text_of [Fa ''lp_tap lnww I'', La ''deaPad 3 '', Fa ''prdazndh '', La ''Core i7''],
       it_short_description =
         text_of [Fa ''lp_tap qdrtmnd ba rm 16 gygabayt; mnasb cndwUyfgy sngyn''],
       it_description =
         text_of [Fa ''lnww I'', La ''deaPad 3 '', Fa ''ba prdazndh '', La ''Core i7'',
                  Fa ''; 16 gygabayt rm w '', La ''SSD '',
                  Fa ''yk trabayty; ajray nrm_afzarhay sngyn w cndwUyfgy ra rwan anjam my_dhd.''],
       it_price = 41200000, it_discount_price = None,
       it_brand = text_of [Fa ''lnww''], it_category_slug = ''laptops'',
       it_specifications =
         [(text_of [Fa ''prdazndh''],
           ''Intel Core i7-1255U''),
          (text_of [Fa ''rm''],
           text_of [La ''16 '', Fa ''gygabayt'']),
          (text_of [Fa ''HafUh''],
           text_of [La ''1 '', Fa ''trabayt '', La ''SSD''])],
       it_initial_stock = 12, it_is_featured = False, it_is_popular = False \<rparr>"

definition item_apple_macbook_air_m2 :: product_item where
  "item_apple_macbook_air_m2 =
     \<lparr> it_sku = ''APL-MBA-M2'', it_slug = ''apple-macbook-air-m2'',
       it_name =
         text_of [Fa ''lp_tap apl mk_bwk ayr M'', La ''2''],
       it_short_description =
         text_of [Fa ''mk_bwk ayr fwq sbk ba traSh M'', La ''2 '', Fa ''w batry tmam_rwz''],
       it_description =
         text_of [Fa ''mk_bwk ayr M'', La ''2 '', Fa ''ba bdnh fwq_sbk; traSh apl sylykwn M'',
                  La ''2 '',
                  Fa ''w batry ta 18 saet; antxaby brtr bray TraHan w brnamh_nwysan ast.''],
       it_price = 68500000, it_discount_price = Some 64900000,
       it_brand = text_of [Fa ''apl''], it_category_slug = ''laptops'',
       it_specifications =
         [(text_of [Fa ''traSh''],
           ''Apple M2''),
          (text_of [Fa ''rm''],
           text_of [La ''8 '', Fa ''gygabayt'']),
          (text_of [Fa ''HafUh''],
           text_of [La ''256 '', Fa ''gygabayt '', La ''SSD''])],
       it_initial_stock = 10, it_is_featured = True, it_is_popular = True \<rparr>"

definition item_hp_pavilion_ryzen7 :: product_item where
  "item_hp_pavilion_ryzen7 =
     \<lparr> it_sku = ''HP-PAV-R7'', it_slug = ''hp-pavilion-ryzen7'',
       it_name =
         text_of [Fa ''lp_tap ac_py P'', La ''avilion '', Fa ''prdazndh R'', La ''yzen 7''],
       it_short_description =
         text_of [Fa ''lp_tap grafyk_mHwr mnasb TraHy w gymyng sbk''],
       it_description =
         text_of [Fa ''ac_py P'', La ''avilion '', Fa ''ba prdazndh '', La ''AMD Ryzen 7 '',
                  Fa ''w kart grafyk mjza; hm bray karhay grafyky w hm bazy_hay nh_cndan sngyn '',
                  Fa ''mnasb ast.''],
       it_price = 39700000, it_discount_price = None,
       it_brand = text_of [Fa ''ac_py''], it_category_slug = ''laptops'',
       it_specifications =
         [(text_of [Fa ''prdazndh''],
           ''AMD Ryzen 7 5825U''),
          (text_of [Fa ''grafyk''],
           ''AMD Radeon'')],
       it_initial_stock = 14, it_is_featured = False, it_is_popular = False \<rparr>"

definition item_wd_ssd_1tb :: product_item where
  "item_wd_ssd_1tb =
     \<lparr> it_sku = ''WD-SSD-1TB'', it_slug = ''wd-ssd-1tb'',
       it_name =
         text_of [Fa ''HafUh '', La ''SSD '', Fa ''ayntrnal wstrn dyjytal '', La ''1 '',
                  Fa ''trabayt''],
       it_short_description =
         text_of [Fa ''HafUh '', La ''SSD '', Fa ''ba rabT '', La ''NVMe '',
                  Fa ''w sret xwandn bala''],
       it_description =
         text_of [Fa ''HafUh '', La ''SSD '', Fa ''wstrn dyjytal ba fnawry '', La ''NVMe'',
                  Fa ''; sret antqal dadh bala bray systm_eaml w bazy_ha frahm my_knd.''],
       it_price = 2450000, it_discount_price = None,
       it_brand = text_of [Fa ''wstrn dyjytal''], it_category_slug = ''computer-parts'',
       it_specifications =
         [(text_of [Fa ''Urfyt''],
           text_of [La ''1 '', Fa ''trabayt'']),
          (text_of [Fa ''rabT''],
           ''NVMe M.2'')],
       it_initial_stock = 60, it_is_featured = False, it_is_popular = False \<rparr>"

definition item_corsair_ram_16gb :: product_item where
  "item_corsair_ram_16gb =
     \<lparr> it_sku = ''COR-RAM16'', it_slug = ''corsair-ram-16gb'',
       it_name =
         text_of [Fa ''rm dsktap kwrsyr '', La ''Vengeance 16 '', Fa ''gygabayt '', La ''DDR4''],
       it_short_description =
         text_of [Fa ''rm '', La ''DDR4 '', Fa ''ba frkans bala mnasb gymyng w wyrayS''],
       it_description =
         text_of [Fa ''rm kwrsyr '', La ''Vengeance '',
                  Fa ''ba TraHy xnk_knndh Alwmynywmy w frkans '', La ''3200 '',
                  Fa ''mgahrtz; emlkrd paydar dr bar sngyn araYh my_dhd.''],
       it_price = 1850000, it_discount_price = None,
       it_brand = text_of [Fa ''kwrsyr''], it_category_slug = ''computer-parts'',
       it_specifications =
         [(text_of [Fa ''Urfyt''],
           text_of [La ''16 '', Fa ''gygabayt'']),
          (text_of [Fa ''frkans''],
           text_of [La ''3200 '', Fa ''mgahrtz'']),
          (text_of [Fa ''nwe''],
           ''DDR4'')],
       it_initial_stock = 45, it_is_featured = False, it_is_popular = False \<rparr>"

definition item_asus_rtx_4060 :: product_item where
  "item_asus_rtx_4060 =
     \<lparr> it_sku = ''ASU-RTX4060'', it_slug = ''asus-rtx-4060'',
       it_name =
         text_of [Fa ''kart grafyk aysws mdl R'', La ''TX 4060''],
       it_short_description =
         text_of [Fa ''kart grafyk nsl jdyd anwydya mnasb gymyng 1440'', La ''p''],
       it_description =
         text_of [Fa ''kart grafyk aysws R'', La ''TX 4060 '', Fa ''ba pStybany az '',
                  La ''DLSS 3 '',
                  Fa ''w rhgyry prtw; tjrbh_ay rwan dr bazy_hay amrwzy frahm my_knd.''],
       it_price = 24900000, it_discount_price = None,
       it_brand = text_of [Fa ''aysws''], it_category_slug = ''computer-parts'',
       it_specifications =
         [(text_of [Fa ''HafUh grafyky''],
           text_of [La ''8 '', Fa ''gygabayt '', La ''GDDR6'']),
          (text_of [Fa ''pStybany''],
           ''DLSS 3, Ray Tracing'')],
       it_initial_stock = 9, it_is_featured = True, it_is_popular = False \<rparr>"

definition item_logitech_mx_master_3 :: product_item where
  "item_logitech_mx_master_3 =
     \<lparr> it_sku = ''LOG-MX3'', it_slug = ''logitech-mx-master-3'',
       it_name =
         text_of [Fa ''maws by_sym lajytk MX M'', La ''aster 3''],
       it_short_description =
         text_of [Fa ''maws Hrfh_ay ba askrwl alktrwmGnaTysy w atCal cndganh''],
       it_description =
         text_of [Fa ''lajytk MX M'', La ''aster 3 '', Fa ''ba askrwl M'', La ''agSpeed '',
                  Fa ''w amkan atCal hm_zman bh sh dstgah; bray karbran Hrfh_ay TraHy Sdh ast.''],
       it_price = 3200000, it_discount_price = None,
       it_brand = text_of [Fa ''lajytk''], it_category_slug = ''computer-accessories'',
       it_specifications =
         [(text_of [Fa ''atCal''],
           text_of [Fa ''blwtwV / gyrndh '', La ''USB'']),
          (text_of [Fa ''tedad dkmh''],
           text_of [La ''7 '', Fa ''edd''])],
       it_initial_stock = 35, it_is_featured = False, it_is_popular = True \<rparr>"

definition item_rapoo_keyboard_v500 :: product_item where
  "item_rapoo_keyboard_v500 =
     \<lparr> it_sku = ''RAP-KB61'', it_slug = ''rapoo-keyboard-v500'',
       it_name =
         text_of [Fa ''kybwrd mkanykal rpw mdl '', La ''V500''],
       it_short_description =
         text_of [Fa ''kybwrd mkanykal ba nwrprdazy w swyyc blw''],
       it_description =
         text_of [Fa ''kybwrd mkanykal rpw '', La ''V500 '',
                  Fa ''ba swyyc_hay blw w nwrprdazy rngy; mnasb gymyng w tayp Hrfh_ay ast.''],
       it_price = 1450000, it_discount_price = None,
       it_brand = text_of [Fa ''rpw''], it_category_slug = ''computer-accessories'',
       it_specifications =
         [(text_of [Fa ''nwe swyyc''],
           text_of [Fa ''blw mkanykal'']),
          (text_of [Fa ''nwrprdazy''],
           ''RGB'')],
       it_initial_stock = 40, it_is_featured = False, it_is_popular = False \<rparr>"

definition item_sony_wh_1000xm5 :: product_item where
  "item_sony_wh_1000xm5 =
     \<lparr> it_sku = ''SNY-WH1000'', it_slug = ''sony-wh-1000xm5'',
       it_name =
         text_of [Fa ''hdfwn by_sym swny '', La ''WH-1000XM5''],
       it_short_description =
         text_of [Fa ''hdfwn flg_Syp ba HDf nwyz feal pySrfth''],
       it_description =
         text_of [Fa ''swny '', La ''WH-1000XM5 '',
                  Fa ''ba fnawry HDf nwyz feal pySrfth w kyfyt Cday bala; yky az bhtryn '',
                  Fa ''hdfwn_hay by_sym bazar ast.''],
       it_price = 14500000, it_discount_price = None,
       it_brand = text_of [Fa ''swny''], it_category_slug = ''headphones'',
       it_specifications =
         [(text_of [Fa ''HDf nwyz''],
           text_of [Fa ''feal ('', La ''ANC)'']),
          (text_of [Fa ''batry''],
           text_of [Fa ''ta '', La ''30 '', Fa ''saet''])],
       it_initial_stock = 22, it_is_featured = True, it_is_popular = False \<rparr>"

definition item_apple_airpods_2 :: product_item where
  "item_apple_airpods_2 =
     \<lparr> it_sku = ''APL-AIRP2'', it_slug = ''apple-airpods-2'',
       it_name =
         text_of [Fa ''ayrpad apl nsl dwm''],
       it_short_description =
         text_of [Fa ''hndzfry by_sym apl ba atCal srye bh dstgah_hay i'', La ''OS''],
       it_description =
         text_of [Fa ''ayrpad nsl dwm apl ba traSh '', La ''H1 '',
                  Fa ''w atCal Asan bh akwsystm apl; bray mkalmh w mwsyqy rwzmrh mnasb ast.''],
       it_price = 6900000, it_discount_price = None,
       it_brand = text_of [Fa ''apl''], it_category_slug = ''headphones'',
       it_specifications =
         [(text_of [Fa ''traSh''],
           ''Apple H1''),
          (text_of [Fa ''kys SarJ''],
           text_of [Fa ''astandard''])],
       it_initial_stock = 50, it_is_featured = False, it_is_popular = True \<rparr>"

definition item_jbl_flip_6 :: product_item where
  "item_jbl_flip_6 =
     \<lparr> it_sku = ''JBL-FLIP6'', it_slug = ''jbl-flip-6'',
       it_name =
         text_of [Fa ''aspykr blwtwVy jy_by_al F'', La ''lip 6''],
       it_short_description =
         text_of [Fa ''aspykr qabl_Hml ZdAb ba Cday qdrtmnd''],
       it_description =
         text_of [Fa ''aspykr jy_by_al F'', La ''lip 6 '', Fa ''ba astandard ZdAb IP'',
                  La ''67 '', Fa ''w Cday qdrtmnd; bray astfadh dr sfr w fZay baz mnasb ast.''],
       it_price = 4200000, it_discount_price = None,
       it_brand = text_of [Fa ''jy_by_al''], it_category_slug = ''speakers'',
       it_specifications =
         [(text_of [Fa ''mqawmt''],
           text_of [La ''IP67 '', Fa ''ZdAb w grdwGbar'']),
          (text_of [Fa ''batry''],
           text_of [Fa ''ta '', La ''12 '', Fa ''saet''])],
       it_initial_stock = 38, it_is_featured = False, it_is_popular = False \<rparr>"

definition item_samsung_tv_55_qled :: product_item where
  "item_samsung_tv_55_qled =
     \<lparr> it_sku = ''SGX-TV55Q'', it_slug = ''samsung-tv-55-qled'',
       it_name =
         text_of [Fa ''tlwyzywn samswng '', La ''55 '', Fa ''aync QLE'', La ''D''],
       it_short_description =
         text_of [Fa ''tlwyzywn hwSmnd QLE'', La ''D '', Fa ''ba kyfyt tCwyr '', La ''4K''],
       it_description =
         text_of [Fa ''tlwyzywn QLE'', La ''D '', Fa ''samswng dr sayz '', La ''55 '',
                  Fa ''aync ba rzwlwSn '', La ''4K '', Fa ''w pnl hwSmnd '', La ''Tizen'',
                  Fa ''; tjrbh tmaSay synmayy dr xanh frahm my_knd.''],
       it_price = 32500000, it_discount_price = Some 29900000,
       it_brand = text_of [Fa ''samswng''], it_category_slug = ''televisions'',
       it_specifications =
         [(text_of [Fa ''sayz CfHh''],
           text_of [La ''55 '', Fa ''aync'']),
          (text_of [Fa ''rzwlwSn''],
           ''4K UHD''),
          (text_of [Fa ''pnl''],
           ''QLED'')],
       it_initial_stock = 8, it_is_featured = True, it_is_popular = False \<rparr>"

definition item_lg_tv_43_uhd :: product_item where
  "item_lg_tv_43_uhd =
     \<lparr> it_sku = ''LG-TV43UHD'', it_slug = ''lg-tv-43-uhd'',
       it_name =
         text_of [Fa ''tlwyzywn al_jy '', La ''43 '', Fa ''aync '', La ''UHD''],
       it_short_description =
         text_of [Fa ''tlwyzywn hwSmnd mqrwn_bh_Crfh ba kyfyt '', La ''4K''],
       it_description =
         text_of [Fa ''tlwyzywn al_jy '', La ''43 '', Fa ''aync ba rzwlwSn '', La ''4K '',
                  Fa ''w systm_eaml '', La ''webOS'',
                  Fa ''; gzynh_ay aqtCady bray ataq nSymn ya xwab ast.''],
       it_price = 18700000, it_discount_price = None,
       it_brand = text_of [Fa ''al_jy''], it_category_slug = ''televisions'',
       it_specifications =
         [(text_of [Fa ''sayz CfHh''],
           text_of [La ''43 '', Fa ''aync'']),
          (text_of [Fa ''rzwlwSn''],
           ''4K UHD'')],
       it_initial_stock = 16, it_is_featured = False, it_is_popular = False \<rparr>"

definition item_philips_vacuum_2100 :: product_item where
  "item_philips_vacuum_2100 =
     \<lparr> it_sku = ''PHI-VAC2100'', it_slug = ''philips-vacuum-2100'',
       it_name =
         text_of [Fa ''jarwbrqy fylyps mdl '', La ''2100 '', Fa ''wat''],
       it_short_description =
         text_of [Fa ''jarwbrqy xangy ba qdrt mkS bala w fyltr '', La ''HEPA''],
       it_description =
         text_of [Fa ''jarwbrqy fylyps ba twan '', La ''2100 '', Fa ''wat w fyltr '',
                  La ''HEPA'', Fa ''; grdwGbar w AlrJn_ha ra bh_Twr mWVr jme_Awry my_knd.''],
       it_price = 3650000, it_discount_price = None,
       it_brand = text_of [Fa ''fylyps''], it_category_slug = ''small-appliances'',
       it_specifications =
         [(text_of [Fa ''twan''],
           text_of [La ''2100 '', Fa ''wat'']),
          (text_of [Fa ''nwe fyltr''],
           ''HEPA'')],
       it_initial_stock = 28, it_is_featured = False, it_is_popular = False \<rparr>"

definition item_bosch_blender_600 :: product_item where
  "item_bosch_blender_600 =
     \<lparr> it_sku = ''BSH-BLND600'', it_slug = ''bosch-blender-600'',
       it_name =
         text_of [Fa ''mxlwT_kn bwS mdl '', La ''600 '', Fa ''wat''],
       it_short_description =
         text_of [Fa ''mxlwT_kn xangy ba parc SySh_ay w cnd sret''],
       it_description =
         text_of [Fa ''mxlwT_kn bwS ba mwtwr '', La ''600 '',
                  Fa ''waty w parc SySh_ay mqawm; bray thyh asmwty w ss_hay xangy mnasb ast.''],
       it_price = 2150000, it_discount_price = None,
       it_brand = text_of [Fa ''bwS''], it_category_slug = ''small-appliances'',
       it_specifications =
         [(text_of [Fa ''twan''],
           text_of [La ''600 '', Fa ''wat'']),
          (text_of [Fa ''jns parc''],
           text_of [Fa ''SySh''])],
       it_initial_stock = 33, it_is_featured = False, it_is_popular = False \<rparr>"

definition item_snowa_fridge_20cf :: product_item where
  "item_snowa_fridge_20cf =
     \<lparr> it_sku = ''SNW-REF20'', it_slug = ''snowa-fridge-20cf'',
       it_name =
         text_of [Fa ''yxcal fryzr asnwa '', La ''20 '', Fa ''fwt''],
       it_short_description =
         text_of [Fa ''yxcal fryzr dwqlw ba systm nwfrast w mCrf anrJy payyn''],
       it_description =
         text_of [Fa ''yxcal fryzr asnwa ba Urfyt '', La ''20 '',
                  Fa ''fwt w systm nwfrast; bray xanwadh_hay mtwsT ba mCrf anrJy bhynh TraHy '',
                  Fa ''Sdh ast.''],
       it_price = 45900000, it_discount_price = None,
       it_brand = text_of [Fa ''asnwa''], it_category_slug = ''refrigerators'',
       it_specifications =
         [(text_of [Fa ''Urfyt''],
           text_of [La ''20 '', Fa ''fwt'']),
          (text_of [Fa ''systm srmayS''],
           text_of [Fa ''nwfrast'']),
          (text_of [Fa ''rdh anrJy''],
           ''A+'')],
       it_initial_stock = 6, it_is_featured = False, it_is_popular = False \<rparr>"

definition item_sony_ps5 :: product_item where
  "item_sony_ps5 =
     \<lparr> it_sku = ''SNY-PS5'', it_slug = ''sony-ps5'',
       it_name =
         text_of [Fa ''knswl bazy swny P'', La ''layStation 5''],
       it_short_description =
         text_of [Fa ''knswl nsl nhm ba '', La ''SSD '', Fa ''fwq_srye w grafyk '', La ''4K''],
       it_description =
         text_of [Fa ''ply_astySn '', La ''5 '', Fa ''ba HafUh '', La ''SSD '',
                  Fa ''fwq_srye; pStybany az rzwlwSn '', La ''4K '',
                  Fa ''w rhgyry prtw; prtqaZatryn knswl bazy rwz ast.''],
       it_price = 36500000, it_discount_price = None,
       it_brand = text_of [Fa ''swny''], it_category_slug = ''game-consoles'',
       it_specifications =
         [(text_of [Fa ''HafUh''],
           text_of [La ''825 '', Fa ''gygabayt '', La ''SSD'']),
          (text_of [Fa ''rzwlwSn xrwjy''],
           text_of [Fa ''ta '', La ''4K''])],
       it_initial_stock = 11, it_is_featured = True, it_is_popular = True \<rparr>"

definition item_sony_dualsense :: product_item where
  "item_sony_dualsense =
     \<lparr> it_sku = ''SNY-DS5'', it_slug = ''sony-dualsense'',
       it_name =
         text_of [Fa ''dsth bazy swny '', La ''DualSense''],
       it_short_description =
         text_of [Fa ''dsth by_sym ply_astySn '', La ''5 '', Fa ''ba bazxwrd lmsy pySrfth''],
       it_description =
         text_of [Fa ''dsth '', La ''DualSense '',
                  Fa ''ba mwtwrhay bazxwrd lmsy w maSh_hay tTbyqy; Hs lms waqey_try bh '',
                  Fa ''bazy_hay P'', La ''S5 '', Fa ''my_bxSd.''],
       it_price = 3400000, it_discount_price = None,
       it_brand = text_of [Fa ''swny''], it_category_slug = ''gaming-accessories'',
       it_specifications =
         [(text_of [Fa ''atCal''],
           text_of [Fa ''blwtwV / kabl '', La ''USB-C'']),
          (text_of [Fa ''batry''],
           text_of [Fa ''qabl SarJ''])],
       it_initial_stock = 24, it_is_featured = False, it_is_popular = False \<rparr>"

definition PRODUCTS :: "product_item list" where
  "PRODUCTS =
     [item_samsung_galaxy_a54,
      item_xiaomi_redmi_note_12,
      item_apple_iphone_13,
      item_samsung_galaxy_s23,
      item_apple_ipad_9th_gen,
      item_samsung_galaxy_tab_s6_lite,
      item_anker_charger_20w,
      item_baseus_case_a54,
      item_asus_vivobook_15_i5,
      item_lenovo_ideapad_3_i7,
      item_apple_macbook_air_m2,
      item_hp_pavilion_ryzen7,
      item_wd_ssd_1tb,
      item_corsair_ram_16gb,
      item_asus_rtx_4060,
      item_logitech_mx_master_3,
      item_rapoo_keyboard_v500,
      item_sony_wh_1000xm5,
      item_apple_airpods_2,
      item_jbl_flip_6,
      item_samsung_tv_55_qled,
      item_lg_tv_43_uhd,
      item_philips_vacuum_2100,
      item_bosch_blender_600,
      item_snowa_fridge_20cf,
      item_sony_ps5,
      item_sony_dualsense]"

lemma item_slugs [simp]:
  "it_slug item_samsung_galaxy_a54 = ''samsung-galaxy-a54''"
  "it_slug item_xiaomi_redmi_note_12 = ''xiaomi-redmi-note-12''"
  "it_slug item_apple_iphone_13 = ''apple-iphone-13''"
  "it_slug item_samsung_galaxy_s23 = ''samsung-galaxy-s23''"
  "it_slug item_apple_ipad_9th_gen = ''apple-ipad-9th-gen''"
  "it_slug item_samsung_galaxy_tab_s6_lite = ''samsung-galaxy-tab-s6-lite''"
  "it_slug item_anker_charger_20w = ''anker-charger-20w''"
  "it_slug item_baseus_case_a54 = ''baseus-case-a54''"
  "it_slug item_asus_vivobook_15_i5 = ''asus-vivobook-15-i5''"
  "it_slug item_lenovo_ideapad_3_i7 = ''lenovo-ideapad-3-i7''"
  "it_slug item_apple_macbook_air_m2 = ''apple-macbook-air-m2''"
  "it_slug item_hp_pavilion_ryzen7 = ''hp-pavilion-ryzen7''"
  "it_slug item_wd_ssd_1tb = ''wd-ssd-1tb''"
  "it_slug item_corsair_ram_16gb = ''corsair-ram-16gb''"
  "it_slug item_asus_rtx_4060 = ''asus-rtx-4060''"
  "it_slug item_logitech_mx_master_3 = ''logitech-mx-master-3''"
  "it_slug item_rapoo_keyboard_v500 = ''rapoo-keyboard-v500''"
  "it_slug item_sony_wh_1000xm5 = ''sony-wh-1000xm5''"
  "it_slug item_apple_airpods_2 = ''apple-airpods-2''"
  "it_slug item_jbl_flip_6 = ''jbl-flip-6''"
  "it_slug item_samsung_tv_55_qled = ''samsung-tv-55-qled''"
  "it_slug item_lg_tv_43_uhd = ''lg-tv-43-uhd''"
  "it_slug item_philips_vacuum_2100 = ''philips-vacuum-2100''"
  "it_slug item_bosch_blender_600 = ''bosch-blender-600''"
  "it_slug item_snowa_fridge_20cf = ''snowa-fridge-20cf''"
  "it_slug item_sony_ps5 = ''sony-ps5''"
  "it_slug item_sony_dualsense = ''sony-dualsense''"
  by (simp_all only: item_samsung_galaxy_a54_def
      item_xiaomi_redmi_note_12_def
      item_apple_iphone_13_def
      item_samsung_galaxy_s23_def
      item_apple_ipad_9th_gen_def
      item_samsung_galaxy_tab_s6_lite_def
      item_anker_charger_20w_def
      item_baseus_case_a54_def
      item_asus_vivobook_15_i5_def
      item_lenovo_ideapad_3_i7_def
      item_apple_macbook_air_m2_def
      item_hp_pavilion_ryzen7_def
      item_wd_ssd_1tb_def
      item_corsair_ram_16gb_def
      item_asus_rtx_4060_def
      item_logitech_mx_master_3_def
      item_rapoo_keyboard_v500_def
      item_sony_wh_1000xm5_def
      item_apple_airpods_2_def
      item_jbl_flip_6_def
      item_samsung_tv_55_qled_def
      item_lg_tv_43_uhd_def
      item_philips_vacuum_2100_def
      item_bosch_blender_600_def
      item_snowa_fridge_20cf_def
      item_sony_ps5_def
      item_sony_dualsense_def product_item.simps)

lemma item_skus [simp]:
  "it_sku item_samsung_galaxy_a54 = ''SGX-A54-128''"
  "it_sku item_xiaomi_redmi_note_12 = ''XIA-R12-256''"
  "it_sku item_apple_iphone_13 = ''APL-IP13-128''"
  "it_sku item_samsung_galaxy_s23 = ''SGX-S23-256''"
  "it_sku item_apple_ipad_9th_gen = ''APL-IPADA9''"
  "it_sku item_samsung_galaxy_tab_s6_lite = ''SGX-TABS6L''"
  "it_sku item_anker_charger_20w = ''ANK-CHG20W''"
  "it_sku item_baseus_case_a54 = ''BSS-CASE-A54''"
  "it_sku item_asus_vivobook_15_i5 = ''ASU-VB15-I5''"
  "it_sku item_lenovo_ideapad_3_i7 = ''LEN-IP3-I7''"
  "it_sku item_apple_macbook_air_m2 = ''APL-MBA-M2''"
  "it_sku item_hp_pavilion_ryzen7 = ''HP-PAV-R7''"
  "it_sku item_wd_ssd_1tb = ''WD-SSD-1TB''"
  "it_sku item_corsair_ram_16gb = ''COR-RAM16''"
  "it_sku item_asus_rtx_4060 = ''ASU-RTX4060''"
  "it_sku item_logitech_mx_master_3 = ''LOG-MX3''"
  "it_sku item_rapoo_keyboard_v500 = ''RAP-KB61''"
  "it_sku item_sony_wh_1000xm5 = ''SNY-WH1000''"
  "it_sku item_apple_airpods_2 = ''APL-AIRP2''"
  "it_sku item_jbl_flip_6 = ''JBL-FLIP6''"
  "it_sku item_samsung_tv_55_qled = ''SGX-TV55Q''"
  "it_sku item_lg_tv_43_uhd = ''LG-TV43UHD''"
  "it_sku item_philips_vacuum_2100 = ''PHI-VAC2100''"
  "it_sku item_bosch_blender_600 = ''BSH-BLND600''"
  "it_sku item_snowa_fridge_20cf = ''SNW-REF20''"
  "it_sku item_sony_ps5 = ''SNY-PS5''"
  "it_sku item_sony_dualsense = ''SNY-DS5''"
  by (simp_all only: item_samsung_galaxy_a54_def
      item_xiaomi_redmi_note_12_def
      item_apple_iphone_13_def
      item_samsung_galaxy_s23_def
      item_apple_ipad_9th_gen_def
      item_samsung_galaxy_tab_s6_lite_def
      item_anker_charger_20w_def
      item_baseus_case_a54_def
      item_asus_vivobook_15_i5_def
      item_lenovo_ideapad_3_i7_def
      item_apple_macbook_air_m2_def
      item_hp_pavilion_ryzen7_def
      item_wd_ssd_1tb_def
      item_corsair_ram_16gb_def
      item_asus_rtx_4060_def
      item_logitech_mx_master_3_def
      item_rapoo_keyboard_v500_def
      item_sony_wh_1000xm5_def
      item_apple_airpods_2_def
      item_jbl_flip_6_def
      item_samsung_tv_55_qled_def
      item_lg_tv_43_uhd_def
      item_philips_vacuum_2100_def
      item_bosch_blender_600_def
      item_snowa_fridge_20cf_def
      item_sony_ps5_def
      item_sony_dualsense_def product_item.simps)

lemma item_categories [simp]:
  "it_category_slug item_samsung_galaxy_a54 = ''mobile-phones''"
  "it_category_slug item_xiaomi_redmi_note_12 = ''mobile-phones''"
  "it_category_slug item_apple_iphone_13 = ''mobile-phones''"
  "it_category_slug item_samsung_galaxy_s23 = ''mobile-phones''"
  "it_category_slug item_apple_ipad_9th_gen = ''tablets''"
  "it_category_slug item_samsung_galaxy_tab_s6_lite = ''tablets''"
  "it_category_slug item_anker_charger_20w = ''mobile-accessories''"
  "it_category_slug item_baseus_case_a54 = ''mobile-accessories''"
  "it_category_slug item_asus_vivobook_15_i5 = ''laptops''"
  "it_category_slug item_lenovo_ideapad_3_i7 = ''laptops''"
  "it_category_slug item_apple_macbook_air_m2 = ''laptops''"
  "it_category_slug item_hp_pavilion_ryzen7 = ''laptops''"
  "it_category_slug item_wd_ssd_1tb = ''computer-parts''"
  "it_category_slug item_corsair_ram_16gb = ''computer-parts''"
  "it_category_slug item_asus_rtx_4060 = ''computer-parts''"
  "it_category_slug item_logitech_mx_master_3 = ''computer-accessories''"
  "it_category_slug item_rapoo_keyboard_v500 = ''computer-accessories''"
  "it_category_slug item_sony_wh_1000xm5 = ''headphones''"
  "it_category_slug item_apple_airpods_2 = ''headphones''"
  "it_category_slug item_jbl_flip_6 = ''speakers''"
  "it_category_slug item_samsung_tv_55_qled = ''televisions''"
  "it_category_slug item_lg_tv_43_uhd = ''televisions''"
  "it_category_slug item_philips_vacuum_2100 = ''small-appliances''"
  "it_category_slug item_bosch_blender_600 = ''small-appliances''"
  "it_category_slug item_snowa_fridge_20cf = ''refrigerators''"
  "it_category_slug item_sony_ps5 = ''game-consoles''"
  "it_category_slug item_sony_dualsense = ''gaming-accessories''"
  by (simp_all only: item_samsung_galaxy_a54_def
      item_xiaomi_redmi_note_12_def
      item_apple_iphone_13_def
      item_samsung_galaxy_s23_def
      item_apple_ipad_9th_gen_def
      item_samsung_galaxy_tab_s6_lite_def
      item_anker_charger_20w_def
      item_baseus_case_a54_def
      item_asus_vivobook_15_i5_def
      item_lenovo_ideapad_3_i7_def
      item_apple_macbook_air_m2_def
      item_hp_pavilion_ryzen7_def
      item_wd_ssd_1tb_def
      item_corsair_ram_16gb_def
      item_asus_rtx_4060_def
      item_logitech_mx_master_3_def
      item_rapoo_keyboard_v500_def
      item_sony_wh_1000xm5_def
      item_apple_airpods_2_def
      item_jbl_flip_6_def
      item_samsung_tv_55_qled_def
      item_lg_tv_43_uhd_def
      item_philips_vacuum_2100_def
      item_bosch_blender_600_def
      item_snowa_fridge_20cf_def
      item_sony_ps5_def
      item_sony_dualsense_def product_item.simps)

section \<open>Other fixed values\<close>

definition SHIPPING_ADDRESS :: shipping_address where
  "SHIPPING_ADDRESS =
     \<lparr> sa_recipient_name = text_of [Fa ''zhra aHmdy''],
       sa_province = text_of [Fa ''thran''],
       sa_city = text_of [Fa ''thran''],
       sa_address_line = text_of [Fa ''xyaban wlyeCr; nrsydh bh mydan wnk; plak 124; waHd 3''],
       sa_postal_code = ''1991634581'',
       sa_phone_number = ''09121234567'' \<rparr>"

definition TICKET_SUBJECT :: string where
  "TICKET_SUBJECT = text_of [Fa ''mSkl dr prdaxt sfarS'']"

definition WALLET_DEPOSIT_AMOUNT :: decimal where
  "WALLET_DEPOSIT_AMOUNT = 3000000"

definition WALLET_ADMIN_CREDIT_AMOUNT :: decimal where
  "WALLET_ADMIN_CREDIT_AMOUNT = 200000"

definition WALLET_ADMIN_CREDIT_REASON :: string where
  "WALLET_ADMIN_CREDIT_REASON = text_of [Fa ''jbran tOxyr dr arsal sfarS qbly (hdyh pStybany)'']"

definition PROCESSING_NOTE :: string where
  "PROCESSING_NOTE =
     text_of [Fa ''sfarS bsth_bndy w Amadh arsal Sd.'']"

definition SHIPPED_NOTE :: string where
  "SHIPPED_NOTE =
     text_of [Fa ''sfarS twsT pst pyStaz arsal Sd.'']"

definition COMPLETED_NOTE :: string where
  "COMPLETED_NOTE =
     text_of [Fa ''sfarS ba mwfqyt bh mStry tHwyl dadh Sd.'']"

definition CANCELLED_NOTE :: string where
  "CANCELLED_NOTE =
     text_of [Fa ''sfarS bh dlyl namwfq bwdn prdaxt lGw Sd.'']"

definition REFUNDED_NOTE :: string where
  "REFUNDED_NOTE =
     text_of [Fa ''kala twsT mStry mrjwe w mblG An bh kyf pwl waryz Sd.'']"

definition TICKET_MESSAGE :: string where
  "TICKET_MESSAGE =
     text_of [Fa ''slam; hngam prdaxt sfarSm mblG az Hsab banky_am ksr Sd ama wZeyt sfarS '',
              Fa ''hmcnan <dr antUar prdaxt> nSan dadh my_Swd. lTfaN brrsy knyd.'']"

definition FIRST_SUPPORT_REPLY :: string where
  "FIRST_SUPPORT_REPLY =
     text_of [Fa ''slam; Zmn pwzS babt ayn mSkl; brrsy krdym: traknS Sma twsT drgah prdaxt '',
              Fa ''tOyyd nSdh ast; bnabrayn mblGy az Hsab Sma ksr nSdh ya Urf 72 saet '',
              Fa ''Ayndh bh_Cwrt xwdkar bazgSt dadh my_Swd.'']"

definition CUSTOMER_REPLY :: string where
  "CUSTOMER_REPLY =
     text_of [Fa ''mtSkrm; brrsy krdm w hman_Twr kh frmwdyd mblG bazgSt dadh Sd. sfarS ra '',
              Fa ''dwbarh Vbt my_knm.'']"

definition SECOND_SUPPORT_REPLY :: string where
  "SECOND_SUPPORT_REPLY =
     text_of [Fa ''xyly xwSHalym kh mSkl Hl Sd. dr Cwrt brwz hrgwnh sWal dygr; tykt jdydy '',
              Fa ''Vbt knyd. ayn tykt bsth my_Swd.'']"

definition ADMIN_FIRST_NAME :: string where
  "ADMIN_FIRST_NAME = text_of [Fa ''mdyr'']"

definition ADMIN_LAST_NAME :: string where
  "ADMIN_LAST_NAME = text_of [Fa ''frwSgah'']"

definition CUSTOMER_FIRST_NAME :: string where
  "CUSTOMER_FIRST_NAME = text_of [Fa ''zhra'']"

definition CUSTOMER_LAST_NAME :: string where
  "CUSTOMER_LAST_NAME = text_of [Fa ''aHmdy'']"

end
