(* ===== verification/Seed.thy ===== *)
theory Seed
  imports Seed_Data Accounts
begin

text \<open>
  The seed script (\<open>app/scripts/seed.py\<close>), one function per step: categories, products, the two
  accounts, four orders with their payments and a refund, two wallet transactions and a ticket. The
  steps call the services of the application in one session; \<open>seed_main\<close> commits at the end or
  drops everything. Fresh identifiers, salts and the clock are in \<open>seed_fresh\<close>, the process
  environment is a map. The session does not flush before a query, so the two accounts are both
  looked up before either is stored.
\<close>

section \<open>What a run brings from outside\<close>

record seed_fresh =
  sf_now :: datetime
  sf_category :: "string \<Rightarrow> uuid"        \<comment> \<open>by slug\<close>
  sf_product :: "string \<Rightarrow> uuid"         \<comment> \<open>by slug\<close>
  sf_admin :: uuid
  sf_customer :: uuid
  sf_admin_salt :: string
  sf_customer_salt :: string
  sf_checkout :: "nat \<Rightarrow> checkout_fresh"
  sf_payment :: "nat \<Rightarrow> uuid"
  sf_wallet :: "nat \<Rightarrow> fresh_ids"
  sf_ticket :: "nat \<Rightarrow> ticket_fresh"

type_synonym environ = "string \<Rightarrow> string option"

definition environ_get :: "environ \<Rightarrow> string \<Rightarrow> string \<Rightarrow> string" where
  "environ_get environ name fallback = (case environ name of Some v \<Rightarrow> v | None \<Rightarrow> fallback)"

definition ADMIN_EMAIL :: "environ \<Rightarrow> string" where
  "ADMIN_EMAIL environ = environ_get environ ''SEED_ADMIN_EMAIL'' ''admin@example.com''"

definition ADMIN_PASSWORD :: "environ \<Rightarrow> string" where
  "ADMIN_PASSWORD environ = environ_get environ ''SEED_ADMIN_PASSWORD'' ''AdminDemo@1404''"

definition CUSTOMER_EMAIL :: "environ \<Rightarrow> string" where
  "CUSTOMER_EMAIL environ = environ_get environ ''SEED_CUSTOMER_EMAIL'' ''customer@example.com''"

definition CUSTOMER_PASSWORD :: "environ \<Rightarrow> string" where
  "CUSTOMER_PASSWORD environ = environ_get environ ''SEED_CUSTOMER_PASSWORD'' ''CustomerDemo@1404''"

section \<open>Categories\<close>

text \<open>One category: the stored one, or a new one.\<close>

definition seed_category ::
    "seed_fresh \<Rightarrow> uuid option \<Rightarrow> int \<Rightarrow> string \<Rightarrow> string \<Rightarrow> 'a catalog_db_scheme
     \<Rightarrow> exn + (uuid \<times> 'a catalog_db_scheme)" where
  "seed_category f parent sort_order name slug db =
     (case get_category_by_slug slug db of
        Some c \<Rightarrow> Inr (cat_id c, db)
      | None \<Rightarrow>
          let data = \<lparr> cc_name = name, cc_slug = slug, cc_parent_id = parent, cc_sort_order = sort_order \<rparr>
          in if \<not> category_create_valid data then Inl ValidationError
             else bindE (category_create (sf_category f slug) data db) (\<lambda>(c, db). Inr (cat_id c, db)))"

definition seed_child ::
    "seed_fresh \<Rightarrow> uuid \<Rightarrow> nat \<times> string \<times> string \<Rightarrow> (string \<Rightarrow> uuid option) \<times> 'a catalog_db_scheme
     \<Rightarrow> exn + ((string \<Rightarrow> uuid option) \<times> 'a catalog_db_scheme)" where
  "seed_child f top_id numbered s =
     (case numbered of (child_index, name, slug) \<Rightarrow>
       bindE (seed_category f (Some top_id) (int child_index) name slug (snd s)) (\<lambda>(cid, db).
         Inr ((fst s)(slug \<mapsto> cid), db)))"

definition seed_top ::
    "seed_fresh \<Rightarrow> nat \<times> category_entry \<Rightarrow> (string \<Rightarrow> uuid option) \<times> 'a catalog_db_scheme
     \<Rightarrow> exn + ((string \<Rightarrow> uuid option) \<times> 'a catalog_db_scheme)" where
  "seed_top f numbered s =
     (case numbered of (top_index, entry) \<Rightarrow>
       bindE (seed_category f None (int top_index) (ce_name entry) (ce_slug entry) (snd s)) (\<lambda>(tid, db).
         foldE (seed_child f tid) (enumerate 0 (ce_children entry)) ((fst s)(ce_slug entry \<mapsto> tid), db)))"

definition seed_categories ::
    "seed_fresh \<Rightarrow> 'a catalog_db_scheme \<Rightarrow> exn + ((string \<Rightarrow> uuid option) \<times> 'a catalog_db_scheme)" where
  "seed_categories f db = foldE (seed_top f) (enumerate 0 CATEGORY_TREE) (Map.empty, db)"

section \<open>Products\<close>

definition item_request :: "product_item \<Rightarrow> uuid \<Rightarrow> string \<Rightarrow> product_create_request" where
  "item_request item category_id photo =
     \<lparr> pc_sku = it_sku item, pc_name = it_name item, pc_slug = it_slug item,
       pc_short_description = it_short_description item, pc_description = it_description item,
       pc_price = it_price item, pc_discount_price = it_discount_price item, pc_brand = it_brand item,
       pc_category_id = category_id, pc_images = [photo],
       pc_specifications = it_specifications item, pc_is_active = True,
       pc_is_featured = it_is_featured item, pc_is_popular = it_is_popular item,
       pc_initial_stock = it_initial_stock item \<rparr>"

text \<open>A product that exists only gets the photo of its category; the assignment does not go through
  the service, so no cache entry is dropped.\<close>

definition refresh_image ::
    "datetime \<Rightarrow> string \<Rightarrow> product \<Rightarrow> 'a catalog_db_scheme \<Rightarrow> 'a catalog_db_scheme" where
  "refresh_image now photo p db =
     (if p_images p \<noteq> Some [photo]
      then db\<lparr>products := update_by p_id (p_id p)
                (\<lambda>p. p\<lparr>p_images := Some [photo], p_updated_at := now\<rparr>) (products db)\<rparr>
      else db)"

definition seed_product ::
    "(decimal \<Rightarrow> int) \<Rightarrow> seed_fresh \<Rightarrow> (string \<Rightarrow> uuid option) \<Rightarrow> product_item \<Rightarrow> 'a catalog_db_scheme
     \<Rightarrow> exn + 'a catalog_db_scheme" where
  "seed_product num f category_ids item db =
     bindE (category_placeholder_image (it_category_slug item)) (\<lambda>photo.
     bindE (get_by_slug_or_sku (it_slug item) (it_sku item) db) (\<lambda>existing.
       case existing of
         Some p \<Rightarrow> Inr (refresh_image (sf_now f) photo p db)
       | None \<Rightarrow>
           bindE (the_or KeyError (category_ids (it_category_slug item))) (\<lambda>cid.
             if \<not> product_create_valid (item_request item cid photo) then Inl ValidationError
             else bindE (product_create num (sf_product f (it_slug item)) (sf_now f)
                    (item_request item cid photo) db) (\<lambda>(p, db). Inr db))))"

definition seed_products ::
    "(decimal \<Rightarrow> int) \<Rightarrow> seed_fresh \<Rightarrow> (string \<Rightarrow> uuid option) \<Rightarrow> 'a catalog_db_scheme
     \<Rightarrow> exn + 'a catalog_db_scheme" where
  "seed_products num f category_ids db = foldE (seed_product num f category_ids) PRODUCTS db"

section \<open>Accounts\<close>

definition demo_user ::
    "auth_env \<Rightarrow> seed_fresh \<Rightarrow> uuid \<Rightarrow> string \<Rightarrow> string \<Rightarrow> string \<Rightarrow> string \<Rightarrow> string \<Rightarrow> string
     \<Rightarrow> user_role \<Rightarrow> user" where
  "demo_user env f uid email username salt password first_name last_name role =
     \<lparr> u_id = uid, u_email = e_lower env email, u_username = username,
       u_hashed_password = Some (e_hash_password env salt password), u_first_name = first_name,
       u_last_name = last_name, u_avatar = None, u_role = role, u_is_active = True,
       u_is_verified = True, u_last_login = None, u_created_at = sf_now f \<rparr>"

definition demo_admin :: "auth_env \<Rightarrow> environ \<Rightarrow> seed_fresh \<Rightarrow> user" where
  "demo_admin env environ f =
     demo_user env f (sf_admin f) (ADMIN_EMAIL environ) ''admin'' (sf_admin_salt f)
       (ADMIN_PASSWORD environ) ADMIN_FIRST_NAME ADMIN_LAST_NAME Admin"

definition demo_customer :: "auth_env \<Rightarrow> environ \<Rightarrow> seed_fresh \<Rightarrow> user" where
  "demo_customer env environ f =
     demo_user env f (sf_customer f) (CUSTOMER_EMAIL environ) ''customer'' (sf_customer_salt f)
       (CUSTOMER_PASSWORD environ) CUSTOMER_FIRST_NAME CUSTOMER_LAST_NAME Customer"

definition seed_users ::
    "auth_env \<Rightarrow> environ \<Rightarrow> seed_fresh \<Rightarrow> 'a accounts_db_scheme
     \<Rightarrow> exn + ((user \<times> user) \<times> 'a accounts_db_scheme)" where
  "seed_users env environ f db =
     (let (admin, new_admin) = (case get_user_by_email env (ADMIN_EMAIL environ) db of
            Some u \<Rightarrow> (u, []) | None \<Rightarrow> (demo_admin env environ f, [demo_admin env environ f]));
          (customer, new_customer) = (case get_user_by_email env (CUSTOMER_EMAIL environ) db of
            Some u \<Rightarrow> (u, []) | None \<Rightarrow> (demo_customer env environ f, [demo_customer env environ f]))
      in flush_accounts (admin, customer) (db\<lparr>users := users db @ new_admin @ new_customer\<rparr>))"

section \<open>Orders, payments and the refund\<close>

definition checkout_items ::
    "checkout_fresh \<Rightarrow> uuid \<Rightarrow> (string \<times> int) list \<Rightarrow> 'a orders_db_scheme
     \<Rightarrow> exn + (order \<times> 'a orders_db_scheme)" where
  "checkout_items k customer_id items db =
     bindE (foldE (\<lambda>(slug, quantity) db.
              bindE (the_or AssertionError (get_product_by_slug slug db)) (\<lambda>product.
                cart_add_item (k_cart k) customer_id (p_id product) quantity db)) items db)
       (checkout_service k customer_id (Some SHIPPING_ADDRESS))"

text \<open>\<open>uuid.hex\<close>: 32 hexadecimal digits.\<close>

definition hex_digit :: "nat \<Rightarrow> char" where
  "hex_digit n = char_of (if n < 10 then 48 + n else 87 + n)"

definition uuid_hex :: "uuid \<Rightarrow> string" where
  "uuid_hex u = map (\<lambda>i. hex_digit (u div 16 ^ (31 - i) mod 16)) [0..<32]"

definition demo_payment ::
    "uuid \<Rightarrow> datetime \<Rightarrow> order \<Rightarrow> uuid \<Rightarrow> payment_status \<Rightarrow> bool \<Rightarrow> string \<Rightarrow> payment" where
  "demo_payment new_id now ord user_id status verified gateway_status =
     \<lparr> pay_id = new_id, pay_order_id = o_id ord, pay_user_id = user_id, pay_gateway = ''zarinpal'',
       pay_authority = Some (''DEMO-'' @ take 20 (uuid_hex (o_id ord))), pay_amount = o_total ord,
       pay_status = status,
       pay_reference_id = (if verified then Some (''REF-'' @ take 12 (uuid_hex (o_id ord))) else None),
       pay_created_at = now, pay_verified_at = (if verified then Some now else None),
       pay_raw_gateway_response = Some (DemoSeed gateway_status) \<rparr>"

definition add_payment :: "payment \<Rightarrow> 'a payments_db_scheme \<Rightarrow> 'a payments_db_scheme" where
  "add_payment p db = db\<lparr>payments := payments db @ [p]\<rparr>"

text \<open>Status changes in a row, each with its note.\<close>

definition admin_updates ::
    "datetime \<Rightarrow> uuid \<Rightarrow> uuid \<Rightarrow> (order_status \<times> string) list \<Rightarrow> 'a orders_db_scheme
     \<Rightarrow> exn + 'a orders_db_scheme" where
  "admin_updates now oid actor changes db =
     foldE (\<lambda>(st, note) db. bindE (admin_update_status now oid st (Some note) actor db) (\<lambda>(ord, db). Inr db))
       changes db"

text \<open>An order that is paid, packed, sent and delivered.\<close>

definition deliver_order :: "datetime \<Rightarrow> uuid \<Rightarrow> uuid \<Rightarrow> 'a orders_db_scheme \<Rightarrow> exn + 'a orders_db_scheme" where
  "deliver_order now oid actor db =
     bindE (mark_paid now oid db) (\<lambda>(ord, db).
       admin_updates now oid actor
         [(OrdProcessing, PROCESSING_NOTE), (OrdShipped, SHIPPED_NOTE), (OrdCompleted, COMPLETED_NOTE)] db)"

definition seed_order_a :: "seed_fresh \<Rightarrow> uuid \<Rightarrow> uuid \<Rightarrow> 'a payments_db_scheme \<Rightarrow> exn + 'a payments_db_scheme" where
  "seed_order_a f admin_id customer_id db =
     bindE (checkout_items (sf_checkout f 0) customer_id
              [(''samsung-galaxy-a54'', 1), (''jbl-flip-6'', 1)] db) (\<lambda>(ord, db).
     bindE (deliver_order (sf_now f) (o_id ord) admin_id db) (\<lambda>db.
       Inr (add_payment (demo_payment (sf_payment f 0) (sf_now f) ord customer_id PayVerified True ''OK'') db)))"

definition seed_order_b :: "seed_fresh \<Rightarrow> uuid \<Rightarrow> 'a payments_db_scheme \<Rightarrow> exn + 'a payments_db_scheme" where
  "seed_order_b f customer_id db =
     bindE (checkout_items (sf_checkout f 1) customer_id [(''apple-airpods-2'', 1)] db) (\<lambda>(ord, db).
       Inr (add_payment
         (demo_payment (sf_payment f 1) (sf_now f) ord customer_id PayInitiated False ''PENDING'') db))"

definition seed_order_c :: "seed_fresh \<Rightarrow> uuid \<Rightarrow> uuid \<Rightarrow> 'a payments_db_scheme \<Rightarrow> exn + 'a payments_db_scheme" where
  "seed_order_c f admin_id customer_id db =
     bindE (checkout_items (sf_checkout f 2) customer_id [(''logitech-mx-master-3'', 2)] db) (\<lambda>(ord, db).
     bindE (mark_payment_failed (sf_now f) (o_id ord) db) (\<lambda>(ord', db).
       admin_updates (sf_now f) (o_id ord) admin_id [(OrdCancelled, CANCELLED_NOTE)]
         (add_payment
           (demo_payment (sf_payment f 2) (sf_now f) ord customer_id PayFailed False ''NOK'') db)))"

definition seed_order_d ::
    "(decimal \<Rightarrow> int) \<Rightarrow> seed_fresh \<Rightarrow> uuid \<Rightarrow> uuid \<Rightarrow> 'a payments_db_scheme \<Rightarrow> exn + 'a payments_db_scheme" where
  "seed_order_d num f admin_id customer_id db =
     bindE (checkout_items (sf_checkout f 3) customer_id [(''sony-dualsense'', 2)] db) (\<lambda>(ord, db).
     bindE (deliver_order (sf_now f) (o_id ord) admin_id db) (\<lambda>db.
     bindE (flush_payments () (add_payment
              (demo_payment (sf_payment f 3) (sf_now f) ord customer_id PayVerified True ''OK'') db)) (\<lambda>(_, db).
     bindE (admin_updates (sf_now f) (o_id ord) admin_id [(OrdRefunded, REFUNDED_NOTE)] db) (\<lambda>db.
     bindE (refund_order num (sf_wallet f 0) customer_id (of_int (o_total ord)) (o_id ord) admin_id db) (\<lambda>(t, db).
       bindE (flush_payments () db) (\<lambda>(_, db). Inr db))))))"

definition seed_orders_payments_and_wallet_refund ::
    "(decimal \<Rightarrow> int) \<Rightarrow> seed_fresh \<Rightarrow> user \<Rightarrow> user \<Rightarrow> 'a payments_db_scheme
     \<Rightarrow> exn + 'a payments_db_scheme" where
  "seed_orders_payments_and_wallet_refund num f admin customer db =
     (let (_, existing_count) = list_for_user (u_id customer) 0 1 db
      in if 0 < existing_count then Inr db
         else bindE (seed_order_a f (u_id admin) (u_id customer) db) (\<lambda>db.
              bindE (seed_order_b f (u_id customer) db) (\<lambda>db.
              bindE (seed_order_c f (u_id admin) (u_id customer) db) (\<lambda>db.
                seed_order_d num f (u_id admin) (u_id customer) db))))"

section \<open>Wallet and ticket\<close>

definition seed_deposit ::
    "(decimal \<Rightarrow> int) \<Rightarrow> seed_fresh \<Rightarrow> uuid \<Rightarrow> uuid \<Rightarrow> 'a wallet_db_scheme \<Rightarrow> exn + 'a wallet_db_scheme" where
  "seed_deposit num f wid customer_id db =
     bindE (scalar_one_or_none (filter (\<lambda>t. wt_wallet_id t = wid \<and> wt_type t = Deposit)
              (wallet_transactions db))) (\<lambda>existing_deposit.
       if existing_deposit \<noteq> None then Inr db
       else bindE (deposit num (sf_wallet f 1) customer_id WALLET_DEPOSIT_AMOUNT db) (\<lambda>(t, db). Inr db))"

definition seed_credit ::
    "(decimal \<Rightarrow> int) \<Rightarrow> seed_fresh \<Rightarrow> uuid \<Rightarrow> uuid \<Rightarrow> uuid \<Rightarrow> 'a wallet_db_scheme
     \<Rightarrow> exn + 'a wallet_db_scheme" where
  "seed_credit num f wid customer_id admin_id db =
     bindE (scalar_one_or_none (filter (\<lambda>t. wt_wallet_id t = wid
                \<and> wt_note t = Some (UserNote WALLET_ADMIN_CREDIT_REASON))
              (wallet_transactions db))) (\<lambda>existing_credit.
       if existing_credit \<noteq> None then Inr db
       else bindE (admin_credit num (sf_wallet f 2) customer_id WALLET_ADMIN_CREDIT_AMOUNT
                     WALLET_ADMIN_CREDIT_REASON admin_id db) (\<lambda>(t, db). Inr db))"

definition seed_wallet_extras ::
    "(decimal \<Rightarrow> int) \<Rightarrow> seed_fresh \<Rightarrow> user \<Rightarrow> user \<Rightarrow> 'a wallet_db_scheme \<Rightarrow> exn + 'a wallet_db_scheme" where
  "seed_wallet_extras num f admin customer db =
     (let (w, db1) = get_or_create_wallet (f_wallet (sf_wallet f 1)) (u_id customer) db
      in bindE (seed_deposit num f (w_id w) (u_id customer) db1)
           (seed_credit num f (w_id w) (u_id customer) (u_id admin)))"

definition seed_ticket :: "seed_fresh \<Rightarrow> user \<Rightarrow> user \<Rightarrow> 'a tickets_db_scheme \<Rightarrow> exn + 'a tickets_db_scheme" where
  "seed_ticket f admin customer db =
     bindE (scalar_one_or_none (filter (\<lambda>t. tk_user_id t = u_id customer \<and> tk_subject t = TICKET_SUBJECT)
              (tickets db))) (\<lambda>existing.
       if existing \<noteq> None then Inr db
       else
         let (t, db) = ticket_create (sf_ticket f 0) (u_id customer) TICKET_SUBJECT TICKET_MESSAGE TkHigh db
         in bindE (add_support_reply (sf_ticket f 1) (tk_id t) admin FIRST_SUPPORT_REPLY db) (\<lambda>db.
            bindE (add_customer_reply (sf_ticket f 2) (tk_id t) customer CUSTOMER_REPLY db) (\<lambda>db.
            bindE (add_support_reply (sf_ticket f 3) (tk_id t) admin SECOND_SUPPORT_REPLY db) (\<lambda>db.
              change_status (sf_ticket f 4) (tk_id t) TkClosed db))))"

section \<open>The script\<close>

definition seed_all ::
    "auth_env \<Rightarrow> (decimal \<Rightarrow> int) \<Rightarrow> environ \<Rightarrow> seed_fresh \<Rightarrow> 'a accounts_db_scheme
     \<Rightarrow> exn + 'a accounts_db_scheme" where
  "seed_all env num environ f db =
     bindE (seed_categories f db) (\<lambda>(category_ids, db).
     bindE (seed_products num f category_ids db) (\<lambda>db.
     bindE (seed_users env environ f db) (\<lambda>((admin, customer), db).
     bindE (seed_orders_payments_and_wallet_refund num f admin customer db) (\<lambda>db.
     bindE (seed_wallet_extras num f admin customer db) (\<lambda>db.
       seed_ticket f admin customer db)))))"

definition seed_summary :: "'a accounts_db_scheme \<Rightarrow> (string \<times> nat) list" where
  "seed_summary db =
     [(''categories'', length (categories db)), (''products'', length (products db)),
      (''users'', length (users db)), (''orders'', length (orders db)),
      (''payments'', length (payments db)), (''wallet_transactions'', length (wallet_transactions db)),
      (''tickets'', length (tickets db)), (''ticket_messages'', length (ticket_messages db))]"

text \<open>The transaction: committed at the end, rolled back on any exception, which is raised again.\<close>

definition seed_main ::
    "auth_env \<Rightarrow> (decimal \<Rightarrow> int) \<Rightarrow> environ \<Rightarrow> seed_fresh \<Rightarrow> 'a accounts_db_scheme
     \<Rightarrow> (exn + (string \<times> nat) list) \<times> 'a accounts_db_scheme" where
  "seed_main env num environ f db =
     request db (bindE (seed_all env num environ f db) (\<lambda>db. Inr (seed_summary db, db)))"

end
