(* ===== verification/Schema.thy ===== *)
theory Schema
  imports Errors
begin

text \<open>
  The database schema and the statements that change it: column types, constraints and indexes as
  the ORM classes and the migrations name them, the DDL statements the migrations issue, and what
  PostgreSQL makes of them (names are unique, a foreign key needs its target, a table that others
  refer to cannot be dropped). An enumerated column type is an object of its own: creating the table
  creates it, dropping the table does not drop it.
\<close>

section \<open>Tables, indexes, types\<close>

datatype sql_type =
    String_T nat
  | Text_T
  | UUID_T
  | Boolean_T
  | Integer_T
  | Numeric_T nat nat
  | DateTime_T                          \<comment> \<open>\<open>DateTime(timezone=True)\<close>\<close>
  | Enum_T "string list" string         \<comment> \<open>the values and the name of the type\<close>
  | JSONB_T

datatype server_default = Literal_Default string | Sql_Default string

datatype sql_column =
  Column (col_name: string) (col_type: sql_type) (col_default: "server_default option") (col_nullable: bool)

datatype ondelete = Cascade | Set_Null | Restrict

datatype sql_constraint =
    PrimaryKeyConstraint "string list"
  | UniqueConstraint "string list" "string option"
  | ForeignKeyConstraint string string string ondelete  \<comment> \<open>column, table and column referred to\<close>
  | CheckConstraint string string                       \<comment> \<open>condition, name\<close>

datatype sql_table =
  Table (tb_name: string) (tb_columns: "sql_column list") (tb_constraints: "sql_constraint list")

datatype index_kind = Btree | Unique_Btree | Gin_Trgm

datatype sql_index =
  Index (ix_name: string) (ix_table: string) (ix_columns: "string list") (ix_kind: index_kind)

record schema =
  sc_tables :: "sql_table list"
  sc_indexes :: "sql_index list"
  sc_types :: "(string \<times> string list) list"
  sc_extensions :: "string list"

definition empty_schema :: schema where
  "empty_schema = \<lparr> sc_tables = [], sc_indexes = [], sc_types = [], sc_extensions = [] \<rparr>"

definition find_table :: "string \<Rightarrow> 'a schema_scheme \<Rightarrow> sql_table option" where
  "find_table n s = find (\<lambda>t. tb_name t = n) (sc_tables s)"

definition has_columns :: "sql_table \<Rightarrow> string list \<Rightarrow> bool" where
  "has_columns t cs \<longleftrightarrow> set cs \<subseteq> set (map col_name (tb_columns t))"

definition column_enums :: "sql_column list \<Rightarrow> (string \<times> string list) list" where
  "column_enums cs = concat (map (\<lambda>c. case col_type c of Enum_T vs n \<Rightarrow> [(n, vs)] | _ \<Rightarrow> []) cs)"

section \<open>Statements\<close>

datatype ddl =
    Create_Table string "sql_column list" "sql_constraint list"
  | Drop_Table string
  | Create_Index sql_index
  | Drop_Index string
  | Drop_Index_If_Exists string
  | Create_Extension_If_Not_Exists string

text \<open>Which tables a constraint needs: a foreign key may also refer to the table being created.\<close>

fun constraint_ok :: "'a schema_scheme \<Rightarrow> sql_table \<Rightarrow> sql_constraint \<Rightarrow> bool" where
  "constraint_ok s t (PrimaryKeyConstraint cs) = has_columns t cs"
| "constraint_ok s t (UniqueConstraint cs n) = has_columns t cs"
| "constraint_ok s t (ForeignKeyConstraint c u d a) =
     (has_columns t [c] \<and>
      (case (if u = tb_name t then Some t else find_table u s) of
         None \<Rightarrow> False
       | Some v \<Rightarrow> has_columns v [d]))"
| "constraint_ok s t (CheckConstraint e n) = True"

fun refers_to :: "string \<Rightarrow> sql_constraint \<Rightarrow> bool" where
  "refers_to n (ForeignKeyConstraint c u d a) = (u = n)"
| "refers_to n _ = False"

text \<open>A run of migrations keeps the names of the types it has created. \<open>checked\<close> stands for the
  library: whether it looks up a type in the database before it issues \<open>CREATE TYPE\<close>.\<close>

record ddl_run = schema +
  run_types :: "string list"

definition create_type ::
    "bool \<Rightarrow> string \<times> string list \<Rightarrow> 'a ddl_run_scheme \<Rightarrow> exn + 'a ddl_run_scheme" where
  "create_type checked ty s =
     (if fst ty \<in> set (run_types s) then Inr s
      else if fst ty \<in> set (map fst (sc_types s)) then
        (if checked then Inr (s\<lparr> run_types := fst ty # run_types s \<rparr>) else Inl DBAPIError)
      else Inr (s\<lparr> run_types := fst ty # run_types s, sc_types := sc_types s @ [ty] \<rparr>))"

definition drop_index :: "string \<Rightarrow> 'a schema_scheme \<Rightarrow> 'a schema_scheme" where
  "drop_index n s = s\<lparr> sc_indexes := filter (\<lambda>i. ix_name i \<noteq> n) (sc_indexes s) \<rparr>"

fun apply_ddl :: "bool \<Rightarrow> ddl \<Rightarrow> 'a ddl_run_scheme \<Rightarrow> exn + 'a ddl_run_scheme" where
  "apply_ddl checked (Create_Table n cs ks) s =
     (if find_table n s \<noteq> None \<or> \<not> distinct (map col_name cs)
        \<or> \<not> list_all (constraint_ok s (Table n cs ks)) ks then Inl DBAPIError
      else bindE (foldE (create_type checked) (column_enums cs) s) (\<lambda>s.
        Inr (s\<lparr> sc_tables := sc_tables s @ [Table n cs ks] \<rparr>)))"
| "apply_ddl checked (Drop_Table n) s =
     (if find_table n s = None
        \<or> list_ex (\<lambda>t. tb_name t \<noteq> n \<and> list_ex (refers_to n) (tb_constraints t)) (sc_tables s)
      then Inl DBAPIError
      else Inr (s\<lparr> sc_tables := filter (\<lambda>t. tb_name t \<noteq> n) (sc_tables s),
                   sc_indexes := filter (\<lambda>i. ix_table i \<noteq> n) (sc_indexes s) \<rparr>))"
| "apply_ddl checked (Create_Index i) s =
     (case find_table (ix_table i) s of
        None \<Rightarrow> Inl DBAPIError
      | Some t \<Rightarrow>
          if \<not> has_columns t (ix_columns i) \<or> ix_name i \<in> set (map ix_name (sc_indexes s))
             \<or> (ix_kind i = Gin_Trgm \<and> ''pg_trgm'' \<notin> set (sc_extensions s)) then Inl DBAPIError
          else Inr (s\<lparr> sc_indexes := sc_indexes s @ [i] \<rparr>))"
| "apply_ddl checked (Drop_Index n) s =
     (if n \<notin> set (map ix_name (sc_indexes s)) then Inl DBAPIError else Inr (drop_index n s))"
| "apply_ddl checked (Drop_Index_If_Exists n) s = Inr (drop_index n s)"
| "apply_ddl checked (Create_Extension_If_Not_Exists n) s =
     Inr (if n \<in> set (sc_extensions s) then s else s\<lparr> sc_extensions := sc_extensions s @ [n] \<rparr>)"

definition run_ddl :: "bool \<Rightarrow> ddl list \<Rightarrow> 'a ddl_run_scheme \<Rightarrow> exn + 'a ddl_run_scheme" where
  "run_ddl checked = foldE (apply_ddl checked)"

lemma run_ddl_simps [simp]:
  "run_ddl checked [] s = Inr s"
  "run_ddl checked (d # ds) s = bindE (apply_ddl checked d s) (run_ddl checked ds)"
  by (simp_all add: run_ddl_def)

lemma run_ddl_append: "run_ddl checked (ds @ es) s = bindE (run_ddl checked ds s) (run_ddl checked es)"
  by (simp add: run_ddl_def foldE_append)

lemma find_table_None: "find_table n s = None \<longleftrightarrow> n \<notin> set (map tb_name (sc_tables s))"
  by (auto simp: find_table_def find_None_iff)

lemma find_table_Some: "find_table n s = Some t \<Longrightarrow> t \<in> set (sc_tables s) \<and> tb_name t = n"
  by (auto simp: find_table_def find_Some_iff)

text \<open>Creating types touches the types only.\<close>

lemma create_types_frame:
  "foldE (create_type checked) ts s = Inr s' \<Longrightarrow>
     sc_tables s' = sc_tables s \<and> sc_indexes s' = sc_indexes s \<and> sc_extensions s' = sc_extensions s"
proof (induction ts arbitrary: s)
  case (Cons a ts)
  from Cons.prems obtain u where u: "create_type checked a s = Inr u" "foldE (create_type checked) ts u = Inr s'"
    by (auto simp: bindE_eq_Inr)
  from u(1) have "sc_tables u = sc_tables s \<and> sc_indexes u = sc_indexes s \<and> sc_extensions u = sc_extensions s"
    by (auto simp: create_type_def split: if_splits)
  with Cons.IH [OF u(2)] show ?case by simp
qed simp

section \<open>The schema stays consistent\<close>

text \<open>Names are unique, every index is on a table, every foreign key finds its table.\<close>

definition schema_ok :: "'a schema_scheme \<Rightarrow> bool" where
  "schema_ok s \<longleftrightarrow>
     distinct (map tb_name (sc_tables s)) \<and> distinct (map ix_name (sc_indexes s))
     \<and> (\<forall>i \<in> set (sc_indexes s). ix_table i \<in> tb_name ` set (sc_tables s))
     \<and> (\<forall>t \<in> set (sc_tables s). \<forall>k \<in> set (tb_constraints t). \<forall>n.
          refers_to n k \<longrightarrow> n \<in> tb_name ` set (sc_tables s))"

lemma constraint_target:
  "constraint_ok s t k \<Longrightarrow> refers_to n k \<Longrightarrow> n = tb_name t \<or> n \<in> tb_name ` set (sc_tables s)"
  by (cases k) (auto split: option.splits if_splits dest: find_table_Some)

lemma create_table_Inr:
  assumes "apply_ddl checked (Create_Table n cs ks) s = Inr s'"
  shows "n \<notin> set (map tb_name (sc_tables s))" "list_all (constraint_ok s (Table n cs ks)) ks"
    "sc_tables s' = sc_tables s @ [Table n cs ks]" "sc_indexes s' = sc_indexes s"
    "sc_extensions s' = sc_extensions s"
  using assms create_types_frame
  by (force simp: bindE_eq_Inr find_table_None split: if_splits)+

lemma create_index_Inr:
  assumes "apply_ddl checked (Create_Index i) s = Inr s'"
  shows "ix_table i \<in> tb_name ` set (sc_tables s)" "ix_name i \<notin> set (map ix_name (sc_indexes s))"
    "s' = s\<lparr> sc_indexes := sc_indexes s @ [i] \<rparr>"
  using assms find_table_Some [of "ix_table i" s]
  by (auto split: option.splits if_splits intro: image_eqI [rotated])

lemma names_without: "f ` {x \<in> A. f x \<noteq> n} = f ` A - {n}"
  by auto

lemma apply_ddl_keeps_schema_ok:
  assumes "schema_ok s" "apply_ddl checked d s = Inr s'"
  shows "schema_ok s'"
proof (cases d)
  case (Create_Table n cs ks)
  note c = create_table_Inr [OF assms(2) [unfolded Create_Table]]
  from c(2) have "refers_to m k \<Longrightarrow> m = n \<or> m \<in> tb_name ` set (sc_tables s)" if "k \<in> set ks" for m k
    using that constraint_target [of s "Table n cs ks" k m] by (auto simp: list_all_iff)
  with assms(1) c(1) show ?thesis by (auto simp: schema_ok_def c(3,4))
next
  case (Create_Index i)
  from assms(1) create_index_Inr [OF assms(2) [unfolded Create_Index]] show ?thesis
    by (auto simp: schema_ok_def)
next
  case (Drop_Table n)
  with assms(2) have s': "s' = s\<lparr> sc_tables := filter (\<lambda>t. tb_name t \<noteq> n) (sc_tables s),
      sc_indexes := filter (\<lambda>i. ix_table i \<noteq> n) (sc_indexes s) \<rparr>"
    and free: "\<forall>t \<in> set (sc_tables s). tb_name t \<noteq> n \<longrightarrow> (\<forall>k \<in> set (tb_constraints t). \<not> refers_to n k)"
    by (auto simp: list_ex_iff split: if_splits)
  from assms(1) free show ?thesis
    by (auto simp: schema_ok_def s' names_without distinct_map_filter)
next
  case (Drop_Index n)
  with assms show ?thesis by (auto simp: schema_ok_def drop_index_def distinct_map inj_on_def split: if_splits)
next
  case (Drop_Index_If_Exists n)
  with assms show ?thesis by (auto simp: schema_ok_def drop_index_def distinct_map inj_on_def)
next
  case (Create_Extension_If_Not_Exists n)
  with assms show ?thesis by (cases "n \<in> set (sc_extensions s)") (auto simp: schema_ok_def)
qed

lemma run_ddl_keeps_schema_ok:
  "run_ddl checked ds s = Inr s' \<Longrightarrow> schema_ok s \<Longrightarrow> schema_ok s'"
  unfolding run_ddl_def by (erule foldE_invariant) (auto intro: apply_ddl_keeps_schema_ok)

section \<open>Runs that only create\<close>

fun creates :: "ddl \<Rightarrow> bool" where
  "creates (Create_Table n cs ks) = True"
| "creates (Create_Index i) = True"
| "creates (Create_Extension_If_Not_Exists n) = True"
| "creates _ = False"

definition created_tables :: "ddl list \<Rightarrow> sql_table list" where
  "created_tables ds = concat (map (\<lambda>d. case d of Create_Table n cs ks \<Rightarrow> [Table n cs ks] | _ \<Rightarrow> []) ds)"

definition created_indexes :: "ddl list \<Rightarrow> sql_index list" where
  "created_indexes ds = concat (map (\<lambda>d. case d of Create_Index i \<Rightarrow> [i] | _ \<Rightarrow> []) ds)"

lemma run_ddl_creates:
  "run_ddl checked ds s = Inr s' \<Longrightarrow> list_all creates ds \<Longrightarrow>
     sc_tables s' = sc_tables s @ created_tables ds \<and> sc_indexes s' = sc_indexes s @ created_indexes ds"
proof (induction ds arbitrary: s)
  case (Cons d ds)
  from Cons.prems obtain u where u: "apply_ddl checked d s = Inr u" "run_ddl checked ds u = Inr s'"
    by (auto simp: bindE_eq_Inr)
  from u(1) Cons.prems(2) have "sc_tables u = sc_tables s @ created_tables [d] \<and> sc_indexes u = sc_indexes s @ created_indexes [d]"
    by (cases d) (auto simp: created_tables_def created_indexes_def simp del: apply_ddl.simps
        dest: create_table_Inr create_index_Inr, auto)
  with Cons.IH [OF u(2)] Cons.prems(2) show ?case by (simp add: created_tables_def created_indexes_def)
qed (simp add: created_tables_def created_indexes_def)

text \<open>While every type of the database was made by the run itself, it does not matter whether the
  library looks types up first.\<close>

definition own_types :: "'a ddl_run_scheme \<Rightarrow> bool" where
  "own_types s \<longleftrightarrow> set (map fst (sc_types s)) \<subseteq> set (run_types s)"

lemma create_types_unchecked:
  "own_types s \<Longrightarrow> foldE (create_type c) ts s = foldE (create_type c') ts s
     \<and> (\<forall>s'. foldE (create_type c) ts s = Inr s' \<longrightarrow> own_types s')"
proof (induction ts arbitrary: s)
  case (Cons ty ts)
  let ?u = "if fst ty \<in> set (run_types s) then s
    else s\<lparr> run_types := fst ty # run_types s, sc_types := sc_types s @ [ty] \<rparr>"
  from Cons.prems have u: "create_type c ty s = Inr ?u" "create_type c' ty s = Inr ?u" "own_types ?u"
    by (auto simp: create_type_def own_types_def)
  from Cons.IH [OF u(3)] show ?case unfolding foldE.simps u(1,2) bindE_simps .
qed simp

lemma apply_ddl_own_types:
  assumes "own_types s" "apply_ddl c d s = Inr u"
  shows "own_types u"
proof (cases d)
  case (Create_Table n cs ks)
  with assms(2) obtain v where v: "foldE (create_type c) (column_enums cs) s = Inr v"
    "u = v\<lparr> sc_tables := sc_tables v @ [Table n cs ks] \<rparr>"
    by (auto simp: bindE_eq_Inr split: if_splits)
  with create_types_unchecked [OF assms(1), of c "column_enums cs" c] show ?thesis
    by (simp add: own_types_def)
qed (use assms in \<open>auto simp: drop_index_def own_types_def simp del: set_map split: if_splits option.splits\<close>)

lemma run_ddl_unchecked:
  "own_types s \<Longrightarrow> run_ddl c ds s = run_ddl c' ds s"
proof (induction ds arbitrary: s)
  case (Cons d ds)
  have e: "apply_ddl c d s = apply_ddl c' d s"
    using create_types_unchecked [OF Cons.prems, of c _ c'] by (cases d) simp_all
  show ?case
  proof (cases "apply_ddl c d s")
    case (Inr u)
    have "own_types u" by (rule apply_ddl_own_types [OF Cons.prems Inr])
    from Cons.IH [OF this] Inr e show ?thesis by simp
  qed (use e in simp)
qed simp

section \<open>Undoing\<close>

text \<open>What drops again what a statement has created. The types stay.\<close>

fun undo :: "ddl \<Rightarrow> ddl list" where
  "undo (Create_Table n cs ks) = [Drop_Table n]"
| "undo (Create_Index i) = [if ix_kind i = Gin_Trgm then Drop_Index_If_Exists (ix_name i) else Drop_Index (ix_name i)]"
| "undo _ = []"

definition undo_all :: "ddl list \<Rightarrow> ddl list" where
  "undo_all ds = concat (map undo (rev ds))"

lemma filter_fresh: "x \<notin> f ` set xs \<Longrightarrow> filter (\<lambda>y. f y \<noteq> x) xs = xs"
  by (induction xs) auto

lemma undo_one:
  assumes ok: "schema_ok s" and a: "apply_ddl checked d s = Inr s'" and c: "creates d"
    and t: "sc_tables t = sc_tables s'" "sc_indexes t = sc_indexes s'"
  shows "run_ddl checked' (undo d) t = Inr (t\<lparr> sc_tables := sc_tables s, sc_indexes := sc_indexes s \<rparr>)"
proof (cases d)
  case (Create_Table n cs ks)
  note k = create_table_Inr [OF a [unfolded Create_Table]]
  from ok k(1) have "n \<notin> ix_table ` set (sc_indexes s)"
    "\<not> list_ex (\<lambda>u. tb_name u \<noteq> n \<and> list_ex (refers_to n) (tb_constraints u)) (sc_tables t)"
    by (auto simp: schema_ok_def list_ex_iff t k(3))
  with k(1) show ?thesis
    by (simp add: Create_Table find_table_None t k(3,4) filter_fresh)
next
  case (Create_Index i)
  note k = create_index_Inr [OF a [unfolded Create_Index]]
  from k(2) have "filter (\<lambda>j. ix_name j \<noteq> ix_name i) (sc_indexes s) = sc_indexes s"
    by (intro filter_fresh) simp
  then show ?thesis by (simp add: Create_Index drop_index_def t k(3))
next
  case (Create_Extension_If_Not_Exists n)
  with a t show ?thesis by (auto split: if_splits)
qed (use c in simp_all)

lemma undo_run:
  "run_ddl checked ds s = Inr s' \<Longrightarrow> schema_ok s \<Longrightarrow> list_all creates ds \<Longrightarrow>
     sc_tables t = sc_tables s' \<Longrightarrow> sc_indexes t = sc_indexes s' \<Longrightarrow>
     run_ddl checked' (undo_all ds) t = Inr (t\<lparr> sc_tables := sc_tables s, sc_indexes := sc_indexes s \<rparr>)"
proof (induction ds arbitrary: s)
  case Nil
  then show ?case by (simp add: undo_all_def)
next
  case (Cons d ds)
  then obtain u where u: "apply_ddl checked d s = Inr u" "run_ddl checked ds u = Inr s'"
    by (auto simp: bindE_eq_Inr)
  let ?t = "t\<lparr> sc_tables := sc_tables u, sc_indexes := sc_indexes u \<rparr>"
  have "run_ddl checked' (undo_all ds) t = Inr ?t"
    using Cons.IH [OF u(2) apply_ddl_keeps_schema_ok [OF Cons.prems(2) u(1)]] Cons.prems by simp
  moreover have "run_ddl checked' (undo d) ?t = Inr (?t\<lparr> sc_tables := sc_tables s, sc_indexes := sc_indexes s \<rparr>)"
    by (rule undo_one [OF Cons.prems(2) u(1)]) (use Cons.prems(3) in simp_all)
  ultimately show ?case by (simp add: undo_all_def run_ddl_append)
qed

end
