(* ===== verification/Orm_Metadata.thy ===== *)
theory Orm_Metadata
  imports Schema
begin

text \<open>
  The tables the ORM classes declare (the \<open>models.py\<close> files, \<open>db/base.py\<close>, collected by
  \<open>db/model_registry.py\<close>): each \<open>mapped_column\<close> with the options that reach the database, and the
  columns, constraints and indexes SQLAlchemy derives from them. Relationships and the defaults that
  Python fills in leave no trace in the schema.
\<close>

section \<open>Declarative classes\<close>

record mapped_column =
  mc_name :: string
  mc_type :: sql_type
  mc_nullable :: bool
  mc_foreign_key :: "(string \<times> string \<times> ondelete) option"
  mc_primary_key :: bool
  mc_unique :: bool
  mc_index :: bool
  mc_server_default :: "server_default option"

definition required :: "string \<Rightarrow> sql_type \<Rightarrow> mapped_column" where
  "required n t =
     \<lparr> mc_name = n, mc_type = t, mc_nullable = False, mc_foreign_key = None, mc_primary_key = False,
       mc_unique = False, mc_index = False, mc_server_default = None \<rparr>"

definition optional :: "string \<Rightarrow> sql_type \<Rightarrow> mapped_column" where
  "optional n t = (required n t)\<lparr> mc_nullable := True \<rparr>"

record orm_class =
  cls_tablename :: string
  cls_columns :: "mapped_column list"
  cls_mixins :: "mapped_column list list"
  cls_table_args :: "sql_constraint list"
  cls_indexes :: "sql_index list"

definition UUIDPrimaryKeyMixin :: "mapped_column list" where
  "UUIDPrimaryKeyMixin = [(required ''id'' UUID_T)\<lparr> mc_primary_key := True \<rparr>]"

definition TimestampMixin :: "mapped_column list" where
  "TimestampMixin =
     [(required ''created_at'' DateTime_T)\<lparr> mc_server_default := Some (Sql_Default ''now()'') \<rparr>,
      (required ''updated_at'' DateTime_T)\<lparr> mc_server_default := Some (Sql_Default ''now()'') \<rparr>]"

text \<open>What a class becomes: a unique column with an index gets a unique index, without one a unique
  constraint.\<close>

definition all_columns :: "orm_class \<Rightarrow> mapped_column list" where
  "all_columns c = cls_columns c @ concat (cls_mixins c)"

definition column_of :: "mapped_column \<Rightarrow> sql_column" where
  "column_of m = Column (mc_name m) (mc_type m) (mc_server_default m) (mc_nullable m)"

definition class_constraints :: "orm_class \<Rightarrow> sql_constraint list" where
  "class_constraints c =
     PrimaryKeyConstraint (map mc_name (filter mc_primary_key (all_columns c)))
     # concat (map (\<lambda>m. case mc_foreign_key m of
                           None \<Rightarrow> []
                         | Some (t, k, a) \<Rightarrow> [ForeignKeyConstraint (mc_name m) t k a]) (all_columns c))
     @ map (\<lambda>m. UniqueConstraint [mc_name m] None)
         (filter (\<lambda>m. mc_unique m \<and> \<not> mc_index m) (all_columns c))
     @ cls_table_args c"

definition class_table :: "orm_class \<Rightarrow> sql_table" where
  "class_table c = Table (cls_tablename c) (map column_of (all_columns c)) (class_constraints c)"

definition class_indexes :: "orm_class \<Rightarrow> sql_index list" where
  "class_indexes c =
     map (\<lambda>m. Index (''ix_'' @ cls_tablename c @ ''_'' @ mc_name m) (cls_tablename c) [mc_name m]
                (if mc_unique m then Unique_Btree else Btree))
       (filter mc_index (all_columns c))
     @ cls_indexes c"

section \<open>\<open>common/idempotency_models.py\<close>\<close>

definition IdempotencyStatus_members :: "string list" where
  "IdempotencyStatus_members = [''pending'', ''completed'']"

definition IdempotencyKey_class :: orm_class where
  "IdempotencyKey_class =
     \<lparr> cls_tablename = ''idempotency_keys'',
       cls_columns =
         [required ''key'' (String_T 255),
          (required ''user_id'' UUID_T)\<lparr> mc_index := True \<rparr>,
          required ''operation'' (String_T 100),
          required ''request_hash'' (String_T 64),
          required ''status'' (Enum_T IdempotencyStatus_members ''idempotency_status''),
          optional ''response_status'' Integer_T,
          optional ''response_body'' JSONB_T,
          required ''created_at'' DateTime_T,
          required ''expires_at'' DateTime_T],
       cls_mixins = [UUIDPrimaryKeyMixin],
       cls_table_args = [UniqueConstraint [''user_id'', ''operation'', ''key''] (Some ''uq_idempotency_user_operation_key'')],
       cls_indexes = [] \<rparr>"

section \<open>\<open>modules/audit/models.py\<close>\<close>

definition AuditLog_class :: orm_class where
  "AuditLog_class =
     \<lparr> cls_tablename = ''audit_logs'',
       cls_columns =
         [(optional ''actor_id'' UUID_T)\<lparr> mc_foreign_key := Some (''users'', ''id'', Set_Null), mc_index := True \<rparr>,
          (required ''action'' (String_T 100))\<lparr> mc_index := True \<rparr>,
          required ''resource_type'' (String_T 50),
          optional ''resource_id'' UUID_T,
          optional ''audit_metadata'' JSONB_T,
          optional ''ip_address'' (String_T 64),
          (required ''created_at'' DateTime_T)\<lparr> mc_index := True, mc_server_default := Some (Sql_Default ''now()'') \<rparr>],
       cls_mixins = [UUIDPrimaryKeyMixin],
       cls_table_args = [],
       cls_indexes = [] \<rparr>"

section \<open>\<open>modules/cart/models.py\<close>\<close>

definition Cart_class :: orm_class where
  "Cart_class =
     \<lparr> cls_tablename = ''carts'',
       cls_columns =
         [(required ''user_id'' UUID_T)\<lparr> mc_foreign_key := Some (''users'', ''id'', Cascade), mc_unique := True \<rparr>],
       cls_mixins = [UUIDPrimaryKeyMixin, TimestampMixin],
       cls_table_args = [],
       cls_indexes = [] \<rparr>"

definition CartItem_class :: orm_class where
  "CartItem_class =
     \<lparr> cls_tablename = ''cart_items'',
       cls_columns =
         [(required ''cart_id'' UUID_T)\<lparr> mc_foreign_key := Some (''carts'', ''id'', Cascade) \<rparr>,
          (required ''product_id'' UUID_T)\<lparr> mc_foreign_key := Some (''products'', ''id'', Cascade) \<rparr>,
          required ''quantity'' Integer_T],
       cls_mixins = [UUIDPrimaryKeyMixin],
       cls_table_args = [UniqueConstraint [''cart_id'', ''product_id''] (Some ''uq_cart_product'')],
       cls_indexes = [] \<rparr>"

section \<open>\<open>modules/catalog/models.py\<close>\<close>

definition InventoryChangeType_members :: "string list" where
  "InventoryChangeType_members = [''restock'', ''reserve'', ''release'', ''purchase'', ''adjust'']"

definition Category_class :: orm_class where
  "Category_class =
     \<lparr> cls_tablename = ''categories'',
       cls_columns =
         [(optional ''parent_id'' UUID_T)\<lparr> mc_foreign_key := Some (''categories'', ''id'', Restrict) \<rparr>,
          required ''name'' (String_T 150),
          (required ''slug'' (String_T 170))\<lparr> mc_unique := True, mc_index := True \<rparr>,
          required ''is_active'' Boolean_T,
          required ''sort_order'' Integer_T],
       cls_mixins = [UUIDPrimaryKeyMixin, TimestampMixin],
       cls_table_args = [CheckConstraint ''parent_id <> id'' ''ck_category_not_self_parent''],
       cls_indexes = [Index ''ix_categories_parent_id'' ''categories'' [''parent_id''] Btree] \<rparr>"

definition Product_class :: orm_class where
  "Product_class =
     \<lparr> cls_tablename = ''products'',
       cls_columns =
         [(required ''sku'' (String_T 64))\<lparr> mc_unique := True, mc_index := True \<rparr>,
          required ''name'' (String_T 255),
          (required ''slug'' (String_T 280))\<lparr> mc_unique := True, mc_index := True \<rparr>,
          required ''short_description'' (String_T 500),
          required ''description'' Text_T,
          required ''price'' (Numeric_T 12 0),
          optional ''discount_price'' (Numeric_T 12 0),
          required ''brand'' (String_T 100),
          (required ''category_id'' UUID_T)\<lparr> mc_foreign_key := Some (''categories'', ''id'', Restrict) \<rparr>,
          required ''images'' JSONB_T,
          required ''specifications'' JSONB_T,
          required ''is_active'' Boolean_T,
          required ''is_featured'' Boolean_T,
          required ''is_popular'' Boolean_T],
       cls_mixins = [UUIDPrimaryKeyMixin, TimestampMixin],
       cls_table_args = [],
       cls_indexes = [Index ''ix_products_category_id'' ''products'' [''category_id''] Btree,
         Index ''ix_products_is_active'' ''products'' [''is_active''] Btree] \<rparr>"

definition ProductInventory_class :: orm_class where
  "ProductInventory_class =
     \<lparr> cls_tablename = ''product_inventory'',
       cls_columns =
         [(required ''product_id'' UUID_T)\<lparr> mc_foreign_key := Some (''products'', ''id'', Cascade), mc_primary_key := True \<rparr>,
          required ''stock_total'' Integer_T,
          required ''stock_reserved'' Integer_T],
       cls_mixins = [],
       cls_table_args = [CheckConstraint ''stock_total >= 0'' ''ck_inventory_total_non_negative'',
         CheckConstraint ''stock_reserved >= 0'' ''ck_inventory_reserved_non_negative'',
         CheckConstraint ''stock_reserved <= stock_total'' ''ck_inventory_reserved_le_total''],
       cls_indexes = [] \<rparr>"

definition InventoryHistory_class :: orm_class where
  "InventoryHistory_class =
     \<lparr> cls_tablename = ''inventory_history'',
       cls_columns =
         [(required ''product_id'' UUID_T)\<lparr> mc_foreign_key := Some (''products'', ''id'', Cascade) \<rparr>,
          required ''change_type'' (Enum_T InventoryChangeType_members ''inventory_change_type''),
          required ''quantity'' Integer_T,
          optional ''reference_type'' (String_T 50),
          optional ''reference_id'' UUID_T,
          (optional ''actor_id'' UUID_T)\<lparr> mc_foreign_key := Some (''users'', ''id'', Set_Null) \<rparr>,
          (required ''created_at'' DateTime_T)\<lparr> mc_server_default := Some (Sql_Default ''now()'') \<rparr>],
       cls_mixins = [UUIDPrimaryKeyMixin],
       cls_table_args = [],
       cls_indexes = [Index ''ix_inventory_history_product_id'' ''inventory_history'' [''product_id''] Btree] \<rparr>"

section \<open>\<open>modules/orders/models.py\<close>\<close>

definition OrderStatus_members :: "string list" where
  "OrderStatus_members = [''pending'', ''awaiting_payment'', ''paid'', ''processing'', ''shipped'', ''completed'', ''cancelled'', ''payment_failed'', ''refunded'']"

definition Order_class :: orm_class where
  "Order_class =
     \<lparr> cls_tablename = ''orders'',
       cls_columns =
         [(required ''user_id'' UUID_T)\<lparr> mc_foreign_key := Some (''users'', ''id'', Restrict), mc_index := True \<rparr>,
          (required ''status'' (Enum_T OrderStatus_members ''order_status''))\<lparr> mc_index := True \<rparr>,
          required ''subtotal'' (Numeric_T 14 0),
          required ''total'' (Numeric_T 14 0),
          optional ''shipping_address'' JSONB_T,
          optional ''cancelled_at'' DateTime_T],
       cls_mixins = [UUIDPrimaryKeyMixin, TimestampMixin],
       cls_table_args = [],
       cls_indexes = [] \<rparr>"

definition OrderItem_class :: orm_class where
  "OrderItem_class =
     \<lparr> cls_tablename = ''order_items'',
       cls_columns =
         [(required ''order_id'' UUID_T)\<lparr> mc_foreign_key := Some (''orders'', ''id'', Cascade) \<rparr>,
          (optional ''product_id'' UUID_T)\<lparr> mc_foreign_key := Some (''products'', ''id'', Set_Null) \<rparr>,
          required ''product_name_snapshot'' (String_T 255),
          required ''sku_snapshot'' (String_T 64),
          required ''unit_price_snapshot'' (Numeric_T 12 0),
          required ''quantity'' Integer_T,
          required ''subtotal'' (Numeric_T 14 0)],
       cls_mixins = [UUIDPrimaryKeyMixin],
       cls_table_args = [],
       cls_indexes = [] \<rparr>"

definition OrderStatusHistory_class :: orm_class where
  "OrderStatusHistory_class =
     \<lparr> cls_tablename = ''order_status_history'',
       cls_columns =
         [(required ''order_id'' UUID_T)\<lparr> mc_foreign_key := Some (''orders'', ''id'', Cascade), mc_index := True \<rparr>,
          optional ''from_status'' (Enum_T OrderStatus_members ''order_status''),
          required ''to_status'' (Enum_T OrderStatus_members ''order_status''),
          (optional ''actor_id'' UUID_T)\<lparr> mc_foreign_key := Some (''users'', ''id'', Set_Null) \<rparr>,
          optional ''note'' (String_T 500),
          (required ''created_at'' DateTime_T)\<lparr> mc_server_default := Some (Sql_Default ''now()'') \<rparr>],
       cls_mixins = [UUIDPrimaryKeyMixin],
       cls_table_args = [],
       cls_indexes = [] \<rparr>"

section \<open>\<open>modules/payments/models.py\<close>\<close>

definition PaymentStatus_members :: "string list" where
  "PaymentStatus_members = [''initiated'', ''pending'', ''verified'', ''failed'']"

definition Payment_class :: orm_class where
  "Payment_class =
     \<lparr> cls_tablename = ''payments'',
       cls_columns =
         [(required ''order_id'' UUID_T)\<lparr> mc_foreign_key := Some (''orders'', ''id'', Cascade), mc_index := True \<rparr>,
          (required ''user_id'' UUID_T)\<lparr> mc_foreign_key := Some (''users'', ''id'', Restrict) \<rparr>,
          required ''gateway'' (String_T 30),
          (optional ''authority'' (String_T 64))\<lparr> mc_unique := True \<rparr>,
          required ''amount'' (Numeric_T 14 0),
          required ''status'' (Enum_T PaymentStatus_members ''payment_status''),
          optional ''reference_id'' (String_T 64),
          (required ''created_at'' DateTime_T)\<lparr> mc_server_default := Some (Sql_Default ''now()'') \<rparr>,
          optional ''verified_at'' DateTime_T,
          optional ''raw_gateway_response'' JSONB_T],
       cls_mixins = [UUIDPrimaryKeyMixin],
       cls_table_args = [],
       cls_indexes = [] \<rparr>"

section \<open>\<open>modules/tickets/models.py\<close>\<close>

definition TicketStatus_members :: "string list" where
  "TicketStatus_members = [''open'', ''waiting_for_support'', ''waiting_for_customer'', ''closed'']"

definition TicketPriority_members :: "string list" where
  "TicketPriority_members = [''low'', ''normal'', ''high'', ''urgent'']"

definition TicketMessageAuthorRole_members :: "string list" where
  "TicketMessageAuthorRole_members = [''customer'', ''support'', ''system'']"

definition Ticket_class :: orm_class where
  "Ticket_class =
     \<lparr> cls_tablename = ''tickets'',
       cls_columns =
         [(required ''user_id'' UUID_T)\<lparr> mc_foreign_key := Some (''users'', ''id'', Cascade), mc_index := True \<rparr>,
          required ''subject'' (String_T 255),
          (required ''status'' (Enum_T TicketStatus_members ''ticket_status''))\<lparr> mc_index := True \<rparr>,
          required ''priority'' (Enum_T TicketPriority_members ''ticket_priority''),
          optional ''closed_at'' DateTime_T,
          (required ''last_response_at'' DateTime_T)\<lparr> mc_server_default := Some (Sql_Default ''now()'') \<rparr>],
       cls_mixins = [UUIDPrimaryKeyMixin, TimestampMixin],
       cls_table_args = [],
       cls_indexes = [] \<rparr>"

definition TicketMessage_class :: orm_class where
  "TicketMessage_class =
     \<lparr> cls_tablename = ''ticket_messages'',
       cls_columns =
         [(required ''ticket_id'' UUID_T)\<lparr> mc_foreign_key := Some (''tickets'', ''id'', Cascade), mc_index := True \<rparr>,
          (optional ''author_id'' UUID_T)\<lparr> mc_foreign_key := Some (''users'', ''id'', Set_Null) \<rparr>,
          required ''author_role'' (Enum_T TicketMessageAuthorRole_members ''ticket_message_author_role''),
          required ''body'' Text_T,
          (required ''created_at'' DateTime_T)\<lparr> mc_server_default := Some (Sql_Default ''now()'') \<rparr>],
       cls_mixins = [UUIDPrimaryKeyMixin],
       cls_table_args = [],
       cls_indexes = [] \<rparr>"

section \<open>\<open>modules/users/models.py\<close>\<close>

definition UserRole_members :: "string list" where
  "UserRole_members = [''customer'', ''support'', ''admin'', ''super_admin'']"

definition OAuthProvider_members :: "string list" where
  "OAuthProvider_members = [''google'']"

definition User_class :: orm_class where
  "User_class =
     \<lparr> cls_tablename = ''users'',
       cls_columns =
         [(required ''email'' (String_T 255))\<lparr> mc_unique := True, mc_index := True \<rparr>,
          (required ''username'' (String_T 50))\<lparr> mc_unique := True, mc_index := True \<rparr>,
          optional ''hashed_password'' (String_T 255),
          required ''first_name'' (String_T 100),
          required ''last_name'' (String_T 100),
          optional ''avatar'' (String_T 500),
          (required ''role'' (Enum_T UserRole_members ''user_role''))\<lparr> mc_server_default := Some (Literal_Default ''customer'') \<rparr>,
          required ''is_active'' Boolean_T,
          required ''is_verified'' Boolean_T,
          optional ''last_login'' DateTime_T,
          optional ''mfa_secret'' (String_T 255),
          required ''mfa_enabled'' Boolean_T],
       cls_mixins = [UUIDPrimaryKeyMixin, TimestampMixin],
       cls_table_args = [],
       cls_indexes = [] \<rparr>"

definition OAuthAccount_class :: orm_class where
  "OAuthAccount_class =
     \<lparr> cls_tablename = ''oauth_accounts'',
       cls_columns =
         [(required ''user_id'' UUID_T)\<lparr> mc_foreign_key := Some (''users'', ''id'', Cascade), mc_index := True \<rparr>,
          required ''provider'' (Enum_T OAuthProvider_members ''oauth_provider''),
          required ''provider_user_id'' (String_T 255),
          required ''email'' (String_T 255)],
       cls_mixins = [UUIDPrimaryKeyMixin, TimestampMixin],
       cls_table_args = [UniqueConstraint [''provider'', ''provider_user_id''] (Some ''uq_oauth_provider_account'')],
       cls_indexes = [] \<rparr>"

definition RefreshToken_class :: orm_class where
  "RefreshToken_class =
     \<lparr> cls_tablename = ''refresh_tokens'',
       cls_columns =
         [(required ''user_id'' UUID_T)\<lparr> mc_foreign_key := Some (''users'', ''id'', Cascade), mc_index := True \<rparr>,
          (required ''token_hash'' (String_T 255))\<lparr> mc_unique := True \<rparr>,
          (required ''family_id'' UUID_T)\<lparr> mc_index := True \<rparr>,
          (optional ''replaced_by_id'' UUID_T)\<lparr> mc_foreign_key := Some (''refresh_tokens'', ''id'', Set_Null) \<rparr>,
          optional ''revoked_at'' DateTime_T,
          required ''expires_at'' DateTime_T,
          required ''created_at'' DateTime_T,
          optional ''user_agent'' (String_T 500),
          optional ''ip_address'' (String_T 64)],
       cls_mixins = [UUIDPrimaryKeyMixin],
       cls_table_args = [],
       cls_indexes = [] \<rparr>"

definition PasswordResetToken_class :: orm_class where
  "PasswordResetToken_class =
     \<lparr> cls_tablename = ''password_reset_tokens'',
       cls_columns =
         [(required ''user_id'' UUID_T)\<lparr> mc_foreign_key := Some (''users'', ''id'', Cascade), mc_index := True \<rparr>,
          (required ''token_hash'' (String_T 255))\<lparr> mc_unique := True \<rparr>,
          required ''expires_at'' DateTime_T,
          optional ''used_at'' DateTime_T,
          required ''created_at'' DateTime_T],
       cls_mixins = [UUIDPrimaryKeyMixin],
       cls_table_args = [],
       cls_indexes = [] \<rparr>"

definition EmailVerificationToken_class :: orm_class where
  "EmailVerificationToken_class =
     \<lparr> cls_tablename = ''email_verification_tokens'',
       cls_columns =
         [(required ''user_id'' UUID_T)\<lparr> mc_foreign_key := Some (''users'', ''id'', Cascade), mc_index := True \<rparr>,
          (required ''token_hash'' (String_T 255))\<lparr> mc_unique := True \<rparr>,
          required ''expires_at'' DateTime_T,
          optional ''used_at'' DateTime_T,
          required ''created_at'' DateTime_T],
       cls_mixins = [UUIDPrimaryKeyMixin],
       cls_table_args = [],
       cls_indexes = [] \<rparr>"

section \<open>\<open>modules/wallet/models.py\<close>\<close>

definition WalletTransactionType_members :: "string list" where
  "WalletTransactionType_members = [''deposit'', ''purchase'', ''refund'', ''admin_credit'', ''admin_debit'']"

definition Wallet_class :: orm_class where
  "Wallet_class =
     \<lparr> cls_tablename = ''wallets'',
       cls_columns =
         [(required ''user_id'' UUID_T)\<lparr> mc_foreign_key := Some (''users'', ''id'', Cascade), mc_unique := True \<rparr>,
          required ''balance'' (Numeric_T 14 0)],
       cls_mixins = [UUIDPrimaryKeyMixin],
       cls_table_args = [],
       cls_indexes = [] \<rparr>"

definition WalletTransaction_class :: orm_class where
  "WalletTransaction_class =
     \<lparr> cls_tablename = ''wallet_transactions'',
       cls_columns =
         [(required ''wallet_id'' UUID_T)\<lparr> mc_foreign_key := Some (''wallets'', ''id'', Cascade), mc_index := True \<rparr>,
          required ''type'' (Enum_T WalletTransactionType_members ''wallet_transaction_type''),
          required ''amount'' (Numeric_T 14 0),
          required ''balance_after'' (Numeric_T 14 0),
          optional ''reference_type'' (String_T 50),
          optional ''reference_id'' UUID_T,
          optional ''note'' (String_T 500),
          (optional ''actor_id'' UUID_T)\<lparr> mc_foreign_key := Some (''users'', ''id'', Set_Null) \<rparr>,
          (required ''created_at'' DateTime_T)\<lparr> mc_server_default := Some (Sql_Default ''now()'') \<rparr>],
       cls_mixins = [UUIDPrimaryKeyMixin],
       cls_table_args = [],
       cls_indexes = [] \<rparr>"

section \<open>The registry\<close>

definition metadata :: "orm_class list" where
  "metadata =
     [IdempotencyKey_class,
      AuditLog_class,
      Cart_class,
      CartItem_class,
      Category_class,
      Product_class,
      ProductInventory_class,
      InventoryHistory_class,
      Order_class,
      OrderItem_class,
      OrderStatusHistory_class,
      Payment_class,
      Ticket_class,
      TicketMessage_class,
      User_class,
      OAuthAccount_class,
      RefreshToken_class,
      PasswordResetToken_class,
      EmailVerificationToken_class,
      Wallet_class,
      WalletTransaction_class]"

text \<open>A schema is the one the classes declare: the same tables with the same columns and
  constraints, the same indexes apart from the two trigram indexes made by raw SQL, the same types.\<close>

definition same_table :: "sql_table \<Rightarrow> sql_table \<Rightarrow> bool" where
  "same_table t u \<longleftrightarrow>
     tb_name t = tb_name u \<and> set (tb_columns t) = set (tb_columns u)
     \<and> set (tb_constraints t) = set (tb_constraints u)"

definition declares :: "orm_class list \<Rightarrow> 'a schema_scheme \<Rightarrow> bool" where
  "declares cs s \<longleftrightarrow>
     set (map tb_name (sc_tables s)) = set (map cls_tablename cs)
     \<and> list_all (\<lambda>c. \<exists>t \<in> set (sc_tables s). same_table t (class_table c)) cs
     \<and> set (filter (\<lambda>i. ix_kind i \<noteq> Gin_Trgm) (sc_indexes s)) = set (concat (map class_indexes cs))
     \<and> set (sc_types s) = set (concat (map (\<lambda>c. column_enums (tb_columns (class_table c))) cs))"

end
