(* ===== verification/Migrations.thy ===== *)
theory Migrations
  imports Orm_Metadata
begin

text \<open>
  The migrations (\<open>alembic/versions\<close>, \<open>alembic/env.py\<close>): the statements of every revision, in both
  directions, and the run of a command over the chain of revisions. Undoing a revision gives its
  tables and indexes back; the revisions together build what the ORM classes declare.
\<close>

record migration =
  revision :: string
  down_revision :: "string option"
  upgrade :: "ddl list"
  downgrade :: "ddl list"

section \<open>0c48da5f66da: add users, oauth accounts, refresh tokens, password reset and email verification tokens\<close>

definition upgrade_0c48da5f66da :: "ddl list" where
  "upgrade_0c48da5f66da =
    [Create_Table ''users''
       [Column ''email'' (String_T 255) None False,
        Column ''username'' (String_T 50) None False,
        Column ''hashed_password'' (String_T 255) None True,
        Column ''first_name'' (String_T 100) None False,
        Column ''last_name'' (String_T 100) None False,
        Column ''avatar'' (String_T 500) None True,
        Column ''role'' 
          (Enum_T [''customer'', ''support'', ''admin'', ''super_admin''] ''user_role'') (Some (Literal_Default ''customer'')) False,
        Column ''is_active'' Boolean_T None False,
        Column ''is_verified'' Boolean_T None False,
        Column ''last_login'' DateTime_T None True,
        Column ''mfa_secret'' (String_T 255) None True,
        Column ''mfa_enabled'' Boolean_T None False,
        Column ''id'' UUID_T None False,
        Column ''created_at'' DateTime_T (Some (Sql_Default ''now()'')) False,
        Column ''updated_at'' DateTime_T (Some (Sql_Default ''now()'')) False]
       [PrimaryKeyConstraint [''id'']],
     Create_Index (Index ''ix_users_email'' ''users'' [''email''] Unique_Btree),
     Create_Index (Index ''ix_users_username'' ''users'' [''username''] Unique_Btree),
     Create_Table ''email_verification_tokens''
       [Column ''user_id'' UUID_T None False,
        Column ''token_hash'' (String_T 255) None False,
        Column ''expires_at'' DateTime_T None False,
        Column ''used_at'' DateTime_T None True,
        Column ''created_at'' DateTime_T None False,
        Column ''id'' UUID_T None False]
       [ForeignKeyConstraint ''user_id'' ''users'' ''id'' Cascade,
        PrimaryKeyConstraint [''id''],
        UniqueConstraint [''token_hash''] None],
     Create_Index (Index ''ix_email_verification_tokens_user_id'' ''email_verification_tokens'' [''user_id''] Btree),
     Create_Table ''oauth_accounts''
       [Column ''user_id'' UUID_T None False,
        Column ''provider'' (Enum_T [''google''] ''oauth_provider'') None False,
        Column ''provider_user_id'' (String_T 255) None False,
        Column ''email'' (String_T 255) None False,
        Column ''id'' UUID_T None False,
        Column ''created_at'' DateTime_T (Some (Sql_Default ''now()'')) False,
        Column ''updated_at'' DateTime_T (Some (Sql_Default ''now()'')) False]
       [ForeignKeyConstraint ''user_id'' ''users'' ''id'' Cascade,
        PrimaryKeyConstraint [''id''],
        UniqueConstraint [''provider'', ''provider_user_id''] (Some ''uq_oauth_provider_account'')],
     Create_Index (Index ''ix_oauth_accounts_user_id'' ''oauth_accounts'' [''user_id''] Btree),
     Create_Table ''password_reset_tokens''
       [Column ''user_id'' UUID_T None False,
        Column ''token_hash'' (String_T 255) None False,
        Column ''expires_at'' DateTime_T None False,
        Column ''used_at'' DateTime_T None True,
        Column ''created_at'' DateTime_T None False,
        Column ''id'' UUID_T None False]
       [ForeignKeyConstraint ''user_id'' ''users'' ''id'' Cascade,
        PrimaryKeyConstraint [''id''],
        UniqueConstraint [''token_hash''] None],
     Create_Index (Index ''ix_password_reset_tokens_user_id'' ''password_reset_tokens'' [''user_id''] Btree),
     Create_Table ''refresh_tokens''
       [Column ''user_id'' UUID_T None False,
        Column ''token_hash'' (String_T 255) None False,
        Column ''family_id'' UUID_T None False,
        Column ''replaced_by_id'' UUID_T None True,
        Column ''revoked_at'' DateTime_T None True,
        Column ''expires_at'' DateTime_T None False,
        Column ''created_at'' DateTime_T None False,
        Column ''user_agent'' (String_T 500) None True,
        Column ''ip_address'' (String_T 64) None True,
        Column ''id'' UUID_T None False]
       [ForeignKeyConstraint ''replaced_by_id'' ''refresh_tokens'' ''id'' Set_Null,
        ForeignKeyConstraint ''user_id'' ''users'' ''id'' Cascade,
        PrimaryKeyConstraint [''id''],
        UniqueConstraint [''token_hash''] None],
     Create_Index (Index ''ix_refresh_tokens_family_id'' ''refresh_tokens'' [''family_id''] Btree),
     Create_Index (Index ''ix_refresh_tokens_user_id'' ''refresh_tokens'' [''user_id''] Btree)]"

definition downgrade_0c48da5f66da :: "ddl list" where
  "downgrade_0c48da5f66da =
    [Drop_Index ''ix_refresh_tokens_user_id'',
     Drop_Index ''ix_refresh_tokens_family_id'',
     Drop_Table ''refresh_tokens'',
     Drop_Index ''ix_password_reset_tokens_user_id'',
     Drop_Table ''password_reset_tokens'',
     Drop_Index ''ix_oauth_accounts_user_id'',
     Drop_Table ''oauth_accounts'',
     Drop_Index ''ix_email_verification_tokens_user_id'',
     Drop_Table ''email_verification_tokens'',
     Drop_Index ''ix_users_username'',
     Drop_Index ''ix_users_email'',
     Drop_Table ''users'']"

definition revision_0c48da5f66da :: migration where
  "revision_0c48da5f66da =
     \<lparr> revision = ''0c48da5f66da'', down_revision = None,
       upgrade = upgrade_0c48da5f66da, downgrade = downgrade_0c48da5f66da \<rparr>"

section \<open>546c087e2368: add categories, products, product inventory and inventory history\<close>

definition upgrade_546c087e2368 :: "ddl list" where
  "upgrade_546c087e2368 =
    [Create_Extension_If_Not_Exists ''pg_trgm'',
     Create_Table ''categories''
       [Column ''parent_id'' UUID_T None True,
        Column ''name'' (String_T 150) None False,
        Column ''slug'' (String_T 170) None False,
        Column ''is_active'' Boolean_T None False,
        Column ''sort_order'' Integer_T None False,
        Column ''id'' UUID_T None False,
        Column ''created_at'' DateTime_T (Some (Sql_Default ''now()'')) False,
        Column ''updated_at'' DateTime_T (Some (Sql_Default ''now()'')) False]
       [CheckConstraint ''parent_id <> id'' ''ck_category_not_self_parent'',
        ForeignKeyConstraint ''parent_id'' ''categories'' ''id'' Restrict,
        PrimaryKeyConstraint [''id'']],
     Create_Index (Index ''ix_categories_parent_id'' ''categories'' [''parent_id''] Btree),
     Create_Index (Index ''ix_categories_slug'' ''categories'' [''slug''] Unique_Btree),
     Create_Table ''products''
       [Column ''sku'' (String_T 64) None False,
        Column ''name'' (String_T 255) None False,
        Column ''slug'' (String_T 280) None False,
        Column ''short_description'' (String_T 500) None False,
        Column ''description'' Text_T None False,
        Column ''price'' (Numeric_T 12 0) None False,
        Column ''discount_price'' (Numeric_T 12 0) None True,
        Column ''brand'' (String_T 100) None False,
        Column ''category_id'' UUID_T None False,
        Column ''images'' JSONB_T None False,
        Column ''specifications'' JSONB_T None False,
        Column ''is_active'' Boolean_T None False,
        Column ''is_featured'' Boolean_T None False,
        Column ''is_popular'' Boolean_T None False,
        Column ''id'' UUID_T None False,
        Column ''created_at'' DateTime_T (Some (Sql_Default ''now()'')) False,
        Column ''updated_at'' DateTime_T (Some (Sql_Default ''now()'')) False]
       [ForeignKeyConstraint ''category_id'' ''categories'' ''id'' Restrict,
        PrimaryKeyConstraint [''id'']],
     Create_Index (Index ''ix_products_category_id'' ''products'' [''category_id''] Btree),
     Create_Index (Index ''ix_products_is_active'' ''products'' [''is_active''] Btree),
     Create_Index (Index ''ix_products_sku'' ''products'' [''sku''] Unique_Btree),
     Create_Index (Index ''ix_products_slug'' ''products'' [''slug''] Unique_Btree),
     Create_Table ''inventory_history''
       [Column ''product_id'' UUID_T None False,
        Column ''change_type'' 
          (Enum_T [''restock'', ''reserve'', ''release'', ''purchase'', ''adjust''] ''inventory_change_type'') None False,
        Column ''quantity'' Integer_T None False,
        Column ''reference_type'' (String_T 50) None True,
        Column ''reference_id'' UUID_T None True,
        Column ''actor_id'' UUID_T None True,
        Column ''created_at'' DateTime_T (Some (Sql_Default ''now()'')) False,
        Column ''id'' UUID_T None False]
       [ForeignKeyConstraint ''actor_id'' ''users'' ''id'' Set_Null,
        ForeignKeyConstraint ''product_id'' ''products'' ''id'' Cascade,
        PrimaryKeyConstraint [''id'']],
     Create_Index (Index ''ix_inventory_history_product_id'' ''inventory_history'' [''product_id''] Btree),
     Create_Table ''product_inventory''
       [Column ''product_id'' UUID_T None False,
        Column ''stock_total'' Integer_T None False,
        Column ''stock_reserved'' Integer_T None False]
       [CheckConstraint ''stock_reserved <= stock_total'' ''ck_inventory_reserved_le_total'',
        CheckConstraint ''stock_reserved >= 0'' ''ck_inventory_reserved_non_negative'',
        CheckConstraint ''stock_total >= 0'' ''ck_inventory_total_non_negative'',
        ForeignKeyConstraint ''product_id'' ''products'' ''id'' Cascade,
        PrimaryKeyConstraint [''product_id'']],
     Create_Index (Index ''ix_products_name_trgm'' ''products'' [''name''] Gin_Trgm),
     Create_Index (Index ''ix_products_description_trgm'' ''products'' [''description''] Gin_Trgm)]"

definition downgrade_546c087e2368 :: "ddl list" where
  "downgrade_546c087e2368 =
    [Drop_Index_If_Exists ''ix_products_description_trgm'',
     Drop_Index_If_Exists ''ix_products_name_trgm'',
     Drop_Table ''product_inventory'',
     Drop_Index ''ix_inventory_history_product_id'',
     Drop_Table ''inventory_history'',
     Drop_Index ''ix_products_slug'',
     Drop_Index ''ix_products_sku'',
     Drop_Index ''ix_products_is_active'',
     Drop_Index ''ix_products_category_id'',
     Drop_Table ''products'',
     Drop_Index ''ix_categories_slug'',
     Drop_Index ''ix_categories_parent_id'',
     Drop_Table ''categories'']"

definition revision_546c087e2368 :: migration where
  "revision_546c087e2368 =
     \<lparr> revision = ''546c087e2368'', down_revision = Some ''0c48da5f66da'',
       upgrade = upgrade_546c087e2368, downgrade = downgrade_546c087e2368 \<rparr>"

section \<open>a67845323715: add idempotency keys, cart, orders and payments\<close>

definition upgrade_a67845323715 :: "ddl list" where
  "upgrade_a67845323715 =
    [Create_Table ''idempotency_keys''
       [Column ''key'' (String_T 255) None False,
        Column ''user_id'' UUID_T None False,
        Column ''operation'' (String_T 100) None False,
        Column ''request_hash'' (String_T 64) None False,
        Column ''status'' 
          (Enum_T [''pending'', ''completed''] ''idempotency_status'') None False,
        Column ''response_status'' Integer_T None True,
        Column ''response_body'' JSONB_T None True,
        Column ''created_at'' DateTime_T None False,
        Column ''expires_at'' DateTime_T None False,
        Column ''id'' UUID_T None False]
       [PrimaryKeyConstraint [''id''],
        UniqueConstraint [''user_id'', ''operation'', ''key''] (Some ''uq_idempotency_user_operation_key'')],
     Create_Index (Index ''ix_idempotency_keys_user_id'' ''idempotency_keys'' [''user_id''] Btree),
     Create_Table ''carts''
       [Column ''user_id'' UUID_T None False,
        Column ''id'' UUID_T None False,
        Column ''created_at'' DateTime_T (Some (Sql_Default ''now()'')) False,
        Column ''updated_at'' DateTime_T (Some (Sql_Default ''now()'')) False]
       [ForeignKeyConstraint ''user_id'' ''users'' ''id'' Cascade,
        PrimaryKeyConstraint [''id''],
        UniqueConstraint [''user_id''] None],
     Create_Table ''orders''
       [Column ''user_id'' UUID_T None False,
        Column ''status'' 
          (Enum_T [''pending'', ''awaiting_payment'', ''paid'', ''processing'', ''shipped'', ''completed'', ''cancelled'', ''payment_failed'', ''refunded''] ''order_status'') None False,
        Column ''subtotal'' (Numeric_T 14 0) None False,
        Column ''total'' (Numeric_T 14 0) None False,
        Column ''shipping_address'' JSONB_T None True,
        Column ''cancelled_at'' DateTime_T None True,
        Column ''id'' UUID_T None False,
        Column ''created_at'' DateTime_T (Some (Sql_Default ''now()'')) False,
        Column ''updated_at'' DateTime_T (Some (Sql_Default ''now()'')) False]
       [ForeignKeyConstraint ''user_id'' ''users'' ''id'' Restrict,
        PrimaryKeyConstraint [''id'']],
     Create_Index (Index ''ix_orders_status'' ''orders'' [''status''] Btree),
     Create_Index (Index ''ix_orders_user_id'' ''orders'' [''user_id''] Btree),
     Create_Table ''cart_items''
       [Column ''cart_id'' UUID_T None False,
        Column ''product_id'' UUID_T None False,
        Column ''quantity'' Integer_T None False,
        Column ''id'' UUID_T None False]
       [ForeignKeyConstraint ''cart_id'' ''carts'' ''id'' Cascade,
        ForeignKeyConstraint ''product_id'' ''products'' ''id'' Cascade,
        PrimaryKeyConstraint [''id''],
        UniqueConstraint [''cart_id'', ''product_id''] (Some ''uq_cart_product'')],
     Create_Table ''order_items''
       [Column ''order_id'' UUID_T None False,
        Column ''product_id'' UUID_T None True,
        Column ''product_name_snapshot'' (String_T 255) None False,
        Column ''sku_snapshot'' (String_T 64) None False,
        Column ''unit_price_snapshot'' (Numeric_T 12 0) None False,
        Column ''quantity'' Integer_T None False,
        Column ''subtotal'' (Numeric_T 14 0) None False,
        Column ''id'' UUID_T None False]
       [ForeignKeyConstraint ''order_id'' ''orders'' ''id'' Cascade,
        ForeignKeyConstraint ''product_id'' ''products'' ''id'' Set_Null,
        PrimaryKeyConstraint [''id'']],
     Create_Table ''order_status_history''
       [Column ''order_id'' UUID_T None False,
        Column ''from_status'' 
          (Enum_T [''pending'', ''awaiting_payment'', ''paid'', ''processing'', ''shipped'', ''completed'', ''cancelled'', ''payment_failed'', ''refunded''] ''order_status'') None True,
        Column ''to_status'' 
          (Enum_T [''pending'', ''awaiting_payment'', ''paid'', ''processing'', ''shipped'', ''completed'', ''cancelled'', ''payment_failed'', ''refunded''] ''order_status'') None False,
        Column ''actor_id'' UUID_T None True,
        Column ''note'' (String_T 500) None True,
        Column ''created_at'' DateTime_T (Some (Sql_Default ''now()'')) False,
        Column ''id'' UUID_T None False]
       [ForeignKeyConstraint ''actor_id'' ''users'' ''id'' Set_Null,
        ForeignKeyConstraint ''order_id'' ''orders'' ''id'' Cascade,
        PrimaryKeyConstraint [''id'']],
     Create_Index (Index ''ix_order_status_history_order_id'' ''order_status_history'' [''order_id''] Btree),
     Create_Table ''payments''
       [Column ''order_id'' UUID_T None False,
        Column ''user_id'' UUID_T None False,
        Column ''gateway'' (String_T 30) None False,
        Column ''authority'' (String_T 64) None True,
        Column ''amount'' (Numeric_T 14 0) None False,
        Column ''status'' 
          (Enum_T [''initiated'', ''pending'', ''verified'', ''failed''] ''payment_status'') None False,
        Column ''reference_id'' (String_T 64) None True,
        Column ''created_at'' DateTime_T (Some (Sql_Default ''now()'')) False,
        Column ''verified_at'' DateTime_T None True,
        Column ''raw_gateway_response'' JSONB_T None True,
        Column ''id'' UUID_T None False]
       [ForeignKeyConstraint ''order_id'' ''orders'' ''id'' Cascade,
        ForeignKeyConstraint ''user_id'' ''users'' ''id'' Restrict,
        PrimaryKeyConstraint [''id''],
        UniqueConstraint [''authority''] None],
     Create_Index (Index ''ix_payments_order_id'' ''payments'' [''order_id''] Btree)]"

definition downgrade_a67845323715 :: "ddl list" where
  "downgrade_a67845323715 =
    [Drop_Index ''ix_payments_order_id'',
     Drop_Table ''payments'',
     Drop_Index ''ix_order_status_history_order_id'',
     Drop_Table ''order_status_history'',
     Drop_Table ''order_items'',
     Drop_Table ''cart_items'',
     Drop_Index ''ix_orders_user_id'',
     Drop_Index ''ix_orders_status'',
     Drop_Table ''orders'',
     Drop_Table ''carts'',
     Drop_Index ''ix_idempotency_keys_user_id'',
     Drop_Table ''idempotency_keys'']"

definition revision_a67845323715 :: migration where
  "revision_a67845323715 =
     \<lparr> revision = ''a67845323715'', down_revision = Some ''546c087e2368'',
       upgrade = upgrade_a67845323715, downgrade = downgrade_a67845323715 \<rparr>"

section \<open>382ef36cfd7b: add wallet and wallet transactions\<close>

definition upgrade_382ef36cfd7b :: "ddl list" where
  "upgrade_382ef36cfd7b =
    [Create_Table ''wallets''
       [Column ''user_id'' UUID_T None False,
        Column ''balance'' (Numeric_T 14 0) None False,
        Column ''id'' UUID_T None False]
       [ForeignKeyConstraint ''user_id'' ''users'' ''id'' Cascade,
        PrimaryKeyConstraint [''id''],
        UniqueConstraint [''user_id''] None],
     Create_Table ''wallet_transactions''
       [Column ''wallet_id'' UUID_T None False,
        Column ''type'' 
          (Enum_T [''deposit'', ''purchase'', ''refund'', ''admin_credit'', ''admin_debit''] ''wallet_transaction_type'') None False,
        Column ''amount'' (Numeric_T 14 0) None False,
        Column ''balance_after'' (Numeric_T 14 0) None False,
        Column ''reference_type'' (String_T 50) None True,
        Column ''reference_id'' UUID_T None True,
        Column ''note'' (String_T 500) None True,
        Column ''actor_id'' UUID_T None True,
        Column ''created_at'' DateTime_T (Some (Sql_Default ''now()'')) False,
        Column ''id'' UUID_T None False]
       [ForeignKeyConstraint ''actor_id'' ''users'' ''id'' Set_Null,
        ForeignKeyConstraint ''wallet_id'' ''wallets'' ''id'' Cascade,
        PrimaryKeyConstraint [''id'']],
     Create_Index (Index ''ix_wallet_transactions_wallet_id'' ''wallet_transactions'' [''wallet_id''] Btree)]"

definition downgrade_382ef36cfd7b :: "ddl list" where
  "downgrade_382ef36cfd7b =
    [Drop_Index ''ix_wallet_transactions_wallet_id'',
     Drop_Table ''wallet_transactions'',
     Drop_Table ''wallets'']"

definition revision_382ef36cfd7b :: migration where
  "revision_382ef36cfd7b =
     \<lparr> revision = ''382ef36cfd7b'', down_revision = Some ''a67845323715'',
       upgrade = upgrade_382ef36cfd7b, downgrade = downgrade_382ef36cfd7b \<rparr>"

section \<open>90ef683bfd81: add tickets, ticket messages, audit logs\<close>

definition upgrade_90ef683bfd81 :: "ddl list" where
  "upgrade_90ef683bfd81 =
    [Create_Table ''audit_logs''
       [Column ''actor_id'' UUID_T None True,
        Column ''action'' (String_T 100) None False,
        Column ''resource_type'' (String_T 50) None False,
        Column ''resource_id'' UUID_T None True,
        Column ''audit_metadata'' JSONB_T None True,
        Column ''ip_address'' (String_T 64) None True,
        Column ''created_at'' DateTime_T (Some (Sql_Default ''now()'')) False,
        Column ''id'' UUID_T None False]
       [ForeignKeyConstraint ''actor_id'' ''users'' ''id'' Set_Null,
        PrimaryKeyConstraint [''id'']],
     Create_Index (Index ''ix_audit_logs_action'' ''audit_logs'' [''action''] Btree),
     Create_Index (Index ''ix_audit_logs_actor_id'' ''audit_logs'' [''actor_id''] Btree),
     Create_Index (Index ''ix_audit_logs_created_at'' ''audit_logs'' [''created_at''] Btree),
     Create_Table ''tickets''
       [Column ''user_id'' UUID_T None False,
        Column ''subject'' (String_T 255) None False,
        Column ''status'' 
          (Enum_T [''open'', ''waiting_for_support'', ''waiting_for_customer'', ''closed''] ''ticket_status'') None False,
        Column ''priority'' 
          (Enum_T [''low'', ''normal'', ''high'', ''urgent''] ''ticket_priority'') None False,
        Column ''closed_at'' DateTime_T None True,
        Column ''last_response_at'' DateTime_T (Some (Sql_Default ''now()'')) False,
        Column ''id'' UUID_T None False,
        Column ''created_at'' DateTime_T (Some (Sql_Default ''now()'')) False,
        Column ''updated_at'' DateTime_T (Some (Sql_Default ''now()'')) False]
       [ForeignKeyConstraint ''user_id'' ''users'' ''id'' Cascade,
        PrimaryKeyConstraint [''id'']],
     Create_Index (Index ''ix_tickets_status'' ''tickets'' [''status''] Btree),
     Create_Index (Index ''ix_tickets_user_id'' ''tickets'' [''user_id''] Btree),
     Create_Table ''ticket_messages''
       [Column ''ticket_id'' UUID_T None False,
        Column ''author_id'' UUID_T None True,
        Column ''author_role'' 
          (Enum_T [''customer'', ''support'', ''system''] ''ticket_message_author_role'') None False,
        Column ''body'' Text_T None False,
        Column ''created_at'' DateTime_T (Some (Sql_Default ''now()'')) False,
        Column ''id'' UUID_T None False]
       [ForeignKeyConstraint ''author_id'' ''users'' ''id'' Set_Null,
        ForeignKeyConstraint ''ticket_id'' ''tickets'' ''id'' Cascade,
        PrimaryKeyConstraint [''id'']],
     Create_Index (Index ''ix_ticket_messages_ticket_id'' ''ticket_messages'' [''ticket_id''] Btree)]"

definition downgrade_90ef683bfd81 :: "ddl list" where
  "downgrade_90ef683bfd81 =
    [Drop_Index ''ix_ticket_messages_ticket_id'',
     Drop_Table ''ticket_messages'',
     Drop_Index ''ix_tickets_user_id'',
     Drop_Index ''ix_tickets_status'',
     Drop_Table ''tickets'',
     Drop_Index ''ix_audit_logs_created_at'',
     Drop_Index ''ix_audit_logs_actor_id'',
     Drop_Index ''ix_audit_logs_action'',
     Drop_Table ''audit_logs'']"

definition revision_90ef683bfd81 :: migration where
  "revision_90ef683bfd81 =
     \<lparr> revision = ''90ef683bfd81'', down_revision = Some ''382ef36cfd7b'',
       upgrade = upgrade_90ef683bfd81, downgrade = downgrade_90ef683bfd81 \<rparr>"

section \<open>Running a command\<close>

definition versions :: "migration list" where
  "versions = [revision_0c48da5f66da, revision_382ef36cfd7b, revision_546c087e2368,
     revision_90ef683bfd81, revision_a67845323715]"

record database = ddl_run +
  alembic_version :: "string option"

definition empty_database :: database where
  "empty_database = \<lparr> sc_tables = [], sc_indexes = [], sc_types = [], sc_extensions = [],
     run_types = [], alembic_version = None \<rparr>"

text \<open>The revisions form a chain by \<open>down_revision\<close>; the number of files bounds its length.\<close>

fun upgrade_path :: "nat \<Rightarrow> migration list \<Rightarrow> string option \<Rightarrow> migration list" where
  "upgrade_path 0 vs r = []"
| "upgrade_path (Suc n) vs r =
     (case find (\<lambda>m. down_revision m = r) vs of
        None \<Rightarrow> []
      | Some m \<Rightarrow> m # upgrade_path n vs (Some (revision m)))"

fun downgrade_path :: "nat \<Rightarrow> migration list \<Rightarrow> string option \<Rightarrow> migration list" where
  "downgrade_path 0 vs r = []"
| "downgrade_path (Suc n) vs r =
     (case find (\<lambda>m. Some (revision m) = r) vs of
        None \<Rightarrow> []
      | Some m \<Rightarrow> m # downgrade_path n vs (down_revision m))"

definition upgrade_step :: "bool \<Rightarrow> migration \<Rightarrow> database \<Rightarrow> exn + database" where
  "upgrade_step checked m db =
     bindE (run_ddl checked (upgrade m) db) (\<lambda>db. Inr (db\<lparr> alembic_version := Some (revision m) \<rparr>))"

definition downgrade_step :: "bool \<Rightarrow> migration \<Rightarrow> database \<Rightarrow> exn + database" where
  "downgrade_step checked m db =
     bindE (run_ddl checked (downgrade m) db) (\<lambda>db. Inr (db\<lparr> alembic_version := down_revision m \<rparr>))"

datatype alembic_command = Upgrade_Head | Downgrade nat | Downgrade_Base

text \<open>One transaction: a statement that fails leaves the database as it was.\<close>

definition do_run_migrations :: "bool \<Rightarrow> alembic_command \<Rightarrow> database \<Rightarrow> exn + database" where
  "do_run_migrations checked cmd db =
     (let start = db\<lparr> run_types := [] \<rparr>; down = downgrade_path (length versions) versions (alembic_version db)
      in case cmd of
           Upgrade_Head \<Rightarrow>
             foldE (upgrade_step checked) (upgrade_path (length versions) versions (alembic_version db)) start
         | Downgrade n \<Rightarrow> foldE (downgrade_step checked) (take n down) start
         | Downgrade_Base \<Rightarrow> foldE (downgrade_step checked) down start)"

section \<open>The chain of revisions\<close>

lemmas upgrade_defs = upgrade_0c48da5f66da_def upgrade_546c087e2368_def upgrade_a67845323715_def
  upgrade_382ef36cfd7b_def upgrade_90ef683bfd81_def

lemmas revision_defs = revision_0c48da5f66da_def revision_546c087e2368_def revision_a67845323715_def
  revision_382ef36cfd7b_def revision_90ef683bfd81_def

definition chain :: "migration list" where
  "chain = [revision_0c48da5f66da, revision_546c087e2368, revision_a67845323715,
     revision_382ef36cfd7b, revision_90ef683bfd81]"

lemma upgrade_path_chain: "upgrade_path (length versions) versions None = chain"
  by (simp add: versions_def chain_def revision_defs eval_nat_numeral)

lemma downgrade_path_chain:
  "downgrade_path (length versions) versions (Some ''90ef683bfd81'') = rev chain"
  by (simp add: versions_def chain_def revision_defs eval_nat_numeral)

text \<open>Every revision only creates, and its downgrade drops what it created, in the opposite order.\<close>

lemma downgrade_undoes:
  "m \<in> set versions \<Longrightarrow> downgrade m = undo_all (upgrade m) \<and> list_all creates (upgrade m)"
  by (auto simp: versions_def revision_defs upgrade_defs undo_all_def downgrade_0c48da5f66da_def
      downgrade_546c087e2368_def downgrade_a67845323715_def downgrade_382ef36cfd7b_def
      downgrade_90ef683bfd81_def)

lemma run_ddl_version:
  "run_ddl checked ds db = Inr db' \<Longrightarrow> alembic_version db' = alembic_version (db :: database)"
proof (induction ds arbitrary: db)
  case (Cons d ds)
  then obtain u where u: "apply_ddl checked d db = Inr u" "run_ddl checked ds u = Inr db'"
    by (auto simp: bindE_eq_Inr)
  have "foldE (create_type checked) ts db = Inr w \<Longrightarrow> alembic_version w = alembic_version db" for ts w
    by (erule foldE_invariant) (auto simp: create_type_def split: if_splits)
  with u(1) have "alembic_version u = alembic_version db"
    by (cases d) (auto simp: bindE_eq_Inr drop_index_def split: if_splits option.splits)
  with Cons.IH [OF u(2)] show ?case by simp
qed simp

lemma downgrade_step_undoes:
  assumes "m \<in> set versions" "schema_ok db" "upgrade_step checked m db = Inr db'"
    and "sc_tables t = sc_tables db'" "sc_indexes t = sc_indexes db'"
  shows "schema_ok db' \<and> downgrade_step checked' m t
    = Inr (t\<lparr> sc_tables := sc_tables db, sc_indexes := sc_indexes db, alembic_version := down_revision m \<rparr>)"
proof -
  from assms(3) obtain u where u: "run_ddl checked (upgrade m) db = Inr u"
    "db' = u\<lparr> alembic_version := Some (revision m) \<rparr>"
    by (auto simp: upgrade_step_def bindE_eq_Inr)
  have "schema_ok db'" using run_ddl_keeps_schema_ok [OF u(1) assms(2)] by (simp add: u(2) schema_ok_def)
  moreover have "run_ddl checked' (undo_all (upgrade m)) t = Inr (t\<lparr> sc_tables := sc_tables db, sc_indexes := sc_indexes db \<rparr>)"
    by (rule undo_run [OF u(1) assms(2)]) (use downgrade_undoes [OF assms(1)] assms(4,5) in \<open>simp_all add: u(2)\<close>)
  ultimately show ?thesis using downgrade_undoes [OF assms(1)] by (simp add: downgrade_step_def)
qed

text \<open>Linked revisions: each one follows the one before.\<close>

fun linked :: "string option \<Rightarrow> migration list \<Rightarrow> bool" where
  "linked r [] = True"
| "linked r (m # ms) = (down_revision m = r \<and> linked (Some (revision m)) ms)"

lemma find_Some_in: "find P xs = Some x \<Longrightarrow> P x \<and> x \<in> set xs" "Some x = find P xs \<Longrightarrow> P x \<and> x \<in> set xs"
  by (auto simp: find_Some_iff find_Some_iff2)

lemma linked_path: "linked r (upgrade_path n vs r)"
  by (induction n arbitrary: r) (auto split: option.splits dest!: find_Some_in)

lemma path_versions: "set (upgrade_path n vs r) \<subseteq> set vs"
  by (induction n arbitrary: r) (auto split: option.splits dest!: find_Some_in)

lemma downgrades_undo:
  assumes "foldE (upgrade_step checked) ms db = Inr db'" "schema_ok db" "set ms \<subseteq> set versions"
    "linked (alembic_version db) ms" "sc_tables t = sc_tables db'" "sc_indexes t = sc_indexes db'"
    "alembic_version t = alembic_version db'"
  shows "foldE (downgrade_step checked') (rev ms) t
    = Inr (t\<lparr> sc_tables := sc_tables db, sc_indexes := sc_indexes db, alembic_version := alembic_version db \<rparr>)"
  using assms(1-4)
proof (induction ms arbitrary: db)
  case Nil
  then show ?case using assms(5-7) by simp
next
  case (Cons m ms)
  then obtain u where u: "upgrade_step checked m db = Inr u" "foldE (upgrade_step checked) ms u = Inr db'"
    by (auto simp: bindE_eq_Inr)
  from u(1) have v: "alembic_version u = Some (revision m)" by (auto simp: upgrade_step_def bindE_eq_Inr)
  let ?t = "t\<lparr> sc_tables := sc_tables u, sc_indexes := sc_indexes u, alembic_version := alembic_version u \<rparr>"
  have m: "m \<in> set versions" using Cons.prems(3) by simp
  note d = downgrade_step_undoes [OF m Cons.prems(2) u(1), where t = ?t and checked' = checked']
  have "foldE (downgrade_step checked') (rev ms) t = Inr ?t"
    by (rule Cons.IH [OF u(2)]) (use d Cons.prems(3,4) v in simp_all)
  then show ?case using d Cons.prems(4) by (simp add: foldE_append)
qed

section \<open>The schema at the head\<close>

definition head_types :: "(string \<times> string list) list" where
  "head_types =
     [(''user_role'', UserRole_members), (''oauth_provider'', OAuthProvider_members),
      (''inventory_change_type'', InventoryChangeType_members),
      (''idempotency_status'', IdempotencyStatus_members), (''order_status'', OrderStatus_members),
      (''payment_status'', PaymentStatus_members),
      (''wallet_transaction_type'', WalletTransactionType_members),
      (''ticket_status'', TicketStatus_members), (''ticket_priority'', TicketPriority_members),
      (''ticket_message_author_role'', TicketMessageAuthorRole_members)]"

lemma upgrade_steps_create:
  assumes "foldE (upgrade_step checked) ms db = Inr db'" "set ms \<subseteq> set versions"
  shows "sc_tables db' = sc_tables db @ created_tables (concat (map upgrade ms))
    \<and> sc_indexes db' = sc_indexes db @ created_indexes (concat (map upgrade ms))"
  using assms
proof (induction ms arbitrary: db)
  case (Cons m ms)
  from Cons.prems(1) obtain u where u: "run_ddl checked (upgrade m) db = Inr u"
    "foldE (upgrade_step checked) ms (u\<lparr> alembic_version := Some (revision m) \<rparr>) = Inr db'"
    unfolding foldE.simps upgrade_step_def [of checked m] bindE_eq_Inr by blast
  from Cons.IH [OF u(2)] Cons.prems(2) run_ddl_creates [OF u(1)] downgrade_undoes [of m] show ?case
    by (simp add: created_tables_def created_indexes_def)
qed (simp add: created_tables_def created_indexes_def)

lemma upgrade_steps_version:
  "foldE (upgrade_step checked) ms db = Inr db' \<Longrightarrow> ms \<noteq> [] \<Longrightarrow>
     alembic_version db' = Some (revision (last ms))"
proof (induction ms arbitrary: db)
  case (Cons m ms)
  then obtain u where u: "upgrade_step checked m db = Inr u" "foldE (upgrade_step checked) ms u = Inr db'"
    by (auto simp: bindE_eq_Inr)
  from u(1) have "alembic_version u = Some (revision m)" by (auto simp: upgrade_step_def bindE_eq_Inr)
  with Cons.IH [OF u(2)] u(2) show ?case by (cases "ms = []") auto
qed simp

lemma upgrade_steps_unchecked:
  "own_types db \<Longrightarrow> foldE (upgrade_step c) ms db = foldE (upgrade_step c') ms db"
proof (induction ms arbitrary: db)
  case (Cons m ms)
  have e: "upgrade_step c m db = upgrade_step c' m db"
    using run_ddl_unchecked [OF Cons.prems, of c _ c'] by (simp add: upgrade_step_def)
  show ?case
  proof (cases "upgrade_step c m db")
    case (Inr u)
    then obtain v where v: "run_ddl c (upgrade m) db = Inr v" "u = v\<lparr> alembic_version := Some (revision m) \<rparr>"
      by (auto simp: upgrade_step_def bindE_eq_Inr)
    have "own_types v"
      using v(1) Cons.prems unfolding run_ddl_def by (rule foldE_invariant) (rule apply_ddl_own_types)
    then have "own_types u" by (simp add: own_types_def v(2))
    from Cons.IH [OF this] Inr e show ?thesis by simp
  qed (use e in simp)
qed simp

lemmas class_defs = IdempotencyKey_class_def AuditLog_class_def Cart_class_def CartItem_class_def
  Category_class_def Product_class_def ProductInventory_class_def InventoryHistory_class_def
  Order_class_def OrderItem_class_def OrderStatusHistory_class_def Payment_class_def Ticket_class_def
  TicketMessage_class_def User_class_def OAuthAccount_class_def RefreshToken_class_def
  PasswordResetToken_class_def EmailVerificationToken_class_def Wallet_class_def
  WalletTransaction_class_def

lemmas column_defs = class_table_def class_constraints_def class_indexes_def all_columns_def
  column_of_def required_def optional_def UUIDPrimaryKeyMixin_def TimestampMixin_def

lemmas member_defs = UserRole_members_def OAuthProvider_members_def InventoryChangeType_members_def
  IdempotencyStatus_members_def OrderStatus_members_def PaymentStatus_members_def
  WalletTransactionType_members_def TicketStatus_members_def TicketPriority_members_def
  TicketMessageAuthorRole_members_def

definition migration_order :: "orm_class list" where
  "migration_order =
     [User_class, EmailVerificationToken_class, OAuthAccount_class, PasswordResetToken_class,
      RefreshToken_class, Category_class, Product_class, InventoryHistory_class,
      ProductInventory_class, IdempotencyKey_class, Cart_class, Order_class, CartItem_class,
      OrderItem_class, OrderStatusHistory_class, Payment_class, Wallet_class,
      WalletTransaction_class, AuditLog_class, Ticket_class, TicketMessage_class]"

lemma migration_order_set: "set migration_order = set metadata"
  by (auto simp: migration_order_def metadata_def)

lemma declares_order: "set cs = set cs' \<Longrightarrow> declares cs s = declares cs' s"
  by (simp add: declares_def list_all_iff)

lemma tables_match:
  "list_all2 same_table (created_tables (concat (map upgrade chain))) (map class_table migration_order)"
  by (simp add: chain_def revision_defs upgrade_defs created_tables_def migration_order_def class_defs
      column_defs member_defs same_table_def insert_commute)

lemma indexes_match:
  "set (filter (\<lambda>i. ix_kind i \<noteq> Gin_Trgm) (created_indexes (concat (map upgrade chain))))
     = set (concat (map class_indexes migration_order))"
  by (simp add: chain_def revision_defs upgrade_defs created_indexes_def migration_order_def class_defs
      column_defs insert_commute)

lemma types_match:
  "set head_types = set (concat (map (\<lambda>c. column_enums (tb_columns (class_table c))) migration_order))"
  by (simp add: head_types_def migration_order_def class_defs column_defs column_enums_def insert_commute)

lemma declares_created:
  assumes "sc_tables s = created_tables (concat (map upgrade chain))"
    "sc_indexes s = created_indexes (concat (map upgrade chain))" "sc_types s = head_types"
  shows "declares metadata s"
proof -
  have "map tb_name (sc_tables s) = map cls_tablename migration_order"
    using tables_match assms(1) by (auto simp: list_all2_conv_all_nth same_table_def class_table_def
        intro!: nth_equalityI)
  moreover have "\<exists>t \<in> set (sc_tables s). same_table t (class_table c)" if "c \<in> set migration_order" for c
    using tables_match that unfolding assms(1) [symmetric]
    by (fastforce simp: list_all2_conv_all_nth in_set_conv_nth)
  ultimately have "declares migration_order s"
    using indexes_match types_match
    by (simp add: declares_def list_all_iff assms(2,3) flip: set_map)
  then show ?thesis using declares_order [OF migration_order_set] by blast
qed

lemma head_run:
  "case do_run_migrations False Upgrade_Head empty_database of
     Inr db \<Rightarrow> sc_types db = head_types \<and> alembic_version db = Some ''90ef683bfd81'' | Inl e \<Rightarrow> False"
  by code_simp

lemma empty_database_ok: "schema_ok empty_database" "own_types empty_database"
  by (simp_all add: empty_database_def schema_ok_def own_types_def)

lemma head_database:
  "\<exists>db. do_run_migrations checked Upgrade_Head empty_database = Inr db \<and> schema_ok db
     \<and> declares metadata db \<and> sc_types db = head_types \<and> alembic_version db = Some ''90ef683bfd81''"
proof -
  have v: "alembic_version empty_database = None" "empty_database\<lparr> run_types := [] \<rparr> = empty_database"
    by (simp_all add: empty_database_def)
  have run: "do_run_migrations c Upgrade_Head empty_database = foldE (upgrade_step c) chain empty_database" for c
    by (simp add: do_run_migrations_def v upgrade_path_chain)
  from head_run obtain db where db: "foldE (upgrade_step False) chain empty_database = Inr db"
    "sc_types db = head_types" "alembic_version db = Some ''90ef683bfd81''"
    unfolding run by (cases "foldE (upgrade_step False) chain empty_database") auto
  have "set chain \<subseteq> set versions" by (simp add: chain_def versions_def)
  from upgrade_steps_create [OF db(1) this] have "declares metadata db"
    by (intro declares_created) (simp_all add: db(2) empty_database_def)
  moreover have "schema_ok db"
    using db(1) empty_database_ok(1)
    by (rule foldE_invariant) (auto simp: upgrade_step_def bindE_eq_Inr schema_ok_def
        dest!: run_ddl_keeps_schema_ok)
  ultimately show ?thesis
    using db upgrade_steps_unchecked [OF empty_database_ok(2), of checked chain False] run by auto
qed

section \<open>Down again\<close>

lemma upgrade_path_drop:
  "upgrade_path (length versions) versions r = [] \<or>
   (\<exists>k < 5. upgrade_path (length versions) versions r = drop k chain)"
proof -
  have known: "upgrade_path (length versions) versions (Some (revision (chain ! k))) = drop (Suc k) chain"
    if "k < 5" for k
  proof -
    have "k \<in> {0, 1, 2, 3, 4}" using that by auto
    then show ?thesis by (auto simp: versions_def chain_def revision_defs eval_nat_numeral)
  qed
  show ?thesis
  proof (cases "r = None \<or> (\<exists>m \<in> set versions. down_revision m = r)")
    case False
    then have "find (\<lambda>m. down_revision m = r) versions = None" by (simp add: find_None_iff)
    then show ?thesis by (simp add: versions_def)
  next
    case True
    then have "r = None \<or> (\<exists>k \<in> {0, 1, 2, 3}. r = Some (revision (chain ! k)))"
      by (auto simp: versions_def chain_def revision_defs)
    then consider "r = None" | k where "k < 4" "r = Some (revision (chain ! k))"
    proof
      assume "\<exists>k \<in> {0, 1, 2, 3}. r = Some (revision (chain ! k))"
      then obtain k where "k \<in> {0, 1, 2, 3}" "r = Some (revision (chain ! k))" by blast
      then show thesis using that(2) [of k] by fastforce
    qed (use that in blast)
    then show ?thesis
    proof cases
      case 1
      then show ?thesis using upgrade_path_chain by (intro disjI2 exI [of _ 0]) simp
    next
      case (2 k)
      then show ?thesis using known [of k] by (intro disjI2 exI [of _ "Suc k"]) simp
    qed
  qed
qed

lemma downgrade_after_upgrade:
  assumes "schema_ok db" "do_run_migrations checked Upgrade_Head db = Inr db'"
  shows "do_run_migrations checked' (Downgrade (length (upgrade_path (length versions) versions (alembic_version db)))) db'
    = Inr (db'\<lparr> sc_tables := sc_tables db, sc_indexes := sc_indexes db,
              alembic_version := alembic_version db, run_types := [] \<rparr>)"
proof -
  define path where "path = upgrade_path (length versions) versions (alembic_version db)"
  let ?start = "db\<lparr> run_types := [] \<rparr>" and ?t = "db'\<lparr> run_types := [] \<rparr>"
  have run: "foldE (upgrade_step checked) path ?start = Inr db'"
    using assms(2) by (simp add: do_run_migrations_def path_def)
  have ok: "schema_ok ?start" using assms(1) by (simp add: schema_ok_def)
  have l: "linked (alembic_version ?start) path" "set path \<subseteq> set versions"
    by (simp_all add: path_def linked_path path_versions)
  have "take (length path) (downgrade_path (length versions) versions (alembic_version db')) = rev path"
  proof (cases "path = []")
    case False
    then obtain k where k: "k < 5" "path = drop k chain"
      using upgrade_path_drop [of "alembic_version db"] by (auto simp: path_def)
    have "revision (last path) = ''90ef683bfd81''"
      using k by (simp add: last_drop chain_def revision_90ef683bfd81_def)
    then have "alembic_version db' = Some ''90ef683bfd81''"
      using upgrade_steps_version [OF run False] by simp
    then show ?thesis using k by (simp add: downgrade_path_chain rev_drop chain_def)
  qed simp
  moreover have "foldE (downgrade_step checked') (rev path) ?t
      = Inr (?t\<lparr> sc_tables := sc_tables ?start, sc_indexes := sc_indexes ?start,
                alembic_version := alembic_version ?start \<rparr>)"
    by (rule downgrades_undo [OF run ok l(2,1)]) simp_all
  ultimately show ?thesis by (simp add: do_run_migrations_def path_def)
qed

end
