(* ===== verification/Configuration.thy ===== *)
theory Configuration
  imports Google Zarinpal Storage
begin

text \<open>
  The settings of the process (\<open>app/core/config.py\<close>) and what is computed from them when the modules
  load: the clients' configurations, the logger (\<open>core/logging.py\<close>), the Celery application and its
  schedule (\<open>tasks/celery_app.py\<close>). The environment is a map from variable names to their texts; how
  pydantic reads a boolean, an integer or a URL from a text is a parameter.
\<close>

section \<open>Settings\<close>

type_synonym variables = "string \<Rightarrow> string option"

record app_settings = settings +
  as_debug :: bool
  as_database_url :: string
  as_redis_url :: string
  as_jwt_secret_key :: string
  as_jwt_algorithm :: string
  as_google_client_id :: string
  as_google_client_secret :: string
  as_google_redirect_uri :: string
  as_zarinpal_merchant_id :: string
  as_zarinpal_sandbox :: bool
  as_zarinpal_callback_url :: string
  as_storage_root :: string
  as_max_upload_size_mb :: int
  as_openapi_enabled :: bool

record readers =
  read_bool :: "string \<Rightarrow> bool option"
  read_int :: "string \<Rightarrow> int option"
  read_postgres_url :: "string \<Rightarrow> string option"
  read_redis_url :: "string \<Rightarrow> string option"

definition read_environment :: "string \<Rightarrow> environment option" where
  "read_environment s =
     (if s = ''development'' then Some Development else if s = ''production'' then Some Production
      else if s = ''test'' then Some TestEnv else None)"

definition min_length :: "nat \<Rightarrow> string \<Rightarrow> string option" where
  "min_length n s = (if n \<le> text_length s then Some s else None)"

text \<open>A field: the variable if it is set, else the default; \<open>None\<close> as default is a required field.\<close>

definition field :: "variables \<Rightarrow> string \<Rightarrow> (string \<Rightarrow> 'a option) \<Rightarrow> 'a option \<Rightarrow> exn + 'a" where
  "field env name read missing =
     the_or ValidationError (case env name of Some s \<Rightarrow> read s | None \<Rightarrow> missing)"

definition get_settings :: "readers \<Rightarrow> variables \<Rightarrow> exn + app_settings" where
  "get_settings rd env =
     bindE (field env ''ENVIRONMENT'' read_environment (Some Development)) (\<lambda>environment.
     bindE (field env ''DEBUG'' (read_bool rd) (Some False)) (\<lambda>debug.
     bindE (field env ''DATABASE_URL'' (read_postgres_url rd) None) (\<lambda>database_url.
     bindE (field env ''REDIS_URL'' (read_redis_url rd) None) (\<lambda>redis_url.
     bindE (field env ''JWT_SECRET_KEY'' (min_length 32) None) (\<lambda>jwt_secret_key.
     bindE (field env ''JWT_ALGORITHM'' Some (Some ''HS256'')) (\<lambda>jwt_algorithm.
     bindE (field env ''ACCESS_TOKEN_EXPIRE_MINUTES'' (read_int rd) (Some 15)) (\<lambda>access_minutes.
     bindE (field env ''REFRESH_TOKEN_EXPIRE_DAYS'' (read_int rd) (Some 30)) (\<lambda>refresh_days.
     bindE (field env ''CSRF_SECRET_KEY'' (min_length 32) None) (\<lambda>csrf_secret_key.
     bindE (field env ''CORS_ALLOW_ORIGINS'' Some (Some '''')) (\<lambda>cors.
     bindE (field env ''GOOGLE_OAUTH_CLIENT_ID'' Some (Some '''')) (\<lambda>client_id.
     bindE (field env ''GOOGLE_OAUTH_CLIENT_SECRET'' Some (Some '''')) (\<lambda>client_secret.
     bindE (field env ''GOOGLE_OAUTH_REDIRECT_URI'' Some (Some '''')) (\<lambda>redirect_uri.
     bindE (field env ''ZARINPAL_MERCHANT_ID'' Some (Some '''')) (\<lambda>merchant_id.
     bindE (field env ''ZARINPAL_SANDBOX'' (read_bool rd) (Some True)) (\<lambda>sandbox.
     bindE (field env ''ZARINPAL_CALLBACK_URL'' Some (Some '''')) (\<lambda>callback_url.
     bindE (field env ''STORAGE_ROOT'' Some (Some ''/data/uploads'')) (\<lambda>storage_root.
     bindE (field env ''MAX_UPLOAD_SIZE_MB'' (read_int rd) (Some 5)) (\<lambda>max_upload.
     bindE (field env ''OPENAPI_ENABLED'' (read_bool rd) (Some True)) (\<lambda>openapi.
     bindE (field env ''COOKIE_SECURE'' Some (Some '''')) (\<lambda>cookie_secure_raw.
       Inr \<lparr> st_environment = environment, st_access_token_expire_minutes = access_minutes,
             st_refresh_token_expire_days = refresh_days, st_csrf_secret_key = csrf_secret_key,
             st_cors_allow_origins_raw = cors, st_cookie_secure_raw = cookie_secure_raw,
             as_debug = debug, as_database_url = database_url, as_redis_url = redis_url,
             as_jwt_secret_key = jwt_secret_key, as_jwt_algorithm = jwt_algorithm,
             as_google_client_id = client_id, as_google_client_secret = client_secret,
             as_google_redirect_uri = redirect_uri, as_zarinpal_merchant_id = merchant_id,
             as_zarinpal_sandbox = sandbox, as_zarinpal_callback_url = callback_url,
             as_storage_root = storage_root, as_max_upload_size_mb = max_upload,
             as_openapi_enabled = openapi \<rparr>))))))))))))))))))))"

section \<open>What the modules take from the settings\<close>

definition google_config_of :: "app_settings \<Rightarrow> google_config" where
  "google_config_of cfg = \<lparr> gg_client_id = as_google_client_id cfg,
     gg_client_secret = as_google_client_secret cfg, gg_redirect_uri = as_google_redirect_uri cfg \<rparr>"

definition zarinpal_settings_of :: "app_settings \<Rightarrow> zarinpal_settings" where
  "zarinpal_settings_of cfg = \<lparr> zp_merchant_id = Some (as_zarinpal_merchant_id cfg),
     zp_callback_url = Some (as_zarinpal_callback_url cfg), zp_sandbox = as_zarinpal_sandbox cfg \<rparr>"

text \<open>The directory of the product images: the argument if it is given, else the setting.\<close>

definition image_root :: "app_settings \<Rightarrow> string option \<Rightarrow> string" where
  "image_root cfg given = (case truthy given of Some r \<Rightarrow> r | None \<Rightarrow> as_storage_root cfg) @ ''/products''"

record local_image_storage =
  li_root :: string

definition get_image_storage ::
    "app_settings \<Rightarrow> local_image_storage option \<Rightarrow> local_image_storage \<times> local_image_storage option" where
  "get_image_storage cfg kept =
     (case kept of
        Some storage \<Rightarrow> (storage, kept)
      | None \<Rightarrow> let storage = \<lparr>li_root = image_root cfg None\<rparr> in (storage, Some storage))"

text \<open>The engine and the factory of the sessions, as the options the library is given.\<close>

record database_engine =
  dbe_url :: string
  dbe_pool_pre_ping :: bool
  dbe_pool_size :: nat
  dbe_max_overflow :: nat

definition engine :: "app_settings \<Rightarrow> database_engine" where
  "engine cfg = \<lparr>dbe_url = as_database_url cfg, dbe_pool_pre_ping = True, dbe_pool_size = 10, dbe_max_overflow = 10\<rparr>"

record session_factory =
  sf_engine :: database_engine
  sf_expire_on_commit :: bool
  sf_autoflush :: bool

definition AsyncSessionFactory :: "app_settings \<Rightarrow> session_factory" where
  "AsyncSessionFactory cfg = \<lparr>sf_engine = engine cfg, sf_expire_on_commit = False, sf_autoflush = False\<rparr>"

datatype log_level = DEBUG | INFO

datatype log_processor =
  merge_contextvars | add_log_level | TimeStamper_iso | StackInfoRenderer | format_exc_info | JSONRenderer

record logging_config =
  lc_format :: string
  lc_root_level :: log_level
  lc_processors :: "log_processor list"
  lc_filter_level :: log_level
  lc_cache :: bool

definition configure_logging :: "bool \<Rightarrow> logging_config" where
  "configure_logging debug =
     \<lparr> lc_format = ''%(message)s'', lc_root_level = (if debug then DEBUG else INFO),
       lc_processors = [merge_contextvars, add_log_level, TimeStamper_iso, StackInfoRenderer,
         format_exc_info, JSONRenderer],
       lc_filter_level = (if debug then DEBUG else INFO), lc_cache = True \<rparr>"

section \<open>Clients kept for the life of the process\<close>

text \<open>\<open>lru_cache\<close> on a function without arguments, and the module variable \<open>_client\<close>: the first call
  creates, the others return what is kept. The redis library opens the connection.\<close>

record redis_client =
  rc_url :: string
  rc_decode_responses :: bool

definition get_redis :: "app_settings \<Rightarrow> redis_client option \<Rightarrow> redis_client \<times> redis_client option" where
  "get_redis cfg kept =
     (case kept of
        Some client \<Rightarrow> (client, kept)
      | None \<Rightarrow> let client = \<lparr>rc_url = as_redis_url cfg, rc_decode_responses = True\<rparr> in (client, Some client))"

text \<open>The protocol \<open>ZarinPalClient\<close> as the record of its methods, and its implementation.\<close>

record zarinpal_client =
  zc_is_configured :: bool
  zc_request_payment :: "int \<Rightarrow> uuid \<Rightarrow> exn + payment_request_result"
  zc_verify_payment :: "int \<Rightarrow> string \<Rightarrow> payment_verify_result"

definition zarinpal_sandbox_client ::
    "app_settings \<Rightarrow> (int \<Rightarrow> uuid \<Rightarrow> gateway_answer) \<Rightarrow> (int \<Rightarrow> string \<Rightarrow> gateway_answer) \<Rightarrow> zarinpal_client" where
  "zarinpal_sandbox_client cfg post_request post_verify =
     \<lparr> zc_is_configured = is_configured (zarinpal_settings_of cfg),
       zc_request_payment = request_payment (zarinpal_settings_of cfg) post_request,
       zc_verify_payment = verify_payment post_verify \<rparr>"

definition get_zarinpal_client ::
    "zarinpal_client \<Rightarrow> zarinpal_client option \<Rightarrow> zarinpal_client \<times> zarinpal_client option" where
  "get_zarinpal_client new kept =
     (case kept of None \<Rightarrow> (new, Some new) | Some client \<Rightarrow> (client, kept))"

definition set_zarinpal_client :: "zarinpal_client \<Rightarrow> zarinpal_client option \<Rightarrow> zarinpal_client option" where
  "set_zarinpal_client client kept = Some client"

text \<open>Every later call gets the same client, and a substituted one takes over.\<close>

lemma clients_are_kept:
  "get_redis cfg kept = (client, kept') \<Longrightarrow> get_redis cfg' kept' = (client, kept')"
  "get_zarinpal_client new zkept0 = (client', zkept) \<Longrightarrow> get_zarinpal_client new' zkept = (client', zkept)"
  "fst (get_zarinpal_client new (set_zarinpal_client fake zkept0)) = fake"
  "get_image_storage cfg ikept0 = (storage, ikept) \<Longrightarrow> get_image_storage cfg' ikept = (storage, ikept)"
  by (auto simp: get_redis_def get_image_storage_def get_zarinpal_client_def set_zarinpal_client_def Let_def split: option.splits)

section \<open>The Celery application\<close>

text \<open>\<open>s.rsplit("/", 1)[0]\<close> of a text with a slash, and \<open>s.rstrip("/")\<close>.\<close>

definition before_last_slash :: "string \<Rightarrow> string" where
  "before_last_slash s = rev (tl (dropWhile (\<lambda>c. c \<noteq> CHR ''/'') (rev s)))"

definition rstrip_slash :: "string \<Rightarrow> string" where
  "rstrip_slash s = rev (dropWhile (\<lambda>c. c = CHR ''/'') (rev s))"

definition slashes :: "string \<Rightarrow> nat" where
  "slashes s = length (filter (\<lambda>c. c = CHR ''/'') s)"

definition with_db :: "string \<Rightarrow> nat \<Rightarrow> string" where
  "with_db redis_url db =
     (let base = (if 3 \<le> slashes redis_url then before_last_slash redis_url else rstrip_slash redis_url)
      in base @ ''/'' @ nat_str db)"

record scheduled_task =
  be_name :: string
  be_task :: string
  be_seconds :: nat

record celery_config =
  ce_broker :: string
  ce_backend :: string
  ce_include :: "string list"
  ce_beat_schedule :: "scheduled_task list"
  ce_max_tasks_per_child :: nat
  ce_timezone :: string

definition celery_app :: "app_settings \<Rightarrow> celery_config" where
  "celery_app cfg =
     \<lparr> ce_broker = with_db (as_redis_url cfg) 1, ce_backend = with_db (as_redis_url cfg) 1,
       ce_include = [''app.tasks.ticket_tasks''],
       ce_beat_schedule = [\<lparr> be_name = ''auto-close-stale-tickets'',
         be_task = ''app.tasks.ticket_tasks.auto_close_stale_tickets'', be_seconds = 600 \<rparr>],
       ce_max_tasks_per_child = 200, ce_timezone = ''UTC'' \<rparr>"

section \<open>Facts\<close>

lemma field_Inr: "field env name read missing = Inr x \<longleftrightarrow>
   (case env name of Some s \<Rightarrow> read s | None \<Rightarrow> missing) = Some x"
  by (auto simp: field_def the_or_def split: option.splits)

lemma settings_fields:
  assumes "get_settings rd env = Inr cfg"
  shows "field env ''JWT_SECRET_KEY'' (min_length 32) None = Inr (as_jwt_secret_key cfg)"
    "field env ''CSRF_SECRET_KEY'' (min_length 32) None = Inr (st_csrf_secret_key cfg)"
    "field env ''DATABASE_URL'' (read_postgres_url rd) None = Inr (as_database_url cfg)"
    "field env ''REDIS_URL'' (read_redis_url rd) None = Inr (as_redis_url cfg)"
    "field env ''GOOGLE_OAUTH_CLIENT_ID'' Some (Some '''') = Inr (as_google_client_id cfg)"
    "field env ''ZARINPAL_MERCHANT_ID'' Some (Some '''') = Inr (as_zarinpal_merchant_id cfg)"
  using assms unfolding get_settings_def bindE_eq_Inr by (elim exE conjE, clarsimp)+

text \<open>No settings without the two secrets, of at least 32 characters each, and the two URLs.\<close>

lemma settings_have_secrets:
  assumes "get_settings rd env = Inr cfg"
  shows "32 \<le> text_length (as_jwt_secret_key cfg) \<and> 32 \<le> text_length (st_csrf_secret_key cfg)
    \<and> env ''DATABASE_URL'' \<noteq> None \<and> env ''REDIS_URL'' \<noteq> None"
  using settings_fields(1-4) [OF assms] by (auto simp: field_Inr min_length_def split: option.splits if_splits)

text \<open>Without their variables the two outside services are off.\<close>

lemma services_off_by_default:
  assumes "get_settings rd env = Inr cfg"
  shows "env ''GOOGLE_OAUTH_CLIENT_ID'' = None \<Longrightarrow> \<not> google_is_configured (google_config_of cfg)"
    "env ''ZARINPAL_MERCHANT_ID'' = None \<Longrightarrow> \<not> is_configured (zarinpal_settings_of cfg)"
  using settings_fields(5,6) [OF assms] by (simp_all add: field_Inr google_config_of_def google_is_configured_def
      truthy_def zarinpal_settings_of_def is_configured_def)

lemma slashes_simps [simp]:
  "slashes [] = 0" "slashes (c # s) = (if c = CHR ''/'' then Suc (slashes s) else slashes s)"
  "slashes (s @ t) = slashes s + slashes t"
  by (simp_all add: slashes_def)

lemma no_slashes: "slashes s = 0 \<longleftrightarrow> CHR ''/'' \<notin> set s"
  by (induction s) auto

lemma before_last_slash_append: "slashes t = 0 \<Longrightarrow> before_last_slash (s @ ''/'' @ t) = s"
  by (simp add: before_last_slash_def no_slashes dropWhile_append)

lemma nat_str_no_slash: "CHR ''/'' \<notin> set (nat_str n)"
proof (induction n rule: nat_str.induct)
  case (1 n)
  have digit: "char_of (48 + d) \<noteq> CHR ''/''" if "d < 10" for d :: nat
  proof
    assume "char_of (48 + d) = CHR ''/''"
    then have "of_char (char_of (48 + d) :: char) = (of_char (CHR ''/'') :: nat)" by simp
    then show False using that by simp
  qed
  show ?case
  proof (cases "n < 10")
    case True
    then show ?thesis using digit [of n] by (subst nat_str.simps) auto
  next
    case False
    then show ?thesis using 1 digit [of "n mod 10"] by (subst nat_str.simps) auto
  qed
qed

lemma slashes_nat_str [simp]: "slashes (nat_str n) = 0"
  using nat_str_no_slash by (simp add: no_slashes)

text \<open>A URL with a host and a database number gets the other number; one without gets it appended.\<close>

lemma with_db_path:
  assumes "slashes path = 0" "2 \<le> slashes host"
  shows "with_db (host @ ''/'' @ path) n = host @ ''/'' @ nat_str n"
  using assms before_last_slash_append [OF assms(1), of host] by (simp add: with_db_def)

lemma with_db_host:
  assumes "slashes host = 2" "host = rstrip_slash host"
  shows "with_db host n = host @ ''/'' @ nat_str n"
  using assms by (simp add: with_db_def)

lemma with_db_again:
  assumes "2 \<le> slashes (if 3 \<le> slashes url then before_last_slash url else rstrip_slash url)"
  shows "with_db (with_db url m) n = with_db url n"
proof -
  define base where "base = (if 3 \<le> slashes url then before_last_slash url else rstrip_slash url)"
  have "with_db url k = base @ ''/'' @ nat_str k" for k by (simp add: with_db_def base_def)
  with with_db_path [of "nat_str m" base n] assms show ?thesis by (simp add: base_def [symmetric])
qed

text \<open>Every task of the schedule is defined in a module the workers load.\<close>

lemma schedule_is_loaded:
  "\<forall>t \<in> set (ce_beat_schedule (celery_app cfg)). \<exists>m \<in> set (ce_include (celery_app cfg)). \<exists>f. be_task t = m @ ''.'' @ f"
  by (simp add: celery_app_def)

end
