(* ===== verification/Application.thy ===== *)
theory Application
  imports Admin_Api Configuration
begin

text \<open>
  The application as it is assembled (\<open>app/main.py\<close>, \<open>app/api/v1\<close>): the layers every request passes
  on its way to a route and every answer on its way back. The layer added last is the outermost one:
  the request id, then the CSRF check, then CORS, then the exception handlers; the handler of
  \<open>Exception\<close> runs outside all of them. The CORS layer is a library and a parameter; a route is any
  function on the state.
\<close>

section \<open>Assembly\<close>

datatype middleware = Request_Context | Csrf_Protection | Cors

record cors_options =
  co_allow_origins :: "string list"
  co_allow_credentials :: bool
  co_allow_methods :: "string list"
  co_allow_headers :: "string list"

record fastapi_app =
  fa_version :: string
  fa_docs_url :: "string option"
  fa_redoc_url :: "string option"
  fa_openapi_url :: "string option"
  fa_middleware :: "middleware list"      \<comment> \<open>outermost first\<close>
  fa_cors :: cors_options
  fa_prefix :: string
  fa_routers :: "string list"

text \<open>\<open>add_middleware\<close> puts the new layer around those added before.\<close>

definition add_middleware :: "middleware \<Rightarrow> middleware list \<Rightarrow> middleware list" where
  "add_middleware m ms = m # ms"

definition api_router :: "string list" where
  "api_router = [''health'', ''auth'', ''catalog'', ''cart'', ''orders'', ''payments'', ''wallet'',
     ''tickets'', ''users'', ''audit'', ''dashboard'', ''reports'']"

definition create_app :: "app_settings \<Rightarrow> fastapi_app" where
  "create_app cfg =
     \<lparr> fa_version = ''0.1.0'',
       fa_docs_url = (if as_openapi_enabled cfg then Some ''/docs'' else None),
       fa_redoc_url = (if as_openapi_enabled cfg then Some ''/redoc'' else None),
       fa_openapi_url = (if as_openapi_enabled cfg then Some ''/openapi.json'' else None),
       fa_middleware = add_middleware Request_Context (add_middleware Csrf_Protection (add_middleware Cors [])),
       fa_cors = \<lparr> co_allow_origins = cors_allow_origins (settings.truncate cfg), co_allow_credentials = True,
         co_allow_methods = [''GET'', ''POST'', ''PUT'', ''PATCH'', ''DELETE''],
         co_allow_headers = [''Authorization'', ''Content-Type'', ''X-CSRF-Token'', ''Idempotency-Key''] \<rparr>,
       fa_prefix = ''/api/v1'', fa_routers = api_router \<rparr>"

section \<open>Requests and answers\<close>

record http_request =
  hr_method :: string
  hr_request_id :: "string option"     \<comment> \<open>\<open>X-Request-Id\<close>\<close>
  hr_csrf_cookie :: "string option"
  hr_csrf_header :: "string option"

datatype 'b reply_body = Content 'b | Error_Body envelope

record 'b http_reply =
  re_status :: nat
  re_body :: "'b reply_body"
  re_headers :: "(string \<times> string) list"

type_synonym ('s, 'b) app = "'s \<Rightarrow> (exn + 'b http_reply) \<times> 's"
type_synonym ('s, 'b) layer = "http_request \<Rightarrow> string \<Rightarrow> ('s, 'b) app \<Rightarrow> ('s, 'b) app"

section \<open>The layers\<close>

text \<open>The exceptions with a handler of their own; the others travel outwards.\<close>

fun has_handler :: "exn \<Rightarrow> bool" where
  "has_handler RequestValidationError = True"
| "has_handler (HTTPException n) = True"
| "has_handler e = is_app_error e"

definition error_reply :: "exn \<Rightarrow> http_request \<Rightarrow> string \<Rightarrow> 'b http_reply" where
  "error_reply e rq rid =
     (let (st, env) = handle_exception e (hr_request_id rq) (Some rid)
      in \<lparr> re_status = st, re_body = Error_Body env, re_headers = [] \<rparr>)"

definition exception_layer ::
    "http_request \<Rightarrow> string \<Rightarrow> ('s \<Rightarrow> (exn + nat \<times> 'b) \<times> 's) \<Rightarrow> ('s, 'b) app" where
  "exception_layer rq rid route s =
     (case route s of
        (Inr (st, b), s') \<Rightarrow> (Inr \<lparr> re_status = st, re_body = Content b, re_headers = [] \<rparr>, s')
      | (Inl e, s') \<Rightarrow> (if has_handler e then Inr (error_reply e rq rid) else Inl e, s'))"

definition csrf_reply :: "string \<Rightarrow> 'b http_reply" where
  "csrf_reply rid =
     \<lparr> re_status = 403,
       re_body = Error_Body \<lparr> env_code = ''CSRF_VALIDATION_FAILED'', env_request_id = Some rid \<rparr>,
       re_headers = [] \<rparr>"

definition csrf_layer :: "settings \<Rightarrow> ('s, 'b) layer" where
  "csrf_layer cfg rq rid inner s =
     (case csrf_protection_middleware cfg (hr_method rq) (hr_csrf_cookie rq) (hr_csrf_header rq) of
        Inl e \<Rightarrow> (Inl e, s)
      | Inr CallNext \<Rightarrow> inner s
      | Inr CsrfRefused \<Rightarrow> (Inr (csrf_reply rid), s))"

text \<open>\<open>response.headers["X-Request-Id"] = request_id\<close>.\<close>

definition set_header :: "string \<Rightarrow> string \<Rightarrow> 'b http_reply \<Rightarrow> 'b http_reply" where
  "set_header name val r = r\<lparr>re_headers := filter (\<lambda>(n, v). n \<noteq> name) (re_headers r) @ [(name, val)]\<rparr>"

definition request_context_layer :: "http_request \<Rightarrow> string \<Rightarrow> (string \<Rightarrow> ('s, 'b) app) \<Rightarrow> ('s, 'b) app" where
  "request_context_layer rq new_id inner s =
     (let rid = request_context_id (hr_request_id rq) new_id; (r, s') = inner rid s
      in (map_sum id (set_header ''X-Request-Id'' rid) r, s'))"

text \<open>Outside all layers an exception becomes the internal error.\<close>

definition serve ::
    "('s, 'b) layer \<Rightarrow> settings \<Rightarrow> http_request \<Rightarrow> string
     \<Rightarrow> ('s \<Rightarrow> (exn + nat \<times> 'b) \<times> 's) \<Rightarrow> 's \<Rightarrow> 'b http_reply \<times> 's" where
  "serve cors cfg rq new_id route s =
     (case request_context_layer rq new_id
             (\<lambda>rid. csrf_layer cfg rq rid (cors rq rid (exception_layer rq rid route))) s of
        (Inr r, s') \<Rightarrow> (r, s')
      | (Inl e, s') \<Rightarrow> (error_reply e rq (request_context_id (hr_request_id rq) new_id), s'))"

section \<open>Health probes\<close>

definition liveness :: "nat \<times> string" where
  "liveness = (200, ''ok'')"

text \<open>The two probes may raise anything; the answer never does.\<close>

definition probe :: "exn + unit \<Rightarrow> string" where
  "probe r = (case r of Inr _ \<Rightarrow> ''ok'' | Inl e \<Rightarrow> ''unavailable'')"

definition readiness :: "exn + unit \<Rightarrow> exn + unit \<Rightarrow> nat \<times> string \<times> (string \<times> string) list" where
  "readiness database redis_ping =
     (let checks = [(''database'', probe database), (''redis'', probe redis_ping)];
          healthy = List.list_all (\<lambda>(name, v). v = ''ok'') checks
      in (if healthy then 200 else 503, if healthy then ''ok'' else ''degraded'', checks))"

lemma readiness_status: "fst (readiness database redis_ping) = (if isl database \<or> isl redis_ping then 503 else 200)"
  by (cases database; cases redis_ping) (simp_all add: readiness_def probe_def)

section \<open>What the layers guarantee\<close>

text \<open>The CORS layer, on requests it does not answer itself, hands on what is inside and adds headers.\<close>

definition adds_headers :: "('s, 'b) layer \<Rightarrow> http_request \<Rightarrow> bool" where
  "adds_headers cors rq \<longleftrightarrow> (\<forall>rid inner s.
     snd (cors rq rid inner s) = snd (inner s)
     \<and> (case fst (inner s) of
          Inl e \<Rightarrow> fst (cors rq rid inner s) = Inl e
        | Inr r \<Rightarrow> (\<exists>hs. fst (cors rq rid inner s) = Inr (r\<lparr>re_headers := hs\<rparr>))))"

text \<open>A layer that adds nothing.\<close>

lemma adds_headers_plain: "adds_headers (\<lambda>rq rid inner. inner) rq"
proof -
  have "\<exists>hs. r = r\<lparr>re_headers := hs\<rparr>" for r :: "'b http_reply" by (rule exI [of _ "re_headers r"]) simp
  then show ?thesis by (simp add: adds_headers_def split: sum.splits)
qed

lemma error_reply_body: "re_body (error_reply e rq rid) = Error_Body (snd (handle_exception e (hr_request_id rq) (Some rid)))"
  and error_reply_status: "re_status (error_reply e rq rid) = status_code e"
  by (simp_all add: error_reply_def handle_exception_def)

text \<open>Which requests get through the check.\<close>

definition confirmed :: "settings \<Rightarrow> http_request \<Rightarrow> bool" where
  "confirmed cfg rq \<longleftrightarrow>
     hr_method rq \<notin> set MUTATING_METHODS \<or> truthy (hr_csrf_cookie rq) = None
     \<or> truthy (hr_csrf_header rq) = truthy (hr_csrf_cookie rq)
       \<and> (\<exists>nonce. CHR ''.'' \<notin> set nonce \<and> truthy (hr_csrf_cookie rq) = Some (generate_csrf_token cfg nonce)
            \<and> is_ascii (generate_csrf_token cfg nonce))"

lemma csrf_outcomes:
  "csrf_protection_middleware cfg m cookie header =
     (if m \<in> set MUTATING_METHODS \<and> truthy cookie \<noteq> None
      then bindE (csrf_tokens_match cfg cookie header) (\<lambda>ok. Inr (if ok then CallNext else CsrfRefused))
      else Inr CallNext)"
  by (auto simp: csrf_protection_middleware_def bindE_def split: option.splits sum.splits)

lemma confirmed_passes:
  "csrf_protection_middleware cfg (hr_method rq) (hr_csrf_cookie rq) (hr_csrf_header rq) = Inr CallNext
     \<longleftrightarrow> confirmed cfg rq"
proof (cases "hr_method rq \<in> set MUTATING_METHODS \<and> truthy (hr_csrf_cookie rq) \<noteq> None")
  case False
  then show ?thesis by (auto simp: csrf_outcomes confirmed_def)
next
  case True
  then obtain c where m: "hr_method rq \<in> set MUTATING_METHODS" and c: "truthy (hr_csrf_cookie rq) = Some c" by auto
  have "is_ascii (generate_csrf_token cfg nonce) \<longleftrightarrow> is_ascii nonce" for nonce
    using csrf_signature_ascii [of cfg nonce] by (auto simp: generate_csrf_token_def is_ascii_def)
  then show ?thesis
    using csrf_lets_through [OF m c, of cfg "hr_csrf_header rq"]
    by (auto simp: confirmed_def m c csrf_valid_iff)
qed

text \<open>A request that is not confirmed reaches no route: the state stays, and the answer is the refusal
  or, for texts that cannot be compared, the internal error.\<close>

lemma serve_unconfirmed:
  fixes cors :: "('s, 'b) layer"
  assumes "\<not> confirmed cfg rq"
  shows "snd (serve cors cfg rq new_id route s) = s"
    "fst (serve cors cfg rq new_id route s) \<in>
       {set_header ''X-Request-Id'' (request_context_id (hr_request_id rq) new_id)
          (csrf_reply (request_context_id (hr_request_id rq) new_id)),
        error_reply TypeError rq (request_context_id (hr_request_id rq) new_id)}"
proof -
  from assms have c: "csrf_protection_middleware cfg (hr_method rq) (hr_csrf_cookie rq) (hr_csrf_header rq) \<noteq> Inr CallNext"
    using confirmed_passes by blast
  then consider "csrf_protection_middleware cfg (hr_method rq) (hr_csrf_cookie rq) (hr_csrf_header rq) = Inr CsrfRefused"
    | "csrf_protection_middleware cfg (hr_method rq) (hr_csrf_cookie rq) (hr_csrf_header rq) = Inl TypeError"
    by (auto simp: csrf_outcomes csrf_tokens_match_def is_valid_csrf_token_def compare_digest_def bindE_def
        split: option.splits if_splits sum.splits)
  then show "snd (serve cors cfg rq new_id route s) = s"
    "fst (serve cors cfg rq new_id route s) \<in>
       {set_header ''X-Request-Id'' (request_context_id (hr_request_id rq) new_id)
          (csrf_reply (request_context_id (hr_request_id rq) new_id)),
        error_reply TypeError rq (request_context_id (hr_request_id rq) new_id)}"
    by (cases; simp add: serve_def request_context_layer_def csrf_layer_def Let_def)+
qed

lemma set_header_simps [simp]:
  "re_status (set_header n v r) = re_status r" "re_body (set_header n v r) = re_body r"
  "(n, v) \<in> set (re_headers (set_header n v r))"
  by (simp_all add: set_header_def)

text \<open>A confirmed request is answered by its route: the state is the route's, the status and the body are
  the route's or those of its exception.\<close>

lemma serve_confirmed:
  fixes cors :: "('s, 'b) layer" and new_id :: string
  assumes "confirmed cfg rq" "adds_headers cors rq"
  defines "rid \<equiv> request_context_id (hr_request_id rq) new_id"
  shows "snd (serve cors cfg rq new_id route s) = snd (route s)"
    "re_status (fst (serve cors cfg rq new_id route s)) =
       (case fst (route s) of Inr (st, b) \<Rightarrow> st | Inl e \<Rightarrow> status_code e)"
    "re_body (fst (serve cors cfg rq new_id route s)) =
       (case fst (route s) of Inr (st, b) \<Rightarrow> Content b
        | Inl e \<Rightarrow> Error_Body (snd (handle_exception e (hr_request_id rq) (Some rid))))"
    "(''X-Request-Id'', rid) \<in> set (re_headers (fst (serve cors cfg rq new_id route s)))
       \<or> (\<exists>e. fst (route s) = Inl e \<and> \<not> has_handler e)"
proof -
  let ?inner = "exception_layer rq rid route"
  obtain x s' where i: "?inner s = (x, s')" by fastforce
  obtain y t where r: "route s = (y, t)" by fastforce
  obtain x' s'' where o: "cors rq rid ?inner s = (x', s'')" by fastforce
  from assms(2) have "snd (cors rq rid ?inner s) = snd (?inner s)"
      "case fst (?inner s) of Inl e \<Rightarrow> fst (cors rq rid ?inner s) = Inl e
       | Inr r \<Rightarrow> (\<exists>hs. fst (cors rq rid ?inner s) = Inr (r\<lparr>re_headers := hs\<rparr>))"
    unfolding adds_headers_def by blast+
  with i o have c: "s'' = s'" "case x of Inl e \<Rightarrow> x' = Inl e | Inr r \<Rightarrow> (\<exists>hs. x' = Inr (r\<lparr>re_headers := hs\<rparr>))"
    by (simp, cases x, simp_all)
  from i r have s': "s' = t" and x: "x = (case y of Inr (st, b) \<Rightarrow> Inr \<lparr> re_status = st, re_body = Content b, re_headers = [] \<rparr>
      | Inl e \<Rightarrow> if has_handler e then Inr (error_reply e rq rid) else Inl e)"
    by (auto simp: exception_layer_def split: sum.splits if_splits)
  have v: "serve cors cfg rq new_id route s = (case x' of
      Inr r \<Rightarrow> (set_header ''X-Request-Id'' rid r, t) | Inl e \<Rightarrow> (error_reply e rq rid, t))"
    using assms(1) confirmed_passes [of cfg rq]
    by (simp add: serve_def request_context_layer_def csrf_layer_def Let_def rid_def [symmetric] o c(1) s' split: sum.splits)
  show "snd (serve cors cfg rq new_id route s) = snd (route s)"
    "re_status (fst (serve cors cfg rq new_id route s)) =
       (case fst (route s) of Inr (st, b) \<Rightarrow> st | Inl e \<Rightarrow> status_code e)"
    "re_body (fst (serve cors cfg rq new_id route s)) =
       (case fst (route s) of Inr (st, b) \<Rightarrow> Content b
        | Inl e \<Rightarrow> Error_Body (snd (handle_exception e (hr_request_id rq) (Some rid))))"
    "(''X-Request-Id'', rid) \<in> set (re_headers (fst (serve cors cfg rq new_id route s)))
       \<or> (\<exists>e. fst (route s) = Inl e \<and> \<not> has_handler e)"
    using c(2) x by (auto simp: v r error_reply_body error_reply_status split: sum.splits if_splits)
qed

text \<open>The body of an error, and the two ways a request is refused.\<close>

lemma envelope_of_request:
  "snd (handle_exception e (hr_request_id rq) (Some (request_context_id (hr_request_id rq) new_id))) =
     \<lparr>env_code = error_code e, env_request_id = Some (request_context_id (hr_request_id rq) new_id)\<rparr>"
  by (auto simp: handle_exception_def envelope_of_def request_context_id_def split: option.splits list.splits)

lemma unconfirmed_match:
  assumes "\<not> confirmed cfg rq"
  shows "csrf_tokens_match cfg (hr_csrf_cookie rq) (hr_csrf_header rq) \<in> {Inr False, Inl TypeError}"
proof -
  have "hr_method rq \<in> set MUTATING_METHODS \<and> truthy (hr_csrf_cookie rq) \<noteq> None" using assms by (auto simp: confirmed_def)
  with assms confirmed_passes [of cfg rq] show ?thesis
    by (auto simp: csrf_outcomes csrf_tokens_match_def is_valid_csrf_token_def compare_digest_def bindE_def
        split: option.splits if_splits sum.splits)
qed

lemma serve_refused:
  fixes cors :: "('s, 'b) layer"
  assumes "\<not> confirmed cfg rq"
  shows "fst (serve cors cfg rq new_id route s) =
     (if isl (csrf_tokens_match cfg (hr_csrf_cookie rq) (hr_csrf_header rq))
      then error_reply TypeError rq (request_context_id (hr_request_id rq) new_id)
      else set_header ''X-Request-Id'' (request_context_id (hr_request_id rq) new_id)
          (csrf_reply (request_context_id (hr_request_id rq) new_id)))"
proof -
  from assms have m: "hr_method rq \<in> set MUTATING_METHODS \<and> truthy (hr_csrf_cookie rq) \<noteq> None"
    by (auto simp: confirmed_def)
  have c: "csrf_protection_middleware cfg (hr_method rq) (hr_csrf_cookie rq) (hr_csrf_header rq) =
      bindE (csrf_tokens_match cfg (hr_csrf_cookie rq) (hr_csrf_header rq)) (\<lambda>ok. Inr (if ok then CallNext else CsrfRefused))"
    using m by (simp add: csrf_outcomes)
  show ?thesis
  proof (cases "csrf_tokens_match cfg (hr_csrf_cookie rq) (hr_csrf_header rq)")
    case (Inl e)
    then have "e = TypeError" using unconfirmed_match [OF assms] by simp
    with Inl show ?thesis by (simp add: c serve_def request_context_layer_def csrf_layer_def Let_def)
  next
    case (Inr ok)
    with assms c have "\<not> ok" using confirmed_passes [of cfg rq] by auto
    with Inr show ?thesis by (simp add: c serve_def request_context_layer_def csrf_layer_def Let_def)
  qed
qed

end
