(* ===== verification/Divergences.thy ===== *)
theory Divergences
  imports Account_Samples Seed Migrations Application
begin

text \<open>
  Points where the code and what it says it does part company, each shown on the model. They stand
  beside \<open>admin_strands_stock\<close> and \<open>cancel_paid_unreserves_others\<close> of \<open>Order_Effects\<close> and
  \<open>recheck_ignores_time\<close> of \<open>Ticket_Facts\<close>.
\<close>

text \<open>The permission \<open>user.role.manage\<close> belongs to the super administrator alone, and no route asks for
  it: an administrator, who lacks it, makes anybody else a super administrator.\<close>

lemma admin_grants_super_admin:
  assumes "u_role admin = Admin" "get_user_by_id uid db = Some u" "uid \<noteq> u_id admin" "u_role u \<noteq> SuperAdmin"
  shows "\<not> role_has_permission (u_role admin) ''user.role.manage''"
    and "\<exists>v db'. update_user admin now uid \<lparr>au_role = Some SuperAdmin, au_is_active = None\<rparr> db = (Inr v, db')
           \<and> aup_role v = SuperAdmin"
proof -
  show "\<not> role_has_permission (u_role admin) ''user.role.manage''"
    by (simp add: assms(1) role_has_permission_def ADMIN_PERMISSIONS_def SUPPORT_PERMISSIONS_def
        CUSTOMER_PERMISSIONS_def)
  have p: "require_permission ''user.manage'' admin = Inr admin"
    by (simp add: require_permission_def role_has_permission_def assms(1) ADMIN_PERMISSIONS_def)
  have i: "u_id u = uid" using assms(2) by (auto simp: get_user_by_id_def dest: find_by_key)
  show "\<exists>v db'. update_user admin now uid \<lparr>au_role = Some SuperAdmin, au_is_active = None\<rparr> db = (Inr v, db')
           \<and> aup_role v = SuperAdmin"
    using assms(2,3,4) by (simp add: update_user_def p update_user_service_eq role_step_def active_step_def i public_admin_user_def)
qed

text \<open>The login with a password refuses a deactivated account; the login with Google does not look.\<close>

lemma google_ignores_activation:
  assumes "get_user_by_oauth Google (gi_subject identity) db = Some u" "\<not> u_is_active u"
  shows "\<exists>v db'. login_or_register_with_google env k identity db = Inr (v, db') \<and> u_id v = u_id u \<and> \<not> u_is_active v"
  using assms by (simp add: login_or_register_with_google_def)

text \<open>A ticket that is reopened keeps the time at which it was closed.\<close>

lemma reopened_ticket_keeps_closing_time:
  assumes "get_ticket_by_id tid db = Some t" "tk_closed_at t = Some c"
  shows "\<exists>db' t'. change_status k tid TkOpen db = Inr db' \<and> get_ticket_by_id tid db' = Some t'
    \<and> tk_status t' = TkOpen \<and> tk_closed_at t' = Some c"
proof -
  let ?f = "\<lambda>t. t\<lparr>tk_status := TkOpen, tk_closed_at := (if TkOpen = TkClosed then Some (tf_now k) else tk_closed_at t)\<rparr>"
  have "get_ticket_by_id tid (save_ticket (tf_db_now k) ?f tid db) = Some (stamped (tf_db_now k) ?f t)"
    using assms(1) unfolding get_ticket_by_id_def save_ticket_def by (simp add: find_by_update_by)
  moreover have "tk_status (stamped (tf_db_now k) ?f t) = TkOpen" "tk_closed_at (stamped (tf_db_now k) ?f t) = Some c"
    using assms(2) by simp_all
  ultimately show ?thesis using assms(1) by (simp add: change_status_def)
qed

text \<open>Amounts may have decimals, the columns are whole: of a balance of one, a debit of one half writes a
  transaction of one and leaves the balance at one.\<close>

definition purse :: payments_db where
  "purse = shop\<lparr>wallets := [\<lparr>w_id = 90, w_user_id = 1, w_balance = 1\<rparr>]\<rparr>"

lemma half_debit_parts_balance_and_ledger:
  "\<exists>t db'. admin_debit round_half_away \<lparr>f_wallet = 91, f_transaction = 92, f_now = 5\<rparr> 1 (1 / 2) [] 9 purse = Inr (t, db')
     \<and> map w_balance (wallets db') = [1] \<and> map Wallet.signed (ledger_of 90 db') = [- 1]"
  by (simp add: admin_debit_def apply_transaction_def get_or_create_wallet_def get_wallet_by_user_id_def purse_def
      shop_def round_half_away_def numeric_fits_def CREDIT_TYPES_def ledger_of_def Wallet.signed_def Let_def)

text \<open>The seed script gives a stored product the photo of its category without dropping the cached copy
  of the product, which every reader goes on getting.\<close>

lemma seeded_photo_stays_hidden:
  assumes "redis db (product_cache_key (p_slug p)) = Some (CachedProduct v)" "pp_images v \<noteq> [photo]"
    and "p_images p \<noteq> Some [photo]" "unique_by p_id (products db)" "p \<in> set (products db)"
  shows "\<exists>q. find_by p_id (p_id p) (products (refresh_image now photo p db)) = Some q \<and> p_images q = Some [photo]"
    and "fst (get_product (p_slug p) (refresh_image now photo p db)) = Inr v"
proof -
  have "find_by p_id (p_id p) (products db) = Some p" using assms(4,5) by (rule find_by_unique)
  then show "\<exists>q. find_by p_id (p_id p) (products (refresh_image now photo p db)) = Some q \<and> p_images q = Some [photo]"
    using assms(3) by (simp add: refresh_image_def find_by_update_by)
  show "fst (get_product (p_slug p) (refresh_image now photo p db)) = Inr v"
    using assms(1) by (simp add: get_product_def cache_get_json_def refresh_image_def)
qed

text \<open>A downgrade drops the tables and leaves the enumerated types. When types are created without a
  look at the database, the way down to the empty schema cannot be followed by the way up.\<close>

lemma second_upgrade_fails:
  "\<exists>head base. do_run_migrations False Upgrade_Head empty_database = Inr head
     \<and> do_run_migrations False Downgrade_Base head = Inr base
     \<and> sc_tables base = [] \<and> alembic_version base = None
     \<and> do_run_migrations False Upgrade_Head base = Inl DBAPIError"
proof -
  obtain head where h: "do_run_migrations False Upgrade_Head empty_database = Inr head"
      "sc_types head = head_types" "alembic_version head = Some ''90ef683bfd81''"
    using head_database [of False] by blast
  let ?base = "head\<lparr> sc_tables := [], sc_indexes := [], alembic_version := None, run_types := [] \<rparr>"
  have v: "alembic_version empty_database = None" "sc_tables empty_database = []" "sc_indexes empty_database = []"
    by (simp_all add: empty_database_def)
  have "length (upgrade_path (length versions) versions (alembic_version empty_database)) = 5"
    by (simp add: v upgrade_path_chain chain_def)
  with downgrade_after_upgrade [OF empty_database_ok(1) h(1), of False]
  have "do_run_migrations False (Downgrade 5) head = Inr ?base" by (simp add: v)
  moreover have "do_run_migrations False Downgrade_Base head = do_run_migrations False (Downgrade 5) head"
    by (simp add: do_run_migrations_def h(3) downgrade_path_chain chain_def)
  moreover have "run_ddl False (upgrade_0c48da5f66da) ?base = Inl DBAPIError"
    by (simp add: upgrade_0c48da5f66da_def find_table_def column_enums_def create_type_def h(2) head_types_def)
  then have "upgrade_step False revision_0c48da5f66da ?base = Inl DBAPIError"
    by (simp add: upgrade_step_def revision_0c48da5f66da_def)
  then have "do_run_migrations False Upgrade_Head ?base = Inl DBAPIError"
    by (simp add: do_run_migrations_def upgrade_path_chain chain_def)
  ultimately show ?thesis using h(1) by (intro exI [of _ head] exI [of _ ?base]) simp
qed

text \<open>The answer to a refused CSRF check is made outside the CORS layer: it has no header of that layer,
  whatever the request's origin, and the internal error has no header at all.\<close>

lemma refusals_bypass_cors:
  "re_headers (set_header ''X-Request-Id'' rid (csrf_reply rid)) = [(''X-Request-Id'', rid)]"
  "re_headers (error_reply e rq rid) = []"
  by (simp_all add: set_header_def csrf_reply_def error_reply_def handle_exception_def)

end
