(* ===== verification/Seed_Facts.thy ===== *)
theory Seed_Facts
  imports Seed Order_Effects Catalog_Invariants Ticket_Facts
begin

text \<open>
  What the seed script does to a database, step by step: a second run finds what the first one left
  and changes nothing. The loops over categories and products share one interface, a step that
  creates what is missing and only reads what is there.
\<close>

section \<open>Steps that create what is missing\<close>

text \<open>\<open>keeps s t\<close>: what was found in \<open>s\<close> is found in \<open>t\<close>. \<open>ok\<close> says which entries the loop runs
  over, \<open>inv\<close> what a run with these fresh values relies on.\<close>

locale upserts =
  fixes step :: "'k \<Rightarrow> 'x \<Rightarrow> 'a \<times> 's \<Rightarrow> exn + ('a \<times> 's)"
    and inv :: "'k \<Rightarrow> 's \<Rightarrow> bool"
    and ok :: "'x \<Rightarrow> bool"
    and keeps :: "'s \<Rightarrow> 's \<Rightarrow> bool"
  assumes keeps_refl: "keeps s s"
    and keeps_trans: "keeps s t \<Longrightarrow> keeps t u \<Longrightarrow> keeps s u"
    and step_keeps: "inv k s \<Longrightarrow> ok x \<Longrightarrow> step k x (a, s) = Inr (a', s') \<Longrightarrow> inv k s' \<and> keeps s s'"
    and step_again: "inv k s \<Longrightarrow> ok x \<Longrightarrow> step k x (a, s) = Inr (a', s') \<Longrightarrow> keeps s' t \<Longrightarrow>
      step k' x (a, t) = Inr (a', t)"
begin

lemma run_keeps:
  "foldE (step k) xs (a, s) = Inr (a', s') \<Longrightarrow> inv k s \<Longrightarrow> (\<And>x. x \<in> set xs \<Longrightarrow> ok x) \<Longrightarrow>
     inv k s' \<and> keeps s s'"
proof (induction xs arbitrary: a s)
  case Nil
  then show ?case by (simp add: keeps_refl)
next
  case (Cons x xs)
  then obtain b u where u: "step k x (a, s) = Inr (b, u)" "foldE (step k) xs (b, u) = Inr (a', s')"
    by (auto simp: bindE_eq_Inr)
  from step_keeps [OF Cons.prems(2) _ u(1)] Cons.prems(3) have "inv k u" "keeps s u" by auto
  with Cons.IH [OF u(2)] Cons.prems(3) show ?case by (auto intro: keeps_trans)
qed

lemma run_again:
  "foldE (step k) xs (a, s) = Inr (a', s') \<Longrightarrow> inv k s \<Longrightarrow> (\<And>x. x \<in> set xs \<Longrightarrow> ok x) \<Longrightarrow>
     keeps s' t \<Longrightarrow> foldE (step k') xs (a, t) = Inr (a', t)"
proof (induction xs arbitrary: a s)
  case (Cons x xs)
  then obtain b u where u: "step k x (a, s) = Inr (b, u)" "foldE (step k) xs (b, u) = Inr (a', s')"
    by (auto simp: bindE_eq_Inr)
  have x: "ok x" using Cons.prems(3) by simp
  have i: "inv k u" using step_keeps [OF Cons.prems(2) x u(1)] by blast
  have "keeps u s'" using run_keeps [OF u(2) i] Cons.prems(3) by simp
  then have "step k' x (a, t) = Inr (b, t)"
    using step_again [OF Cons.prems(2) x u(1)] Cons.prems(4) keeps_trans by blast
  with Cons.IH [OF u(2) i] Cons.prems(3,4) show ?case by simp
qed simp

end

section \<open>Categories\<close>

definition keeps_categories :: "'a catalog_db_scheme \<Rightarrow> 'a catalog_db_scheme \<Rightarrow> bool" where
  "keeps_categories s t \<longleftrightarrow>
     (\<forall>slug c. get_category_by_slug slug s = Some c \<longrightarrow> get_category_by_slug slug t = Some c)"

lemma keeps_categories_refl: "keeps_categories s s"
  by (simp add: keeps_categories_def)

lemma keeps_categories_trans: "keeps_categories s t \<Longrightarrow> keeps_categories t u \<Longrightarrow> keeps_categories s u"
  by (simp add: keeps_categories_def)

lemma seed_category_found:
  "get_category_by_slug slug db = Some c \<Longrightarrow> seed_category f parent n name slug db = Inr (cat_id c, db)"
  by (simp add: seed_category_def)

lemma seed_category_cases:
  assumes "seed_category f parent n name slug db = Inr (cid, db')"
  shows "keeps_categories db db' \<and> (\<exists>c. get_category_by_slug slug db' = Some c \<and> cat_id c = cid)
    \<and> products db' = products db"
proof (cases "get_category_by_slug slug db")
  case (Some c)
  with assms show ?thesis by (auto simp: seed_category_def keeps_categories_def)
next
  case None
  then obtain c data where c: "category_create (sf_category f slug) data db = Inr (c, db')"
      "cc_slug data = slug" "cid = cat_id c"
    using assms by (auto simp: seed_category_def bindE_eq_Inr Let_def split: if_splits)
  note fr = category_create_frame [OF c(1)]
  have "keeps_categories db db'"
    by (simp add: keeps_categories_def get_category_by_slug_def fr(3) find_by_append)
  moreover have "get_category_by_slug slug db' = Some c"
    using None fr(4) c(2) by (simp add: get_category_by_slug_def fr(3) find_by_append)
  ultimately show ?thesis using c(3) fr(1) by blast
qed

lemma seed_category_again:
  assumes "seed_category f parent n name slug db = Inr (cid, db')" "keeps_categories db' t"
  shows "seed_category f' parent n name slug t = Inr (cid, t)"
  using seed_category_cases [OF assms(1)] assms(2) seed_category_found [of slug t _ f' parent n name]
  by (auto simp: keeps_categories_def)

lemma seed_child_keeps:
  "seed_child f top_id x (a, s) = Inr (a', s') \<Longrightarrow> keeps_categories s s' \<and> products s' = products s"
  by (auto simp: seed_child_def bindE_eq_Inr split: prod.splits dest!: seed_category_cases)

lemma seed_child_again:
  "seed_child f top_id x (a, s) = Inr (a', s') \<Longrightarrow> keeps_categories s' t \<Longrightarrow>
     seed_child f' top_id x (a, t) = Inr (a', t)"
  by (auto simp: seed_child_def bindE_eq_Inr split: prod.splits dest: seed_category_again)

interpretation children: upserts "\<lambda>f. seed_child f top_id" "\<lambda>_ _. True" "\<lambda>_. True" keeps_categories
  for top_id
  by unfold_locales (blast intro: keeps_categories_refl keeps_categories_trans
      dest: seed_child_keeps seed_child_again)+

lemma seed_top_keeps:
  assumes "seed_top f x (a, s) = Inr (a', s')"
  shows "keeps_categories s s'"
proof -
  obtain n e where x: "x = (n, e)" by fastforce
  from assms obtain tid u where u: "seed_category f None (int n) (ce_name e) (ce_slug e) s = Inr (tid, u)"
      "foldE (seed_child f tid) (enumerate 0 (ce_children e)) (a(ce_slug e \<mapsto> tid), u) = Inr (a', s')"
    by (auto simp: seed_top_def x bindE_eq_Inr)
  from seed_category_cases [OF u(1)] children.run_keeps [OF u(2)] show ?thesis
    using keeps_categories_trans by blast
qed

lemma seed_top_again:
  assumes "seed_top f x (a, s) = Inr (a', s')" "keeps_categories s' t"
  shows "seed_top f' x (a, t) = Inr (a', t)"
proof -
  obtain n e where x: "x = (n, e)" by fastforce
  from assms(1) obtain tid u where u: "seed_category f None (int n) (ce_name e) (ce_slug e) s = Inr (tid, u)"
      "foldE (seed_child f tid) (enumerate 0 (ce_children e)) (a(ce_slug e \<mapsto> tid), u) = Inr (a', s')"
    by (auto simp: seed_top_def x bindE_eq_Inr)
  have "keeps_categories u t" using children.run_keeps [OF u(2)] assms(2) keeps_categories_trans by blast
  from seed_category_again [OF u(1) this] children.run_again [OF u(2) _ _ assms(2)]
  show ?thesis by (simp add: seed_top_def x)
qed

interpretation tops: upserts seed_top "\<lambda>_ _. True" "\<lambda>_. True" keeps_categories
  by unfold_locales (blast intro: keeps_categories_refl keeps_categories_trans
      dest: seed_top_keeps seed_top_again)+

lemma seed_categories_again:
  assumes "seed_categories f db = Inr (ids, db')" "keeps_categories db' t"
  shows "seed_categories f' t = Inr (ids, t)"
  using tops.run_again [OF assms(1) [unfolded seed_categories_def] _ _ assms(2)]
  by (simp add: seed_categories_def)

lemma seed_categories_products:
  assumes "seed_categories f db = Inr (ids, db')"
  shows "products db' = products db"
proof -
  have child: "products s' = products s"
    if "foldE (seed_child f t) xs (a, s) = Inr (a', s')" for t xs a s a' s'
    using foldE_invariant [OF that, where I = "\<lambda>u. products (snd u) = products s"] seed_child_keeps
    by fastforce
  have top: "products (snd v) = products (snd u)" if "seed_top f x u = Inr v" for x u v
    using that by (cases v) (auto simp: seed_top_def bindE_eq_Inr split: prod.splits
        dest!: child seed_category_cases)
  have "products (snd (ids, db')) = products db"
    using assms unfolding seed_categories_def
    by (rule foldE_invariant [where I = "\<lambda>u. products (snd u) = products db"]) (auto dest: top)
  then show ?thesis by simp
qed

section \<open>Products\<close>

definition item_matches :: "product_item \<Rightarrow> product \<Rightarrow> bool" where
  "item_matches item p \<longleftrightarrow> p_slug p = it_slug item \<or> p_sku p = it_sku item"

text \<open>No stored product answers to two entries, and the new keys are new.\<close>

definition seedable :: "seed_fresh \<Rightarrow> 'a catalog_db_scheme \<Rightarrow> bool" where
  "seedable f db \<longleftrightarrow>
     unique_by p_id (products db) \<and> inj_on (sf_product f) (it_slug ` set PRODUCTS)
     \<and> (\<forall>item \<in> set PRODUCTS. (\<forall>p \<in> set (products db). \<not> item_matches item p) \<longrightarrow>
          sf_product f (it_slug item) \<notin> p_id ` set (products db))
     \<and> (\<forall>p \<in> set (products db). \<forall>i \<in> set PRODUCTS. \<forall>j \<in> set PRODUCTS.
          item_matches i p \<longrightarrow> item_matches j p \<longrightarrow> i = j)"

text \<open>One product answers to the entry, and it has the photo.\<close>

definition settled :: "product_item \<Rightarrow> 'a catalog_db_scheme \<Rightarrow> bool" where
  "settled item db \<longleftrightarrow>
     (\<exists>p photo. filter (item_matches item) (products db) = [p] \<and> p_images p = Some [photo]
        \<and> category_placeholder_image (it_category_slug item) = Inr photo)"

lemma item_keys: "distinct (map it_slug PRODUCTS)" "distinct (map it_sku PRODUCTS)"
  by (simp_all add: PRODUCTS_def)

lemma item_eq:
  assumes "i \<in> set PRODUCTS" "j \<in> set PRODUCTS" "it_slug i = it_slug j \<or> it_sku i = it_sku j"
  shows "i = j"
  using item_keys assms by (auto simp: distinct_map inj_on_def)

lemma get_by_slug_or_sku_matches:
  "get_by_slug_or_sku (it_slug item) (it_sku item) db = scalar_one_or_none (filter (item_matches item) (products db))"
  by (simp add: get_by_slug_or_sku_def item_matches_def [abs_def])

lemma settled_again:
  assumes "settled item db"
  shows "seed_product num f ids item db = Inr db"
  using assms by (auto simp: settled_def seed_product_def get_by_slug_or_sku_matches refresh_image_def)

lemma scalar_one_or_none_Some: "scalar_one_or_none rs = Inr (Some r) \<longleftrightarrow> rs = [r]"
  by (cases rs rule: scalar_one_or_none.cases) auto

lemma seed_product_cases:
  assumes "seed_product num f ids item db = Inr db'"
  obtains (found) p photo where "filter (item_matches item) (products db) = [p]"
      "category_placeholder_image (it_category_slug item) = Inr photo"
      "db' = refresh_image (sf_now f) photo p db"
    | (made) p cid photo where "filter (item_matches item) (products db) = []"
      "category_placeholder_image (it_category_slug item) = Inr photo"
      "product_create num (sf_product f (it_slug item)) (sf_now f) (item_request item cid photo) db = Inr (p, db')"
proof -
  from assms obtain photo ex where e: "category_placeholder_image (it_category_slug item) = Inr photo"
      "scalar_one_or_none (filter (item_matches item) (products db)) = Inr ex"
    by (auto simp: seed_product_def bindE_eq_Inr get_by_slug_or_sku_matches)
  show thesis
  proof (cases ex)
    case None
    with e have "filter (item_matches item) (products db) = []" by (simp add: scalar_one_or_none_None)
    with assms e None show thesis
      by (auto simp: seed_product_def bindE_eq_Inr get_by_slug_or_sku_matches split: if_splits intro: made)
  next
    case (Some p)
    with e have "filter (item_matches item) (products db) = [p]" by (simp add: scalar_one_or_none_Some)
    with assms e Some show thesis
      by (intro found) (auto simp: seed_product_def get_by_slug_or_sku_matches)
  qed
qed

text \<open>The rows after a refresh: the same keys, the photo on the one row.\<close>

definition with_photo :: "datetime \<Rightarrow> string \<Rightarrow> product \<Rightarrow> product" where
  "with_photo now photo p = (if p_images p \<noteq> Some [photo] then p\<lparr>p_images := Some [photo], p_updated_at := now\<rparr> else p)"

lemma with_photo_sel [simp]:
  "p_id (with_photo now photo p) = p_id p" "p_slug (with_photo now photo p) = p_slug p"
  "p_sku (with_photo now photo p) = p_sku p" "p_images (with_photo now photo p) = Some [photo]"
  "item_matches item (with_photo now photo p) = item_matches item p"
  by (simp_all add: with_photo_def item_matches_def)

lemma refresh_image_products:
  assumes "unique_by p_id (products db)" "p \<in> set (products db)"
  shows "products (refresh_image now photo p db) = map (\<lambda>r. if r = p then with_photo now photo r else r) (products db)"
proof -
  have "(p_id r = p_id p) = (r = p)" if "r \<in> set (products db)" for r
    using assms that by (auto simp: unique_by_def distinct_map inj_on_def)
  then show ?thesis
    by (auto simp: refresh_image_def with_photo_def update_by_def intro!: map_cong [OF refl] map_idI [symmetric])
qed

lemma filter_map_keeps:
  "(\<And>x. P (g x) = P x) \<Longrightarrow> filter P (map g xs) = map g (filter P xs)"
  by (induction xs) auto

lemma seedable_map:
  assumes "\<And>x. p_id (g x) = p_id x" "\<And>j x. item_matches j (g x) = item_matches j x"
    and "products db' = map g (products db)"
  shows "seedable f db' = seedable f db"
  by (simp add: seedable_def unique_by_def assms o_def image_image)

lemma seed_product_step:
  assumes ok: "seedable f db" and i: "item \<in> set PRODUCTS" and s: "seed_product num f ids item db = Inr db'"
  shows "seedable f db' \<and> settled item db' \<and> (\<forall>j \<in> set PRODUCTS. settled j db \<longrightarrow> settled j db')"
  using s
proof (cases rule: seed_product_cases)
  case (found p photo)
  let ?g = "\<lambda>r. if r = p then with_photo (sf_now f) photo r else r"
  have p: "p \<in> set (products db)" "item_matches item p"
    using found(1) by (auto simp: filter_eq_Cons_iff)
  have pr: "products db' = map ?g (products db)"
    using refresh_image_products [OF _ p(1)] ok by (simp add: found(3) seedable_def)
  have "seedable f db'" using seedable_map [of ?g, OF _ _ pr] ok by simp
  moreover have fil: "filter (item_matches j) (products db') = map ?g (filter (item_matches j) (products db))" for j
    unfolding pr by (rule filter_map_keeps) simp
  then have "settled item db'" by (auto simp: settled_def found(1,2))
  moreover have "settled j db'" if j: "j \<in> set PRODUCTS" "settled j db" for j
  proof (cases "j = item")
    case False
    from j(2) obtain q ph where q: "filter (item_matches j) (products db) = [q]" "p_images q = Some [ph]"
        "category_placeholder_image (it_category_slug j) = Inr ph"
      by (auto simp: settled_def)
    have "q \<noteq> p"
      using ok i j(1) False p q(1) by (auto simp: seedable_def filter_eq_Cons_iff)
    with q show ?thesis by (simp add: settled_def fil)
  qed (use \<open>settled item db'\<close> in simp)
  ultimately show ?thesis by blast
next
  case (made p cid photo)
  note fr = product_create_frame [OF made(3)]
  have p: "p_id p = sf_product f (it_slug item)" "p_slug p = it_slug item" "p_sku p = it_sku item"
      "p_images p = Some [photo]"
    by (simp_all add: fr(1) item_request_def new_product_def)
  have new: "item_matches j p \<longleftrightarrow> j = item" if "j \<in> set PRODUCTS" for j
    using item_eq [OF that i] by (auto simp: item_matches_def p)
  have none: "\<forall>q \<in> set (products db). \<not> item_matches item q"
    using made(1) by (simp add: filter_empty_conv)
  have "seedable f db'"
  proof -
    have "sf_product f (it_slug item) \<notin> p_id ` set (products db)" using ok i none by (simp add: seedable_def)
    then have "unique_by p_id (products db')"
      using ok by (simp add: seedable_def fr(2) unique_by_append_one find_by_None p(1))
    moreover have "sf_product f (it_slug j) \<notin> p_id ` set (products db')"
      if j: "j \<in> set PRODUCTS" "\<forall>q \<in> set (products db'). \<not> item_matches j q" for j
    proof -
      have "j \<noteq> item" using j new [OF i] by (auto simp: fr(2))
      then have "it_slug j \<noteq> it_slug item" using item_eq [OF j(1) i] by blast
      then have "sf_product f (it_slug j) \<noteq> sf_product f (it_slug item)"
        using ok i j(1) by (auto simp: seedable_def dest: inj_onD)
      with ok j show ?thesis by (auto simp: seedable_def fr(2) p(1))
    qed
    ultimately show ?thesis using ok new by (auto simp: seedable_def fr(2))
  qed
  moreover have "settled item db'"
    using made(1,2) new [OF i] by (simp add: settled_def fr(2) p(4))
  moreover have "settled j db'" if "j \<in> set PRODUCTS" "settled j db" for j
    using that none new [OF that(1)] by (auto simp: settled_def fr(2) filter_eq_Cons_iff) 
  ultimately show ?thesis by blast
qed

definition keeps_items :: "'a catalog_db_scheme \<Rightarrow> 'a catalog_db_scheme \<Rightarrow> bool" where
  "keeps_items s t \<longleftrightarrow> (\<forall>j \<in> set PRODUCTS. settled j s \<longrightarrow> settled j t)"

text \<open>The loop as one over pairs, to fit the interface; the first component is not used.\<close>

definition product_step ::
    "(decimal \<Rightarrow> int) \<Rightarrow> seed_fresh \<times> (string \<Rightarrow> uuid option) \<Rightarrow> product_item \<Rightarrow> unit \<times> 'a catalog_db_scheme
     \<Rightarrow> exn + (unit \<times> 'a catalog_db_scheme)" where
  "product_step num k item s = map_sum id (Pair ()) (seed_product num (fst k) (snd k) item (snd s))"

lemma product_step_loop:
  "foldE (product_step num (f, ids)) items ((), db) = map_sum id (Pair ()) (foldE (seed_product num f ids) items db)"
proof (induction items arbitrary: db)
  case (Cons item items)
  then show ?case by (cases "seed_product num f ids item db") (simp_all add: product_step_def)
qed simp

lemma product_step_Inr:
  "product_step num k item (a, s) = Inr (a', s') \<longleftrightarrow> seed_product num (fst k) (snd k) item s = Inr s'"
  by (cases "seed_product num (fst k) (snd k) item s") (auto simp: product_step_def)

interpretation items: upserts "product_step num" "\<lambda>k. seedable (fst k)" "\<lambda>i. i \<in> set PRODUCTS" keeps_items
  for num
proof unfold_locales
  fix k k' :: "seed_fresh \<times> (string \<Rightarrow> uuid option)" and item a a' and s s' t :: "'a catalog_db_scheme"
  assume s: "seedable (fst k) s" "item \<in> set PRODUCTS" "product_step num k item (a, s) = Inr (a', s')"
  note step = seed_product_step [OF s(1,2) s(3) [unfolded product_step_Inr]]
  then show "seedable (fst k) s' \<and> keeps_items s s'" by (simp add: keeps_items_def)
  assume "keeps_items s' t"
  with step s(2) have "settled item t" by (simp add: keeps_items_def)
  then show "product_step num k' item (a, t) = Inr (a', t)" by (simp add: product_step_Inr settled_again)
qed (simp_all add: keeps_items_def)

lemma seed_products_again:
  fixes db t :: "'a catalog_db_scheme"
  assumes "seed_products num f ids db = Inr db'" "seedable f db" "products t = products db'"
  shows "seed_products num f' ids' t = Inr t"
proof -
  from assms(1) have run: "foldE (product_step num (f, ids)) PRODUCTS ((), db) = Inr ((), db')"
    by (simp add: product_step_loop seed_products_def)
  have "keeps_items db' t" using assms(3) by (simp add: keeps_items_def settled_def)
  from items.run_again [OF run _ _ this, of "(f', ids')"] assms(2)
  show ?thesis
    by (cases "seed_products num f' ids' t") (auto simp: product_step_loop seed_products_def)
qed

lemma seed_product_categories:
  "seed_product num f ids item db = Inr db' \<Longrightarrow> categories db' = categories db"
  by (erule seed_product_cases) (auto simp: refresh_image_def dest: product_create_frame(3))

lemma seed_products_categories:
  assumes "seed_products num f ids db = Inr db'"
  shows "categories db' = categories db"
  using assms unfolding seed_products_def
  by (rule foldE_invariant [where I = "\<lambda>d. categories d = categories db"])
     (auto dest: seed_product_categories)

section \<open>Accounts\<close>

lemma seed_users_cases:
  assumes "seed_users env environ f db = Inr ((admin, customer), db')"
  shows "get_user_by_email env (ADMIN_EMAIL environ) db' = Some admin"
    "get_user_by_email env (CUSTOMER_EMAIL environ) db' = Some customer"
    "accounts_fit db'" "\<exists>us. db' = db\<lparr>users := us\<rparr>"
proof -
  let ?a = "get_user_by_email env (ADMIN_EMAIL environ) db"
  let ?c = "get_user_by_email env (CUSTOMER_EMAIL environ) db"
  from assms have d: "db' = db\<lparr>users := users db @ (if ?a = None then [admin] else []) @ (if ?c = None then [customer] else [])\<rparr>"
      "?a \<noteq> None \<Longrightarrow> ?a = Some admin" "?c \<noteq> None \<Longrightarrow> ?c = Some customer"
      "?a = None \<Longrightarrow> admin = demo_admin env environ f" "?c = None \<Longrightarrow> customer = demo_customer env environ f"
      and fit: "accounts_fit db'"
    by (auto simp: seed_users_def flush_accounts_def split: option.splits if_splits)
  have mail: "?a = None \<Longrightarrow> u_email admin = e_lower env (ADMIN_EMAIL environ)"
    "?c = None \<Longrightarrow> u_email customer = e_lower env (CUSTOMER_EMAIL environ)"
    using d(4,5) by (simp_all add: demo_admin_def demo_customer_def demo_user_def)
  have u: "unique_by u_email (users db')" using fit by (simp add: accounts_fit_def)
  have "admin \<in> set (users db')" "u_email admin = e_lower env (ADMIN_EMAIL environ)"
    using d(1,2) mail(1) by (cases "?a"; auto simp: get_user_by_email_def dest: find_by_SomeD)+
  with find_by_unique [OF u] show "get_user_by_email env (ADMIN_EMAIL environ) db' = Some admin"
    by (metis get_user_by_email_def)
  have "customer \<in> set (users db')" "u_email customer = e_lower env (CUSTOMER_EMAIL environ)"
    using d(1,3) mail(2) by (cases "?c"; auto simp: get_user_by_email_def dest: find_by_SomeD)+
  with find_by_unique [OF u] show "get_user_by_email env (CUSTOMER_EMAIL environ) db' = Some customer"
    by (metis get_user_by_email_def)
  show "accounts_fit db'" by (rule fit)
  show "\<exists>us. db' = db\<lparr>users := us\<rparr>" using d(1) by blast
qed

lemma seed_users_again:
  assumes "get_user_by_email env (ADMIN_EMAIL environ) t = Some admin"
    "get_user_by_email env (CUSTOMER_EMAIL environ) t = Some customer" "accounts_fit t"
  shows "seed_users env environ f' t = Inr ((admin, customer), t)"
  using assms by (simp add: seed_users_def flush_accounts_def)

section \<open>Sales\<close>

text \<open>What a step of the sales part may write; orders keep their owners.\<close>

definition sales_step :: "'a payments_db_scheme \<Rightarrow> 'a payments_db_scheme \<Rightarrow> bool" where
  "sales_step db db' \<longleftrightarrow>
     db' = db\<lparr> inventories := inventories db', inventory_log := inventory_log db', carts := carts db',
               cart_items := cart_items db', wallets := wallets db',
               wallet_transactions := wallet_transactions db', orders := orders db',
               order_items := order_items db', order_history := order_history db',
               payments := payments db' \<rparr>
     \<and> o_user_id ` set (orders db) \<subseteq> o_user_id ` set (orders db')"

lemma sales_step_refl: "sales_step db db"
  by (simp add: sales_step_def)

lemma sales_step_trans:
  assumes "sales_step a b" "sales_step b c"
  shows "sales_step a c"
proof -
  note e = assms [unfolded sales_step_def, THEN conjunct1]
  have "c = a\<lparr> inventories := inventories c, inventory_log := inventory_log c, carts := carts c,
               cart_items := cart_items c, wallets := wallets c,
               wallet_transactions := wallet_transactions c, orders := orders c,
               order_items := order_items c, order_history := order_history c, payments := payments c \<rparr>"
    by (subst e(2), subst e(1)) simp
  then show ?thesis using assms by (auto simp: sales_step_def)
qed

lemma sales_step_owner:
  "sales_step a b \<Longrightarrow> u \<in> o_user_id ` set (orders a) \<Longrightarrow> u \<in> o_user_id ` set (orders b)"
  unfolding sales_step_def by blast

lemma sales_step_foldE:
  assumes "foldE f xs db = Inr db'" "\<And>x d d'. f x d = Inr d' \<Longrightarrow> sales_step d d'"
  shows "sales_step db db'"
  using assms(1) sales_step_refl by (rule foldE_invariant) (blast intro: sales_step_trans assms(2))

lemma sales_step_stock: "stock_only db d \<Longrightarrow> sales_step db d"
  unfolding stock_only_def by (clarsimp simp: sales_step_def)

lemma sales_step_outside:
  assumes "sales_step db db'"
  shows "categories db' = categories db" "products db' = products db" "redis db' = redis db"
    "payments_db.more db' = payments_db.more db"
proof -
  note e = assms [unfolded sales_step_def, THEN conjunct1]
  show "categories db' = categories db" "products db' = products db" "redis db' = redis db"
    "payments_db.more db' = payments_db.more db"
    by (subst e, simp)+
qed

lemma sales_step_accounts:
  fixes db :: "'a accounts_db_scheme"
  assumes "sales_step db db'"
  shows "users db' = users db" "accounts_fit db' = accounts_fit db" "tickets db' = tickets db"
proof -
  note e = assms [unfolded sales_step_def, THEN conjunct1]
  show "users db' = users db" "accounts_fit db' = accounts_fit db" "tickets db' = tickets db"
    by (subst e, simp add: accounts_fit_def)+
qed

lemma owners_update_by:
  "(\<And>r. o_user_id (g r) = o_user_id r) \<Longrightarrow> o_user_id ` set (update_by o_id oid g rs) = o_user_id ` set rs"
  by (simp add: map_update_by_same flip: set_map)

lemma transition_sales:
  "transition ord st a n now db = Inr (ord', db') \<Longrightarrow> sales_step db db'"
  by (auto simp: transition_def sales_step_def owners_update_by set_status_def split: if_splits)

lemma each_item_sales:
  "each_item (\<lambda>pid q. commit_purchase pid q rt rid a) oid db = Inr d \<Longrightarrow> sales_step db d"
  "each_item (\<lambda>pid q. release pid q rt rid a) oid db = Inr d \<Longrightarrow> sales_step db d"
  unfolding each_item_def
  by (rule sales_step_stock, erule stock_only_foldE [rotated],
      force split: option.splits intro: stock_only_refl dest: stock_only_ops)+

lemma mark_sales:
  "mark_paid now oid db = Inr (ord, db') \<Longrightarrow> sales_step db db'"
  "mark_payment_failed now oid db = Inr (ord, db') \<Longrightarrow> sales_step db db'"
  by (auto simp: mark_paid_def mark_payment_failed_def bindE_eq_Inr
      intro: sales_step_trans dest!: transition_sales each_item_sales)

lemma admin_updates_sales: "admin_updates now oid actor changes db = Inr db' \<Longrightarrow> sales_step db db'"
  unfolding admin_updates_def
  by (erule sales_step_foldE) (auto simp: admin_update_status_def bindE_eq_Inr dest!: transition_sales)

lemma deliver_sales: "deliver_order now oid actor db = Inr db' \<Longrightarrow> sales_step db db'"
  by (auto simp: deliver_order_def bindE_eq_Inr intro: sales_step_trans
      dest!: mark_sales admin_updates_sales)

lemma cart_sales: "get_or_create_cart nid u db = (cart, db') \<Longrightarrow> sales_step db db'"
  by (cases rule: get_or_create_cart_cases [of u db nid]) (auto simp: sales_step_def)

lemma add_item_sales:
  assumes "cart_add_item nid u pid q db = Inr db'"
  shows "sales_step db db'"
  using assms
proof (cases rule: cart_add_item_cases)
  case (1 product cart db1 n)
  have "sales_step db1 db'"
    by (simp add: 1(6) sales_step_def split: option.split)
  with cart_sales [OF 1(3)] show ?thesis by (rule sales_step_trans)
qed

lemma transaction_sales:
  assumes "apply_transaction num fresh u ty amount rt rid n a db = Inr (t, db')"
  shows "sales_step db db'"
  using assms
proof (cases rule: apply_transaction_cases)
  case (1 w db1 b)
  have "sales_step db db1"
    using 1(1) by (cases rule: get_or_create_wallet_cases [of u db "f_wallet fresh"]) (auto simp: sales_step_def)
  moreover have "sales_step db1 db'" by (simp add: 1(4) sales_step_def)
  ultimately show ?thesis by (rule sales_step_trans)
qed

lemma payment_sales: "sales_step db (add_payment p db)"
  by (simp add: add_payment_def sales_step_def)

lemma flush_payments_Inr: "flush_payments r db = Inr v \<longleftrightarrow> v = (r, db) \<and> payments_fit db"
  by (auto simp: flush_payments_def)

lemma sales_step_orders:
  "o_user_id ` set (orders db) \<subseteq> o_user_id ` set rs \<Longrightarrow> sales_step db (db\<lparr>orders := rs\<rparr>)"
  by (simp add: sales_step_def)

lemma sales_step_items: "sales_step db (db\<lparr>order_items := is\<rparr>)"
  by (simp add: sales_step_def)

lemma checkout_line_sales:
  assumes "checkout_line oid uid item (db, n) = Inr (db', n')"
  shows "sales_step db db'"
proof -
  from assms obtain p :: product and row :: order_item where "reserve (p_id p) (ci_quantity item) ''order'' oid (Some uid)
      (db\<lparr>order_items := order_items db @ [row]\<rparr>) = Inr db'"
    by (auto simp: checkout_line_def bindE_eq_Inr Let_def split: option.splits if_splits intro: that)
  from sales_step_stock [OF stock_only_ops(1) [OF this]] show ?thesis
    by (rule sales_step_trans [OF sales_step_items])
qed

lemma checkout_sales:
  assumes "checkout_service k uid addr db = Inr (ord, db')"
  shows "sales_step db db' \<and> uid \<in> o_user_id ` set (orders db')"
proof -
  obtain cart db1 where c: "get_or_create_cart (k_cart k) uid db = (cart, db1)" by fastforce
  define ord0 where "ord0 = \<lparr> o_id = k_order k, o_user_id = uid, o_status = OrdPending, o_subtotal = 0,
     o_total = 0, o_shipping_address = addr, o_cancelled_at = None, o_created_at = k_now k \<rparr>"
  let ?db0 = "db1\<lparr>orders := orders db1 @ [ord0]\<rparr>"
  from assms c obtain db2 n ord3 db4 where
    loop: "foldE (checkout_line (k_order k) uid) (items_of cart db1) (?db0, 0) = Inr (db2, n)"
    and tr: "transition (ord0\<lparr>o_subtotal := n, o_total := n\<rparr>) OrdAwaitingPayment (Some uid) None (k_now k)
        (db2\<lparr>orders := update_by o_id (k_order k) (\<lambda>r. r\<lparr>o_subtotal := n, o_total := n\<rparr>) (orders db2)\<rparr>)
        = Inr (ord3, db4)"
    and fin: "db' = clear_items (cart_id cart) db4"
    unfolding checkout_service_def ord0_def
    by (auto simp: bindE_eq_Inr Let_def flush_orders_def split: prod.splits if_splits)
  have a: "sales_step db1 ?db0" by (rule sales_step_orders) auto
  have b: "sales_step ?db0 (fst (db2, n))"
    using loop
    by (rule foldE_invariant [where I = "\<lambda>s. sales_step ?db0 (fst s)"])
       (auto intro: sales_step_refl dest!: checkout_line_sales, rule sales_step_trans)
  have c2: "sales_step db2 db4"
    by (rule sales_step_trans [OF sales_step_orders transition_sales [OF tr]]) (simp add: owners_update_by)
  have d: "sales_step db4 db'" by (simp add: fin clear_items_def sales_step_def)
  have "uid \<in> o_user_id ` set (orders ?db0)" by (simp add: ord0_def)
  with b c2 d have "uid \<in> o_user_id ` set (orders db')" by (metis fst_conv sales_step_owner)
  moreover have "sales_step db db'"
    using cart_sales [OF c] a b c2 d sales_step_trans by (metis fst_conv)
  ultimately show ?thesis by blast
qed

lemma checkout_items_sales:
  assumes "checkout_items k uid items db = Inr (ord, db')"
  shows "sales_step db db' \<and> uid \<in> o_user_id ` set (orders db')"
proof -
  from assms obtain u where u: "foldE (\<lambda>(slug, quantity) db.
        bindE (the_or AssertionError (get_product_by_slug slug db)) (\<lambda>product.
          cart_add_item (k_cart k) uid (p_id product) quantity db)) items db = Inr u"
      "checkout_service k uid (Some SHIPPING_ADDRESS) u = Inr (ord, db')"
    by (auto simp: checkout_items_def bindE_eq_Inr)
  have "sales_step db u"
    using u(1) by (rule sales_step_foldE) (auto simp: bindE_eq_Inr dest: add_item_sales)
  with checkout_sales [OF u(2)] show ?thesis by (blast intro: sales_step_trans)
qed

lemma seed_order_sales:
  "seed_order_a f aid cid db = Inr db' \<Longrightarrow> sales_step db db' \<and> cid \<in> o_user_id ` set (orders db')"
  "seed_order_b f cid db = Inr db' \<Longrightarrow> sales_step db db'"
  "seed_order_c f aid cid db = Inr db' \<Longrightarrow> sales_step db db'"
  "seed_order_d num f aid cid db = Inr db' \<Longrightarrow> sales_step db db'"
proof -
  assume "seed_order_a f aid cid db = Inr db'"
  then obtain ord u v where u: "checkout_items (sf_checkout f 0) cid [(''samsung-galaxy-a54'', 1), (''jbl-flip-6'', 1)] db = Inr (ord, u)"
      "deliver_order (sf_now f) (o_id ord) aid u = Inr v" and p: "\<exists>p. db' = add_payment p v"
    by (auto simp: seed_order_a_def bindE_eq_Inr)
  have "sales_step u db'" using deliver_sales [OF u(2)] p payment_sales sales_step_trans by blast
  with checkout_items_sales [OF u(1)] show "sales_step db db' \<and> cid \<in> o_user_id ` set (orders db')"
    by (blast intro: sales_step_trans sales_step_owner)
next
  assume "seed_order_b f cid db = Inr db'"
  then show "sales_step db db'"
    by (auto simp: seed_order_b_def bindE_eq_Inr intro: sales_step_trans payment_sales dest!: checkout_items_sales)
next
  assume "seed_order_c f aid cid db = Inr db'"
  then obtain ord ord' u v p where u: "checkout_items (sf_checkout f 2) cid [(''logitech-mx-master-3'', 2)] db = Inr (ord, u)"
      "mark_payment_failed (sf_now f) (o_id ord) u = Inr (ord', v)"
      "admin_updates (sf_now f) (o_id ord) aid [(OrdCancelled, CANCELLED_NOTE)] (add_payment p v) = Inr db'"
    by (auto simp: seed_order_c_def bindE_eq_Inr)
  from checkout_items_sales [OF u(1)] mark_sales(2) [OF u(2)] payment_sales [of v p] admin_updates_sales [OF u(3)]
  show "sales_step db db'" by (blast intro: sales_step_trans)
next
  assume "seed_order_d num f aid cid db = Inr db'"
  then obtain ord u v p w t where u: "checkout_items (sf_checkout f 3) cid [(''sony-dualsense'', 2)] db = Inr (ord, u)"
      "deliver_order (sf_now f) (o_id ord) aid u = Inr v"
      "admin_updates (sf_now f) (o_id ord) aid [(OrdRefunded, REFUNDED_NOTE)] (add_payment p v) = Inr w"
      "refund_order num (sf_wallet f 0) cid (of_int (o_total ord)) (o_id ord) aid w = Inr (t, db')"
    by (auto simp: seed_order_d_def bindE_eq_Inr flush_payments_Inr)
  from checkout_items_sales [OF u(1)] deliver_sales [OF u(2)] payment_sales [of v p] admin_updates_sales [OF u(3)]
    transaction_sales [OF u(4) [unfolded refund_order_def]]
  show "sales_step db db'" by (blast intro: sales_step_trans)
qed

lemma seed_orders_cases:
  assumes "seed_orders_payments_and_wallet_refund num f admin customer db = Inr db'"
  shows "sales_step db db'" "u_id customer \<in> o_user_id ` set (orders db')"
proof -
  have "sales_step db db' \<and> u_id customer \<in> o_user_id ` set (orders db')"
  proof (cases "0 < snd (list_for_user (u_id customer) 0 1 db)")
    case True
    with assms have "db' = db" by (simp add: seed_orders_payments_and_wallet_refund_def split: prod.splits)
    with True show ?thesis
      by (auto simp: list_for_user_def Let_def sales_step_refl filter_empty_conv
          intro: image_eqI [OF sym])
  next
    case False
    with assms obtain a b c where o: "seed_order_a f (u_id admin) (u_id customer) db = Inr a"
        "seed_order_b f (u_id customer) a = Inr b" "seed_order_c f (u_id admin) (u_id customer) b = Inr c"
        "seed_order_d num f (u_id admin) (u_id customer) c = Inr db'"
      by (auto simp: seed_orders_payments_and_wallet_refund_def bindE_eq_Inr split: prod.splits)
    note s = seed_order_sales(1) [OF o(1)] seed_order_sales(2) [OF o(2)] seed_order_sales(3) [OF o(3)]
      seed_order_sales(4) [OF o(4)]
    from s have "sales_step a db'" by (blast intro: sales_step_trans)
    with s(1) show ?thesis by (blast intro: sales_step_trans sales_step_owner)
  qed
  then show "sales_step db db'" "u_id customer \<in> o_user_id ` set (orders db')" by blast+
qed

lemma seed_orders_again:
  assumes "u_id customer \<in> o_user_id ` set (orders t)"
  shows "seed_orders_payments_and_wallet_refund num f admin customer t = Inr t"
proof -
  have "0 < snd (list_for_user (u_id customer) 0 1 t)"
    using assms by (auto simp: list_for_user_def Let_def filter_empty_conv)
  then show ?thesis
    by (cases "list_for_user (u_id customer) 0 1 t") (simp add: seed_orders_payments_and_wallet_refund_def)
qed

section \<open>Wallet and ticket\<close>

definition deposits_in :: "uuid \<Rightarrow> 'a wallet_db_scheme \<Rightarrow> wallet_transaction list" where
  "deposits_in wid db = filter (\<lambda>t. wt_wallet_id t = wid \<and> wt_type t = Deposit) (wallet_transactions db)"

definition gifts_in :: "uuid \<Rightarrow> 'a wallet_db_scheme \<Rightarrow> wallet_transaction list" where
  "gifts_in wid db = filter (\<lambda>t. wt_wallet_id t = wid \<and> wt_note t = Some (UserNote WALLET_ADMIN_CREDIT_REASON))
     (wallet_transactions db)"

definition wallet_id_of :: "uuid \<Rightarrow> 'a wallet_db_scheme \<Rightarrow> uuid option" where
  "wallet_id_of uid db = map_option w_id (get_wallet_by_user_id uid db)"

lemma transaction_on_wallet:
  assumes "apply_transaction num fresh uid ty amount rt rid note actor db = Inr (t, db')"
    and "wallet_id_of uid db = Some wid"
  shows "wallet_id_of uid db' = Some wid"
    and "deposits_in wid db' = deposits_in wid db @ (if ty = Deposit then drop (length (wallet_transactions db)) (wallet_transactions db') else [])"
    and "gifts_in wid db' = gifts_in wid db @ (if note = Some (UserNote WALLET_ADMIN_CREDIT_REASON)
           then drop (length (wallet_transactions db)) (wallet_transactions db') else [])"
    and "length (wallet_transactions db') = Suc (length (wallet_transactions db))"
proof -
  from assms(2) obtain w where w: "get_wallet_by_user_id uid db = Some w" "w_id w = wid"
    by (auto simp: wallet_id_of_def)
  from assms(1) show "wallet_id_of uid db' = Some wid"
      "deposits_in wid db' = deposits_in wid db @ (if ty = Deposit then drop (length (wallet_transactions db)) (wallet_transactions db') else [])"
      "gifts_in wid db' = gifts_in wid db @ (if note = Some (UserNote WALLET_ADMIN_CREDIT_REASON)
           then drop (length (wallet_transactions db)) (wallet_transactions db') else [])"
      "length (wallet_transactions db') = Suc (length (wallet_transactions db))"
    by (cases rule: apply_transaction_cases;
        use w in \<open>auto simp: get_or_create_wallet_def wallet_id_of_def get_wallet_by_user_id_def find_by_update_by
          deposits_in_def gifts_in_def\<close>)+
qed

lemma seed_deposit_cases:
  assumes "seed_deposit num f wid uid db = Inr db'" "wallet_id_of uid db = Some wid"
  shows "sales_step db db' \<and> wallet_id_of uid db' = Some wid \<and> length (deposits_in wid db') = 1
    \<and> gifts_in wid db' = gifts_in wid db"
proof -
  from assms(1) obtain ex where ex: "scalar_one_or_none (deposits_in wid db) = Inr ex"
      "if ex \<noteq> None then db' = db else \<exists>t. deposit num (sf_wallet f 1) uid WALLET_DEPOSIT_AMOUNT db = Inr (t, db')"
    by (auto simp: seed_deposit_def bindE_eq_Inr deposits_in_def split: if_splits)
  show ?thesis
  proof (cases ex)
    case None
    with ex obtain t where t: "deposit num (sf_wallet f 1) uid WALLET_DEPOSIT_AMOUNT db = Inr (t, db')" by auto
    note d = transaction_on_wallet [OF t [unfolded deposit_def] assms(2)] transaction_sales [OF t [unfolded deposit_def]]
    from ex(1) None have "deposits_in wid db = []" by (simp add: scalar_one_or_none_None)
    with d show ?thesis by simp
  next
    case (Some r)
    with ex assms(2) show ?thesis by (simp add: scalar_one_or_none_Some sales_step_refl)
  qed
qed

lemma seed_credit_cases:
  assumes "seed_credit num f wid uid aid db = Inr db'" "wallet_id_of uid db = Some wid"
  shows "sales_step db db' \<and> wallet_id_of uid db' = Some wid \<and> length (gifts_in wid db') = 1
    \<and> deposits_in wid db' = deposits_in wid db"
proof -
  from assms(1) obtain ex where ex: "scalar_one_or_none (gifts_in wid db) = Inr ex"
      "if ex \<noteq> None then db' = db
       else \<exists>t. admin_credit num (sf_wallet f 2) uid WALLET_ADMIN_CREDIT_AMOUNT WALLET_ADMIN_CREDIT_REASON aid db = Inr (t, db')"
    by (auto simp: seed_credit_def bindE_eq_Inr gifts_in_def split: if_splits)
  show ?thesis
  proof (cases ex)
    case None
    with ex obtain t where t: "admin_credit num (sf_wallet f 2) uid WALLET_ADMIN_CREDIT_AMOUNT WALLET_ADMIN_CREDIT_REASON aid db = Inr (t, db')"
      by auto
    note d = transaction_on_wallet [OF t [unfolded admin_credit_def] assms(2)] transaction_sales [OF t [unfolded admin_credit_def]]
    from ex(1) None have "gifts_in wid db = []" by (simp add: scalar_one_or_none_None)
    with d show ?thesis by simp
  next
    case (Some r)
    with ex assms(2) show ?thesis by (simp add: scalar_one_or_none_Some sales_step_refl)
  qed
qed

definition wallet_seeded :: "uuid \<Rightarrow> 'a wallet_db_scheme \<Rightarrow> bool" where
  "wallet_seeded uid db \<longleftrightarrow>
     (\<exists>wid. wallet_id_of uid db = Some wid \<and> length (deposits_in wid db) = 1 \<and> length (gifts_in wid db) = 1)"

lemma seed_wallet_cases:
  assumes "seed_wallet_extras num f admin customer db = Inr db'"
  shows "sales_step db db' \<and> wallet_seeded (u_id customer) db'"
proof -
  obtain w u where c: "get_or_create_wallet (f_wallet (sf_wallet f 1)) (u_id customer) db = (w, u)" by fastforce
  then have u: "sales_step db u \<and> wallet_id_of (u_id customer) u = Some (w_id w)"
    by (cases rule: get_or_create_wallet_cases [of "u_id customer" db "f_wallet (sf_wallet f 1)"])
       (auto simp: sales_step_def wallet_id_of_def get_wallet_by_user_id_def find_by_append)
  from assms c obtain v where v: "seed_deposit num f (w_id w) (u_id customer) u = Inr v"
      "seed_credit num f (w_id w) (u_id customer) (u_id admin) v = Inr db'"
    by (auto simp: seed_wallet_extras_def bindE_eq_Inr)
  from seed_deposit_cases [OF v(1)] u have d: "sales_step u v" "wallet_id_of (u_id customer) v = Some (w_id w)"
      "length (deposits_in (w_id w) v) = 1" by blast+
  from seed_credit_cases [OF v(2) d(2)] d u show ?thesis
    by (auto simp: wallet_seeded_def intro: sales_step_trans)
qed

lemma seed_wallet_again:
  assumes "wallet_seeded (u_id customer) t"
  shows "seed_wallet_extras num f admin customer t = Inr t"
proof -
  from assms obtain w where w: "get_wallet_by_user_id (u_id customer) t = Some w"
      "length (deposits_in (w_id w) t) = 1" "length (gifts_in (w_id w) t) = 1"
    by (auto simp: wallet_seeded_def wallet_id_of_def)
  then obtain d g where "deposits_in (w_id w) t = [d]" "gifts_in (w_id w) t = [g]"
    by (auto simp: length_Suc_conv)
  with w(1) show ?thesis
    by (simp add: seed_wallet_extras_def get_or_create_wallet_def seed_deposit_def seed_credit_def
        deposits_in_def gifts_in_def)
qed

definition seed_tickets_of :: "uuid \<Rightarrow> 'a tickets_db_scheme \<Rightarrow> ticket list" where
  "seed_tickets_of uid db = filter (\<lambda>t. tk_user_id t = uid \<and> tk_subject t = TICKET_SUBJECT) (tickets db)"

definition script_ticket_step :: "'a tickets_db_scheme \<Rightarrow> 'a tickets_db_scheme \<Rightarrow> bool" where
  "script_ticket_step db db' \<longleftrightarrow> (\<exists>ts ms. db' = db\<lparr>tickets := ts, ticket_messages := ms\<rparr>)
     \<and> (\<forall>uid. length (seed_tickets_of uid db') = length (seed_tickets_of uid db))"

lemma script_ticket_stepI:
  assumes "db' = db\<lparr>tickets := ts, ticket_messages := ms\<rparr>"
    and "\<And>uid. length (seed_tickets_of uid db') = length (seed_tickets_of uid db)"
  shows "script_ticket_step db db'"
  using assms unfolding script_ticket_step_def by blast

lemma script_ticket_step_trans: "script_ticket_step a b \<Longrightarrow> script_ticket_step b c \<Longrightarrow> script_ticket_step a c"
  unfolding script_ticket_step_def by (elim conjE exE) (simp, blast)

lemma save_ticket_step:
  assumes "\<And>t. tk_user_id (g t) = tk_user_id t" "\<And>t. tk_subject (g t) = tk_subject t"
  shows "script_ticket_step db (save_ticket n g tid (add_ticket_message m db))" "script_ticket_step db (save_ticket n g tid db)"
proof -
  have s: "tk_user_id (stamped n g t) = tk_user_id t" "tk_subject (stamped n g t) = tk_subject t" for t
    by (cases "g t = t", use assms [of t] in \<open>simp_all add: stamped_def\<close>)
  have "length (filter (\<lambda>t. tk_user_id t = uid \<and> tk_subject t = TICKET_SUBJECT) (update_by tk_id tid (stamped n g) ts))
      = length (filter (\<lambda>t. tk_user_id t = uid \<and> tk_subject t = TICKET_SUBJECT) ts)" for uid ts
  proof -
    have "((\<lambda>t. tk_user_id t = uid \<and> tk_subject t = TICKET_SUBJECT) \<circ> (\<lambda>r. if tk_id r = tid then stamped n g r else r))
        = (\<lambda>t. tk_user_id t = uid \<and> tk_subject t = TICKET_SUBJECT)"
      by (rule ext) (simp add: s assms)
    then show ?thesis by (simp add: update_by_def filter_map)
  qed
  note len = this
  show "script_ticket_step db (save_ticket n g tid (add_ticket_message m db))"
    by (rule script_ticket_stepI [where ms = "ticket_messages db @ [m]" and ts = "update_by tk_id tid (stamped n g) (tickets db)"])
       (simp_all add: len seed_tickets_of_def save_ticket_def add_ticket_message_def)
  show "script_ticket_step db (save_ticket n g tid db)"
    by (rule script_ticket_stepI [where ms = "ticket_messages db" and ts = "update_by tk_id tid (stamped n g) (tickets db)"])
       (simp_all add: len seed_tickets_of_def save_ticket_def)
qed

lemma ticket_service_steps:
  "add_support_reply k tid u body db = Inr db' \<Longrightarrow> script_ticket_step db db'"
  "add_customer_reply k tid u body db = Inr db' \<Longrightarrow> script_ticket_step db db'"
  "change_status k tid st db = Inr db' \<Longrightarrow> script_ticket_step db db'"
  by (auto simp: add_support_reply_def add_customer_reply_def change_status_def bindE_eq_Inr
      intro!: save_ticket_step split: if_splits)

lemma seed_ticket_cases:
  assumes "seed_ticket f admin customer db = Inr db'"
  shows "(\<exists>ts ms. db' = db\<lparr>tickets := ts, ticket_messages := ms\<rparr>) \<and> length (seed_tickets_of (u_id customer) db') = 1"
proof -
  from assms obtain ex where ex: "scalar_one_or_none (seed_tickets_of (u_id customer) db) = Inr ex"
    by (auto simp: seed_ticket_def bindE_eq_Inr seed_tickets_of_def)
  show ?thesis
  proof (cases ex)
    case (Some t)
    with ex assms have "db' = db" by (simp add: seed_ticket_def seed_tickets_of_def)
    moreover have "length (seed_tickets_of (u_id customer) db) = 1" using ex Some by (simp add: scalar_one_or_none_Some)
    moreover have "db = db\<lparr>tickets := tickets db, ticket_messages := ticket_messages db\<rparr>" by simp
    ultimately show ?thesis by blast
  next
    case None
    obtain t u where c: "ticket_create (sf_ticket f 0) (u_id customer) TICKET_SUBJECT TICKET_MESSAGE TkHigh db = (t, u)"
      by fastforce
    from assms ex None c obtain v w x where s: "add_support_reply (sf_ticket f 1) (tk_id t) admin FIRST_SUPPORT_REPLY u = Inr v"
        "add_customer_reply (sf_ticket f 2) (tk_id t) customer CUSTOMER_REPLY v = Inr w"
        "add_support_reply (sf_ticket f 3) (tk_id t) admin SECOND_SUPPORT_REPLY w = Inr x"
        "change_status (sf_ticket f 4) (tk_id t) TkClosed x = Inr db'"
      by (auto simp: seed_ticket_def bindE_eq_Inr seed_tickets_of_def)
    have "script_ticket_step u db'"
      using s ticket_service_steps script_ticket_step_trans by metis
    moreover have "\<exists>ts ms. u = db\<lparr>tickets := ts, ticket_messages := ms\<rparr>" "length (seed_tickets_of (u_id customer) u) = 1"
      using c ex None by (auto simp: ticket_create_def Let_def add_ticket_message_def seed_tickets_of_def
          scalar_one_or_none_None)
    ultimately show ?thesis unfolding script_ticket_step_def by (elim conjE exE) (simp, blast)
  qed
qed

lemma seed_ticket_again:
  assumes "length (seed_tickets_of (u_id customer) t) = 1"
  shows "seed_ticket f admin customer t = Inr t"
proof -
  from assms obtain x where "seed_tickets_of (u_id customer) t = [x]" by (auto simp: length_Suc_conv)
  then show ?thesis by (simp add: seed_ticket_def seed_tickets_of_def)
qed

section \<open>The script again\<close>

lemma seed_all_again:
  assumes "seed_all env num environ f db = Inr db'" "seedable f db"
  shows "seed_all env num environ f' db' = Inr db'"
proof -
  from assms(1) obtain ids d1 d2 admin customer d3 d4 d5 where
    d1: "seed_categories f db = Inr (ids, d1)" and d2: "seed_products num f ids d1 = Inr d2"
    and d3: "seed_users env environ f d2 = Inr ((admin, customer), d3)"
    and d4: "seed_orders_payments_and_wallet_refund num f admin customer d3 = Inr d4"
    and d5: "seed_wallet_extras num f admin customer d4 = Inr d5"
    and d6: "seed_ticket f admin customer d5 = Inr db'"
    by (auto simp: seed_all_def bindE_eq_Inr)
  note u = seed_users_cases [OF d3] and o = seed_orders_cases [OF d4] and w = seed_wallet_cases [OF d5]
    and t = seed_ticket_cases [OF d6]
  from o(1) w have s: "sales_step d3 d5" by (blast intro: sales_step_trans)
  from t obtain ts ms where t': "db' = d5\<lparr>tickets := ts, ticket_messages := ms\<rparr>" by blast
  have cat: "categories db' = categories d1" "products db' = products d2"
    using u(4) sales_step_outside(1,2) [OF s] seed_products_categories [OF d2] by (auto simp: t')
  have acc: "users db' = users d3" "accounts_fit db'"
    using sales_step_accounts(1,2) [OF s] u(3) by (simp_all add: t' accounts_fit_def)
  have "keeps_categories d1 db'" by (simp add: keeps_categories_def get_category_by_slug_def cat(1))
  then have 1: "seed_categories f' db' = Inr (ids, db')" by (rule seed_categories_again [OF d1])
  have "seedable f d1" using assms(2) seed_categories_products [OF d1] by (simp add: seedable_def)
  then have 2: "seed_products num f' ids db' = Inr db'" by (rule seed_products_again [OF d2 _ cat(2)])
  have 3: "seed_users env environ f' db' = Inr ((admin, customer), db')"
    using u(1,2) acc by (intro seed_users_again) (simp_all add: get_user_by_email_def)
  have "u_id customer \<in> o_user_id ` set (orders db')"
    using sales_step_owner [OF w [THEN conjunct1] o(2)] by (simp add: t')
  then have 4: "seed_orders_payments_and_wallet_refund num f' admin customer db' = Inr db'"
    by (rule seed_orders_again)
  have "wallet_seeded (u_id customer) db'"
    using w by (simp add: t' wallet_seeded_def wallet_id_of_def get_wallet_by_user_id_def deposits_in_def gifts_in_def)
  then have 5: "seed_wallet_extras num f' admin customer db' = Inr db'" by (rule seed_wallet_again)
  have 6: "seed_ticket f' admin customer db' = Inr db'" using t by (blast intro: seed_ticket_again)
  show ?thesis by (simp add: seed_all_def 1 2 3 4 5 6)
qed

lemma seed_main_again:
  assumes "seed_main env num environ f db = (Inr s, db')" "seedable f db"
  shows "seed_main env num environ f' db' = (Inr s, db')"
proof -
  from assms(1) have "seed_all env num environ f db = Inr db'" "s = seed_summary db'"
    by (auto simp: seed_main_def request_def bindE_def split: sum.splits)
  with seed_all_again [OF this(1) assms(2)] show ?thesis by (simp add: seed_main_def request_def)
qed

section \<open>A catalogue that is already there\<close>

definition tree_slugs :: "string list" where
  "tree_slugs = concat (map (\<lambda>e. ce_slug e # map snd (ce_children e)) CATEGORY_TREE)"

lemma foldE_stays:
  assumes "\<And>x a. x \<in> set xs \<Longrightarrow> \<exists>a'. step x (a, s) = Inr (a', s)"
  shows "\<exists>a'. foldE step xs (a, s) = Inr (a', s)"
  using assms
proof (induction xs arbitrary: a)
  case (Cons x xs)
  from Cons.prems [of x a] obtain a1 where "step x (a, s) = Inr (a1, s)" by auto
  with Cons.IH [of a1] Cons.prems show ?case by simp
qed simp

lemma seed_categories_stored:
  assumes "\<forall>slug \<in> set tree_slugs. get_category_by_slug slug db \<noteq> None"
  shows "\<exists>ids. seed_categories f db = Inr (ids, db)"
  unfolding seed_categories_def
proof (rule foldE_stays)
  fix x a assume x: "x \<in> set (enumerate 0 CATEGORY_TREE)"
  obtain n e where e: "x = (n, e)" by fastforce
  with x have "e \<in> set CATEGORY_TREE" by (auto simp: enumerate_eq_zip dest: set_zip_rightD)
  then have stored: "get_category_by_slug slug db \<noteq> None" if "slug \<in> set (ce_slug e # map snd (ce_children e))" for slug
    using assms that by (auto simp: tree_slugs_def)
  from stored [of "ce_slug e"] obtain c where "get_category_by_slug (ce_slug e) db = Some c" by auto
  then have top: "seed_category f None (int n) (ce_name e) (ce_slug e) db = Inr (cat_id c, db)"
    by (rule seed_category_found)
  have "\<exists>a'. foldE (seed_child f (cat_id c)) (enumerate 0 (ce_children e)) (b, db) = Inr (a', db)" for b
  proof (rule foldE_stays)
    fix y b assume y: "y \<in> set (enumerate 0 (ce_children e))"
    obtain m name slug where m: "y = (m, name, slug)" by (cases y) auto
    with y have "(name, slug) \<in> set (ce_children e)" by (auto simp: enumerate_eq_zip dest: set_zip_rightD)
    then have "slug \<in> set (ce_slug e # map snd (ce_children e))" by force
    then obtain d where "get_category_by_slug slug db = Some d" using stored by blast
    then show "\<exists>a'. seed_child f (cat_id c) y (b, db) = Inr (a', db)"
      by (simp add: seed_child_def m seed_category_found)
  qed
  with top show "\<exists>a'. seed_top f x (a, db) = Inr (a', db)" by (simp add: seed_top_def e)
qed

lemma seed_products_settled:
  assumes "\<forall>item \<in> set PRODUCTS. settled item db"
  shows "seed_products num f ids db = Inr db"
proof -
  have "foldE (seed_product num f ids) items db = Inr db" if "set items \<subseteq> set PRODUCTS" for items
    using that assms by (induction items) (auto simp: settled_again)
  then show ?thesis by (simp add: seed_products_def)
qed

end
