(* ===== verification/Seed_Samples.thy ===== *)
theory Seed_Samples
  imports Seed_Facts Account_Samples
begin

text \<open>
  A shop that has the categories and products of the seed script, two accounts and an order of the
  demo customer, but no wallet and no ticket: the script finds the former and makes the latter.
\<close>

definition stored_category :: "string \<Rightarrow> category" where
  "stored_category slug = lighting\<lparr>cat_slug := slug\<rparr>"

definition stored_item :: "product_item \<Rightarrow> product" where
  "stored_item item = lamp\<lparr>p_slug := it_slug item, p_sku := it_sku item,
     p_images := (case category_placeholder_image (it_category_slug item) of Inr photo \<Rightarrow> Some [photo] | Inl e \<Rightarrow> None)\<rparr>"

definition demo_shop :: accounts_db where
  "demo_shop = home\<lparr>categories := map stored_category tree_slugs,
     products := map (\<lambda>(n, item). (stored_item item)\<lparr>p_id := n\<rparr>) (enumerate 0 PRODUCTS),
     users := [root_user, alice], orders := [alices_order]\<rparr>"

definition demo_environ :: environ where
  "demo_environ = [''SEED_ADMIN_EMAIL'' \<mapsto> ''r@x'', ''SEED_CUSTOMER_EMAIL'' \<mapsto> ''a@x'']"

definition slug_index :: "string \<Rightarrow> nat" where
  "slug_index slug = length (takeWhile (\<lambda>s. s \<noteq> slug) (map it_slug PRODUCTS))"

lemma slug_index_inj: "inj_on slug_index (it_slug ` set PRODUCTS)"
proof (rule inj_on_inverseI [where g = "nth (map it_slug PRODUCTS)"])
  fix slug assume "slug \<in> it_slug ` set PRODUCTS"
  then have "slug \<in> set (map it_slug PRODUCTS)" by simp
  then obtain ys zs where y: "map it_slug PRODUCTS = ys @ slug # zs" "slug \<notin> set ys"
    by (blast dest: split_list_first)
  have "takeWhile (\<lambda>s. s \<noteq> slug) (ys @ slug # zs) = ys"
    using y(2) by (subst takeWhile_append2) auto
  then show "map it_slug PRODUCTS ! slug_index slug = slug" by (simp only: slug_index_def y(1) nth_append_length)
qed

definition demo_fresh :: seed_fresh where
  "demo_fresh = \<lparr> sf_now = 5, sf_category = (\<lambda>slug. 0), sf_product = slug_index,
     sf_admin = 90, sf_customer = 91, sf_admin_salt = ''s'', sf_customer_salt = ''t'',
     sf_checkout = (\<lambda>n. shop_fresh), sf_payment = (\<lambda>n. 50 + n),
     sf_wallet = (\<lambda>n. \<lparr>f_wallet = 60, f_transaction = 61 + n, f_now = 6\<rparr>),
     sf_ticket = (\<lambda>n. \<lparr>tf_ticket = 70, tf_message = 71 + n, tf_now = 7, tf_db_now = 7\<rparr>) \<rparr>"

lemma demo_categories: "\<exists>ids. seed_categories f demo_shop = Inr (ids, demo_shop)"
  by (rule seed_categories_stored)
     (auto simp: demo_shop_def get_category_by_slug_def find_by_None image_image stored_category_def)

lemma items_have_photos: "item \<in> set PRODUCTS \<Longrightarrow> \<exists>photo. category_placeholder_image (it_category_slug item) = Inr photo"
  by (auto simp: PRODUCTS_def category_placeholder_image_def CATEGORY_PHOTO_IDS_def)

lemma stored_item_matches:
  "i \<in> set PRODUCTS \<Longrightarrow> j \<in> set PRODUCTS \<Longrightarrow> item_matches i ((stored_item j)\<lparr>p_id := n\<rparr>) \<longleftrightarrow> j = i"
  using item_eq [of i j] by (auto simp: item_matches_def stored_item_def)

lemma demo_products: "\<forall>item \<in> set PRODUCTS. settled item demo_shop"
proof
  fix item assume i: "item \<in> set PRODUCTS"
  have d: "distinct PRODUCTS" using item_keys by (auto simp: distinct_map)
  have fil: "filter (item_matches item) (map (\<lambda>(n, i). (stored_item i)\<lparr>p_id := n\<rparr>) (enumerate k is))
      = map (\<lambda>(n, i). (stored_item i)\<lparr>p_id := n\<rparr>) (filter (\<lambda>(n, j). j = item) (enumerate k is))"
    if "set is \<subseteq> set PRODUCTS" for k "is"
    using that i by (induction "is" arbitrary: k) (simp_all add: stored_item_matches)
  have one: "\<exists>n. filter (\<lambda>(n, j). j = item) (enumerate k is) = [(n, item)]"
    if "distinct is" "item \<in> set is" for k "is"
  proof -
    have none: "filter (\<lambda>(n, j). j = item) (enumerate k is) = []" if "item \<notin> set is" for k "is"
      using that by (induction "is" arbitrary: k) auto
    from that show ?thesis by (induction "is" arbitrary: k) (auto simp: none)
  qed
  obtain n where "filter (item_matches item) (products demo_shop) = [(stored_item item)\<lparr>p_id := n\<rparr>]"
  proof -
    assume r: "\<And>n. filter (item_matches item) (products demo_shop) = [(stored_item item)\<lparr>p_id := n\<rparr>] \<Longrightarrow> thesis"
    from one [OF d i, of 0] obtain n where "filter (\<lambda>(n, j). j = item) (enumerate 0 PRODUCTS) = [(n, item)]" by blast
    with fil [of PRODUCTS 0] show thesis by (intro r [of n]) (simp add: demo_shop_def)
  qed
  moreover obtain photo where "category_placeholder_image (it_category_slug item) = Inr photo"
    using items_have_photos [OF i] by blast
  ultimately show "settled item demo_shop" by (simp add: settled_def stored_item_def)
qed

lemma demo_seedable: "seedable demo_fresh demo_shop"
proof -
  have "\<not> (\<forall>p \<in> set (products demo_shop). \<not> item_matches item p)" if "item \<in> set PRODUCTS" for item
    using demo_products that by (auto simp: settled_def filter_eq_Cons_iff)
  moreover have "unique_by p_id (products demo_shop)"
    by (simp add: demo_shop_def unique_by_def o_def case_prod_beta)
  moreover have "i = j" if "p \<in> set (products demo_shop)" "i \<in> set PRODUCTS" "j \<in> set PRODUCTS"
      "item_matches i p" "item_matches j p" for i j p
    using that by (auto simp: demo_shop_def enumerate_eq_zip stored_item_matches dest!: set_zip_rightD)
  moreover have "sf_product demo_fresh = slug_index" by (simp add: demo_fresh_def)
  ultimately show ?thesis using slug_index_inj unfolding seedable_def by metis
qed

lemmas seeded_rows = demo_shop_def demo_fresh_def demo_environ_def alice_def root_user_def alices_order_def plain_env_def

lemma demo_users: "seed_users plain_env demo_environ demo_fresh demo_shop = Inr ((root_user, alice), demo_shop)"
  by (rule seed_users_again)
     (simp_all add: get_user_by_email_def ADMIN_EMAIL_def CUSTOMER_EMAIL_def environ_get_def accounts_fit_def
        user_fits_def unique_by_def oa_key_def seeded_rows home_rows)

lemma demo_orders:
  "seed_orders_payments_and_wallet_refund num demo_fresh root_user alice demo_shop = Inr demo_shop"
  by (rule seed_orders_again) (simp add: seeded_rows)

lemma demo_wallet:
  "\<exists>db'. seed_wallet_extras round_half_away demo_fresh root_user alice demo_shop = Inr db'
     \<and> length (wallet_transactions db') = 2 \<and> tickets db' = [] \<and> ticket_messages db' = []"
proof -
  have w: "wallets demo_shop = []" "wallet_transactions demo_shop = []" "tickets demo_shop = []" "ticket_messages demo_shop = []"
    by (simp_all add: demo_shop_def home_def)
  have n: "round_half_away 3000000 = 3000000" "round_half_away 3200000 = 3200000" "round_half_away 200000 = 200000"
    using round_half_away_whole [of 3000000] round_half_away_whole [of 3200000] round_half_away_whole [of 200000] by simp_all
  show ?thesis
    by (simp add: seed_wallet_extras_def seed_deposit_def seed_credit_def get_or_create_wallet_def
      get_wallet_by_user_id_def deposit_def admin_credit_def apply_transaction_def Let_def CREDIT_TYPES_def
      WALLET_DEPOSIT_AMOUNT_def WALLET_ADMIN_CREDIT_AMOUNT_def numeric_fits_def demo_fresh_def w n)
qed

lemma demo_ticket:
  assumes "tickets db = []" "ticket_messages db = []"
  shows "\<exists>db'. seed_ticket demo_fresh root_user alice db = Inr db'
     \<and> wallet_transactions db' = wallet_transactions db \<and> length (ticket_messages db') = 4"
  using assms
  by (simp add: seed_ticket_def ticket_create_def add_support_reply_def add_customer_reply_def change_status_def
      get_ticket_by_id_def ticket_get_for_user_def save_ticket_def stamped_def add_ticket_message_def Let_def
      demo_fresh_def root_user_def alice_def)

lemma demo_run:
  "\<exists>s db'. seed_main plain_env round_half_away demo_environ demo_fresh demo_shop = (Inr s, db')
     \<and> length (wallet_transactions db') = 2 \<and> length (ticket_messages db') = 4"
proof -
  obtain ids where c: "seed_categories demo_fresh demo_shop = Inr (ids, demo_shop)" using demo_categories by blast
  obtain d where w: "seed_wallet_extras round_half_away demo_fresh root_user alice demo_shop = Inr d"
      "length (wallet_transactions d) = 2" "tickets d = []" "ticket_messages d = []"
    using demo_wallet by blast
  obtain e where t: "seed_ticket demo_fresh root_user alice d = Inr e"
      "wallet_transactions e = wallet_transactions d" "length (ticket_messages e) = 4"
    using demo_ticket [OF w(3,4)] by blast
  show ?thesis
    by (simp add: seed_main_def seed_all_def c seed_products_settled [OF demo_products] demo_users demo_orders w t request_def)
qed

end
