(* ===== verification/Spec2Isabelle.thy ===== *)
theory Spec2Isabelle
  imports Order_Effects Settlement Divergences Permissions Pagination Storage Migrations Seed_Samples Application Shop_Api
begin

text \<open>
  A verification of the backend of the electronic shop (\<open>src/backend/app\<close>): a FastAPI service over
  one PostgreSQL database, with Redis as a cache, a Celery job, the ZarinPal payment gateway and
  Google sign-in. The development models the services, repositories, routes and clients as
  functions on explicit states and proves what makes them correct.

  \<^bold>\<open>How the program is modelled.\<close> A database table is a list of rows in insertion order, a row is a
  record with the columns of the ORM class. The state grows by extension along the imports:
  \<open>inventory_db\<close>, \<open>catalog_db\<close>, \<open>idem_db\<close>, \<open>cart_db\<close>, \<open>wallet_db\<close>, \<open>orders_db\<close>, \<open>payments_db\<close>,
  \<open>audit_db\<close>, \<open>tickets_db\<close>, \<open>accounts_db\<close>. A method that may raise returns \<open>exn + 'a\<close> (\<open>Inl\<close> the
  exception). \<open>request\<close> is one request: what an exception leaves uncommitted is dropped with the
  session, as \<open>get_db_session\<close> does; where the code commits before it raises (the reuse of a refresh
  token, a failed payment), the exception comes with the state. Fresh identifiers, random tokens and
  the clock are arguments. Requests are atomic steps that follow each other in any order; what can happen
  between two requests that run at the same time is not modelled (below). What lies outside \<open>src/\<close> is a parameter: the gateway's and Google's
  answers, the argon2 library (with its documented law), the random source, the JWT library, collation,
  \<open>ilike\<close>, \<open>str.lower\<close> and e-mail normalisation, the rounding of \<open>NUMERIC(p, 0)\<close> (a locale with the documented laws,
  interpreted on rounding half away from zero), Python's decimal context.

  \<^bold>\<open>The theories.\<close>
  \<^item> \<open>Prelude\<close>: the result monad and its loops (\<open>bindE\<close>, \<open>foldE\<close>, \<open>mapE\<close>), \<open>request\<close>, table lookups and
    updates by key with the collection \<open>tables\<close>. \<open>Errors\<close>: \<open>common/errors.py\<close> and the exception handlers.
  \<^item> \<open>Unicode\<close>, \<open>Digests\<close>: what the code uses of Python's strings and of \<open>hashlib\<close>, \<open>hmac\<close>, \<open>base64\<close> and
    \<open>secrets\<close>: code points and UTF-8 with its round trip, \<open>len\<close>, slices and \<open>strip\<close>, SHA-256 on 32-bit words,
    HMAC, URL-safe base64.
  \<^item> \<open>Inventory\<close> (\<open>catalog/inventory_service.py\<close>) with \<open>Stock_Interface\<close>: the locale of what orders need
    of a stock keeper, interpreted on the service; the history log replays to the stock.
  \<^item> \<open>Catalog_Models\<close>, \<open>Categories\<close>, \<open>Category_Tree\<close>, \<open>Products\<close>, \<open>Catalog_Routes\<close>,
    \<open>Catalog_Invariants\<close> (\<open>modules/catalog\<close>, \<open>common/cache.py\<close>): the category forest with its walks and the
    nested tree, products and their validators, every route with the cache keys it reads and drops.
    \<open>Storage\<close>: \<open>integrations/storage.py\<close> and the image upload.
  \<^item> \<open>Pagination\<close>, \<open>Money\<close>, \<open>Idempotency\<close> (\<open>common\<close>): pages; money columns; the key guard with the locale of
    an operation it protects.
  \<^item> \<open>Cart\<close>, \<open>Wallet\<close>, \<open>Orders\<close>, \<open>Payments\<close>, \<open>Zarinpal\<close> (\<open>modules/cart\<close>, \<open>wallet\<close>, \<open>orders\<close>, \<open>payments\<close>,
    \<open>integrations/zarinpal.py\<close>): repositories, services and routes. \<open>Order_Facts\<close>, \<open>Order_Invariants\<close>,
    \<open>Order_Effects\<close>, \<open>Payment_Facts\<close>: what they keep true, alone and together. \<open>Settlement\<close>: a whole sale.
  \<^item> \<open>Users\<close>, \<open>Permissions\<close> (\<open>users/models.py\<close>, \<open>security/permissions.py\<close>), \<open>Web_Security\<close>
    (\<open>core/config.py\<close>, \<open>core/middleware.py\<close>, \<open>security/csrf.py\<close>, \<open>security/jwt.py\<close>, \<open>common/cookies.py\<close>).
  \<^item> \<open>Audit_Trail\<close>, \<open>Tickets\<close>, \<open>Ticket_Facts\<close> (\<open>modules/audit\<close>, \<open>modules/tickets\<close>, \<open>tasks/ticket_tasks.py\<close>).
  \<^item> \<open>Accounts\<close>, \<open>Google\<close>, \<open>Auth_Routes\<close> (\<open>modules/auth\<close>, \<open>modules/users\<close>, \<open>integrations/google_oauth.py\<close>,
    the mails of \<open>modules/notifications\<close> as an outbox). \<open>Sessions\<close> is the small machine on the table of refresh
    tokens; \<open>Auth_Facts\<close> shows that every route is a step of it, \<open>Sign_Up\<close> what a registration can be used for,
    \<open>Secrets\<close> (\<open>security/password.py\<close>, \<open>security/tokens.py\<close>) with the program's own hashes and tokens.
  \<^item> \<open>Reports\<close>, \<open>Report_Facts\<close> (\<open>modules/reports\<close>): the dashboard's figures and what they add up to.
  \<^item> \<open>Admin_Api\<close> (\<open>api/v1/router.py\<close>): the administration routes as one dispatcher behind the current user;
    \<open>Shop_Api\<close> the customers' and the public routes, and a request of any kind. \<open>Shop_Frames\<close>: what each group of
    routes leaves alone; \<open>Sales_Invariant\<close>, \<open>Whole_Shop\<close>: the invariants of the components, kept together by
    every request, the closing job and the expiry of Redis; \<open>Balanced_Books\<close>: the reservations over the same interface.
    \<open>Configuration\<close> (\<open>core/config.py\<close>, \<open>core/logging.py\<close>, \<open>tasks/celery_app.py\<close>): the settings and what is computed
    from them. \<open>Application\<close> (\<open>main.py\<close>, \<open>api/v1/health.py\<close>): the layers around every route, in their order.
  \<^item> \<open>Schema\<close>, \<open>Orm_Metadata\<close>, \<open>Migrations\<close> (\<open>db/base.py\<close>, \<open>db/model_registry.py\<close>, the \<open>models.py\<close> of every module,
    \<open>alembic\<close>): DDL statements on a schema, the tables the ORM classes declare, the five revisions.
  \<^item> \<open>Seed_Data\<close>, \<open>Seed\<close>, \<open>Seed_Facts\<close> (\<open>scripts/seed.py\<close>): the demo data, the steps of the script on the services,
    and the locale \<open>upserts\<close> of a loop whose steps leave alone what they find, interpreted on the loops over
    categories, subcategories and products.
  \<^item> \<open>Samples\<close>, \<open>Account_Samples\<close>, \<open>Seed_Samples\<close>: small concrete states for the witnesses. \<open>Divergences\<close>: where the code does
    not do what it says.

  \<^bold>\<open>What the theorems show.\<close>
  \<^item> C1, the whole: the interface, the job and the cache as one step relation keep the invariants of all
    components at once. C2: the reserved stock is what the orders awaiting payment ask for, over the same
    steps but for the two kinds of request that can break it. Not among these invariants is the ledger, which
    amounts that are not whole can break (C14 is over whole amounts).
  \<^item> C3 to C12, sales: order histories are paths of the state machine, each refunded order is refunded once,
    with its total; the exact effect of a checkout and of each payment outcome, and the way from the cart
    through the gateway to the paid, failed or cancelled order; a payment is settled once; the stock log
    replays. C9 and C10 are two defects: the payment of a failed order that cannot settle, and a cancelled paid order
    that frees the reservations of others.
  \<^item> C13 to C15: replay by idempotency key, the wallet as the sum of its ledger, the cart as a map.
  \<^item> C16 to C18: the catalogue's consistency, a cache that answers as the database would, the walks over the
    category forest.
  \<^item> C19 and C20, the surface: who gets through to which administration route, and what the layers around every
    route keep: no effect without a confirmed request, the route's own answer with one, errors that name
    their request.
  \<^item> C21 to C32, accounts: one live token per session and the end of a session on reuse, single-use reset tokens,
    what a registration can be used for, who gets a session by password or by Google, what an access token names, audited administration, registrations
    that no constraint of the database decides, the search for a user name, the CSRF check.
  \<^item> C33 to C37: the consistency of ticket conversations under the closing job, what a run closes and that
    runs catch up, who sees and answers a ticket, and the sums of the report.
  \<^item> C38 to C40, deployment: the migrations build the schema the classes declare and can be undone; a second run
    of the seed script changes nothing.

  \<^bold>\<open>Bounds and recursion.\<close> The walk over the categories is a total function by a measure on the unvisited
  rows; the nested tree runs on fuel, the number of categories plus one, which C18 shows to be enough on a
  forest (a cycle among the parents is \<open>RecursionError\<close>, the value \<open>None\<close>). The search for a user name ends
  by counting the names taken; its result fits 50 characters below ten thousand million accounts.
  Quantities are integers with the range of the 4-byte column checked at the flush, amounts are rationals
  until they are written to a \<open>NUMERIC\<close> column.

  \<^bold>\<open>What the model abstracts.\<close> Races: only the stock row (\<open>catalog/repository.py\<close>) and the wallet row
  (\<open>wallet/repository.py\<close>) are read \<open>FOR UPDATE\<close>, and the claim of a payment and the closing job write conditionally; a
  refresh token, an order, a ticket or a reset token is read without a lock, so two requests at once may both act on the
  row as it was, and the theorems say nothing about that. The Persian texts of messages and notes are constructors. The identity map
  of a session is not modelled: under \<open>SELECT ... FOR UPDATE\<close> the ORM keeps the attribute values of an object the
  session has already loaded, so a row that changed between the first read and the lock can be seen stale.
  Rows without an order in the query come in insertion order (the candidates of the closing job), groups in
  order of first occurrence. \<open>isdigit\<close>, \<open>isalpha\<close> and the lower-casing of a setting are the ASCII tests. Foreign
  keys to users are not checked, since users are never deleted. Entries of Redis, the
  cached values and the pending Google sign-ins, may run out at any step; how long they live is not modelled.
  \<open>carts.updated_at\<close> is an argument of the statistics; no other component reads it.
  Whether the library looks up an enumerated type before it creates it is an argument of the migrations. Strings
  are UTF-8 bytes; \<open>len\<close> and slices count code points (\<open>text_length\<close>, \<open>text_take\<close>). The Persian texts of the
  seed data are written as Latin transliterations and decoded to their UTF-8 bytes. The seed script runs in one session, where the expired collection of its cart stands for
  a fresh read.

  \<^bold>\<open>Not modelled.\<close> The database engine, the connection to Redis, the command line and the offline mode of alembic,
  log lines, argon2 and the random source (parameters), and the frontend, which is TypeScript.
\<close>

text \<open>C1 The components keep their invariants together: over any sequence of requests to
  the interface, whoever sends them and whatever they contain, of passes of the closing job and
  of entries of Redis running out, the catalogue and its cache, the carts, wallets, orders,
  payments, idempotency keys, tickets, accounts and sessions stay consistent. So reservations
  stay within the stock, every order has the total of its lines, an allowed history and exactly
  its refund, and every payment carries the owner and the total of its order. The identifiers
  the server draws are fresh.\<close>

theorem whole_shop_stays_consistent:
  assumes "numeric_column (de_num d)" "shop_inv (de_coll d) db" "(shop_step env d)\<^sup>*\<^sup>* db db'"
  shows "shop_inv (de_coll d) db'
    \<and> (\<forall>i \<in> set (inventories db'). 0 \<le> stock_reserved i \<and> stock_reserved i \<le> stock_total i)
    \<and> (\<forall>r \<in> set (orders db'). o_total r = (\<Sum>i \<leftarrow> items_of_order (o_id r) db'. oi_subtotal i)
         \<and> follows OrdPending (history_of (o_id r) db') (o_status r)
         \<and> map wt_amount (refunds_of (o_id r) db') = (if o_status r = OrdRefunded then [o_total r] else []))
    \<and> (\<forall>p \<in> set (payments db'). \<exists>r \<in> set (orders db').
         o_id r = pay_order_id p \<and> pay_amount p = o_total r \<and> pay_user_id p = o_user_id r)"
proof -
  have "shop_inv (de_coll d) db'" by (rule shop_steps_keep [OF assms(1,3,2)])
  then show ?thesis using shop_inv_means by blast
qed

theorem whole_shop_stays_consistent_witness:
  "shop_inv (\<lambda>s. 0) (snd (auto_close_one \<lparr>tf_ticket = 60, tf_message = 61, tf_now = 9, tf_db_now = 9\<rparr> 62
     (snd (serve_shop plain_env market_env
        (Public_Request (Gateway_Callback (\<lambda>amount a. gateway_yes) 7 ''A1'' ''OK'')) market))))"
proof -
  let ?callback = "Public_Request (Gateway_Callback (\<lambda>amount a. gateway_yes) 7 ''A1'' ''OK'')"
  have "shop_step plain_env market_env market (snd (serve_shop plain_env market_env ?callback market))"
    by (rule by_request) simp
  with by_job have "(shop_step plain_env market_env)\<^sup>*\<^sup>* market
      (snd (auto_close_one \<lparr>tf_ticket = 60, tf_message = 61, tf_now = 9, tf_db_now = 9\<rparr> 62
         (snd (serve_shop plain_env market_env ?callback market))))"
    by (metis rtranclp.rtrancl_into_rtrancl r_into_rtranclp)
  from whole_shop_stays_consistent [OF _ _ this] pg.numeric_column_axioms sample_market show ?thesis by (simp add: market_env_def)
qed

text \<open>C2 Over any sequence of requests to the interface, of passes of the closing job and
  of expiring Redis entries, the reserved stock of every product is exactly what the orders
  awaiting payment ask for, and it never exceeds the total: nothing is promised twice. Left out
  are the two kinds of request that can break it: cancelling a paid order, and an administrator
  taking an order out of awaiting_payment or putting one into it.\<close>

theorem stock_books_balance:
  assumes "numeric_column (de_num d)" "shop_inv (de_coll d) db" "balanced db" "(orderly_step env d)\<^sup>*\<^sup>* db db'"
  shows "books_ok db' \<and> (\<forall>pid t r. stock_of db' pid = Some (t, r) \<longrightarrow> awaiting_demand db' pid = r \<and> r \<le> t)"
proof -
  have b: "books_ok db'" using orderly_steps_keep [OF assms(1,4,2,3)] shop_books by blast
  then show ?thesis using books_no_oversell [OF b] by (auto simp: books_ok_def reserved_matches_def)
qed

theorem stock_books_balance_witness:
  "books_ok (snd (serve_shop plain_env market_env
     (Public_Request (Gateway_Callback (\<lambda>amount a. gateway_yes) 7 ''A1'' ''OK'')) market))"
proof -
  have "orderly_step plain_env market_env market (snd (serve_shop plain_env market_env
      (Public_Request (Gateway_Callback (\<lambda>amount a. gateway_yes) 7 ''A1'' ''OK'')) market))"
    by (rule orderly_request) simp_all
  from stock_books_balance [OF _ _ sample_balanced r_into_rtranclp [where r = "orderly_step plain_env market_env", OF this]]
    pg.numeric_column_axioms sample_market show ?thesis by (simp add: market_env_def)
qed

text \<open>C3 From order tables that are consistent, over any sequence of checkouts, payment
  outcomes, cancellations, status changes by administrators (which make a move to refunded and
  its refund in one request, as the route does) and deposits, credits and debits of the wallets,
  the history of each order is a path of allowed transitions from pending to its current status,
  and the ledger holds exactly one refund, of the order total, for each refunded order and none
  for any other order.\<close>

theorem order_history_and_refunds:
  assumes "numeric_column num" "order_tables_ok db" "(order_step num)\<^sup>*\<^sup>* db db'"
  shows "(\<forall>r \<in> set (orders db'). follows OrdPending (history_of (o_id r) db') (o_status r)
            \<and> map wt_amount (refunds_of (o_id r) db') = (if o_status r = OrdRefunded then [o_total r] else []))
         \<and> order_tables_ok db'"
  using tables_steps [OF assms(1,3,2)] by (auto simp: order_tables_ok_def history_ok_def refunds_ok_def)

theorem order_history_and_refunds_witness:
  "\<exists>db'. (order_step round_half_away)\<^sup>*\<^sup>* shop_paid db' \<and> orders db' = [paid_order\<lparr>o_status := OrdRefunded\<rparr>]
     \<and> map wt_amount (refunds_of 40 db') = [240]"
proof -
  obtain db' where r: "snd (update_order_status round_half_away root_user \<lparr>f_wallet = 60, f_transaction = 61, f_now = 9\<rparr> 40 OrdRefunded None shop_paid) = db'"
    and o: "orders db' = [paid_order\<lparr>o_status := OrdRefunded\<rparr>]" using sample_refund by blast
  have "order_step round_half_away shop_paid db'" unfolding r [symmetric] by (rule step_admin)
  then have s: "(order_step round_half_away)\<^sup>*\<^sup>* shop_paid db'" by (rule r_into_rtranclp)
  have "paid_order\<lparr>o_status := OrdRefunded\<rparr> \<in> set (orders db')" by (simp add: o)
  from order_history_and_refunds [OF pg.numeric_column_axioms sample_paid_tables s, THEN conjunct1, THEN bspec, OF this, THEN conjunct2]
  have "map wt_amount (refunds_of 40 db') = [240]" by (simp add: paid_order_def alices_order_def)
  with s o show ?thesis by (intro exI [of _ db'] conjI)
qed

text \<open>C4 A checkout that returns had a non-empty cart whose products are all on sale; it
  creates one order awaiting payment whose total is the sum of quantity times current effective
  price, reserves exactly the demand of the lines within what is available, and empties the
  cart.\<close>

theorem checkout_contract:
  assumes "checkout_service k uid addr db = Inr (ord, db')" "get_order_by_id (k_order k) db = None"
    "inventory_ok db" "get_or_create_cart (k_cart k) uid db = (cart, db1)"
  shows "items_of cart db1 \<noteq> [] \<and> (\<forall>it \<in> set (items_of cart db1). available_line db it)
    \<and> o_status ord = OrdAwaitingPayment \<and> o_user_id ord = uid
    \<and> o_total ord = (\<Sum>it \<leftarrow> items_of cart db1. effective_unit_price (product_of db it) * ci_quantity it)
    \<and> orders db' = orders db @ [ord] \<and> items_of cart db' = []
    \<and> (\<forall>pid t r. stock_of db pid = Some (t, r) \<longrightarrow>
         stock_of db' pid = Some (t, r + demand pid (cart_lines (items_of cart db1)))
         \<and> r + demand pid (cart_lines (items_of cart db1)) \<le> t)"
  using checkout_service_effect [OF assms refl] by (auto simp: new_order_def lines_total_def)

theorem checkout_contract_witness:
  "o_total alices_order = 240 \<and> stock_of shop_awaiting 20 = Some (10, 0 + demand 20 [(20, 2), (21, 1)])
   \<and> orders shop_awaiting = orders shop @ [alices_order]"
proof -
  have "get_order_by_id (k_order shop_fresh) shop = None" by (simp add: sample_states get_order_by_id_def)
  moreover have "inventory_ok shop" using sample_books(1) by (simp add: books_ok_def)
  moreover have "cart_lines (items_of \<lparr>cart_id = 30, cart_user_id = 1\<rparr> shop) = [(20, 2), (21, 1)]"
    by (simp add: sample_states items_of_def cart_lines_def)
  ultimately show ?thesis
    using checkout_contract [OF sample_checkout, of "\<lparr>cart_id = 30, cart_user_id = 1\<rparr>" shop] sample_stock(1) sample_cart
    by (simp add: shop_fresh_def) (simp add: sample_rows)
qed

text \<open>C5 In a database within its columns, a cart whose products are on sale at prices
  that fit theirs and whose demand is covered product by product is sold exactly when the
  computed total fits the fourteen digits of its column: then the checkout returns the order
  with that total, and otherwise it is refused by the database.\<close>

theorem checkout_goes_through:
  assumes "get_order_by_id (k_order k) db = None" "get_or_create_cart (k_cart k) uid db = (cart, db1)"
    "items_of cart db1 \<noteq> []" "\<forall>i \<in> set (items_of cart db1). available_line db i \<and> 1 \<le> ci_quantity i"
    "\<forall>i \<in> set (items_of cart db1). \<exists>t r. stock_of db (ci_product_id i) = Some (t, r)
       \<and> r + demand (ci_product_id i) (cart_lines (items_of cart db1)) \<le> t"
    "inventory_ok db" "orders_fit db" "\<forall>i \<in> set (items_of cart db1).
      0 \<le> effective_unit_price (product_of db i) \<and> numeric_fits 12 (effective_unit_price (product_of db i))"
  shows "if numeric_fits 14 (lines_total db (items_of cart db1))
    then \<exists>db'. checkout_service k uid addr db = Inr (new_order k uid addr (lines_total db (items_of cart db1)), db')
    else checkout_service k uid addr db = Inl DBAPIError"
  using checkout_sells [OF assms(1,2,3) _ _ assms(6,7)] assms(4,5,8) by blast

theorem checkout_goes_through_witness:
  "\<exists>db'. checkout_service shop_fresh 1 None shop = Inr (alices_order, db')"
proof -
  have t: "lines_total shop (items_of \<lparr>cart_id = 30, cart_user_id = 1\<rparr> shop) = 240"
    by (simp add: lines_total_def product_of_def items_of_def get_product_by_id_def effective_unit_price_def sample_states sample_rows)
  have "if numeric_fits 14 (lines_total shop (items_of \<lparr>cart_id = 30, cart_user_id = 1\<rparr> shop))
    then \<exists>db'. checkout_service shop_fresh 1 None shop =
      Inr (new_order shop_fresh 1 None (lines_total shop (items_of \<lparr>cart_id = 30, cart_user_id = 1\<rparr> shop)), db')
    else checkout_service shop_fresh 1 None shop = Inl DBAPIError"
    by (rule checkout_goes_through)
       (simp_all add: sample_states sample_rows get_or_create_cart_def items_of_def get_order_by_id_def product_of_def
          available_line_def get_product_by_id_def stock_of_def cart_lines_def effective_unit_price_def numeric_fits_def
          inventory_ok_def inventory_row_ok_def unique_by_def orders_fit_def catalog_constraints_def int4_def)
  moreover have "new_order shop_fresh 1 None 240 = alices_order" "numeric_fits 14 240"
    by (simp_all add: new_order_def sample_rows numeric_fits_def)
  ultimately show ?thesis by (simp only: t if_True)
qed

text \<open>C6 From the cart to the paid order: after a checkout in balanced books and a payment
  request that returned, the gateway callback goes through; if the gateway accepts, the payment
  of the order's total is verified, the order is paid and the stock has lost exactly what was in
  the cart with nothing left reserved for it; if not, the payment and the order are failed and
  the stock is as before the checkout. The owner can instead cancel the order they were about to
  pay, and then too the stock is as before the checkout.\<close>

theorem cart_to_paid_order:
  fixes db db1 db2 :: "'a payments_db_scheme"
  assumes "books_ok db" "get_order_by_id (k_order k) db = None" "fresh_cart (k_cart k) db"
    and "get_or_create_cart (k_cart k) uid db = (cart, db0)"
    and "checkout_service k uid addr db = Inr (ord, db1)"
    and "init_payment_service cfg post_request fr u (o_id ord) db1 = Inr ((p, url), db2)"
    and "unique_by pay_id (payments db1)" "find_by pay_id (pf_payment fr) (payments db1) = None"
      "get_by_authority (the (pay_authority p)) db1 = None"
  shows "(\<exists>p' db3. handle_callback post now (the (pay_authority p)) status db2 = Inr (p', db3)
    \<and> pay_amount p' = o_total ord
    \<and> pay_status p' = (if accepted post p (the (pay_authority p)) status then PayVerified else PayFailed)
    \<and> at_order (o_id ord) (if accepted post p (the (pay_authority p)) status then OrdPaid else OrdPaymentFailed) db3
    \<and> (\<forall>q t r. stock_of db q = Some (t, r) \<longrightarrow> stock_of db3 q =
         Some (if accepted post p (the (pay_authority p)) status then t - demand q (cart_lines (items_of cart db0)) else t, r)))
    \<and> (\<exists>ord' db4. cancel now2 (o_id ord) u db2 = Inr (ord', db4) \<and> at_order (o_id ord) OrdCancelled db4
         \<and> (\<forall>q t r. stock_of db q = Some (t, r) \<longrightarrow> stock_of db4 q = Some (t, r)))"
  using sale_goes_through(1) [OF assms] sale_goes_through(2) [OF assms] by blast

theorem cart_to_paid_order_witness:
  "\<exists>p' db3. handle_callback (\<lambda>amount a. gateway_yes) 7 ''A1'' ''OK'' shop_paying = Inr (p', db3)
     \<and> pay_status p' = PayVerified \<and> at_order 40 OrdPaid db3 \<and> stock_of db3 20 = Some (8, 0)"
proof -
  let ?cfg = "\<lparr>zp_merchant_id = Some ''m'', zp_callback_url = Some ''u'', zp_sandbox = True\<rparr>"
  have "\<exists>url. init_payment_service ?cfg (\<lambda>amount oid. gateway_yes\<lparr>ga_authority := Some ''A1''\<rparr>)
      \<lparr>pf_payment = 50, pf_now = 6\<rparr> alice (o_id alices_order) shop_awaiting = Inr ((shop_payment, url), shop_paying)"
    by (simp add: init_payment_service_def request_payment_def is_configured_def set_payment_def update_by_def
        get_order_by_id_def sample_states sample_rows Let_def)
  then obtain url where i: "init_payment_service ?cfg (\<lambda>amount oid. gateway_yes\<lparr>ga_authority := Some ''A1''\<rparr>)
      \<lparr>pf_payment = 50, pf_now = 6\<rparr> alice (o_id alices_order) shop_awaiting = Inr ((shop_payment, url), shop_paying)" ..
  have a: "accepted (\<lambda>amount a. gateway_yes) shop_payment ''A1'' ''OK''" "the (pay_authority shop_payment) = ''A1''"
      "o_id alices_order = 40"
    by (simp_all add: accepted_def verify_payment_def gateway_yes_def shop_payment_def alices_order_def)
  have l: "cart_lines (items_of \<lparr>cart_id = 30, cart_user_id = 1\<rparr> shop) = [(20, 2), (21, 1)]"
    by (simp add: sample_states items_of_def cart_lines_def)
  have "get_order_by_id (k_order shop_fresh) shop = None" "fresh_cart (k_cart shop_fresh) shop"
      "get_or_create_cart (k_cart shop_fresh) 1 shop = (\<lparr>cart_id = 30, cart_user_id = 1\<rparr>, shop)"
      "unique_by pay_id (payments shop_awaiting)" "find_by pay_id (pf_payment \<lparr>pf_payment = 50, pf_now = 6\<rparr>) (payments shop_awaiting) = None"
      "get_by_authority (the (pay_authority shop_payment)) shop_awaiting = None"
    using sample_cart by (simp_all add: sample_states sample_rows get_order_by_id_def fresh_cart_def unique_by_def get_by_authority_def)
  from cart_to_paid_order [OF sample_books(1) this(1,2,3) sample_checkout i this(4,5,6), THEN conjunct1, of "\<lambda>amount a. gateway_yes" 7 "''OK''"]
  show ?thesis using sample_stock(1) by (auto simp: a l [unfolded One_nat_def])
qed

text \<open>C7 The gateway callback is idempotent: once a callback has returned, every later
  callback for the same authority, with whatever status, gateway answer or clock, returns the
  same payment and changes nothing.\<close>

theorem callback_settles_once:
  assumes "handle_callback post now a status db = Inr (p', db')" "unique_by pay_id (payments db)"
  shows "handle_callback post2 now2 a status2 db' = Inr (p', db')"
  by (rule callback_idempotent [OF assms])

theorem callback_settles_once_witness:
  "handle_callback (\<lambda>amount a. gateway_yes\<lparr>ga_code := None\<rparr>) 99 ''A1'' ''NOK'' shop_paid = Inr (paid_payment, shop_paid)"
  by (rule callback_settles_once [OF sample_callback]) (simp add: sample_states unique_by_def)

text \<open>C8 Over any interleaving of payment requests, gateway callbacks, order outcomes and
  other operations that keep the orders, no stored payment is left in the claimed state, each
  carries its order, owner and total amount, and a verified payment belongs to an order that was
  marked paid.\<close>

theorem payments_match_orders:
  assumes "payments_ok db" "payment_step\<^sup>*\<^sup>* db db'"
  shows "payments_ok db' \<and> (\<forall>p \<in> set (payments db'). pay_status p \<noteq> PayPending
    \<and> (\<exists>ord. get_order_by_id (pay_order_id p) db' = Some ord \<and> pay_amount p = o_total ord \<and> pay_user_id p = o_user_id ord)
    \<and> (pay_status p = PayVerified \<longrightarrow> (\<exists>h \<in> set (history_of (pay_order_id p) db'). oh_to_status h = OrdPaid)))"
  using payments_steps [OF assms(2,1)] by (auto simp: payments_ok_def payment_matches_def)

theorem payments_match_orders_witness:
  "payments_ok (snd (payment_callback (\<lambda>amount a. gateway_yes) 7 ''A1'' ''OK'' shop_paying))"
  using payments_match_orders [OF sample_payments r_into_rtranclp [where r = payment_step, OF pay_callback]] by simp



text \<open>C10 Cancelling a paid order releases its lines a second time: the units come off the
  reservations of the orders that still await payment, whose demand is unchanged, so the books
  no longer balance, and no money is given back.\<close>

theorem cancel_of_paid_order_takes_others_stock:
  assumes "books_ok db" "at_order oid OrdPaid db" "cancel now oid u db = Inr (ord, db')"
    "stock_of db pid = Some (t, r)" "0 < r" "0 < demand pid (order_lines oid db)"
  shows "stock_of db' pid = Some (t, max 0 (r - demand pid (order_lines oid db))) \<and> awaiting_demand db' pid = r
    \<and> \<not> reserved_matches db' \<and> wallet_transactions db' = wallet_transactions db"
  using cancel_paid_unreserves_others [OF assms] by blast

theorem cancel_of_paid_order_takes_others_stock_witness:
  "\<exists>ord db'. cancel 9 40 alice shop_both = Inr (ord, db') \<and> stock_of db' 20 = Some (8, 1) \<and> awaiting_demand db' 20 = 3"
proof -
  obtain ord db' where c: "cancel 9 40 alice shop_both = Inr (ord, db')"
    by (simp add: cancel_def authorize_access_def sample_states sample_rows shop_code stock_code)
  moreover have "at_order 40 OrdPaid shop_both" by (simp add: at_order_def sample_states sample_rows get_order_by_id_def)
  moreover have "demand 20 (order_lines 40 shop_both) = 2"
    by (simp add: sample_states sample_rows order_lines_def items_of_order_def map_filter_simps)
  ultimately show ?thesis
    using cancel_of_paid_order_takes_others_stock [OF sample_books(5) _ c sample_stock(5)] by auto
qed

text \<open>C11 Each operation of the stock keeper refines the abstract one on the map from
  products to (total, reserved): same refusal, and on success the same pair for every product.\<close>

theorem stock_keeper_refines:
  "map_sum id stock_of (reserve pid q rt rid a db) = abs_reserve pid q (stock_of db)
   \<and> map_sum id stock_of (release pid q rt rid a db) = abs_release pid q (stock_of db)
   \<and> map_sum id stock_of (commit_purchase pid q rt rid a db) = abs_purchase pid q (stock_of db)
   \<and> map_sum id stock_of (restock pid q a db) = abs_restock pid q (stock_of db)
   \<and> map_sum id stock_of (adjust pid q a db) = abs_adjust pid q (stock_of db)"
  by (intro conjI inventory_refines)

text \<open>C12 Over any sequence of stock operations the rows keep 0 <= reserved <= total, and
  the inventory history is complete: replaying the rows that were added, from the stock before,
  gives the stock after.\<close>

theorem stock_log_replays:
  assumes "inventory_ok s" "inventory_step\<^sup>*\<^sup>* s s'"
  shows "inventory_ok s' \<and> (\<exists>new. inventory_log s' = inventory_log s @ new
    \<and> (\<forall>pid. stock_of s' pid = map_option (replay pid new) (stock_of s pid)))"
  using inventory_steps_ok [OF assms(2,1)] inventory_steps_replay [OF assms(2)] by blast

theorem stock_log_replays_witness:
  "\<exists>s'. reserve 20 4 ''order'' 40 None shop = Inr s' \<and> inventory_ok s' \<and> stock_of s' 20 = Some (10, 4)"
proof -
  obtain s' where s: "reserve 20 4 ''order'' 40 None shop = Inr s'" "stock_of s' 20 = Some (10, 4)"
    by (simp add: sample_states stock_code stock_of_def)
  have "inventory_ok shop" using sample_books(1) by (simp add: books_ok_def)
  from stock_log_replays [OF this r_into_rtranclp [where r = inventory_step, OF step_reserve [OF _ s(1)]]] s show ?thesis by auto
qed

text \<open>C13 A checkout repeated with its idempotency key, on the state after the first and
  with any later clock or fresh keys, gives the stored response and changes nothing; with
  another body under the same key it is refused and changes nothing.\<close>

theorem checkout_key_replays:
  assumes "checkout u k key h addr db = (Inr r, db')" "keys_ok db"
  shows "checkout u k' key h addr' db' = (Inr r, db')
    \<and> (h' \<noteq> h \<longrightarrow> checkout u k' key h' addr' db' = (Inl IdempotencyKeyReusedError, db'))
    \<and> keys_ok db'"
  using checkout_guard.replay [OF assms [unfolded checkout_def] refl]
    checkout_guard.reuse [OF assms [unfolded checkout_def], of h']
    checkout_guard.keeps_ok [OF assms(2), of "''order.checkout''" "u_id u" key h "k_now k" u k addr] assms(1)
  by (simp add: checkout_def)

theorem checkout_key_replays_witness:
  "\<exists>r db'. checkout alice shop_fresh (Some ''k'') ''h'' None shop = (Inr r, db')
     \<and> checkout alice (shop_fresh\<lparr>k_order := 77\<rparr>) (Some ''k'') ''h'' None db' = (Inr r, db')"
proof -
  obtain r db' where c: "checkout alice shop_fresh (Some ''k'') ''h'' None shop = (Inr r, db')"
    by (simp add: checkout_def guarded_def idempotency_guard_def checkout_action_def validated_def truthy_def
        sample_states sample_rows shop_code stock_code inventory_row_ok_def)
  have "keys_ok shop" by (simp add: sample_states keys_ok_def)
  from checkout_key_replays [OF c this] c show ?thesis by blast
qed

text \<open>C14 Over any successful sequence of deposits, refunds, credits and debits of whole
  amounts, each balance moves by exactly the amounts applied to its user, equals the sum of the
  ledger, agrees with the running balance stored in every row, and is never negative.\<close>

theorem wallet_balance_is_ledger:
  assumes "wallets_ok db" "ledger_ok db" "foldE (wallet_run round_half_away) ops db = Inr db'"
  shows "wallets_ok db' \<and> ledger_ok db' \<and> 0 \<le> balance_of db' u
    \<and> balance_of db' u = balance_of db u + (\<Sum>op \<leftarrow> ops. op_delta op u)"
  using wallet.run_all_balance [unfolded wallet.run_all_def, OF assms(3), of u] assms(1,2) balance_nonneg [of db' u]
  by (auto simp: wallet_inv_def)

theorem wallet_balance_is_ledger_witness:
  "\<exists>db'. foldE (wallet_run round_half_away) [OpDeposit \<lparr>f_wallet = 60, f_transaction = 61, f_now = 1\<rparr> 1 500] shop = Inr db'
     \<and> balance_of db' 1 = 500"
proof -
  obtain db' where r: "foldE (wallet_run round_half_away) [OpDeposit \<lparr>f_wallet = 60, f_transaction = 61, f_now = 1\<rparr> 1 500] shop = Inr db'"
    by (simp add: wallet_run_def deposit_def apply_transaction_def get_or_create_wallet_def get_wallet_by_user_id_def
        Let_def sample_states CREDIT_TYPES_def numeric_fits_def round_half_away_def)
  have "wallets_ok shop" "ledger_ok shop" by (simp_all add: sample_states wallets_ok_def ledger_ok_def)
  from wallet_balance_is_ledger [OF this r, of 1] r show ?thesis
    by (simp add: sample_states balance_of_def get_wallet_by_user_id_def)
qed

text \<open>C15 The cart operations are the updates of the abstract map from users and products
  to quantities: adding adds, updating sets, removing and clearing reset, and no other user or
  product is touched. They keep one cart per user, one line per product, positive quantities and
  no line without its cart, and an accepted addition is on sale and within the available stock.\<close>

theorem cart_is_a_map:
  assumes "cart_ok db" "fresh_cart nid db" "1 \<le> q"
  shows "(cart_add_item nid u pid q db = Inr db1 \<longrightarrow> cart_ok db1
            \<and> in_cart db1 u' p = (if u' = u \<and> p = pid then in_cart db u pid + q else in_cart db u' p)
            \<and> (\<exists>product. get_product_by_id pid db = Some product \<and> p_is_active product
                 \<and> in_cart db u pid + q \<le> available_stock product db))
       \<and> (cart_update_item nid u pid q db = Inr db1 \<longrightarrow> cart_ok db1
            \<and> in_cart db1 u' p = (if u' = u \<and> p = pid then q else in_cart db u' p))
       \<and> cart_ok (cart_remove_item nid u pid db) \<and> cart_ok (cart_clear nid u db)
       \<and> in_cart (cart_remove_item nid u pid db) u' p = (if u' = u \<and> p = pid then 0 else in_cart db u' p)
       \<and> in_cart (cart_clear nid u db) u' p = (if u' = u then 0 else in_cart db u' p)"
proof -
  have "\<exists>product. get_product_by_id pid db = Some product \<and> p_is_active product
      \<and> in_cart db u pid + q \<le> available_stock product db" if "cart_add_item nid u pid q db = Inr db1"
    using assms(1,2) that by (rule cart_add_item_available) blast
  then show ?thesis
    using cart_add_item_effect [OF assms(1,2), of u pid q db1 u' p] cart_update_item_effect [OF assms(1,2), of u pid q db1 u' p]
      cart_remove_item_effect [OF assms(1,2), of u pid u' p] cart_clear_effect [OF assms(1,2), of u u' p]
      cart_add_item_ok [OF assms, of u pid db1] cart_update_item_ok [OF assms, of u pid db1]
      cart_remove_item_ok [OF assms(1,2), of u pid] cart_clear_ok [OF assms(1,2), of u] by simp
qed

theorem cart_is_a_map_witness:
  "cart_ok (cart_remove_item 31 1 20 shop) \<and> in_cart (cart_clear 31 1 shop) 1 20 = 0"
  using cart_is_a_map [of shop 31 1 1 20 shop 1 20] sample_books(1) by (simp add: books_ok_def fresh_cart_def sample_states)

text \<open>C16 Over every catalogue request, public read, stock movement and cache eviction,
  categories stay a forest with unique slugs, every product keeps a unique id, slug and SKU, an
  existing category, one stock row and consistent prices, and every cached value agrees with the
  database up to the stock figure.\<close>

theorem catalog_stays_consistent:
  assumes "numeric_column num" "catalog_inv coll db" "(catalog_step coll num)\<^sup>*\<^sup>* db db'"
  shows "catalog_ok db' \<and> cache_coherent coll db'"
  using inv_catalog_steps [OF assms(1,3,2)] by (simp add: catalog_inv_def)

theorem catalog_stays_consistent_witness:
  "catalog_ok shop_moved \<and> cache_coherent (\<lambda>s. 0) shop_moved"
proof -
  have "catalog_inv (\<lambda>s. 0) shop" using sample_catalog by (simp add: catalog_inv_def cache_coherent_def sample_states)
  from catalog_stays_consistent [OF pg.numeric_column_axioms this sample_lamp_steps] show ?thesis .
qed

text \<open>C17 Started with an empty cache on a consistent catalogue, after any catalogue
  requests, public reads, stock movements and evictions the cached reads answer as reads with an
  empty cache do, errors included: a product by its slug, the featured and the popular products,
  except for the stock figure, and the category tree exactly.\<close>

theorem product_cache_transparent:
  assumes "numeric_column num" "catalog_ok db" "redis db = Map.empty" "(catalog_step coll num)\<^sup>*\<^sup>* db db'"
  shows "map_sum id hide_stock (fst (get_product slug db')) =
      map_sum id hide_stock (fst (get_product slug (db'\<lparr>redis := Map.empty\<rparr>)))
    \<and> map_sum id (map hide_stock) (fst (featured_products db')) =
      map_sum id (map hide_stock) (fst (featured_products (db'\<lparr>redis := Map.empty\<rparr>)))
    \<and> map_sum id (map hide_stock) (fst (popular_products db')) =
      map_sum id (map hide_stock) (fst (popular_products (db'\<lparr>redis := Map.empty\<rparr>)))
    \<and> fst (get_category_tree coll db') = fst (get_category_tree coll (db'\<lparr>redis := Map.empty\<rparr>))"
proof -
  have "catalog_inv coll db" using assms(2,3) by (simp add: catalog_inv_def cache_coherent_def)
  with inv_catalog_steps [OF assms(1,4)] have "cache_coherent coll db'" by (simp add: catalog_inv_def)
  from transparent_reads [OF this] show ?thesis by blast
qed

theorem product_cache_transparent_witness:
  "\<exists>v w. fst (get_product ''lamp'' shop_moved) = Inr v \<and> fst (get_product ''lamp'' (shop_moved\<lparr>redis := Map.empty\<rparr>)) = Inr w
     \<and> hide_stock v = hide_stock w \<and> (pp_available_stock v, pp_available_stock w) = (10, 9)"
proof -
  have "redis shop = Map.empty" by (simp add: sample_states)
  from product_cache_transparent [OF pg.numeric_column_axioms sample_catalog this sample_lamp_steps, of "''lamp''"]
  have "hide_stock lamp_view = hide_stock (lamp_view\<lparr>pp_available_stock := 9\<rparr>)"
    unfolding sample_lamp_stale by simp
  then show ?thesis unfolding sample_lamp_stale by (simp add: lamp_view_def)
qed

text \<open>C18 The breadth-first walk that collects the descendants of a category returns
  exactly the categories below it, whatever the stored parent links are, cycles included; and on
  a forest the nested tree the API returns is built without running out and lists every category
  exactly once.\<close>

theorem category_walks_are_complete:
  "set (get_descendant_ids coll cid db) = {d. (cid, d) \<in> (child_rel (categories db))\<^sup>+}
   \<and> (forest_ok db \<longrightarrow> (\<exists>ts. get_tree coll db = Some ts \<and> mset (concat (map flatten ts)) = mset (categories db)))"
  using get_descendants [of coll cid db] get_tree_lists_all [of db coll] by blast

theorem category_walks_are_complete_witness:
  "\<exists>ts. get_tree (\<lambda>s. 0) shop = Some ts \<and> mset (concat (map flatten ts)) = mset (categories shop)"
proof -
  have "forest_ok shop" by (simp add: forest_def sample_states sample_rows unique_by_def child_rel_def acyclic_def)
  with category_walks_are_complete [of "\<lambda>s. 0" 10 shop] show ?thesis by blast
qed

text \<open>C19 An administration route without a valid access token, or with a permission the
  user's role lacks, raises and changes nothing; the administrators pass everywhere, support
  exactly on the ticket routes and on reading orders and users, customers nowhere, and whoever
  passes gets what a super administrator would get.\<close>

theorem admin_routes_by_role:
  "serve_admin env d now token header call db =
     (case get_current_user env now token header db of
        Inl e \<Rightarrow> (Inl e, db)
      | Inr u \<Rightarrow>
          if u_role u \<in> {Admin, SuperAdmin} \<or> u_role u = Support \<and> support_call call
          then admin_routes d (u\<lparr>u_role := SuperAdmin\<rparr>) call db
          else (Inl PermissionDeniedError, db))"
proof (cases "get_current_user env now token header db")
  case (Inr u)
  then show ?thesis
    using admin_routes_refuse [of u call d db] admin_routes_role [of u call SuperAdmin d db]
    by (simp add: serve_admin_def role_may)
qed (simp add: serve_admin_def)

text \<open>C20 Whatever the route: a confirmed request has the effect of its route and is
  answered with the route's status and body, or with the status of its exception and an error
  body of that exception's code; a mutating request that the CSRF check does not confirm changes
  nothing and is answered 403 with the code of the check, or 500 with the code of an internal
  error when its texts cannot be compared. Every error body carries the id of its request, and
  so does a header of every answer but that of an exception without a handler.\<close>

theorem layers_guard_every_route:
  fixes cors :: "('s, 'b) layer"
  assumes "adds_headers cors rq" "serve cors cfg rq new_id route s = (reply, s')"
    "rid = request_context_id (hr_request_id rq) new_id"
  shows "(if confirmed cfg rq
      then s' = snd (route s)
        \<and> (case fst (route s) of
             Inr (st, b) \<Rightarrow> re_status reply = st \<and> re_body reply = Content b
           | Inl e \<Rightarrow> re_status reply = status_code e
               \<and> re_body reply = Error_Body \<lparr>env_code = error_code e, env_request_id = Some rid\<rparr>)
        \<and> ((''X-Request-Id'', rid) \<in> set (re_headers reply) \<or> (\<exists>e. fst (route s) = Inl e \<and> \<not> has_handler e))
      else s' = s
        \<and> (if csrf_tokens_match cfg (hr_csrf_cookie rq) (hr_csrf_header rq) = Inr False
           then re_status reply = 403 \<and> (''X-Request-Id'', rid) \<in> set (re_headers reply)
             \<and> re_body reply = Error_Body \<lparr>env_code = ''CSRF_VALIDATION_FAILED'', env_request_id = Some rid\<rparr>
           else csrf_tokens_match cfg (hr_csrf_cookie rq) (hr_csrf_header rq) = Inl TypeError \<and> re_status reply = 500
             \<and> re_body reply = Error_Body \<lparr>env_code = ''INTERNAL_ERROR'', env_request_id = Some rid\<rparr>))"
proof (cases "confirmed cfg rq")
  case True
  from serve_confirmed [OF True assms(1), where new_id = new_id and route = route and s = s]
  show ?thesis by (auto simp: True assms(2,3) envelope_of_request split: sum.splits)
next
  case False
  then show ?thesis
    using serve_refused [OF False, where cors = cors and new_id = new_id and route = route and s = s]
      serve_unconfirmed(1) [OF False, where cors = cors and new_id = new_id and route = route and s = s]
      unconfirmed_match [OF False]
    by (auto simp: assms(2,3) csrf_reply_def error_reply_body error_reply_status envelope_of_request)
qed

theorem layers_guard_every_route_witness:
  "\<exists>reply. serve (\<lambda>rq rid inner. inner) sample_settings
      \<lparr>hr_method = ''DELETE'', hr_request_id = None, hr_csrf_cookie = Some ''n.m'', hr_csrf_header = Some ''n.x''\<rparr>
      ''id'' (\<lambda>db. (Inr (204, ()), db\<lparr>products := []\<rparr>)) shop = (reply, shop) \<and> re_status reply = 403
     \<and> re_body reply = Error_Body \<lparr>env_code = ''CSRF_VALIDATION_FAILED'', env_request_id = Some ''id''\<rparr>"
proof -
  let ?rq = "\<lparr>hr_method = ''DELETE'', hr_request_id = None, hr_csrf_cookie = Some ''n.m'', hr_csrf_header = Some ''n.x''\<rparr>"
  obtain reply db' where s: "serve (\<lambda>rq rid inner. inner) sample_settings ?rq
      ''id'' (\<lambda>db. (Inr (204, ()), db\<lparr>products := []\<rparr>)) shop = (reply, db')" by fastforce
  have "\<not> confirmed sample_settings ?rq" by (simp add: confirmed_def MUTATING_METHODS_def truthy_def)
  moreover have "csrf_tokens_match sample_settings (Some ''n.m'') (Some ''n.x'') = Inr False"
    by (simp add: csrf_tokens_match_def truthy_def compare_digest_def is_ascii_def)
  ultimately show ?thesis
    using layers_guard_every_route [OF adds_headers_plain s refl] s
    by (simp add: request_context_id_def)
qed

text \<open>C21 Over any sequence of registrations, logins (password or Google), refreshes,
  logouts, password changes and resets, each session family belongs to one user and has at most
  one refresh token that is not revoked, and a token that was replaced is revoked.\<close>

theorem one_live_token_per_session:
  assumes "families_ok (refresh_tokens db)" "(auth_step env)\<^sup>*\<^sup>* db db'"
    and "t \<in> set (refresh_tokens db')" "u \<in> set (refresh_tokens db')" "rt_family_id t = rt_family_id u"
  shows "rt_user_id t = rt_user_id u \<and> (rt_revoked_at t = None \<and> rt_revoked_at u = None \<longrightarrow> t = u)
    \<and> (rt_replaced_by_id t \<noteq> None \<longrightarrow> rt_revoked_at t \<noteq> None)"
proof -
  have "families_ok (refresh_tokens db')" using sessions_run [OF assms(2,1)] ..
  with assms(3-5) show ?thesis unfolding families_ok_def by blast
qed

theorem one_live_token_per_session_witness:
  "\<exists>t. t \<in> set (refresh_tokens (snd (login plain_env home_fresh ''b@x'' ''pw'' home)))
     \<and> rt_replaced_by_id t = Some 71 \<and> rt_revoked_at t \<noteq> None"
proof -
  let ?t = "bobs_session\<lparr>rt_replaced_by_id := Some 71\<rparr>"
  obtain v cks db' where l: "login plain_env home_fresh ''b@x'' ''pw'' home = (Inr (v, cks), db')"
    using sample_login by auto
  from login_opens [OF l] have "set (refresh_tokens home) \<subseteq> set (refresh_tokens db')" by auto
  moreover have "?t \<in> set (refresh_tokens home)" by (simp add: home_def)
  ultimately have t: "?t \<in> set (refresh_tokens (snd (login plain_env home_fresh ''b@x'' ''pw'' home)))" using l by auto
  from one_live_token_per_session [OF sample_families r_into_rtranclp [where r = "auth_step plain_env",
      OF as_login [OF sample_family_fresh]] t t refl] t show ?thesis by (auto intro!: exI [of _ ?t])
qed

text \<open>C22 Presenting a refresh token that was already used or revoked is refused and
  revokes every token of its family, and whatever requests follow, no token of that family is
  ever valid again: each refresh with one of them is refused.\<close>

theorem reused_token_ends_the_session:
  assumes "families_ok (refresh_tokens db)" "get_refresh_by_hash (e_hash_token env raw) db = Some stored"
    and "rt_revoked_at stored \<noteq> None" "raw \<noteq> []"
    and "(auth_step env)\<^sup>*\<^sup>* (snd (refresh env k (Some raw) db)) db'"
  shows "fst (refresh env k (Some raw) db) = Inl UnauthorizedError
    \<and> (\<forall>t \<in> set (refresh_tokens db'). rt_family_id t = rt_family_id stored \<longrightarrow> rt_revoked_at t \<noteq> None)
    \<and> (\<forall>k' raw' t. raw' \<noteq> [] \<and> get_refresh_by_hash (e_hash_token env raw') db' = Some t
         \<and> rt_family_id t = rt_family_id stored \<longrightarrow> fst (refresh env k' (Some raw') db') = Inl UnauthorizedError)"
proof -
  note r = reuse_refused [OF assms(2-4), of k]
  have mem: "stored \<in> set (refresh_tokens db)" using assms(2) by (auto simp: get_refresh_by_hash_def dest: find_by_mem)
  have "dead_family (rt_family_id stored) (refresh_tokens db')"
    using dead_run [OF assms(5)] revoke_family_dead [OF mem] revoke_family_families [OF assms(1)] by (simp add: r)
  then have dead: "\<forall>t \<in> set (refresh_tokens db'). rt_family_id t = rt_family_id stored \<longrightarrow> rt_revoked_at t \<noteq> None"
    by (simp add: dead_family_def)
  have "fst (refresh env k' (Some raw') db') = Inl UnauthorizedError"
    if "raw' \<noteq> []" "get_refresh_by_hash (e_hash_token env raw') db' = Some t" "rt_family_id t = rt_family_id stored" for k' raw' t
  proof -
    have "t \<in> set (refresh_tokens db')" using that(2) by (auto simp: get_refresh_by_hash_def dest: find_by_mem)
    with dead that(3) have "rt_revoked_at t \<noteq> None" by blast
    from reuse_refused [OF that(2) this that(1)] show ?thesis by simp
  qed
  with r dead show ?thesis by auto
qed

theorem reused_token_ends_the_session_witness:
  "fst (refresh plain_env home_fresh (Some ''r0'') home) = Inl UnauthorizedError"
  using reused_token_ends_the_session [OF sample_families _ _ _ rtranclp.rtrancl_refl, of plain_env "''r0''"
      "bobs_session\<lparr>rt_replaced_by_id := Some 71\<rparr>" home_fresh]
  by (simp add: get_refresh_by_hash_def home_rows)

text \<open>C23 A confirmed password reset had an unused, unexpired token; it stores the new
  hash for the user its record names and changes no other user, and revokes all of that user's
  sessions and nobody else's; the same token is refused after any later requests to the
  authentication and user routes.\<close>

theorem password_reset_effect:
  assumes "confirm_password_reset env k t new db = (Inr (), db')"
  shows "\<exists>r. find_by su_token_hash (e_hash_token env t) (password_resets db) = Some r
    \<and> su_used_at r = None \<and> a_now k \<le> su_expires_at r \<and> su_user_id r \<in> u_id ` set (users db)
    \<and> users db' = update_by u_id (su_user_id r)
        (\<lambda>u. u\<lparr>u_hashed_password := Some (e_hash_password env (a_salt k) new)\<rparr>) (users db)
    \<and> (\<forall>s \<in> set (refresh_tokens db'). rt_user_id s = su_user_id r \<longrightarrow> rt_revoked_at s \<noteq> None)
    \<and> filter (\<lambda>s. rt_user_id s \<noteq> su_user_id r) (refresh_tokens db') = filter (\<lambda>s. rt_user_id s \<noteq> su_user_id r) (refresh_tokens db)
    \<and> (\<forall>db'' k' new'. (auth_step env)\<^sup>*\<^sup>* db' db'' \<and> new_password_valid new' \<longrightarrow>
         confirm_password_reset env k' t new' db'' = (Inl UnauthorizedError, db''))"
  using assms
proof (rule reset_effect)
  fix r u
  assume r: "find_by su_token_hash (e_hash_token env t) (password_resets db) = Some r" "su_used_at r = None"
      "a_now k \<le> su_expires_at r" and u: "get_user_by_id (su_user_id r) db = Some u"
    and db': "users db' = update_by u_id (su_user_id r) (\<lambda>u. u\<lparr>u_hashed_password := Some (e_hash_password env (a_salt k) new)\<rparr>) (users db)"
      "refresh_tokens db' = refresh_tokens (revoke_all_for_user (su_user_id r) (a_now k) db)"
      "spent (e_hash_token env t) (password_resets db')"
  have "confirm_password_reset env k' t new' db'' = (Inl UnauthorizedError, db'')"
    if "(auth_step env)\<^sup>*\<^sup>* db' db''" "new_password_valid new'" for db'' k' new'
    using spent_unusable [OF spent_run [OF that(1) db'(3)]] that(2)
    by (simp add: confirm_password_reset_def confirm_password_reset_service_def validated_def)
  moreover have "su_user_id r \<in> u_id ` set (users db)" using find_by_SomeD [OF u [unfolded get_user_by_id_def]] by (metis imageI)
  moreover have "\<forall>s \<in> set (refresh_tokens db'). rt_user_id s = su_user_id r \<longrightarrow> rt_revoked_at s \<noteq> None"
    using revoke_all_sessions(1) [of _ "su_user_id r" "a_now k" db] by (simp add: db'(2))
  moreover have "filter (\<lambda>s. rt_user_id s \<noteq> su_user_id r) (refresh_tokens db') = filter (\<lambda>s. rt_user_id s \<noteq> su_user_id r) (refresh_tokens db)"
    unfolding db'(2) by (rule revoke_all_sessions(2))
  ultimately show ?thesis using r db'(1) by (intro exI [of _ r] conjI) simp_all
qed

theorem password_reset_effect_witness:
  "\<exists>db'. confirm_password_reset plain_env home_fresh ''reset'' ''new password'' home = (Inr (), db')
     \<and> u_hashed_password (last (users db')) = Some ''new password''
     \<and> confirm_password_reset plain_env home_fresh ''reset'' ''new password'' db' = (Inl UnauthorizedError, db')"
proof -
  obtain db' where db': "confirm_password_reset plain_env home_fresh ''reset'' ''new password'' home = (Inr (), db')"
    using sample_reset by blast
  have "new_password_valid ''new password''" by (simp add: new_password_valid_def length_between_def)
  with password_reset_effect [OF db'] db' show ?thesis by (auto simp: home_rows)
qed

text \<open>C24 What a registration stores is what the user comes back with, with the password
  hashes and the tokens of the program: a login with the e-mail address and password of the
  registration succeeds and is that user, and the session of the registration can be refreshed
  until it expires, as long as the new token is new; every other password is refused and nothing
  changes; after a logout the session is over.\<close>

theorem registration_opens_an_account:
  assumes "argon2_law hasher" "register (program_env hasher base) k data db = (Inr (v, cks), db1)"
    and "a_raw k = generate_opaque_token random" "length random = 48"
  shows "(token_fits (program_env hasher base) k2 db1 \<longrightarrow>
         (\<exists>cks2 db2. login (program_env hasher base) k2 (rr_email data) (rr_password data) db1 = (Inr (v, cks2), db2))
         \<and> (a_now k2 \<le> a_now k + days (st_refresh_token_expire_days (e_settings base)) \<longrightarrow>
              (\<exists>cks2 db2. refresh (program_env hasher base) k2 (Some (a_raw k)) db1 = (Inr (v, cks2), db2))))
    \<and> (pw \<noteq> rr_password data \<longrightarrow>
         login (program_env hasher base) k2 (rr_email data) pw db1 = (Inl UnauthorizedError, db1))
    \<and> fst (refresh (program_env hasher base) k2 (Some (a_raw k)) (snd (logout (program_env hasher base) now (Some (a_raw k)) db1)))
        = Inl UnauthorizedError"
  using assms(2)
proof (rule register_effect)
  let ?env = "program_env hasher base"
  fix email u row
  assume r: "e_email ?env (rr_email data) = Some email" "get_user_by_email ?env email db1 = Some u"
    "u_hashed_password u = Some (e_hash_password ?env (a_salt k) (rr_password data))" "u_is_active u"
    "v = public_user u" "get_user_by_id (u_id u) db1 = Some u"
    "get_refresh_by_hash (e_hash_token ?env (a_raw k)) db1 = Some row" "rt_user_id row = u_id u"
    "rt_revoked_at row = None" "rt_expires_at row = a_now k + days (st_refresh_token_expire_days (e_settings ?env))"
    "accounts_fit db1"
  have raw: "a_raw k \<noteq> []" using opaque_token_shape(3) [OF assms(4)] assms(3) by simp
  have pw: "e_verify ?env q (e_hash_password ?env (a_salt k) (rr_password data)) \<longleftrightarrow> rr_password data = q" for q
    using verify_hashed [OF assms(1)] by simp
  show ?thesis
    using login_succeeds [OF r(1-3) _ r(4,11)] login_refused [OF r(1-3)] pw refresh_succeeds [OF r(7,9) _ _ r(4,11) _ raw]
      refresh_after_logout [OF r(7) raw] r(5,6,8,10) by (simp del: program_env_simps(1-3))
qed

theorem registration_opens_an_account_witness:
  "\<exists>v cks (db1 :: accounts_db). register (program_env plain_hasher plain_env) carols_fresh carols_form home = (Inr (v, cks), db1)
     \<and> login (program_env plain_hasher plain_env) home_fresh ''c@x'' ''secret12x'' db1 = (Inl UnauthorizedError, db1)"
proof -
  obtain v cks db1 where r: "register (program_env plain_hasher plain_env) carols_fresh carols_form home = (Inr (v, cks), db1)"
    using sample_registration by blast
  have "a_raw carols_fresh = generate_opaque_token (replicate 48 (CHR ''x''))" "rr_email carols_form = ''c@x''"
      "rr_password carols_form = ''secret12''"
    by (simp_all add: carols_fresh_def carols_form_def)
  with registration_opens_an_account [OF plain_hasher_law r this(1) length_replicate, of home_fresh "''secret12x''"] r
  show ?thesis by auto
qed

text \<open>C25 A login that succeeds is by the active user with that e-mail address whose
  stored hash accepts the password; it adds exactly one refresh token, live, for that user, and
  the cookies carry that token and an access token for the user.\<close>

theorem login_opens_one_session:
  assumes "login env k email pw db = (Inr (v, cks), db')"
  shows "\<exists>a u h row. e_email env email = Some a \<and> u \<in> set (users db) \<and> u_email u = e_lower env a
    \<and> u_hashed_password u = Some h \<and> e_verify env pw h \<and> u_is_active u \<and> v = public_user u
    \<and> refresh_tokens db' = refresh_tokens db @ [row] \<and> rt_user_id row = u_id u \<and> rt_revoked_at row = None
    \<and> rt_token_hash row = e_hash_token env (a_raw k)
    \<and> map ck_value (take 2 cks) = [e_encode env (issued_claims env k u), a_raw k]"
  using assms
proof (rule login_effect)
  fix a u h row assume l: "e_email env email = Some a" "get_user_by_email env a db = Some u"
    "u_hashed_password u = Some h" "e_verify env pw h" "u_is_active u" "v = public_user u"
    "refresh_tokens db' = refresh_tokens db @ [row]"
    "rt_user_id row = u_id u" "rt_revoked_at row = None" "rt_token_hash row = e_hash_token env (a_raw k)"
    "cks = auth_cookies env k
       (create_access_token (e_encode env) (e_settings env) (a_now k) (a_jti k) (u_id u) (u_role u)) (a_raw k)"
  have "u \<in> set (users db)" "u_email u = e_lower env a"
    using l(2) find_by_SomeD [of u_email] by (auto simp: get_user_by_email_def)
  moreover have "map ck_value (take 2 cks) = [e_encode env (issued_claims env k u), a_raw k]"
    by (simp add: l(11) auth_cookies_def set_auth_cookies_def issued_token)
  ultimately show ?thesis using l(1,3-10)
    by (intro exI [of _ a] exI [of _ u] exI [of _ h] exI [of _ row] conjI) simp_all
qed

theorem login_opens_one_session_witness:
  "\<exists>row (db' :: accounts_db). refresh_tokens db' = refresh_tokens home @ [row] \<and> rt_revoked_at row = None"
proof -
  obtain v cks db' where "login plain_env home_fresh ''b@x'' ''pw'' home = (Inr (v, cks), db')"
    using sample_login by auto
  from login_opens_one_session [OF this] show ?thesis by blast
qed

text \<open>C26 Signing in with Google opens a session for an account that existed before only
  if that account was already linked to this Google identity; an account that merely has the
  same e-mail address is never taken over.\<close>

theorem google_needs_a_link:
  assumes "google_callback env cfg post get k code state db = (Inr cks, db')"
    and "oauth_sessions db state = Some s" "os_link_user s = None"
  shows "\<exists>identity row. google_identity_of cfg post get s code = Inr identity
    \<and> refresh_tokens db' = refresh_tokens db @ [row]
    \<and> (rt_user_id row \<in> u_id ` set (users db) \<longrightarrow>
         (\<exists>acct \<in> set (oauth_accounts db). oa_key acct = (Google, gi_subject identity) \<and> oa_user_id acct = rt_user_id row))
    \<and> (e_lower env (gi_email identity) \<in> u_email ` set (users db) \<longrightarrow>
         (\<exists>acct \<in> set (oauth_accounts db). oa_key acct = (Google, gi_subject identity) \<and> oa_user_id acct = rt_user_id row))"
  using assms
proof (rule google_effect)
  fix identity row
  assume g: "google_identity_of cfg post get s code = Inr identity" "refresh_tokens db' = refresh_tokens db @ [row]"
    "(\<exists>acct \<in> set (oauth_accounts db). oa_key acct = (Google, gi_subject identity) \<and> oa_user_id acct = rt_user_id row
        \<and> map u_id (users db') = map u_id (users db) \<and> oauth_accounts db' = oauth_accounts db)
     \<or> e_lower env (gi_email identity) \<notin> u_email ` set (users db) \<and> rt_user_id row = a_user k
        \<and> a_user k \<notin> u_id ` set (users db)"
  from g(3) have "(\<exists>acct \<in> set (oauth_accounts db). oa_key acct = (Google, gi_subject identity) \<and> oa_user_id acct = rt_user_id row)
     \<or> e_lower env (gi_email identity) \<notin> u_email ` set (users db) \<and> rt_user_id row \<notin> u_id ` set (users db)"
    by (elim disjE bexE conjE) (blast, simp)
  with g(1,2) show ?thesis by blast
qed

theorem google_needs_a_link_witness:
  "\<exists>row (db' :: accounts_db). refresh_tokens db' = refresh_tokens home @ [row] \<and> rt_user_id row \<notin> {1, 2}"
proof -
  obtain cks db' where g: "google_callback plain_env google_cfg google_token google_info home_fresh ''code'' ''st'' home = (Inr cks, db')"
    using sample_google by blast
  have o: "oauth_sessions home ''st'' = Some \<lparr>os_nonce = ''n'', os_verifier = ''v'', os_link_user = None\<rparr>"
    by (simp add: home_rows)
  have n: "oauth_accounts home = []" "u_id ` set (users home) = {1, 2}" by (simp_all add: home_rows)
  from google_needs_a_link [OF g o] show ?thesis unfolding n by auto
qed

text \<open>C27 An access token issued for a user and accepted by the JWT library until it
  expires is read back by the dependency as exactly that user's current row while the account is
  active, and is refused from its expiry on or once the account is deactivated or deleted.\<close>

theorem access_token_names_its_user:
  assumes "\<forall>now. e_decode env now (e_encode env (issued_claims env k u)) =
      (if now < seconds (jc_exp (issued_claims env k u)) then Some (issued_claims env k u) else None)"
    and "e_encode env (issued_claims env k u) \<noteq> []"
  shows "me env now (Some (create_access_token (e_encode env) (e_settings env) (a_now k) (a_jti k) (u_id u) (u_role u))) header db =
    (case (if now < seconds (jc_exp (issued_claims env k u)) then find_by u_id (u_id u) (users db) else None) of
       None \<Rightarrow> Inl UnauthorizedError
     | Some v \<Rightarrow> if u_is_active v then Inr (public_user v) else Inl UnauthorizedError)"
  using current_user_of_token [where now = now and c = "issued_claims env k u" and uid = "u_id u" and header = header
      and db = db, OF assms(2)]
    no_user_of_refused_token [where now = now and header = header and db = db, OF assms(2)] assms(1)
  by (simp add: me_def issued_token issued_claims_def get_user_by_id_def split: option.splits)

theorem access_token_names_its_user_witness:
  "me plain_env 6 (Some ''tok'') None home = Inr (public_user bob)"
proof -
  have c: "issued_claims plain_env home_fresh bob =
      \<lparr>jc_sub = Some 2, jc_role = Customer, jc_jti = 90, jc_iat = 0, jc_exp = 900, jc_type = ''access''\<rparr>"
    by (simp add: issued_claims_def seconds_def home_rows)
  have e: "e_encode plain_env = (\<lambda>c. ''tok'')" by (simp add: plain_env_def)
  have "e_decode plain_env now ''tok'' = (if now < seconds 900 then Some (issued_claims plain_env home_fresh bob) else None)" for now
    unfolding c by (simp add: plain_env_def)
  moreover have "find_by u_id (u_id bob) (users home) = Some bob" "u_is_active bob" by (simp_all add: home_rows)
  ultimately show ?thesis
    using access_token_names_its_user [of plain_env home_fresh bob 6 None home]
    by (simp add: c e create_access_token_def seconds_def)
qed

text \<open>C28 An administrator's update of a user needs user.manage and cannot change the
  administrator's own role; it stores the role and activation that were asked for with the user,
  changes no other user, returns the stored values, and adds one audit row for a changed role
  and one for a changed activation, in that order, naming the administrator and the user.\<close>

theorem user_changes_are_audited:
  assumes "update_user admin db_now uid data db = (Inr v, db')"
  shows "\<exists>u. find_by u_id uid (users db) = Some u \<and> role_has_permission (u_role admin) ''user.manage''
    \<and> (aup_role v \<noteq> u_role u \<longrightarrow> uid \<noteq> u_id admin)
    \<and> aup_role v = (case au_role data of None \<Rightarrow> u_role u | Some r \<Rightarrow> r)
    \<and> aup_is_active v = (case au_is_active data of None \<Rightarrow> u_is_active u | Some a \<Rightarrow> a)
    \<and> find_by u_id uid (users db') = Some (u\<lparr>u_role := aup_role v, u_is_active := aup_is_active v\<rparr>)
    \<and> filter (\<lambda>r. u_id r \<noteq> uid) (users db') = filter (\<lambda>r. u_id r \<noteq> uid) (users db)
    \<and> map al_action (audit_logs db') = map al_action (audit_logs db)
        @ (if aup_role v = u_role u then [] else [''user.role_changed''])
        @ (if aup_is_active v = u_is_active u then []
           else [if aup_is_active v then ''user.activated'' else ''user.deactivated''])
    \<and> (\<forall>row \<in> set (drop (length (audit_logs db)) (audit_logs db')).
         al_actor_id row = Some (u_id admin) \<and> al_resource_id row = Some uid)"
  using assms
proof (rule update_user_effect)
  fix u assume e: "get_user_by_id uid db = Some u" "role_has_permission (u_role admin) ''user.manage''"
    "\<And>r. au_role data = Some r \<Longrightarrow> r \<noteq> u_role u \<Longrightarrow> uid \<noteq> u_id admin"
    "v = public_admin_user (u\<lparr>u_role := (case au_role data of None \<Rightarrow> u_role u | Some r \<Rightarrow> r),
           u_is_active := (case au_is_active data of None \<Rightarrow> u_is_active u | Some a \<Rightarrow> a)\<rparr>)"
    "map al_action (audit_logs db') = map al_action (audit_logs db)
       @ (case au_role data of None \<Rightarrow> [] | Some r \<Rightarrow> if r = u_role u then [] else [''user.role_changed''])
       @ (case au_is_active data of None \<Rightarrow> [] | Some a \<Rightarrow> if a = u_is_active u then []
            else [if a then ''user.activated'' else ''user.deactivated''])"
    "\<forall>row \<in> set (drop (length (audit_logs db)) (audit_logs db')). al_actor_id row = Some (u_id admin) \<and> al_resource_id row = Some uid"
  have rows: "find_by u_id uid (users db') = Some (u\<lparr>u_role := aup_role v, u_is_active := aup_is_active v\<rparr>)"
    "filter (\<lambda>r. u_id r \<noteq> uid) (users db') = filter (\<lambda>r. u_id r \<noteq> uid) (users db)"
    by (rule update_user_rows [OF assms e(1)])+
  have "find_by u_id uid (users db) = Some u \<and> role_has_permission (u_role admin) ''user.manage''
    \<and> (aup_role v \<noteq> u_role u \<longrightarrow> uid \<noteq> u_id admin)
    \<and> aup_role v = (case au_role data of None \<Rightarrow> u_role u | Some r \<Rightarrow> r)
    \<and> aup_is_active v = (case au_is_active data of None \<Rightarrow> u_is_active u | Some a \<Rightarrow> a)
    \<and> map al_action (audit_logs db') = map al_action (audit_logs db)
        @ (if aup_role v = u_role u then [] else [''user.role_changed''])
        @ (if aup_is_active v = u_is_active u then []
           else [if aup_is_active v then ''user.activated'' else ''user.deactivated''])
    \<and> (\<forall>row \<in> set (drop (length (audit_logs db)) (audit_logs db')).
         al_actor_id row = Some (u_id admin) \<and> al_resource_id row = Some uid)"
    using e by (auto simp: get_user_by_id_def public_admin_user_def split: option.splits)
  with rows show ?thesis by blast
qed

theorem user_changes_are_audited_witness:
  "\<exists>v db'. update_user bob_admin 5 1 \<lparr>au_role = Some SuperAdmin, au_is_active = None\<rparr> home = (Inr v, db')
     \<and> map al_action (audit_logs db') = [''user.role_changed'']
     \<and> map_option u_role (find_by u_id 1 (users db')) = Some SuperAdmin"
proof -
  obtain v db' where r: "update_user bob_admin 5 1 \<lparr>au_role = Some SuperAdmin, au_is_active = None\<rparr> home = (Inr v, db')"
    using sample_promotion by blast
  from user_changes_are_audited [OF r] r show ?thesis by (auto simp: home_rows)
qed



text \<open>C30 The loop that looks for a user name for a new Google account ends after at most
  as many suffixes as there are users plus one: the account that is created gets the first of
  the names base, base1, base2, ... that nobody has.\<close>

theorem google_name_is_found:
  assumes "login_or_register_with_google env k identity db = Inr (u, db')"
    "get_user_by_oauth Google (gi_subject identity) db = None"
  shows "users db' = users db @ [u] \<and> (\<exists>j \<le> Suc (length (users db)).
     u_username u = username_candidate (base_username (gi_email identity)) j
     \<and> username_candidate (base_username (gi_email identity)) j \<notin> u_username ` set (users db)
     \<and> (\<forall>i < j. username_candidate (base_username (gi_email identity)) i \<in> u_username ` set (users db)))"
  using new_google_user [OF assms] free_username_first [of "map u_username (users db)" "base_username (gi_email identity)"]
  by simp

theorem google_name_is_found_witness:
  "\<exists>u db'. login_or_register_with_google plain_env home_fresh
       \<lparr>gi_subject = ''g1'', gi_email = ''bob@g'', gi_email_verified = True, gi_name = ''Bob'', gi_picture = None\<rparr> home = Inr (u, db')
     \<and> u_username u = ''bob1''"
proof -
  let ?i = "\<lparr>gi_subject = ''g1'', gi_email = ''bob@g'', gi_email_verified = True, gi_name = ''Bob'', gi_picture = None\<rparr>"
  have n: "free_username [''alice'', ''bob''] ''bob'' 0 = ''bob1''"
    by (simp add: free_username.simps username_candidate_def nat_str.simps char_of_def bit_0)
  have b: "base_username ''bob@g'' = ''bob''" by (simp add: base_username_def Let_def text_take_ascii ascii_def)
  have o: "get_user_by_oauth Google (gi_subject ?i) home = None" by (simp add: get_user_by_oauth_def home_rows)
  have "\<exists>u db'. login_or_register_with_google plain_env home_fresh ?i home = Inr (u, db')"
    by (simp add: login_or_register_with_google_def get_user_by_oauth_def get_user_by_email_def Let_def flush_accounts_def
        accounts_fit_def user_fits_def unique_by_def oa_key_def n b home_rows)
  then obtain u db' where r: "login_or_register_with_google plain_env home_fresh ?i home = Inr (u, db')" by blast
  from google_name_is_found [OF r o] obtain j where j: "u_username u = username_candidate ''bob'' j"
      "username_candidate ''bob'' j \<notin> u_username ` set (users home)"
      "\<forall>i < j. username_candidate ''bob'' i \<in> u_username ` set (users home)"
    by (auto simp: b)
  have c: "username_candidate ''bob'' 0 = ''bob''" "username_candidate ''bob'' 1 = ''bob1''"
    by (simp_all add: username_candidate_def nat_str.simps char_of_def bit_0)
  have t: "u_username ` set (users home) = {''alice'', ''bob''}" by (simp add: home_rows)
  have "j \<noteq> 0" using j(2) by (metis c(1) t insertCI)
  moreover have "\<not> 1 < j" using j(3) c(2) t by fastforce
  ultimately have "j = 1" by simp
  with j(1) c(2) r show ?thesis by auto
qed

text \<open>C31 The name found for a new Google account fits the 50 characters of its column,
  whatever the e-mail address, as long as there are fewer than ten thousand million accounts.\<close>

theorem google_name_fits:
  assumes "length (users db) < 10 ^ 10 - 1"
  shows "text_length (free_username (map u_username (users db)) (base_username email) 0) \<le> 50"
  using free_username_fits [of "map u_username (users db)" email] assms by simp

theorem google_name_fits_witness:
  "text_length (free_username (map u_username (users home)) (base_username ''bob@g'') 0) \<le> 50"
  by (rule google_name_fits) (simp add: home_rows)

text \<open>C32 A mutating request with a CSRF cookie reaches its handler exactly when the
  header repeats the cookie and the cookie is the HMAC-SHA256 signed token of its nonce; a
  header with a character outside ASCII makes the check raise instead of refusing; and the token
  the server issues for its random bytes passes.\<close>

theorem csrf_check_exact:
  assumes "http_method \<in> set MUTATING_METHODS" "truthy cookie = Some c"
  shows "(csrf_protection_middleware cfg http_method cookie header = Inr CallNext \<longleftrightarrow>
       truthy header = Some c \<and> is_ascii c \<and> (\<exists>nonce. CHR ''.'' \<notin> set nonce \<and> c = generate_csrf_token cfg nonce))
    \<and> (truthy header = Some h \<and> \<not> (is_ascii c \<and> is_ascii h) \<longrightarrow>
         csrf_protection_middleware cfg http_method cookie header = Inl TypeError)
    \<and> (c = generate_csrf_token cfg (token_urlsafe random) \<and> truthy header = Some c \<longrightarrow>
         csrf_protection_middleware cfg http_method cookie header = Inr CallNext)"
  using csrf_lets_through [OF assms] csrf_raises [OF assms] issued_csrf_token [where r = random and cfg = cfg] by (auto simp: csrf_valid_iff)

theorem csrf_check_exact_witness:
  "\<exists>t. csrf_protection_middleware sample_settings ''POST'' (Some t) (Some t) = Inr CallNext"
proof -
  define t where "t = generate_csrf_token sample_settings (token_urlsafe ''n'')"
  have "truthy (Some t) = Some t" "''POST'' \<in> set MUTATING_METHODS"
    by (simp_all add: t_def generate_csrf_token_def truthy_def MUTATING_METHODS_def split: list.split)
  with csrf_check_exact [of "''POST''" "Some t" t sample_settings "Some t" t "''n''"] show ?thesis
    unfolding t_def by blast
qed

text \<open>C33 Over any interleaving of customers' and support's requests with the job that
  closes stale tickets, every ticket's conversation opens with its owner, only the owner writes
  as the customer, the last response is the time of the last message of a person, a closed
  ticket has a closing time, and the closing notes of the job are exactly matched by its audit
  rows.\<close>

theorem tickets_stay_consistent:
  assumes "tickets_inv db" "ticket_step\<^sup>*\<^sup>* db db'"
  shows "(\<forall>t \<in> set (tickets db'). conversation_ok t (messages_of (tk_id t) db'))
    \<and> (\<forall>m \<in> set (ticket_messages db'). tm_ticket_id m \<in> tk_id ` set (tickets db'))
    \<and> (\<forall>tid. closing_notes tid db' = closing_records tid db')"
  using inv_ticket_steps [OF assms(2,1)] unfolding tickets_inv_def tickets_ok_def by blast

theorem tickets_stay_consistent_witness:
  "conversation_ok answered (messages_of 60 desk_answered)"
proof -
  have "snd (admin_reply_to_ticket root_user desk_fresh 60 ''Try again'' desk) = desk_answered"
    by (simp add: admin_reply_to_ticket_def sample_support_permission reply_valid_def length_between_def validated_def
        committed_def sample_answer)
  with tk_answer [of desk root_user desk_fresh 60 "''Try again''"] have "ticket_step desk desk_answered" by simp
  from tickets_stay_consistent [OF sample_desk r_into_rtranclp [where r = ticket_step, OF this]]
  show ?thesis by (simp add: desk_rows)
qed

text \<open>C34 One undisturbed run of the job closes exactly the first hundred tickets that
  wait for the customer for more than a day, each with one note and one audit row, returns their
  number, and leaves every other ticket as it was.\<close>

theorem auto_close_run_effect:
  assumes "unique_by tk_id (tickets db)" "auto_close_stale_tickets now fr db = (n, db')"
  shows "n = min 100 (length (backlog now db))
    \<and> tickets db' = map (\<lambda>t. if tk_id t \<in> tk_id ` set (take 100 (backlog now db))
        then t\<lparr>tk_status := TkClosed, tk_closed_at := Some (tf_now (fr (tk_id t))),
               tk_updated_at := tf_db_now (fr (tk_id t))\<rparr> else t) (tickets db)
    \<and> map tm_ticket_id (ticket_messages db') = map tm_ticket_id (ticket_messages db) @ map tk_id (take 100 (backlog now db))
    \<and> map al_resource_id (audit_logs db') = map al_resource_id (audit_logs db) @ map (Some \<circ> tk_id) (take 100 (backlog now db))"
  using run_closes_batch(1-4) [OF assms]
  by (simp add: BATCH_SIZE_def closed_in_def [abs_def] closed_by_def closing_note_def closing_record_def comp_def)

theorem auto_close_run_effect_witness:
  "\<exists>db'. auto_close_stale_tickets (hours 48) (\<lambda>_. desk_fresh) desk_answered = (1, db')"
proof -
  obtain n db' where r: "auto_close_stale_tickets (hours 48) (\<lambda>_. desk_fresh) desk_answered = (n, db')" by fastforce
  have "unique_by tk_id (tickets desk_answered)" by (simp add: unique_by_def desk_rows)
  moreover have "backlog (hours 48) desk_answered = [answered]"
    by (simp add: backlog_def is_stale_def STALE_AFTER_def hours_def seconds_def desk_rows)
  ultimately have "n = 1" using auto_close_run_effect [OF _ r] by simp
  with r show ?thesis by blast
qed

text \<open>C35 However large the backlog of stale tickets, enough runs of the job empty it:
  every run of a hundred takes the first hundred away.\<close>

theorem auto_close_catches_up:
  assumes "unique_by tk_id (tickets db)" "length (backlog now db) \<le> k * 100"
  shows "backlog now (((\<lambda>d. snd (auto_close_stale_tickets now fr d)) ^^ k) db) = []"
  using runs_shrink_backlog [where now = now and fr = fr and k = k, OF assms(1)] assms(2) by (simp add: BATCH_SIZE_def)

theorem auto_close_catches_up_witness:
  "backlog (hours 48) (((\<lambda>d. snd (auto_close_stale_tickets (hours 48) (\<lambda>_. desk_fresh) d)) ^^ 1) desk_answered) = []"
  by (rule auto_close_catches_up)
     (simp_all add: unique_by_def backlog_def is_stale_def STALE_AFTER_def hours_def seconds_def desk_rows)

text \<open>C36 A ticket of somebody else is refused to a customer and shown to support, nobody
  but its owner can answer as the customer, and a closed ticket takes no answers from either
  side.\<close>

theorem tickets_are_private:
  assumes "get_ticket_by_id tid db = Some t"
  shows "(tk_user_id t \<noteq> u_id u \<longrightarrow>
       get_ticket u tid db = (if u_role u = Customer then Inl PermissionDeniedError else Inr (serialize_ticket t db))
       \<and> add_customer_reply k tid u body db = Inl PermissionDeniedError)
    \<and> (tk_status t = TkClosed \<longrightarrow>
       (\<exists>e. add_customer_reply k tid u body db = Inl e) \<and> add_support_reply k tid u body db = Inl ConflictError)"
  using outsider_refused [OF assms] closed_refuses_replies [OF assms] by blast

theorem tickets_are_private_witness:
  "get_ticket alice 60 desk = Inl PermissionDeniedError"
  using tickets_are_private [of 60 desk bobs_ticket alice] by (simp add: get_ticket_by_id_def desk_rows alice_def)

text \<open>C37 The figures of the administrator report agree: its status slices count every
  order of the range once, the slices of the completed statuses add up to its order count, and
  the revenue by category adds up to its total revenue as long as every sold line still has its
  product.\<close>

theorem report_accounts_for_sales:
  assumes "get_admin_report ctx now rng s e db = Inr rep" "totals_ok db"
    and "lines_known (\<lambda>r. between (ar_start_date rep) (ar_end_date rep) (o_created_at r) \<and> completed_order r) db"
  shows "sum_list (map snd (ar_orders_by_status rep)) =
      count_where (\<lambda>r. between (ar_start_date rep) (ar_end_date rep) (o_created_at r)) (orders db)
    \<and> sum_list (map snd (filter (\<lambda>(l, n). l \<in> {''paid'', ''processing'', ''shipped'', ''completed''})
        (ar_orders_by_status rep))) = ar_order_count rep
    \<and> sum_list (map (snd \<circ> snd) (ar_category_performance rep)) = ar_total_revenue rep"
proof -
  from assms(1) obtain st en where
    range: "ar_start_date rep = st" "ar_end_date rep = en"
    and f: "ar_orders_by_status rep = slices order_label (group_count o_status (filter (\<lambda>r. between st en (o_created_at r)) (orders db)))"
      "ar_order_count rep = count_where (\<lambda>r. between st en (o_created_at r) \<and> completed_order r) (orders db)"
      "ar_total_revenue rep = sum_where (\<lambda>r. between st en (o_created_at r) \<and> completed_order r) o_total (orders db)"
      "ar_category_performance rep = grouped (cat_name \<circ> fst)
         (\<lambda>rs. (int (length rs), sum_list (map (oi_subtotal \<circ> snd) rs)))
         (sold_lines (\<lambda>r. between st en (o_created_at r) \<and> completed_order r) db)"
    by (auto simp: get_admin_report_def bindE_eq_Inr Let_def)
  show ?thesis
    using completed_slices [of "filter (\<lambda>r. between st en (o_created_at r)) (orders db)"]
      category_revenue [OF assms(2,3)]
    by (simp add: f range slices_total group_count_total grouped_pairs count_where_def conj_commute)
qed

theorem report_accounts_for_sales_witness:
  "\<exists>rep. get_admin_report (\<lambda>x. x) 7 RangeCustom (Some 0) (Some 0) office = Inr rep
     \<and> sum_list (map (snd \<circ> snd) (ar_category_performance rep)) = 240"
proof -
  obtain rep where rep: "get_admin_report (\<lambda>x. x) 7 RangeCustom (Some 0) (Some 0) office = Inr rep" "ar_total_revenue rep = 240"
    using sample_report by blast
  from report_accounts_for_sales [OF rep(1) sample_totals sample_lines] rep show ?thesis by simp
qed

text \<open>C38 Migrating an empty database to the head runs through, and the schema it leaves
  is the one the ORM classes declare: the same tables with the same columns, types, defaults and
  constraints, the same indexes beside the trigram index, the same enumerated types, and no name
  or foreign key out of place.\<close>

theorem migrations_build_the_models:
  "\<exists>db. do_run_migrations checked Upgrade_Head empty_database = Inr db \<and> schema_ok db
     \<and> declares metadata db \<and> alembic_version db = Some ''90ef683bfd81''"
  using head_database [of checked] by blast

text \<open>C39 From any consistent schema at any revision: after an upgrade to the head, as
  many downgrades as there were upgrades bring back the tables, the indexes and the revision;
  the enumerated types and the extension stay.\<close>

theorem migrations_are_undone:
  assumes "schema_ok db" "do_run_migrations checked Upgrade_Head db = Inr db'"
  shows "do_run_migrations checked' (Downgrade (length (upgrade_path (length versions) versions (alembic_version db)))) db'
    = Inr (db'\<lparr> sc_tables := sc_tables db, sc_indexes := sc_indexes db, alembic_version := alembic_version db,
              run_types := [] \<rparr>)"
  by (rule downgrade_after_upgrade [OF assms])

theorem migrations_are_undone_witness:
  "\<exists>db. do_run_migrations False Upgrade_Head empty_database = Inr db
     \<and> do_run_migrations False (Downgrade 5) db
         = Inr (db\<lparr> sc_tables := [], sc_indexes := [], alembic_version := None, run_types := [] \<rparr>)"
proof -
  obtain db where db: "do_run_migrations False Upgrade_Head empty_database = Inr db"
    using head_database [of False] by blast
  have "length (upgrade_path (length versions) versions (alembic_version empty_database)) = 5"
    by (simp add: empty_database_def upgrade_path_chain chain_def)
  with migrations_are_undone [OF empty_database_ok(1) db, of False] db show ?thesis by (simp add: empty_database_def)
qed

text \<open>C40 A run of the seed script that went through, on a database where no product
  answers to two of its entries, can be repeated at any later time: the second run, with other
  fresh identifiers and another clock, goes through, reports the same counts and changes
  nothing.\<close>

theorem seed_again_changes_nothing:
  assumes "seed_main env num environ f db = (Inr counts, db')" "seedable f db"
  shows "seed_main env num environ f' db' = (Inr counts, db')"
  by (rule seed_main_again [OF assms])

theorem seed_again_changes_nothing_witness:
  "\<exists>counts db'. seed_main plain_env round_half_away demo_environ demo_fresh demo_shop = (Inr counts, db')
     \<and> length (wallet_transactions db') = 2 \<and> length (ticket_messages db') = 4
     \<and> seed_main plain_env round_half_away demo_environ (demo_fresh\<lparr>sf_now := 99\<rparr>) db' = (Inr counts, db')"
proof -
  obtain s db' where r: "seed_main plain_env round_half_away demo_environ demo_fresh demo_shop = (Inr s, db')"
      "length (wallet_transactions db') = 2" "length (ticket_messages db') = 4"
    using demo_run by blast
  from seed_again_changes_nothing [OF r(1) demo_seedable] r show ?thesis by blast
qed

end
